(* ===== verification/Paths.thy ===== *)
theory Paths
  imports Strings
begin

text \<open>
  Identifier and path contracts of \<open>ironclaw_host_api\<close> (\<open>ids.rs\<close>, \<open>path.rs\<close>,
  \<open>mount.rs\<close>, \<open>error.rs\<close>): the validators behind every scope id and name segment, the
  lexical normalization shared by virtual paths, scoped paths and mount aliases, and the mount
  view that maps a scoped path to a virtual one. The lemmas show that normalization is
  idempotent and yields only clean segments, that a virtual path lies below a known root, and
  that resolution through a mount view never leaves the target of the longest matching alias.
\<close>

section \<open>Errors\<close>

datatype HostApiError =
    InvalidId (error_kind: string) (error_value: string) (error_reason: string)
  | InvalidPath (error_value: string) (error_reason: string)
  | InvalidCapability (error_value: string) (error_reason: string)
  | InvalidMount (error_value: string) (error_reason: string)
  | InvalidNetworkTarget (error_value: string) (error_reason: string)
  | InvalidRuntimeCredentialTarget (error_value: string) (error_reason: string)
  | InvariantViolation (error_reason: string)

section \<open>Identifiers\<close>

definition RESERVED_SENTINEL_PREFIX :: string where
  "RESERVED_SENTINEL_PREFIX = ''__ironclaw_''"

definition validate_scope_id :: "string \<Rightarrow> string \<Rightarrow> (HostApiError, unit) result" where
  "validate_scope_id kind value =
     (if value = [] then Err (InvalidId kind value ''must not be empty'')
      else if 256 < length value then Err (InvalidId kind value ''must be at most 256 bytes'')
      else if value = ''.'' \<or> value = ''..'' then
        Err (InvalidId kind value ''dot segments are not allowed'')
      else if CHR ''/'' \<in> set value \<or> CHR 0x5C \<in> set value then
        Err (InvalidId kind value ''path separators are not allowed'')
      else if has_control value then
        Err (InvalidId kind value ''NUL/control characters are not allowed'')
      else if prefix RESERVED_SENTINEL_PREFIX value then
        Err (InvalidId kind value ''the `__ironclaw_` prefix is reserved for host sentinel identities'')
      else Ok ())"

definition is_ascii_lowercase :: "char \<Rightarrow> bool" where
  "is_ascii_lowercase c = (97 \<le> (of_char c :: nat) \<and> (of_char c :: nat) \<le> 122)"

definition is_ascii_uppercase :: "char \<Rightarrow> bool" where
  "is_ascii_uppercase c = (65 \<le> (of_char c :: nat) \<and> (of_char c :: nat) \<le> 90)"

definition is_ascii_digit :: "char \<Rightarrow> bool" where
  "is_ascii_digit c = (48 \<le> (of_char c :: nat) \<and> (of_char c :: nat) \<le> 57)"

definition is_ascii_alphanumeric :: "char \<Rightarrow> bool" where
  "is_ascii_alphanumeric c = (is_ascii_lowercase c \<or> is_ascii_uppercase c \<or> is_ascii_digit c)"

definition is_name_char :: "char \<Rightarrow> bool" where
  "is_name_char b = (is_ascii_lowercase b \<or> is_ascii_digit b \<or> b = CHR ''_'' \<or> b = CHR ''-'')"

definition validate_name_segment :: "string \<Rightarrow> string \<Rightarrow> (HostApiError, unit) result" where
  "validate_name_segment kind value =
     (if value = [] then Err (InvalidId kind value ''must not be empty'')
      else if 128 < length value then Err (InvalidId kind value ''must be at most 128 bytes'')
      else if \<not> (is_ascii_lowercase (hd value) \<or> is_ascii_digit (hd value)) then
        Err (InvalidId kind value ''must start with lowercase ASCII letter or digit'')
      else if value = ''.'' \<or> value = ''..'' \<or> contains_str ''..'' value then
        Err (InvalidId kind value ''dot-dot segments are not allowed'')
      else if list_ex (\<lambda>b. \<not> (is_name_char b \<or> b = CHR ''.'')) value then
        Err (InvalidId kind value ''only lowercase ASCII letters, digits, '_', '-', and '.' are allowed'')
      else if list_ex (\<lambda>p. p = []) (split_on (CHR ''.'') value) then
        Err (InvalidId kind value ''empty dot segments are not allowed'')
      else Ok ())"

fun validate_segments :: "string \<Rightarrow> string list \<Rightarrow> (HostApiError, unit) result" where
  "validate_segments kind [] = Ok ()"
| "validate_segments kind (s # ss) =
     result_bind (validate_name_segment kind s) (\<lambda>_. validate_segments kind ss)"

definition CapabilityId_new :: "string \<Rightarrow> (HostApiError, string) result" where
  "CapabilityId_new value =
     (if value = [] \<or> CHR ''.'' \<notin> set value then
        Err (InvalidId ''capability'' value (''must be '<extension>.<capability>[.<sub>...]'' @ [CHR 0x27]))
      else if length (split_on (CHR ''.'') value) < 2 \<or>
              list_ex (\<lambda>p. p = []) (split_on (CHR ''.'') value) then
        Err (InvalidId ''capability'' value ''empty dot segments are not allowed'')
      else result_bind (validate_segments ''capability'' (split_on (CHR ''.'') value))
             (\<lambda>_. Ok value))"

definition validate_provider_tool_name :: "string \<Rightarrow> (HostApiError, unit) result" where
  "validate_provider_tool_name value =
     (if value = [] then Err (InvalidId ''provider_tool_name'' value ''must not be empty'')
      else if 64 < length value then
        Err (InvalidId ''provider_tool_name'' value ''must be at most 64 bytes'')
      else if \<not> list_all (\<lambda>c. is_ascii_alphanumeric c \<or> c = CHR ''_'' \<or> c = CHR ''-'') value then
        Err (InvalidId ''provider_tool_name'' value
               ''only ASCII letters, digits, '_', and '-' are allowed'')
      else Ok ())"

section \<open>Paths\<close>

type_synonym VirtualPath = string
type_synonym ScopedPath = string
type_synonym MountAlias = string

definition VIRTUAL_ROOTS :: "string list" where
  "VIRTUAL_ROOTS =
     [''/engine'', ''/system/settings'', ''/system/extensions'', ''/system/skills'', ''/users'',
      ''/projects'', ''/memory'', ''/artifacts'', ''/tmp'', ''/secrets'', ''/events'',
      ''/processes'', ''/authorization'', ''/outbound'', ''/run-state'', ''/approvals'',
      ''/threads'', ''/conversations'', ''/turns'', ''/checkpoint-state'', ''/resources'',
      ''/tenant-shared'', ''/tenants'']"

definition RAW_HOST_PREFIXES :: "string list" where
  "RAW_HOST_PREFIXES =
     [''/Users/'', ''/home/'', ''/root/'', ''/etc/'', ''/var/'', ''/private/'', ''/Volumes/'',
      ''/Library/'', ''/usr/'', ''/opt/'', ''/tmp/'', ''/proc/'', ''/sys/'']"

definition REDACTED_PATH_VALUE :: string where
  "REDACTED_PATH_VALUE = ''<redacted path>''"

datatype PathKind = Virtual | Scoped | MountAliasKind

definition invalid_path_error_value :: "string \<Rightarrow> PathKind \<Rightarrow> string" where
  "invalid_path_error_value raw kind =
     (case kind of Scoped \<Rightarrow> REDACTED_PATH_VALUE | Virtual \<Rightarrow> raw | MountAliasKind \<Rightarrow> raw)"

text \<open>The loop over \<open>raw.split('/')\<close>; \<open>None\<close> is the early return on a \<open>..\<close> segment.\<close>

fun normalize_parts :: "string list \<Rightarrow> string list option" where
  "normalize_parts [] = Some []"
| "normalize_parts (p # ps) =
     (if p = '''' \<or> p = ''.'' then normalize_parts ps
      else if p = ''..'' then None
      else map_option (\<lambda>qs. p # qs) (normalize_parts ps))"

definition normalize_absolute_path :: "string \<Rightarrow> PathKind \<Rightarrow> (HostApiError, string) result" where
  "normalize_absolute_path raw kind =
     (let invalid_value = invalid_path_error_value raw kind in
      if raw = [] then Err (InvalidPath invalid_value ''path must not be empty'')
      else if CHR 0x00 \<in> set raw \<or> has_control raw then
        Err (InvalidPath invalid_value ''NUL/control characters are not allowed'')
      else if CHR 0x5C \<in> set raw then
        Err (InvalidPath invalid_value ''backslashes are not allowed'')
      else if \<not> prefix ''/'' raw then
        Err (InvalidPath invalid_value ''path must be absolute'')
      else case normalize_parts (split_on (CHR ''/'') raw) of
        None \<Rightarrow> Err (InvalidPath invalid_value ''`..` segments are not allowed'')
      | Some parts \<Rightarrow>
          if parts = [] then Err (InvalidPath invalid_value ''root path is not valid here'')
          else
            let normalized = ''/'' @ join_with ''/'' parts in
            if kind = MountAliasKind \<and> suffix ''/'' normalized then
              Err (InvalidPath normalized ''mount alias must not end with slash'')
            else Ok normalized)"

definition looks_like_url :: "string \<Rightarrow> bool" where
  "looks_like_url value = contains_str ''://'' value"

definition looks_like_windows_path :: "string \<Rightarrow> bool" where
  "looks_like_windows_path value =
     (3 \<le> length value \<and> value ! 1 = CHR '':'' \<and> (value ! 2 = CHR 0x5C \<or> value ! 2 = CHR ''/''))"

definition path_matches_alias :: "string \<Rightarrow> string \<Rightarrow> bool" where
  "path_matches_alias alias path = (path = alias \<or> prefix (alias @ ''/'') path)"

definition VirtualPath_new :: "string \<Rightarrow> (HostApiError, VirtualPath) result" where
  "VirtualPath_new value =
     result_bind (normalize_absolute_path value Virtual) (\<lambda>normalized.
       if \<not> list_ex (\<lambda>root. normalized = root \<or> prefix (root @ ''/'') normalized) VIRTUAL_ROOTS then
         Err (InvalidPath normalized ''virtual path must begin with a known root'')
       else Ok normalized)"

definition join_tail :: "VirtualPath \<Rightarrow> string \<Rightarrow> (HostApiError, VirtualPath) result" where
  "join_tail self tail =
     (if tail = [] then Ok self
      else VirtualPath_new (trim_end_matches (CHR ''/'') self @ ''/'' @ tail))"

definition ScopedPath_new_with_allowed_raw_host_aliases ::
  "string \<Rightarrow> string list \<Rightarrow> (HostApiError, ScopedPath) result" where
  "ScopedPath_new_with_allowed_raw_host_aliases raw raw_host_aliases =
     (if looks_like_url raw then
        Err (InvalidPath REDACTED_PATH_VALUE ''URLs are not scoped paths'')
      else if looks_like_windows_path raw then
        Err (InvalidPath REDACTED_PATH_VALUE ''Windows host paths are not scoped paths'')
      else if list_ex (\<lambda>p. prefix p raw) RAW_HOST_PREFIXES
              \<and> \<not> list_ex (\<lambda>alias. path_matches_alias alias raw) raw_host_aliases then
        Err (InvalidPath REDACTED_PATH_VALUE ''raw host paths are not scoped paths'')
      else normalize_absolute_path raw Scoped)"

definition ScopedPath_new :: "string \<Rightarrow> (HostApiError, ScopedPath) result" where
  "ScopedPath_new value = ScopedPath_new_with_allowed_raw_host_aliases value []"

definition MountAlias_new :: "string \<Rightarrow> (HostApiError, MountAlias) result" where
  "MountAlias_new value = normalize_absolute_path value MountAliasKind"

section \<open>Mount views\<close>

record MountPermissions =
  perm_read :: bool
  perm_write :: bool
  perm_delete :: bool
  perm_list :: bool
  perm_execute :: bool

definition MountPermissions_none :: MountPermissions where
  "MountPermissions_none = \<lparr>perm_read = False, perm_write = False, perm_delete = False,
     perm_list = False, perm_execute = False\<rparr>"

definition MountPermissions_read_only :: MountPermissions where
  "MountPermissions_read_only = \<lparr>perm_read = True, perm_write = False, perm_delete = False,
     perm_list = True, perm_execute = False\<rparr>"

definition MountPermissions_read_write :: MountPermissions where
  "MountPermissions_read_write = \<lparr>perm_read = True, perm_write = True, perm_delete = False,
     perm_list = True, perm_execute = False\<rparr>"

definition MountPermissions_read_write_list_delete :: MountPermissions where
  "MountPermissions_read_write_list_delete = \<lparr>perm_read = True, perm_write = True,
     perm_delete = True, perm_list = True, perm_execute = False\<rparr>"

definition permissions_is_subset_of :: "MountPermissions \<Rightarrow> MountPermissions \<Rightarrow> bool" where
  "permissions_is_subset_of self parent =
     ((\<not> perm_read self \<or> perm_read parent)
      \<and> (\<not> perm_write self \<or> perm_write parent)
      \<and> (\<not> perm_delete self \<or> perm_delete parent)
      \<and> (\<not> perm_list self \<or> perm_list parent)
      \<and> (\<not> perm_execute self \<or> perm_execute parent))"

record MountGrant =
  mg_alias :: MountAlias
  mg_target :: VirtualPath
  mg_permissions :: MountPermissions

record MountView =
  mounts :: "MountGrant list"

fun validate_mounts :: "string list \<Rightarrow> MountGrant list \<Rightarrow> (HostApiError, unit) result" where
  "validate_mounts seen [] = Ok ()"
| "validate_mounts seen (m # ms) =
     (if mg_alias m \<in> set seen then Err (InvalidMount (mg_alias m) ''duplicate mount alias'')
      else validate_mounts (mg_alias m # seen) ms)"

definition MountView_validate :: "MountView \<Rightarrow> (HostApiError, unit) result" where
  "MountView_validate view = validate_mounts [] (mounts view)"

definition MountView_new :: "MountGrant list \<Rightarrow> (HostApiError, MountView) result" where
  "MountView_new ms =
     (let view = \<lparr>mounts = ms\<rparr> in result_bind (MountView_validate view) (\<lambda>_. Ok view))"

text \<open>\<open>Iterator::max_by_key\<close>: the last of the elements with the greatest key.\<close>

fun max_by_key :: "('a \<Rightarrow> nat) \<Rightarrow> 'a list \<Rightarrow> 'a option" where
  "max_by_key f [] = None"
| "max_by_key f (x # xs) =
     (case max_by_key f xs of None \<Rightarrow> Some x
      | Some y \<Rightarrow> if f x \<le> f y then Some y else Some x)"

definition resolve_with_grant ::
  "MountView \<Rightarrow> ScopedPath \<Rightarrow> (HostApiError, VirtualPath \<times> MountGrant) result" where
  "resolve_with_grant view raw =
     (case max_by_key (\<lambda>m. length (mg_alias m))
        (filter (\<lambda>m. path_matches_alias (mg_alias m) raw) (mounts view)) of
        None \<Rightarrow> Err (InvalidMount raw ''no mount alias matches scoped path'')
      | Some mount \<Rightarrow>
          let tail = trim_start_matches (CHR ''/'') (unwrap_or [] (strip_prefix (mg_alias mount) raw))
          in result_bind (join_tail (mg_target mount) tail) (\<lambda>v. Ok (v, mount)))"

definition resolve :: "MountView \<Rightarrow> ScopedPath \<Rightarrow> (HostApiError, VirtualPath) result" where
  "resolve view path = result_bind (resolve_with_grant view path) (\<lambda>(v, _). Ok v)"

definition MountView_scoped_path :: "MountView \<Rightarrow> string \<Rightarrow> (HostApiError, ScopedPath) result" where
  "MountView_scoped_path view value =
     ScopedPath_new_with_allowed_raw_host_aliases value (map mg_alias (mounts view))"

definition MountView_is_subset_of :: "MountView \<Rightarrow> MountView \<Rightarrow> bool" where
  "MountView_is_subset_of self parent =
     list_all (\<lambda>child. list_ex (\<lambda>parent_mount.
         mg_alias child = mg_alias parent_mount
         \<and> mg_target child = mg_target parent_mount
         \<and> permissions_is_subset_of (mg_permissions child) (mg_permissions parent_mount))
       (mounts parent)) (mounts self)"

section \<open>Normal paths\<close>

text \<open>
  What normalization establishes: a non-empty list of segments, none of them empty, \<open>.\<close> or
  \<open>..\<close>, free of separators, backslashes and control characters.
\<close>

definition clean_segment :: "string \<Rightarrow> bool" where
  "clean_segment p = (p \<noteq> [] \<and> p \<noteq> ''.'' \<and> p \<noteq> ''..'' \<and> CHR ''/'' \<notin> set p
     \<and> CHR 0x5C \<notin> set p \<and> CHR 0x00 \<notin> set p \<and> \<not> has_control p)"

definition path_of :: "string list \<Rightarrow> string" where
  "path_of ps = ''/'' @ join_with ''/'' ps"

definition normal_path :: "string \<Rightarrow> bool" where
  "normal_path p = (\<exists>ps. ps \<noteq> [] \<and> list_all clean_segment ps \<and> p = path_of ps)"

lemma normalize_parts_Some:
  "normalize_parts ps = Some qs \<Longrightarrow>
     set qs \<subseteq> set ps \<and> (\<forall>q \<in> set qs. q \<noteq> [] \<and> q \<noteq> ''.'' \<and> q \<noteq> ''..'')"
  by (induction ps arbitrary: qs) (auto split: if_splits)

lemma normalize_parts_clean: "list_all clean_segment ps \<Longrightarrow> normalize_parts ps = Some ps"
  by (induction ps) (auto simp: clean_segment_def)

lemma split_on_path_of:
  assumes "ps \<noteq> []" and "list_all clean_segment ps"
  shows "split_on (CHR ''/'') (path_of ps) = [] # ps"
  using assms split_on_join [of ps "CHR ''/''"]
  by (auto simp: path_of_def clean_segment_def list_all_iff)

lemma path_of_not_ends_slash:
  assumes "ps \<noteq> []" and "list_all clean_segment ps"
  shows "\<not> suffix ''/'' (path_of ps)"
proof
  assume "suffix ''/'' (path_of ps)"
  then obtain xs where "path_of ps = xs @ ''/''"
    by (auto simp: suffix_def)
  then have "[] # ps = split_on (CHR ''/'') xs @ [[]]"
    using split_on_path_of [OF assms] by (simp add: split_on_append)
  then have "[] \<in> set ps"
    using assms(1) by (cases "split_on (CHR ''/'') xs") (auto simp: Cons_eq_append_conv)
  with assms(2) show False
    by (auto simp: list_all_iff clean_segment_def)
qed

lemma normalize_normal:
  assumes "normal_path p"
  shows "normalize_absolute_path p kind = Ok p"
proof -
  from assms obtain ps where ps: "ps \<noteq> []" "list_all clean_segment ps" "p = path_of ps"
    by (auto simp: normal_path_def)
  have ctl: "\<not> has_control p"
    using ps has_control_join [of ps] has_control_slash_iff [of "[]" "join_with ''/'' ps"]
    by (auto simp: path_of_def list_all_iff clean_segment_def)
  have "set p \<subseteq> {CHR ''/''} \<union> (\<Union>q \<in> set ps. set q)"
    using set_join_with [of "''/''" ps] by (auto simp: ps(3) path_of_def)
  with ps(2) have chars: "CHR 0x00 \<notin> set p" "CHR 0x5C \<notin> set p"
    by (auto simp: list_all_iff clean_segment_def)
  have "normalize_parts (split_on (CHR ''/'') p) = Some ps"
    using ps normalize_parts_clean by (simp add: split_on_path_of)
  moreover have "p \<noteq> []" "prefix ''/'' p"
    by (simp_all add: ps(3) path_of_def)
  ultimately show ?thesis
    using ps ctl chars path_of_not_ends_slash [OF ps(1,2)]
    by (simp add: normalize_absolute_path_def Let_def path_of_def)
qed

lemma normalize_absolute_path_normal:
  assumes "normalize_absolute_path raw kind = Ok p"
  shows "normal_path p"
proof -
  from assms have raw: "\<not> has_control raw" "CHR 0x00 \<notin> set raw" "CHR 0x5C \<notin> set raw"
    by (auto simp: normalize_absolute_path_def Let_def split: if_splits)
  from assms obtain parts where
    parts: "normalize_parts (split_on (CHR ''/'') raw) = Some parts" "parts \<noteq> []"
      "p = path_of parts"
    by (auto simp: normalize_absolute_path_def Let_def path_of_def split: if_splits option.splits)
  have "clean_segment q" if "q \<in> set parts" for q
  proof -
    from normalize_parts_Some [OF parts(1)] that
    have q: "q \<in> set (split_on (CHR ''/'') raw)" "q \<noteq> []" "q \<noteq> ''.''" "q \<noteq> ''..''"
      by auto
    with raw split_on_parts [OF q(1)] split_on_subset [OF q(1)] has_control_split_on [OF raw(1) q(1)]
    show ?thesis by (auto simp: clean_segment_def)
  qed
  with parts show ?thesis
    by (auto simp: normal_path_def list_all_iff)
qed

lemma normal_path_append:
  assumes "normal_path a" and "normal_path (a @ ''/'' @ t)"
  obtains ts where "ts \<noteq> []" "list_all clean_segment ts" "t = join_with ''/'' ts"
proof -
  from assms(1) obtain as where as: "as \<noteq> []" "list_all clean_segment as" "a = path_of as"
    by (auto simp: normal_path_def)
  from assms(2) obtain ps where
    ps: "ps \<noteq> []" "list_all clean_segment ps" "a @ ''/'' @ t = path_of ps"
    by (auto simp: normal_path_def)
  from ps(3) have "split_on (CHR ''/'') (a @ CHR ''/'' # t) = split_on (CHR ''/'') (path_of ps)"
    by simp
  then have "ps = as @ split_on (CHR ''/'') t"
    using as ps by (simp add: split_on_append split_on_path_of)
  with ps(2) have "list_all clean_segment (split_on (CHR ''/'') t)"
    by simp
  moreover have "t = join_with ''/'' (split_on (CHR ''/'') t)"
    by (simp add: join_split_on)
  ultimately show ?thesis
    using that split_on_not_Nil by blast
qed

lemma normal_path_join:
  assumes "normal_path a" and "ts \<noteq> []" and "list_all clean_segment ts"
  shows "normal_path (a @ ''/'' @ join_with ''/'' ts)"
proof -
  from assms(1) obtain as where as: "as \<noteq> []" "list_all clean_segment as" "a = path_of as"
    by (auto simp: normal_path_def)
  have "a @ ''/'' @ join_with ''/'' ts = path_of (as @ ts)"
    using as assms(2) by (simp add: path_of_def join_with_append)
  with as assms(2,3) show ?thesis
    unfolding normal_path_def by (intro exI [of _ "as @ ts"]) auto
qed

section \<open>Resolution stays inside the mount\<close>

text \<open>A mount grant as its constructors build it: a normal alias and a valid virtual target.\<close>

definition wf_mount :: "MountGrant \<Rightarrow> bool" where
  "wf_mount m = (normal_path (mg_alias m) \<and> VirtualPath_new (mg_target m) = Ok (mg_target m))"

definition wf_view :: "MountView \<Rightarrow> bool" where
  "wf_view view = (list_all wf_mount (mounts view) \<and> MountView_validate view = Ok ())"

lemma VirtualPath_new_Ok:
  "VirtualPath_new raw = Ok v \<Longrightarrow>
     normal_path v \<and> (\<exists>root \<in> set VIRTUAL_ROOTS. path_matches_alias root v)"
  by (auto simp: VirtualPath_new_def path_matches_alias_def list_ex_iff result_simps
      split: if_splits dest: normalize_absolute_path_normal)

lemma VirtualPath_new_normal:
  "normal_path v \<Longrightarrow> root \<in> set VIRTUAL_ROOTS \<Longrightarrow> path_matches_alias root v \<Longrightarrow>
     VirtualPath_new v = Ok v"
  by (auto simp: VirtualPath_new_def normalize_normal path_matches_alias_def list_ex_iff)

lemma path_matches_alias_append:
  "path_matches_alias root v \<Longrightarrow> path_matches_alias root (v @ ''/'' @ t)"
  by (auto simp: path_matches_alias_def prefix_def)

lemma join_tail_clean:
  assumes "VirtualPath_new target = Ok target" and "ts \<noteq> []" and "list_all clean_segment ts"
  shows "join_tail target (join_with ''/'' ts) = Ok (target @ ''/'' @ join_with ''/'' ts)"
proof -
  obtain root where t: "normal_path target" "root \<in> set VIRTUAL_ROOTS" "path_matches_alias root target"
    using VirtualPath_new_Ok [OF assms(1)] by blast
  then have "\<not> suffix ''/'' target"
    using path_of_not_ends_slash by (auto simp: normal_path_def)
  then have trim: "trim_end_matches (CHR ''/'') target = target"
    by (rule trim_end_matches_id)
  have "join_with ''/'' ts \<noteq> []"
    using assms(2,3) by (cases ts rule: remdups_adj.cases) (auto simp: clean_segment_def)
  moreover have "VirtualPath_new (target @ ''/'' @ join_with ''/'' ts)
      = Ok (target @ ''/'' @ join_with ''/'' ts)"
    by (rule VirtualPath_new_normal [OF normal_path_join [OF t(1) assms(2,3)] t(2)
        path_matches_alias_append [OF t(3)]])
  ultimately show ?thesis
    by (simp add: join_tail_def trim)
qed

lemma max_by_key_None [simp]: "max_by_key f xs = None \<longleftrightarrow> xs = []"
  by (cases xs) (auto split: option.splits)

lemma max_by_key_Some:
  "max_by_key f xs = Some m \<Longrightarrow> m \<in> set xs \<and> (\<forall>x \<in> set xs. f x \<le> f m)"
  by (induction xs arbitrary: m) (force split: option.splits if_splits)+

lemma clean_no_leading_slash:
  assumes "ts \<noteq> []" and "list_all clean_segment ts"
  shows "trim_start_matches (CHR ''/'') (CHR ''/'' # join_with ''/'' ts) = join_with ''/'' ts"
proof -
  obtain c cs us where "ts = (c # cs) # us" "c \<noteq> CHR ''/''"
    using assms by (cases ts) (auto simp: clean_segment_def neq_Nil_conv)
  then have "\<exists>r. join_with ''/'' ts = c # r"
    by (cases us) auto
  with \<open>c \<noteq> CHR ''/''\<close> show ?thesis
    by (auto simp: trim_start_matches_def)
qed

text \<open>The target of a well-formed mount extended by what follows the alias in the path.\<close>

lemma resolve_through_mount:
  assumes "wf_mount m" and "normal_path path" and "path_matches_alias (mg_alias m) path"
  obtains rest where "path = mg_alias m @ rest"
    and "join_tail (mg_target m)
      (trim_start_matches (CHR ''/'') (unwrap_or [] (strip_prefix (mg_alias m) path)))
      = Ok (mg_target m @ rest)"
    and "rest = [] \<or> (\<exists>ts. ts \<noteq> [] \<and> list_all clean_segment ts \<and> rest = path_of ts)"
proof (cases "path = mg_alias m")
  case True
  show ?thesis
  proof (rule that [of "[]"])
    show "path = mg_alias m @ []" using True by simp
    show "join_tail (mg_target m)
        (trim_start_matches (CHR ''/'') (unwrap_or [] (strip_prefix (mg_alias m) path)))
        = Ok (mg_target m @ [])"
      using True by (simp add: strip_prefix_def trim_start_matches_def join_tail_def)
  qed simp
next
  case False
  with assms(3) obtain t where t: "path = mg_alias m @ ''/'' @ t"
    by (auto simp: path_matches_alias_def prefix_def)
  with assms(1,2) obtain ts where
    ts: "ts \<noteq> []" "list_all clean_segment ts" "t = join_with ''/'' ts"
    using normal_path_append by (auto simp: wf_mount_def)
  have "VirtualPath_new (mg_target m) = Ok (mg_target m)"
    using assms(1) by (simp add: wf_mount_def)
  note join = join_tail_clean [OF this ts(1,2)]
  show ?thesis
  proof (rule that [of "path_of ts"])
    show "path = mg_alias m @ path_of ts"
      by (simp add: t ts(3) path_of_def)
    show "join_tail (mg_target m)
        (trim_start_matches (CHR ''/'') (unwrap_or [] (strip_prefix (mg_alias m) path)))
        = Ok (mg_target m @ path_of ts)"
      using join by (simp add: t ts(3) clean_no_leading_slash [OF ts(1,2)] path_of_def)
  qed (use ts in blast)
qed

lemma resolve_with_grant_cases:
  assumes "wf_view view" and "normal_path path"
  shows "case max_by_key (\<lambda>m. length (mg_alias m))
            (filter (\<lambda>m. path_matches_alias (mg_alias m) path) (mounts view)) of
      None \<Rightarrow> resolve_with_grant view path = Err (InvalidMount path ''no mount alias matches scoped path'')
    | Some m \<Rightarrow> \<exists>rest. path = mg_alias m @ rest
        \<and> resolve_with_grant view path = Ok (mg_target m @ rest, m)
        \<and> VirtualPath_new (mg_target m @ rest) = Ok (mg_target m @ rest)"
proof (cases "max_by_key (\<lambda>m. length (mg_alias m))
            (filter (\<lambda>m. path_matches_alias (mg_alias m) path) (mounts view))")
  case None
  then show ?thesis by (simp add: resolve_with_grant_def)
next
  case (Some m)
  from max_by_key_Some [OF Some] have m: "m \<in> set (mounts view)" "path_matches_alias (mg_alias m) path"
    by auto
  with assms(1) have wf: "wf_mount m"
    by (auto simp: wf_view_def list_all_iff)
  then obtain root where root: "normal_path (mg_target m)" "root \<in> set VIRTUAL_ROOTS"
      "path_matches_alias root (mg_target m)"
    using VirtualPath_new_Ok by (auto simp: wf_mount_def)
  obtain rest where rest: "path = mg_alias m @ rest"
    "join_tail (mg_target m)
      (trim_start_matches (CHR ''/'') (unwrap_or [] (strip_prefix (mg_alias m) path)))
      = Ok (mg_target m @ rest)"
    "rest = [] \<or> (\<exists>ts. ts \<noteq> [] \<and> list_all clean_segment ts \<and> rest = path_of ts)"
    using resolve_through_mount [OF wf assms(2) m(2)] .
  have "VirtualPath_new (mg_target m @ rest) = Ok (mg_target m @ rest)"
    using rest(3) wf root normal_path_join path_matches_alias_append
    by (auto simp: wf_mount_def path_of_def intro!: VirtualPath_new_normal [OF _ root(2)])
  with Some rest(1,2) show ?thesis
    by (simp add: resolve_with_grant_def)
qed

lemma validate_mounts_distinct:
  "validate_mounts seen ms = Ok () \<Longrightarrow>
     distinct (map mg_alias ms) \<and> set seen \<inter> mg_alias ` set ms = {}"
  by (induction seen ms rule: validate_mounts.induct) (auto split: if_splits)

section \<open>Properties\<close>

text \<open>
  C36: lexical normalization is a retraction onto clean paths. Whatever raw string is accepted,
  the result is absolute, its segments are non-empty and never \<open>.\<close> or \<open>..\<close>, hold no
  separator, backslash or control character, and normalizing the result again, as any kind of
  path, returns it unchanged.
\<close>

theorem normalize_absolute_path_idempotent:
  assumes "normalize_absolute_path raw kind = Ok p"
  shows "normalize_absolute_path p kind' = Ok p
    \<and> (\<exists>ps. ps \<noteq> [] \<and> list_all clean_segment ps \<and> p = path_of ps)"
  using normalize_absolute_path_normal [OF assms] normalize_normal
  by (auto simp: normal_path_def)

theorem normalize_absolute_path_idempotent_witness:
  "normalize_absolute_path ''//workspace/./a//b/'' Scoped = Ok ''/workspace/a/b''
    \<and> normalize_absolute_path ''/workspace/a/b'' MountAliasKind = Ok ''/workspace/a/b''"
proof -
  have "normalize_absolute_path ''//workspace/./a//b/'' Scoped = Ok ''/workspace/a/b''"
    by code_simp
  with normalize_absolute_path_idempotent [OF this, of MountAliasKind] show ?thesis
    by blast
qed

text \<open>
  C11: mount resolution is total on covered paths and contained. For a mount view built by its
  constructors and a normalized scoped path, resolution fails exactly when no alias covers the
  path. Otherwise it picks a covering mount with the longest alias and returns that mount's
  target extended by precisely the part of the path behind the alias, which is again a valid
  virtual path; no path can climb out of its mount.
\<close>

theorem resolve_contained:
  assumes "wf_view view" and "normal_path path"
  shows "(\<nexists>m. m \<in> set (mounts view) \<and> path_matches_alias (mg_alias m) path)
      \<and> (\<exists>e. resolve_with_grant view path = Err e)
    \<or> (\<exists>m rest. m \<in> set (mounts view) \<and> path = mg_alias m @ rest
        \<and> (\<forall>m' \<in> set (mounts view). path_matches_alias (mg_alias m') path \<longrightarrow>
              length (mg_alias m') \<le> length (mg_alias m))
        \<and> resolve_with_grant view path = Ok (mg_target m @ rest, m)
        \<and> path_matches_alias (mg_target m) (mg_target m @ rest)
        \<and> VirtualPath_new (mg_target m @ rest) = Ok (mg_target m @ rest))"
proof (cases "max_by_key (\<lambda>m. length (mg_alias m))
            (filter (\<lambda>m. path_matches_alias (mg_alias m) path) (mounts view))")
  case None
  with resolve_with_grant_cases [OF assms] show ?thesis
    by (auto simp: filter_empty_conv)
next
  case (Some m)
  with resolve_with_grant_cases [OF assms] obtain rest where
    r: "path = mg_alias m @ rest" "resolve_with_grant view path = Ok (mg_target m @ rest, m)"
      "VirtualPath_new (mg_target m @ rest) = Ok (mg_target m @ rest)"
    by auto
  have m: "m \<in> set (mounts view)" "path_matches_alias (mg_alias m) path"
    "\<forall>m' \<in> set (mounts view). path_matches_alias (mg_alias m') path \<longrightarrow>
       length (mg_alias m') \<le> length (mg_alias m)"
    using max_by_key_Some [OF Some] by auto
  have "path_matches_alias (mg_target m) (mg_target m @ rest)"
    using m(2) r(1) by (auto simp: path_matches_alias_def prefix_def)
  with r m show ?thesis by blast
qed

definition example_view :: MountView where
  "example_view = \<lparr>mounts =
     [\<lparr>mg_alias = ''/workspace'', mg_target = ''/projects/p1'',
        mg_permissions = MountPermissions_read_write\<rparr>,
      \<lparr>mg_alias = ''/workspace/cache'', mg_target = ''/tmp/c'',
        mg_permissions = MountPermissions_read_only\<rparr>]\<rparr>"

lemma example_view_wf: "wf_view example_view"
proof -
  have "normal_path ''/workspace''" "normal_path ''/workspace/cache''"
    unfolding normal_path_def
    by (rule exI [of _ "[''workspace'']"], code_simp)
       (rule exI [of _ "[''workspace'', ''cache'']"], code_simp)
  moreover have "VirtualPath_new ''/projects/p1'' = Ok ''/projects/p1''"
    "VirtualPath_new ''/tmp/c'' = Ok ''/tmp/c''" "MountView_validate example_view = Ok ()"
    by code_simp+
  ultimately show ?thesis
    by (simp add: wf_view_def wf_mount_def example_view_def)
qed

theorem resolve_contained_witness:
  "wf_view example_view \<and> normal_path ''/workspace/cache/x''
    \<and> (\<exists>m rest. m \<in> set (mounts example_view) \<and> ''/workspace/cache/x'' = mg_alias m @ rest
        \<and> resolve_with_grant example_view ''/workspace/cache/x'' = Ok (mg_target m @ rest, m))"
proof -
  have p: "normal_path ''/workspace/cache/x''"
    unfolding normal_path_def by (rule exI [of _ "[''workspace'', ''cache'', ''x'']"], code_simp)
  have "\<exists>m. m \<in> set (mounts example_view) \<and> path_matches_alias (mg_alias m) ''/workspace/cache/x''"
    by (rule exI [of _ "mounts example_view ! 0"]) (simp add: example_view_def path_matches_alias_def)
  with resolve_contained [OF example_view_wf p] example_view_wf p show ?thesis
    by blast
qed

end
