(* ===== verification/Host_Api.thy ===== *)
theory Host_Api
  imports Paths
begin

text \<open>
  The value types of \<open>ironclaw_host_api\<close> that the authority components exchange: resource
  scopes, estimates and ceilings (\<open>resource.rs\<close>), capability descriptors and grants
  (\<open>capability.rs\<close>), execution contexts (\<open>scope.rs\<close>), decisions and obligations
  (\<open>decision.rs\<close>), actions and approval requests (\<open>action.rs\<close>, \<open>approval.rs\<close>).

  Third-party types are parameters. \<open>'d\<close> stands for \<open>rust_decimal::Decimal\<close>, of which
  these types only use the total order; \<open>'s\<close> stands for \<open>serde_json::Value\<close>. A
  \<open>Uuid\<close> is its 128-bit number and a \<open>DateTime<Utc>\<close> is an integer instant in
  nanoseconds: the code compares instants and adds whole hours or days.
\<close>

section \<open>Identifiers and instants\<close>

type_synonym TenantId = string
type_synonym UserId = string
type_synonym AgentId = string
type_synonym ProjectId = string
type_synonym MissionId = string
type_synonym ThreadId = string
type_synonym ExtensionId = string
type_synonym PackageId = string
type_synonym SecretHandle = string
type_synonym SystemServiceId = string
type_synonym CapabilityId = string
type_synonym RuntimeCredentialAccountProviderId = string

type_synonym uuid = nat
type_synonym InvocationId = uuid
type_synonym ProcessId = uuid
type_synonym CapabilityGrantId = uuid
type_synonym ResourceReservationId = uuid
type_synonym ApprovalRequestId = uuid
type_synonym CorrelationId = uuid

type_synonym instant = int

section \<open>Resource scopes, estimates and ceilings\<close>

record ResourceScope =
  rs_tenant_id :: TenantId
  rs_user_id :: UserId
  rs_agent_id :: "AgentId option"
  rs_project_id :: "ProjectId option"
  rs_mission_id :: "MissionId option"
  rs_thread_id :: "ThreadId option"
  rs_invocation_id :: InvocationId

definition SYSTEM_RESERVED_ID :: string where
  "SYSTEM_RESERVED_ID = CHR 0x1F # ''SYSTEM'' @ [CHR 0x1F]"

definition TENANT_SHARED_MANAGED_USER_ID :: string where
  "TENANT_SHARED_MANAGED_USER_ID = ''__ironclaw_tenant_shared_admin__''"

definition deserialize_system_aware_tenant_id :: "string \<Rightarrow> (HostApiError, TenantId) result" where
  "deserialize_system_aware_tenant_id raw =
     (if raw = SYSTEM_RESERVED_ID then Ok raw
      else result_bind (validate_scope_id ''tenant'' raw) (\<lambda>_. Ok raw))"

definition deserialize_system_aware_user_id :: "string \<Rightarrow> (HostApiError, UserId) result" where
  "deserialize_system_aware_user_id raw =
     (if raw = SYSTEM_RESERVED_ID \<or> raw = TENANT_SHARED_MANAGED_USER_ID then Ok raw
      else result_bind (validate_scope_id ''user'' raw) (\<lambda>_. Ok raw))"

text \<open>\<open>TenantId::new("default")\<close> and its siblings cannot fail here; the validator is run all the same.\<close>

definition ResourceScope_local_default ::
  "UserId \<Rightarrow> InvocationId \<Rightarrow> (HostApiError, ResourceScope) result" where
  "ResourceScope_local_default user invocation =
     result_bind (validate_scope_id ''tenant'' ''default'') (\<lambda>_.
     result_bind (validate_scope_id ''agent'' ''default'') (\<lambda>_.
     result_bind (validate_scope_id ''project'' ''bootstrap'') (\<lambda>_.
       Ok \<lparr>rs_tenant_id = ''default'', rs_user_id = user, rs_agent_id = Some ''default'',
           rs_project_id = Some ''bootstrap'', rs_mission_id = None, rs_thread_id = None,
           rs_invocation_id = invocation\<rparr>)))"

definition ResourceScope_system :: "InvocationId \<Rightarrow> ResourceScope" where
  "ResourceScope_system fresh =
     \<lparr>rs_tenant_id = SYSTEM_RESERVED_ID, rs_user_id = SYSTEM_RESERVED_ID, rs_agent_id = None,
      rs_project_id = None, rs_mission_id = None, rs_thread_id = None, rs_invocation_id = fresh\<rparr>"

definition ResourceScope_is_system :: "ResourceScope \<Rightarrow> bool" where
  "ResourceScope_is_system s =
     (rs_tenant_id s = SYSTEM_RESERVED_ID \<and> rs_user_id s = SYSTEM_RESERVED_ID)"

definition without_thread_and_mission :: "ResourceScope \<Rightarrow> ResourceScope" where
  "without_thread_and_mission s = s\<lparr>rs_mission_id := None, rs_thread_id := None\<rparr>"

definition tenant_user_settings_scope :: "ResourceScope \<Rightarrow> ResourceScope" where
  "tenant_user_settings_scope s =
     \<lparr>rs_tenant_id = rs_tenant_id s, rs_user_id = rs_user_id s, rs_agent_id = None,
      rs_project_id = None, rs_mission_id = None, rs_thread_id = None,
      rs_invocation_id = rs_invocation_id s\<rparr>"

definition tenant_shared_managed_scope :: "ResourceScope \<Rightarrow> ResourceScope" where
  "tenant_shared_managed_scope s =
     \<lparr>rs_tenant_id = rs_tenant_id s, rs_user_id = TENANT_SHARED_MANAGED_USER_ID, rs_agent_id = None,
      rs_project_id = None, rs_mission_id = None, rs_thread_id = None,
      rs_invocation_id = rs_invocation_id s\<rparr>"

record 'd ResourceEstimate =
  est_usd :: "'d option"
  est_input_tokens :: "u64 option"
  est_output_tokens :: "u64 option"
  est_wall_clock_ms :: "u64 option"
  est_output_bytes :: "u64 option"
  est_network_egress_bytes :: "u64 option"
  est_process_count :: "u32 option"
  est_concurrency_slots :: "u32 option"

record 'd ResourceUsage =
  use_usd :: 'd
  use_input_tokens :: u64
  use_output_tokens :: u64
  use_wall_clock_ms :: u64
  use_output_bytes :: u64
  use_network_egress_bytes :: u64
  use_process_count :: u32

record SandboxQuota =
  sq_cpu_time_ms :: "u64 option"
  sq_memory_bytes :: "u64 option"
  sq_disk_bytes :: "u64 option"
  sq_network_egress_bytes :: "u64 option"
  sq_process_count :: "u32 option"

record 'd ResourceCeiling =
  max_usd :: "'d option"
  max_input_tokens :: "u64 option"
  max_output_tokens :: "u64 option"
  max_wall_clock_ms :: "u64 option"
  max_output_bytes :: "u64 option"
  sandbox :: "SandboxQuota option"

record 'd ResourceProfile =
  default_estimate :: "'d ResourceEstimate"
  hard_ceiling :: "'d ResourceCeiling option"

datatype ReservationStatus = RActive | RReconciled | RReleased

record 'd ResourceReservation =
  res_id :: ResourceReservationId
  res_scope :: ResourceScope
  res_estimate :: "'d ResourceEstimate"

record 'd ResourceReceipt =
  rcpt_id :: ResourceReservationId
  rcpt_scope :: ResourceScope
  rcpt_status :: ReservationStatus
  rcpt_estimate :: "'d ResourceEstimate"
  rcpt_actual :: "'d ResourceUsage option"

section \<open>Capabilities, grants and principals\<close>

datatype EffectKind =
    ReadFilesystem | WriteFilesystem | DeleteFilesystem | Network | UseSecret | ExecuteCode
  | SpawnProcess | DispatchCapability | ModifyExtension | ModifyApproval | ModifyBudget
  | ExternalWrite | Financial

fun is_write :: "EffectKind \<Rightarrow> bool" where
  "is_write ReadFilesystem = False"
| "is_write Network = False"
| "is_write UseSecret = False"
| "is_write DispatchCapability = False"
| "is_write _ = True"

datatype PermissionMode = PermAllow | PermAsk | PermDeny

datatype RuntimeKind = Wasm | Mcp | Script | RuntimeFirstParty | RuntimeSystem

datatype TrustClass = TrustSandbox | UserTrusted | TrustFirstParty | TrustSystem

datatype NetworkScheme = Http | Https
datatype NetworkMethod = Get | Post | Put | Patch | Delete | Head

record NetworkTarget =
  nt_scheme :: NetworkScheme
  nt_host :: string
  nt_port :: "u16 option"

record NetworkTargetPattern =
  ntp_scheme :: "NetworkScheme option"
  ntp_host_pattern :: string
  ntp_port :: "u16 option"

record NetworkPolicy =
  allowed_targets :: "NetworkTargetPattern list"
  deny_private_ip_ranges :: bool
  max_egress_bytes :: "u64 option"

datatype RuntimeCredentialAccountSetup = ManualToken | OAuth "string list" | Retired

datatype RuntimeCredentialRequirementSource =
    SourceSecretHandle
  | ProductAuthAccount RuntimeCredentialAccountProviderId RuntimeCredentialAccountSetup

text \<open>The injection target of a credential (\<open>http.rs\<close>) is opaque here: \<open>'t\<close>.\<close>

record 't RuntimeCredentialRequirement =
  cred_handle :: SecretHandle
  cred_source :: RuntimeCredentialRequirementSource
  cred_provider_scopes :: "string list"
  cred_audience :: NetworkTargetPattern
  cred_target :: 't
  cred_required :: bool

datatype Principal =
    PTenant TenantId
  | PUser UserId
  | PAgent AgentId
  | PProject ProjectId
  | PMission MissionId
  | PThread ThreadId
  | PExtension ExtensionId
  | PHostRuntime
  | PSystem SystemServiceId

record 'd GrantConstraints =
  allowed_effects :: "EffectKind list"
  gc_mounts :: MountView
  gc_network :: NetworkPolicy
  gc_secrets :: "SecretHandle list"
  resource_ceiling :: "'d ResourceCeiling option"
  expires_at :: "instant option"
  max_invocations :: "u64 option"

record 'd CapabilityGrant =
  grant_id :: CapabilityGrantId
  grant_capability :: CapabilityId
  grantee :: Principal
  issued_by :: Principal
  constraints :: "'d GrantConstraints"

record 'd CapabilitySet =
  set_grants :: "'d CapabilityGrant list"

record ('d, 's, 't) CapabilityDescriptor =
  desc_id :: CapabilityId
  desc_provider :: ExtensionId
  desc_runtime :: RuntimeKind
  desc_trust_ceiling :: TrustClass
  desc_description :: string
  desc_parameters_schema :: 's
  desc_effects :: "EffectKind list"
  desc_default_permission :: PermissionMode
  desc_runtime_credentials :: "'t RuntimeCredentialRequirement list"
  desc_network_targets :: "NetworkTargetPattern list"
  desc_resource_profile :: "'d ResourceProfile option"

record 'd ExecutionContext =
  ctx_invocation_id :: InvocationId
  ctx_correlation_id :: CorrelationId
  ctx_process_id :: "ProcessId option"
  ctx_parent_process_id :: "ProcessId option"
  ctx_tenant_id :: TenantId
  ctx_user_id :: UserId
  ctx_authenticated_actor_user_id :: "UserId option"
  ctx_agent_id :: "AgentId option"
  ctx_project_id :: "ProjectId option"
  ctx_mission_id :: "MissionId option"
  ctx_thread_id :: "ThreadId option"
  ctx_extension_id :: ExtensionId
  ctx_runtime :: RuntimeKind
  ctx_trust :: TrustClass
  ctx_grants :: "'d CapabilitySet"
  ctx_mounts :: MountView
  ctx_resource_scope :: ResourceScope

definition ExecutionContext_validate :: "'d ExecutionContext \<Rightarrow> (HostApiError, unit) result" where
  "ExecutionContext_validate c =
     (let s = ctx_resource_scope c in
      if rs_invocation_id s \<noteq> ctx_invocation_id c then
        Err (InvariantViolation ''resource_scope.invocation_id must match execution context invocation_id'')
      else if rs_tenant_id s \<noteq> ctx_tenant_id c then
        Err (InvariantViolation ''resource_scope.tenant_id must match execution context tenant_id'')
      else if rs_user_id s \<noteq> ctx_user_id c then
        Err (InvariantViolation ''resource_scope.user_id must match execution context user_id'')
      else if rs_agent_id s \<noteq> ctx_agent_id c then
        Err (InvariantViolation ''resource_scope.agent_id must match execution context agent_id'')
      else if rs_project_id s \<noteq> ctx_project_id c then
        Err (InvariantViolation ''resource_scope.project_id must match execution context project_id'')
      else if rs_mission_id s \<noteq> ctx_mission_id c then
        Err (InvariantViolation ''resource_scope.mission_id must match execution context mission_id'')
      else if rs_thread_id s \<noteq> ctx_thread_id c then
        Err (InvariantViolation ''resource_scope.thread_id must match execution context thread_id'')
      else MountView_validate (ctx_mounts c))"

section \<open>Decisions and obligations\<close>

datatype DenyReason =
    MissingGrant | DenyInvalidPath | PathOutsideMount | UnknownCapability | UnknownSecret
  | NetworkDenied | BudgetDenied | ApprovalDenied | PolicyDenied | ResourceLimitExceeded
  | InternalInvariantViolation

datatype 'd Obligation =
    AuditBefore
  | AuditAfter
  | RedactOutput
  | ReserveResources ResourceReservationId
  | UseScopedMounts MountView
  | InjectSecretOnce SecretHandle
  | InjectCredentialAccountOnce SecretHandle RuntimeCredentialAccountProviderId
      RuntimeCredentialAccountSetup "string list" ExtensionId
  | FirstPartyCredentialStagedViaHostPort CapabilityId
  | ApplyNetworkPolicy NetworkPolicy
  | EnforceResourceCeiling "'d ResourceCeiling"
  | EnforceOutputLimit u64

datatype ObligationKind =
    KReserveResources | KUseScopedMounts | KApplyNetworkPolicy | KInjectSecretOnce
  | KInjectCredentialAccountOnce | KFirstPartyCredentialStagedViaHostPort | KAuditBefore
  | KRedactOutput | KEnforceResourceCeiling | KEnforceOutputLimit | KAuditAfter

definition OBLIGATION_EVALUATION_ORDER :: "ObligationKind list" where
  "OBLIGATION_EVALUATION_ORDER =
     [KReserveResources, KUseScopedMounts, KApplyNetworkPolicy, KInjectSecretOnce,
      KInjectCredentialAccountOnce, KFirstPartyCredentialStagedViaHostPort, KAuditBefore,
      KRedactOutput, KEnforceResourceCeiling, KEnforceOutputLimit, KAuditAfter]"

fun obligation_kind :: "'d Obligation \<Rightarrow> ObligationKind" where
  "obligation_kind AuditBefore = KAuditBefore"
| "obligation_kind AuditAfter = KAuditAfter"
| "obligation_kind RedactOutput = KRedactOutput"
| "obligation_kind (ReserveResources _) = KReserveResources"
| "obligation_kind (UseScopedMounts _) = KUseScopedMounts"
| "obligation_kind (InjectSecretOnce _) = KInjectSecretOnce"
| "obligation_kind (InjectCredentialAccountOnce _ _ _ _ _) = KInjectCredentialAccountOnce"
| "obligation_kind (FirstPartyCredentialStagedViaHostPort _) = KFirstPartyCredentialStagedViaHostPort"
| "obligation_kind (ApplyNetworkPolicy _) = KApplyNetworkPolicy"
| "obligation_kind (EnforceResourceCeiling _) = KEnforceResourceCeiling"
| "obligation_kind (EnforceOutputLimit _) = KEnforceOutputLimit"

text \<open>The derived \<open>Debug\<close> rendering, which the error messages quote.\<close>

fun kind_debug :: "ObligationKind \<Rightarrow> string" where
  "kind_debug KReserveResources = ''ReserveResources''"
| "kind_debug KUseScopedMounts = ''UseScopedMounts''"
| "kind_debug KApplyNetworkPolicy = ''ApplyNetworkPolicy''"
| "kind_debug KInjectSecretOnce = ''InjectSecretOnce''"
| "kind_debug KInjectCredentialAccountOnce = ''InjectCredentialAccountOnce''"
| "kind_debug KFirstPartyCredentialStagedViaHostPort = ''FirstPartyCredentialStagedViaHostPort''"
| "kind_debug KAuditBefore = ''AuditBefore''"
| "kind_debug KRedactOutput = ''RedactOutput''"
| "kind_debug KEnforceResourceCeiling = ''EnforceResourceCeiling''"
| "kind_debug KEnforceOutputLimit = ''EnforceOutputLimit''"
| "kind_debug KAuditAfter = ''AuditAfter''"

text \<open>Partial in the source (\<open>unreachable!\<close>): \<open>None\<close> off the two injection variants.\<close>

fun extract_inject_handle :: "'d Obligation \<Rightarrow> SecretHandle option" where
  "extract_inject_handle (InjectSecretOnce handle) = Some handle"
| "extract_inject_handle (InjectCredentialAccountOnce handle _ _ _ _) = Some handle"
| "extract_inject_handle _ = None"

fun normalize_rest ::
  "ObligationKind \<Rightarrow> SecretHandle option list \<Rightarrow> 'd Obligation list
     \<Rightarrow> (HostApiError, 'd Obligation list) result" where
  "normalize_rest kind seen [] = Ok []"
| "normalize_rest kind seen (ob # rest) =
     (let handle = extract_inject_handle ob in
      if handle \<in> set seen then
        Err (InvariantViolation
          (''duplicate '' @ kind_debug kind @ '' obligations for the same handle are not allowed''))
      else result_bind (normalize_rest kind (handle # seen) rest) (\<lambda>obs. Ok (ob # obs)))"

definition normalize_multi_inject ::
  "'d Obligation \<Rightarrow> 'd Obligation list \<Rightarrow> ObligationKind
     \<Rightarrow> (HostApiError, 'd Obligation list) result" where
  "normalize_multi_inject fst_ob rest kind =
     result_bind (normalize_rest kind [extract_inject_handle fst_ob] rest) (\<lambda>obs. Ok (fst_ob # obs))"

text \<open>One round of the loop over the evaluation order: the obligations of one kind.\<close>

definition normalize_kind ::
  "'d Obligation list \<Rightarrow> ObligationKind \<Rightarrow> (HostApiError, 'd Obligation list) result" where
  "normalize_kind obligations kind =
     (case filter (\<lambda>ob. obligation_kind ob = kind) obligations of
        [] \<Rightarrow> Ok []
      | fst_ob # rest \<Rightarrow>
          if kind = KInjectSecretOnce \<or> kind = KInjectCredentialAccountOnce then
            normalize_multi_inject fst_ob rest kind
          else if rest \<noteq> [] then
            Err (InvariantViolation
              (''duplicate or conflicting '' @ kind_debug kind @ '' obligations are not allowed''))
          else Ok [fst_ob])"

fun normalize_kinds ::
  "'d Obligation list \<Rightarrow> ObligationKind list \<Rightarrow> (HostApiError, 'd Obligation list) result" where
  "normalize_kinds obligations [] = Ok []"
| "normalize_kinds obligations (k # ks) =
     result_bind (normalize_kind obligations k) (\<lambda>xs.
     result_bind (normalize_kinds obligations ks) (\<lambda>ys. Ok (xs @ ys)))"

definition Obligations_new :: "'d Obligation list \<Rightarrow> (HostApiError, 'd Obligation list) result" where
  "Obligations_new obligations =
     (case find (\<lambda>ob. obligation_kind ob \<notin> set OBLIGATION_EVALUATION_ORDER) obligations of
        Some ob \<Rightarrow> Err (InvariantViolation
          (kind_debug (obligation_kind ob) @ '' is missing from OBLIGATION_EVALUATION_ORDER''))
      | None \<Rightarrow> normalize_kinds obligations OBLIGATION_EVALUATION_ORDER)"

section \<open>Actions and approval requests\<close>

datatype SecretUseMode = InjectIntoRequest | InjectIntoEnvironment | ReadRaw

datatype ExtensionLifecycleOperation = OpInstall | OpUpdate | OpRemove | OpEnable | OpDisable

datatype FileActionKind = FileRead | FileList | FileWrite | FileDelete

type_synonym InvocationFingerprint = string

datatype 'd Action =
    ReadFile ScopedPath
  | ListDir ScopedPath
  | WriteFile ScopedPath "u64 option"
  | DeleteFile ScopedPath
  | Dispatch CapabilityId "'d ResourceEstimate"
  | SpawnCapability CapabilityId "'d ResourceEstimate"
  | ActUseSecret SecretHandle SecretUseMode
  | ActNetwork NetworkTarget NetworkMethod "u64 option"
  | ActReserveResources "'d ResourceEstimate"
  | Approve "'d ApprovalRequest"
  | ExtensionLifecycle ExtensionId ExtensionLifecycleOperation
  | EmitExternalEffect EffectKind
and 'd ApprovalRequest =
    ApprovalRequest
      (ar_id: ApprovalRequestId)
      (ar_correlation_id: CorrelationId)
      (ar_requested_by: Principal)
      (ar_action: "'d Action")
      (ar_invocation_fingerprint: "InvocationFingerprint option")
      (ar_reason: string)
      (ar_reusable_scope: "'d ApprovalScope option")
and 'd ApprovalScope =
    ApprovalScope
      (as_principal: Principal)
      (as_action_pattern: "'d ActionPattern")
      (as_expires_at: "instant option")
and 'd ActionPattern =
    ExactAction "'d Action"
  | PatCapability CapabilityId
  | PathPrefix FileActionKind ScopedPath
  | PatNetworkTarget NetworkTargetPattern

datatype 'd Decision =
    Allow "'d Obligation list"
  | Deny DenyReason
  | RequireApproval "'d ApprovalRequest"

section \<open>Scope ownership\<close>

text \<open>
  Every store keys its records by the owner axes of a scope. \<open>same_scope_owner\<close> is repeated
  verbatim in \<open>ironclaw_authorization\<close> and \<open>ironclaw_run_state\<close>; it is the kernel of the
  owner key.
\<close>

type_synonym owner_key =
  "TenantId \<times> UserId \<times> AgentId option \<times> ProjectId option \<times> MissionId option \<times> ThreadId option"

definition owner_of :: "ResourceScope \<Rightarrow> owner_key" where
  "owner_of s = (rs_tenant_id s, rs_user_id s, rs_agent_id s, rs_project_id s, rs_mission_id s,
     rs_thread_id s)"

definition same_scope_owner :: "ResourceScope \<Rightarrow> ResourceScope \<Rightarrow> bool" where
  "same_scope_owner left right =
     (rs_tenant_id left = rs_tenant_id right
      \<and> rs_user_id left = rs_user_id right
      \<and> rs_agent_id left = rs_agent_id right
      \<and> rs_project_id left = rs_project_id right
      \<and> rs_mission_id left = rs_mission_id right
      \<and> rs_thread_id left = rs_thread_id right)"

lemma same_scope_owner_iff: "same_scope_owner a b \<longleftrightarrow> owner_of a = owner_of b"
  by (auto simp: same_scope_owner_def owner_of_def)

end
