(* ===== verification/F64.thy ===== *)
theory F64
  imports Prelude
begin

text \<open>
  The fragment of \<open>f64\<close> the program uses: conversion of an unsigned integer, division and
  comparison of budget utilizations. A finite double is an integer mantissa times a power of
  two; conversion and division round to the nearest 53-bit mantissa, ties to even, as IEEE 754
  prescribes. Subnormal results and overflow to infinity do not arise: the operands come from
  \<open>u64\<close> counters and 96-bit decimals, so every quotient lies far inside the normal range.
\<close>

datatype f64 =
    F64 int int  \<comment> \<open>mantissa and binary exponent\<close>
  | F64_Inf bool  \<comment> \<open>\<open>True\<close> is positive infinity\<close>
  | F64_NaN

function bitlen :: "int \<Rightarrow> int" where
  "bitlen n = (if n \<le> 0 then 0 else 1 + bitlen (n div 2))"
  by pat_completeness auto
termination
  by (relation "measure nat") auto

declare bitlen.simps [simp del]

text \<open>Division of non-negative integers rounded to the nearest integer, ties to the even one.\<close>

definition div_even :: "int \<Rightarrow> int \<Rightarrow> int" where
  "div_even n d =
     (let q = n div d; r = n mod d
      in if 2 * r < d then q
         else if d < 2 * r then q + 1
         else if even q then q else q + 1)"

text \<open>The double nearest to \<open>n / d\<close>.\<close>

definition f64_round :: "int \<Rightarrow> int \<Rightarrow> f64" where
  "f64_round n d =
     (if n = 0 then F64 0 0
      else
        let s0 = 53 + bitlen d - bitlen n;
            scale = (\<lambda>s. (n * 2 ^ nat s, d * 2 ^ nat (- s)));
            (n0, d0) = scale s0;
            s = (if 2 ^ 53 * d0 \<le> n0 then s0 - 1 else s0);
            (n1, d1) = scale s
        in F64 (div_even n1 d1) (- s))"

definition f64_of_u64 :: "u64 \<Rightarrow> f64" where
  "f64_of_u64 w = f64_round (uint w) 1"

definition f64_zero :: f64 where
  "f64_zero = F64 0 0"

definition f64_one :: f64 where
  "f64_one = F64 1 0"

definition f64_neg :: "f64 \<Rightarrow> f64" where
  "f64_neg x = (case x of F64 m e \<Rightarrow> F64 (- m) e | F64_Inf b \<Rightarrow> F64_Inf (\<not> b) | F64_NaN \<Rightarrow> F64_NaN)"

fun f64_div :: "f64 \<Rightarrow> f64 \<Rightarrow> f64" where
  "f64_div (F64 m e) (F64 n f) =
     (if n = 0 then (if m = 0 then F64_NaN else F64_Inf (0 < m))
      else
        let q = f64_round (\<bar>m\<bar> * 2 ^ nat (e - f)) (\<bar>n\<bar> * 2 ^ nat (f - e))
        in if (m < 0) = (n < 0) then q else f64_neg q)"
| "f64_div (F64 m e) (F64_Inf b) = F64 0 0"
| "f64_div (F64_Inf b) (F64 n f) = F64_Inf (b = (0 \<le> n))"
| "f64_div _ _ = F64_NaN"

fun f64_is_finite :: "f64 \<Rightarrow> bool" where
  "f64_is_finite (F64 m e) = True"
| "f64_is_finite _ = False"

text \<open>Comparison; every comparison with NaN is false.\<close>

fun f64_lt :: "f64 \<Rightarrow> f64 \<Rightarrow> bool" where
  "f64_lt (F64 m e) (F64 n f) = (m * 2 ^ nat (e - f) < n * 2 ^ nat (f - e))"
| "f64_lt (F64 m e) (F64_Inf b) = b"
| "f64_lt (F64_Inf b) (F64 n f) = (\<not> b)"
| "f64_lt (F64_Inf b) (F64_Inf c) = (\<not> b \<and> c)"
| "f64_lt _ _ = False"

fun f64_le :: "f64 \<Rightarrow> f64 \<Rightarrow> bool" where
  "f64_le (F64 m e) (F64 n f) = (m * 2 ^ nat (e - f) \<le> n * 2 ^ nat (f - e))"
| "f64_le (F64 m e) (F64_Inf b) = b"
| "f64_le (F64_Inf b) (F64 n f) = (\<not> b)"
| "f64_le (F64_Inf b) (F64_Inf c) = (\<not> b \<or> c)"
| "f64_le _ _ = False"

definition f64_ge :: "f64 \<Rightarrow> f64 \<Rightarrow> bool" where
  "f64_ge x y = f64_le y x"

lemma f64_lt_le_finite:
  "f64_is_finite x \<Longrightarrow> f64_is_finite y \<Longrightarrow> f64_lt x y \<longleftrightarrow> \<not> f64_le y x"
  by (cases x; cases y) (auto simp: not_le)

lemma f64_lt_imp_not_ge: "f64_lt x y \<Longrightarrow> \<not> f64_ge x y"
  by (cases x; cases y) (auto simp: f64_ge_def)

end
