(* ===== verification/Resources.thy ===== *)
theory Resources
  imports Host_Api F64
begin

text \<open>
  The reservation ledger of \<open>ironclaw_resources\<close> (\<open>lib.rs\<close>, \<open>period.rs\<close>): accounts and
  their cascade, limits with periods and graduated thresholds, tallies with saturating
  arithmetic, and the \<open>*_in_state\<close> operations every governor runs (\<open>set_limit\<close>,
  \<open>reserve\<close>, \<open>reconcile\<close>, \<open>release\<close>, \<open>account_snapshot\<close>). An operation returns its
  result together with the new state, because a denied reservation still rolls periods over.

  Two third-party packages are parameters. \<open>'d decimal_ops\<close> is the arithmetic of
  \<open>rust_decimal::Decimal\<close> (its order is the order of the type \<open>'d\<close>), \<open>chrono_ops\<close> the
  calendar of \<open>chrono\<close> and \<open>chrono_tz\<close>.
\<close>

section \<open>Third-party arithmetic and calendar\<close>

record 'd decimal_ops =
  dec_zero :: 'd
  dec_max :: 'd
  dec_checked_add :: "'d \<Rightarrow> 'd \<Rightarrow> 'd option"
  dec_checked_sub :: "'d \<Rightarrow> 'd \<Rightarrow> 'd option"
  dec_to_f64 :: "'d \<Rightarrow> f64 option"

text \<open>
  Dates are day numbers. \<open>ch_earliest_midnight\<close> is \<open>from_local_datetime\<close> of a date's
  midnight followed by \<open>earliest()\<close> and \<open>with_timezone(&Utc)\<close>.
\<close>

record chrono_ops =
  ch_max_utc :: instant
  ch_local_date :: "string \<Rightarrow> instant \<Rightarrow> int"
  ch_num_days_from_monday :: "int \<Rightarrow> int"
  ch_year :: "int \<Rightarrow> int"
  ch_month :: "int \<Rightarrow> int"
  ch_from_ymd_opt :: "int \<Rightarrow> int \<Rightarrow> int \<Rightarrow> int option"
  ch_earliest_midnight :: "string \<Rightarrow> int \<Rightarrow> instant option"

definition hours :: "int \<Rightarrow> int" where
  "hours n = n * (3600 * 1000000000)"

definition days :: "int \<Rightarrow> int" where
  "days n = hours (24 * n)"

section \<open>Periods and thresholds\<close>

datatype PeriodUnit = Day | Week | Month

datatype BudgetPeriod = PerInvocation | Rolling24h | Calendar string PeriodUnit

record BudgetThresholds =
  warn_at :: f64
  pause_at :: f64

definition BudgetThresholds_DISABLED :: BudgetThresholds where
  "BudgetThresholds_DISABLED = \<lparr>warn_at = f64_one, pause_at = f64_one\<rparr>"

text \<open>\<open>0.75\<close> and \<open>0.90\<close> as doubles.\<close>

definition BudgetThresholds_RECOMMENDED :: BudgetThresholds where
  "BudgetThresholds_RECOMMENDED = \<lparr>warn_at = F64 3 (- 2), pause_at = F64 8106479329266893 (- 53)\<rparr>"

datatype BudgetThresholdsError = NotFinite | Negative | PauseBelowWarn

definition BudgetThresholds_validate :: "BudgetThresholds \<Rightarrow> (BudgetThresholdsError, unit) result" where
  "BudgetThresholds_validate t =
     (if \<not> f64_is_finite (warn_at t) \<or> \<not> f64_is_finite (pause_at t) then Err NotFinite
      else if f64_lt (warn_at t) f64_zero \<or> f64_lt (pause_at t) f64_zero then Err Negative
      else if f64_lt (pause_at t) (warn_at t) then Err PauseBelowWarn
      else Ok ())"

definition calendar_bounds ::
  "chrono_ops \<Rightarrow> string \<Rightarrow> PeriodUnit \<Rightarrow> instant \<Rightarrow> instant \<times> instant" where
  "calendar_bounds C tz unit now =
     (let local_date = ch_local_date C tz now;
          (start_date, end_date) =
            (case unit of
               Day \<Rightarrow> (local_date, local_date + 1)
             | Week \<Rightarrow>
                 let week_start = local_date - ch_num_days_from_monday C local_date
                 in (week_start, week_start + 7)
             | Month \<Rightarrow>
                 let y = ch_year C local_date; m = ch_month C local_date;
                     month_start = unwrap_or local_date (ch_from_ymd_opt C y m 1);
                     next_month = unwrap_or month_start
                       (if m = 12 then ch_from_ymd_opt C (y + 1) 1 1
                        else ch_from_ymd_opt C y (m + 1) 1)
                 in (month_start, next_month))
      in (unwrap_or now (ch_earliest_midnight C tz start_date),
          unwrap_or (now + days 1) (ch_earliest_midnight C tz end_date)))"

definition period_bounds :: "chrono_ops \<Rightarrow> BudgetPeriod \<Rightarrow> instant \<Rightarrow> instant \<times> instant" where
  "period_bounds C period now =
     (case period of
        PerInvocation \<Rightarrow> (now, ch_max_utc C)
      | Rolling24h \<Rightarrow> (now, now + hours 24)
      | Calendar tz unit \<Rightarrow> calendar_bounds C tz unit now)"

definition period_has_rolled_over :: "instant \<Rightarrow> instant \<Rightarrow> bool" where
  "period_has_rolled_over current_end now = (current_end \<le> now)"

section \<open>Accounts\<close>

datatype ResourceAccount =
    AccTenant TenantId
  | AccUser TenantId UserId
  | AccProject TenantId UserId ProjectId
  | AccAgent TenantId UserId "ProjectId option" AgentId
  | AccMission TenantId UserId "ProjectId option" MissionId
  | AccThread TenantId UserId "ProjectId option" "MissionId option" ThreadId

definition cascade :: "ResourceScope \<Rightarrow> ResourceAccount list" where
  "cascade s =
     [AccTenant (rs_tenant_id s), AccUser (rs_tenant_id s) (rs_user_id s)]
     @ (case rs_project_id s of None \<Rightarrow> []
        | Some p \<Rightarrow> [AccProject (rs_tenant_id s) (rs_user_id s) p])
     @ (case rs_agent_id s of None \<Rightarrow> []
        | Some a \<Rightarrow> [AccAgent (rs_tenant_id s) (rs_user_id s) (rs_project_id s) a])
     @ (case rs_mission_id s of None \<Rightarrow> []
        | Some m \<Rightarrow> [AccMission (rs_tenant_id s) (rs_user_id s) (rs_project_id s) m])
     @ (case rs_thread_id s of None \<Rightarrow> []
        | Some t \<Rightarrow> [AccThread (rs_tenant_id s) (rs_user_id s) (rs_project_id s) (rs_mission_id s) t])"

definition most_specific_account :: "ResourceScope \<Rightarrow> ResourceAccount" where
  "most_specific_account s =
     (case rev (cascade s) of [] \<Rightarrow> AccTenant (rs_tenant_id s) | a # _ \<Rightarrow> a)"

fun account_display :: "ResourceAccount \<Rightarrow> string" where
  "account_display (AccTenant t) = ''tenant/'' @ t"
| "account_display (AccUser t u) = ''tenant/'' @ t @ ''/user/'' @ u"
| "account_display (AccProject t u p) = ''tenant/'' @ t @ ''/user/'' @ u @ ''/project/'' @ p"
| "account_display (AccAgent t u p a) =
     ''tenant/'' @ t @ ''/user/'' @ u @ ''/project/'' @ unwrap_or ''_'' p @ ''/agent/'' @ a"
| "account_display (AccMission t u p m) =
     ''tenant/'' @ t @ ''/user/'' @ u @ ''/project/'' @ unwrap_or ''_'' p @ ''/mission/'' @ m"
| "account_display (AccThread t u p m th) =
     ''tenant/'' @ t @ ''/user/'' @ u @ ''/project/'' @ unwrap_or ''_'' p
       @ ''/mission/'' @ unwrap_or ''_'' m @ ''/thread/'' @ th"

section \<open>Limits, dimensions and errors\<close>

record 'd ResourceLimits =
  lim_usd :: "'d option"
  lim_input_tokens :: "u64 option"
  lim_output_tokens :: "u64 option"
  lim_wall_clock_ms :: "u64 option"
  lim_output_bytes :: "u64 option"
  lim_network_egress_bytes :: "u64 option"
  lim_process_count :: "u32 option"
  lim_concurrency_slots :: "u32 option"
  lim_period :: BudgetPeriod
  lim_thresholds :: BudgetThresholds

definition is_decimal_unlimited :: "'d::linorder decimal_ops \<Rightarrow> 'd option \<Rightarrow> bool" where
  "is_decimal_unlimited D value = (case value of None \<Rightarrow> True | Some v \<Rightarrow> v \<le> dec_zero D)"

definition is_integer_unlimited :: "u64 option \<Rightarrow> bool" where
  "is_integer_unlimited value = (value = None \<or> value = Some 0)"

definition u64_from :: "u32 \<Rightarrow> u64" where
  "u64_from w = ucast w"

definition is_unlimited :: "'d::linorder decimal_ops \<Rightarrow> 'd ResourceLimits \<Rightarrow> bool" where
  "is_unlimited D l =
     (is_decimal_unlimited D (lim_usd l)
      \<and> is_integer_unlimited (lim_input_tokens l)
      \<and> is_integer_unlimited (lim_output_tokens l)
      \<and> is_integer_unlimited (lim_wall_clock_ms l)
      \<and> is_integer_unlimited (lim_output_bytes l)
      \<and> is_integer_unlimited (lim_network_egress_bytes l)
      \<and> is_integer_unlimited (map_option u64_from (lim_process_count l))
      \<and> is_integer_unlimited (map_option u64_from (lim_concurrency_slots l)))"

datatype ResourceDimension =
    DimUsd | DimInputTokens | DimOutputTokens | DimWallClockMs | DimOutputBytes
  | DimNetworkEgressBytes | DimProcessCount | DimConcurrencySlots

datatype 'd ResourceValue = ValDecimal 'd | ValInteger u64

record 'd ResourceDenial =
  den_account :: ResourceAccount
  den_dimension :: ResourceDimension
  den_limit :: "'d ResourceValue"
  den_current_usage :: "'d ResourceValue"
  den_active_reserved :: "'d ResourceValue"
  den_requested :: "'d ResourceValue"

record 'd ResourceApprovalNeeded =
  apn_account :: ResourceAccount
  apn_dimension :: ResourceDimension
  apn_limit :: "'d ResourceValue"
  apn_current_usage :: "'d ResourceValue"
  apn_active_reserved :: "'d ResourceValue"
  apn_requested :: "'d ResourceValue"
  apn_utilization :: f64
  apn_period_end :: "instant option"

record 'd BudgetWarning =
  bw_account :: ResourceAccount
  bw_dimension :: ResourceDimension
  bw_utilization :: f64
  bw_limit :: "'d ResourceValue"
  bw_period_end :: "instant option"

datatype 'd ResourceError =
    LimitExceeded "'d ResourceDenial" "'d BudgetWarning list"
  | RequiresApproval "'d ResourceApprovalNeeded" "'d BudgetWarning list"
  | ReservationAlreadyExists ResourceReservationId
  | InvalidEstimate ResourceDimension string
  | ReservationMismatch ResourceReservationId
  | UnknownReservation ResourceReservationId
  | ReservationClosed ResourceReservationId ReservationStatus
  | Storage string

section \<open>Tallies\<close>

record 'd ResourceTally =
  tal_usd :: 'd
  tal_input_tokens :: u64
  tal_output_tokens :: u64
  tal_wall_clock_ms :: u64
  tal_output_bytes :: u64
  tal_network_egress_bytes :: u64
  tal_process_count :: u32
  tal_concurrency_slots :: u32

definition tally_default :: "'d decimal_ops \<Rightarrow> 'd ResourceTally" where
  "tally_default D = \<lparr>tal_usd = dec_zero D, tal_input_tokens = 0, tal_output_tokens = 0,
     tal_wall_clock_ms = 0, tal_output_bytes = 0, tal_network_egress_bytes = 0,
     tal_process_count = 0, tal_concurrency_slots = 0\<rparr>"

definition from_estimate :: "'d decimal_ops \<Rightarrow> 'd ResourceEstimate \<Rightarrow> 'd ResourceTally" where
  "from_estimate D e = \<lparr>
     tal_usd = unwrap_or (dec_zero D) (est_usd e),
     tal_input_tokens = unwrap_or 0 (est_input_tokens e),
     tal_output_tokens = unwrap_or 0 (est_output_tokens e),
     tal_wall_clock_ms = unwrap_or 0 (est_wall_clock_ms e),
     tal_output_bytes = unwrap_or 0 (est_output_bytes e),
     tal_network_egress_bytes = unwrap_or 0 (est_network_egress_bytes e),
     tal_process_count = unwrap_or 0 (est_process_count e),
     tal_concurrency_slots = unwrap_or 0 (est_concurrency_slots e)\<rparr>"

definition from_usage :: "'d ResourceUsage \<Rightarrow> 'd ResourceTally" where
  "from_usage u = \<lparr>
     tal_usd = use_usd u,
     tal_input_tokens = use_input_tokens u,
     tal_output_tokens = use_output_tokens u,
     tal_wall_clock_ms = use_wall_clock_ms u,
     tal_output_bytes = use_output_bytes u,
     tal_network_egress_bytes = use_network_egress_bytes u,
     tal_process_count = use_process_count u,
     tal_concurrency_slots = 0\<rparr>"

definition add_assign ::
  "'d decimal_ops \<Rightarrow> 'd ResourceTally \<Rightarrow> 'd ResourceTally \<Rightarrow> 'd ResourceTally" where
  "add_assign D self other = \<lparr>
     tal_usd = unwrap_or (dec_max D) (dec_checked_add D (tal_usd self) (tal_usd other)),
     tal_input_tokens = saturating_add (tal_input_tokens self) (tal_input_tokens other),
     tal_output_tokens = saturating_add (tal_output_tokens self) (tal_output_tokens other),
     tal_wall_clock_ms = saturating_add (tal_wall_clock_ms self) (tal_wall_clock_ms other),
     tal_output_bytes = saturating_add (tal_output_bytes self) (tal_output_bytes other),
     tal_network_egress_bytes =
       saturating_add (tal_network_egress_bytes self) (tal_network_egress_bytes other),
     tal_process_count = saturating_add (tal_process_count self) (tal_process_count other),
     tal_concurrency_slots =
       saturating_add (tal_concurrency_slots self) (tal_concurrency_slots other)\<rparr>"

definition sub_assign ::
  "'d::linorder decimal_ops \<Rightarrow> 'd ResourceTally \<Rightarrow> 'd ResourceTally \<Rightarrow> 'd ResourceTally" where
  "sub_assign D self other = \<lparr>
     tal_usd = unwrap_or (dec_zero D)
       (map_option (\<lambda>v. max v (dec_zero D)) (dec_checked_sub D (tal_usd self) (tal_usd other))),
     tal_input_tokens = saturating_sub (tal_input_tokens self) (tal_input_tokens other),
     tal_output_tokens = saturating_sub (tal_output_tokens self) (tal_output_tokens other),
     tal_wall_clock_ms = saturating_sub (tal_wall_clock_ms self) (tal_wall_clock_ms other),
     tal_output_bytes = saturating_sub (tal_output_bytes self) (tal_output_bytes other),
     tal_network_egress_bytes =
       saturating_sub (tal_network_egress_bytes self) (tal_network_egress_bytes other),
     tal_process_count = saturating_sub (tal_process_count self) (tal_process_count other),
     tal_concurrency_slots =
       saturating_sub (tal_concurrency_slots self) (tal_concurrency_slots other)\<rparr>"

section \<open>State\<close>

record 'd ReservationRecord =
  rec_reservation :: "'d ResourceReservation"
  rec_accounts :: "ResourceAccount list"
  rec_tally :: "'d ResourceTally"
  rec_status :: ReservationStatus
  rec_actual :: "'d ResourceUsage option"

record 'd ResourceState =
  limits :: "(ResourceAccount, 'd ResourceLimits) hashmap"
  reserved_by_account :: "(ResourceAccount, 'd ResourceTally) hashmap"
  usage_by_account :: "(ResourceAccount, 'd ResourceTally) hashmap"
  reservations :: "(ResourceReservationId, 'd ReservationRecord) hashmap"
  period_anchors :: "(ResourceAccount, instant) hashmap"

definition ResourceState_default :: "'d ResourceState" where
  "ResourceState_default = \<lparr>limits = [], reserved_by_account = [], usage_by_account = [],
     reservations = [], period_anchors = []\<rparr>"

record 'd ReservationOutcome =
  out_reservation :: "'d ResourceReservation"
  out_warnings :: "'d BudgetWarning list"

record 'd PeriodLedger =
  period_start :: instant
  period_end :: instant
  spent :: "'d ResourceTally"
  reserved :: "'d ResourceTally"

record 'd AccountSnapshot =
  snap_account :: ResourceAccount
  snap_limits :: "'d ResourceLimits option"
  snap_ledger :: "'d PeriodLedger"

definition resource_state_has_finite_limits :: "'d::linorder decimal_ops \<Rightarrow> 'd ResourceState \<Rightarrow> bool" where
  "resource_state_has_finite_limits D st =
     list_ex (\<lambda>l. \<not> is_unlimited D l) (hm_values (limits st))"

section \<open>Limit and threshold checks\<close>

definition check_decimal ::
  "'d::linorder decimal_ops \<Rightarrow> ResourceAccount \<Rightarrow> ResourceDimension \<Rightarrow> 'd option \<Rightarrow> 'd \<Rightarrow> 'd \<Rightarrow> 'd
     \<Rightarrow> 'd ResourceDenial option" where
  "check_decimal D account dimension lim usage resv requested =
     (case opt_filter (\<lambda>v. dec_zero D < v) lim of None \<Rightarrow> None
      | Some limit \<Rightarrow>
          let exceeds = (case Option.bind (dec_checked_add D usage resv)
                                  (\<lambda>subtotal. dec_checked_add D subtotal requested) of
                Some tot \<Rightarrow> limit < tot
              | None \<Rightarrow> True)
          in if exceeds then
               Some \<lparr>den_account = account, den_dimension = dimension,
                 den_limit = ValDecimal limit, den_current_usage = ValDecimal usage,
                 den_active_reserved = ValDecimal resv, den_requested = ValDecimal requested\<rparr>
             else None)"

definition check_integer ::
  "ResourceAccount \<Rightarrow> ResourceDimension \<Rightarrow> u64 option \<Rightarrow> u64 \<Rightarrow> u64 \<Rightarrow> u64
     \<Rightarrow> 'd ResourceDenial option" where
  "check_integer account dimension lim usage resv requested =
     (case opt_filter (\<lambda>v. 0 < v) lim of None \<Rightarrow> None
      | Some limit \<Rightarrow>
          if limit < saturating_add (saturating_add usage resv) requested then
            Some \<lparr>den_account = account, den_dimension = dimension,
              den_limit = ValInteger limit, den_current_usage = ValInteger usage,
              den_active_reserved = ValInteger resv, den_requested = ValInteger requested\<rparr>
          else None)"

definition check_limits_first_denial ::
  "'d::linorder decimal_ops \<Rightarrow> ResourceAccount \<Rightarrow> 'd ResourceLimits \<Rightarrow> 'd ResourceTally
     \<Rightarrow> 'd ResourceTally \<Rightarrow> 'd ResourceTally \<Rightarrow> 'd ResourceDenial option" where
  "check_limits_first_denial D account l usage resv requested =
     or_else (check_decimal D account DimUsd (lim_usd l) (tal_usd usage) (tal_usd resv) (tal_usd requested))
     (or_else (check_integer account DimInputTokens (lim_input_tokens l)
        (tal_input_tokens usage) (tal_input_tokens resv) (tal_input_tokens requested))
     (or_else (check_integer account DimOutputTokens (lim_output_tokens l)
        (tal_output_tokens usage) (tal_output_tokens resv) (tal_output_tokens requested))
     (or_else (check_integer account DimWallClockMs (lim_wall_clock_ms l)
        (tal_wall_clock_ms usage) (tal_wall_clock_ms resv) (tal_wall_clock_ms requested))
     (or_else (check_integer account DimOutputBytes (lim_output_bytes l)
        (tal_output_bytes usage) (tal_output_bytes resv) (tal_output_bytes requested))
     (or_else (check_integer account DimNetworkEgressBytes (lim_network_egress_bytes l)
        (tal_network_egress_bytes usage) (tal_network_egress_bytes resv)
        (tal_network_egress_bytes requested))
     (or_else (check_integer account DimProcessCount (map_option u64_from (lim_process_count l))
        (u64_from (tal_process_count usage)) (u64_from (tal_process_count resv))
        (u64_from (tal_process_count requested)))
     (check_integer account DimConcurrencySlots (map_option u64_from (lim_concurrency_slots l))
        (u64_from (tal_concurrency_slots usage)) (u64_from (tal_concurrency_slots resv))
        (u64_from (tal_concurrency_slots requested)))))))))"

datatype 'd ThresholdIntervention = Warning "'d BudgetWarning" | Approval "'d ResourceApprovalNeeded"

text \<open>The common tail of \<open>threshold_decimal\<close> and \<open>threshold_integer\<close>, given the utilization.\<close>

definition threshold_decision ::
  "ResourceAccount \<Rightarrow> ResourceDimension \<Rightarrow> 'd ResourceValue \<Rightarrow> 'd ResourceValue \<Rightarrow> 'd ResourceValue
     \<Rightarrow> 'd ResourceValue \<Rightarrow> BudgetThresholds \<Rightarrow> instant option \<Rightarrow> f64 \<Rightarrow> 'd ThresholdIntervention option"
  where
  "threshold_decision account dimension limit usage resv requested t p_end utilization =
     (if f64_lt (pause_at t) f64_one \<and> f64_ge utilization (pause_at t) then
        Some (Approval \<lparr>apn_account = account, apn_dimension = dimension, apn_limit = limit,
          apn_current_usage = usage, apn_active_reserved = resv, apn_requested = requested,
          apn_utilization = utilization, apn_period_end = p_end\<rparr>)
      else if f64_lt (warn_at t) f64_one \<and> f64_ge utilization (warn_at t) then
        Some (Warning \<lparr>bw_account = account, bw_dimension = dimension,
          bw_utilization = utilization, bw_limit = limit, bw_period_end = p_end\<rparr>)
      else None)"

definition decimal_to_f64 :: "'d decimal_ops \<Rightarrow> 'd \<Rightarrow> f64" where
  "decimal_to_f64 D d = unwrap_or f64_zero (dec_to_f64 D d)"

definition threshold_decimal ::
  "'d::linorder decimal_ops \<Rightarrow> ResourceAccount \<Rightarrow> ResourceDimension \<Rightarrow> 'd option \<Rightarrow> 'd \<Rightarrow> 'd \<Rightarrow> 'd
     \<Rightarrow> BudgetThresholds \<Rightarrow> instant option \<Rightarrow> 'd ThresholdIntervention option" where
  "threshold_decimal D account dimension lim usage resv requested t p_end =
     Option.bind (opt_filter (\<lambda>v. dec_zero D < v) lim) (\<lambda>limit.
     Option.bind (dec_checked_add D usage resv) (\<lambda>subtotal.
     Option.bind (dec_checked_add D subtotal requested) (\<lambda>total.
       threshold_decision account dimension (ValDecimal limit) (ValDecimal usage) (ValDecimal resv)
         (ValDecimal requested) t p_end
         (f64_div (decimal_to_f64 D total) (decimal_to_f64 D limit)))))"

definition threshold_integer ::
  "ResourceAccount \<Rightarrow> ResourceDimension \<Rightarrow> u64 option \<Rightarrow> u64 \<Rightarrow> u64 \<Rightarrow> u64
     \<Rightarrow> BudgetThresholds \<Rightarrow> instant option \<Rightarrow> 'd ThresholdIntervention option" where
  "threshold_integer account dimension lim usage resv requested t p_end =
     Option.bind (opt_filter (\<lambda>v. 0 < v) lim) (\<lambda>limit.
       let total = saturating_add (saturating_add usage resv) requested
       in threshold_decision account dimension (ValInteger limit) (ValInteger usage) (ValInteger resv)
            (ValInteger requested) t p_end (f64_div (f64_of_u64 total) (f64_of_u64 limit)))"

definition warning_of_approval :: "'d ResourceApprovalNeeded \<Rightarrow> 'd BudgetWarning" where
  "warning_of_approval needed =
     \<lparr>bw_account = apn_account needed, bw_dimension = apn_dimension needed,
      bw_utilization = apn_utilization needed, bw_limit = apn_limit needed,
      bw_period_end = apn_period_end needed\<rparr>"

text \<open>The \<open>absorb\<close> closure: it pushes a warning and keeps the first approval.\<close>

fun absorb ::
  "'d BudgetWarning list \<times> 'd ResourceApprovalNeeded option \<Rightarrow> 'd ThresholdIntervention option
     \<Rightarrow> 'd BudgetWarning list \<times> 'd ResourceApprovalNeeded option" where
  "absorb acc None = acc"
| "absorb (warnings, approval) (Some (Warning w)) = (warnings @ [w], approval)"
| "absorb (warnings, approval) (Some (Approval needed)) =
     (warnings @ [warning_of_approval needed], or_else approval (Some needed))"

definition check_thresholds_all_interventions ::
  "'d::linorder decimal_ops \<Rightarrow> ResourceAccount \<Rightarrow> 'd ResourceLimits \<Rightarrow> 'd ResourceTally
     \<Rightarrow> 'd ResourceTally \<Rightarrow> 'd ResourceTally \<Rightarrow> instant option
     \<Rightarrow> 'd BudgetWarning list \<times> 'd ResourceApprovalNeeded option" where
  "check_thresholds_all_interventions D account l usage resv requested p_end =
     (let t = lim_thresholds l in
      if f64_ge (pause_at t) f64_one \<and> f64_ge (warn_at t) f64_one then ([], None)
      else
        foldl absorb ([], None)
          [threshold_decimal D account DimUsd (lim_usd l) (tal_usd usage) (tal_usd resv)
             (tal_usd requested) t p_end,
           threshold_integer account DimInputTokens (lim_input_tokens l)
             (tal_input_tokens usage) (tal_input_tokens resv) (tal_input_tokens requested) t p_end,
           threshold_integer account DimOutputTokens (lim_output_tokens l)
             (tal_output_tokens usage) (tal_output_tokens resv) (tal_output_tokens requested) t p_end,
           threshold_integer account DimWallClockMs (lim_wall_clock_ms l)
             (tal_wall_clock_ms usage) (tal_wall_clock_ms resv) (tal_wall_clock_ms requested) t p_end,
           threshold_integer account DimOutputBytes (lim_output_bytes l)
             (tal_output_bytes usage) (tal_output_bytes resv) (tal_output_bytes requested) t p_end,
           threshold_integer account DimNetworkEgressBytes (lim_network_egress_bytes l)
             (tal_network_egress_bytes usage) (tal_network_egress_bytes resv)
             (tal_network_egress_bytes requested) t p_end,
           threshold_integer account DimProcessCount (map_option u64_from (lim_process_count l))
             (u64_from (tal_process_count usage)) (u64_from (tal_process_count resv))
             (u64_from (tal_process_count requested)) t p_end,
           threshold_integer account DimConcurrencySlots (map_option u64_from (lim_concurrency_slots l))
             (u64_from (tal_concurrency_slots usage)) (u64_from (tal_concurrency_slots resv))
             (u64_from (tal_concurrency_slots requested)) t p_end])"

datatype 'd CascadeOutcome =
    CascadeAllow "'d BudgetWarning list"
  | CascadeRequiresApproval "'d BudgetWarning list" "'d ResourceApprovalNeeded"
  | CascadeDeny "'d BudgetWarning list" "'d ResourceDenial"

definition evaluate_cascade_for_account ::
  "'d::linorder decimal_ops \<Rightarrow> ResourceAccount \<Rightarrow> 'd ResourceLimits \<Rightarrow> 'd ResourceTally
     \<Rightarrow> 'd ResourceTally \<Rightarrow> 'd ResourceTally \<Rightarrow> instant option \<Rightarrow> 'd CascadeOutcome" where
  "evaluate_cascade_for_account D account l usage resv requested p_end =
     (let (warnings, approval) =
            check_thresholds_all_interventions D account l usage resv requested p_end
      in case check_limits_first_denial D account l usage resv requested of
           Some denial \<Rightarrow> CascadeDeny warnings denial
         | None \<Rightarrow> (case approval of
             Some needed \<Rightarrow> CascadeRequiresApproval warnings needed
           | None \<Rightarrow> CascadeAllow warnings))"

section \<open>Operations\<close>

definition set_limit_in_state ::
  "chrono_ops \<Rightarrow> 'd ResourceState \<Rightarrow> ResourceAccount \<Rightarrow> 'd ResourceLimits \<Rightarrow> instant \<Rightarrow> 'd ResourceState"
  where
  "set_limit_in_state C st account lims now =
     (let prior_period = map_option lim_period (hm_get (limits st) account);
          new_period = lim_period lims;
          st1 = (if prior_period \<noteq> Some new_period
                 then st\<lparr>usage_by_account := hm_remove account (usage_by_account st),
                         period_anchors := hm_remove account (period_anchors st)\<rparr>
                 else st);
          st2 = st1\<lparr>limits := hm_insert account lims (limits st1)\<rparr>
      in st2\<lparr>period_anchors :=
               hm_insert account (snd (period_bounds C new_period now)) (period_anchors st2)\<rparr>)"

definition advance_period_if_rolled_over ::
  "chrono_ops \<Rightarrow> 'd ResourceState \<Rightarrow> ResourceAccount \<Rightarrow> instant \<Rightarrow> 'd ResourceState" where
  "advance_period_if_rolled_over C st account now =
     (case hm_get (limits st) account of None \<Rightarrow> st
      | Some l \<Rightarrow>
          if lim_period l = PerInvocation then st
          else
            let needs_advance = (case hm_get (period_anchors st) account of
                    Some anchor \<Rightarrow> period_has_rolled_over anchor now | None \<Rightarrow> True)
            in if needs_advance then
                 st\<lparr>usage_by_account := hm_remove account (usage_by_account st),
                    period_anchors := hm_insert account (snd (period_bounds C (lim_period l) now))
                      (period_anchors st)\<rparr>
               else st)"

definition validate_estimate ::
  "'d::linorder decimal_ops \<Rightarrow> 'd ResourceEstimate \<Rightarrow> ('d ResourceError, unit) result" where
  "validate_estimate D e =
     (case est_usd e of
        Some u \<Rightarrow> if u < dec_zero D then Err (InvalidEstimate DimUsd ''must be non-negative'') else Ok ()
      | None \<Rightarrow> Ok ())"

definition validate_usage ::
  "'d::linorder decimal_ops \<Rightarrow> 'd ResourceUsage \<Rightarrow> ('d ResourceError, unit) result" where
  "validate_usage D u =
     (if use_usd u < dec_zero D then Err (InvalidEstimate DimUsd ''must be non-negative'') else Ok ())"

definition tally_at ::
  "'d decimal_ops \<Rightarrow> (ResourceAccount, 'd ResourceTally) hashmap \<Rightarrow> ResourceAccount \<Rightarrow> 'd ResourceTally"
  where
  "tally_at D m account = unwrap_or (tally_default D) (hm_get m account)"

text \<open>The limit-checking loop of \<open>reserve_with_outcome_in_state\<close>; it reads the state only.\<close>

fun check_cascade ::
  "'d::linorder decimal_ops \<Rightarrow> 'd ResourceState \<Rightarrow> 'd ResourceTally \<Rightarrow> 'd BudgetWarning list
     \<Rightarrow> ResourceAccount list \<Rightarrow> ('d ResourceError, 'd BudgetWarning list) result" where
  "check_cascade D st requested warnings [] = Ok warnings"
| "check_cascade D st requested warnings (account # accounts) =
     (case hm_get (limits st) account of
        None \<Rightarrow> check_cascade D st requested warnings accounts
      | Some l \<Rightarrow>
          (case evaluate_cascade_for_account D account l (tally_at D (usage_by_account st) account)
                  (tally_at D (reserved_by_account st) account) requested
                  (hm_get (period_anchors st) account) of
             CascadeAllow ws \<Rightarrow> check_cascade D st requested (warnings @ ws) accounts
           | CascadeRequiresApproval ws needed \<Rightarrow> Err (RequiresApproval needed (warnings @ ws))
           | CascadeDeny ws denial \<Rightarrow> Err (LimitExceeded denial (warnings @ ws))))"

definition add_reserved ::
  "'d decimal_ops \<Rightarrow> 'd ResourceTally \<Rightarrow> ResourceAccount \<Rightarrow> 'd ResourceState \<Rightarrow> 'd ResourceState" where
  "add_reserved D t account st =
     st\<lparr>reserved_by_account := hm_insert account
          (add_assign D (tally_at D (reserved_by_account st) account) t) (reserved_by_account st)\<rparr>"

definition sub_reserved ::
  "'d::linorder decimal_ops \<Rightarrow> 'd ResourceTally \<Rightarrow> ResourceAccount \<Rightarrow> 'd ResourceState \<Rightarrow> 'd ResourceState"
  where
  "sub_reserved D t account st =
     st\<lparr>reserved_by_account := hm_insert account
          (sub_assign D (tally_at D (reserved_by_account st) account) t) (reserved_by_account st)\<rparr>"

definition add_usage ::
  "'d decimal_ops \<Rightarrow> 'd ResourceTally \<Rightarrow> ResourceAccount \<Rightarrow> 'd ResourceState \<Rightarrow> 'd ResourceState" where
  "add_usage D t account st =
     st\<lparr>usage_by_account := hm_insert account
          (add_assign D (tally_at D (usage_by_account st) account) t) (usage_by_account st)\<rparr>"

definition advance_all ::
  "chrono_ops \<Rightarrow> instant \<Rightarrow> ResourceAccount list \<Rightarrow> 'd ResourceState \<Rightarrow> 'd ResourceState" where
  "advance_all C now accounts st = fold (\<lambda>a s. advance_period_if_rolled_over C s a now) accounts st"

definition reserve_with_outcome_in_state ::
  "'d::linorder decimal_ops \<Rightarrow> chrono_ops \<Rightarrow> 'd ResourceState \<Rightarrow> ResourceScope \<Rightarrow> 'd ResourceEstimate
     \<Rightarrow> ResourceReservationId \<Rightarrow> instant
     \<Rightarrow> ('d ResourceError, 'd ReservationOutcome) result \<times> 'd ResourceState" where
  "reserve_with_outcome_in_state D C st scope estimate reservation_id now =
     (case validate_estimate D estimate of Inl e \<Rightarrow> (Err e, st) | Inr _ \<Rightarrow>
      if hm_contains (reservations st) reservation_id then
        (Err (ReservationAlreadyExists reservation_id), st)
      else
        let accounts = cascade scope;
            requested = from_estimate D estimate;
            st1 = advance_all C now accounts st
        in case check_cascade D st1 requested [] accounts of
             Inl e \<Rightarrow> (Err e, st1)
           | Inr warnings \<Rightarrow>
               let reservation = \<lparr>res_id = reservation_id, res_scope = scope, res_estimate = estimate\<rparr>;
                   st2 = fold (add_reserved D requested) accounts st1;
                   st3 = st2\<lparr>reservations := hm_insert reservation_id
                           \<lparr>rec_reservation = reservation, rec_accounts = accounts,
                            rec_tally = requested, rec_status = RActive, rec_actual = None\<rparr>
                           (reservations st2)\<rparr>
               in (Ok \<lparr>out_reservation = reservation, out_warnings = warnings\<rparr>, st3))"

definition reconcile_in_state ::
  "'d::linorder decimal_ops \<Rightarrow> chrono_ops \<Rightarrow> 'd ResourceState \<Rightarrow> ResourceReservationId \<Rightarrow> 'd ResourceUsage
     \<Rightarrow> instant \<Rightarrow> ('d ResourceError, 'd ResourceReceipt) result \<times> 'd ResourceState" where
  "reconcile_in_state D C st reservation_id actual now =
     (case hm_get (reservations st) reservation_id of
        None \<Rightarrow> (Err (UnknownReservation reservation_id), st)
      | Some record \<Rightarrow>
          if rec_status record \<noteq> RActive then
            (Err (ReservationClosed reservation_id (rec_status record)), st)
          else case validate_usage D actual of Inl e \<Rightarrow> (Err e, st) | Inr _ \<Rightarrow>
            let st1 = fold (\<lambda>a s.
                    add_usage D (from_usage actual) a
                      (sub_reserved D (rec_tally record) a (advance_period_if_rolled_over C s a now)))
                    (rec_accounts record) st;
                receipt = \<lparr>rcpt_id = reservation_id, rcpt_scope = res_scope (rec_reservation record),
                  rcpt_status = RReconciled, rcpt_estimate = res_estimate (rec_reservation record),
                  rcpt_actual = Some actual\<rparr>
            in (Ok receipt,
                st1\<lparr>reservations := hm_insert reservation_id
                       (record\<lparr>rec_status := RReconciled, rec_actual := Some actual\<rparr>)
                       (reservations st1)\<rparr>))"

definition release_in_state ::
  "'d::linorder decimal_ops \<Rightarrow> chrono_ops \<Rightarrow> 'd ResourceState \<Rightarrow> ResourceReservationId \<Rightarrow> instant
     \<Rightarrow> ('d ResourceError, 'd ResourceReceipt) result \<times> 'd ResourceState" where
  "release_in_state D C st reservation_id now =
     (case hm_get (reservations st) reservation_id of
        None \<Rightarrow> (Err (UnknownReservation reservation_id), st)
      | Some record \<Rightarrow>
          if rec_status record \<noteq> RActive then
            (Err (ReservationClosed reservation_id (rec_status record)), st)
          else
            let st1 = fold (\<lambda>a s.
                    sub_reserved D (rec_tally record) a (advance_period_if_rolled_over C s a now))
                    (rec_accounts record) st;
                receipt = \<lparr>rcpt_id = reservation_id, rcpt_scope = res_scope (rec_reservation record),
                  rcpt_status = RReleased, rcpt_estimate = res_estimate (rec_reservation record),
                  rcpt_actual = None\<rparr>
            in (Ok receipt,
                st1\<lparr>reservations := hm_insert reservation_id (record\<lparr>rec_status := RReleased\<rparr>)
                       (reservations st1)\<rparr>))"

definition account_snapshot_in_state ::
  "'d decimal_ops \<Rightarrow> chrono_ops \<Rightarrow> 'd ResourceState \<Rightarrow> ResourceAccount \<Rightarrow> instant
     \<Rightarrow> 'd AccountSnapshot option \<times> 'd ResourceState" where
  "account_snapshot_in_state D C st account now =
     (let st1 = advance_period_if_rolled_over C st account now;
          lims = hm_get (limits st1) account;
          resv = tally_at D (reserved_by_account st1) account;
          spnt = tally_at D (usage_by_account st1) account
      in if lims = None \<and> resv = tally_default D \<and> spnt = tally_default D then (None, st1)
         else
           let period = unwrap_or PerInvocation (map_option lim_period lims);
               (p_start, p_end) = (case (hm_get (period_anchors st1) account, period) of
                   (Some e, Rolling24h) \<Rightarrow> (e - hours 24, e)
                 | _ \<Rightarrow> period_bounds C period now)
           in (Some \<lparr>snap_account = account, snap_limits = lims,
                 snap_ledger = \<lparr>period_start = p_start, period_end = p_end, spent = spnt,
                   reserved = resv\<rparr>\<rparr>, st1))"

end
