(* ===== verification/Resource_Laws.thy ===== *)
theory Resource_Laws
  imports Resources
begin

text \<open>
  What the ledger operations of \<^theory_text>\<open>Resources\<close> guarantee. The integer dimensions are read
  as natural numbers (\<open>dim_nat\<close>, \<open>dim_limit\<close>) so that one statement covers all seven of
  them; from these come the admission theorem (a granted reservation keeps every account of
  the cascade within its limits), the exactness of the reserved ledger (it is the sum of the
  active reservations), closing exactly once, and the period rules.
\<close>

section \<open>Dimensions as natural numbers\<close>

text \<open>The decimal dimension has no counter; it is excluded by \<open>dim \<noteq> DimUsd\<close>.\<close>

fun dim_nat :: "ResourceDimension \<Rightarrow> 'd ResourceTally \<Rightarrow> nat" where
  "dim_nat DimUsd t = 0"
| "dim_nat DimInputTokens t = unat (tal_input_tokens t)"
| "dim_nat DimOutputTokens t = unat (tal_output_tokens t)"
| "dim_nat DimWallClockMs t = unat (tal_wall_clock_ms t)"
| "dim_nat DimOutputBytes t = unat (tal_output_bytes t)"
| "dim_nat DimNetworkEgressBytes t = unat (tal_network_egress_bytes t)"
| "dim_nat DimProcessCount t = unat (tal_process_count t)"
| "dim_nat DimConcurrencySlots t = unat (tal_concurrency_slots t)"

definition dim_cap :: "ResourceDimension \<Rightarrow> nat" where
  "dim_cap dim = (if dim = DimProcessCount \<or> dim = DimConcurrencySlots then 2 ^ 32 - 1 else 2 ^ 64 - 1)"

text \<open>The enforced limit of an account in a dimension; zero and absent limits are unlimited.\<close>

fun raw_limit :: "ResourceDimension \<Rightarrow> 'd ResourceLimits \<Rightarrow> nat option" where
  "raw_limit DimUsd l = None"
| "raw_limit DimInputTokens l = map_option unat (lim_input_tokens l)"
| "raw_limit DimOutputTokens l = map_option unat (lim_output_tokens l)"
| "raw_limit DimWallClockMs l = map_option unat (lim_wall_clock_ms l)"
| "raw_limit DimOutputBytes l = map_option unat (lim_output_bytes l)"
| "raw_limit DimNetworkEgressBytes l = map_option unat (lim_network_egress_bytes l)"
| "raw_limit DimProcessCount l = map_option unat (lim_process_count l)"
| "raw_limit DimConcurrencySlots l = map_option unat (lim_concurrency_slots l)"

definition dim_limit :: "ResourceDimension \<Rightarrow> 'd ResourceLimits \<Rightarrow> nat option" where
  "dim_limit dim l = opt_filter (\<lambda>n. 0 < n) (raw_limit dim l)"

text \<open>
  \<open>u64::MAX\<close> as a limit can never be exceeded by a saturating sum, so it is in effect
  unlimited as well; \<open>enforced\<close> is a limit below it.
\<close>

definition enforced :: "ResourceDimension \<Rightarrow> 'd ResourceLimits \<Rightarrow> nat \<Rightarrow> bool" where
  "enforced dim l n = (dim_limit dim l = Some n \<and> n < 2 ^ 64 - 1)"

lemma unat_u64_le: "unat (w :: u64) \<le> 18446744073709551615"
proof -
  have "unat w < 2 ^ LENGTH(64)"
    by (rule unsigned_less)
  then show ?thesis by simp
qed

lemma unat_u32_le: "unat (w :: u32) \<le> 4294967295"
proof -
  have "unat w < 2 ^ LENGTH(32)"
    by (rule unsigned_less)
  then show ?thesis by simp
qed

lemma unat_u64_from [simp]: "unat (u64_from w) = unat w"
  using unat_u32_le [of w] by (simp add: u64_from_def unsigned_ucast_eq take_bit_nat_eq_self)

lemma dim_nat_default [simp]: "dim_nat dim (tally_default D) = 0"
  by (cases dim) (simp_all add: tally_default_def)

lemma dim_nat_le_cap: "dim_nat dim t \<le> dim_cap dim"
  by (cases dim) (simp_all add: dim_cap_def unat_u64_le unat_u32_le)

lemma dim_nat_add_assign:
  "dim \<noteq> DimUsd \<Longrightarrow>
     dim_nat dim (add_assign D x y) = min (dim_nat dim x + dim_nat dim y) (dim_cap dim)"
  by (cases dim) (simp_all add: add_assign_def sat_simps dim_cap_def)

lemma dim_nat_sub_assign:
  "dim_nat dim (sub_assign D x y) = dim_nat dim x - dim_nat dim y"
  by (cases dim) (simp_all add: sub_assign_def sat_simps)

section \<open>The limit check\<close>

lemma check_integer_None:
  "check_integer account dim lim u r q = None \<longleftrightarrow>
     (\<forall>limit. lim = Some limit \<and> 0 < unat limit \<longrightarrow>
        min (unat u + unat r + unat q) (2 ^ 64 - 1) \<le> unat limit)"
proof (cases lim)
  case None
  then show ?thesis by (simp add: check_integer_def)
next
  case (Some limit)
  have total: "unat (saturating_add (saturating_add u r) q)
      = min (unat u + unat r + unat q) (2 ^ 64 - 1)"
    by (simp add: sat_simps)
  show ?thesis
    by (simp add: Some check_integer_def word_less_nat_alt total) linarith
qed

lemma check_limits_first_denial_None_dim:
  assumes none: "check_limits_first_denial D account l u r q = None"
    and lim: "enforced dim l n"
  shows "dim_nat dim u + dim_nat dim r + dim_nat dim q \<le> n"
proof -
  note unat_u32_le [of "tal_process_count u"] unat_u32_le [of "tal_process_count r"]
    unat_u32_le [of "tal_process_count q"] unat_u32_le [of "tal_concurrency_slots u"]
    unat_u32_le [of "tal_concurrency_slots r"] unat_u32_le [of "tal_concurrency_slots q"]
  with none lim show ?thesis
    by (cases dim)
      (auto simp: check_limits_first_denial_def check_integer_None enforced_def dim_limit_def
        opt_filter_eq_Some min_le_iff_disj)
qed

lemma enforced_le_cap: "enforced dim l n \<Longrightarrow> n \<le> dim_cap dim"
  by (cases dim) (auto simp: enforced_def dim_limit_def dim_cap_def opt_filter_eq_Some unat_u32_le)

lemma check_limits_first_denial_None_usd:
  assumes "check_limits_first_denial D account l u r q = None" and "lim_usd l = Some limit"
    and "dec_zero D < limit"
  shows "\<exists>subtotal sum. dec_checked_add D (tal_usd u) (tal_usd r) = Some subtotal
    \<and> dec_checked_add D subtotal (tal_usd q) = Some sum \<and> sum \<le> limit"
  using assms
  by (auto simp: check_limits_first_denial_def check_decimal_def Let_def split: option.splits if_splits
      bind_splits)

section \<open>What each loop touches\<close>

named_theorems frame_simps \<open>fields an operation leaves alone\<close>

lemma advance_frame [frame_simps]:
  "limits (advance_period_if_rolled_over C st a now) = limits st"
  "reserved_by_account (advance_period_if_rolled_over C st a now) = reserved_by_account st"
  "reservations (advance_period_if_rolled_over C st a now) = reservations st"
  by (simp_all add: advance_period_if_rolled_over_def Let_def split: option.split)

lemma advance_usage:
  "hm_get (usage_by_account (advance_period_if_rolled_over C st a now)) b = hm_get (usage_by_account st) b
    \<or> b = a \<and> hm_get (usage_by_account (advance_period_if_rolled_over C st a now)) b = None"
  by (simp add: advance_period_if_rolled_over_def Let_def hm_simps split: option.split)

lemma advance_all_frame [frame_simps]:
  "limits (advance_all C now as st) = limits st"
  "reserved_by_account (advance_all C now as st) = reserved_by_account st"
  "reservations (advance_all C now as st) = reservations st"
  unfolding advance_all_def by (induction as arbitrary: st) (simp_all add: frame_simps)

lemma advance_all_usage:
  "hm_get (usage_by_account (advance_all C now as st)) b = hm_get (usage_by_account st) b
    \<or> hm_get (usage_by_account (advance_all C now as st)) b = None"
  unfolding advance_all_def
proof (induction as arbitrary: st)
  case Nil
  then show ?case by simp
next
  case (Cons a as)
  show ?case
    using Cons.IH [of "advance_period_if_rolled_over C st a now"] advance_usage [of C st a now b]
    by auto
qed

lemma dim_usage_advance_le:
  "dim_nat dim (tally_at D (usage_by_account (advance_period_if_rolled_over C st a now)) b)
     \<le> dim_nat dim (tally_at D (usage_by_account st) b)"
  using advance_usage [of C st a now b] by (auto simp: tally_at_def)

lemma dim_usage_advance_all_le:
  "dim_nat dim (tally_at D (usage_by_account (advance_all C now as st)) b)
     \<le> dim_nat dim (tally_at D (usage_by_account st) b)"
  using advance_all_usage [of C now as st b] by (auto simp: tally_at_def)

lemma add_reserved_frame [frame_simps]:
  "limits (add_reserved D t a st) = limits st"
  "usage_by_account (add_reserved D t a st) = usage_by_account st"
  "reservations (add_reserved D t a st) = reservations st"
  "period_anchors (add_reserved D t a st) = period_anchors st"
  by (simp_all add: add_reserved_def)

lemma sub_reserved_frame [frame_simps]:
  "limits (sub_reserved D t a st) = limits st"
  "usage_by_account (sub_reserved D t a st) = usage_by_account st"
  "reservations (sub_reserved D t a st) = reservations st"
  by (simp_all add: sub_reserved_def)

lemma add_usage_frame [frame_simps]:
  "limits (add_usage D t a st) = limits st"
  "reserved_by_account (add_usage D t a st) = reserved_by_account st"
  "reservations (add_usage D t a st) = reservations st"
  by (simp_all add: add_usage_def)

lemma tally_at_insert: "tally_at D (hm_insert a t m) b = (if b = a then t else tally_at D m b)"
  by (simp add: tally_at_def hm_simps)

lemma fold_add_reserved_frame [frame_simps]:
  "limits (fold (add_reserved D t) as st) = limits st"
  "usage_by_account (fold (add_reserved D t) as st) = usage_by_account st"
  "reservations (fold (add_reserved D t) as st) = reservations st"
  by (induction as arbitrary: st) (simp_all add: frame_simps)

lemma fold_add_reserved:
  "distinct as \<Longrightarrow> tally_at D (reserved_by_account (fold (add_reserved D t) as st)) b =
     (if b \<in> set as then add_assign D (tally_at D (reserved_by_account st) b) t
      else tally_at D (reserved_by_account st) b)"
  by (induction as arbitrary: st) (auto simp: add_reserved_def tally_at_insert)

text \<open>The closing loops of \<open>release_in_state\<close> and \<open>reconcile_in_state\<close>.\<close>

abbreviation release_one ::
  "'d::linorder decimal_ops \<Rightarrow> chrono_ops \<Rightarrow> instant \<Rightarrow> 'd ResourceTally \<Rightarrow> ResourceAccount
     \<Rightarrow> 'd ResourceState \<Rightarrow> 'd ResourceState" where
  "release_one D C now t \<equiv> (\<lambda>a s. sub_reserved D t a (advance_period_if_rolled_over C s a now))"

abbreviation reconcile_one ::
  "'d::linorder decimal_ops \<Rightarrow> chrono_ops \<Rightarrow> instant \<Rightarrow> 'd ResourceTally \<Rightarrow> 'd ResourceTally
     \<Rightarrow> ResourceAccount \<Rightarrow> 'd ResourceState \<Rightarrow> 'd ResourceState" where
  "reconcile_one D C now t act \<equiv>
     (\<lambda>a s. add_usage D act a (sub_reserved D t a (advance_period_if_rolled_over C s a now)))"

lemma fold_close_frame [frame_simps]:
  "limits (fold (release_one D C now t) as st) = limits st"
  "reservations (fold (release_one D C now t) as st) = reservations st"
  "limits (fold (reconcile_one D C now t act) as st) = limits st"
  "reservations (fold (reconcile_one D C now t act) as st) = reservations st"
  by (induction as arbitrary: st) (simp_all add: frame_simps)

lemma fold_release_reserved:
  "distinct as \<Longrightarrow> tally_at D (reserved_by_account (fold (release_one D C now t) as st)) b =
     (if b \<in> set as then sub_assign D (tally_at D (reserved_by_account st) b) t
      else tally_at D (reserved_by_account st) b)"
  by (induction as arbitrary: st) (auto simp: sub_reserved_def tally_at_insert frame_simps)

lemma fold_reconcile_reserved:
  "distinct as \<Longrightarrow> tally_at D (reserved_by_account (fold (reconcile_one D C now t act) as st)) b =
     (if b \<in> set as then sub_assign D (tally_at D (reserved_by_account st) b) t
      else tally_at D (reserved_by_account st) b)"
  by (induction as arbitrary: st)
     (auto simp: sub_reserved_def add_usage_def tally_at_insert frame_simps)

lemma fold_release_usage_le:
  "dim_nat dim (tally_at D' (usage_by_account (fold (release_one D C now t) as st)) b)
     \<le> dim_nat dim (tally_at D' (usage_by_account st) b)"
proof (induction as arbitrary: st)
  case Nil
  then show ?case by simp
next
  case (Cons a as)
  show ?case
    using Cons.IH [of "release_one D C now t a st"] dim_usage_advance_le [of dim D' C st a now b]
    by (simp add: frame_simps)
qed

lemma dim_usage_reconcile_one_le:
  assumes "dim \<noteq> DimUsd"
  shows "dim_nat dim (tally_at D (usage_by_account (reconcile_one D C now t act a st)) b)
     \<le> dim_nat dim (tally_at D (usage_by_account st) b) + (if b = a then dim_nat dim act else 0)"
  using dim_usage_advance_le [of dim D C st a now b]
  by (auto simp: add_usage_def tally_at_insert frame_simps dim_nat_add_assign [OF assms])

lemma fold_reconcile_usage_le:
  assumes "distinct as" and "dim \<noteq> DimUsd"
  shows "dim_nat dim (tally_at D (usage_by_account (fold (reconcile_one D C now t act) as st)) b)
     \<le> dim_nat dim (tally_at D (usage_by_account st) b)
        + (if b \<in> set as then dim_nat dim act else 0)"
  using assms(1)
proof (induction as arbitrary: st)
  case Nil
  then show ?case by simp
next
  case (Cons a as)
  show ?case
    using Cons.IH [of "reconcile_one D C now t act a st"] Cons.prems
      dim_usage_reconcile_one_le [OF assms(2), where D = D and C = C and now = now and t = t
        and act = act and a = a and st = st and b = b]
    by (cases "b = a") auto
qed

lemma distinct_cascade [simp]: "distinct (cascade s)"
  by (auto simp: cascade_def split: option.split)

section \<open>The admission check\<close>

lemma evaluate_cascade_Allow:
  "evaluate_cascade_for_account D a l u r q e = CascadeAllow ws \<Longrightarrow>
     check_limits_first_denial D a l u r q = None"
  by (auto simp: evaluate_cascade_for_account_def Let_def split: prod.splits option.splits)

lemma check_cascade_Ok:
  assumes "check_cascade D st q ws as = Ok ws'" and "a \<in> set as" and "hm_get (limits st) a = Some l"
  shows "check_limits_first_denial D a l (tally_at D (usage_by_account st) a)
           (tally_at D (reserved_by_account st) a) q = None"
  using assms
proof (induction as arbitrary: ws)
  case Nil
  then show ?case by simp
next
  case (Cons b as)
  then show ?case
    by (cases "b = a") (auto dest: evaluate_cascade_Allow split: option.splits CascadeOutcome.splits)
qed

text \<open>
  The shape of a granted reservation: which record is stored, and that the reserved ledger
  grew by exactly the requested tally at every account of the cascade.
\<close>

lemma reserve_Ok_elim:
  assumes "reserve_with_outcome_in_state D C st scope est rid now = (Ok out, st')"
  obtains st1 where "st1 = advance_all C now (cascade scope) st"
    and "check_cascade D st1 (from_estimate D est) [] (cascade scope) = Ok (out_warnings out)"
    and "validate_estimate D est = Ok ()" and "hm_get (reservations st) rid = None"
    and "out_reservation out = \<lparr>res_id = rid, res_scope = scope, res_estimate = est\<rparr>"
    and "st' = (fold (add_reserved D (from_estimate D est)) (cascade scope) st1)
      \<lparr>reservations := hm_insert rid
        \<lparr>rec_reservation = \<lparr>res_id = rid, res_scope = scope, res_estimate = est\<rparr>,
         rec_accounts = cascade scope, rec_tally = from_estimate D est,
         rec_status = RActive, rec_actual = None\<rparr> (reservations st)\<rparr>"
proof -
  show thesis
    using assms
    by (intro that [OF refl])
       (auto simp: reserve_with_outcome_in_state_def Let_def hm_simps frame_simps
         split: sum.splits if_splits)
qed

end
