(* ===== verification/Resource_Ledger.thy ===== *)
theory Resource_Ledger
  imports Resource_Laws
begin

text \<open>
  The ledger under sequences of operations. A trace is a list of timed calls to the five
  operations of \<open>state.rs\<close>, in the order the governor's mutex serialises them. The theorems say
  that a granted reservation fits its limits, that a budget once kept stays kept, that the
  reserved ledger never over-counts and is exact where a limit is enforced, that a reservation
  closes exactly once, and that denials are truthful and leave the ledger as it was.
\<close>

section \<open>Traces\<close>

datatype 'd LedgerOp =
    OpSetLimit ResourceAccount "'d ResourceLimits"
  | OpReserve ResourceScope "'d ResourceEstimate" ResourceReservationId
  | OpReconcile ResourceReservationId "'d ResourceUsage"
  | OpRelease ResourceReservationId
  | OpSnapshot ResourceAccount

fun apply_op ::
  "'d::linorder decimal_ops \<Rightarrow> chrono_ops \<Rightarrow> 'd LedgerOp \<times> instant \<Rightarrow> 'd ResourceState \<Rightarrow> 'd ResourceState"
  where
  "apply_op D C (OpSetLimit a l, now) st = set_limit_in_state C st a l now"
| "apply_op D C (OpReserve s e i, now) st = snd (reserve_with_outcome_in_state D C st s e i now)"
| "apply_op D C (OpReconcile i u, now) st = snd (reconcile_in_state D C st i u now)"
| "apply_op D C (OpRelease i, now) st = snd (release_in_state D C st i now)"
| "apply_op D C (OpSnapshot a, now) st = snd (account_snapshot_in_state D C st a now)"

definition run_ops ::
  "'d::linorder decimal_ops \<Rightarrow> chrono_ops \<Rightarrow> ('d LedgerOp \<times> instant) list \<Rightarrow> 'd ResourceState
     \<Rightarrow> 'd ResourceState" where
  "run_ops D C ops st = fold (apply_op D C) ops st"

lemma run_ops_simps [simp]:
  "run_ops D C [] st = st"
  "run_ops D C (op # ops) st = run_ops D C ops (apply_op D C op st)"
  by (simp_all add: run_ops_def)

lemma run_ops_invariant:
  assumes "P st" and "\<And>op s. P s \<Longrightarrow> P (apply_op D C op s)"
  shows "P (run_ops D C ops st)"
  using assms(1) by (induction ops arbitrary: st) (simp_all add: assms(2))

section \<open>Vocabulary\<close>

abbreviation reserved_of :: "'d decimal_ops \<Rightarrow> ResourceDimension \<Rightarrow> ResourceAccount \<Rightarrow> 'd ResourceState \<Rightarrow> nat" where
  "reserved_of D dim a st \<equiv> dim_nat dim (tally_at D (reserved_by_account st) a)"

abbreviation used_of :: "'d decimal_ops \<Rightarrow> ResourceDimension \<Rightarrow> ResourceAccount \<Rightarrow> 'd ResourceState \<Rightarrow> nat" where
  "used_of D dim a st \<equiv> dim_nat dim (tally_at D (usage_by_account st) a)"

text \<open>What one record holds at an account, and the sum over the active records.\<close>

definition held_by :: "ResourceDimension \<Rightarrow> ResourceAccount \<Rightarrow> 'd ReservationRecord \<Rightarrow> nat" where
  "held_by dim a r =
     (if rec_status r = RActive \<and> a \<in> set (rec_accounts r) then dim_nat dim (rec_tally r) else 0)"

definition active_sum :: "ResourceDimension \<Rightarrow> ResourceAccount \<Rightarrow> 'd ResourceState \<Rightarrow> nat" where
  "active_sum dim a st = hm_sum (held_by dim a) (reservations st)"

text \<open>Every stored record is charged to the cascade of its own scope, under its own id.\<close>

definition records_wf :: "'d decimal_ops \<Rightarrow> 'd ResourceState \<Rightarrow> bool" where
  "records_wf D st = list_all (\<lambda>(k, r).
      res_id (rec_reservation r) = k
      \<and> rec_accounts r = cascade (res_scope (rec_reservation r))
      \<and> rec_tally r = from_estimate D (res_estimate (rec_reservation r))) (reservations st)"

lemma hm_get_in_set: "hm_get m k = Some v \<Longrightarrow> (k, v) \<in> set m"
  by (simp add: hm_get_def map_of_SomeD)

lemma set_hm_insert: "set (hm_insert k v m) \<subseteq> insert (k, v) (set m)"
  by (induction m) (auto simp: hm_insert_def)

lemma records_wf_insert:
  assumes "records_wf D st" and "res_id (rec_reservation r) = k"
    and "rec_accounts r = cascade (res_scope (rec_reservation r))"
    and "rec_tally r = from_estimate D (res_estimate (rec_reservation r))"
  shows "records_wf D (s\<lparr>reservations := hm_insert k r (reservations st)\<rparr>)"
  using assms set_hm_insert [of k r "reservations st"]
  by (auto simp: records_wf_def list_all_iff)

lemma records_wf_get:
  assumes "records_wf D st" and "hm_get (reservations st) k = Some r"
  shows "res_id (rec_reservation r) = k"
    and "rec_accounts r = cascade (res_scope (rec_reservation r))"
    and "rec_tally r = from_estimate D (res_estimate (rec_reservation r))"
  using hm_get_in_set [OF assms(2)] assms(1) by (auto simp: records_wf_def list_all_iff)

section \<open>Each operation in terms of its effect\<close>

lemma reserve_Err_frame:
  assumes "reserve_with_outcome_in_state D C st scope est rid now = (Err e, st')"
  shows "st' = st \<or> st' = advance_all C now (cascade scope) st"
  using assms
  by (auto simp: reserve_with_outcome_in_state_def Let_def split: sum.splits if_splits)

lemma release_Ok_elim:
  assumes "release_in_state D C st rid now = (Ok rcpt, st')"
  obtains r where "hm_get (reservations st) rid = Some r" and "rec_status r = RActive"
    and "st' = (fold (release_one D C now (rec_tally r)) (rec_accounts r) st)
           \<lparr>reservations := hm_insert rid (r\<lparr>rec_status := RReleased\<rparr>) (reservations st)\<rparr>"
proof -
  show thesis
    using assms
    by (auto simp: release_in_state_def Let_def frame_simps split: option.splits if_splits intro: that)
qed

lemma reconcile_Ok_elim:
  assumes "reconcile_in_state D C st rid u now = (Ok rcpt, st')"
  obtains r where "hm_get (reservations st) rid = Some r" and "rec_status r = RActive"
    and "validate_usage D u = Ok ()"
    and "st' = (fold (reconcile_one D C now (rec_tally r) (from_usage u)) (rec_accounts r) st)
           \<lparr>reservations := hm_insert rid (r\<lparr>rec_status := RReconciled, rec_actual := Some u\<rparr>)
              (reservations st)\<rparr>"
proof -
  show thesis
    using assms
    by (auto simp: reconcile_in_state_def Let_def frame_simps split: option.splits if_splits sum.splits
        intro: that)
qed

lemma close_Err_frame:
  "release_in_state D C st rid now = (Err e, st') \<Longrightarrow> st' = st"
  "reconcile_in_state D C st rid u now = (Err e, st') \<Longrightarrow> st' = st"
  by (auto simp: release_in_state_def reconcile_in_state_def Let_def
      split: option.splits if_splits sum.splits)

lemma snapshot_state: "snd (account_snapshot_in_state D C st a now) = advance_period_if_rolled_over C st a now"
  by (simp add: account_snapshot_in_state_def Let_def split: prod.splits option.splits BudgetPeriod.splits)

lemma set_limit_frame [frame_simps]:
  "reserved_by_account (set_limit_in_state C st a l now) = reserved_by_account st"
  "reservations (set_limit_in_state C st a l now) = reservations st"
  "limits (set_limit_in_state C st a l now) = hm_insert a l (limits st)"
  by (simp_all add: set_limit_in_state_def Let_def)

lemma set_limit_usage_le:
  "used_of D dim b (set_limit_in_state C st a l now) \<le> used_of D dim b st"
  by (simp add: set_limit_in_state_def Let_def tally_at_def hm_simps)

text \<open>
  How one operation changes the state: it settles nothing, opens one reservation, or closes one
  active reservation. \<open>op_effect\<close> is the relation the invariants below are proved from, once
  for all five operations.
\<close>

inductive op_effect ::
  "'d::linorder decimal_ops \<Rightarrow> chrono_ops \<Rightarrow> instant \<Rightarrow> 'd LedgerOp \<Rightarrow> 'd ResourceState \<Rightarrow> 'd ResourceState \<Rightarrow> bool"
  for D :: "'d::linorder decimal_ops" and C :: chrono_ops and now :: instant where
  quiet: "reserved_by_account st' = reserved_by_account st \<Longrightarrow> reservations st' = reservations st \<Longrightarrow>
    (\<And>dim b. used_of D dim b st' \<le> used_of D dim b st) \<Longrightarrow>
    limits st' = (case op of OpSetLimit a l \<Rightarrow> hm_insert a l (limits st) | _ \<Rightarrow> limits st) \<Longrightarrow>
    op_effect D C now op st st'"
| opened: "reserve_with_outcome_in_state D C st s e i now = (Ok out, st') \<Longrightarrow>
    op_effect D C now (OpReserve s e i) st st'"
| reconciled: "reconcile_in_state D C st i u now = (Ok rcpt, st') \<Longrightarrow>
    op_effect D C now (OpReconcile i u) st st'"
| released: "release_in_state D C st i now = (Ok rcpt, st') \<Longrightarrow>
    op_effect D C now (OpRelease i) st st'"

lemma apply_op_effect: "op_effect D C now op st (apply_op D C (op, now) st)"
proof (cases op)
  case (OpSetLimit a l)
  then show ?thesis
    by (auto intro!: quiet simp: frame_simps set_limit_usage_le)
next
  case (OpReserve s e i)
  then show ?thesis
  proof (cases "reserve_with_outcome_in_state D C st s e i now")
    case (Pair r st')
    show ?thesis
    proof (cases r)
      case (Inl err)
      with Pair reserve_Err_frame [of D C st s e i now err st'] OpReserve show ?thesis
        by (auto intro!: quiet simp: frame_simps dim_usage_advance_all_le)
    next
      case (Inr out)
      with Pair OpReserve show ?thesis
        by (auto intro: opened)
    qed
  qed
next
  case (OpReconcile i u)
  then show ?thesis
  proof (cases "reconcile_in_state D C st i u now")
    case (Pair r st')
    with OpReconcile show ?thesis
      by (cases r) (auto intro: reconciled quiet [where st' = st] dest!: close_Err_frame(2))
  qed
next
  case (OpRelease i)
  then show ?thesis
  proof (cases "release_in_state D C st i now")
    case (Pair r st')
    with OpRelease show ?thesis
      by (cases r) (auto intro: released quiet [where st' = st] dest!: close_Err_frame(1))
  qed
next
  case (OpSnapshot a)
  then show ?thesis
    by (auto intro!: quiet simp: snapshot_state frame_simps dim_usage_advance_le)
qed

section \<open>What opening and closing do to the sums\<close>

abbreviation share :: "ResourceDimension \<Rightarrow> ResourceAccount \<Rightarrow> ResourceAccount list \<Rightarrow> 'd ResourceTally \<Rightarrow> nat" where
  "share dim a as t \<equiv> (if a \<in> set as then dim_nat dim t else 0)"

lemma opened_effect:
  assumes "reserve_with_outcome_in_state D C st s e i now = (Ok out, st')" and "dim \<noteq> DimUsd"
  shows "active_sum dim a st' = active_sum dim a st + share dim a (cascade s) (from_estimate D e)"
    and "reserved_of D dim a st' =
      (if a \<in> set (cascade s) then min (reserved_of D dim a st + dim_nat dim (from_estimate D e)) (dim_cap dim)
       else reserved_of D dim a st)"
    and "used_of D dim a st' \<le> used_of D dim a st"
    and "limits st' = limits st"
  by (rule reserve_Ok_elim [OF assms(1)],
      simp add: active_sum_def hm_sum_insert_new held_by_def frame_simps fold_add_reserved
        dim_nat_add_assign [OF assms(2)] dim_usage_advance_all_le)+

lemma opened_no_denial:
  assumes "reserve_with_outcome_in_state D C st s e i now = (Ok out, st')"
    and "a \<in> set (cascade s)" and "hm_get (limits st') a = Some l"
  shows "check_limits_first_denial D a l (tally_at D (usage_by_account st') a)
    (tally_at D (reserved_by_account st) a) (from_estimate D e) = None"
proof (rule reserve_Ok_elim [OF assms(1)])
  fix st1
  assume 1: "st1 = advance_all C now (cascade s) st"
    "check_cascade D st1 (from_estimate D e) [] (cascade s) = Ok (out_warnings out)"
    "st' = (fold (add_reserved D (from_estimate D e)) (cascade s) st1)
      \<lparr>reservations := hm_insert i
        \<lparr>rec_reservation = \<lparr>res_id = i, res_scope = s, res_estimate = e\<rparr>,
         rec_accounts = cascade s, rec_tally = from_estimate D e,
         rec_status = RActive, rec_actual = None\<rparr> (reservations st)\<rparr>"
  then have "hm_get (limits st1) a = Some l"
    using assms(3) by (simp add: frame_simps)
  from check_cascade_Ok [OF 1(2) assms(2) this] show ?thesis
    by (simp add: 1 frame_simps)
qed

lemma opened_admission:
  assumes "reserve_with_outcome_in_state D C st s e i now = (Ok out, st')"
    and "a \<in> set (cascade s)" and "hm_get (limits st') a = Some l" and "enforced dim l n"
  shows "used_of D dim a st' + reserved_of D dim a st + dim_nat dim (from_estimate D e) \<le> n"
  by (rule check_limits_first_denial_None_dim [OF opened_no_denial [OF assms(1-3)] assms(4)])

lemma released_effect:
  assumes "release_in_state D C st i now = (Ok rcpt, st')" and "records_wf D st" and "dim \<noteq> DimUsd"
    and "hm_get (reservations st) i = Some r"
  shows "active_sum dim a st' + share dim a (rec_accounts r) (rec_tally r) = active_sum dim a st"
    and "reserved_of D dim a st' = reserved_of D dim a st - share dim a (rec_accounts r) (rec_tally r)"
    and "used_of D dim a st' \<le> used_of D dim a st"
    and "limits st' = limits st"
proof -
  have "distinct (rec_accounts r)"
    by (simp add: records_wf_get(2) [OF assms(2,4)])
  moreover from assms(1,4) have "rec_status r = RActive"
    and "st' = (fold (release_one D C now (rec_tally r)) (rec_accounts r) st)
           \<lparr>reservations := hm_insert i (r\<lparr>rec_status := RReleased\<rparr>) (reservations st)\<rparr>"
    by (auto elim!: release_Ok_elim)
  ultimately show "active_sum dim a st' + share dim a (rec_accounts r) (rec_tally r) = active_sum dim a st"
    and "reserved_of D dim a st' = reserved_of D dim a st - share dim a (rec_accounts r) (rec_tally r)"
    and "used_of D dim a st' \<le> used_of D dim a st"
    and "limits st' = limits st"
    using hm_sum_insert_replace [OF assms(4), of "held_by dim a" "r\<lparr>rec_status := RReleased\<rparr>"]
    by (simp_all add: active_sum_def held_by_def frame_simps fold_release_reserved
        dim_nat_sub_assign fold_release_usage_le)
qed

lemma reconciled_effect:
  assumes "reconcile_in_state D C st i u now = (Ok rcpt, st')" and "records_wf D st" and "dim \<noteq> DimUsd"
    and "hm_get (reservations st) i = Some r"
  shows "active_sum dim a st' + share dim a (rec_accounts r) (rec_tally r) = active_sum dim a st"
    and "reserved_of D dim a st' = reserved_of D dim a st - share dim a (rec_accounts r) (rec_tally r)"
    and "used_of D dim a st' \<le> used_of D dim a st + share dim a (rec_accounts r) (from_usage u)"
    and "limits st' = limits st"
proof -
  have dist: "distinct (rec_accounts r)"
    by (simp add: records_wf_get(2) [OF assms(2,4)])
  moreover from assms(1,4) have "rec_status r = RActive"
    and "st' = (fold (reconcile_one D C now (rec_tally r) (from_usage u)) (rec_accounts r) st)
           \<lparr>reservations := hm_insert i (r\<lparr>rec_status := RReconciled, rec_actual := Some u\<rparr>)
              (reservations st)\<rparr>"
    by (auto elim!: reconcile_Ok_elim)
  ultimately show "active_sum dim a st' + share dim a (rec_accounts r) (rec_tally r) = active_sum dim a st"
    and "reserved_of D dim a st' = reserved_of D dim a st - share dim a (rec_accounts r) (rec_tally r)"
    and "used_of D dim a st' \<le> used_of D dim a st + share dim a (rec_accounts r) (from_usage u)"
    and "limits st' = limits st"
    using hm_sum_insert_replace [OF assms(4), of "held_by dim a"
        "r\<lparr>rec_status := RReconciled, rec_actual := Some u\<rparr>"]
      fold_reconcile_usage_le [OF dist assms(3), where D = D and C = C and now = now
          and t = "rec_tally r" and act = "from_usage u" and st = st and b = a]
    by (simp_all add: active_sum_def held_by_def frame_simps fold_reconcile_reserved dim_nat_sub_assign)
qed

lemma records_wf_effect:
  "op_effect D C now op st st' \<Longrightarrow> records_wf D st \<Longrightarrow> records_wf D st'"
proof (induction rule: op_effect.induct)
  case (quiet st' st op)
  then show ?case by (simp add: records_wf_def)
next
  case (opened st s e i out st')
  then show ?case
    by (elim reserve_Ok_elim) (auto intro!: records_wf_insert)
next
  case (reconciled st i u rcpt st')
  then show ?case
    by (elim reconcile_Ok_elim) (auto intro!: records_wf_insert simp: records_wf_get)
next
  case (released st i rcpt st')
  then show ?case
    by (elim release_Ok_elim) (auto intro!: records_wf_insert simp: records_wf_get)
qed

section \<open>A concrete ledger\<close>

text \<open>
  Instances for the examples: amounts as integer minor units with the ninety-six bit bound of
  \<open>rust_decimal\<close>, and the UTC time zone with its proleptic Gregorian calendar (days are
  counted from 1970-01-01, a Thursday).
\<close>

definition cents :: "int decimal_ops" where
  "cents = \<lparr>dec_zero = 0, dec_max = 2 ^ 96 - 1,
     dec_checked_add = (\<lambda>a b. if \<bar>a + b\<bar> < 2 ^ 96 then Some (a + b) else None),
     dec_checked_sub = (\<lambda>a b. if \<bar>a - b\<bar> < 2 ^ 96 then Some (a - b) else None),
     dec_to_f64 = (\<lambda>a. Some (if a < 0 then f64_neg (f64_round (- a) 100) else f64_round a 100))\<rparr>"

definition gregorian_year_month :: "int \<Rightarrow> int \<times> int" where
  "gregorian_year_month day =
     (let z = day + 719468; era = z div 146097; doe = z mod 146097;
          yoe = (doe - doe div 1460 + doe div 36524 - doe div 146096) div 365;
          doy = doe - (365 * yoe + yoe div 4 - yoe div 100);
          mp = (5 * doy + 2) div 153;
          m = (if mp < 10 then mp + 3 else mp - 9)
      in (yoe + era * 400 + (if m \<le> 2 then 1 else 0), m))"

definition gregorian_day :: "int \<Rightarrow> int \<Rightarrow> int \<Rightarrow> int" where
  "gregorian_day y m d =
     (let y' = (if m \<le> 2 then y - 1 else y); era = y' div 400; yoe = y' mod 400;
          doy = (153 * (if 2 < m then m - 3 else m + 9) + 2) div 5 + d - 1
      in era * 146097 + (yoe * 365 + yoe div 4 - yoe div 100 + doy) - 719468)"

definition utc :: chrono_ops where
  "utc = \<lparr>ch_max_utc = days 95026236,
     ch_local_date = (\<lambda>tz t. t div days 1),
     ch_num_days_from_monday = (\<lambda>d. (d + 3) mod 7),
     ch_year = (\<lambda>d. fst (gregorian_year_month d)),
     ch_month = (\<lambda>d. snd (gregorian_year_month d)),
     ch_from_ymd_opt = (\<lambda>y m d. if 1 \<le> m \<and> m \<le> 12 \<and> 1 \<le> d \<and> d \<le> 28
        then Some (gregorian_day y m d) else None),
     ch_earliest_midnight = (\<lambda>tz d. Some (days d))\<rparr>"

definition example_limits :: "int ResourceLimits" where
  "example_limits = \<lparr>lim_usd = Some 500, lim_input_tokens = Some 1000, lim_output_tokens = None,
     lim_wall_clock_ms = None, lim_output_bytes = None, lim_network_egress_bytes = None,
     lim_process_count = Some 4, lim_concurrency_slots = Some 0,
     lim_period = Calendar ''UTC'' Day, lim_thresholds = BudgetThresholds_RECOMMENDED\<rparr>"

definition example_scope :: ResourceScope where
  "example_scope = \<lparr>rs_tenant_id = ''acme'', rs_user_id = ''ann'', rs_agent_id = None,
     rs_project_id = None, rs_mission_id = None, rs_thread_id = None, rs_invocation_id = 7\<rparr>"

definition example_estimate :: "u64 \<Rightarrow> int ResourceEstimate" where
  "example_estimate tokens = \<lparr>est_usd = Some 120, est_input_tokens = Some tokens,
     est_output_tokens = None, est_wall_clock_ms = None, est_output_bytes = None,
     est_network_egress_bytes = None, est_process_count = Some 1, est_concurrency_slots = Some 1\<rparr>"

definition example_usage :: "u64 \<Rightarrow> int ResourceUsage" where
  "example_usage tokens = \<lparr>use_usd = 90, use_input_tokens = tokens, use_output_tokens = 0,
     use_wall_clock_ms = 0, use_output_bytes = 0, use_network_egress_bytes = 0,
     use_process_count = 1\<rparr>"

text \<open>
  Noon of 2024-03-01 (day 19783). The tenant's limit is set, reservation 1 has been reconciled
  and reservation 2 is active.
\<close>

definition noon :: instant where
  "noon = days 19783 + hours 12"

definition example_record ::
  "ResourceReservationId \<Rightarrow> u64 \<Rightarrow> ReservationStatus \<Rightarrow> int ResourceUsage option \<Rightarrow> int ReservationRecord" where
  "example_record i tokens status act = \<lparr>
     rec_reservation = \<lparr>res_id = i, res_scope = example_scope, res_estimate = example_estimate tokens\<rparr>,
     rec_accounts = cascade example_scope, rec_tally = from_estimate cents (example_estimate tokens),
     rec_status = status, rec_actual = act\<rparr>"

definition example_ledger :: "int ResourceState" where
  "example_ledger = \<lparr>
     limits = [(AccTenant ''acme'', example_limits)],
     reserved_by_account =
       [(AccTenant ''acme'', from_estimate cents (example_estimate 200)),
        (AccUser ''acme'' ''ann'', from_estimate cents (example_estimate 200))],
     usage_by_account =
       [(AccTenant ''acme'', from_usage (example_usage 250)),
        (AccUser ''acme'' ''ann'', from_usage (example_usage 250))],
     reservations =
       [(1, example_record 1 300 RReconciled (Some (example_usage 250))),
        (2, example_record 2 200 RActive None)],
     period_anchors = [(AccTenant ''acme'', days 19784)]\<rparr>"

abbreviation acme :: ResourceAccount where
  "acme \<equiv> AccTenant ''acme''"

lemma example_ledger_facts:
  "records_wf cents example_ledger"
  "hm_get (limits example_ledger) acme = Some example_limits"
  "enforced DimInputTokens example_limits 1000"
  "active_sum DimInputTokens acme example_ledger = 200"
  "reserved_of cents DimInputTokens acme example_ledger = 200"
  "used_of cents DimInputTokens acme example_ledger = 250"
  by (code_simp, code_simp, simp add: enforced_def dim_limit_def example_limits_def, code_simp+)

section \<open>Properties\<close>

text \<open>
  C4: a granted reservation fits every budget it is charged to. For each account of the
  scope's cascade that has a limit, usage plus reserved (the new request included) is within
  the enforced limit in every integer dimension, the reserved ledger grew by exactly the
  requested amount there, and in US dollars the sum computed without overflow is at most the
  limit.
\<close>

theorem reserve_admission:
  assumes "reserve_with_outcome_in_state D C st scope est rid now = (Ok out, st')"
    and "a \<in> set (cascade scope)" and "hm_get (limits st') a = Some l"
  shows "(dim \<noteq> DimUsd \<and> enforced dim l n \<longrightarrow>
      used_of D dim a st' + reserved_of D dim a st' \<le> n
      \<and> reserved_of D dim a st' = reserved_of D dim a st + dim_nat dim (from_estimate D est))
    \<and> (lim_usd l = Some limit \<and> dec_zero D < limit \<longrightarrow>
      (\<exists>subtotal sum. dec_checked_add D (tal_usd (tally_at D (usage_by_account st') a))
           (tal_usd (tally_at D (reserved_by_account st) a)) = Some subtotal
        \<and> dec_checked_add D subtotal (tal_usd (from_estimate D est)) = Some sum
        \<and> sum \<le> limit))"
proof (intro conjI impI)
  assume *: "dim \<noteq> DimUsd \<and> enforced dim l n"
  with opened_admission [OF assms] enforced_le_cap [of dim l n]
    opened_effect(2) [OF assms(1), of dim a] assms(2)
  show "used_of D dim a st' + reserved_of D dim a st' \<le> n"
    and "reserved_of D dim a st' = reserved_of D dim a st + dim_nat dim (from_estimate D est)"
    by fastforce+
next
  assume "lim_usd l = Some limit \<and> dec_zero D < limit"
  with check_limits_first_denial_None_usd [OF opened_no_denial [OF assms]]
  show "\<exists>subtotal sum. dec_checked_add D (tal_usd (tally_at D (usage_by_account st') a))
           (tal_usd (tally_at D (reserved_by_account st) a)) = Some subtotal
        \<and> dec_checked_add D subtotal (tal_usd (from_estimate D est)) = Some sum
        \<and> sum \<le> limit"
    by blast
qed

lemma reserve_admission_witness:
  "\<exists>out st'. reserve_with_outcome_in_state cents utc example_ledger example_scope (example_estimate 100) 3 noon
       = (Ok out, st')
     \<and> used_of cents DimInputTokens acme st' + reserved_of cents DimInputTokens acme st' \<le> 1000"
proof -
  have "is_ok (fst (reserve_with_outcome_in_state cents utc example_ledger example_scope
      (example_estimate 100) 3 noon))"
    by code_simp
  then obtain out st' where 1: "reserve_with_outcome_in_state cents utc example_ledger example_scope
      (example_estimate 100) 3 noon = (Ok out, st')"
    by (rule is_okE)
  have lim: "hm_get (limits st') acme = Some example_limits"
    using opened_effect(4) [OF 1, of DimInputTokens] by (simp add: example_ledger_facts)
  have "acme \<in> set (cascade example_scope)"
    by code_simp
  then have "used_of cents DimInputTokens acme st' + reserved_of cents DimInputTokens acme st' \<le> 1000"
    by (rule reserve_admission [OF 1 _ lim, THEN conjunct1, THEN mp, THEN conjunct1])
      (simp add: example_ledger_facts)
  with 1 show ?thesis by blast
qed

definition budget_kept ::
  "'d decimal_ops \<Rightarrow> ResourceDimension \<Rightarrow> ResourceAccount \<Rightarrow> nat \<Rightarrow> 'd ResourceState \<Rightarrow> bool" where
  "budget_kept D dim a n st \<longleftrightarrow>
     records_wf D st
     \<and> (case hm_get (limits st) a of None \<Rightarrow> False | Some l \<Rightarrow> enforced dim l n)
     \<and> reserved_of D dim a st = active_sum dim a st
     \<and> used_of D dim a st + reserved_of D dim a st \<le> n"

fun op_respects :: "ResourceDimension \<Rightarrow> ResourceAccount \<Rightarrow> 'd ResourceState \<Rightarrow> 'd LedgerOp \<Rightarrow> bool" where
  "op_respects dim a st (OpSetLimit b l) = (b \<noteq> a)"
| "op_respects dim a st (OpReconcile i u) =
     (case hm_get (reservations st) i of None \<Rightarrow> True
      | Some r \<Rightarrow> dim_nat dim (from_usage u) \<le> dim_nat dim (rec_tally r))"
| "op_respects dim a st _ = True"

fun trace_respects ::
  "'d::linorder decimal_ops \<Rightarrow> chrono_ops \<Rightarrow> ResourceDimension \<Rightarrow> ResourceAccount
     \<Rightarrow> ('d LedgerOp \<times> instant) list \<Rightarrow> 'd ResourceState \<Rightarrow> bool" where
  "trace_respects D C dim a [] st = True"
| "trace_respects D C dim a ((op, now) # ops) st =
     (op_respects dim a st op \<and> trace_respects D C dim a ops (apply_op D C (op, now) st))"

lemma held_le_active_sum:
  assumes "hm_get (reservations st) i = Some r" and "rec_status r = RActive"
  shows "share dim a (rec_accounts r) (rec_tally r) \<le> active_sum dim a st"
  using hm_sum_insert_replace [OF assms(1), of "held_by dim a" "r\<lparr>rec_status := RReleased\<rparr>"] assms(2)
  by (simp add: active_sum_def held_by_def)

lemma budget_kept_effect:
  assumes "op_effect D C now op st st'" and "budget_kept D dim a n st" and "op_respects dim a st op"
    and dim: "dim \<noteq> DimUsd"
  shows "budget_kept D dim a n st'"
proof -
  obtain l where l: "hm_get (limits st) a = Some l" "enforced dim l n" and wf: "records_wf D st"
    and exact: "reserved_of D dim a st = active_sum dim a st"
    and within: "used_of D dim a st + reserved_of D dim a st \<le> n"
    using assms(2) by (auto simp: budget_kept_def split: option.splits)
  have wf': "records_wf D st'"
    by (rule records_wf_effect [OF assms(1) wf])
  have "hm_get (limits st') a = Some l \<and> reserved_of D dim a st' = active_sum dim a st'
      \<and> used_of D dim a st' + reserved_of D dim a st' \<le> n"
    using assms(1)
  proof (cases rule: op_effect.cases)
    case quiet
    have "used_of D dim a st' + reserved_of D dim a st' \<le> n"
      using within le_trans [OF add_right_mono [OF quiet(3) [of dim a]]] by (simp only: quiet(1))
    moreover have "hm_get (limits st') a = Some l"
      using l quiet(4) assms(3) by (cases op) (auto simp: hm_simps)
    ultimately show ?thesis
      using exact quiet(1,2) by (simp add: active_sum_def)
  next
    case (opened s e i out)
    then show ?thesis
      using l exact within opened_effect(1-3) [OF opened(2) dim, of a] opened_effect(4) [OF opened(2) dim] enforced_le_cap [OF l(2)]
        opened_admission [OF opened(2), of a l dim n] by (cases "a \<in> set (cascade s)") simp_all
  next
    case (reconciled i u rcpt)
    then obtain r where r: "hm_get (reservations st) i = Some r" "rec_status r = RActive"
      by (auto elim: reconcile_Ok_elim)
    show ?thesis
      using reconciled_effect(1-3) [OF reconciled(2) wf dim r(1), of a]
        reconciled_effect(4) [OF reconciled(2) wf dim r(1)] held_le_active_sum [OF r, of a dim]
        l exact within assms(3) r reconciled(1) by (cases "a \<in> set (rec_accounts r)") auto
  next
    case (released i rcpt)
    then obtain r where r: "hm_get (reservations st) i = Some r" "rec_status r = RActive"
      by (auto elim: release_Ok_elim)
    show ?thesis
      using released_effect(1-3) [OF released(2) wf dim r(1), of a]
        released_effect(4) [OF released(2) wf dim r(1)] held_le_active_sum [OF r, of a dim]
        l exact within by auto
  qed
  with l(2) wf' show ?thesis
    by (simp add: budget_kept_def)
qed

text \<open>
  C5: a kept budget stays kept. Take an account with an enforced limit in an integer
  dimension whose ledger is exact (reserved is the sum of its active reservations) and within
  the limit. After any sequence of calls in which nobody changes that account's limit and no
  reconciliation reports more than was reserved, the ledger is still exact and usage plus
  reserved is still within the limit.
\<close>

theorem budget_kept_run:
  assumes "budget_kept D dim a n st" and "trace_respects D C dim a ops st" and "dim \<noteq> DimUsd"
  shows "budget_kept D dim a n (run_ops D C ops st)"
  using assms(1,2)
proof (induction ops arbitrary: st)
  case Nil
  then show ?case by simp
next
  case (Cons op ops)
  then show ?case
    using budget_kept_effect [OF apply_op_effect _ _ assms(3), where D = D and C = C]
    by (cases op) simp
qed

lemma budget_kept_run_witness:
  "budget_kept cents DimInputTokens acme 1000 (run_ops cents utc
     [(OpReconcile 2 (example_usage 150), noon),
      (OpReserve example_scope (example_estimate 700) 3, noon)] example_ledger)"
  by (rule budget_kept_run) (simp add: budget_kept_def example_ledger_facts, code_simp+)

lemma no_overcount_effect:
  assumes "op_effect D C now op st st'" and wf: "records_wf D st" and dim: "dim \<noteq> DimUsd"
    and le: "reserved_of D dim a st \<le> active_sum dim a st"
  shows "reserved_of D dim a st' \<le> active_sum dim a st'"
  using assms(1)
proof (cases rule: op_effect.cases)
  case quiet
  then show ?thesis using le by (simp add: active_sum_def)
next
  case (opened s e i out)
  then show ?thesis using le opened_effect(1,2) [OF opened(2) dim, of a] by auto
next
  case (reconciled i u rcpt)
  then obtain r where "hm_get (reservations st) i = Some r"
    by (auto elim: reconcile_Ok_elim)
  from reconciled_effect(1,2) [OF reconciled(2) wf dim this, of a] show ?thesis using le by auto
next
  case (released i rcpt)
  then obtain r where "hm_get (reservations st) i = Some r"
    by (auto elim: release_Ok_elim)
  from released_effect(1,2) [OF released(2) wf dim this, of a] show ?thesis using le by auto
qed

lemma no_overcount_run:
  assumes "records_wf D st" and "dim \<noteq> DimUsd" and "reserved_of D dim a st \<le> active_sum dim a st"
  shows "records_wf D (run_ops D C ops st)
    \<and> reserved_of D dim a (run_ops D C ops st) \<le> active_sum dim a (run_ops D C ops st)"
  by (rule run_ops_invariant)
     (use assms in \<open>auto intro: records_wf_effect no_overcount_effect apply_op_effect\<close>)

definition all_closed :: "'d ResourceState \<Rightarrow> bool" where
  "all_closed st = list_all (\<lambda>(k, r). rec_status r \<noteq> RActive) (reservations st)"

lemma active_sum_all_closed: "all_closed st \<Longrightarrow> active_sum dim a st = 0"
  unfolding active_sum_def
  by (rule hm_sum_zero) (auto simp: all_closed_def list_all_iff held_by_def)



lemma closed_record_effect:
  assumes "op_effect D C now op st st'" and "hm_get (reservations st) i = Some r"
    and "rec_status r \<noteq> RActive"
  shows "hm_get (reservations st') i = Some r"
  using assms(1)
proof (cases rule: op_effect.cases)
  case quiet
  then show ?thesis using assms(2) by simp
next
  case (opened s e j out)
  from opened(2) show ?thesis
    using assms(2) by (elim reserve_Ok_elim) (auto simp: hm_simps)
next
  case (reconciled j u rcpt)
  from reconcile_Ok_elim [OF this(2)] assms(2,3) show ?thesis
    by (metis (no_types, lifting) ResourceState.select_convs(4) ResourceState.surjective
        ResourceState.update_convs(4) hm_get_insert option.inject)
next
  case (released j rcpt)
  from release_Ok_elim [OF this(2)] assms(2,3) show ?thesis
    by (metis (no_types, lifting) ResourceState.select_convs(4) ResourceState.surjective
        ResourceState.update_convs(4) hm_get_insert option.inject)
qed

text \<open>
  C9: a reservation closes exactly once. Once it is reconciled or released its record never
  changes again, whatever calls follow: a later reconciliation or release of the id is refused
  with the status it closed with, a new reservation under the id is refused as a duplicate,
  and none of the three refusals changes the ledger.
\<close>

theorem closed_exactly_once:
  assumes "hm_get (reservations st) i = Some r" and "rec_status r \<noteq> RActive"
    and "validate_estimate D est = Ok ()" and "st' = run_ops D C ops st"
  shows "hm_get (reservations st') i = Some r
    \<and> reconcile_in_state D C st' i u now = (Err (ReservationClosed i (rec_status r)), st')
    \<and> release_in_state D C st' i now = (Err (ReservationClosed i (rec_status r)), st')
    \<and> reserve_with_outcome_in_state D C st' scope est i now = (Err (ReservationAlreadyExists i), st')"
proof -
  have "hm_get (reservations st') i = Some r"
    unfolding assms(4)
    by (rule run_ops_invariant [where P = "\<lambda>s. hm_get (reservations s) i = Some r"])
       (use assms(1,2) in \<open>auto intro: closed_record_effect apply_op_effect\<close>)
  then show ?thesis
    using assms(2,3) by (simp add: reconcile_in_state_def release_in_state_def
        reserve_with_outcome_in_state_def hm_contains_def)
qed

lemma closed_exactly_once_witness:
  "release_in_state cents utc (run_ops cents utc [(OpRelease 2, noon)] example_ledger) 1 noon
     = (Err (ReservationClosed 1 RReconciled), run_ops cents utc [(OpRelease 2, noon)] example_ledger)"
proof -
  have "hm_get (reservations example_ledger) 1 = Some (example_record 1 300 RReconciled (Some (example_usage 250)))"
    by (simp add: example_ledger_def hm_get_def)
  moreover have "validate_estimate cents (example_estimate 5) = Ok ()"
    by code_simp
  ultimately show ?thesis
    using closed_exactly_once [of example_ledger 1 "example_record 1 300 RReconciled (Some (example_usage 250))"
        cents "example_estimate 5" _ utc "[(OpRelease 2, noon)]", OF _ _ _ refl]
    by (simp add: example_record_def)
qed

text \<open>What a denial says of the ledger it was computed from.\<close>

definition denial_true ::
  "'d::linorder decimal_ops \<Rightarrow> 'd ResourceLimits \<Rightarrow> 'd ResourceTally \<Rightarrow> 'd ResourceTally \<Rightarrow> 'd ResourceTally
     \<Rightarrow> ResourceDimension \<Rightarrow> bool" where
  "denial_true D l u r q dim =
     (if dim = DimUsd then
        (case opt_filter (\<lambda>v. dec_zero D < v) (lim_usd l) of None \<Rightarrow> False
         | Some limit \<Rightarrow>
             (case Option.bind (dec_checked_add D (tal_usd u) (tal_usd r))
                     (\<lambda>subtotal. dec_checked_add D subtotal (tal_usd q)) of
                None \<Rightarrow> True | Some tot \<Rightarrow> limit < tot))
      else
        (case dim_limit dim l of None \<Rightarrow> False
         | Some n \<Rightarrow> n < dim_nat dim u + dim_nat dim r + dim_nat dim q))"

lemma check_integer_Some:
  assumes "check_integer account dim lim u r q = Some d"
  shows "den_account d = account \<and> den_dimension d = dim
    \<and> (\<exists>limit. lim = Some limit \<and> 0 < unat limit \<and> unat limit < unat u + unat r + unat q)"
proof -
  have "unat (saturating_add (saturating_add u r) q) \<le> unat u + unat r + unat q"
    by (simp add: sat_simps)
  with assms show ?thesis
    by (cases lim) (auto simp: check_integer_def word_less_nat_alt split: if_splits)
qed

lemma check_decimal_Some:
  assumes "check_decimal D account dim lim u r q = Some d"
  shows "den_account d = account \<and> den_dimension d = dim
    \<and> (case opt_filter (\<lambda>v. dec_zero D < v) lim of None \<Rightarrow> False
       | Some limit \<Rightarrow>
           (case Option.bind (dec_checked_add D u r) (\<lambda>subtotal. dec_checked_add D subtotal q) of
              None \<Rightarrow> True | Some tot \<Rightarrow> limit < tot))"
  using assms by (auto simp: check_decimal_def Let_def split: option.splits if_splits)

lemma or_else_eq_Some: "or_else x y = Some d \<longleftrightarrow> x = Some d \<or> x = None \<and> y = Some d"
  by (cases x) simp_all

lemma check_limits_first_denial_Some:
  assumes "check_limits_first_denial D account l u r q = Some d"
  shows "den_account d = account \<and> denial_true D l u r q (den_dimension d)"
  using assms unfolding check_limits_first_denial_def or_else_eq_Some
  by (elim disjE conjE)
     (auto dest!: check_integer_Some check_decimal_Some simp: denial_true_def dim_limit_def)

lemma check_cascade_LimitExceeded:
  assumes "check_cascade D st q ws as = Err (LimitExceeded d ws')"
  shows "den_account d \<in> set as \<and> (\<exists>l. hm_get (limits st) (den_account d) = Some l
    \<and> denial_true D l (tally_at D (usage_by_account st) (den_account d))
        (tally_at D (reserved_by_account st) (den_account d)) q (den_dimension d))"
  using assms
proof (induction as arbitrary: ws)
  case Nil
  then show ?case by simp
next
  case (Cons a as)
  then show ?case
    by (auto split: option.splits CascadeOutcome.splits
        simp: evaluate_cascade_for_account_def Let_def dest: check_limits_first_denial_Some
        split: prod.splits option.splits)
qed

text \<open>
  refusals are truthful and harmless. A refused reservation leaves limits, reserved
  amounts and reservations as they were, and spends nothing; and when it is refused for a
  limit, the account named belongs to the scope's cascade, has a limit, and there usage plus
  reserved plus requested does exceed it (or the dollar sum overflows) in the dimension named.
\<close>

theorem reserve_refusal:
  assumes "reserve_with_outcome_in_state D C st scope est rid now = (Err e, st')"
  shows "limits st' = limits st \<and> reserved_by_account st' = reserved_by_account st
    \<and> reservations st' = reservations st
    \<and> used_of D dim b st' \<le> used_of D dim b st
    \<and> (\<forall>den ws. e = LimitExceeded den ws \<longrightarrow>
         den_account den \<in> set (cascade scope)
         \<and> (\<exists>l. hm_get (limits st) (den_account den) = Some l
            \<and> denial_true D l (tally_at D (usage_by_account st') (den_account den))
                (tally_at D (reserved_by_account st) (den_account den)) (from_estimate D est)
                (den_dimension den)))"
proof -
  have "\<forall>den ws. e = LimitExceeded den ws \<longrightarrow>
      st' = advance_all C now (cascade scope) st
      \<and> check_cascade D st' (from_estimate D est) [] (cascade scope) = Err (LimitExceeded den ws)"
    using assms
    by (auto simp: reserve_with_outcome_in_state_def Let_def validate_estimate_def
        split: sum.splits if_splits option.splits)
  moreover from reserve_Err_frame [OF assms] have "limits st' = limits st
    \<and> reserved_by_account st' = reserved_by_account st \<and> reservations st' = reservations st
    \<and> used_of D dim b st' \<le> used_of D dim b st"
    by (auto simp: frame_simps dim_usage_advance_all_le)
  ultimately show ?thesis
    by (auto dest!: check_cascade_LimitExceeded)
qed

lemma reserve_refusal_witness:
  "\<exists>den ws st'. reserve_with_outcome_in_state cents utc example_ledger example_scope (example_estimate 700) 3 noon
       = (Err (LimitExceeded den ws), st')
     \<and> den_account den \<in> set (cascade example_scope) \<and> reservations st' = reservations example_ledger"
proof -
  have "(case fst (reserve_with_outcome_in_state cents utc example_ledger example_scope (example_estimate 700) 3 noon)
      of Inl (LimitExceeded den ws) \<Rightarrow> True | _ \<Rightarrow> False)"
    by code_simp
  then obtain den ws st' where 1: "reserve_with_outcome_in_state cents utc example_ledger example_scope
      (example_estimate 700) 3 noon = (Err (LimitExceeded den ws), st')"
    by (cases "reserve_with_outcome_in_state cents utc example_ledger example_scope (example_estimate 700) 3 noon")
       (auto split: sum.splits ResourceError.splits)
  from reserve_refusal [OF this, of DimUsd acme] 1 show ?thesis by blast
qed

lemma unlimited_filters:
  "is_decimal_unlimited D v \<Longrightarrow> opt_filter (\<lambda>v. dec_zero D < v) v = None"
  "is_integer_unlimited w \<Longrightarrow> opt_filter (\<lambda>v. 0 < v) w = None"
  by (auto simp: is_decimal_unlimited_def is_integer_unlimited_def opt_filter_def split: option.splits)

lemma check_limits_unlimited: "is_unlimited D l \<Longrightarrow> check_limits_first_denial D a l u r q = None"
  by (simp add: is_unlimited_def check_limits_first_denial_def check_decimal_def check_integer_def
      unlimited_filters)

lemma check_thresholds_unlimited:
  "is_unlimited D l \<Longrightarrow> check_thresholds_all_interventions D a l u r q e = ([], None)"
  by (simp add: is_unlimited_def check_thresholds_all_interventions_def threshold_decimal_def
      threshold_integer_def unlimited_filters Let_def)

lemma evaluate_cascade_unlimited:
  "is_unlimited D l \<Longrightarrow> evaluate_cascade_for_account D a l u r q e = CascadeAllow []"
  by (simp add: evaluate_cascade_for_account_def check_limits_unlimited check_thresholds_unlimited)

lemma check_cascade_unlimited:
  "(\<And>a l. a \<in> set as \<Longrightarrow> hm_get (limits st) a = Some l \<Longrightarrow> is_unlimited D l) \<Longrightarrow>
     check_cascade D st q ws as = Ok ws"
proof (induction as arbitrary: ws)
  case Nil
  then show ?case by simp
next
  case (Cons a as)
  have "check_cascade D st q ws as = Ok ws"
    by (rule Cons.IH) (rule Cons.prems, auto)
  moreover have "is_unlimited D l" if "hm_get (limits st) a = Some l" for l
    by (rule Cons.prems [OF _ that]) simp
  ultimately show ?case
    by (simp add: evaluate_cascade_unlimited split: option.splits)
qed

text \<open>
  absent and zero limits mean unlimited. When no account of the cascade has a positive
  limit in any dimension, a valid request under a fresh id is granted, without warnings,
  however large it is.
\<close>

theorem unlimited_never_refused:
  assumes "validate_estimate D est = Ok ()" and "hm_get (reservations st) rid = None"
    and "\<forall>a \<in> set (cascade scope). \<forall>l. hm_get (limits st) a = Some l \<longrightarrow> is_unlimited D l"
  shows "fst (reserve_with_outcome_in_state D C st scope est rid now) =
    Ok \<lparr>out_reservation = \<lparr>res_id = rid, res_scope = scope, res_estimate = est\<rparr>, out_warnings = []\<rparr>"
proof -
  have "check_cascade D (advance_all C now (cascade scope) st) (from_estimate D est) [] (cascade scope) = Ok []"
    by (rule check_cascade_unlimited) (use assms(3) in \<open>simp add: frame_simps\<close>)
  with assms(1,2) show ?thesis
    by (simp add: reserve_with_outcome_in_state_def hm_contains_def Let_def)
qed

lemma unlimited_never_refused_witness:
  "is_ok (fst (reserve_with_outcome_in_state cents utc ResourceState_default example_scope
     (example_estimate (- 1)) 3 noon))"
  by (subst unlimited_never_refused)
     (simp_all add: validate_estimate_def example_estimate_def cents_def ResourceState_default_def)

section \<open>Periods\<close>

text \<open>
  The documented behaviour of the calendar that the period rules rest on: a local date's
  midnight is at or before an instant exactly when the date is at or before the instant's local
  date, weekdays count from zero to six, and the first of a month and the first of the next
  month enclose each of its days.
\<close>

definition chrono_laws :: "chrono_ops \<Rightarrow> string \<Rightarrow> instant \<Rightarrow> bool" where
  "chrono_laws C tz now \<longleftrightarrow>
     (\<forall>d. \<exists>m. ch_earliest_midnight C tz d = Some m \<and> (m \<le> now \<longleftrightarrow> d \<le> ch_local_date C tz now))
     \<and> (let d = ch_local_date C tz now; y = ch_year C d; m = ch_month C d;
            (y', m') = (if m = 12 then (y + 1, 1) else (y, m + 1))
        in 0 \<le> ch_num_days_from_monday C d \<and> ch_num_days_from_monday C d \<le> 6
         \<and> (case (ch_from_ymd_opt C y m 1, ch_from_ymd_opt C y' m' 1) of
              (Some s, Some e) \<Rightarrow> s \<le> d \<and> d < e | _ \<Rightarrow> False))"

lemma calendar_bounds_enclose:
  assumes "chrono_laws C tz now" and "calendar_bounds C tz unit now = (s, e)"
  shows "s \<le> now \<and> now < e"
proof -
  have mid: "\<exists>m. ch_earliest_midnight C tz d = Some m \<and> (m \<le> now \<longleftrightarrow> d \<le> ch_local_date C tz now)" for d
    using assms(1) by (simp add: chrono_laws_def)
  then have bounds: "unwrap_or x (ch_earliest_midnight C tz a) \<le> now \<and> now < unwrap_or y (ch_earliest_midnight C tz b)"
    if "a \<le> ch_local_date C tz now" "ch_local_date C tz now < b" for a b x y
    using mid [of a] mid [of b] that by auto
  show ?thesis
    using assms
    by (cases unit)
       (auto simp: calendar_bounds_def chrono_laws_def Let_def intro!: bounds
         split: if_splits option.splits)
qed

lemma period_bounds_enclose:
  assumes "\<And>tz u. period = Calendar tz u \<Longrightarrow> chrono_laws C tz now" and "period \<noteq> PerInvocation"
  shows "fst (period_bounds C period now) \<le> now \<and> now < snd (period_bounds C period now)"
  using assms calendar_bounds_enclose [of C _ now _ "fst (period_bounds C period now)"
      "snd (period_bounds C period now)"]
  by (cases period) (auto simp: period_bounds_def hours_def)

text \<open>
  spending periods roll over at their boundary and only there. When an account with a
  Rolling24h or calendar budget is touched at a time before its recorded period end, usage and
  period end are kept; at or after it (or when none is recorded) the usage is cleared and the new
  period end lies strictly after the current time, so touching the account again at the same
  time changes nothing. The usage of other accounts is not affected.
\<close>

theorem period_rollover:
  assumes "hm_get (limits st) a = Some l" and "lim_period l \<noteq> PerInvocation"
    and "\<forall>tz u. lim_period l = Calendar tz u \<longrightarrow> chrono_laws C tz now"
    and "st' = advance_period_if_rolled_over C st a now"
  shows "(case hm_get (period_anchors st) a of
            Some e \<Rightarrow> if now < e then st' = st
              else tally_at D (usage_by_account st') a = tally_default D
          | None \<Rightarrow> tally_at D (usage_by_account st') a = tally_default D)
    \<and> (\<exists>e. hm_get (period_anchors st') a = Some e \<and> now < e)
    \<and> advance_period_if_rolled_over C st' a now = st'
    \<and> (\<forall>b. b \<noteq> a \<longrightarrow> hm_get (usage_by_account st') b = hm_get (usage_by_account st) b)"
proof -
  have now: "now < snd (period_bounds C (lim_period l) now)"
    using period_bounds_enclose [of "lim_period l" C now] assms(2,3) by blast
  have "(\<exists>e. hm_get (period_anchors st') a = Some e \<and> now < e)"
    using assms(1,2) now
    by (auto simp: assms(4) advance_period_if_rolled_over_def period_has_rolled_over_def Let_def hm_simps
        split: option.splits)
  moreover from this have "advance_period_if_rolled_over C st' a now = st'"
    using assms(1,2) frame_simps(1) [of C st a now]
    by (auto simp: assms(4) [symmetric] advance_period_if_rolled_over_def [of C st']
        period_has_rolled_over_def split: option.splits)
  moreover have "\<forall>b. b \<noteq> a \<longrightarrow> hm_get (usage_by_account st') b = hm_get (usage_by_account st) b"
    using advance_usage [of C st a now] assms(4) by blast
  moreover have "case hm_get (period_anchors st) a of
            Some e \<Rightarrow> if now < e then st' = st
              else tally_at D (usage_by_account st') a = tally_default D
          | None \<Rightarrow> tally_at D (usage_by_account st') a = tally_default D"
    using assms(1,2)
    by (auto simp: assms(4) advance_period_if_rolled_over_def period_has_rolled_over_def tally_at_def
        hm_simps Let_def split: option.splits)
  ultimately show ?thesis by blast
qed

lemma utc_laws: "chrono_laws utc tz (days 19784 + hours 5)"
proof -
  have "\<forall>d. \<exists>m. ch_earliest_midnight utc tz d = Some m
      \<and> (m \<le> days 19784 + hours 5 \<longleftrightarrow> d \<le> ch_local_date utc tz (days 19784 + hours 5))"
    by (auto simp: utc_def days_def hours_def)
  moreover have "let d = ch_local_date utc tz (days 19784 + hours 5); y = ch_year utc d; m = ch_month utc d;
            (y', m') = (if m = 12 then (y + 1, 1) else (y, m + 1))
        in 0 \<le> ch_num_days_from_monday utc d \<and> ch_num_days_from_monday utc d \<le> 6
         \<and> (case (ch_from_ymd_opt utc y m 1, ch_from_ymd_opt utc y' m' 1) of
              (Some s, Some e) \<Rightarrow> s \<le> d \<and> d < e | _ \<Rightarrow> False)"
    by code_simp
  ultimately show ?thesis
    unfolding chrono_laws_def by blast
qed

lemma period_rollover_witness:
  "tally_at cents (usage_by_account
     (advance_period_if_rolled_over utc example_ledger acme (days 19784 + hours 5))) acme = tally_default cents"
proof -
  have anchor: "hm_get (period_anchors example_ledger) acme = Some (days 19784)"
    by (simp add: example_ledger_def hm_get_def)
  have per: "lim_period example_limits \<noteq> PerInvocation"
    by (simp add: example_limits_def)
  have late: "\<not> days 19784 + hours 5 < days 19784"
    by (simp add: hours_def)
  have "\<forall>tz u. lim_period example_limits = Calendar tz u \<longrightarrow> chrono_laws utc tz (days 19784 + hours 5)"
    by (intro allI impI) (rule utc_laws)
  from period_rollover [OF example_ledger_facts(2) per this refl, where D = cents, THEN conjunct1]
  show ?thesis
    by (simp only: anchor option.case late if_False)
qed

end
