(* ===== verification/Resource_Gate.thy ===== *)
theory Resource_Gate
  imports Resources
begin

text \<open>
  Budget approval gates (\<open>ironclaw_resources/src/gate.rs\<close>) and budget events
  (\<open>event.rs\<close>). A gate is opened pending when a reservation crosses the pause threshold and is
  settled once, by approval, by cancellation or by expiry. The in-memory store's operations are
  the mutex-protected sections of \<open>InMemoryBudgetGateStore\<close>, which ignores the scope argument.
\<close>

section \<open>Gates\<close>

type_synonym BudgetGateId = uuid

datatype 'd BudgetGateStatus =
    GatePending
  | GateApproved "'d ResourceLimits" UserId instant
  | GateCancelled UserId instant
  | GateExpired instant

record 'd BudgetApprovalGate =
  gate_id :: BudgetGateId
  gate_needed :: "'d ResourceApprovalNeeded"
  gate_opened_at :: instant
  gate_expires_at :: instant
  gate_status :: "'d BudgetGateStatus"

text \<open>The wire shape of a persisted status, and its decoder's field rules.\<close>

datatype StatusKind = KPending | KApproved | KCancelled | KExpired

record 'd StatusWire =
  sw_kind :: StatusKind
  sw_increased_limit :: "'d ResourceLimits option"
  sw_by :: "UserId option"
  sw_at :: "instant option"

definition required :: "string \<Rightarrow> 'a option \<Rightarrow> (string, 'a) result" where
  "required field value = (case value of Some v \<Rightarrow> Ok v | None \<Rightarrow> Err (''missing field '' @ field))"

definition status_deserialize :: "'d StatusWire \<Rightarrow> (string, 'd BudgetGateStatus) result" where
  "status_deserialize wire =
     (case sw_kind wire of
        KPending \<Rightarrow>
          if sw_increased_limit wire \<noteq> None \<or> sw_by wire \<noteq> None \<or> sw_at wire \<noteq> None
          then Err ''pending budget gate status must not include terminal fields''
          else Ok GatePending
      | KApproved \<Rightarrow>
          result_bind (required ''increased_limit'' (sw_increased_limit wire)) (\<lambda>l.
          result_bind (required ''by'' (sw_by wire)) (\<lambda>b.
          result_bind (required ''at'' (sw_at wire)) (\<lambda>t. Ok (GateApproved l b t))))
      | KCancelled \<Rightarrow>
          if sw_increased_limit wire \<noteq> None
          then Err ''cancelled budget gate status must not include increased_limit''
          else
            result_bind (required ''by'' (sw_by wire)) (\<lambda>b.
            result_bind (required ''at'' (sw_at wire)) (\<lambda>t. Ok (GateCancelled b t)))
      | KExpired \<Rightarrow>
          if sw_increased_limit wire \<noteq> None \<or> sw_by wire \<noteq> None
          then Err ''expired budget gate status must not include approval fields''
          else result_bind (required ''at'' (sw_at wire)) (\<lambda>t. Ok (GateExpired t)))"

text \<open>The derived serializer: the variant's own fields beside the tag.\<close>

fun status_serialize :: "'d BudgetGateStatus \<Rightarrow> 'd StatusWire" where
  "status_serialize GatePending =
     \<lparr>sw_kind = KPending, sw_increased_limit = None, sw_by = None, sw_at = None\<rparr>"
| "status_serialize (GateApproved l b t) =
     \<lparr>sw_kind = KApproved, sw_increased_limit = Some l, sw_by = Some b, sw_at = Some t\<rparr>"
| "status_serialize (GateCancelled b t) =
     \<lparr>sw_kind = KCancelled, sw_increased_limit = None, sw_by = Some b, sw_at = Some t\<rparr>"
| "status_serialize (GateExpired t) =
     \<lparr>sw_kind = KExpired, sw_increased_limit = None, sw_by = None, sw_at = Some t\<rparr>"

fun is_terminal :: "'d BudgetGateStatus \<Rightarrow> bool" where
  "is_terminal GatePending = False"
| "is_terminal _ = True"

datatype 'd BudgetGateOutcome =
    GateApprove "'d ResourceLimits" UserId
  | GateCancel UserId

datatype BudgetGateError =
    GateUnknown BudgetGateId
  | GateAlreadyResolved BudgetGateId
  | GateStorage string

type_synonym 'd GateStore = "(BudgetGateId, 'd BudgetApprovalGate) hashmap"

definition gate_open ::
  "'d GateStore \<Rightarrow> 'd BudgetApprovalGate \<Rightarrow> (BudgetGateError, unit) result \<times> 'd GateStore" where
  "gate_open gates gate = (Ok (), hm_insert (gate_id gate) gate gates)"

fun settled_status :: "'d BudgetGateOutcome \<Rightarrow> instant \<Rightarrow> 'd BudgetGateStatus" where
  "settled_status (GateApprove l b) t = GateApproved l b t"
| "settled_status (GateCancel b) t = GateCancelled b t"

definition gate_resolve ::
  "'d GateStore \<Rightarrow> BudgetGateId \<Rightarrow> 'd BudgetGateOutcome \<Rightarrow> instant
     \<Rightarrow> (BudgetGateError, 'd BudgetApprovalGate) result \<times> 'd GateStore" where
  "gate_resolve gates i outcome t =
     (case hm_get gates i of
        None \<Rightarrow> (Err (GateUnknown i), gates)
      | Some gate \<Rightarrow>
          if is_terminal (gate_status gate) then (Err (GateAlreadyResolved i), gates)
          else
            let gate' = gate\<lparr>gate_status := settled_status outcome t\<rparr>
            in (Ok gate', hm_insert i gate' gates))"

definition gate_expires :: "instant \<Rightarrow> 'd BudgetApprovalGate \<Rightarrow> bool" where
  "gate_expires cutoff gate \<longleftrightarrow> \<not> is_terminal (gate_status gate) \<and> gate_expires_at gate \<le> cutoff"

definition expire_pending_older_than ::
  "'d GateStore \<Rightarrow> instant
     \<Rightarrow> (BudgetGateError, 'd BudgetApprovalGate list) result \<times> 'd GateStore" where
  "expire_pending_older_than gates cutoff =
     (Ok (map (\<lambda>g. g\<lparr>gate_status := GateExpired cutoff\<rparr>) (filter (gate_expires cutoff) (hm_values gates))),
      map (\<lambda>(k, g). (k, if gate_expires cutoff g then g\<lparr>gate_status := GateExpired cutoff\<rparr> else g)) gates)"

definition gate_get ::
  "'d GateStore \<Rightarrow> BudgetGateId \<Rightarrow> (BudgetGateError, 'd BudgetApprovalGate option) result" where
  "gate_get gates i = Ok (hm_get gates i)"

definition list_pending :: "'d GateStore \<Rightarrow> (BudgetGateError, 'd BudgetApprovalGate list) result" where
  "list_pending gates = Ok (filter (\<lambda>g. \<not> is_terminal (gate_status g)) (hm_values gates))"

section \<open>Budget events\<close>

datatype 'd BudgetEvent =
    EvReserved ResourceAccount "'d ResourceReservation" "'d BudgetWarning list" instant
  | EvReconciled ResourceAccount "'d ResourceReceipt" instant
  | EvReleased ResourceAccount "'d ResourceReceipt" instant
  | EvWarned "'d BudgetWarning" instant
  | EvDenied "'d ResourceDenial" instant
  | EvApprovalRequested "'d ResourceApprovalNeeded" instant
  | EvGateOpened BudgetGateId "'d ResourceApprovalNeeded" instant
  | EvApprovalResolved "'d BudgetApprovalGate" "'d BudgetGateOutcome" instant
  | EvLimitChanged ResourceAccount instant

text \<open>
  \<open>InMemoryBudgetEventSink::emit\<close>; the events of one operation are appended in the order they
  are emitted.
\<close>

definition emit :: "'d BudgetEvent \<Rightarrow> 'd BudgetEvent list \<Rightarrow> 'd BudgetEvent list" where
  "emit event events = events @ [event]"

definition emit_reserve_events ::
  "('d ResourceError, 'd ReservationOutcome) result \<Rightarrow> instant \<Rightarrow> 'd BudgetEvent list
     \<Rightarrow> 'd BudgetEvent list" where
  "emit_reserve_events res t events =
     (let warnings = (case res of
            Inr outcome \<Rightarrow> out_warnings outcome
          | Inl (RequiresApproval needed ws) \<Rightarrow> ws
          | Inl (LimitExceeded denial ws) \<Rightarrow> ws
          | Inl _ \<Rightarrow> []);
          events1 = fold (\<lambda>w evs. emit (EvWarned w t) evs) warnings events
      in case res of
           Inr outcome \<Rightarrow>
             emit (EvReserved (most_specific_account (res_scope (out_reservation outcome)))
               (out_reservation outcome) (out_warnings outcome) t) events1
         | Inl (RequiresApproval needed ws) \<Rightarrow> emit (EvApprovalRequested needed t) events1
         | Inl (LimitExceeded denial ws) \<Rightarrow> emit (EvDenied denial t) events1
         | Inl _ \<Rightarrow> events1)"

section \<open>Laws\<close>

lemma fold_emit_warned:
  "fold (\<lambda>w evs. emit (EvWarned w t) evs) ws evs = evs @ map (\<lambda>w. EvWarned w t) ws"
  by (induction ws arbitrary: evs) (simp_all add: emit_def)

lemma status_deserialize_serialize: "status_deserialize (status_serialize s) = Ok s"
  by (cases s) (simp_all add: status_deserialize_def required_def)

lemma status_serialize_deserialize:
  "status_deserialize w = Ok s \<Longrightarrow> status_serialize s = w"
  by (cases w, cases "sw_kind w")
     (auto simp: status_deserialize_def required_def result_simps split: if_splits option.splits)

lemma hm_get_map: "hm_get (map (\<lambda>(k, v). (k, f v)) m) k = map_option f (hm_get m k)"
  by (simp add: hm_get_def map_of_map)

text \<open>
  the persisted form of a gate status is a bijection onto the accepted wire records. Every
  status decodes to itself after encoding, and every wire record the decoder accepts is exactly
  the encoding of the status it returns, so no stray field of another state survives decoding.
\<close>

theorem gate_status_roundtrip:
  "status_deserialize (status_serialize s) = Ok s
    \<and> (status_deserialize w = Ok s \<longleftrightarrow> w = status_serialize s)"
  using status_deserialize_serialize status_serialize_deserialize by metis

datatype 'd GateOp =
    GopOpen "'d BudgetApprovalGate"
  | GopResolve BudgetGateId "'d BudgetGateOutcome" instant
  | GopExpire instant

fun apply_gate_op :: "'d GateOp \<Rightarrow> 'd GateStore \<Rightarrow> 'd GateStore" where
  "apply_gate_op (GopOpen g) gates = snd (gate_open gates g)"
| "apply_gate_op (GopResolve i out t) gates = snd (gate_resolve gates i out t)"
| "apply_gate_op (GopExpire t) gates = snd (expire_pending_older_than gates t)"

fun reopens :: "BudgetGateId \<Rightarrow> 'd GateOp \<Rightarrow> bool" where
  "reopens i (GopOpen g) = (gate_id g = i)"
| "reopens i _ = False"

lemma terminal_gate_step:
  assumes "hm_get gates i = Some g" and "is_terminal (gate_status g)" and "\<not> reopens i op"
  shows "hm_get (apply_gate_op op gates) i = Some g"
  using assms
  by (cases op)
     (auto simp: gate_open_def gate_resolve_def expire_pending_older_than_def hm_simps hm_get_map
       gate_expires_def Let_def split: option.splits)

lemma terminal_gate_run:
  assumes "hm_get gates i = Some g" and "is_terminal (gate_status g)" and "list_all (\<lambda>op. \<not> reopens i op) ops"
  shows "hm_get (fold apply_gate_op ops gates) i = Some g"
  using assms(1,3)
  by (induction ops arbitrary: gates) (auto intro: terminal_gate_step assms(2))

text \<open>
  a budget gate is settled at most once. Resolving a pending gate stores exactly the
  user's outcome and the time; from then on, as long as no gate is opened under the same id, no
  sequence of opens, resolutions and expiry sweeps changes it, a second resolution is refused
  without effect, and it never appears among the expired or the pending gates again.
\<close>

theorem gate_settled_once:
  assumes "gate_resolve gates i out t = (Ok g, gates1)"
    and "list_all (\<lambda>op. \<not> reopens i op) ops" and "gates2 = fold apply_gate_op ops gates1"
  shows "gate_status g = settled_status out t \<and> hm_get gates2 i = Some g
    \<and> gate_resolve gates2 i out' t' = (Err (GateAlreadyResolved i), gates2)
    \<and> hm_get (snd (expire_pending_older_than gates2 cutoff)) i = Some g
    \<and> (\<forall>p. list_pending gates2 = Ok p \<longrightarrow> g \<notin> set p)"
proof -
  from assms(1) have g: "hm_get gates1 i = Some g" and st: "gate_status g = settled_status out t"
    by (auto simp: gate_resolve_def Let_def hm_simps split: option.splits if_splits)
  then have final: "is_terminal (gate_status g)"
    by (cases out) simp_all
  from terminal_gate_run [OF g final assms(2)] have g2: "hm_get gates2 i = Some g"
    by (simp add: assms(3))
  moreover from terminal_gate_step [OF g2 final, of "GopExpire cutoff"]
  have "hm_get (snd (expire_pending_older_than gates2 cutoff)) i = Some g"
    by simp
  ultimately show ?thesis
    using st final by (simp add: gate_resolve_def list_pending_def)
qed

definition example_gate :: "int BudgetApprovalGate" where
  "example_gate = \<lparr>gate_id = 5,
     gate_needed = \<lparr>apn_account = AccTenant ''t'', apn_dimension = DimUsd, apn_limit = ValDecimal 10,
       apn_current_usage = ValDecimal 0, apn_active_reserved = ValDecimal 0,
       apn_requested = ValDecimal 9, apn_utilization = F64 8106479329266893 (- 53),
       apn_period_end = None\<rparr>,
     gate_opened_at = 1, gate_expires_at = 80, gate_status = GatePending\<rparr>"

lemma gate_settled_once_witness:
  "fst (gate_resolve (fold apply_gate_op [GopExpire 90]
       (snd (gate_resolve [(5, example_gate)] 5 (GateCancel ''ann'') 10))) 5 (GateCancel ''bob'') 95)
     = Err (GateAlreadyResolved 5)"
  using gate_settled_once [of "[(5, example_gate)]" 5 "GateCancel ''ann''" 10 _ _ "[GopExpire 90]"]
  by (simp add: gate_resolve_def hm_get_def hm_insert_def Let_def example_gate_def)

end
