(* ===== verification/Resource_Governor.thy ===== *)
theory Resource_Governor
  imports Resource_Ledger Resource_Gate
begin

text \<open>
  The two governors of \<open>ironclaw_resources/src/lib.rs\<close>: \<open>InMemoryResourceGovernor\<close> and
  \<open>PersistentResourceGovernor\<close> over the JSON file store, with the optional process-local fast
  path for unlimited budgets. Every method returns its result and the governor afterwards; the
  clock reading is an argument. The contract both share is the locale \<open>resource_governor\<close>.
\<close>

section \<open>The in-memory governor\<close>

record 'd InMemoryResourceGovernor =
  mem_state :: "'d ResourceState"
  mem_events :: "'d BudgetEvent list"

definition mem_set_limit ::
  "chrono_ops \<Rightarrow> instant \<Rightarrow> 'd InMemoryResourceGovernor \<Rightarrow> ResourceAccount \<Rightarrow> 'd ResourceLimits
     \<Rightarrow> ('d ResourceError, unit) result \<times> 'd InMemoryResourceGovernor" where
  "mem_set_limit C now g account lims =
     (Ok (), g\<lparr>mem_state := set_limit_in_state C (mem_state g) account lims now,
              mem_events := emit (EvLimitChanged account now) (mem_events g)\<rparr>)"

definition mem_reserve_with_id_and_outcome ::
  "'d::linorder decimal_ops \<Rightarrow> chrono_ops \<Rightarrow> instant \<Rightarrow> 'd InMemoryResourceGovernor \<Rightarrow> ResourceScope
     \<Rightarrow> 'd ResourceEstimate \<Rightarrow> ResourceReservationId
     \<Rightarrow> ('d ResourceError, 'd ReservationOutcome) result \<times> 'd InMemoryResourceGovernor" where
  "mem_reserve_with_id_and_outcome D C now g scope estimate i =
     (let (res, st) = reserve_with_outcome_in_state D C (mem_state g) scope estimate i now
      in (res, g\<lparr>mem_state := st, mem_events := emit_reserve_events res now (mem_events g)\<rparr>))"

definition mem_reconcile ::
  "'d::linorder decimal_ops \<Rightarrow> chrono_ops \<Rightarrow> instant \<Rightarrow> 'd InMemoryResourceGovernor
     \<Rightarrow> ResourceReservationId \<Rightarrow> 'd ResourceUsage
     \<Rightarrow> ('d ResourceError, 'd ResourceReceipt) result \<times> 'd InMemoryResourceGovernor" where
  "mem_reconcile D C now g i actual =
     (let (res, st) = reconcile_in_state D C (mem_state g) i actual now
      in (res, g\<lparr>mem_state := st, mem_events := (case res of
             Inr receipt \<Rightarrow> emit (EvReconciled (most_specific_account (rcpt_scope receipt)) receipt now) (mem_events g)
           | Inl _ \<Rightarrow> mem_events g)\<rparr>))"

definition mem_release ::
  "'d::linorder decimal_ops \<Rightarrow> chrono_ops \<Rightarrow> instant \<Rightarrow> 'd InMemoryResourceGovernor
     \<Rightarrow> ResourceReservationId
     \<Rightarrow> ('d ResourceError, 'd ResourceReceipt) result \<times> 'd InMemoryResourceGovernor" where
  "mem_release D C now g i =
     (let (res, st) = release_in_state D C (mem_state g) i now
      in (res, g\<lparr>mem_state := st, mem_events := (case res of
             Inr receipt \<Rightarrow> emit (EvReleased (most_specific_account (rcpt_scope receipt)) receipt now) (mem_events g)
           | Inl _ \<Rightarrow> mem_events g)\<rparr>))"

definition mem_account_snapshot ::
  "'d decimal_ops \<Rightarrow> chrono_ops \<Rightarrow> instant \<Rightarrow> 'd InMemoryResourceGovernor \<Rightarrow> ResourceAccount
     \<Rightarrow> ('d ResourceError, 'd AccountSnapshot option) result \<times> 'd InMemoryResourceGovernor" where
  "mem_account_snapshot D C now g account =
     (let (snap, st) = account_snapshot_in_state D C (mem_state g) account now
      in (Ok snap, g\<lparr>mem_state := st\<rparr>))"

definition mem_reserved_for ::
  "'d decimal_ops \<Rightarrow> chrono_ops \<Rightarrow> instant \<Rightarrow> 'd InMemoryResourceGovernor \<Rightarrow> ResourceAccount
     \<Rightarrow> 'd ResourceTally \<times> 'd InMemoryResourceGovernor" where
  "mem_reserved_for D C now g account =
     (let st = advance_period_if_rolled_over C (mem_state g) account now
      in (tally_at D (reserved_by_account st) account, g\<lparr>mem_state := st\<rparr>))"

definition mem_usage_for ::
  "'d decimal_ops \<Rightarrow> chrono_ops \<Rightarrow> instant \<Rightarrow> 'd InMemoryResourceGovernor \<Rightarrow> ResourceAccount
     \<Rightarrow> 'd ResourceTally \<times> 'd InMemoryResourceGovernor" where
  "mem_usage_for D C now g account =
     (let st = advance_period_if_rolled_over C (mem_state g) account now
      in (tally_at D (usage_by_account st) account, g\<lparr>mem_state := st\<rparr>))"

section \<open>The file store\<close>

text \<open>
  The snapshot file holds a version, a state and a journal cursor; \<open>None\<close> is a missing or empty
  file. A transaction can fail before the snapshot is read (directory, lock, read), when the new
  file is written or renamed into place, or after the rename (directory sync, unlock).
\<close>

record 'd ResourceGovernorSnapshot =
  schema_version :: u32
  snap_state :: "'d ResourceState"
  journal_seq :: u64

definition snapshot_default :: "'d ResourceGovernorSnapshot" where
  "snapshot_default = \<lparr>schema_version = 3, snap_state = ResourceState_default, journal_seq = 0\<rparr>"

definition snapshot_deserialize ::
  "'d ResourceGovernorSnapshot \<Rightarrow> ('d ResourceError, 'd ResourceGovernorSnapshot) result" where
  "snapshot_deserialize raw =
     (if schema_version raw = 3 then Ok raw
      else if schema_version raw = 1 \<or> schema_version raw = 2 then
        Ok (raw\<lparr>schema_version := 3, journal_seq := 0\<rparr>)
      else Err (Storage ''malformed resource governor snapshot: unsupported schema version''))"

datatype IoFault = ReadFault string | WriteFault string | SyncFault string

type_synonym 'd snapshot_file = "'d ResourceGovernorSnapshot option"

definition read_file_snapshot ::
  "'d snapshot_file \<Rightarrow> ('d ResourceError, 'd ResourceGovernorSnapshot) result" where
  "read_file_snapshot file =
     (case file of None \<Rightarrow> Ok snapshot_default | Some raw \<Rightarrow> snapshot_deserialize raw)"

definition store_update ::
  "IoFault option \<Rightarrow> 'd snapshot_file
     \<Rightarrow> ('d ResourceState \<Rightarrow> ('d ResourceError, 'a) result \<times> 'd ResourceState)
     \<Rightarrow> ('d ResourceError, 'a) result \<times> 'd snapshot_file" where
  "store_update fault file update =
     (case fault of Some (ReadFault reason) \<Rightarrow> (Err (Storage reason), file) | _ \<Rightarrow>
      (case read_file_snapshot file of Inl e \<Rightarrow> (Err e, file) | Inr snapshot \<Rightarrow>
       (case update (snap_state snapshot) of
          (Inl e, _) \<Rightarrow> (Err e, file)
        | (Inr v, st) \<Rightarrow>
            (case fault of
               Some (WriteFault reason) \<Rightarrow> (Err (Storage reason), file)
             | Some (SyncFault reason) \<Rightarrow> (Err (Storage reason), Some (snapshot\<lparr>snap_state := st\<rparr>))
             | _ \<Rightarrow> (Ok v, Some (snapshot\<lparr>snap_state := st\<rparr>))))))"

definition store_inspect ::
  "IoFault option \<Rightarrow> 'd snapshot_file \<Rightarrow> ('d ResourceState \<Rightarrow> 'a) \<Rightarrow> ('d ResourceError, 'a) result" where
  "store_inspect fault file inspect =
     (case fault of
        Some (ReadFault reason) \<Rightarrow> Err (Storage reason)
      | Some (SyncFault reason) \<Rightarrow> result_bind (read_file_snapshot file) (\<lambda>_. Err (Storage reason))
      | _ \<Rightarrow> result_bind (read_file_snapshot file) (\<lambda>snapshot. Ok (inspect (snap_state snapshot))))"

section \<open>The persistent governor\<close>

text \<open>
  \<open>local_state\<close> and \<open>local_initialized\<close> are the mutex-protected \<open>UnlimitedFastPathState\<close>.
  One call may open the file twice, so it takes a fault for the inspection and one for the
  transaction.
\<close>

record 'd PersistentResourceGovernor =
  pg_file :: "'d snapshot_file"
  unlimited_fast_path :: bool
  local_state :: "'d ResourceState"
  local_initialized :: bool
  events :: "'d BudgetEvent list"

record call_env =
  now_at :: instant
  inspect_fault :: "IoFault option"
  update_fault :: "IoFault option"

definition sanitized_unlimited_fast_path_state :: "'d ResourceState \<Rightarrow> 'd ResourceState" where
  "sanitized_unlimited_fast_path_state st =
     st\<lparr>reserved_by_account := [], usage_by_account := [], reservations := []\<rparr>"

definition merge_tallies ::
  "'d decimal_ops \<Rightarrow> (ResourceAccount, 'd ResourceTally) hashmap
     \<Rightarrow> (ResourceAccount, 'd ResourceTally) hashmap \<Rightarrow> (ResourceAccount, 'd ResourceTally) hashmap" where
  "merge_tallies D local target =
     fold (\<lambda>(a, t) m. hm_insert a (add_assign D (tally_at D m a) t) m) local target"

definition merge_unlimited_fast_path_state ::
  "'d decimal_ops \<Rightarrow> 'd ResourceState \<Rightarrow> 'd ResourceState \<Rightarrow> 'd ResourceState" where
  "merge_unlimited_fast_path_state D target local =
     target\<lparr>reserved_by_account := merge_tallies D (reserved_by_account local) (reserved_by_account target),
            usage_by_account := merge_tallies D (usage_by_account local) (usage_by_account target),
            reservations := fold (\<lambda>(i, r) m. hm_insert i r m) (reservations local) (reservations target),
            period_anchors := fold (\<lambda>(a, e) m. hm_insert a e m) (period_anchors local) (period_anchors target)\<rparr>"

definition try_set_limit ::
  "'d::linorder decimal_ops \<Rightarrow> chrono_ops \<Rightarrow> call_env \<Rightarrow> 'd PersistentResourceGovernor
     \<Rightarrow> ResourceAccount \<Rightarrow> 'd ResourceLimits
     \<Rightarrow> ('d ResourceError, unit) result \<times> 'd PersistentResourceGovernor" where
  "try_set_limit D C env g account lims =
     (let now = now_at env in
      if unlimited_fast_path g then
        let merging = (\<lambda>st. if local_initialized g \<and> \<not> is_unlimited D lims
                  \<and> \<not> resource_state_has_finite_limits D st
                then merge_unlimited_fast_path_state D st (local_state g) else st);
            (res, file') = store_update (update_fault env) (pg_file g)
              (\<lambda>st. let st' = set_limit_in_state C (merging st) account lims now in (Ok st', st'));
            g' = g\<lparr>pg_file := file'\<rparr>
        in case res of Inl e \<Rightarrow> (Err e, g')
           | Inr updated \<Rightarrow>
               (Ok (), g'\<lparr>local_state :=
                   (if resource_state_has_finite_limits D updated then updated
                    else if local_initialized g then set_limit_in_state C (local_state g) account lims now
                    else sanitized_unlimited_fast_path_state updated),
                 local_initialized := True\<rparr>)
      else
        let (res, file') = store_update (update_fault env) (pg_file g)
              (\<lambda>st. (Ok (), set_limit_in_state C st account lims now))
        in (res, g\<lparr>pg_file := file'\<rparr>))"

definition unlimited_fast_path_seed ::
  "'d::linorder decimal_ops \<Rightarrow> IoFault option \<Rightarrow> 'd PersistentResourceGovernor
     \<Rightarrow> ('d ResourceError, 'd ResourceState option) result" where
  "unlimited_fast_path_seed D fault g =
     (if \<not> unlimited_fast_path g then Ok None
      else store_inspect fault (pg_file g) (\<lambda>st.
        if resource_state_has_finite_limits D st then None
        else Some (sanitized_unlimited_fast_path_state st)))"

definition seed_local :: "'d ResourceState \<Rightarrow> 'd PersistentResourceGovernor \<Rightarrow> 'd PersistentResourceGovernor" where
  "seed_local seed g =
     (if local_initialized g then g else g\<lparr>local_state := seed, local_initialized := True\<rparr>)"

definition update_active_state ::
  "'d::linorder decimal_ops \<Rightarrow> call_env \<Rightarrow> 'd PersistentResourceGovernor
     \<Rightarrow> ('d ResourceState \<Rightarrow> ('d ResourceError, 'a) result \<times> 'd ResourceState)
     \<Rightarrow> ('d ResourceError, 'a) result \<times> 'd PersistentResourceGovernor" where
  "update_active_state D env g update =
     (case unlimited_fast_path_seed D (inspect_fault env) g of
        Inl e \<Rightarrow> (Err e, g)
      | Inr (Some seed) \<Rightarrow>
          let g1 = seed_local seed g; (res, st) = update (local_state g1)
          in (res, g1\<lparr>local_state := st\<rparr>)
      | Inr None \<Rightarrow>
          let (res, file') = store_update (update_fault env) (pg_file g) update
          in (res, g\<lparr>pg_file := file'\<rparr>))"

definition close_fast_path_or_durable ::
  "'d::linorder decimal_ops \<Rightarrow> call_env \<Rightarrow> 'd PersistentResourceGovernor
     \<Rightarrow> ('d ResourceState \<Rightarrow> ('d ResourceError, 'a) result \<times> 'd ResourceState)
     \<Rightarrow> ('d ResourceError, 'a) result \<times> 'd PersistentResourceGovernor" where
  "close_fast_path_or_durable D env g close =
     (let durable = (\<lambda>g. let (res, file') = store_update (update_fault env) (pg_file g) close
                         in (res, g\<lparr>pg_file := file'\<rparr>))
      in case unlimited_fast_path_seed D (inspect_fault env) g of
           Inl e \<Rightarrow> (Err e, g)
         | Inr None \<Rightarrow> durable g
         | Inr (Some seed) \<Rightarrow>
             let g1 = seed_local seed g; (res, st) = close (local_state g1);
                 g2 = g1\<lparr>local_state := st\<rparr>
             in case res of
                  Inr v \<Rightarrow> (Ok v, g2)
                | Inl (UnknownReservation _) \<Rightarrow> durable g2
                | Inl e \<Rightarrow> (Err e, g2))"

definition set_limit ::
  "'d::linorder decimal_ops \<Rightarrow> chrono_ops \<Rightarrow> call_env \<Rightarrow> 'd PersistentResourceGovernor
     \<Rightarrow> ResourceAccount \<Rightarrow> 'd ResourceLimits
     \<Rightarrow> ('d ResourceError, unit) result \<times> 'd PersistentResourceGovernor" where
  "set_limit D C env g account lims =
     (let (res, g') = try_set_limit D C env g account lims
      in (res, if is_ok res then g'\<lparr>events := emit (EvLimitChanged account (now_at env)) (events g')\<rparr> else g'))"

definition reserve_with_id_and_outcome ::
  "'d::linorder decimal_ops \<Rightarrow> chrono_ops \<Rightarrow> call_env \<Rightarrow> 'd PersistentResourceGovernor
     \<Rightarrow> ResourceScope \<Rightarrow> 'd ResourceEstimate \<Rightarrow> ResourceReservationId
     \<Rightarrow> ('d ResourceError, 'd ReservationOutcome) result \<times> 'd PersistentResourceGovernor" where
  "reserve_with_id_and_outcome D C env g scope estimate i =
     (let (res, g') = update_active_state D env g
            (\<lambda>st. reserve_with_outcome_in_state D C st scope estimate i (now_at env))
      in (res, g'\<lparr>events := emit_reserve_events res (now_at env) (events g')\<rparr>))"

definition reconcile ::
  "'d::linorder decimal_ops \<Rightarrow> chrono_ops \<Rightarrow> call_env \<Rightarrow> 'd PersistentResourceGovernor
     \<Rightarrow> ResourceReservationId \<Rightarrow> 'd ResourceUsage
     \<Rightarrow> ('d ResourceError, 'd ResourceReceipt) result \<times> 'd PersistentResourceGovernor" where
  "reconcile D C env g i actual =
     (let (res, g') = close_fast_path_or_durable D env g
            (\<lambda>st. reconcile_in_state D C st i actual (now_at env))
      in (res, case res of
             Inr receipt \<Rightarrow> g'\<lparr>events := emit (EvReconciled (most_specific_account (rcpt_scope receipt))
                receipt (now_at env)) (events g')\<rparr>
           | Inl _ \<Rightarrow> g'))"

definition release ::
  "'d::linorder decimal_ops \<Rightarrow> chrono_ops \<Rightarrow> call_env \<Rightarrow> 'd PersistentResourceGovernor
     \<Rightarrow> ResourceReservationId
     \<Rightarrow> ('d ResourceError, 'd ResourceReceipt) result \<times> 'd PersistentResourceGovernor" where
  "release D C env g i =
     (let (res, g') = close_fast_path_or_durable D env g
            (\<lambda>st. release_in_state D C st i (now_at env))
      in (res, case res of
             Inr receipt \<Rightarrow> g'\<lparr>events := emit (EvReleased (most_specific_account (rcpt_scope receipt))
                receipt (now_at env)) (events g')\<rparr>
           | Inl _ \<Rightarrow> g'))"

definition account_snapshot ::
  "'d::linorder decimal_ops \<Rightarrow> chrono_ops \<Rightarrow> call_env \<Rightarrow> 'd PersistentResourceGovernor
     \<Rightarrow> ResourceAccount
     \<Rightarrow> ('d ResourceError, 'd AccountSnapshot option) result \<times> 'd PersistentResourceGovernor" where
  "account_snapshot D C env g account =
     update_active_state D env g
       (\<lambda>st. let (snap, st') = account_snapshot_in_state D C st account (now_at env) in (Ok snap, st'))"

section \<open>The contract of a governor\<close>

text \<open>
  \<open>step\<close> is any call of the trait, \<open>lookup\<close> what the governor remembers of a reservation and
  \<open>ok\<close> the configurations the contract covers. The laws are local to one call; the lemmas lift
  them to arbitrary sequences of calls.
\<close>

locale resource_governor =
  fixes ok :: "'g \<Rightarrow> bool"
    and step :: "'c \<Rightarrow> 'g \<Rightarrow> 'g"
    and lookup :: "'g \<Rightarrow> ResourceReservationId \<Rightarrow> 'd ReservationRecord option"
    and reconcile_op :: "'e \<Rightarrow> 'g \<Rightarrow> ResourceReservationId \<Rightarrow> 'd ResourceUsage
      \<Rightarrow> ('d ResourceError, 'd ResourceReceipt) result \<times> 'g"
    and release_op :: "'e \<Rightarrow> 'g \<Rightarrow> ResourceReservationId
      \<Rightarrow> ('d ResourceError, 'd ResourceReceipt) result \<times> 'g"
  assumes ok_step: "ok g \<Longrightarrow> ok (step c g)"
    and ok_reconcile: "ok g \<Longrightarrow> ok (snd (reconcile_op e g i u))"
    and ok_release: "ok g \<Longrightarrow> ok (snd (release_op e g i))"
    and closed_step: "ok g \<Longrightarrow> lookup g i = Some r \<Longrightarrow> rec_status r \<noteq> RActive \<Longrightarrow>
      lookup (step c g) i = Some r"
    and reconcile_closes: "ok g \<Longrightarrow> reconcile_op e g i u = (Ok rcpt, g') \<Longrightarrow>
      \<exists>r. lookup g' i = Some r \<and> rec_status r = RReconciled"
    and release_closes: "ok g \<Longrightarrow> release_op e g i = (Ok rcpt, g') \<Longrightarrow>
      \<exists>r. lookup g' i = Some r \<and> rec_status r = RReleased"
    and closed_refused: "ok g \<Longrightarrow> lookup g i = Some r \<Longrightarrow> rec_status r \<noteq> RActive \<Longrightarrow>
      \<not> is_ok (fst (reconcile_op e g i u)) \<and> \<not> is_ok (fst (release_op e g i))"
begin

lemma ok_run: "ok g \<Longrightarrow> ok (fold step cs g)"
  by (induction cs arbitrary: g) (simp_all add: ok_step)

lemma closed_run:
  "ok g \<Longrightarrow> lookup g i = Some r \<Longrightarrow> rec_status r \<noteq> RActive \<Longrightarrow> lookup (fold step cs g) i = Some r"
  by (induction cs arbitrary: g) (simp_all add: ok_step closed_step)

lemma never_closed_again:
  assumes "ok g" and "reconcile_op e g i u = (Ok rcpt, g1) \<or> release_op e g i = (Ok rcpt, g1)"
  shows "\<not> is_ok (fst (reconcile_op e' (fold step cs g1) i u'))
    \<and> \<not> is_ok (fst (release_op e' (fold step cs g1) i))"
proof -
  have ok1: "ok g1"
    using assms(2) ok_reconcile [OF assms(1)] ok_release [OF assms(1)] by (metis snd_conv)
  obtain r where "lookup g1 i = Some r" "rec_status r \<noteq> RActive"
    using assms reconcile_closes release_closes by (metis ReservationStatus.distinct(1,3))
  with ok1 show ?thesis
    by (intro closed_refused [OF ok_run [OF ok1]] closed_run)
qed

end

section \<open>Both governors satisfy it\<close>

fun mem_step ::
  "'d::linorder decimal_ops \<Rightarrow> chrono_ops \<Rightarrow> 'd LedgerOp \<times> instant \<Rightarrow> 'd InMemoryResourceGovernor
     \<Rightarrow> 'd InMemoryResourceGovernor" where
  "mem_step D C (OpSetLimit a l, now) g = snd (mem_set_limit C now g a l)"
| "mem_step D C (OpReserve s e i, now) g = snd (mem_reserve_with_id_and_outcome D C now g s e i)"
| "mem_step D C (OpReconcile i u, now) g = snd (mem_reconcile D C now g i u)"
| "mem_step D C (OpRelease i, now) g = snd (mem_release D C now g i)"
| "mem_step D C (OpSnapshot a, now) g = snd (mem_account_snapshot D C now g a)"

lemma mem_state_step: "mem_state (mem_step D C (op, now) g) = apply_op D C (op, now) (mem_state g)"
  by (cases op)
     (simp_all add: mem_set_limit_def mem_reserve_with_id_and_outcome_def mem_reconcile_def mem_release_def
       mem_account_snapshot_def split: prod.splits)

lemma closed_record_refused:
  assumes "hm_get (reservations st) i = Some r" and "rec_status r \<noteq> RActive"
  shows "reconcile_in_state D C st i u now = (Err (ReservationClosed i (rec_status r)), st)"
    and "release_in_state D C st i now = (Err (ReservationClosed i (rec_status r)), st)"
  using assms by (simp_all add: reconcile_in_state_def release_in_state_def)

lemma closing_closes:
  "reconcile_in_state D C st i u now = (Ok rcpt, st') \<Longrightarrow>
     \<exists>r. hm_get (reservations st') i = Some r \<and> rec_status r = RReconciled"
  "release_in_state D C st i now = (Ok rcpt, st') \<Longrightarrow>
     \<exists>r. hm_get (reservations st') i = Some r \<and> rec_status r = RReleased"
  by (auto elim!: reconcile_Ok_elim release_Ok_elim simp: hm_simps)

interpretation mem: resource_governor "\<lambda>_. True" "mem_step D C" "\<lambda>g. hm_get (reservations (mem_state g))"
  "mem_reconcile D C" "mem_release D C"
proof (unfold_locales, goal_cases)
  case (4 g i r c)
  then show ?case
    by (cases c) (auto simp: mem_state_step intro: closed_record_effect apply_op_effect)
qed (auto simp: mem_reconcile_def mem_release_def closed_record_refused dest: closing_closes
    split: prod.splits)

text \<open>The durable governor: what its file holds.\<close>

definition file_state :: "'d snapshot_file \<Rightarrow> 'd ResourceState option" where
  "file_state f = (case read_file_snapshot f of Inl _ \<Rightarrow> None | Inr s \<Rightarrow> Some (snap_state s))"

definition durable_lookup ::
  "'d PersistentResourceGovernor \<Rightarrow> ResourceReservationId \<Rightarrow> 'd ReservationRecord option" where
  "durable_lookup g i = Option.bind (file_state (pg_file g)) (\<lambda>st. hm_get (reservations st) i)"

lemma read_file_version: "read_file_snapshot f = Ok s \<Longrightarrow> schema_version s = 3"
  by (auto simp: read_file_snapshot_def snapshot_default_def snapshot_deserialize_def
      split: option.splits if_splits)

lemma read_written:
  "schema_version s = 3 \<Longrightarrow> read_file_snapshot (Some (s\<lparr>snap_state := st\<rparr>)) = Ok (s\<lparr>snap_state := st\<rparr>)"
  by (simp add: read_file_snapshot_def snapshot_deserialize_def)

text \<open>A transaction either leaves the file alone or replaces its state by the closure's.\<close>

lemma store_update_file:
  assumes "store_update fault f update = (res, f')"
  shows "f' = f \<and> \<not> is_ok res
    \<or> (\<exists>st v st'. file_state f = Some st \<and> update st = (Ok v, st') \<and> file_state f' = Some st'
        \<and> (res = Ok v \<or> \<not> is_ok res \<and> (\<exists>m. fault = Some (SyncFault m))))"
  using assms
  by (auto simp: store_update_def file_state_def read_written [OF read_file_version]
      split: option.splits IoFault.splits sum.splits prod.splits)

lemma store_update_ok:
  assumes "file_state f = Some st" and "fault = None"
  shows "fst (store_update fault f update) = fst (update st)"
    and "is_ok (fst (update st)) \<Longrightarrow> file_state (snd (store_update fault f update)) = Some (snd (update st))"
    and "\<not> is_ok (fst (update st)) \<Longrightarrow> snd (store_update fault f update) = f"
  using assms
  by (auto simp: store_update_def file_state_def read_written [OF read_file_version]
      split: sum.splits prod.splits)

fun durable_step ::
  "'d::linorder decimal_ops \<Rightarrow> chrono_ops \<Rightarrow> 'd LedgerOp \<times> call_env \<Rightarrow> 'd PersistentResourceGovernor
     \<Rightarrow> 'd PersistentResourceGovernor" where
  "durable_step D C (OpSetLimit a l, env) g = snd (set_limit D C env g a l)"
| "durable_step D C (OpReserve s e i, env) g = snd (reserve_with_id_and_outcome D C env g s e i)"
| "durable_step D C (OpReconcile i u, env) g = snd (reconcile D C env g i u)"
| "durable_step D C (OpRelease i, env) g = snd (release D C env g i)"
| "durable_step D C (OpSnapshot a, env) g = snd (account_snapshot D C env g a)"

fun in_state_op ::
  "'d::linorder decimal_ops \<Rightarrow> chrono_ops \<Rightarrow> 'd LedgerOp \<Rightarrow> instant \<Rightarrow> 'd ResourceState
     \<Rightarrow> ('d ResourceError, unit) result \<times> 'd ResourceState" where
  "in_state_op D C (OpReserve s e i) now st =
     map_prod (map_sum id (\<lambda>_. ())) id (reserve_with_outcome_in_state D C st s e i now)"
| "in_state_op D C (OpReconcile i u) now st =
     map_prod (map_sum id (\<lambda>_. ())) id (reconcile_in_state D C st i u now)"
| "in_state_op D C (OpRelease i) now st =
     map_prod (map_sum id (\<lambda>_. ())) id (release_in_state D C st i now)"
| "in_state_op D C op now st = (Ok (), apply_op D C (op, now) st)"

lemma in_state_op_state: "snd (in_state_op D C op now st) = apply_op D C (op, now) st"
  by (cases op) simp_all

lemma store_update_map:
  "snd (store_update fault f (\<lambda>st. map_prod (map_sum id h) id (update st))) = snd (store_update fault f update)"
  by (simp add: store_update_def split: option.splits IoFault.splits sum.splits prod.splits)

text \<open>Without the fast path, every call is one transaction on the file.\<close>

lemma durable_only:
  assumes "\<not> unlimited_fast_path g"
  shows "update_active_state D env g up =
      (fst (store_update (update_fault env) (pg_file g) up),
       g\<lparr>pg_file := snd (store_update (update_fault env) (pg_file g) up)\<rparr>)"
    and "close_fast_path_or_durable D env g up =
      (fst (store_update (update_fault env) (pg_file g) up),
       g\<lparr>pg_file := snd (store_update (update_fault env) (pg_file g) up)\<rparr>)"
    and "try_set_limit D C env g a l =
      (fst (store_update (update_fault env) (pg_file g) (\<lambda>st. (Ok (), set_limit_in_state C st a l (now_at env)))),
       g\<lparr>pg_file := snd (store_update (update_fault env) (pg_file g)
          (\<lambda>st. (Ok (), set_limit_in_state C st a l (now_at env))))\<rparr>)"
  using assms
  by (simp_all add: update_active_state_def close_fast_path_or_durable_def try_set_limit_def
      unlimited_fast_path_seed_def Let_def case_prod_unfold)

lemma pg_file_events [simp]:
  "pg_file (case res of Inl e \<Rightarrow> g | Inr v \<Rightarrow> g\<lparr>events := f v\<rparr>) = pg_file g"
  "unlimited_fast_path (case res of Inl e \<Rightarrow> g | Inr v \<Rightarrow> g\<lparr>events := f v\<rparr>) = unlimited_fast_path g"
  by (simp_all split: sum.split)

lemma account_snapshot_update:
  "store_update fault f (\<lambda>st. case account_snapshot_in_state D C st a now of (snap, st') \<Rightarrow> (Ok snap, st'))
     = store_update fault f (\<lambda>st. (Ok (fst (account_snapshot_in_state D C st a now)),
         advance_period_if_rolled_over C st a now))"
  by (simp add: case_prod_unfold snapshot_state)

lemma store_update_const:
  "snd (store_update fault f (\<lambda>st. (Ok (h st), up st))) = snd (store_update fault f (\<lambda>st. (Ok (), up st)))"
  by (simp add: store_update_def split: option.split IoFault.split sum.split)

lemma in_state_op_fun:
  "in_state_op D C (OpSetLimit a l) now = (\<lambda>st. (Ok (), set_limit_in_state C st a l now))"
  "in_state_op D C (OpReserve s e i) now =
     (\<lambda>st. map_prod (map_sum id (\<lambda>_. ())) id (reserve_with_outcome_in_state D C st s e i now))"
  "in_state_op D C (OpReconcile i u) now =
     (\<lambda>st. map_prod (map_sum id (\<lambda>_. ())) id (reconcile_in_state D C st i u now))"
  "in_state_op D C (OpRelease i) now =
     (\<lambda>st. map_prod (map_sum id (\<lambda>_. ())) id (release_in_state D C st i now))"
  "in_state_op D C (OpSnapshot a) now = (\<lambda>st. (Ok (), advance_period_if_rolled_over C st a now))"
  by (rule ext, simp add: snapshot_state)+

lemma durable_step_file:
  assumes "\<not> unlimited_fast_path g"
  shows "pg_file (durable_step D C (op, env) g)
      = snd (store_update (update_fault env) (pg_file g) (in_state_op D C op (now_at env)))
    \<and> \<not> unlimited_fast_path (durable_step D C (op, env) g)"
proof (cases op)
  case (OpSnapshot a)
  then show ?thesis
    using assms store_update_const [of "update_fault env" "pg_file g"
        "\<lambda>st. fst (account_snapshot_in_state D C st a (now_at env))"]
    by (simp add: account_snapshot_def durable_only account_snapshot_update in_state_op_fun)
qed (use assms in \<open>simp_all add: set_limit_def reserve_with_id_and_outcome_def reconcile_def release_def
      durable_only store_update_map in_state_op_fun Let_def\<close>)

lemma durable_closed_step:
  assumes "\<not> unlimited_fast_path g" and "durable_lookup g i = Some r" and "rec_status r \<noteq> RActive"
  shows "durable_lookup (durable_step D C (op, env) g) i = Some r"
proof -
  define f where "f = store_update (update_fault env) (pg_file g) (in_state_op D C op (now_at env))"
  have step: "pg_file (durable_step D C (op, env) g) = snd f"
    using durable_step_file [OF assms(1)] by (simp add: f_def)
  from store_update_file [of "update_fault env" "pg_file g" "in_state_op D C op (now_at env)" "fst f" "snd f"]
  consider "snd f = pg_file g"
    | st st' where "file_state (pg_file g) = Some st" "st' = apply_op D C (op, now_at env) st"
        "file_state (snd f) = Some st'"
    using in_state_op_state [of D C op "now_at env"] by (fastforce simp: f_def)
  then show ?thesis
  proof cases
    case 1
    with step assms(2) show ?thesis by (simp add: durable_lookup_def)
  next
    case 2
    with assms(2) have "hm_get (reservations st) i = Some r" by (simp add: durable_lookup_def)
    from closed_record_effect [OF apply_op_effect this assms(3)] 2 step show ?thesis
      by (simp add: durable_lookup_def)
  qed
qed

lemma durable_close_result:
  assumes "\<not> unlimited_fast_path g"
  shows "fst (reconcile D C env g i u) = fst (store_update (update_fault env) (pg_file g)
      (\<lambda>st. reconcile_in_state D C st i u (now_at env)))"
    and "pg_file (snd (reconcile D C env g i u)) = snd (store_update (update_fault env) (pg_file g)
      (\<lambda>st. reconcile_in_state D C st i u (now_at env)))"
    and "fst (release D C env g i) = fst (store_update (update_fault env) (pg_file g)
      (\<lambda>st. release_in_state D C st i (now_at env)))"
    and "pg_file (snd (release D C env g i)) = snd (store_update (update_fault env) (pg_file g)
      (\<lambda>st. release_in_state D C st i (now_at env)))"
    and "\<not> unlimited_fast_path (snd (reconcile D C env g i u))"
    and "\<not> unlimited_fast_path (snd (release D C env g i))"
  using assms by (simp_all add: reconcile_def release_def durable_only Let_def)

lemma store_update_Ok:
  assumes "fst (store_update fault f update) = Ok v"
  shows "\<exists>st st'. file_state f = Some st \<and> update st = (Ok v, st')
    \<and> file_state (snd (store_update fault f update)) = Some st'"
  using assms by (cases "store_update fault f update") (fastforce dest: store_update_file)

interpretation durable: resource_governor "\<lambda>g. \<not> unlimited_fast_path g" "durable_step D C" durable_lookup
  "reconcile D C" "release D C"
proof (unfold_locales, goal_cases)
  case (1 g c)
  then show ?case using durable_step_file [OF 1, of D C "fst c" "snd c"] by simp
next
  case (4 g i r c)
  then show ?case using durable_closed_step [of g i r D C "fst c" "snd c"] by simp
next
  case (5 g e i u rcpt g')
  then have "fst (store_update (update_fault e) (pg_file g) (\<lambda>st. reconcile_in_state D C st i u (now_at e))) = Ok rcpt"
    using durable_close_result(1) [of g D C e i u] by simp
  from store_update_Ok [OF this] closing_closes(1) show ?case
    using durable_close_result(2) [of g D C e i u] 5 by (fastforce simp: durable_lookup_def)
next
  case (6 g e i rcpt g')
  then have "fst (store_update (update_fault e) (pg_file g) (\<lambda>st. release_in_state D C st i (now_at e))) = Ok rcpt"
    using durable_close_result(3) [of g D C e i] by simp
  from store_update_Ok [OF this] closing_closes(2) show ?case
    using durable_close_result(4) [of g D C e i] 6 by (fastforce simp: durable_lookup_def)
next
  case (7 g i r e u)
  obtain st where st: "file_state (pg_file g) = Some st" "hm_get (reservations st) i = Some r"
    using 7(2) by (auto simp: durable_lookup_def bind_eq_Some_conv)
  have no: "\<not> is_ok (fst (store_update (update_fault e) (pg_file g) up))" if "\<not> is_ok (fst (up st))" for up :: "_ \<Rightarrow> (_, 'a ResourceReceipt) result \<times> _"
    using that st(1) store_update_Ok [of "update_fault e" "pg_file g" up]
    by (cases "fst (store_update (update_fault e) (pg_file g) up)") auto
  show ?case
    unfolding durable_close_result(1,3) [OF 7(1)]
    by (intro conjI no) (simp_all add: closed_record_refused [OF st(2) 7(3)])
qed (simp_all add: durable_close_result)

section \<open>A concrete governor\<close>

definition at_noon :: call_env where
  "at_noon = \<lparr>now_at = noon, inspect_fault = None, update_fault = None\<rparr>"

definition fresh_governor :: "bool \<Rightarrow> int PersistentResourceGovernor" where
  "fresh_governor fast = \<lparr>pg_file = None, unlimited_fast_path = fast, local_state = ResourceState_default,
     local_initialized = False, events = []\<rparr>"

definition no_limits :: "int ResourceLimits" where
  "no_limits = \<lparr>lim_usd = None, lim_input_tokens = None, lim_output_tokens = None,
     lim_wall_clock_ms = None, lim_output_bytes = None, lim_network_egress_bytes = None,
     lim_process_count = None, lim_concurrency_slots = None,
     lim_period = PerInvocation, lim_thresholds = BudgetThresholds_DISABLED\<rparr>"

definition token_limit :: "int ResourceLimits" where
  "token_limit = no_limits\<lparr>lim_input_tokens := Some 1000\<rparr>"

definition file_governor :: "int PersistentResourceGovernor" where
  "file_governor = (fresh_governor False)\<lparr>pg_file := Some \<lparr>schema_version = 2, snap_state = example_ledger,
     journal_seq = 9\<rparr>\<rparr>"

section \<open>Properties\<close>

text \<open>
  the persistent governor (file store, fast path off) closes a reservation at most once,
  across any later sequence of calls and any I/O failures in them, including failures reported
  after the file was already replaced.
\<close>

theorem durable_closes_once:
  assumes "\<not> unlimited_fast_path g"
    and "reconcile D C env g i u = (Ok rcpt, g1) \<or> release D C env g i = (Ok rcpt, g1)"
  shows "\<not> is_ok (fst (reconcile D C env' (fold (durable_step D C) calls g1) i u'))
    \<and> \<not> is_ok (fst (release D C env' (fold (durable_step D C) calls g1) i))"
  by (rule durable.never_closed_again [OF assms])

lemma durable_closes_once_witness:
  "\<not> is_ok (fst (release cents utc at_noon (fold (durable_step cents utc) [(OpSnapshot acme, at_noon)]
     (snd (release cents utc at_noon file_governor 2))) 2))"
proof -
  have "is_ok (fst (release cents utc at_noon file_governor 2))"
    by code_simp
  then obtain rcpt g1 where 1: "release cents utc at_noon file_governor 2 = (Ok rcpt, g1)"
    by (rule is_okE)
  have "\<not> unlimited_fast_path file_governor"
    by (simp add: file_governor_def fresh_governor_def)
  from durable_closes_once [OF this disjI2 [OF 1], of at_noon "[(OpSnapshot acme, at_noon)]"]
  show ?thesis by (simp add: 1)
qed

text \<open>
  every call on the persistent governor is a transaction on the snapshot file. Without an
  I/O failure the file holds exactly the state the in-memory operation computes when that
  operation succeeds, and is untouched when it is refused; a failure to read or to write leaves
  the file untouched; a failure reported after the rename leaves either the old or the new state.
\<close>

theorem durable_transaction:
  assumes "\<not> unlimited_fast_path g" and "file_state (pg_file g) = Some st"
    and "g' = durable_step D C (op, env) g"
  shows "case update_fault env of
      None \<Rightarrow> if is_ok (fst (in_state_op D C op (now_at env) st))
              then file_state (pg_file g') = Some (apply_op D C (op, now_at env) st)
              else pg_file g' = pg_file g
    | Some (SyncFault m) \<Rightarrow> pg_file g' = pg_file g
        \<or> file_state (pg_file g') = Some (apply_op D C (op, now_at env) st)
    | Some _ \<Rightarrow> pg_file g' = pg_file g"
proof -
  define f where "f = store_update (update_fault env) (pg_file g) (in_state_op D C op (now_at env))"
  have step: "pg_file g' = snd f"
    using durable_step_file [OF assms(1)] by (simp add: f_def assms(3))
  show ?thesis
  proof (cases "update_fault env")
    case None
    then show ?thesis
      using store_update_ok(2,3) [OF assms(2), of "update_fault env" "in_state_op D C op (now_at env)"]
      by (auto simp: step f_def in_state_op_state)
  next
    case (Some fault)
    then show ?thesis
      using assms(2) in_state_op_state [of D C op "now_at env" st]
      by (cases fault)
         (auto simp: step f_def store_update_def file_state_def read_written [OF read_file_version]
           split: sum.splits prod.splits)
  qed
qed

lemma durable_transaction_witness:
  "file_state (pg_file (durable_step cents utc (OpRelease 2, at_noon) file_governor))
     = Some (apply_op cents utc (OpRelease 2, noon) example_ledger)"
proof -
  have "\<not> unlimited_fast_path file_governor" and "file_state (pg_file file_governor) = Some example_ledger"
    by (simp_all add: file_governor_def fresh_governor_def file_state_def read_file_snapshot_def
        snapshot_deserialize_def)
  moreover have "is_ok (fst (in_state_op cents utc (OpRelease 2) noon example_ledger))"
    by code_simp
  ultimately show ?thesis
    using durable_transaction [of file_governor example_ledger _ cents utc "OpRelease 2" at_noon, OF _ _ refl]
    by (simp add: at_noon_def)
qed


end
