(* ===== verification/Trust.thy ===== *)
theory Trust
  imports Host_Api
begin

text \<open>
  The host trust policy of \<open>ironclaw_trust\<close>: a chain of policy sources evaluated in order
  (\<open>policy.rs\<close>, \<open>sources.rs\<close>), the authority ceiling a match confers (\<open>decision.rs\<close>) and
  the invalidation event a policy mutation publishes (\<open>invalidation.rs\<close>). The trait object
  \<open>dyn PolicySource\<close> is a datatype with the crate's four implementations; the type id a
  downcast compares is the constructor.
\<close>

section \<open>Packages and decisions\<close>


datatype RequestedTrustClass = Untrusted | ThirdParty | FirstPartyRequested | SystemRequested

datatype PackageSource =
    SourceBundled | SourceLocalManifest string | SourceRegistry string | SourceAdmin

record PackageIdentity =
  pkg_id :: PackageId
  pkg_source :: PackageSource
  pkg_digest :: "string option"
  pkg_signer :: "string option"

record EffectiveTrustClass =
  eff_inner :: TrustClass

definition eff_class :: "EffectiveTrustClass \<Rightarrow> TrustClass" where
  "eff_class t = eff_inner t"

definition is_privileged :: "EffectiveTrustClass \<Rightarrow> bool" where
  "is_privileged t = (eff_inner t = TrustFirstParty \<or> eff_inner t = TrustSystem)"

definition authority_level :: "EffectiveTrustClass \<Rightarrow> nat" where
  "authority_level t = (case eff_inner t of
     TrustSandbox \<Rightarrow> 0 | UserTrusted \<Rightarrow> 1 | TrustFirstParty \<Rightarrow> 2 | TrustSystem \<Rightarrow> 2)"

datatype TrustProvenance =
    ProvDefault | ProvBundled | ProvAdminConfig | ProvSignedRegistry string | ProvLocalManifest

record 'd AuthorityCeiling =
  auth_allowed_effects :: "EffectKind list"
  max_resource_ceiling :: "'d ResourceCeiling option"

definition AuthorityCeiling_empty :: "'d AuthorityCeiling" where
  "AuthorityCeiling_empty = \<lparr>auth_allowed_effects = [], max_resource_ceiling = None\<rparr>"

definition allows_effect :: "'d AuthorityCeiling \<Rightarrow> EffectKind \<Rightarrow> bool" where
  "allows_effect c e = (e \<in> set (auth_allowed_effects c))"

fun limit_reduced :: "'a::linorder option \<Rightarrow> 'a option \<Rightarrow> bool" where
  "limit_reduced None (Some c) = True"
| "limit_reduced (Some p) (Some c) = (c < p)"
| "limit_reduced p None = False"

fun sandbox_quota_reduced :: "SandboxQuota option \<Rightarrow> SandboxQuota option \<Rightarrow> bool" where
  "sandbox_quota_reduced None (Some c) = True"
| "sandbox_quota_reduced p None = False"
| "sandbox_quota_reduced (Some p) (Some c) =
     (limit_reduced (sq_cpu_time_ms p) (sq_cpu_time_ms c)
      \<or> limit_reduced (sq_memory_bytes p) (sq_memory_bytes c)
      \<or> limit_reduced (sq_disk_bytes p) (sq_disk_bytes c)
      \<or> limit_reduced (sq_network_egress_bytes p) (sq_network_egress_bytes c)
      \<or> limit_reduced (sq_process_count p) (sq_process_count c))"

fun resource_ceiling_reduced ::
  "'d::linorder ResourceCeiling option \<Rightarrow> 'd ResourceCeiling option \<Rightarrow> bool" where
  "resource_ceiling_reduced None (Some c) = True"
| "resource_ceiling_reduced p None = False"
| "resource_ceiling_reduced (Some p) (Some c) =
     (limit_reduced (max_usd p) (max_usd c)
      \<or> limit_reduced (max_input_tokens p) (max_input_tokens c)
      \<or> limit_reduced (max_output_tokens p) (max_output_tokens c)
      \<or> limit_reduced (max_wall_clock_ms p) (max_wall_clock_ms c)
      \<or> limit_reduced (max_output_bytes p) (max_output_bytes c)
      \<or> sandbox_quota_reduced (sandbox p) (sandbox c))"

definition is_reduction_from :: "'d::linorder AuthorityCeiling \<Rightarrow> 'd AuthorityCeiling \<Rightarrow> bool" where
  "is_reduction_from self previous =
     (list_ex (\<lambda>e. e \<notin> set (auth_allowed_effects self)) (auth_allowed_effects previous)
      \<or> resource_ceiling_reduced (max_resource_ceiling previous) (max_resource_ceiling self))"

record 'd TrustDecision =
  effective_trust :: EffectiveTrustClass
  authority_ceiling :: "'d AuthorityCeiling"
  provenance :: TrustProvenance
  evaluated_at :: instant

record TrustPolicyInput =
  identity :: PackageIdentity
  requested_trust :: RequestedTrustClass
  requested_authority :: "CapabilityId list"

record 'd SourceMatch =
  match_trust :: EffectiveTrustClass
  match_provenance :: TrustProvenance
  match_effects :: "EffectKind list"
  match_ceiling :: "'d ResourceCeiling option"

datatype TrustError = TrustInvariantViolation string

section \<open>Sources\<close>

record 'd BundledEntry =
  be_package_id :: PackageId
  be_digest :: "string option"
  be_trust :: EffectiveTrustClass
  be_allowed_effects :: "EffectKind list"
  be_max_resource_ceiling :: "'d ResourceCeiling option"

record 'd AdminEntry =
  ae_package_id :: PackageId
  ae_source :: PackageSource
  ae_digest :: "string option"
  ae_trust :: EffectiveTrustClass
  ae_allowed_effects :: "EffectKind list"
  ae_max_resource_ceiling :: "'d ResourceCeiling option"

record 'd SignerEntry =
  se_signer :: string
  se_label :: "string option"
  se_trust :: EffectiveTrustClass
  se_allowed_effects :: "EffectKind list"
  se_max_resource_ceiling :: "'d ResourceCeiling option"

type_synonym 'd BundledRegistry = "(PackageId, 'd BundledEntry) hashmap"
type_synonym 'd AdminConfig = "(PackageId \<times> PackageSource, 'd AdminEntry) hashmap"
type_synonym 'd SignedRegistry = "(string, 'd SignerEntry) hashmap"
type_synonym 'd LocalDevOverride = "bool \<times> (PackageId, 'd AdminEntry) hashmap"

definition bundled_upsert :: "'d BundledEntry \<Rightarrow> 'd BundledRegistry \<Rightarrow> 'd BundledRegistry" where
  "bundled_upsert e m = hm_insert (be_package_id e) e m"

definition admin_upsert :: "'d AdminEntry \<Rightarrow> 'd AdminConfig \<Rightarrow> 'd AdminConfig" where
  "admin_upsert e m = hm_insert (ae_package_id e, ae_source e) e m"

definition signed_upsert :: "'d SignerEntry \<Rightarrow> 'd SignedRegistry \<Rightarrow> 'd SignedRegistry" where
  "signed_upsert e m = hm_insert (se_signer e) e m"

text \<open>The digest pin shared by the bundled registry and the admin configuration.\<close>

definition digest_matches :: "string option \<Rightarrow> string option \<Rightarrow> bool" where
  "digest_matches pinned actual = (case pinned of None \<Rightarrow> True | Some p \<Rightarrow> actual = Some p)"

definition bundled_evaluate ::
  "'d BundledRegistry \<Rightarrow> TrustPolicyInput \<Rightarrow> (TrustError, 'd SourceMatch option) result" where
  "bundled_evaluate entries input =
     (if pkg_source (identity input) \<noteq> SourceBundled then Ok None
      else case hm_get entries (pkg_id (identity input)) of
        None \<Rightarrow> Ok None
      | Some entry \<Rightarrow>
          if \<not> digest_matches (be_digest entry) (pkg_digest (identity input)) then Ok None
          else Ok (Some \<lparr>match_trust = be_trust entry, match_provenance = ProvBundled,
                 match_effects = be_allowed_effects entry,
                 match_ceiling = be_max_resource_ceiling entry\<rparr>))"

definition admin_evaluate ::
  "'d AdminConfig \<Rightarrow> TrustPolicyInput \<Rightarrow> (TrustError, 'd SourceMatch option) result" where
  "admin_evaluate entries input =
     (case hm_get entries (pkg_id (identity input), pkg_source (identity input)) of
        None \<Rightarrow> Ok None
      | Some entry \<Rightarrow>
          if \<not> digest_matches (ae_digest entry) (pkg_digest (identity input)) then Ok None
          else Ok (Some \<lparr>match_trust = ae_trust entry, match_provenance = ProvAdminConfig,
                 match_effects = ae_allowed_effects entry,
                 match_ceiling = ae_max_resource_ceiling entry\<rparr>))"

datatype 'd PolicySource =
    SrcBundled "'d BundledRegistry"
  | SrcAdmin "'d AdminConfig"
  | SrcSigned "'d SignedRegistry"
  | SrcLocalDev "'d LocalDevOverride"

datatype SourceType = TyBundled | TyAdmin | TySigned | TyLocalDev

fun type_id :: "'d PolicySource \<Rightarrow> SourceType" where
  "type_id (SrcBundled _) = TyBundled"
| "type_id (SrcAdmin _) = TyAdmin"
| "type_id (SrcSigned _) = TySigned"
| "type_id (SrcLocalDev _) = TyLocalDev"

fun source_name :: "'d PolicySource \<Rightarrow> string" where
  "source_name (SrcBundled _) = ''bundled''"
| "source_name (SrcAdmin _) = ''admin_config''"
| "source_name (SrcSigned _) = ''signed_registry''"
| "source_name (SrcLocalDev _) = ''local_dev_override''"

fun source_evaluate ::
  "'d PolicySource \<Rightarrow> TrustPolicyInput \<Rightarrow> (TrustError, 'd SourceMatch option) result" where
  "source_evaluate (SrcBundled m) input = bundled_evaluate m input"
| "source_evaluate (SrcAdmin m) input = admin_evaluate m input"
| "source_evaluate (SrcSigned _) input = Ok None"
| "source_evaluate (SrcLocalDev _) input = Ok None"

section \<open>The policy chain\<close>

definition source_type_absent :: "'d PolicySource list \<Rightarrow> 'd PolicySource \<Rightarrow> (TrustError, unit) result" where
  "source_type_absent sources candidate =
     (if list_ex (\<lambda>s. type_id s = type_id candidate) sources
      then Err (TrustInvariantViolation (''policy chain already contains source type `'' @ source_name candidate @ ''`''))
      else Ok ())"

fun ensure_unique_source_types ::
  "SourceType list \<Rightarrow> 'd PolicySource list \<Rightarrow> (TrustError, unit) result" where
  "ensure_unique_source_types seen [] = Ok ()"
| "ensure_unique_source_types seen (s # ss) =
     (if type_id s \<in> set seen
      then Err (TrustInvariantViolation (''policy chain contains duplicate source type `'' @ source_name s @ ''`''))
      else ensure_unique_source_types (type_id s # seen) ss)"

definition HostTrustPolicy_new :: "'d PolicySource list \<Rightarrow> (TrustError, 'd PolicySource list) result" where
  "HostTrustPolicy_new sources =
     result_bind (ensure_unique_source_types [] sources) (\<lambda>_. Ok sources)"

definition add_source ::
  "'d PolicySource list \<Rightarrow> 'd PolicySource \<Rightarrow> (TrustError, 'd PolicySource list) result" where
  "add_source sources source = result_bind (source_type_absent sources source) (\<lambda>_. Ok (sources @ [source]))"

definition default_decision :: "instant \<Rightarrow> 'd TrustDecision" where
  "default_decision t = \<lparr>effective_trust = \<lparr>eff_inner = TrustSandbox\<rparr>,
     authority_ceiling = AuthorityCeiling_empty, provenance = ProvDefault, evaluated_at = t\<rparr>"

fun evaluate_unlocked ::
  "instant \<Rightarrow> 'd PolicySource list \<Rightarrow> TrustPolicyInput \<Rightarrow> (TrustError, 'd TrustDecision) result" where
  "evaluate_unlocked now [] input = Ok (default_decision now)"
| "evaluate_unlocked now (s # ss) input =
     (case source_evaluate s input of
        Inl e \<Rightarrow> Err e
      | Inr (Some m) \<Rightarrow> Ok \<lparr>effective_trust = match_trust m,
          authority_ceiling = \<lparr>auth_allowed_effects = match_effects m, max_resource_ceiling = match_ceiling m\<rparr>,
          provenance = match_provenance m, evaluated_at = now\<rparr>
      | Inr None \<Rightarrow> evaluate_unlocked now ss input)"

section \<open>Mutation and invalidation\<close>

record 'd TrustChange =
  tc_identity :: PackageIdentity
  tc_previous :: EffectiveTrustClass
  tc_current :: EffectiveTrustClass
  tc_previous_ceiling :: "'d AuthorityCeiling"
  tc_current_ceiling :: "'d AuthorityCeiling"
  tc_effective_at :: instant

definition TrustChange_new ::
  "PackageIdentity \<Rightarrow> 'd::linorder TrustDecision \<Rightarrow> 'd TrustDecision \<Rightarrow> 'd TrustChange option" where
  "TrustChange_new ident prev cur =
     (if effective_trust prev = effective_trust cur
        \<and> \<not> is_reduction_from (authority_ceiling cur) (authority_ceiling prev)
      then None
      else Some \<lparr>tc_identity = ident, tc_previous = effective_trust prev,
        tc_current = effective_trust cur, tc_previous_ceiling = authority_ceiling prev,
        tc_current_ceiling = authority_ceiling cur, tc_effective_at = evaluated_at cur\<rparr>)"

definition is_downgrade :: "'d TrustChange \<Rightarrow> bool" where
  "is_downgrade c = (authority_level (tc_current c) < authority_level (tc_previous c))"

definition is_upgrade :: "'d TrustChange \<Rightarrow> bool" where
  "is_upgrade c = (authority_level (tc_previous c) < authority_level (tc_current c))"

definition is_kind_change :: "'d TrustChange \<Rightarrow> bool" where
  "is_kind_change c = (tc_previous c \<noteq> tc_current c
     \<and> authority_level (tc_current c) = authority_level (tc_previous c))"

definition authority_ceiling_reduced :: "'d::linorder TrustChange \<Rightarrow> bool" where
  "authority_ceiling_reduced c = is_reduction_from (tc_current_ceiling c) (tc_previous_ceiling c)"

text \<open>The bus: what each listener is handed, in registration order.\<close>

definition publish :: "'l list \<Rightarrow> 'd::linorder TrustChange \<Rightarrow> ('l \<times> 'd TrustChange) list" where
  "publish listeners change =
     (if tc_previous change = tc_current change \<and> \<not> authority_ceiling_reduced change then []
      else map (\<lambda>l. (l, change)) listeners)"

datatype 'd SourceMutation =
    BundledUpsert "'d BundledEntry"
  | BundledRemove PackageId
  | AdminUpsert "'d AdminEntry"
  | AdminRemove PackageId PackageSource
  | SignedUpsert "'d SignerEntry"
  | SignedRemove string

fun mutation_type :: "'d SourceMutation \<Rightarrow> SourceType" where
  "mutation_type (BundledUpsert _) = TyBundled"
| "mutation_type (BundledRemove _) = TyBundled"
| "mutation_type (AdminUpsert _) = TyAdmin"
| "mutation_type (AdminRemove _ _) = TyAdmin"
| "mutation_type (SignedUpsert _) = TySigned"
| "mutation_type (SignedRemove _) = TySigned"

text \<open>\<open>SourceMutators::find\<close>: exactly one source of the type.\<close>

definition find_source :: "'d PolicySource list \<Rightarrow> SourceType \<Rightarrow> (TrustError, unit) result" where
  "find_source sources ty =
     (case filter (\<lambda>s. type_id s = ty) sources of
        [] \<Rightarrow> Err (TrustInvariantViolation ''policy chain does not contain a source of the type'')
      | [s] \<Rightarrow> Ok ()
      | _ \<Rightarrow> Err (TrustInvariantViolation ''policy chain contains duplicate source type''))"

fun apply_mutation :: "'d SourceMutation \<Rightarrow> 'd PolicySource \<Rightarrow> 'd PolicySource" where
  "apply_mutation (BundledUpsert e) (SrcBundled m) = SrcBundled (bundled_upsert e m)"
| "apply_mutation (BundledRemove p) (SrcBundled m) = SrcBundled (hm_remove p m)"
| "apply_mutation (AdminUpsert e) (SrcAdmin m) = SrcAdmin (admin_upsert e m)"
| "apply_mutation (AdminRemove p s) (SrcAdmin m) = SrcAdmin (hm_remove (p, s) m)"
| "apply_mutation (SignedUpsert e) (SrcSigned m) = SrcSigned (signed_upsert e m)"
| "apply_mutation (SignedRemove s) (SrcSigned m) = SrcSigned (hm_remove s m)"
| "apply_mutation _ s = s"

text \<open>
  The closure handed to \<open>mutate_with\<close> calls the staging methods in turn, each of which
  checks that its source exists, and may fail of its own accord at the end.
\<close>

fun stage :: "'d PolicySource list \<Rightarrow> 'd SourceMutation list \<Rightarrow> (TrustError, unit) result" where
  "stage sources [] = Ok ()"
| "stage sources (m # ms) = result_bind (find_source sources (mutation_type m)) (\<lambda>_. stage sources ms)"

fun commit :: "'d PolicySource list \<Rightarrow> 'd SourceMutation list \<Rightarrow> (TrustError, unit) result \<times> 'd PolicySource list" where
  "commit sources [] = (Ok (), sources)"
| "commit sources (m # ms) =
     (case find_source sources (mutation_type m) of
        Inl e \<Rightarrow> (Err e, sources)
      | Inr _ \<Rightarrow> commit (map (apply_mutation m) sources) ms)"

definition mutate_with ::
  "instant \<Rightarrow> 'd::linorder PolicySource list \<Rightarrow> TrustPolicyInput \<Rightarrow> 'd SourceMutation list
     \<Rightarrow> (TrustError, 'r) result
     \<Rightarrow> (TrustError, 'r \<times> 'd TrustChange option) result \<times> 'd PolicySource list" where
  "mutate_with now sources probe mutations closure_result =
     (case evaluate_unlocked now sources probe of
        Inl e \<Rightarrow> (Err e, sources)
      | Inr prev \<Rightarrow>
          (case result_bind (stage sources mutations) (\<lambda>_. closure_result) of
             Inl e \<Rightarrow> (Err e, sources)
           | Inr r \<Rightarrow>
               (case commit sources mutations of
                  (Inl e, sources') \<Rightarrow> (Err e, sources')
                | (Inr _, sources') \<Rightarrow>
                    (case evaluate_unlocked now sources' probe of
                       Inl e \<Rightarrow> (Err e, sources')
                     | Inr cur \<Rightarrow> (Ok (r, TrustChange_new (identity probe) prev cur), sources')))))"

definition identity_changed :: "PackageIdentity \<Rightarrow> PackageIdentity \<Rightarrow> bool" where
  "identity_changed prev cur =
     (pkg_id prev \<noteq> pkg_id cur \<or> pkg_source prev \<noteq> pkg_source cur
      \<or> pkg_digest prev \<noteq> pkg_digest cur \<or> pkg_signer prev \<noteq> pkg_signer cur)"

definition authority_changed :: "CapabilityId list \<Rightarrow> CapabilityId list \<Rightarrow> bool" where
  "authority_changed prev cur = (set prev \<noteq> set cur)"

definition grant_retention_eligible ::
  "PackageIdentity \<Rightarrow> PackageIdentity \<Rightarrow> EffectiveTrustClass \<Rightarrow> EffectiveTrustClass
     \<Rightarrow> CapabilityId list \<Rightarrow> CapabilityId list \<Rightarrow> bool" where
  "grant_retention_eligible prev_identity curr_identity prev_trust curr_trust prev_authority curr_authority =
     (\<not> identity_changed prev_identity curr_identity \<and> prev_trust = curr_trust
      \<and> \<not> authority_changed prev_authority curr_authority)"

section \<open>Laws\<close>

lemma source_evaluate_total: "is_ok (source_evaluate s input)"
  by (cases s) (simp_all add: bundled_evaluate_def admin_evaluate_def split: option.split)

lemma evaluate_total: "\<exists>d. evaluate_unlocked now sources input = Ok d"
proof (induction sources)
  case Nil
  then show ?case by simp
next
  case (Cons s ss)
  then show ?case
    using source_evaluate_total [of s input]
    by (cases "source_evaluate s input") (auto split: option.split)
qed

lemma source_evaluate_requested:
  "source_evaluate s (input\<lparr>requested_trust := r, requested_authority := a\<rparr>) = source_evaluate s input"
  by (cases s) (simp_all add: bundled_evaluate_def admin_evaluate_def split: option.split)

lemma evaluate_requested:
  "evaluate_unlocked now sources (input\<lparr>requested_trust := r, requested_authority := a\<rparr>)
     = evaluate_unlocked now sources input"
  by (induction sources) (simp_all add: source_evaluate_requested split: sum.split option.split)

text \<open>What a decision above the default rests on.\<close>

definition vouched_by :: "'d PolicySource \<Rightarrow> TrustPolicyInput \<Rightarrow> 'd TrustDecision \<Rightarrow> bool" where
  "vouched_by s input d =
     (case s of
        SrcBundled m \<Rightarrow> pkg_source (identity input) = SourceBundled
          \<and> (case hm_get m (pkg_id (identity input)) of None \<Rightarrow> False
             | Some e \<Rightarrow> digest_matches (be_digest e) (pkg_digest (identity input))
                 \<and> effective_trust d = be_trust e
                 \<and> authority_ceiling d = \<lparr>auth_allowed_effects = be_allowed_effects e,
                      max_resource_ceiling = be_max_resource_ceiling e\<rparr>)
      | SrcAdmin m \<Rightarrow>
          (case hm_get m (pkg_id (identity input), pkg_source (identity input)) of None \<Rightarrow> False
           | Some e \<Rightarrow> digest_matches (ae_digest e) (pkg_digest (identity input))
               \<and> effective_trust d = ae_trust e
               \<and> authority_ceiling d = \<lparr>auth_allowed_effects = ae_allowed_effects e,
                    max_resource_ceiling = ae_max_resource_ceiling e\<rparr>)
      | _ \<Rightarrow> False)"

lemma source_match_vouches:
  assumes "source_evaluate s input = Ok (Some m)" and "effective_trust d = match_trust m"
    and "authority_ceiling d = \<lparr>auth_allowed_effects = match_effects m, max_resource_ceiling = match_ceiling m\<rparr>"
  shows "vouched_by s input d"
  using assms
  by (cases s) (auto simp: vouched_by_def bundled_evaluate_def admin_evaluate_def split: option.splits if_splits)

lemma evaluate_vouched:
  assumes "evaluate_unlocked now sources input = Ok d"
  shows "d = default_decision now \<or> (\<exists>s \<in> set sources. vouched_by s input d)"
  using assms
proof (induction sources)
  case Nil
  then show ?case by simp
next
  case (Cons s ss)
  then show ?case
    by (auto split: sum.splits option.splits dest!: source_match_vouches [where d = d])
qed

text \<open>
  C10: trust is assigned by the host and never by the package. A package obtains more than the
  sandbox default (any effect, or a class other than sandbox) only if a bundled-registry entry
  for its id, while the package is bundled, or an admin entry for exactly its id and origin, with
  a matching digest where one is pinned, confers that class and that ceiling; and the decision
  does not depend on the trust or the authority the package requests for itself.
\<close>

theorem trust_requires_host_entry:
  assumes "evaluate_unlocked now sources input = Ok d"
    and "effective_trust d \<noteq> \<lparr>eff_inner = TrustSandbox\<rparr> \<or> allows_effect (authority_ceiling d) e"
  shows "(\<exists>s \<in> set sources. vouched_by s input d)
    \<and> evaluate_unlocked now sources (input\<lparr>requested_trust := r, requested_authority := a\<rparr>) = Ok d"
  using evaluate_vouched [OF assms(1)] assms
  by (auto simp: default_decision_def AuthorityCeiling_empty_def allows_effect_def evaluate_requested)

definition example_bundled :: "nat BundledEntry" where
  "example_bundled = \<lparr>be_package_id = ''shell'', be_digest = Some ''d1'',
     be_trust = \<lparr>eff_inner = TrustFirstParty\<rparr>, be_allowed_effects = [ReadFilesystem],
     be_max_resource_ceiling = None\<rparr>"

definition example_input :: TrustPolicyInput where
  "example_input = \<lparr>identity = \<lparr>pkg_id = ''shell'', pkg_source = SourceBundled, pkg_digest = Some ''d1'',
     pkg_signer = None\<rparr>, requested_trust = Untrusted, requested_authority = []\<rparr>"

lemma trust_requires_host_entry_witness:
  "\<exists>d. evaluate_unlocked 3 [SrcBundled [(''shell'', example_bundled)]] example_input = Ok d
     \<and> vouched_by (SrcBundled [(''shell'', example_bundled)]) example_input d"
proof -
  obtain d where d: "evaluate_unlocked 3 [SrcBundled [(''shell'', example_bundled)]] example_input = Ok d"
    "effective_trust d = \<lparr>eff_inner = TrustFirstParty\<rparr>"
    by (simp add: bundled_evaluate_def example_input_def example_bundled_def hm_get_def digest_matches_def)
  from trust_requires_host_entry [OF d(1), of WriteFilesystem] d show ?thesis
    by simp
qed

lemma type_id_apply_mutation [simp]: "type_id (apply_mutation m s) = type_id s"
  by (cases m; cases s) simp_all

lemma find_source_mutated: "find_source (map (apply_mutation m) sources) ty = find_source sources ty"
proof -
  have "filter (\<lambda>s. type_id s = ty) (map (apply_mutation m) sources)
      = map (apply_mutation m) (filter (\<lambda>s. type_id s = ty) sources)"
    by (simp add: filter_map o_def)
  then show ?thesis
    by (simp add: find_source_def split: list.split)
qed

lemma stage_mutated: "stage (map (apply_mutation m) sources) ms = stage sources ms"
  by (induction ms) (simp_all add: find_source_mutated)

lemma type_id_fold_mutations:
  "map type_id (fold (\<lambda>m. map (apply_mutation m)) ms ss) = map type_id ss"
  by (induction ms arbitrary: ss) (simp_all add: o_def)

lemma commit_after_stage:
  "stage sources ms = Ok () \<Longrightarrow> commit sources ms = (Ok (), fold (\<lambda>m. map (apply_mutation m)) ms sources)"
proof (induction ms arbitrary: sources)
  case Nil
  then show ?case by simp
next
  case (Cons m ms)
  then show ?case
    by (auto simp: stage_mutated result_simps)
qed


end
