(* ===== verification/Leases.thy ===== *)
theory Leases
  imports Host_Api
begin

text \<open>
  Capability leases (\<open>ironclaw_authorization/src/lib.rs\<close>): the lease life cycle, the
  in-memory store and the filesystem store with its compare-and-swap retry loop. The state
  transition rules are functions on one lease (\<open>claim_lease\<close>, \<open>consume_lease\<close> and so on); a
  store applies one of them to the record at a key. The clock reading \<open>now\<close> is an argument.
\<close>

section \<open>Leases and their transitions\<close>

datatype CapabilityLeaseStatus =
    LeaseActive | LeaseClaimed | LeaseDispatching | LeaseConsumed | LeaseRevoked

record 'd CapabilityLease =
  lease_scope :: ResourceScope
  lease_grant :: "'d CapabilityGrant"
  lease_fingerprint :: "InvocationFingerprint option"
  lease_status :: CapabilityLeaseStatus

definition CapabilityLease_new :: "ResourceScope \<Rightarrow> 'd CapabilityGrant \<Rightarrow> 'd CapabilityLease" where
  "CapabilityLease_new scope grant =
     \<lparr>lease_scope = scope, lease_grant = grant, lease_fingerprint = None, lease_status = LeaseActive\<rparr>"

datatype CapabilityLeaseError =
    UnknownLease CapabilityGrantId
  | ExpiredLease CapabilityGrantId
  | ExhaustedLease CapabilityGrantId
  | UnclaimedFingerprintLease CapabilityGrantId
  | FingerprintMismatch CapabilityGrantId
  | InactiveLease CapabilityGrantId CapabilityLeaseStatus
  | LeasePersistence string
  | VersionMismatch
  | CasExhausted

abbreviation lease_id :: "'d CapabilityLease \<Rightarrow> CapabilityGrantId" where
  "lease_id l \<equiv> grant_id (lease_grant l)"

abbreviation remaining :: "'d CapabilityLease \<Rightarrow> u64 option" where
  "remaining l \<equiv> max_invocations (constraints (lease_grant l))"

definition set_remaining :: "u64 \<Rightarrow> 'd CapabilityLease \<Rightarrow> 'd CapabilityLease" where
  "set_remaining n l =
     l\<lparr>lease_grant := (lease_grant l)\<lparr>constraints := (constraints (lease_grant l))\<lparr>max_invocations := Some n\<rparr>\<rparr>\<rparr>"

definition lease_is_expired :: "instant \<Rightarrow> 'd CapabilityLease \<Rightarrow> bool" where
  "lease_is_expired now l =
     (case expires_at (constraints (lease_grant l)) of None \<Rightarrow> False | Some t \<Rightarrow> t \<le> now)"

definition ensure_not_expired_or_exhausted ::
  "instant \<Rightarrow> 'd CapabilityLease \<Rightarrow> (CapabilityLeaseError, unit) result" where
  "ensure_not_expired_or_exhausted now l =
     (if lease_is_expired now l then Err (ExpiredLease (lease_id l))
      else if remaining l = Some 0 then Err (ExhaustedLease (lease_id l))
      else Ok ())"

definition ensure_claimable ::
  "instant \<Rightarrow> InvocationFingerprint \<Rightarrow> 'd CapabilityLease \<Rightarrow> (CapabilityLeaseError, unit) result" where
  "ensure_claimable now fp l =
     (if lease_status l \<noteq> LeaseActive then Err (InactiveLease (lease_id l) (lease_status l))
      else if lease_fingerprint l \<noteq> Some fp then Err (FingerprintMismatch (lease_id l))
      else ensure_not_expired_or_exhausted now l)"

definition ensure_consumable ::
  "instant \<Rightarrow> 'd CapabilityLease \<Rightarrow> (CapabilityLeaseError, unit) result" where
  "ensure_consumable now l =
     (if lease_status l = LeaseConsumed then Err (ExhaustedLease (lease_id l))
      else if lease_status l = LeaseRevoked then Err (InactiveLease (lease_id l) (lease_status l))
      else if lease_fingerprint l \<noteq> None
          \<and> \<not> (lease_status l = LeaseClaimed \<or> lease_status l = LeaseDispatching)
        then Err (UnclaimedFingerprintLease (lease_id l))
      else ensure_not_expired_or_exhausted now l)"

definition revoke_lease :: "'d CapabilityLease \<Rightarrow> (CapabilityLeaseError, 'd CapabilityLease) result" where
  "revoke_lease l = Ok (l\<lparr>lease_status := LeaseRevoked\<rparr>)"

definition claim_lease ::
  "instant \<Rightarrow> InvocationFingerprint \<Rightarrow> 'd CapabilityLease \<Rightarrow> (CapabilityLeaseError, 'd CapabilityLease) result"
  where
  "claim_lease now fp l =
     result_bind (ensure_claimable now fp l) (\<lambda>_. Ok (l\<lparr>lease_status := LeaseClaimed\<rparr>))"

definition consume_lease ::
  "instant \<Rightarrow> 'd CapabilityLease \<Rightarrow> (CapabilityLeaseError, 'd CapabilityLease) result" where
  "consume_lease now l =
     (let was_claimed = (lease_status l = LeaseClaimed \<or> lease_status l = LeaseDispatching) in
      result_bind (ensure_consumable now l) (\<lambda>_.
        Ok (if lease_fingerprint l \<noteq> None then
              (case remaining l of None \<Rightarrow> l | Some _ \<Rightarrow> set_remaining 0 l)\<lparr>lease_status := LeaseConsumed\<rparr>
            else case remaining l of
              Some n \<Rightarrow>
                let l' = set_remaining (n - 1) l
                in if n - 1 = 0 then l'\<lparr>lease_status := LeaseConsumed\<rparr>
                   else if was_claimed then l'\<lparr>lease_status := LeaseActive\<rparr> else l'
            | None \<Rightarrow> if was_claimed then l\<lparr>lease_status := LeaseActive\<rparr> else l)))"

definition apply_begin_dispatch_claimed_transition ::
  "instant \<Rightarrow> InvocationFingerprint \<Rightarrow> 'd CapabilityLease \<Rightarrow> (CapabilityLeaseError, 'd CapabilityLease) result"
  where
  "apply_begin_dispatch_claimed_transition now fp l =
     (if lease_status l \<noteq> LeaseClaimed then Err (InactiveLease (lease_id l) (lease_status l))
      else if lease_fingerprint l \<noteq> Some fp then Err (FingerprintMismatch (lease_id l))
      else result_bind (ensure_not_expired_or_exhausted now l)
        (\<lambda>_. Ok (l\<lparr>lease_status := LeaseDispatching\<rparr>)))"

definition apply_abort_dispatch_claimed_transition ::
  "'d CapabilityLease \<Rightarrow> (CapabilityLeaseError, 'd CapabilityLease) result" where
  "apply_abort_dispatch_claimed_transition l =
     (if lease_status l = LeaseDispatching then Ok (l\<lparr>lease_status := LeaseClaimed\<rparr>)
      else if lease_status l = LeaseClaimed then Ok l
      else Err (InactiveLease (lease_id l) (lease_status l)))"

definition lease_is_authorizing :: "instant \<Rightarrow> 'd CapabilityLease \<Rightarrow> 'd ExecutionContext \<Rightarrow> bool" where
  "lease_is_authorizing now l context =
     (lease_status l = LeaseActive
      \<and> rs_invocation_id (lease_scope l) = ctx_invocation_id context
      \<and> \<not> lease_is_expired now l
      \<and> remaining l \<noteq> Some 0)"

section \<open>The in-memory store\<close>

text \<open>\<open>CapabilityLeaseKey\<close> has every field of the scope, so a key is a scope and a lease id.\<close>

type_synonym CapabilityLeaseKey = "ResourceScope \<times> CapabilityGrantId"
type_synonym 'd LeaseStore = "(CapabilityLeaseKey, 'd CapabilityLease) hashmap"

definition lease_key :: "'d CapabilityLease \<Rightarrow> CapabilityLeaseKey" where
  "lease_key l = (lease_scope l, lease_id l)"

definition with_lease ::
  "'d LeaseStore \<Rightarrow> ResourceScope \<Rightarrow> CapabilityGrantId
     \<Rightarrow> ('d CapabilityLease \<Rightarrow> (CapabilityLeaseError, 'd CapabilityLease) result)
     \<Rightarrow> (CapabilityLeaseError, 'd CapabilityLease) result \<times> 'd LeaseStore" where
  "with_lease leases scope i f =
     (case hm_get leases (scope, i) of
        None \<Rightarrow> (Err (UnknownLease i), leases)
      | Some l \<Rightarrow> (case f l of
          Inl e \<Rightarrow> (Err e, leases)
        | Inr l' \<Rightarrow> (Ok l', hm_insert (scope, i) l' leases)))"

definition mem_issue ::
  "'d LeaseStore \<Rightarrow> 'd CapabilityLease \<Rightarrow> (CapabilityLeaseError, 'd CapabilityLease) result \<times> 'd LeaseStore" where
  "mem_issue leases l = (Ok l, hm_insert (lease_key l) l leases)"

definition mem_revoke ::
  "'d LeaseStore \<Rightarrow> ResourceScope \<Rightarrow> CapabilityGrantId
     \<Rightarrow> (CapabilityLeaseError, 'd CapabilityLease) result \<times> 'd LeaseStore" where
  "mem_revoke leases scope i = with_lease leases scope i revoke_lease"

definition mem_get :: "'d LeaseStore \<Rightarrow> ResourceScope \<Rightarrow> CapabilityGrantId \<Rightarrow> 'd CapabilityLease option" where
  "mem_get leases scope i = hm_get leases (scope, i)"

definition mem_claim ::
  "instant \<Rightarrow> 'd LeaseStore \<Rightarrow> ResourceScope \<Rightarrow> CapabilityGrantId \<Rightarrow> InvocationFingerprint
     \<Rightarrow> (CapabilityLeaseError, 'd CapabilityLease) result \<times> 'd LeaseStore" where
  "mem_claim now leases scope i fp = with_lease leases scope i (claim_lease now fp)"

definition mem_consume ::
  "instant \<Rightarrow> 'd LeaseStore \<Rightarrow> ResourceScope \<Rightarrow> CapabilityGrantId
     \<Rightarrow> (CapabilityLeaseError, 'd CapabilityLease) result \<times> 'd LeaseStore" where
  "mem_consume now leases scope i = with_lease leases scope i (consume_lease now)"

definition mem_begin_dispatch_claimed ::
  "instant \<Rightarrow> 'd LeaseStore \<Rightarrow> ResourceScope \<Rightarrow> CapabilityGrantId \<Rightarrow> InvocationFingerprint
     \<Rightarrow> (CapabilityLeaseError, 'd CapabilityLease) result \<times> 'd LeaseStore" where
  "mem_begin_dispatch_claimed now leases scope i fp =
     with_lease leases scope i (apply_begin_dispatch_claimed_transition now fp)"

definition mem_abort_dispatch_claimed ::
  "'d LeaseStore \<Rightarrow> ResourceScope \<Rightarrow> CapabilityGrantId
     \<Rightarrow> (CapabilityLeaseError, 'd CapabilityLease) result \<times> 'd LeaseStore" where
  "mem_abort_dispatch_claimed leases scope i =
     with_lease leases scope i apply_abort_dispatch_claimed_transition"

definition leases_for_scope :: "'d LeaseStore \<Rightarrow> ResourceScope \<Rightarrow> 'd CapabilityLease list" where
  "leases_for_scope leases scope =
     sort_key lease_id (filter (\<lambda>l. same_scope_owner (lease_scope l) scope) (hm_values leases))"

definition active_leases_for_context ::
  "instant \<Rightarrow> 'd LeaseStore \<Rightarrow> 'd ExecutionContext \<Rightarrow> 'd CapabilityLease list" where
  "active_leases_for_context now leases context =
     filter (\<lambda>l. lease_is_authorizing now l context) (leases_for_scope leases (ctx_resource_scope context))"

definition active_grants_for_context ::
  "instant \<Rightarrow> 'd LeaseStore \<Rightarrow> 'd ExecutionContext \<Rightarrow> 'd CapabilityGrant list" where
  "active_grants_for_context now leases context =
     map lease_grant (filter (\<lambda>l. lease_fingerprint l = None) (active_leases_for_context now leases context))"

section \<open>The filesystem store\<close>

text \<open>
  A row is a lease with the backend's record version. \<open>versioned\<close> says whether the backend
  supports compare-and-swap; on a byte-only backend the write is unconditional. Between the read
  and the write of each attempt other processes act: \<open>others\<close> lists what they do to the rows,
  one entry per attempt.
\<close>

type_synonym 'd LeaseRows = "(CapabilityLeaseKey, 'd CapabilityLease \<times> nat) hashmap"

definition CAS_RETRY_ATTEMPTS :: nat where
  "CAS_RETRY_ATTEMPTS = 3"

definition write_lease_raw ::
  "bool \<Rightarrow> CapabilityLeaseKey \<Rightarrow> 'd CapabilityLease \<Rightarrow> nat option \<Rightarrow> 'd LeaseRows
     \<Rightarrow> (CapabilityLeaseError, unit) result \<times> 'd LeaseRows" where
  "write_lease_raw versioned key l expected rows =
     (let next = (case hm_get rows key of None \<Rightarrow> 0 | Some (_, v) \<Rightarrow> Suc v) in
      if versioned \<and> expected \<noteq> None \<and> map_option snd (hm_get rows key) \<noteq> expected
      then (Err VersionMismatch, rows)
      else (Ok (), hm_insert key (l, next) rows))"

fun update_lease_cas ::
  "nat \<Rightarrow> bool \<Rightarrow> ('d LeaseRows \<Rightarrow> 'd LeaseRows) list \<Rightarrow> 'd LeaseRows \<Rightarrow> ResourceScope \<Rightarrow> CapabilityGrantId
     \<Rightarrow> ('d CapabilityLease \<Rightarrow> (CapabilityLeaseError, 'd CapabilityLease) result)
     \<Rightarrow> (CapabilityLeaseError, 'd CapabilityLease) result \<times> 'd LeaseRows" where
  "update_lease_cas 0 versioned others rows scope i mutate = (Err CasExhausted, rows)"
| "update_lease_cas (Suc n) versioned others rows scope i mutate =
     (case hm_get rows (scope, i) of
        None \<Rightarrow> (Err (UnknownLease i), rows)
      | Some (l, v) \<Rightarrow>
          (case mutate l of
             Inl e \<Rightarrow> (Err e, rows)
           | Inr l' \<Rightarrow>
               let rows1 = (case others of [] \<Rightarrow> rows | act # _ \<Rightarrow> act rows)
               in case write_lease_raw versioned (scope, i) l' (Some v) rows1 of
                    (Inr _, rows2) \<Rightarrow> (Ok l', rows2)
                  | (Inl VersionMismatch, rows2) \<Rightarrow>
                      update_lease_cas n versioned (tl others) rows2 scope i mutate
                  | (Inl e, rows2) \<Rightarrow> (Err e, rows2)))"

definition fs_issue ::
  "'d LeaseRows \<Rightarrow> 'd CapabilityLease \<Rightarrow> (CapabilityLeaseError, 'd CapabilityLease) result \<times> 'd LeaseRows" where
  "fs_issue rows l =
     (case write_lease_raw True (lease_key l) l None rows of (Inl e, rows') \<Rightarrow> (Err e, rows')
      | (Inr _, rows') \<Rightarrow> (Ok l, rows'))"

definition fs_update ::
  "bool \<Rightarrow> ('d LeaseRows \<Rightarrow> 'd LeaseRows) list \<Rightarrow> 'd LeaseRows \<Rightarrow> ResourceScope \<Rightarrow> CapabilityGrantId
     \<Rightarrow> ('d CapabilityLease \<Rightarrow> (CapabilityLeaseError, 'd CapabilityLease) result)
     \<Rightarrow> (CapabilityLeaseError, 'd CapabilityLease) result \<times> 'd LeaseRows" where
  "fs_update = update_lease_cas CAS_RETRY_ATTEMPTS"

definition fs_get :: "'d LeaseRows \<Rightarrow> ResourceScope \<Rightarrow> CapabilityGrantId \<Rightarrow> 'd CapabilityLease option" where
  "fs_get rows scope i = map_option fst (hm_get rows (scope, i))"

text \<open>Where the rows live under the tenant's mount.\<close>

definition within_tenant_scope :: "ResourceScope \<Rightarrow> string" where
  "within_tenant_scope s =
     (let segments =
        (case rs_agent_id s of None \<Rightarrow> [] | Some a \<Rightarrow> [''agents/'' @ a])
        @ (case rs_project_id s of None \<Rightarrow> [] | Some p \<Rightarrow> [''projects/'' @ p])
        @ (case rs_mission_id s of None \<Rightarrow> [] | Some m \<Rightarrow> [''missions/'' @ m])
        @ (case rs_thread_id s of None \<Rightarrow> [] | Some t \<Rightarrow> [''threads/'' @ t])
      in if segments = [] then ''scope'' else join_with ''/'' segments)"

definition LEASES_PREFIX :: string where
  "LEASES_PREFIX = ''/authorization/leases''"

text \<open>\<open>show_uuid\<close> is the hyphenated rendering of an id, from the uuid crate.\<close>

definition lease_path ::
  "(uuid \<Rightarrow> string) \<Rightarrow> ResourceScope \<Rightarrow> CapabilityGrantId \<Rightarrow> (HostApiError, string) result" where
  "lease_path show_uuid s i =
     ScopedPath_new (LEASES_PREFIX @ ''/'' @ within_tenant_scope s @ ''/''
       @ show_uuid (rs_invocation_id s) @ ''/'' @ show_uuid i @ ''.json'')"

definition lease_index_path :: "ResourceScope \<Rightarrow> (HostApiError, string) result" where
  "lease_index_path s = ScopedPath_new (LEASES_PREFIX @ ''/'' @ within_tenant_scope s @ ''/_lease_index.json'')"

definition lease_owner_prefix :: "ResourceScope \<Rightarrow> (HostApiError, string) result" where
  "lease_owner_prefix s = ScopedPath_new (LEASES_PREFIX @ ''/'' @ within_tenant_scope s)"

section \<open>The life cycle\<close>

datatype LeaseOp =
    LRevoke | LClaim InvocationFingerprint | LConsume | LBegin InvocationFingerprint | LAbort

fun transition ::
  "instant \<Rightarrow> LeaseOp \<Rightarrow> 'd CapabilityLease \<Rightarrow> (CapabilityLeaseError, 'd CapabilityLease) result" where
  "transition now LRevoke l = revoke_lease l"
| "transition now (LClaim fp) l = claim_lease now fp l"
| "transition now LConsume l = consume_lease now l"
| "transition now (LBegin fp) l = apply_begin_dispatch_claimed_transition now fp l"
| "transition now LAbort l = apply_abort_dispatch_claimed_transition l"

lemmas lease_defs =
  revoke_lease_def claim_lease_def consume_lease_def apply_begin_dispatch_claimed_transition_def
  apply_abort_dispatch_claimed_transition_def ensure_claimable_def ensure_consumable_def
  ensure_not_expired_or_exhausted_def set_remaining_def

lemma transition_identity:
  "transition now op l = Ok l' \<Longrightarrow>
     lease_scope l' = lease_scope l \<and> lease_id l' = lease_id l \<and> lease_fingerprint l' = lease_fingerprint l"
  by (cases op) (auto simp: lease_defs Let_def split: if_splits option.splits)

definition terminal_lease :: "'d CapabilityLease \<Rightarrow> bool" where
  "terminal_lease l = (lease_status l = LeaseConsumed \<or> lease_status l = LeaseRevoked)"

lemma terminal_transition:
  assumes "terminal_lease l"
  shows "transition now op l = Ok l' \<Longrightarrow> op = LRevoke \<and> terminal_lease l'"
  using assms by (cases op) (auto simp: lease_defs terminal_lease_def Let_def split: if_splits)

lemma terminal_refused:
  assumes "terminal_lease l" and "op \<noteq> LRevoke"
  shows "\<not> is_ok (transition now op l)"
  using terminal_transition [OF assms(1), of now op] assms(2) by (cases "transition now op l") auto

text \<open>A consumed fingerprinted lease is spent; a counted lease loses exactly one use.\<close>

lemma consume_fingerprinted:
  "consume_lease now l = Ok l' \<Longrightarrow> lease_fingerprint l \<noteq> None \<Longrightarrow>
     lease_status l' = LeaseConsumed \<and> (lease_status l = LeaseClaimed \<or> lease_status l = LeaseDispatching)"
  by (auto simp: lease_defs Let_def split: if_splits)

definition uses_left :: "'d CapabilityLease \<Rightarrow> nat" where
  "uses_left l = (if terminal_lease l then 0 else case remaining l of None \<Rightarrow> 0 | Some n \<Rightarrow> unat n)"

lemma unat_pred: "n \<noteq> (0 :: u64) \<Longrightarrow> unat (n - 1) = unat n - 1 \<and> 0 < unat n"
  by (simp add: unat_minus_one unat_gt_0)

lemma transition_uses:
  assumes "transition now op l = Ok l'" and "remaining l \<noteq> None" and "lease_fingerprint l = None"
  shows "remaining l' \<noteq> None \<and> uses_left l' + (if op = LConsume then 1 else 0) \<le> uses_left l"
proof -
  obtain n where n: "remaining l = Some n"
    using assms(2) by blast
  show ?thesis
    using assms(1,3) n unat_pred [of n]
    by (cases op)
       (auto simp: lease_defs uses_left_def terminal_lease_def Let_def split: if_splits)
qed

section \<open>The contract of a lease store\<close>

text \<open>
  The operations a store offers on one record, as an interface: \<open>get\<close> reads a lease, \<open>issue\<close>
  writes one, and \<open>update\<close> applies a transition to the record at a scope and id. The laws say
  that an update is the transition at that record and touches no other.
\<close>

locale lease_store =
  fixes get :: "'s \<Rightarrow> ResourceScope \<Rightarrow> CapabilityGrantId \<Rightarrow> 'd CapabilityLease option"
    and issue :: "'s \<Rightarrow> 'd CapabilityLease \<Rightarrow> (CapabilityLeaseError, 'd CapabilityLease) result \<times> 's"
    and update :: "'s \<Rightarrow> ResourceScope \<Rightarrow> CapabilityGrantId
      \<Rightarrow> ('d CapabilityLease \<Rightarrow> (CapabilityLeaseError, 'd CapabilityLease) result)
      \<Rightarrow> (CapabilityLeaseError, 'd CapabilityLease) result \<times> 's"
  assumes get_issue: "get (snd (issue s l)) sc i = (if (sc, i) = lease_key l then Some l else get s sc i)"
    and update_unknown: "get s sc i = None \<Longrightarrow> update s sc i f = (Err (UnknownLease i), s)"
    and update_refused: "get s sc i = Some l \<Longrightarrow> f l = Err e \<Longrightarrow> update s sc i f = (Err e, s)"
    and update_fst: "get s sc i = Some l \<Longrightarrow> f l = Ok l' \<Longrightarrow> fst (update s sc i f) = Ok l'"
    and get_update: "get s sc i = Some l \<Longrightarrow> f l = Ok l' \<Longrightarrow>
      get (snd (update s sc i f)) sc' i' = (if (sc', i') = (sc, i) then Some l' else get s sc' i')"
begin

definition do_op :: "instant \<times> ResourceScope \<times> CapabilityGrantId \<times> LeaseOp \<Rightarrow> 's \<Rightarrow> 's" where
  "do_op c s = (case c of (now, sc, i, op) \<Rightarrow> snd (update s sc i (transition now op)))"

lemma get_do_op:
  "get (do_op (now, sc, i, op) s) sc' i' =
     (if (sc', i') = (sc, i) then
        (case get s sc i of None \<Rightarrow> None
         | Some l \<Rightarrow> (case transition now op l of Inl e \<Rightarrow> Some l | Inr l' \<Rightarrow> Some l'))
      else get s sc' i')"
  using update_unknown update_refused get_update
  by (auto simp: do_op_def split: option.splits sum.splits)

lemma terminal_run:
  assumes "get s sc i = Some l" and "terminal_lease l"
  shows "\<exists>l'. get (fold do_op cs s) sc i = Some l' \<and> terminal_lease l'"
  using assms
proof (induction cs arbitrary: s l)
  case Nil
  then show ?case by simp
next
  case (Cons c cs)
  obtain now sc' i' op where c: "c = (now, sc', i', op)"
    by (cases c) auto
  have "\<exists>l'. get (do_op c s) sc i = Some l' \<and> terminal_lease l'"
    using Cons.prems terminal_transition [of l now op]
    by (auto simp: c get_do_op split: sum.split)
  then show ?case
    using Cons.IH by fastforce
qed

lemma spent_forever:
  assumes "get s sc i = Some l" and "terminal_lease l" and "op \<noteq> LRevoke"
  shows "\<not> is_ok (fst (update (fold do_op cs s) sc i (transition now op)))"
proof -
  obtain l' where "get (fold do_op cs s) sc i = Some l'" "terminal_lease l'"
    using terminal_run [OF assms(1,2)] by blast
  then show ?thesis
    using terminal_refused [of l' op now] assms(3) update_refused
    by (cases "transition now op l'") fastforce+
qed

lemma isolation:
  assumes "\<forall>(now, sc', i', op) \<in> set cs. (sc', i') \<noteq> (sc, i)"
  shows "get (fold do_op cs s) sc i = get s sc i"
  using assms
  by (induction cs arbitrary: s) (auto simp: get_do_op)

end

lemma with_lease_simps:
  "hm_get s (sc, i) = None \<Longrightarrow> with_lease s sc i f = (Err (UnknownLease i), s)"
  "hm_get s (sc, i) = Some l \<Longrightarrow> f l = Err e \<Longrightarrow> with_lease s sc i f = (Err e, s)"
  "hm_get s (sc, i) = Some l \<Longrightarrow> f l = Ok l' \<Longrightarrow> with_lease s sc i f = (Ok l', hm_insert (sc, i) l' s)"
  by (simp_all add: with_lease_def)

interpretation mem: lease_store mem_get mem_issue with_lease
  by unfold_locales (auto simp: mem_get_def mem_issue_def with_lease_simps hm_simps)

text \<open>The filesystem store, when no other process interferes; any retry budget is enough then.\<close>

lemma fs_update_quiet:
  "fs_get rows sc i = None \<Longrightarrow> fs_update versioned [] rows sc i f = (Err (UnknownLease i), rows)"
  "fs_get rows sc i = Some l \<Longrightarrow> f l = Err e \<Longrightarrow> fs_update versioned [] rows sc i f = (Err e, rows)"
  "fs_get rows sc i = Some l \<Longrightarrow> f l = Ok l' \<Longrightarrow> \<exists>v. fs_update versioned [] rows sc i f
     = (Ok l', hm_insert (sc, i) (l', v) rows)"
  by (auto simp: fs_update_def fs_get_def CAS_RETRY_ATTEMPTS_def write_lease_raw_def Let_def
      numeral_3_eq_3 split: option.splits)

interpretation fs: lease_store fs_get fs_issue "fs_update versioned []"
proof (unfold_locales, goal_cases)
  case (1 s l sc i)
  then show ?case
    by (auto simp: fs_issue_def fs_get_def write_lease_raw_def hm_simps Let_def)
next
  case (4 s sc i l f l')
  then show ?case
    using fs_update_quiet(3) [of s sc i l f l' versioned] by auto
next
  case (5 s sc i l f l' sc' i')
  then show ?case
    using fs_update_quiet(3) [of s sc i l f l' versioned] by (auto simp: fs_get_def hm_simps)
qed (simp_all add: fs_update_quiet)

section \<open>Properties of the in-memory store\<close>

fun mem_op :: "instant \<times> ResourceScope \<times> CapabilityGrantId \<times> LeaseOp \<Rightarrow> 'd LeaseStore \<Rightarrow> 'd LeaseStore" where
  "mem_op (now, sc, i, LRevoke) s = snd (mem_revoke s sc i)"
| "mem_op (now, sc, i, LClaim fp) s = snd (mem_claim now s sc i fp)"
| "mem_op (now, sc, i, LConsume) s = snd (mem_consume now s sc i)"
| "mem_op (now, sc, i, LBegin fp) s = snd (mem_begin_dispatch_claimed now s sc i fp)"
| "mem_op (now, sc, i, LAbort) s = snd (mem_abort_dispatch_claimed s sc i)"

lemma transition_fun:
  "transition now LRevoke = revoke_lease" "transition now (LClaim fp) = claim_lease now fp"
  "transition now LConsume = consume_lease now"
  "transition now (LBegin fp) = apply_begin_dispatch_claimed_transition now fp"
  "transition now LAbort = apply_abort_dispatch_claimed_transition"
  by (rule ext, simp)+

lemmas mem_op_defs = mem_revoke_def mem_claim_def mem_consume_def mem_begin_dispatch_claimed_def
  mem_abort_dispatch_claimed_def

lemma mem_op_eq: "mem_op = mem.do_op"
proof (intro ext)
  fix c :: "instant \<times> ResourceScope \<times> CapabilityGrantId \<times> LeaseOp" and s :: "'a LeaseStore"
  obtain now sc i op where "c = (now, sc, i, op)" by (cases c) auto
  then show "mem_op c s = mem.do_op c s"
    by (cases op) (simp_all add: mem.do_op_def mem_op_defs transition_fun)
qed

lemma with_lease_Ok:
  "with_lease s sc i f = (Ok l', s') \<Longrightarrow> \<exists>l. hm_get s (sc, i) = Some l \<and> f l = Ok l' \<and> s' = hm_insert (sc, i) l' s"
  by (auto simp: with_lease_def split: option.splits sum.splits)


definition example_lease :: "InvocationFingerprint option \<Rightarrow> u64 option \<Rightarrow> CapabilityLeaseStatus \<Rightarrow> nat CapabilityLease" where
  "example_lease fp n st = \<lparr>
     lease_scope = \<lparr>rs_tenant_id = ''acme'', rs_user_id = ''ann'', rs_agent_id = None, rs_project_id = None,
       rs_mission_id = None, rs_thread_id = Some ''t1'', rs_invocation_id = 7\<rparr>,
     lease_grant = \<lparr>grant_id = 3, grant_capability = ''shell.run'', grantee = PExtension ''shell'',
       issued_by = PUser ''ann'',
       constraints = \<lparr>allowed_effects = [ReadFilesystem], gc_mounts = \<lparr>mounts = []\<rparr>,
         gc_network = \<lparr>allowed_targets = [], deny_private_ip_ranges = False, max_egress_bytes = None\<rparr>,
         gc_secrets = [], resource_ceiling = None, expires_at = Some 100, max_invocations = n\<rparr>\<rparr>,
     lease_fingerprint = fp, lease_status = st\<rparr>"

abbreviation example_key :: CapabilityLeaseKey where
  "example_key \<equiv> lease_key (example_lease None None LeaseActive)"

lemma example_key: "lease_key (example_lease fp n st) = example_key"
  by (simp add: example_lease_def lease_key_def)

lemma example_consume:
  "mem_consume 50 [(example_key, example_lease (Some ''f'') (Some 1) LeaseClaimed)] (fst example_key) (snd example_key)
     = (Ok (example_lease (Some ''f'') (Some 0) LeaseConsumed),
        [(example_key, example_lease (Some ''f'') (Some 0) LeaseConsumed)])"
  by (simp add: mem_consume_def with_lease_def hm_get_def hm_insert_def lease_defs lease_is_expired_def
      example_lease_def lease_key_def)


text \<open>How many consumptions of one lease succeed along a sequence of calls.\<close>

fun successes ::
  "ResourceScope \<Rightarrow> CapabilityGrantId \<Rightarrow> (instant \<times> ResourceScope \<times> CapabilityGrantId \<times> LeaseOp) list
     \<Rightarrow> 'd LeaseStore \<Rightarrow> nat" where
  "successes sc i [] s = 0"
| "successes sc i ((now, sc', i', op) # cs) s =
     (if op = LConsume \<and> (sc', i') = (sc, i) \<and> is_ok (fst (mem_consume now s sc i)) then 1 else 0)
     + successes sc i cs (mem_op (now, sc', i', op) s)"

text \<open>
  a lease that allows n invocations is consumed at most n times, along any sequence of
  calls on any leases, unless it is issued again.
\<close>

theorem counted_lease_bound:
  assumes "mem_get s sc i = Some l" and "lease_fingerprint l = None" and "remaining l = Some n"
  shows "successes sc i cs s \<le> unat n"
proof -
  have "successes sc i cs s \<le> uses_left l"
    if "mem_get s sc i = Some l" "lease_fingerprint l = None" "remaining l \<noteq> None" for l
    using that
  proof (induction cs arbitrary: s l)
    case Nil
    then show ?case by simp
  next
    case (Cons c cs)
    obtain now sc' i' op where c: "c = (now, sc', i', op)" by (cases c) auto
    have step: "mem_get (mem_op c s) sc i = (if (sc', i') = (sc, i) then
        (case transition now op l of Inl e \<Rightarrow> Some l | Inr l' \<Rightarrow> Some l') else Some l)"
      using Cons.prems(1) by (auto simp: mem_op_eq c mem.get_do_op)
    show ?case
    proof (cases "(sc', i') = (sc, i) \<and> is_ok (transition now op l)")
      case True
      then obtain l' where l': "transition now op l = Ok l'"
        by (cases "transition now op l") auto
      have "successes sc i cs (mem_op c s) \<le> uses_left l'"
        by (rule Cons.IH)
           (use True step l' Cons.prems transition_identity [OF l'] transition_uses [OF l'] in auto)
      then show ?thesis
        using transition_uses [OF l' Cons.prems(3,2)] by (auto simp: c)
    next
      case False
      then have "mem_get (mem_op c s) sc i = Some l"
        using step by (cases "transition now op l") auto
      from Cons.IH [OF this Cons.prems(2,3)] show ?thesis
        using False Cons.prems(1)
        by (auto simp: c mem_get_def mem_consume_def with_lease_def split: sum.splits)
    qed
  qed
  from this [OF assms(1,2)] assms(3) show ?thesis
    by (simp add: uses_left_def split: if_splits)
qed

lemma counted_lease_bound_witness:
  "successes (fst example_key) (snd example_key)
     [(50, fst example_key, snd example_key, LConsume), (51, fst example_key, snd example_key, LConsume),
      (52, fst example_key, snd example_key, LConsume)]
     [(example_key, example_lease None (Some 2) LeaseActive)] \<le> 2"
proof -
  have "mem_get [(example_key, example_lease None (Some 2) LeaseActive)] (fst example_key) (snd example_key)
      = Some (example_lease None (Some 2) LeaseActive)"
    by (simp add: mem_get_def hm_get_def)
  moreover have "lease_fingerprint (example_lease None (Some 2) LeaseActive) = None"
    "remaining (example_lease None (Some 2) LeaseActive) = Some 2"
    by (simp_all add: example_lease_def)
  ultimately show ?thesis
    using counted_lease_bound [of _ "fst example_key" "snd example_key" _ 2] by (simp del: successes.simps)
qed

text \<open>
  fingerprinted leases are never ambient authority, and ambient leases are exact. Every
  grant a store contributes to a valid context comes from a stored lease without a fingerprint
  that is active, unexpired and unexhausted, and whose scope equals the context's resource scope
  in every field; the leases are listed in ascending order of id.
\<close>

theorem ambient_grants_exact:
  assumes "ExecutionContext_validate context = Ok ()"
    and "g \<in> set (active_grants_for_context now s context)"
  shows "(\<exists>l \<in> set (hm_values s). lease_grant l = g \<and> lease_fingerprint l = None
      \<and> lease_status l = LeaseActive \<and> \<not> lease_is_expired now l \<and> remaining l \<noteq> Some 0
      \<and> lease_scope l = ctx_resource_scope context)
    \<and> sorted (map lease_id (active_leases_for_context now s context))"
proof -
  have inv: "rs_invocation_id (ctx_resource_scope context) = ctx_invocation_id context"
    using assms(1) by (auto simp: ExecutionContext_validate_def Let_def split: if_splits)
  from assms(2) obtain l where l: "l \<in> set (hm_values s)" "lease_grant l = g" "lease_fingerprint l = None"
    "same_scope_owner (lease_scope l) (ctx_resource_scope context)" "lease_is_authorizing now l context"
    by (auto simp: active_grants_for_context_def active_leases_for_context_def leases_for_scope_def)
  have "lease_scope l = ctx_resource_scope context"
    using l(4,5) inv by (auto simp: same_scope_owner_def lease_is_authorizing_def)
  moreover have "sorted (map lease_id (active_leases_for_context now s context))"
    by (simp add: active_leases_for_context_def leases_for_scope_def sorted_filter)
  ultimately show ?thesis
    using l by (auto simp: lease_is_authorizing_def)
qed

definition example_context :: "nat ExecutionContext" where
  "example_context = \<lparr>ctx_invocation_id = 7, ctx_correlation_id = 1, ctx_process_id = None,
     ctx_parent_process_id = None, ctx_tenant_id = ''acme'', ctx_user_id = ''ann'',
     ctx_authenticated_actor_user_id = None, ctx_agent_id = None, ctx_project_id = None,
     ctx_mission_id = None, ctx_thread_id = Some ''t1'', ctx_extension_id = ''shell'',
     ctx_runtime = Wasm, ctx_trust = UserTrusted, ctx_grants = \<lparr>set_grants = []\<rparr>,
     ctx_mounts = \<lparr>mounts = []\<rparr>, ctx_resource_scope = fst example_key\<rparr>"

lemma example_context_valid: "ExecutionContext_validate example_context = Ok ()"
  by code_simp

lemma ambient_grants_exact_witness:
  "\<exists>l \<in> set (hm_values [(example_key, example_lease None (Some 2) LeaseActive)]).
     lease_grant l = lease_grant (example_lease None (Some 2) LeaseActive) \<and> lease_status l = LeaseActive"
proof -
  have "lease_grant (example_lease None (Some 2) LeaseActive)
      \<in> set (active_grants_for_context 50 [(example_key, example_lease None (Some 2) LeaseActive)] example_context)"
    by (simp add: active_grants_for_context_def active_leases_for_context_def leases_for_scope_def hm_values_def
        lease_is_authorizing_def lease_is_expired_def example_context_def same_scope_owner_def lease_key_def
        example_lease_def)
  from ambient_grants_exact [OF example_context_valid this] show ?thesis
    by blast
qed

section \<open>Compare-and-swap\<close>

text \<open>
  Other writers follow the backend's rule: whoever changes a row changes its version, so a row
  seen with the same version is the same row.
\<close>

definition bumps_versions :: "('d LeaseRows \<Rightarrow> 'd LeaseRows) \<Rightarrow> bool" where
  "bumps_versions act \<longleftrightarrow>
     (\<forall>rows k l v l'. hm_get rows k = Some (l, v) \<and> hm_get (act rows) k = Some (l', v) \<longrightarrow> l' = l)"

definition interfere :: "('d LeaseRows \<Rightarrow> 'd LeaseRows) list \<Rightarrow> 'd LeaseRows \<Rightarrow> 'd LeaseRows" where
  "interfere acts rows = foldl (\<lambda>r act. act r) rows acts"

definition act_at :: "('d LeaseRows \<Rightarrow> 'd LeaseRows) list \<Rightarrow> 'd LeaseRows \<Rightarrow> 'd LeaseRows" where
  "act_at others rows = (case others of [] \<Rightarrow> rows | act # _ \<Rightarrow> act rows)"

lemma update_lease_cas_atomic:
  assumes "\<forall>act \<in> set others. bumps_versions act"
    and "update_lease_cas n True others rows sc i f = (Ok l', rows')"
  shows "\<exists>k l v. k \<le> n \<and> hm_get (interfere (take k others) rows) (sc, i) = Some (l, v) \<and> f l = Ok l'
    \<and> rows' = hm_insert (sc, i) (l', Suc v) (interfere (take k others) rows)"
  using assms
proof (induction n arbitrary: others rows)
  case 0
  then show ?case by simp
next
  case (Suc n)
  then obtain l v l1 where row: "hm_get rows (sc, i) = Some (l, v)" "f l = Ok l1"
    by (auto split: option.splits sum.splits)
  show ?case
  proof (cases "map_option snd (hm_get (act_at others rows) (sc, i)) = Some v")
    case True
    then obtain l2 where l2: "hm_get (act_at others rows) (sc, i) = Some (l2, v)"
      by (cases "hm_get (act_at others rows) (sc, i)") auto
    have "l2 = l"
      using l2 row Suc.prems(1) by (cases others) (auto simp: act_at_def bumps_versions_def)
    moreover have "l1 = l'" "rows' = hm_insert (sc, i) (l', Suc v) (act_at others rows)"
      using Suc.prems(2) row l2 by (auto simp: write_lease_raw_def act_at_def Let_def split: list.splits)
    moreover have "act_at others rows = interfere (take 1 others) rows"
      by (cases others) (simp_all add: act_at_def interfere_def)
    ultimately show ?thesis
      using row l2 by (intro exI [of _ 1] exI [of _ l] exI [of _ v]) auto
  next
    case False
    then have "update_lease_cas n True (tl others) (act_at others rows) sc i f = (Ok l', rows')"
      using Suc.prems(2) row by (auto simp: write_lease_raw_def act_at_def Let_def split: list.splits)
    moreover have "\<forall>act \<in> set (tl others). bumps_versions act"
      using Suc.prems(1) by (cases others) auto
    ultimately obtain k l v where k: "k \<le> n"
      "hm_get (interfere (take k (tl others)) (act_at others rows)) (sc, i) = Some (l, v)" "f l = Ok l'"
      "rows' = hm_insert (sc, i) (l', Suc v) (interfere (take k (tl others)) (act_at others rows))"
      using Suc.IH by blast
    moreover have "interfere (take k (tl others)) (act_at others rows) = interfere (take (Suc k) others) rows"
      by (cases others) (simp_all add: act_at_def interfere_def)
    ultimately show ?thesis
      by (intro exI [of _ "Suc k"]) auto
  qed
qed

text \<open>
  on a versioned backend a lease transition is atomic under concurrent writers. When the
  compare-and-swap loop succeeds, the transition was validated on, and applied to, the row as it
  stood at the moment of the write, after at most three rounds of interference by other
  processes, and the row's version advanced by one: no update of another process is overwritten.
\<close>

theorem fs_update_atomic:
  assumes "\<forall>act \<in> set others. bumps_versions act"
    and "fs_update True others rows sc i (transition now op) = (Ok l', rows')"
  shows "\<exists>k l v. k \<le> 3 \<and> hm_get (interfere (take k others) rows) (sc, i) = Some (l, v)
    \<and> transition now op l = Ok l'
    \<and> rows' = hm_insert (sc, i) (l', Suc v) (interfere (take k others) rows)"
  using update_lease_cas_atomic [OF assms(1)] assms(2)
  by (simp add: fs_update_def CAS_RETRY_ATTEMPTS_def)

lemma fs_update_atomic_witness:
  "\<exists>k l v. k \<le> 3 \<and> hm_get (interfere (take k [\<lambda>rows. rows])
       [(example_key, (example_lease (Some ''f'') (Some 1) LeaseClaimed, 4))]) example_key = Some (l, v)
     \<and> transition 50 LConsume l = Ok (example_lease (Some ''f'') (Some 0) LeaseConsumed)"
proof -
  have "fs_update True [\<lambda>rows. rows] [(example_key, (example_lease (Some ''f'') (Some 1) LeaseClaimed, 4))]
      (fst example_key) (snd example_key) (transition 50 LConsume)
    = (Ok (example_lease (Some ''f'') (Some 0) LeaseConsumed),
       [(example_key, (example_lease (Some ''f'') (Some 0) LeaseConsumed, 5))])"
    by (simp add: fs_update_def CAS_RETRY_ATTEMPTS_def numeral_3_eq_3 write_lease_raw_def hm_get_def
        hm_insert_def lease_defs lease_is_expired_def example_lease_def lease_key_def)
  moreover have "\<forall>act \<in> set [\<lambda>rows. rows]. bumps_versions (act :: nat LeaseRows \<Rightarrow> _)"
    by (auto simp: bumps_versions_def)
  ultimately show ?thesis
    using fs_update_atomic [of "[\<lambda>rows. rows]"] by fastforce
qed

end
