(* ===== verification/Authorization.thy ===== *)
theory Authorization
  imports Leases Trust
begin

text \<open>
  Capability authorization (\<open>ironclaw_authorization/src/lib.rs\<close>): which grant authorizes a
  dispatch or a spawn, under which policy ceiling, and with which obligations. The two
  authorizers are \<open>GrantAuthorizer\<close> (grants of the request) and \<open>LeaseBackedAuthorizer\<close> (these
  plus the ambient leases of a store); both exist with and without a trust decision.
\<close>

section \<open>Limits and ceilings\<close>

fun limit_exceeds :: "'a::linorder option \<Rightarrow> 'a option \<Rightarrow> bool" where
  "limit_exceeds (Some g) (Some a) = (a < g)"
| "limit_exceeds None (Some a) = True"
| "limit_exceeds g None = False"

fun sandbox_quota_exceeds_authority :: "SandboxQuota option \<Rightarrow> SandboxQuota option \<Rightarrow> bool" where
  "sandbox_quota_exceeds_authority None (Some a) = True"
| "sandbox_quota_exceeds_authority g None = False"
| "sandbox_quota_exceeds_authority (Some g) (Some a) =
     (limit_exceeds (sq_cpu_time_ms g) (sq_cpu_time_ms a)
      \<or> limit_exceeds (sq_memory_bytes g) (sq_memory_bytes a)
      \<or> limit_exceeds (sq_disk_bytes g) (sq_disk_bytes a)
      \<or> limit_exceeds (sq_network_egress_bytes g) (sq_network_egress_bytes a)
      \<or> limit_exceeds (sq_process_count g) (sq_process_count a))"

fun resource_ceiling_exceeds_authority ::
  "'d::linorder ResourceCeiling option \<Rightarrow> 'd ResourceCeiling option \<Rightarrow> bool" where
  "resource_ceiling_exceeds_authority None (Some a) = True"
| "resource_ceiling_exceeds_authority g None = False"
| "resource_ceiling_exceeds_authority (Some g) (Some a) =
     (limit_exceeds (max_usd g) (max_usd a)
      \<or> limit_exceeds (max_input_tokens g) (max_input_tokens a)
      \<or> limit_exceeds (max_output_tokens g) (max_output_tokens a)
      \<or> limit_exceeds (max_wall_clock_ms g) (max_wall_clock_ms a)
      \<or> limit_exceeds (max_output_bytes g) (max_output_bytes a)
      \<or> sandbox_quota_exceeds_authority (sandbox g) (sandbox a))"

fun stricter_limit :: "'a::linorder option \<Rightarrow> 'a option \<Rightarrow> 'a option" where
  "stricter_limit (Some l) (Some r) = (if r < l then Some r else Some l)"
| "stricter_limit (Some l) None = Some l"
| "stricter_limit None r = r"

fun intersect_sandbox_quotas :: "SandboxQuota option \<Rightarrow> SandboxQuota option \<Rightarrow> SandboxQuota option" where
  "intersect_sandbox_quotas None a = a"
| "intersect_sandbox_quotas (Some g) None = Some g"
| "intersect_sandbox_quotas (Some g) (Some a) = Some \<lparr>
     sq_cpu_time_ms = stricter_limit (sq_cpu_time_ms g) (sq_cpu_time_ms a),
     sq_memory_bytes = stricter_limit (sq_memory_bytes g) (sq_memory_bytes a),
     sq_disk_bytes = stricter_limit (sq_disk_bytes g) (sq_disk_bytes a),
     sq_network_egress_bytes = stricter_limit (sq_network_egress_bytes g) (sq_network_egress_bytes a),
     sq_process_count = stricter_limit (sq_process_count g) (sq_process_count a)\<rparr>"

fun intersect_resource_ceilings ::
  "'d::linorder ResourceCeiling option \<Rightarrow> 'd ResourceCeiling option \<Rightarrow> 'd ResourceCeiling option" where
  "intersect_resource_ceilings None a = a"
| "intersect_resource_ceilings (Some g) None = Some g"
| "intersect_resource_ceilings (Some g) (Some a) = Some \<lparr>
     max_usd = stricter_limit (max_usd g) (max_usd a),
     max_input_tokens = stricter_limit (max_input_tokens g) (max_input_tokens a),
     max_output_tokens = stricter_limit (max_output_tokens g) (max_output_tokens a),
     max_wall_clock_ms = stricter_limit (max_wall_clock_ms g) (max_wall_clock_ms a),
     max_output_bytes = stricter_limit (max_output_bytes g) (max_output_bytes a),
     sandbox = intersect_sandbox_quotas (sandbox g) (sandbox a)\<rparr>"

fun options_within_ceiling :: "'a::linorder option \<Rightarrow> 'a option \<Rightarrow> bool" where
  "options_within_ceiling (Some e) (Some m) = (e \<le> m)"
| "options_within_ceiling None (Some m) = False"
| "options_within_ceiling e None = True"

definition resource_estimate_is_covered ::
  "'d::linorder ResourceEstimate \<Rightarrow> 'd ResourceCeiling option \<Rightarrow> bool" where
  "resource_estimate_is_covered e ceiling =
     (case ceiling of None \<Rightarrow> True
      | Some c \<Rightarrow>
          options_within_ceiling (est_usd e) (max_usd c)
          \<and> options_within_ceiling (est_input_tokens e) (max_input_tokens c)
          \<and> options_within_ceiling (est_output_tokens e) (max_output_tokens c)
          \<and> options_within_ceiling (est_wall_clock_ms e) (max_wall_clock_ms c)
          \<and> options_within_ceiling (est_output_bytes e) (max_output_bytes c)
          \<and> (case sandbox c of None \<Rightarrow> True
             | Some q \<Rightarrow>
                 options_within_ceiling (est_network_egress_bytes e) (sq_network_egress_bytes q)
                 \<and> options_within_ceiling (est_process_count e) (sq_process_count q)))"

section \<open>Grants\<close>

definition effects_are_covered :: "EffectKind list \<Rightarrow> EffectKind list \<Rightarrow> bool" where
  "effects_are_covered req allowed = list_all (\<lambda>e. e \<in> set allowed) req"

definition grant_is_active :: "instant \<Rightarrow> 'd CapabilityGrant \<Rightarrow> bool" where
  "grant_is_active now grant =
     ((case expires_at (constraints grant) of None \<Rightarrow> True | Some t \<Rightarrow> now < t)
      \<and> max_invocations (constraints grant) \<noteq> Some 0)"

definition grant_exceeds_authority_ceiling ::
  "'d::linorder CapabilityGrant \<Rightarrow> 'd AuthorityCeiling \<Rightarrow> bool" where
  "grant_exceeds_authority_ceiling grant ceiling =
     (\<not> effects_are_covered (allowed_effects (constraints grant)) (auth_allowed_effects ceiling)
      \<or> resource_ceiling_exceeds_authority (resource_ceiling (constraints grant)) (max_resource_ceiling ceiling))"

fun principal_matches_context :: "Principal \<Rightarrow> 'd ExecutionContext \<Rightarrow> bool" where
  "principal_matches_context (PTenant i) c = (i = ctx_tenant_id c)"
| "principal_matches_context (PUser i) c = (i = ctx_user_id c)"
| "principal_matches_context (PAgent i) c = (ctx_agent_id c = Some i)"
| "principal_matches_context (PProject i) c = (ctx_project_id c = Some i)"
| "principal_matches_context (PMission i) c = (ctx_mission_id c = Some i)"
| "principal_matches_context (PThread i) c = (ctx_thread_id c = Some i)"
| "principal_matches_context (PExtension i) c = (i = ctx_extension_id c)"
| "principal_matches_context PHostRuntime c = False"
| "principal_matches_context (PSystem _) c = False"

definition spawn_descriptor ::
  "('d, 's, 't) CapabilityDescriptor \<Rightarrow> ('d, 's, 't) CapabilityDescriptor" where
  "spawn_descriptor d =
     (if SpawnProcess \<in> set (desc_effects d) then d else d\<lparr>desc_effects := desc_effects d @ [SpawnProcess]\<rparr>)"

section \<open>Obligations of a grant\<close>

definition descriptor_requires_mount_policy :: "('d, 's, 't) CapabilityDescriptor \<Rightarrow> bool" where
  "descriptor_requires_mount_policy d =
     list_ex (\<lambda>e. e = ReadFilesystem \<or> e = WriteFilesystem \<or> e = DeleteFilesystem \<or> e = ExecuteCode)
       (desc_effects d)"

definition network_policy_is_constrained :: "NetworkPolicy \<Rightarrow> bool" where
  "network_policy_is_constrained p =
     (allowed_targets p \<noteq> [] \<or> deny_private_ip_ranges p \<or> max_egress_bytes p \<noteq> None)"

text \<open>The loop over the descriptor's credentials: \<open>None\<close> when a required handle is not granted.\<close>

fun credential_obligations ::
  "ExtensionId \<Rightarrow> SecretHandle list \<Rightarrow> 't RuntimeCredentialRequirement list \<Rightarrow> 'd Obligation list option" where
  "credential_obligations provider secrets [] = Some []"
| "credential_obligations provider secrets (c # cs) =
     (case cred_source c of
        SourceSecretHandle \<Rightarrow>
          if cred_handle c \<in> set secrets then
            map_option (\<lambda>obs. InjectSecretOnce (cred_handle c) # obs)
              (credential_obligations provider secrets cs)
          else if cred_required c then None
          else credential_obligations provider secrets cs
      | ProductAuthAccount p setup \<Rightarrow>
          if cred_required c then
            map_option (\<lambda>obs. InjectCredentialAccountOnce (cred_handle c) p setup (cred_provider_scopes c) provider # obs)
              (credential_obligations provider secrets cs)
          else credential_obligations provider secrets cs)"

definition secret_obligations ::
  "('d, 's, 't) CapabilityDescriptor \<Rightarrow> SecretHandle list \<Rightarrow> 'd Obligation list option" where
  "secret_obligations d secrets =
     (if desc_runtime_credentials d \<noteq> [] then
        if UseSecret \<notin> set (desc_effects d) then None
        else credential_obligations (desc_provider d) secrets (desc_runtime_credentials d)
      else if UseSecret \<in> set (desc_effects d) then
        if desc_runtime d = RuntimeFirstParty \<and> secrets = [] then
          Some [FirstPartyCredentialStagedViaHostPort (desc_id d)]
        else (case secrets of [handle] \<Rightarrow> Some [InjectSecretOnce handle] | _ \<Rightarrow> None)
      else Some [])"

definition obligations_for_grant ::
  "('d, 's, 't) CapabilityDescriptor \<Rightarrow> 'd CapabilityGrant \<Rightarrow> 'd ResourceCeiling option
     \<Rightarrow> 'd Obligation list option" where
  "obligations_for_grant d grant effective_ceiling =
     (let mount_obs = (if descriptor_requires_mount_policy d
            then [UseScopedMounts (gc_mounts (constraints grant))] else []);
          net_obs = (if Network \<in> set (desc_effects d)
              \<or> network_policy_is_constrained (gc_network (constraints grant))
            then [ApplyNetworkPolicy (gc_network (constraints grant))] else [])
      in case secret_obligations d (gc_secrets (constraints grant)) of
           None \<Rightarrow> None
         | Some secret_obs \<Rightarrow>
             let ceiling_obs = (case effective_ceiling of None \<Rightarrow> []
                   | Some c \<Rightarrow> EnforceResourceCeiling c #
                       (case max_output_bytes c of None \<Rightarrow> [] | Some b \<Rightarrow> [EnforceOutputLimit b]))
             in case Obligations_new (mount_obs @ net_obs @ secret_obs @ ceiling_obs) of
                  Inl _ \<Rightarrow> None | Inr obs \<Rightarrow> Some obs)"

section \<open>Decisions\<close>

text \<open>The attempt to authorize with one active matching grant.\<close>

definition try_grant ::
  "('d::linorder, 's, 't) CapabilityDescriptor \<Rightarrow> 'd ResourceEstimate \<Rightarrow> 'd AuthorityCeiling option
     \<Rightarrow> 'd CapabilityGrant \<Rightarrow> 'd Obligation list option" where
  "try_grant d estimate ceiling grant =
     (let effective = intersect_resource_ceilings (resource_ceiling (constraints grant))
            (Option.bind ceiling max_resource_ceiling);
          authority_effects_allow = (case ceiling of
              Some c \<Rightarrow> effects_are_covered (desc_effects d) (auth_allowed_effects c) | None \<Rightarrow> True)
      in if effects_are_covered (desc_effects d) (allowed_effects (constraints grant))
           \<and> authority_effects_allow \<and> resource_estimate_is_covered estimate effective
         then obligations_for_grant d grant effective else None)"

fun try_grants ::
  "('d::linorder, 's, 't) CapabilityDescriptor \<Rightarrow> 'd ResourceEstimate \<Rightarrow> 'd AuthorityCeiling option
     \<Rightarrow> bool \<Rightarrow> 'd CapabilityGrant list \<Rightarrow> 'd Decision" where
  "try_grants d estimate ceiling saw [] = Deny (if saw then PolicyDenied else MissingGrant)"
| "try_grants d estimate ceiling saw (g # gs) =
     (case try_grant d estimate ceiling g of
        Some obs \<Rightarrow> Allow obs
      | None \<Rightarrow> try_grants d estimate ceiling True gs)"

definition candidate :: "instant \<Rightarrow> 'd ExecutionContext \<Rightarrow> ('d, 's, 't) CapabilityDescriptor \<Rightarrow> 'd CapabilityGrant \<Rightarrow> bool" where
  "candidate now context d grant =
     (grant_capability grant = desc_id d \<and> principal_matches_context (grantee grant) context
      \<and> grant_is_active now grant)"

definition authorize_from_grants_with_authority_ceiling ::
  "instant \<Rightarrow> 'd::linorder ExecutionContext \<Rightarrow> ('d, 's, 't) CapabilityDescriptor \<Rightarrow> 'd ResourceEstimate
     \<Rightarrow> 'd CapabilityGrant list \<Rightarrow> 'd AuthorityCeiling option \<Rightarrow> 'd Decision" where
  "authorize_from_grants_with_authority_ceiling now context d estimate grants ceiling =
     (if \<not> is_ok (ExecutionContext_validate context) then Deny InternalInvariantViolation
      else try_grants d estimate ceiling False (filter (candidate now context d) grants))"

definition authorize_from_grants ::
  "instant \<Rightarrow> 'd::linorder ExecutionContext \<Rightarrow> ('d, 's, 't) CapabilityDescriptor \<Rightarrow> 'd ResourceEstimate
     \<Rightarrow> 'd CapabilityGrant list \<Rightarrow> 'd Decision" where
  "authorize_from_grants now context d estimate grants =
     authorize_from_grants_with_authority_ceiling now context d estimate grants None"

definition authorize_from_grants_with_trust ::
  "instant \<Rightarrow> 'd::linorder ExecutionContext \<Rightarrow> ('d, 's, 't) CapabilityDescriptor \<Rightarrow> 'd ResourceEstimate
     \<Rightarrow> 'd CapabilityGrant list \<Rightarrow> 'd TrustDecision \<Rightarrow> 'd Decision" where
  "authorize_from_grants_with_trust now context d estimate grants trust =
     (if \<not> is_ok (ExecutionContext_validate context) then Deny InternalInvariantViolation
      else if ctx_trust context \<noteq> eff_class (effective_trust trust) then Deny PolicyDenied
      else authorize_from_grants_with_authority_ceiling now context d estimate grants
             (Some (authority_ceiling trust)))"

section \<open>The authorizers\<close>

definition grant_authorize_dispatch ::
  "instant \<Rightarrow> 'd::linorder ExecutionContext \<Rightarrow> ('d, 's, 't) CapabilityDescriptor \<Rightarrow> 'd ResourceEstimate
     \<Rightarrow> 'd Decision" where
  "grant_authorize_dispatch now context d estimate =
     authorize_from_grants now context d estimate (set_grants (ctx_grants context))"

definition grant_authorize_spawn ::
  "instant \<Rightarrow> 'd::linorder ExecutionContext \<Rightarrow> ('d, 's, 't) CapabilityDescriptor \<Rightarrow> 'd ResourceEstimate
     \<Rightarrow> 'd Decision" where
  "grant_authorize_spawn now context d estimate =
     authorize_from_grants now context (spawn_descriptor d) estimate (set_grants (ctx_grants context))"

definition grant_authorize_dispatch_with_trust ::
  "instant \<Rightarrow> 'd::linorder ExecutionContext \<Rightarrow> ('d, 's, 't) CapabilityDescriptor \<Rightarrow> 'd ResourceEstimate
     \<Rightarrow> 'd TrustDecision \<Rightarrow> 'd Decision" where
  "grant_authorize_dispatch_with_trust now context d estimate trust =
     authorize_from_grants_with_trust now context d estimate (set_grants (ctx_grants context)) trust"

definition grant_authorize_spawn_with_trust ::
  "instant \<Rightarrow> 'd::linorder ExecutionContext \<Rightarrow> ('d, 's, 't) CapabilityDescriptor \<Rightarrow> 'd ResourceEstimate
     \<Rightarrow> 'd TrustDecision \<Rightarrow> 'd Decision" where
  "grant_authorize_spawn_with_trust now context d estimate trust =
     authorize_from_grants_with_trust now context (spawn_descriptor d) estimate
       (set_grants (ctx_grants context)) trust"

definition lease_authorize_dispatch ::
  "instant \<Rightarrow> 'd LeaseStore \<Rightarrow> 'd::linorder ExecutionContext \<Rightarrow> ('d, 's, 't) CapabilityDescriptor
     \<Rightarrow> 'd ResourceEstimate \<Rightarrow> 'd Decision" where
  "lease_authorize_dispatch now leases context d estimate =
     (if \<not> is_ok (ExecutionContext_validate context) then Deny InternalInvariantViolation
      else authorize_from_grants now context d estimate
             (set_grants (ctx_grants context) @ active_grants_for_context now leases context))"

definition lease_authorize_spawn ::
  "instant \<Rightarrow> 'd LeaseStore \<Rightarrow> 'd::linorder ExecutionContext \<Rightarrow> ('d, 's, 't) CapabilityDescriptor
     \<Rightarrow> 'd ResourceEstimate \<Rightarrow> 'd Decision" where
  "lease_authorize_spawn now leases context d estimate =
     (if \<not> is_ok (ExecutionContext_validate context) then Deny InternalInvariantViolation
      else authorize_from_grants now context (spawn_descriptor d) estimate
             (set_grants (ctx_grants context) @ active_grants_for_context now leases context))"

definition lease_authorize_dispatch_with_trust ::
  "instant \<Rightarrow> 'd LeaseStore \<Rightarrow> 'd::linorder ExecutionContext \<Rightarrow> ('d, 's, 't) CapabilityDescriptor
     \<Rightarrow> 'd ResourceEstimate \<Rightarrow> 'd TrustDecision \<Rightarrow> 'd Decision" where
  "lease_authorize_dispatch_with_trust now leases context d estimate trust =
     (if \<not> is_ok (ExecutionContext_validate context) then Deny InternalInvariantViolation
      else authorize_from_grants_with_trust now context d estimate
             (set_grants (ctx_grants context) @ active_grants_for_context now leases context) trust)"

definition lease_authorize_spawn_with_trust ::
  "instant \<Rightarrow> 'd LeaseStore \<Rightarrow> 'd::linorder ExecutionContext \<Rightarrow> ('d, 's, 't) CapabilityDescriptor
     \<Rightarrow> 'd ResourceEstimate \<Rightarrow> 'd TrustDecision \<Rightarrow> 'd Decision" where
  "lease_authorize_spawn_with_trust now leases context d estimate trust =
     (if \<not> is_ok (ExecutionContext_validate context) then Deny InternalInvariantViolation
      else authorize_from_grants_with_trust now context (spawn_descriptor d) estimate
             (set_grants (ctx_grants context) @ active_grants_for_context now leases context) trust)"

section \<open>Ceilings form a meet\<close>

lemma within_stricter:
  "options_within_ceiling e (stricter_limit g a) \<longleftrightarrow> options_within_ceiling e g \<and> options_within_ceiling e a"
  by (cases e; cases g; cases a) auto

lemma sandbox_within_intersect:
  "(case intersect_sandbox_quotas g a of None \<Rightarrow> True
     | Some q \<Rightarrow> options_within_ceiling n (sq_network_egress_bytes q) \<and> options_within_ceiling p (sq_process_count q))
   \<longleftrightarrow> (case g of None \<Rightarrow> True
     | Some q \<Rightarrow> options_within_ceiling n (sq_network_egress_bytes q) \<and> options_within_ceiling p (sq_process_count q))
    \<and> (case a of None \<Rightarrow> True
     | Some q \<Rightarrow> options_within_ceiling n (sq_network_egress_bytes q) \<and> options_within_ceiling p (sq_process_count q))"
  by (cases g; cases a) (auto simp: within_stricter)

lemma covered_intersect:
  "resource_estimate_is_covered e (intersect_resource_ceilings g a)
    \<longleftrightarrow> resource_estimate_is_covered e g \<and> resource_estimate_is_covered e a"
proof (cases "g = None \<or> a = None")
  case True
  then show ?thesis
    by (cases g; cases a) (auto simp: resource_estimate_is_covered_def)
next
  case False
  then obtain g' a' where "g = Some g'" "a = Some a'" by auto
  then show ?thesis
    by (simp only: resource_estimate_is_covered_def intersect_resource_ceilings.simps option.case
        ResourceCeiling.simps within_stricter sandbox_within_intersect) blast
qed

lemma stricter_if_not_exceeds: "\<not> limit_exceeds g a \<Longrightarrow> stricter_limit g a = g"
  by (cases g; cases a) auto

lemma sandbox_if_not_exceeds:
  "\<not> sandbox_quota_exceeds_authority g a \<Longrightarrow> intersect_sandbox_quotas g a = g"
  by (cases g; cases a) (auto simp: stricter_if_not_exceeds)

lemma ceiling_if_not_exceeds:
  "\<not> resource_ceiling_exceeds_authority g a \<Longrightarrow> intersect_resource_ceilings g a = g"
  by (cases g; cases a) (auto simp: stricter_if_not_exceeds sandbox_if_not_exceeds)

lemma stricter_not_exceeds: "\<not> limit_exceeds (stricter_limit g a) g" "\<not> limit_exceeds (stricter_limit g a) a"
  by (cases g; cases a; auto)+

lemma sandbox_not_exceeds:
  "\<not> sandbox_quota_exceeds_authority (intersect_sandbox_quotas g a) g"
  "\<not> sandbox_quota_exceeds_authority (intersect_sandbox_quotas g a) a"
proof -
  have refl: "\<not> limit_exceeds x x" for x :: "'x::linorder option"
    by (cases x) auto
  show "\<not> sandbox_quota_exceeds_authority (intersect_sandbox_quotas g a) g"
    "\<not> sandbox_quota_exceeds_authority (intersect_sandbox_quotas g a) a"
    by (cases g; cases a; simp add: stricter_not_exceeds refl)+
qed

text \<open>
  Intersecting a grant's resource ceiling with the policy's is a meet. A request fits the
  intersection exactly when it fits both ceilings, the intersection never exceeds either of
  them, and a grant within the authority ceiling is left as it is.
\<close>

theorem ceiling_intersection_is_meet:
  "(resource_estimate_is_covered e (intersect_resource_ceilings g a)
      \<longleftrightarrow> resource_estimate_is_covered e g \<and> resource_estimate_is_covered e a)
   \<and> \<not> resource_ceiling_exceeds_authority (intersect_resource_ceilings g a) g
   \<and> \<not> resource_ceiling_exceeds_authority (intersect_resource_ceilings g a) a
   \<and> (resource_ceiling_exceeds_authority g a \<or> intersect_resource_ceilings g a = g)"
proof -
  have refl: "\<not> limit_exceeds x x" for x :: "'x::linorder option"
    by (cases x) auto
  have srefl: "\<not> sandbox_quota_exceeds_authority q q" for q
    by (cases q) (auto simp: refl)
  have "\<not> resource_ceiling_exceeds_authority (intersect_resource_ceilings g a) g
      \<and> \<not> resource_ceiling_exceeds_authority (intersect_resource_ceilings g a) a"
    by (cases g; cases a) (simp_all add: stricter_not_exceeds sandbox_not_exceeds refl srefl)
  then show ?thesis
    using covered_intersect ceiling_if_not_exceeds by blast
qed

text \<open>An ambient grant comes from an active lease of exactly the context's scope.\<close>

lemma ambient_leases_exact:
  assumes "ExecutionContext_validate context = Ok ()" and "g \<in> set (active_grants_for_context now s context)"
  shows "\<exists>l \<in> set (hm_values s). lease_grant l = g \<and> lease_fingerprint l = None
    \<and> lease_status l = LeaseActive \<and> lease_scope l = ctx_resource_scope context"
  using assms
  by (fastforce simp: active_grants_for_context_def active_leases_for_context_def leases_for_scope_def
      same_scope_owner_def lease_is_authorizing_def ExecutionContext_validate_def Let_def split: if_splits)

section \<open>Obligations are canonical\<close>

definition kind_rank :: "ObligationKind \<Rightarrow> nat" where
  "kind_rank k = length (takeWhile (\<lambda>k'. k' \<noteq> k) OBLIGATION_EVALUATION_ORDER)"

lemma normalize_rest_Ok: "normalize_rest kind seen obs = Ok out \<Longrightarrow> out = obs"
  by (induction obs arbitrary: seen out) (auto simp: Let_def result_simps split: if_splits)

lemma normalize_kind_Ok:
  "normalize_kind obs kind = Ok out \<Longrightarrow> out = filter (\<lambda>ob. obligation_kind ob = kind) obs"
  by (auto simp: normalize_kind_def normalize_multi_inject_def result_simps dest!: normalize_rest_Ok
      split: list.splits if_splits)

lemma normalize_kinds_Ok:
  "normalize_kinds obs kinds = Ok out \<Longrightarrow>
     out = concat (map (\<lambda>kind. filter (\<lambda>ob. obligation_kind ob = kind) obs) kinds)"
  by (induction kinds arbitrary: out) (auto simp: result_simps dest: normalize_kind_Ok)

lemma every_kind_ordered: "kind \<in> set OBLIGATION_EVALUATION_ORDER"
  by (cases kind) (simp_all add: OBLIGATION_EVALUATION_ORDER_def)

lemma Obligations_new_Ok:
  "Obligations_new obs = Ok out \<Longrightarrow>
     out = concat (map (\<lambda>kind. filter (\<lambda>ob. obligation_kind ob = kind) obs) OBLIGATION_EVALUATION_ORDER)"
  by (auto simp: Obligations_new_def dest: normalize_kinds_Ok split: option.splits)

lemma set_Obligations_new: "Obligations_new obs = Ok out \<Longrightarrow> set out = set obs"
  by (drule Obligations_new_Ok) (auto intro: every_kind_ordered)

lemma sorted_concat_filter:
  "sorted (map f ks) \<Longrightarrow>
     sorted (map (\<lambda>x. f (g x)) (concat (map (\<lambda>k. filter (\<lambda>x. g x = k) xs) ks)))"
proof (induction ks)
  case Nil
  then show ?case by simp
next
  case (Cons k ks)
  have "map (\<lambda>x. f (g x)) (filter (\<lambda>x. g x = k) xs) = replicate (length (filter (\<lambda>x. g x = k) xs)) (f k)"
    by (induction xs) auto
  with Cons show ?case
    by (auto simp: sorted_append)
qed

lemma sorted_Obligations_new:
  "Obligations_new obs = Ok out \<Longrightarrow> sorted (map (\<lambda>ob. kind_rank (obligation_kind ob)) out)"
proof (drule Obligations_new_Ok, simp only:, rule sorted_concat_filter)
  show "sorted (map kind_rank OBLIGATION_EVALUATION_ORDER)"
    by (simp add: OBLIGATION_EVALUATION_ORDER_def kind_rank_def)
qed

section \<open>Decisions\<close>

lemma try_grants_Allow:
  "try_grants d e c saw gs = Allow obs \<Longrightarrow> \<exists>g \<in> set gs. try_grant d e c g = Some obs"
  by (induction gs arbitrary: saw) (auto split: option.splits)

lemma try_grants_Allow_iff:
  "(\<exists>obs. try_grants d e c saw gs = Allow obs) \<longleftrightarrow> (\<exists>g \<in> set gs. try_grant d e c g \<noteq> None)"
  by (induction gs arbitrary: saw) (auto split: option.splits)

lemma try_grants_Deny:
  "\<forall>g \<in> set gs. try_grant d e c g = None \<Longrightarrow>
     try_grants d e c saw gs = Deny (if saw \<or> gs \<noteq> [] then PolicyDenied else MissingGrant)"
  by (induction gs arbitrary: saw) auto

definition grant_justifies ::
  "instant \<Rightarrow> 'd::linorder ExecutionContext \<Rightarrow> ('d, 's, 't) CapabilityDescriptor \<Rightarrow> 'd ResourceEstimate
     \<Rightarrow> 'd AuthorityCeiling \<Rightarrow> 'd CapabilityGrant \<Rightarrow> bool" where
  "grant_justifies now context d e c g \<longleftrightarrow>
     grant_capability g = desc_id d
     \<and> principal_matches_context (grantee g) context
     \<and> (case expires_at (constraints g) of None \<Rightarrow> True | Some t \<Rightarrow> now < t)
     \<and> max_invocations (constraints g) \<noteq> Some 0
     \<and> set (desc_effects d) \<subseteq> set (allowed_effects (constraints g)) \<inter> set (auth_allowed_effects c)
     \<and> resource_estimate_is_covered e (resource_ceiling (constraints g))
     \<and> resource_estimate_is_covered e (max_resource_ceiling c)"

lemma try_grant_justifies:
  assumes "candidate now context d g" and "try_grant d e (Some c) g = Some obs"
  shows "grant_justifies now context d e c g"
  using assms
  by (auto simp: grant_justifies_def candidate_def grant_is_active_def try_grant_def covered_intersect
      effects_are_covered_def list_all_iff Let_def split: if_splits)

lemma trust_Allow_elim:
  assumes "authorize_from_grants_with_trust now context d e grants trust = Allow obs"
  obtains g where "is_ok (ExecutionContext_validate context)"
    and "ctx_trust context = eff_class (effective_trust trust)"
    and "g \<in> set grants" and "candidate now context d g"
    and "try_grant d e (Some (authority_ceiling trust)) g = Some obs"
  using assms
  by (auto simp: authorize_from_grants_with_trust_def authorize_from_grants_with_authority_ceiling_def
      dest!: try_grants_Allow split: if_splits)

section \<open>A concrete dispatch\<close>

definition example_descriptor :: "(nat, unit, unit) CapabilityDescriptor" where
  "example_descriptor = \<lparr>desc_id = ''shell.run'', desc_provider = ''shell'', desc_runtime = Wasm,
     desc_trust_ceiling = UserTrusted, desc_description = [], desc_parameters_schema = (),
     desc_effects = [ReadFilesystem], desc_default_permission = PermAllow, desc_runtime_credentials = [],
     desc_network_targets = [], desc_resource_profile = None\<rparr>"

definition empty_estimate :: "nat ResourceEstimate" where
  "empty_estimate = \<lparr>est_usd = None, est_input_tokens = None, est_output_tokens = None,
     est_wall_clock_ms = None, est_output_bytes = None, est_network_egress_bytes = None,
     est_process_count = None, est_concurrency_slots = None\<rparr>"

definition example_trust :: "nat TrustDecision" where
  "example_trust = \<lparr>effective_trust = \<lparr>eff_inner = UserTrusted\<rparr>,
     authority_ceiling = \<lparr>auth_allowed_effects = [ReadFilesystem, Network], max_resource_ceiling = None\<rparr>,
     provenance = ProvAdminConfig, evaluated_at = 40\<rparr>"

definition example_leases :: "nat LeaseStore" where
  "example_leases = [(example_key, example_lease None (Some 2) LeaseActive)]"

lemma example_allowed:
  "lease_authorize_dispatch_with_trust 50 example_leases example_context example_descriptor empty_estimate
     example_trust = Allow [UseScopedMounts \<lparr>mounts = []\<rparr>]"
  by code_simp

lemma example_try_grant:
  "try_grant example_descriptor empty_estimate (Some (authority_ceiling example_trust))
     (lease_grant (example_lease None (Some 2) LeaseActive)) = Some [UseScopedMounts \<lparr>mounts = []\<rparr>]"
  by code_simp

text \<open>
  C6: an allowed dispatch is justified. When the lease-backed, trust-aware authorizer allows a
  dispatch, the context is well formed and carries the trust class the policy decided, and one
  grant, taken from the request or from an ambient lease of exactly this scope, names this
  capability and a principal of this context, is unexpired and unexhausted, permits every effect
  the capability declares, as does the policy ceiling, and covers the resource estimate, as does
  the policy ceiling. In particular no grant to the host runtime or to a system service counts.
\<close>

theorem dispatch_authorization_sound:
  assumes "lease_authorize_dispatch_with_trust now leases context d e trust = Allow obs"
  shows "ExecutionContext_validate context = Ok () \<and> ctx_trust context = eff_class (effective_trust trust)
    \<and> (\<exists>g. grant_justifies now context d e (authority_ceiling trust) g
        \<and> grantee g \<noteq> PHostRuntime \<and> (\<forall>svc. grantee g \<noteq> PSystem svc)
        \<and> (g \<in> set (set_grants (ctx_grants context))
           \<or> (\<exists>l \<in> set (hm_values leases). lease_grant l = g \<and> lease_fingerprint l = None
                \<and> lease_status l = LeaseActive \<and> lease_scope l = ctx_resource_scope context)))"
proof -
  have "authorize_from_grants_with_trust now context d e
      (set_grants (ctx_grants context) @ active_grants_for_context now leases context) trust = Allow obs"
    using assms by (auto simp: lease_authorize_dispatch_with_trust_def split: if_splits)
  then obtain g where ok: "is_ok (ExecutionContext_validate context)"
    and trust: "ctx_trust context = eff_class (effective_trust trust)"
    and mem: "g \<in> set (set_grants (ctx_grants context) @ active_grants_for_context now leases context)"
    and cand: "candidate now context d g" and "try_grant d e (Some (authority_ceiling trust)) g = Some obs"
    by (rule trust_Allow_elim)
  then have just: "grant_justifies now context d e (authority_ceiling trust) g"
    by (intro try_grant_justifies)
  have valid: "ExecutionContext_validate context = Ok ()"
    using ok by (cases "ExecutionContext_validate context") auto
  have "grantee g \<noteq> PHostRuntime \<and> (\<forall>svc. grantee g \<noteq> PSystem svc)"
    using cand by (auto simp: candidate_def)
  with just trust valid mem ambient_leases_exact [OF valid, of g now leases] show ?thesis
    by auto
qed

lemma dispatch_authorization_sound_witness:
  "\<exists>g. grant_justifies 50 example_context example_descriptor empty_estimate (authority_ceiling example_trust) g"
  using dispatch_authorization_sound [OF example_allowed] by blast

text \<open>
  the authorizer decides and says why. For a well-formed context of the decided trust
  class, dispatch is allowed exactly when some candidate grant (this capability, a principal of
  this context, active) passes the effect, resource and obligation checks; it is denied for
  policy exactly when there are candidates and none passes, and for a missing grant exactly when
  there is no candidate. A malformed context is always denied as an internal invariant violation.
\<close>

theorem authorization_decides:
  "(case authorize_from_grants_with_trust now ctx d e grants trust of
      Allow obs \<Rightarrow> \<exists>g \<in> set grants. candidate now ctx d g
        \<and> try_grant d e (Some (authority_ceiling trust)) g = Some obs
    | Deny InternalInvariantViolation \<Rightarrow> \<not> is_ok (ExecutionContext_validate ctx)
    | Deny PolicyDenied \<Rightarrow> ctx_trust ctx \<noteq> eff_class (effective_trust trust)
        \<or> (\<exists>g \<in> set grants. candidate now ctx d g)
          \<and> (\<forall>g \<in> set grants. candidate now ctx d g \<longrightarrow>
               try_grant d e (Some (authority_ceiling trust)) g = None)
    | Deny MissingGrant \<Rightarrow> \<forall>g \<in> set grants. \<not> candidate now ctx d g
    | _ \<Rightarrow> False)"
proof -
  let ?gs = "filter (candidate now ctx d) grants"
  let ?c = "Some (authority_ceiling trust)"
  show ?thesis
  proof (cases "\<exists>g \<in> set ?gs. try_grant d e ?c g \<noteq> None")
    case True
    then obtain obs where "try_grants d e ?c False ?gs = Allow obs"
      using try_grants_Allow_iff [of d e ?c False ?gs] by blast
    moreover from try_grants_Allow [OF this] have "\<exists>g \<in> set grants. candidate now ctx d g \<and> try_grant d e ?c g = Some obs"
      by auto
    ultimately show ?thesis
      by (simp add: authorize_from_grants_with_trust_def authorize_from_grants_with_authority_ceiling_def)
  next
    case False
    then have "try_grants d e ?c False ?gs = Deny (if ?gs \<noteq> [] then PolicyDenied else MissingGrant)"
      using try_grants_Deny [of ?gs d e ?c False] by simp
    with False show ?thesis
      by (auto simp: authorize_from_grants_with_trust_def authorize_from_grants_with_authority_ceiling_def
          filter_empty_conv split: if_splits)
  qed
qed

lemma authorization_decides_witness:
  "\<not> candidate 200 example_context example_descriptor (lease_grant (example_lease None (Some 2) LeaseActive))"
proof -
  have "authorize_from_grants_with_trust 200 example_context example_descriptor empty_estimate
      [lease_grant (example_lease None (Some 2) LeaseActive)] example_trust = Deny MissingGrant"
    by code_simp
  with authorization_decides [where now = 200 and ctx = example_context and d = example_descriptor
      and e = empty_estimate and grants = "[lease_grant (example_lease None (Some 2) LeaseActive)]"
      and trust = example_trust]
  show ?thesis by simp
qed

text \<open>
  The obligations of an allowed dispatch carry the grant's constraints, in the canonical
  order. A capability with a filesystem or code-execution effect gets the grant's mounts, one
  with a network effect the grant's network policy, and whenever the grant or the policy sets a
  resource ceiling their intersection is enforced, with its output limit; obligations appear in
  evaluation order.
\<close>

theorem obligations_carry_constraints:
  assumes "try_grant d e ceiling g = Some obs"
    and "effective = intersect_resource_ceilings (resource_ceiling (constraints g))
           (Option.bind ceiling max_resource_ceiling)"
  shows "(descriptor_requires_mount_policy d \<longrightarrow> UseScopedMounts (gc_mounts (constraints g)) \<in> set obs)
    \<and> (Network \<in> set (desc_effects d) \<longrightarrow> ApplyNetworkPolicy (gc_network (constraints g)) \<in> set obs)
    \<and> (\<forall>c. effective = Some c \<longrightarrow> EnforceResourceCeiling c \<in> set obs
         \<and> (\<forall>b. max_output_bytes c = Some b \<longrightarrow> EnforceOutputLimit b \<in> set obs))
    \<and> sorted (map (\<lambda>ob. kind_rank (obligation_kind ob)) obs)"
proof -
  have "obligations_for_grant d g effective = Some obs"
    using assms by (auto simp: try_grant_def Let_def split: if_splits)
  then obtain raw where raw: "Obligations_new raw = Ok obs"
    and m: "descriptor_requires_mount_policy d \<longrightarrow> UseScopedMounts (gc_mounts (constraints g)) \<in> set raw"
    and n: "Network \<in> set (desc_effects d) \<longrightarrow> ApplyNetworkPolicy (gc_network (constraints g)) \<in> set raw"
    and c: "\<forall>c. effective = Some c \<longrightarrow> EnforceResourceCeiling c \<in> set raw
         \<and> (\<forall>b. max_output_bytes c = Some b \<longrightarrow> EnforceOutputLimit b \<in> set raw)"
    by (auto simp: obligations_for_grant_def Let_def split: option.splits sum.splits)
  with set_Obligations_new [OF raw] sorted_Obligations_new [OF raw] show ?thesis
    by simp
qed

lemma obligations_carry_constraints_witness:
  "UseScopedMounts \<lparr>mounts = []\<rparr> \<in> set [UseScopedMounts \<lparr>mounts = []\<rparr> :: nat Obligation]"
proof -
  have "descriptor_requires_mount_policy example_descriptor"
    by code_simp
  moreover have "gc_mounts (constraints (lease_grant (example_lease None (Some 2) LeaseActive))) = \<lparr>mounts = []\<rparr>"
    by (simp add: example_lease_def)
  ultimately show ?thesis
    using obligations_carry_constraints [OF example_try_grant refl] by simp
qed

section \<open>Policy changes\<close>

lemma limit_kept: "\<not> limit_exceeds g p \<Longrightarrow> \<not> limit_reduced p c \<Longrightarrow> \<not> limit_exceeds g c"
  by (cases g; cases p; cases c) auto

lemma sandbox_kept:
  "\<not> sandbox_quota_exceeds_authority g p \<Longrightarrow> \<not> sandbox_quota_reduced p c \<Longrightarrow>
     \<not> sandbox_quota_exceeds_authority g c"
  by (cases g; cases p; cases c) (auto dest: limit_kept)

lemma ceiling_kept:
  "\<not> resource_ceiling_exceeds_authority g p \<Longrightarrow> \<not> resource_ceiling_reduced p c \<Longrightarrow>
     \<not> resource_ceiling_exceeds_authority g c"
  by (cases g; cases p; cases c) (auto dest: limit_kept sandbox_kept)

text \<open>
  no grant outgrows the policy unnoticed. If a mutation of the trust policy makes a grant
  exceed the authority ceiling that it respected before, the mutation reports a trust change
  that carries both ceilings, so a listener can revoke the grant.
\<close>

theorem policy_change_reported:
  assumes "mutate_with now sources probe ms res = (Ok (r, change), sources')"
    and "evaluate_unlocked now sources probe = Ok prev" and "evaluate_unlocked now sources' probe = Ok cur"
    and "\<not> grant_exceeds_authority_ceiling g (authority_ceiling prev)"
    and "grant_exceeds_authority_ceiling g (authority_ceiling cur)"
  shows "\<exists>c. change = Some c \<and> authority_ceiling_reduced c
    \<and> tc_previous_ceiling c = authority_ceiling prev \<and> tc_current_ceiling c = authority_ceiling cur"
proof -
  have "is_reduction_from (authority_ceiling cur) (authority_ceiling prev)"
    using assms(4,5) ceiling_kept
    by (auto simp: grant_exceeds_authority_ceiling_def is_reduction_from_def effects_are_covered_def
        list_all_iff list_ex_iff)
  moreover have "change = TrustChange_new (identity probe) prev cur"
    using assms(1-3) by (auto simp: mutate_with_def split: sum.splits prod.splits)
  ultimately show ?thesis
    by (simp add: TrustChange_new_def authority_ceiling_reduced_def)
qed

lemma policy_change_reported_witness:
  "\<exists>c. authority_ceiling_reduced (c :: nat TrustChange)"
proof -
  let ?sources = "[SrcBundled [(''shell'', example_bundled)]]"
  let ?sources' = "[SrcBundled []] :: nat PolicySource list"
  let ?ms = "[BundledRemove ''shell'']"
  obtain prev where prev: "evaluate_unlocked 3 ?sources example_input = Ok prev"
    "auth_allowed_effects (authority_ceiling prev) = [ReadFilesystem]"
    "max_resource_ceiling (authority_ceiling prev) = None"
    by (simp add: bundled_evaluate_def example_input_def example_bundled_def hm_get_def digest_matches_def)
  have cur: "evaluate_unlocked 3 ?sources' example_input = Ok (default_decision 3)"
    by (simp add: bundled_evaluate_def example_input_def hm_get_def)
  have stage: "stage ?sources ?ms = Ok ()" and commit: "commit ?sources ?ms = (Ok (), ?sources')"
    by (simp_all add: find_source_def hm_remove_def)
  have "mutate_with 3 ?sources example_input ?ms (Ok ())
      = (Ok ((), TrustChange_new (identity example_input) prev (default_decision 3)), ?sources')"
    by (simp only: mutate_with_def prev(1) cur stage commit sum.case prod.case result_bind_simps)
  note mutated = this
  have before: "\<not> grant_exceeds_authority_ceiling (lease_grant (example_lease None (Some 2) LeaseActive))
      (authority_ceiling prev)"
    using prev by (simp add: grant_exceeds_authority_ceiling_def example_lease_def effects_are_covered_def)
  have after: "grant_exceeds_authority_ceiling (lease_grant (example_lease None (Some 2) LeaseActive))
      (authority_ceiling (default_decision 3))"
    by (simp add: grant_exceeds_authority_ceiling_def example_lease_def effects_are_covered_def
        default_decision_def AuthorityCeiling_empty_def)
  from policy_change_reported [OF mutated prev(1) cur before after] show ?thesis
    by blast
qed

end
