(* ===== verification/Filesystem.thy ===== *)
theory Filesystem
  imports Paths Host_Api "HOL-Library.Char_ord" "HOL-Library.List_Lexorder"
begin

text \<open>
  The storage substrate (\<open>ironclaw_filesystem\<close>): the in-memory backend that serves the unified
  \<open>RootFilesystem\<close> surface (\<open>in_memory.rs\<close>: versioned entries with compare-and-swap, event
  logs, path-local sequences), the scope-aware view that resolves a path through the mounts of
  the caller and checks the permission of each operation (\<open>scoped.rs\<close>), and the lock-free
  read-modify-write loop every durable store is built on (\<open>cas.rs\<close>). The backend is a state
  record; one lock acquisition is one function on it.
\<close>

unbundle bit_operations_syntax

section \<open>Records, versions and errors\<close>

type_synonym bytes = "u8 list"
type_synonym RecordVersion = u64
type_synonym SeqNo = u64

definition RecordVersion_next :: "RecordVersion \<Rightarrow> RecordVersion" where
  "RecordVersion_next v = saturating_add v 1"

definition SeqNo_next :: "SeqNo \<Rightarrow> SeqNo" where
  "SeqNo_next v = saturating_add v 1"

datatype CasExpectation = CasAbsent | CasVersion RecordVersion | CasAny

datatype IndexValue = IvBool bool | IvI64 "64 word" | IvText string | IvBytes bytes

datatype IndexKind = IndexExact | IndexPrefix | IndexFts | IndexVector u32

record IndexSpec =
  spec_name :: string
  spec_keys :: "string list"
  spec_kind :: IndexKind

record Entry =
  body :: bytes
  content_type :: string
  entry_kind :: "string option"
  indexed :: "(string \<times> IndexValue) list"

definition Entry_bytes :: "bytes \<Rightarrow> Entry" where
  "Entry_bytes b = \<lparr>body = b, content_type = ''application/octet-stream'', entry_kind = None, indexed = []\<rparr>"

record VersionedEntry =
  ve_path :: VirtualPath
  ve_entry :: Entry
  ve_version :: RecordVersion

definition validate_simple_identifier :: "string \<Rightarrow> string \<Rightarrow> (HostApiError, unit) result" where
  "validate_simple_identifier kind s =
    (case s of
       [] \<Rightarrow> Err (InvalidId kind s ''must not be empty'')
     | first # rest \<Rightarrow>
         if 128 < length s then Err (InvalidId kind s ''must be 128 characters or fewer'')
         else if \<not> (is_ascii_lowercase first \<or> is_ascii_uppercase first \<or> first = CHR ''_'')
         then Err (InvalidId kind s ''must start with an ASCII letter or underscore'')
         else if list_ex (\<lambda>b. \<not> (is_ascii_alphanumeric b \<or> b = CHR ''_'')) rest
         then Err (InvalidId kind s ''must contain only ASCII letters, digits, and underscores'')
         else Ok ())"

definition RecordKind_new :: "string \<Rightarrow> (HostApiError, string) result" where
  "RecordKind_new raw =
    result_bind (validate_simple_identifier ''filesystem record kind'' raw) (\<lambda>_. Ok raw)"

record EventRecord =
  ev_seq :: SeqNo
  ev_payload :: bytes

datatype FilesystemOperation =
    OpMountLocal | OpConnect | OpReadFile | OpWriteFile | OpAppendFile | OpListDir | OpStat | OpDelete
  | OpCreateDirAll | OpQuery | OpEnsureIndex | OpBeginTxn | OpAppend | OpTail | OpHeadSeq | OpReserveSeq

datatype IndexConflictReason = SpecMismatch | EmptyKeys

datatype Capability =
    CapRead | CapWrite | CapAppend | CapList | CapStat | CapDelete | CapRecords | CapQuery
  | CapIndexExact | CapIndexPrefix | CapIndexFts | CapIndexVector | CapEvents

datatype TxnCapability = TxnNone | TxnCas | TxnMultiKey

datatype FilesystemError =
    FsContract HostApiError
  | FsPermissionDenied ScopedPath FilesystemOperation
  | FsMountNotFound VirtualPath
  | FsNotFound VirtualPath FilesystemOperation
  | FsPathOutsideMount VirtualPath
  | FsSymlinkEscape VirtualPath
  | FsMountConflict VirtualPath
  | FsBackend VirtualPath FilesystemOperation string
  | FsVersionMismatch VirtualPath "RecordVersion option" "RecordVersion option"
  | FsUnsupported VirtualPath FilesystemOperation
  | FsIndexConflict VirtualPath string IndexConflictReason
  | FsDescriptorOverclaims VirtualPath "Capability list" bool
  | FsSerializeIndexed VirtualPath FilesystemOperation
  | FsDeserializeIndexed VirtualPath FilesystemOperation
  | FsCorruptRecordVersion VirtualPath int
  | FsIndexSpecMissingAfterUpsert VirtualPath string
  | FsBackendInfrastructure FilesystemOperation string

datatype FileType = File | Directory | Symlink | OtherType

record DirEntry =
  de_name :: string
  de_path :: VirtualPath
  de_type :: FileType

record FileStat =
  st_path :: VirtualPath
  st_type :: FileType
  st_len :: u64
  st_modified :: "instant option"
  st_sensitive :: bool

subsection \<open>Capabilities of a backend\<close>

fun capability_index :: "Capability \<Rightarrow> nat" where
  "capability_index CapRead = 0"
| "capability_index CapWrite = 1"
| "capability_index CapAppend = 2"
| "capability_index CapList = 3"
| "capability_index CapStat = 4"
| "capability_index CapDelete = 5"
| "capability_index CapRecords = 6"
| "capability_index CapQuery = 7"
| "capability_index CapIndexExact = 8"
| "capability_index CapIndexPrefix = 9"
| "capability_index CapIndexFts = 10"
| "capability_index CapIndexVector = 11"
| "capability_index CapEvents = 12"

definition capability_bit :: "Capability \<Rightarrow> u32" where
  "capability_bit c = push_bit (capability_index c) 1"

record BackendCapabilities =
  flags :: u32
  txn :: TxnCapability

definition capabilities_empty :: BackendCapabilities where
  "capabilities_empty = \<lparr>flags = 0, txn = TxnNone\<rparr>"

definition capabilities_with :: "Capability \<Rightarrow> BackendCapabilities \<Rightarrow> BackendCapabilities" where
  "capabilities_with c self = self\<lparr>flags := flags self OR capability_bit c\<rparr>"

definition capabilities_has :: "BackendCapabilities \<Rightarrow> Capability \<Rightarrow> bool" where
  "capabilities_has self c = (flags self AND capability_bit c \<noteq> 0)"

definition bytes_only :: BackendCapabilities where
  "bytes_only = fold capabilities_with [CapRead, CapWrite, CapAppend, CapList, CapStat, CapDelete]
    capabilities_empty"

definition sql_typical :: BackendCapabilities where
  "sql_typical = (fold capabilities_with
     [CapRead, CapWrite, CapAppend, CapList, CapStat, CapDelete, CapRecords, CapQuery,
      CapIndexExact, CapIndexPrefix] capabilities_empty)\<lparr>txn := TxnCas\<rparr>"

definition sql_typical_full :: BackendCapabilities where
  "sql_typical_full = fold capabilities_with [CapEvents, CapIndexFts, CapIndexVector] sql_typical"

definition in_memory_full :: BackendCapabilities where
  "in_memory_full = sql_typical_full"

definition capabilities_known :: "BackendCapabilities \<Rightarrow> bool" where
  "capabilities_known c = (c \<noteq> capabilities_empty)"

definition capabilities_support_cas :: "BackendCapabilities \<Rightarrow> bool" where
  "capabilities_support_cas c = (txn c = TxnCas \<or> txn c = TxnMultiKey)"

section \<open>The in-memory backend\<close>

record StoredEntry =
  stored_entry :: Entry
  stored_version :: RecordVersion
  stored_modified :: instant

record FsState =
  entries :: "(VirtualPath, StoredEntry) hashmap"
  indexes :: "(string, IndexSpec list) hashmap"
  event_logs :: "(string, EventRecord list) hashmap"
  sequences :: "(string, SeqNo) hashmap"

definition InMemoryBackend_new :: FsState where
  "InMemoryBackend_new = \<lparr>entries = [], indexes = [], event_logs = [], sequences = []\<rparr>"

definition with_trailing_slash :: "string \<Rightarrow> string" where
  "with_trailing_slash s = (if ends_with ''/'' s then s else s @ ''/'')"

definition first_segment :: "string \<Rightarrow> string \<times> bool" where
  "first_segment s = (if CHR ''/'' \<in> set s then (takeWhile (\<lambda>c. c \<noteq> CHR ''/'') s, True) else (s, False))"

definition join_path :: "string \<Rightarrow> string \<Rightarrow> string" where
  "join_path parent child = (if ends_with ''/'' parent then parent @ child else parent @ ''/'' @ child)"

fun check_cas ::
  "VirtualPath \<Rightarrow> CasExpectation \<Rightarrow> RecordVersion option \<Rightarrow> (FilesystemError, unit) result" where
  "check_cas path CasAny current = Ok ()"
| "check_cas path CasAbsent None = Ok ()"
| "check_cas path CasAbsent (Some found) = Err (FsVersionMismatch path None (Some found))"
| "check_cas path (CasVersion expected) current =
    (if current = Some expected then Ok () else Err (FsVersionMismatch path (Some expected) current))"

definition version_at :: "FsState \<Rightarrow> VirtualPath \<Rightarrow> RecordVersion option" where
  "version_at st path = map_option stored_version (hm_get (entries st) path)"

definition has_children :: "FsState \<Rightarrow> string \<Rightarrow> bool" where
  "has_children st prefix_path = list_ex (\<lambda>(k, e). prefix prefix_path k) (entries st)"

definition next_version :: "RecordVersion option \<Rightarrow> RecordVersion" where
  "next_version current = (case current of None \<Rightarrow> 1 | Some v \<Rightarrow> RecordVersion_next v)"

definition backend_put ::
  "instant \<Rightarrow> VirtualPath \<Rightarrow> Entry \<Rightarrow> CasExpectation \<Rightarrow> FsState
    \<Rightarrow> (FilesystemError, RecordVersion) result \<times> FsState" where
  "backend_put now path entry cas st =
    (if has_children st (with_trailing_slash path)
     then (Err (FsBackend path OpWriteFile ''cannot overwrite a directory''), st)
     else case check_cas path cas (version_at st path) of
       Inl e \<Rightarrow> (Err e, st)
     | Inr _ \<Rightarrow>
         (let v = next_version (version_at st path) in
          (Ok v, st\<lparr>entries := hm_insert path
             \<lparr>stored_entry = entry, stored_version = v, stored_modified = now\<rparr> (entries st)\<rparr>)))"

definition backend_get :: "VirtualPath \<Rightarrow> FsState \<Rightarrow> (FilesystemError, VersionedEntry option) result" where
  "backend_get path st = Ok (map_option
     (\<lambda>s. \<lparr>ve_path = path, ve_entry = stored_entry s, ve_version = stored_version s\<rparr>) (hm_get (entries st) path))"

definition clear_under :: "string \<Rightarrow> string \<Rightarrow> (string, 'v) hashmap \<Rightarrow> (string, 'v) hashmap" where
  "clear_under exact prefix_path m = hm_retain (\<lambda>k. k \<noteq> exact \<and> \<not> prefix prefix_path k) m"

definition backend_delete :: "VirtualPath \<Rightarrow> FsState \<Rightarrow> (FilesystemError, unit) result \<times> FsState" where
  "backend_delete path st =
    (let prefix_path = with_trailing_slash path;
         removed = hm_contains (entries st) path;
         before = hm_remove path (entries st);
         kept = hm_retain (\<lambda>k. \<not> prefix prefix_path k) before;
         st' = st\<lparr>entries := kept,
                  event_logs := clear_under path prefix_path (event_logs st),
                  sequences := clear_under path prefix_path (sequences st)\<rparr>
     in if removed then (Ok (), st')
        else if length kept = length before then (Err (FsNotFound path OpDelete), st')
        else (Ok (), st'))"

definition backend_delete_if_version ::
  "VirtualPath \<Rightarrow> RecordVersion \<Rightarrow> FsState \<Rightarrow> (FilesystemError, unit) result \<times> FsState" where
  "backend_delete_if_version path expected st =
    (case version_at st path of
       None \<Rightarrow> (Err (FsNotFound path OpDelete), st)
     | Some current \<Rightarrow>
         if expected \<noteq> current
         then (Err (FsVersionMismatch path (Some expected) (Some current)), st)
         else (Ok (), st\<lparr>entries := hm_remove path (entries st)\<rparr>))"

text \<open>One round of the loop that collects the children of a directory.\<close>

definition see_child ::
  "string \<Rightarrow> VirtualPath \<Rightarrow> (string, FileType) hashmap \<Rightarrow> (string, FileType) hashmap" where
  "see_child prefix_path stored_path seen =
    (case strip_prefix prefix_path stored_path of
       None \<Rightarrow> seen
     | Some sfx \<Rightarrow>
         (case first_segment sfx of (head, has_more) \<Rightarrow>
            if head = [] then seen
            else case hm_get seen head of
              Some existing \<Rightarrow> (if has_more then hm_insert head Directory seen else seen)
            | None \<Rightarrow> hm_insert head (if has_more then Directory else File) seen))"

fun dir_entries ::
  "VirtualPath \<Rightarrow> (string, FileType) hashmap \<Rightarrow> (FilesystemError, DirEntry list) result" where
  "dir_entries path [] = Ok []"
| "dir_entries path ((name, ft) # rest) =
    (case VirtualPath_new (join_path path name) of
       Inl e \<Rightarrow> Err (FsContract e)
     | Inr child \<Rightarrow> result_bind (dir_entries path rest)
         (\<lambda>es. Ok (\<lparr>de_name = name, de_path = child, de_type = ft\<rparr> # es)))"

definition backend_list_dir :: "VirtualPath \<Rightarrow> FsState \<Rightarrow> (FilesystemError, DirEntry list) result" where
  "backend_list_dir path st =
    result_bind (dir_entries path (fold (see_child (with_trailing_slash path)) (map fst (entries st)) []))
      (\<lambda>es. Ok (sort_key de_name es))"

definition list_dir_bounded ::
  "VirtualPath \<Rightarrow> nat \<Rightarrow> FsState \<Rightarrow> (FilesystemError, DirEntry list) result" where
  "list_dir_bounded path max_entries st =
    result_bind (backend_list_dir path st) (\<lambda>es. Ok (take max_entries es))"

definition backend_stat :: "VirtualPath \<Rightarrow> FsState \<Rightarrow> (FilesystemError, FileStat) result" where
  "backend_stat path st =
    (case hm_get (entries st) path of
       Some stored \<Rightarrow> Ok \<lparr>st_path = path, st_type = File, st_len = of_nat (length (body (stored_entry stored))),
          st_modified = Some (stored_modified stored), st_sensitive = (entry_kind (stored_entry stored) \<noteq> None)\<rparr>
     | None \<Rightarrow>
         if has_children st (with_trailing_slash path)
         then Ok \<lparr>st_path = path, st_type = Directory, st_len = 0, st_modified = None, st_sensitive = False\<rparr>
         else Err (FsNotFound path OpStat))"

definition backend_ensure_index ::
  "VirtualPath \<Rightarrow> IndexSpec \<Rightarrow> FsState \<Rightarrow> (FilesystemError, unit) result \<times> FsState" where
  "backend_ensure_index path spec st =
    (if spec_kind spec = IndexVector 0
     then (Err (FsIndexConflict path (spec_name spec) SpecMismatch), st)
     else
       let bucket = unwrap_or [] (hm_get (indexes st) path);
           st' = st\<lparr>indexes := hm_insert path bucket (indexes st)\<rparr>
       in case find (\<lambda>s. spec_name s = spec_name spec) bucket of
            Some existing \<Rightarrow>
              if existing \<noteq> spec then (Err (FsIndexConflict path (spec_name existing) SpecMismatch), st')
              else (Ok (), st')
          | None \<Rightarrow> (Ok (), st\<lparr>indexes := hm_insert path (bucket @ [spec]) (indexes st)\<rparr>))"

definition backend_begin :: "VirtualPath \<Rightarrow> (FilesystemError, 'txn) result" where
  "backend_begin path = Err (FsUnsupported path OpBeginTxn)"

subsection \<open>Event logs and sequences\<close>

definition log_at :: "FsState \<Rightarrow> string \<Rightarrow> EventRecord list" where
  "log_at st path = unwrap_or [] (hm_get (event_logs st) path)"

definition next_seq :: "EventRecord list \<Rightarrow> SeqNo" where
  "next_seq log = (if log = [] then SeqNo_next 0 else SeqNo_next (ev_seq (last log)))"

definition push_event :: "bytes \<Rightarrow> EventRecord list \<Rightarrow> EventRecord list" where
  "push_event payload log = log @ [\<lparr>ev_seq = next_seq log, ev_payload = payload\<rparr>]"

definition backend_append ::
  "string \<Rightarrow> bytes \<Rightarrow> FsState \<Rightarrow> (FilesystemError, SeqNo) result \<times> FsState" where
  "backend_append path payload st =
    (let log = log_at st path in
     (Ok (next_seq log), st\<lparr>event_logs := hm_insert path (push_event payload log) (event_logs st)\<rparr>))"

fun push_events :: "bytes list \<Rightarrow> EventRecord list \<Rightarrow> SeqNo list \<times> EventRecord list" where
  "push_events [] log = ([], log)"
| "push_events (payload # payloads) log =
    (case push_events payloads (push_event payload log) of (seqs, log') \<Rightarrow> (next_seq log # seqs, log'))"

definition backend_append_batch ::
  "string \<Rightarrow> bytes list \<Rightarrow> FsState \<Rightarrow> (FilesystemError, SeqNo list) result \<times> FsState" where
  "backend_append_batch path payloads st =
    (case push_events payloads (log_at st path) of
       (seqs, log) \<Rightarrow> (Ok seqs, st\<lparr>event_logs := hm_insert path log (event_logs st)\<rparr>))"

definition backend_tail :: "string \<Rightarrow> SeqNo \<Rightarrow> FsState \<Rightarrow> (FilesystemError, EventRecord list) result" where
  "backend_tail path from_seq st = Ok (filter (\<lambda>r. from_seq < ev_seq r) (log_at st path))"

definition backend_tail_bounded ::
  "string \<Rightarrow> SeqNo \<Rightarrow> nat \<Rightarrow> FsState \<Rightarrow> (FilesystemError, EventRecord list) result" where
  "backend_tail_bounded path from_seq max_records st =
    Ok (take max_records (filter (\<lambda>r. from_seq < ev_seq r) (log_at st path)))"

definition head_seq :: "string \<Rightarrow> SeqNo \<Rightarrow> FsState \<Rightarrow> (FilesystemError, SeqNo option) result" where
  "head_seq path from_seq st = result_bind (backend_tail path from_seq st)
     (\<lambda>rs. Ok (if rs = [] then None else Some (Max (set (map ev_seq rs)))))"

definition backend_reserve_sequence :: "string \<Rightarrow> FsState \<Rightarrow> (FilesystemError, SeqNo) result \<times> FsState" where
  "backend_reserve_sequence path st =
    (let reserved = unwrap_or (SeqNo_next 0) (hm_get (sequences st) path) in
     (Ok reserved, st\<lparr>sequences := hm_insert path (SeqNo_next reserved) (sequences st)\<rparr>))"

definition backend_append_file ::
  "instant \<Rightarrow> VirtualPath \<Rightarrow> bytes \<Rightarrow> FsState \<Rightarrow> (FilesystemError, unit) result \<times> FsState" where
  "backend_append_file now path bs st =
    (let existing = hm_get (entries st) path;
         entry = (case existing of None \<Rightarrow> Entry_bytes [] | Some s \<Rightarrow> stored_entry s)
     in if entry_kind entry \<noteq> None
        then (Err (FsBackend path OpAppendFile ''cannot append bytes to a record-shaped entry''), st)
        else (Ok (), st\<lparr>entries := hm_insert path
               \<lparr>stored_entry = entry\<lparr>body := body entry @ bs\<rparr>, stored_version = next_version (version_at st path),
                stored_modified = now\<rparr> (entries st)\<rparr>))"

subsection \<open>The byte operations the trait provides\<close>

definition backend_read_file :: "VirtualPath \<Rightarrow> FsState \<Rightarrow> (FilesystemError, bytes) result" where
  "backend_read_file path st = result_bind (backend_get path st)
     (\<lambda>r. case r of Some v \<Rightarrow> Ok (body (ve_entry v)) | None \<Rightarrow> Err (FsNotFound path OpReadFile))"

definition backend_write_file ::
  "instant \<Rightarrow> VirtualPath \<Rightarrow> bytes \<Rightarrow> FsState \<Rightarrow> (FilesystemError, unit) result \<times> FsState" where
  "backend_write_file now path bs st =
    (case backend_put now path (Entry_bytes bs) CasAny st of
       (Inl e, st') \<Rightarrow> (Err e, st') | (Inr _, st') \<Rightarrow> (Ok (), st'))"

definition read_file_bounded :: "VirtualPath \<Rightarrow> u64 \<Rightarrow> FsState \<Rightarrow> (FilesystemError, bytes option) result" where
  "read_file_bounded path max_bytes st =
    result_bind (backend_stat path st) (\<lambda>s.
      if max_bytes < st_len s then Ok None
      else result_bind (backend_get path st) (\<lambda>r.
        case r of
          None \<Rightarrow> Err (FsNotFound path OpReadFile)
        | Some v \<Rightarrow>
            if unat max_bytes < length (body (ve_entry v)) then Ok None else Ok (Some (body (ve_entry v)))))"

definition backend_create_dir_all :: "VirtualPath \<Rightarrow> (FilesystemError, unit) result" where
  "backend_create_dir_all path = Err (FsUnsupported path OpCreateDirAll)"

section \<open>The scoped view\<close>

text \<open>
  The resolver of a \<open>ScopedFilesystem\<close> turns a scope into the mount view that authorizes the
  call; it is a parameter, as in the code (a boxed closure that composition supplies).
\<close>

type_synonym MountViewResolver = "ResourceScope \<Rightarrow> (HostApiError, MountView) result"

fun operation_allowed :: "MountPermissions \<Rightarrow> FilesystemOperation \<Rightarrow> bool" where
  "operation_allowed p OpReadFile = perm_read p"
| "operation_allowed p OpWriteFile = perm_write p"
| "operation_allowed p OpAppendFile = perm_write p"
| "operation_allowed p OpCreateDirAll = perm_write p"
| "operation_allowed p OpEnsureIndex = perm_write p"
| "operation_allowed p OpBeginTxn = perm_write p"
| "operation_allowed p OpAppend = perm_write p"
| "operation_allowed p OpReserveSeq = perm_write p"
| "operation_allowed p OpListDir = perm_list p"
| "operation_allowed p OpStat = (perm_read p \<or> perm_list p)"
| "operation_allowed p OpDelete = perm_delete p"
| "operation_allowed p OpMountLocal = False"
| "operation_allowed p OpConnect = False"
| "operation_allowed p OpQuery = (perm_read p \<and> perm_list p)"
| "operation_allowed p OpTail = perm_read p"
| "operation_allowed p OpHeadSeq = perm_read p"

definition resolve_with_permission_view ::
  "MountView \<Rightarrow> ScopedPath \<Rightarrow> FilesystemOperation \<Rightarrow> (FilesystemError, VirtualPath) result" where
  "resolve_with_permission_view view path operation =
    (case resolve_with_grant view path of
       Inl e \<Rightarrow> Err (FsContract e)
     | Inr (virtual_path, grant) \<Rightarrow>
         if \<not> operation_allowed (mg_permissions grant) operation
         then Err (FsPermissionDenied path operation)
         else Ok virtual_path)"

definition mount_view :: "MountViewResolver \<Rightarrow> ResourceScope \<Rightarrow> (FilesystemError, MountView) result" where
  "mount_view resolver s = (case resolver s of Inl e \<Rightarrow> Err (FsContract e) | Inr v \<Rightarrow> Ok v)"

definition scoped_resolve ::
  "MountViewResolver \<Rightarrow> ResourceScope \<Rightarrow> ScopedPath \<Rightarrow> (FilesystemError, VirtualPath) result" where
  "scoped_resolve resolver s path = result_bind (mount_view resolver s)
     (\<lambda>view. case resolve view path of Inl e \<Rightarrow> Err (FsContract e) | Inr v \<Rightarrow> Ok v)"

definition resolve_with_permission ::
  "MountViewResolver \<Rightarrow> ResourceScope \<Rightarrow> ScopedPath \<Rightarrow> FilesystemOperation
    \<Rightarrow> (FilesystemError, VirtualPath) result" where
  "resolve_with_permission resolver s path operation =
    result_bind (mount_view resolver s) (\<lambda>view. resolve_with_permission_view view path operation)"

text \<open>Every scoped operation resolves, then runs the backend operation at the resolved path.\<close>

definition scoped_read ::
  "FilesystemOperation \<Rightarrow> (VirtualPath \<Rightarrow> FsState \<Rightarrow> (FilesystemError, 'a) result)
    \<Rightarrow> MountViewResolver \<Rightarrow> ResourceScope \<Rightarrow> ScopedPath \<Rightarrow> FsState \<Rightarrow> (FilesystemError, 'a) result" where
  "scoped_read operation f resolver s path st =
    result_bind (resolve_with_permission resolver s path operation) (\<lambda>v. f v st)"

definition scoped_write ::
  "FilesystemOperation \<Rightarrow> (VirtualPath \<Rightarrow> FsState \<Rightarrow> (FilesystemError, 'a) result \<times> FsState)
    \<Rightarrow> MountViewResolver \<Rightarrow> ResourceScope \<Rightarrow> ScopedPath \<Rightarrow> FsState \<Rightarrow> (FilesystemError, 'a) result \<times> FsState" where
  "scoped_write operation f resolver s path st =
    (case resolve_with_permission resolver s path operation of
       Inl e \<Rightarrow> (Err e, st)
     | Inr v \<Rightarrow> f v st)"

definition scoped_put :: "instant \<Rightarrow> MountViewResolver \<Rightarrow> ResourceScope \<Rightarrow> ScopedPath \<Rightarrow> Entry \<Rightarrow> CasExpectation
    \<Rightarrow> FsState \<Rightarrow> (FilesystemError, RecordVersion) result \<times> FsState" where
  "scoped_put now resolver s path entry cas st =
    scoped_write OpWriteFile (\<lambda>v. backend_put now v entry cas) resolver s path st"

definition scoped_get :: "MountViewResolver \<Rightarrow> ResourceScope \<Rightarrow> ScopedPath \<Rightarrow> FsState
    \<Rightarrow> (FilesystemError, VersionedEntry option) result" where
  "scoped_get resolver s path st = scoped_read OpReadFile backend_get resolver s path st"

definition scoped_ensure_index :: "MountViewResolver \<Rightarrow> ResourceScope \<Rightarrow> ScopedPath \<Rightarrow> IndexSpec
    \<Rightarrow> FsState \<Rightarrow> (FilesystemError, unit) result \<times> FsState" where
  "scoped_ensure_index resolver s path spec st =
    scoped_write OpEnsureIndex (\<lambda>v. backend_ensure_index v spec) resolver s path st"

definition scoped_append :: "MountViewResolver \<Rightarrow> ResourceScope \<Rightarrow> ScopedPath \<Rightarrow> bytes
    \<Rightarrow> FsState \<Rightarrow> (FilesystemError, SeqNo) result \<times> FsState" where
  "scoped_append resolver s path payload st =
    scoped_write OpAppend (\<lambda>v. backend_append v payload) resolver s path st"

definition scoped_append_batch :: "MountViewResolver \<Rightarrow> ResourceScope \<Rightarrow> ScopedPath \<Rightarrow> bytes list
    \<Rightarrow> FsState \<Rightarrow> (FilesystemError, SeqNo list) result \<times> FsState" where
  "scoped_append_batch resolver s path payloads st =
    scoped_write OpAppend (\<lambda>v. backend_append_batch v payloads) resolver s path st"

definition scoped_tail :: "MountViewResolver \<Rightarrow> ResourceScope \<Rightarrow> ScopedPath \<Rightarrow> SeqNo
    \<Rightarrow> FsState \<Rightarrow> (FilesystemError, EventRecord list) result" where
  "scoped_tail resolver s path from_seq st =
    scoped_read OpTail (\<lambda>v. backend_tail v from_seq) resolver s path st"

definition scoped_tail_bounded :: "MountViewResolver \<Rightarrow> ResourceScope \<Rightarrow> ScopedPath \<Rightarrow> SeqNo \<Rightarrow> nat
    \<Rightarrow> FsState \<Rightarrow> (FilesystemError, EventRecord list) result" where
  "scoped_tail_bounded resolver s path from_seq max_records st =
    scoped_read OpTail (\<lambda>v. backend_tail_bounded v from_seq max_records) resolver s path st"

definition scoped_head_seq :: "MountViewResolver \<Rightarrow> ResourceScope \<Rightarrow> ScopedPath \<Rightarrow> SeqNo
    \<Rightarrow> FsState \<Rightarrow> (FilesystemError, SeqNo option) result" where
  "scoped_head_seq resolver s path from_seq st =
    scoped_read OpHeadSeq (\<lambda>v. head_seq v from_seq) resolver s path st"

definition scoped_reserve_sequence :: "MountViewResolver \<Rightarrow> ResourceScope \<Rightarrow> ScopedPath
    \<Rightarrow> FsState \<Rightarrow> (FilesystemError, SeqNo) result \<times> FsState" where
  "scoped_reserve_sequence resolver s path st =
    scoped_write OpReserveSeq backend_reserve_sequence resolver s path st"

definition scoped_read_file :: "MountViewResolver \<Rightarrow> ResourceScope \<Rightarrow> ScopedPath
    \<Rightarrow> FsState \<Rightarrow> (FilesystemError, bytes) result" where
  "scoped_read_file resolver s path st = scoped_read OpReadFile backend_read_file resolver s path st"

definition scoped_write_file :: "instant \<Rightarrow> MountViewResolver \<Rightarrow> ResourceScope \<Rightarrow> ScopedPath \<Rightarrow> bytes
    \<Rightarrow> FsState \<Rightarrow> (FilesystemError, unit) result \<times> FsState" where
  "scoped_write_file now resolver s path bs st =
    scoped_write OpWriteFile (\<lambda>v. backend_write_file now v bs) resolver s path st"

definition write_bytes_with_mount_view :: "instant \<Rightarrow> MountView \<Rightarrow> ScopedPath \<Rightarrow> bytes
    \<Rightarrow> FsState \<Rightarrow> (FilesystemError, unit) result \<times> FsState" where
  "write_bytes_with_mount_view now view path bs st =
    (case resolve_with_permission_view view path OpWriteFile of
       Inl e \<Rightarrow> (Err e, st)
     | Inr v \<Rightarrow> backend_write_file now v bs st)"

definition scoped_append_file :: "instant \<Rightarrow> MountViewResolver \<Rightarrow> ResourceScope \<Rightarrow> ScopedPath \<Rightarrow> bytes
    \<Rightarrow> FsState \<Rightarrow> (FilesystemError, unit) result \<times> FsState" where
  "scoped_append_file now resolver s path bs st =
    scoped_write OpAppendFile (\<lambda>v. backend_append_file now v bs) resolver s path st"

definition scoped_list_dir :: "MountViewResolver \<Rightarrow> ResourceScope \<Rightarrow> ScopedPath
    \<Rightarrow> FsState \<Rightarrow> (FilesystemError, DirEntry list) result" where
  "scoped_list_dir resolver s path st = scoped_read OpListDir backend_list_dir resolver s path st"

definition scoped_list_dir_bounded :: "MountViewResolver \<Rightarrow> ResourceScope \<Rightarrow> ScopedPath \<Rightarrow> nat
    \<Rightarrow> FsState \<Rightarrow> (FilesystemError, DirEntry list) result" where
  "scoped_list_dir_bounded resolver s path max_entries st =
    scoped_read OpListDir (\<lambda>v. list_dir_bounded v max_entries) resolver s path st"

definition scoped_stat :: "MountViewResolver \<Rightarrow> ResourceScope \<Rightarrow> ScopedPath
    \<Rightarrow> FsState \<Rightarrow> (FilesystemError, FileStat) result" where
  "scoped_stat resolver s path st = scoped_read OpStat backend_stat resolver s path st"

definition scoped_delete :: "MountViewResolver \<Rightarrow> ResourceScope \<Rightarrow> ScopedPath
    \<Rightarrow> FsState \<Rightarrow> (FilesystemError, unit) result \<times> FsState" where
  "scoped_delete resolver s path st = scoped_write OpDelete backend_delete resolver s path st"

definition scoped_delete_if_version :: "MountViewResolver \<Rightarrow> ResourceScope \<Rightarrow> ScopedPath \<Rightarrow> RecordVersion
    \<Rightarrow> FsState \<Rightarrow> (FilesystemError, unit) result \<times> FsState" where
  "scoped_delete_if_version resolver s path expected st =
    scoped_write OpDelete (\<lambda>v. backend_delete_if_version v expected) resolver s path st"

definition scoped_create_dir_all :: "MountViewResolver \<Rightarrow> ResourceScope \<Rightarrow> ScopedPath
    \<Rightarrow> FsState \<Rightarrow> (FilesystemError, unit) result" where
  "scoped_create_dir_all resolver s path st =
    scoped_read OpCreateDirAll (\<lambda>v _. backend_create_dir_all v) resolver s path st"

definition scoped_read_bytes :: "MountViewResolver \<Rightarrow> ResourceScope \<Rightarrow> ScopedPath
    \<Rightarrow> FsState \<Rightarrow> (FilesystemError, bytes) result" where
  "scoped_read_bytes resolver s path st =
    result_bind (scoped_get resolver s path st) (\<lambda>r.
      case r of
        Some v \<Rightarrow> Ok (body (ve_entry v))
      | None \<Rightarrow> result_bind (resolve_with_permission resolver s path OpReadFile)
          (\<lambda>v. Err (FsNotFound v OpReadFile)))"

definition scoped_read_bytes_bounded :: "MountViewResolver \<Rightarrow> ResourceScope \<Rightarrow> ScopedPath \<Rightarrow> u64
    \<Rightarrow> FsState \<Rightarrow> (FilesystemError, bytes option) result" where
  "scoped_read_bytes_bounded resolver s path max_bytes st =
    scoped_read OpReadFile (\<lambda>v. read_file_bounded v max_bytes) resolver s path st"

definition scoped_write_bytes :: "instant \<Rightarrow> MountViewResolver \<Rightarrow> ResourceScope \<Rightarrow> ScopedPath \<Rightarrow> bytes
    \<Rightarrow> FsState \<Rightarrow> (FilesystemError, unit) result \<times> FsState" where
  "scoped_write_bytes now resolver s path bs st =
    (case scoped_put now resolver s path (Entry_bytes bs) CasAny st of
       (Inl e, st') \<Rightarrow> (Err e, st') | (Inr _, st') \<Rightarrow> (Ok (), st'))"

end
