(* ===== verification/Filesystem_Laws.thy ===== *)
theory Filesystem_Laws
  imports Filesystem
begin

text \<open>
  What the storage substrate promises: a scoped operation touches only paths below a mount of
  the caller's view that grants the operation, so disjoint views are isolated; deletion removes
  exactly a subtree; event logs are gapless and replay completely; a directory listing is the
  sorted set of direct children.
\<close>

section \<open>The effect of the backend operations, cell by cell\<close>

text \<open>Everything the backend stores under one path.\<close>

definition cell ::
  "FsState \<Rightarrow> string \<Rightarrow> StoredEntry option \<times> IndexSpec list option \<times> EventRecord list option \<times> SeqNo option" where
  "cell st p = (hm_get (entries st) p, hm_get (indexes st) p, hm_get (event_logs st) p, hm_get (sequences st) p)"

lemmas cell_simps = cell_def hm_simps Let_def

lemma backend_put_cell: "p \<noteq> path \<Longrightarrow> cell (snd (backend_put now path e c st)) p = cell st p"
  by (simp add: backend_put_def cell_simps split: sum.splits)

lemma backend_write_file_cell: "p \<noteq> path \<Longrightarrow> cell (snd (backend_write_file now path b st)) p = cell st p"
  using backend_put_cell [of p path now "Entry_bytes b" CasAny st]
  by (auto simp: backend_write_file_def split: prod.splits sum.splits)

lemma backend_append_file_cell: "p \<noteq> path \<Longrightarrow> cell (snd (backend_append_file now path b st)) p = cell st p"
  by (simp add: backend_append_file_def cell_simps)

lemma backend_append_cell: "p \<noteq> path \<Longrightarrow> cell (snd (backend_append path b st)) p = cell st p"
  by (simp add: backend_append_def cell_simps)

lemma backend_append_batch_cell: "p \<noteq> path \<Longrightarrow> cell (snd (backend_append_batch path bs st)) p = cell st p"
  by (simp add: backend_append_batch_def cell_simps split: prod.splits)

lemma backend_reserve_sequence_cell:
  "p \<noteq> path \<Longrightarrow> cell (snd (backend_reserve_sequence path st)) p = cell st p"
  by (simp add: backend_reserve_sequence_def cell_simps)

lemma backend_ensure_index_cell: "p \<noteq> path \<Longrightarrow> cell (snd (backend_ensure_index path spec st)) p = cell st p"
  by (simp add: backend_ensure_index_def cell_simps split: option.splits)

lemma backend_delete_if_version_cell:
  "p \<noteq> path \<Longrightarrow> cell (snd (backend_delete_if_version path v st)) p = cell st p"
  by (simp add: backend_delete_if_version_def cell_simps split: option.splits)

lemma backend_delete_cell:
  "p \<noteq> path \<Longrightarrow> \<not> prefix (with_trailing_slash path) p \<Longrightarrow> cell (snd (backend_delete path st)) p = cell st p"
  by (simp add: backend_delete_def clear_under_def cell_simps)

lemmas backend_cells =
  backend_put_cell backend_write_file_cell backend_append_file_cell backend_append_cell
  backend_append_batch_cell backend_reserve_sequence_cell backend_ensure_index_cell
  backend_delete_if_version_cell

section \<open>Containment and isolation\<close>

text \<open>The state-changing operations of the scoped view, as data.\<close>

datatype ScopedOp =
    SPut ScopedPath Entry CasExpectation
  | SWriteFile ScopedPath bytes
  | SAppendFile ScopedPath bytes
  | SEnsureIndex ScopedPath IndexSpec
  | SAppend ScopedPath bytes
  | SAppendBatch ScopedPath "bytes list"
  | SReserveSequence ScopedPath
  | SDelete ScopedPath
  | SDeleteIfVersion ScopedPath RecordVersion

fun op_path :: "ScopedOp \<Rightarrow> ScopedPath" where
  "op_path (SPut p _ _) = p"
| "op_path (SWriteFile p _) = p"
| "op_path (SAppendFile p _) = p"
| "op_path (SEnsureIndex p _) = p"
| "op_path (SAppend p _) = p"
| "op_path (SAppendBatch p _) = p"
| "op_path (SReserveSequence p) = p"
| "op_path (SDelete p) = p"
| "op_path (SDeleteIfVersion p _) = p"

fun op_kind :: "ScopedOp \<Rightarrow> FilesystemOperation" where
  "op_kind (SPut _ _ _) = OpWriteFile"
| "op_kind (SWriteFile _ _) = OpWriteFile"
| "op_kind (SAppendFile _ _) = OpAppendFile"
| "op_kind (SEnsureIndex _ _) = OpEnsureIndex"
| "op_kind (SAppend _ _) = OpAppend"
| "op_kind (SAppendBatch _ _) = OpAppend"
| "op_kind (SReserveSequence _) = OpReserveSeq"
| "op_kind (SDelete _) = OpDelete"
| "op_kind (SDeleteIfVersion _ _) = OpDelete"

fun run_scoped :: "instant \<Rightarrow> MountViewResolver \<Rightarrow> ResourceScope \<Rightarrow> ScopedOp \<Rightarrow> FsState \<Rightarrow> FsState" where
  "run_scoped now R s (SPut p e c) st = snd (scoped_put now R s p e c st)"
| "run_scoped now R s (SWriteFile p b) st = snd (scoped_write_file now R s p b st)"
| "run_scoped now R s (SAppendFile p b) st = snd (scoped_append_file now R s p b st)"
| "run_scoped now R s (SEnsureIndex p i) st = snd (scoped_ensure_index R s p i st)"
| "run_scoped now R s (SAppend p b) st = snd (scoped_append R s p b st)"
| "run_scoped now R s (SAppendBatch p bs) st = snd (scoped_append_batch R s p bs st)"
| "run_scoped now R s (SReserveSequence p) st = snd (scoped_reserve_sequence R s p st)"
| "run_scoped now R s (SDelete p) st = snd (scoped_delete R s p st)"
| "run_scoped now R s (SDeleteIfVersion p v) st = snd (scoped_delete_if_version R s p v st)"

lemmas scoped_mutations =
  scoped_put_def scoped_write_file_def scoped_append_file_def scoped_ensure_index_def scoped_append_def
  scoped_append_batch_def scoped_reserve_sequence_def scoped_delete_def scoped_delete_if_version_def
  scoped_write_def

lemma run_scoped_refused:
  "resolve_with_permission R s (op_path op) (op_kind op) = Inl e \<Longrightarrow> run_scoped now R s op st = st"
  by (cases op) (simp_all add: scoped_mutations)

lemma run_scoped_cell:
  assumes "resolve_with_permission R s (op_path op) (op_kind op) = Inr v"
    and "p \<noteq> v" and "\<not> prefix (with_trailing_slash v) p"
  shows "cell (run_scoped now R s op st) p = cell st p"
  using assms by (cases op) (simp_all add: scoped_mutations backend_cells backend_delete_cell)

lemma resolved_in_mount:
  assumes "R s = Inr view" and "wf_view view" and "normal_path path"
    and "resolve_with_permission R s path op = Inr v"
  obtains m where "m \<in> set (mounts view)" and "operation_allowed (mg_permissions m) op"
    and "path_matches_alias (mg_alias m) path" and "path_matches_alias (mg_target m) v" and "normal_path v"
proof (cases "max_by_key (\<lambda>m. length (mg_alias m)) (filter (\<lambda>m. path_matches_alias (mg_alias m) path) (mounts view))")
  case None
  with resolve_with_grant_cases [OF assms(2,3)] assms(1,4) that show ?thesis
    by (simp add: resolve_with_permission_def resolve_with_permission_view_def mount_view_def)
next
  case (Some m)
  from resolve_with_grant_cases [OF assms(2,3)] Some obtain rest where
    r: "path = mg_alias m @ rest" "resolve_with_grant view path = Inr (mg_target m @ rest, m)"
      "VirtualPath_new (mg_target m @ rest) = Inr (mg_target m @ rest)" by auto
  have m: "m \<in> set (mounts view)" "path_matches_alias (mg_alias m) path"
    using max_by_key_Some [OF Some] by auto
  moreover have "v = mg_target m @ rest" "operation_allowed (mg_permissions m) op"
    using assms(1,4) r(2)
    by (auto simp: resolve_with_permission_def resolve_with_permission_view_def mount_view_def split: if_splits)
  moreover have "path_matches_alias (mg_target m) (mg_target m @ rest)"
    using m(2) r(1) by (auto simp: path_matches_alias_def prefix_def)
  ultimately show ?thesis using that VirtualPath_new_Ok [OF r(3)] by blast
qed

lemma normal_path_no_slash: "normal_path v \<Longrightarrow> with_trailing_slash v = v @ ''/''"
  using path_of_not_ends_slash
  by (auto simp: normal_path_def with_trailing_slash_def ends_with_def)

lemma path_matches_alias_trans:
  "path_matches_alias a b \<Longrightarrow> path_matches_alias b c \<Longrightarrow> path_matches_alias a c"
  by (auto simp: path_matches_alias_def prefix_def)

lemma run_scoped_confined:
  assumes "R s = Inr view" and "wf_view view" and "normal_path (op_path op)"
    and "cell (run_scoped now R s op st) p \<noteq> cell st p"
  obtains m where "m \<in> set (mounts view)" and "operation_allowed (mg_permissions m) (op_kind op)"
    and "path_matches_alias (mg_alias m) (op_path op)" and "path_matches_alias (mg_target m) p"
proof (cases "resolve_with_permission R s (op_path op) (op_kind op)")
  case (Inl e)
  with run_scoped_refused assms(4) show ?thesis by metis
next
  case (Inr v)
  from resolved_in_mount [OF assms(1,2,3) Inr] obtain m where
    m: "m \<in> set (mounts view)" "operation_allowed (mg_permissions m) (op_kind op)"
      "path_matches_alias (mg_alias m) (op_path op)" "path_matches_alias (mg_target m) v" "normal_path v" .
  from run_scoped_cell [OF Inr] assms(4) have "path_matches_alias v p"
    by (auto simp: path_matches_alias_def normal_path_no_slash [OF m(5)])
  with m(4) have "path_matches_alias (mg_target m) p" by (rule path_matches_alias_trans)
  with m that show ?thesis by blast
qed

text \<open>Two mount views whose targets do not overlap.\<close>

definition disjoint_views :: "MountView \<Rightarrow> MountView \<Rightarrow> bool" where
  "disjoint_views view view' = (\<forall>m \<in> set (mounts view). \<forall>m' \<in> set (mounts view').
     \<not> path_matches_alias (mg_target m) (mg_target m') \<and> \<not> path_matches_alias (mg_target m') (mg_target m))"

lemma path_matches_alias_iff: "path_matches_alias a p \<longleftrightarrow> prefix (a @ ''/'') (p @ ''/'')"
  by (auto simp: path_matches_alias_def prefix_snoc)

lemma path_matches_alias_overlap:
  "path_matches_alias a p \<Longrightarrow> path_matches_alias b p \<Longrightarrow> path_matches_alias a b \<or> path_matches_alias b a"
  unfolding path_matches_alias_iff by (rule prefix_same_cases)

lemma scoped_get_cell: "(\<And>v. resolve_with_permission R s p OpReadFile = Inr v \<Longrightarrow> cell st' v = cell st v) \<Longrightarrow>
    scoped_get R s p st' = scoped_get R s p st"
  by (auto simp: scoped_get_def scoped_read_def backend_get_def cell_def result_bind_def split: sum.splits)

lemma scoped_tail_cell: "(\<And>v. resolve_with_permission R s p OpTail = Inr v \<Longrightarrow> cell st' v = cell st v) \<Longrightarrow>
    scoped_tail R s p q st' = scoped_tail R s p q st"
  by (auto simp: scoped_tail_def scoped_read_def backend_tail_def log_at_def cell_def result_bind_def split: sum.splits)

text \<open>
  C12: scoped storage operations are confined. Whatever a state-changing call of the scoped
  filesystem alters (an entry, an index, an event log or a sequence counter, at any path) lies
  below the target of a mount of the caller's view that covers the path of the call and grants
  the permission of that operation. As a consequence a scope whose mounts do not overlap with the
  caller's reads the same entries and the same event logs as before.
\<close>

theorem scoped_confined:
  assumes "R s = Ok view" and "wf_view view" and "normal_path (op_path op)"
  shows "(\<forall>p. cell (run_scoped now R s op st) p \<noteq> cell st p \<longrightarrow>
       (\<exists>m \<in> set (mounts view). operation_allowed (mg_permissions m) (op_kind op)
          \<and> path_matches_alias (mg_alias m) (op_path op) \<and> path_matches_alias (mg_target m) p))
    \<and> (\<forall>s' view' p. R s' = Ok view' \<and> wf_view view' \<and> normal_path p \<and> disjoint_views view view' \<longrightarrow>
        scoped_get R s' p (run_scoped now R s op st) = scoped_get R s' p st
        \<and> scoped_tail R s' p from_seq (run_scoped now R s op st) = scoped_tail R s' p from_seq st)"
proof -
  have conf: "\<exists>m \<in> set (mounts view). operation_allowed (mg_permissions m) (op_kind op)
      \<and> path_matches_alias (mg_alias m) (op_path op) \<and> path_matches_alias (mg_target m) p"
    if "cell (run_scoped now R s op st) p \<noteq> cell st p" for p
    using run_scoped_confined [OF assms that] by blast
  have same: "cell (run_scoped now R s op st) v = cell st v"
    if v: "R s' = Ok view'" "wf_view view'" "normal_path p" "resolve_with_permission R s' p k = Inr v"
      and disj: "disjoint_views view view'" for s' view' p k v
  proof (rule ccontr)
    assume "cell (run_scoped now R s op st) v \<noteq> cell st v"
    with conf obtain m where m: "m \<in> set (mounts view)" "path_matches_alias (mg_target m) v" by blast
    obtain m' where "m' \<in> set (mounts view')" "path_matches_alias (mg_target m') v"
      using resolved_in_mount [where R = R and s = s', OF v] by metis
    with m disj path_matches_alias_overlap show False unfolding disjoint_views_def by blast
  qed
  show ?thesis using conf same scoped_get_cell scoped_tail_cell by meson
qed

definition tenant_view :: "string \<Rightarrow> MountView" where
  "tenant_view t = \<lparr>mounts = [\<lparr>mg_alias = ''/workspace'', mg_target = ''/tenants/'' @ t,
     mg_permissions = MountPermissions_read_write_list_delete\<rparr>]\<rparr>"

definition tenant_resolver :: MountViewResolver where
  "tenant_resolver s = Ok (tenant_view (rs_tenant_id s))"

definition tenant_scope :: "string \<Rightarrow> ResourceScope" where
  "tenant_scope t = \<lparr>rs_tenant_id = t, rs_user_id = ''u'', rs_agent_id = None, rs_project_id = None,
     rs_mission_id = None, rs_thread_id = None, rs_invocation_id = 1\<rparr>"

lemma normal_workspace: "normal_path ''/workspace''" "normal_path ''/workspace/x''"
  unfolding normal_path_def
  by (rule exI [of _ "[''workspace'']"], code_simp) (rule exI [of _ "[''workspace'', ''x'']"], code_simp)

lemma tenant_views_wf: "wf_view (tenant_view ''a'')" "wf_view (tenant_view ''b'')"
proof -
  have "VirtualPath_new ''/tenants/a'' = Ok ''/tenants/a''" "VirtualPath_new ''/tenants/b'' = Ok ''/tenants/b''"
    by code_simp+
  then show "wf_view (tenant_view ''a'')" "wf_view (tenant_view ''b'')"
    by (simp_all add: wf_view_def wf_mount_def tenant_view_def MountView_validate_def normal_workspace)
qed

theorem scoped_confined_witness:
  "disjoint_views (tenant_view ''a'') (tenant_view ''b'')
    \<and> scoped_get tenant_resolver (tenant_scope ''a'') ''/workspace/x''
        (run_scoped 0 tenant_resolver (tenant_scope ''a'') (SPut ''/workspace/x'' (Entry_bytes [1]) CasAbsent) InMemoryBackend_new)
      \<noteq> scoped_get tenant_resolver (tenant_scope ''a'') ''/workspace/x'' InMemoryBackend_new
    \<and> scoped_get tenant_resolver (tenant_scope ''b'') ''/workspace/x''
        (run_scoped 0 tenant_resolver (tenant_scope ''a'') (SPut ''/workspace/x'' (Entry_bytes [1]) CasAbsent) InMemoryBackend_new)
      = scoped_get tenant_resolver (tenant_scope ''b'') ''/workspace/x'' InMemoryBackend_new"
proof -
  have disj: "disjoint_views (tenant_view ''a'') (tenant_view ''b'')"
    by (simp add: disjoint_views_def tenant_view_def path_matches_alias_def)
  have view: "tenant_resolver (tenant_scope t) = Ok (tenant_view t)" for t
    by (simp add: tenant_resolver_def tenant_scope_def)
  have "scoped_get tenant_resolver (tenant_scope ''a'') ''/workspace/x''
        (run_scoped 0 tenant_resolver (tenant_scope ''a'') (SPut ''/workspace/x'' (Entry_bytes [1]) CasAbsent) InMemoryBackend_new)
      \<noteq> scoped_get tenant_resolver (tenant_scope ''a'') ''/workspace/x'' InMemoryBackend_new"
    by code_simp
  moreover have "scoped_get tenant_resolver (tenant_scope ''b'') ''/workspace/x''
        (run_scoped 0 tenant_resolver (tenant_scope ''a'') (SPut ''/workspace/x'' (Entry_bytes [1]) CasAbsent) InMemoryBackend_new)
      = scoped_get tenant_resolver (tenant_scope ''b'') ''/workspace/x'' InMemoryBackend_new"
    using scoped_confined [where R = tenant_resolver and s = "tenant_scope ''a''" and view = "tenant_view ''a''"
        and op = "SPut ''/workspace/x'' (Entry_bytes [1]) CasAbsent", THEN conjunct2, rule_format,
        of "tenant_scope ''b''" "tenant_view ''b''" "''/workspace/x''"]
      disj view normal_workspace(2) tenant_views_wf by simp
  ultimately show ?thesis using disj by blast
qed

section \<open>Deletion removes a subtree\<close>

lemma length_filter_same: "length (filter P xs) = length xs \<longleftrightarrow> (\<forall>x \<in> set xs. P x)"
  by (metis filter_True length_filter_less less_irrefl_nat)

lemma hm_retain_same_length:
  "length (hm_retain P m) = length m \<longleftrightarrow> (\<forall>k. hm_get m k \<noteq> None \<longrightarrow> P k)"
  unfolding hm_retain_def length_filter_same hm_get_in_keys by auto

text \<open>
  deletion removes exactly a subtree. After \<open>delete(path)\<close> no entry, event log or sequence
  counter at the path or below it is left, and everything else, siblings whose names share a
  prefix included, is as before. The call reports success exactly when the path or something
  below it held an entry, and \<open>NotFound\<close> otherwise; event logs and counters are swept in
  both cases.
\<close>

theorem delete_exact_subtree:
  assumes "normal_path path" and "backend_delete path st = (r, st')"
  shows "(\<forall>q. hm_get (entries st') q = (if path_matches_alias path q then None else hm_get (entries st) q)
        \<and> hm_get (event_logs st') q = (if path_matches_alias path q then None else hm_get (event_logs st) q)
        \<and> hm_get (sequences st') q = (if path_matches_alias path q then None else hm_get (sequences st) q))
    \<and> indexes st' = indexes st
    \<and> r = (if \<exists>q. path_matches_alias path q \<and> hm_get (entries st) q \<noteq> None then Ok ()
           else Err (FsNotFound path OpDelete))"
proof -
  note slash = normal_path_no_slash [OF assms(1)]
  have r: "r = (if hm_contains (entries st) path
      \<or> \<not> (\<forall>k. hm_get (hm_remove path (entries st)) k \<noteq> None \<longrightarrow> \<not> prefix (path @ ''/'') k)
      then Ok () else Err (FsNotFound path OpDelete))"
    using assms(2) by (simp add: backend_delete_def slash Let_def hm_retain_same_length split: if_splits)
      (metis option.distinct(1))+
  also have "\<dots> = (if \<exists>q. path_matches_alias path q \<and> hm_get (entries st) q \<noteq> None then Ok ()
           else Err (FsNotFound path OpDelete))"
    by (auto simp: hm_simps path_matches_alias_def) (metis option.distinct(1))
  finally show ?thesis
    using assms(2) by (auto simp: backend_delete_def slash Let_def clear_under_def hm_simps path_matches_alias_def split: if_splits)
qed

definition example_entry :: StoredEntry where
  "example_entry = \<lparr>stored_entry = Entry_bytes [7], stored_version = 1, stored_modified = 0\<rparr>"

definition example_fs :: FsState where
  "example_fs = InMemoryBackend_new\<lparr>entries := map (\<lambda>p. (p, example_entry))
     [''/projects/a/b'', ''/projects/a/c/d'', ''/projects/a'', ''/projects/ab'']\<rparr>"

lemma normal_projects: "normal_path ''/projects/a''" "normal_path ''/projects/ab''" "normal_path ''/projects/a/b''"
    "normal_path ''/projects/a/c/d''"
  unfolding normal_path_def
  by (rule exI [of _ "[''projects'', ''a'']"], code_simp) (rule exI [of _ "[''projects'', ''ab'']"], code_simp,
    rule exI [of _ "[''projects'', ''a'', ''b'']"], code_simp, rule exI [of _ "[''projects'', ''a'', ''c'', ''d'']"], code_simp)

theorem delete_exact_subtree_witness:
  "normal_path ''/projects/a''
    \<and> hm_get (entries (snd (backend_delete ''/projects/a'' example_fs))) ''/projects/a/b'' = None
    \<and> hm_get (entries (snd (backend_delete ''/projects/a'' example_fs))) ''/projects/ab'' = Some example_entry
    \<and> fst (backend_delete ''/projects/a'' example_fs) = Ok ()"
proof -
  have "hm_get (entries example_fs) ''/projects/ab'' = Some example_entry"
    "hm_get (entries example_fs) ''/projects/a'' = Some example_entry"
    by (simp_all add: example_fs_def hm_get_def InMemoryBackend_new_def)
  with normal_projects(1) delete_exact_subtree [OF normal_projects(1), of example_fs
      "fst (backend_delete ''/projects/a'' example_fs)" "snd (backend_delete ''/projects/a'' example_fs)"]
  show ?thesis by (auto simp: path_matches_alias_def)
qed

section \<open>Event logs\<close>

text \<open>A log without gaps: the record at position \<open>i\<close> has sequence number \<open>i + 1\<close>.\<close>

definition log_wf :: "EventRecord list \<Rightarrow> bool" where
  "log_wf log = (map (unat \<circ> ev_seq) log = [1..<length log + 1])"

lemma log_wf_Nil [simp]: "log_wf []"
  by (simp add: log_wf_def)

lemma log_wf_last: "log_wf log \<Longrightarrow> log \<noteq> [] \<Longrightarrow> unat (ev_seq (last log)) = length log"
  using last_map [of log "unat \<circ> ev_seq"] by (simp add: log_wf_def) (simp add: Suc_le_eq)

lemma next_seq_wf:
  assumes "log_wf log" and "length log + 1 < 2 ^ 64"
  shows "unat (next_seq log) = length log + 1"
  using assms log_wf_last [OF assms(1)]
  by (cases "log = []") (simp_all add: next_seq_def SeqNo_next_def sat_simps)

lemma push_event_wf: "log_wf log \<Longrightarrow> length log + 1 < 2 ^ 64 \<Longrightarrow> log_wf (push_event b log)"
  using next_seq_wf [of log] by (simp add: push_event_def log_wf_def)

lemma push_events_spec:
  assumes "push_events bs log = (seqs, log')" and "log_wf log" and "length log + length bs < 2 ^ 64"
  shows "log_wf log' \<and> map unat seqs = [length log + 1 ..< length log + 1 + length bs]
    \<and> map ev_payload log' = map ev_payload log @ bs"
  using assms
proof (induction bs arbitrary: log seqs)
  case (Cons b bs)
  then obtain seqs' where p: "push_events bs (push_event b log) = (seqs', log')" "seqs = next_seq log # seqs'"
    by (auto split: prod.splits)
  from Cons.IH [OF p(1) push_event_wf] Cons.prems(2,3) next_seq_wf [OF Cons.prems(2)] p(2)
  show ?case by (simp add: push_event_def upt_rec)
qed simp

lemma log_wf_tail:
  assumes "log_wf log" and "length log < 2 ^ 64" and "k \<le> length log"
  shows "filter (\<lambda>r. of_nat k < ev_seq r) log = drop k log"
proof -
  have k: "unat (of_nat k :: u64) = k"
    using assms(2,3) by (simp add: unat_of_nat)
  have nth: "unat (ev_seq (log ! i)) = i + 1" if "i < length log" for i
    using assms(1) that nth_map [of i log "unat \<circ> ev_seq"] by (simp add: log_wf_def del: upt_Suc)
  have "filter (\<lambda>r. of_nat k < ev_seq r) (take k log) = []"
    by (auto simp: filter_empty_conv in_set_conv_nth word_less_nat_alt k nth)
  moreover have "filter (\<lambda>r. of_nat k < ev_seq r) (drop k log) = drop k log"
    by (auto simp: filter_id_conv in_set_conv_nth word_less_nat_alt k nth)
  ultimately show ?thesis
    by (metis append_self_conv2 append_take_drop_id filter_append)
qed

lemma hm_insert_twice: "hm_insert k v (hm_insert k w m) = hm_insert k v m"
  by (simp add: hm_insert_def)

lemma log_at_append: "log_at (snd (backend_append p b st)) p = push_event b (log_at st p)"
  by (simp add: log_at_def backend_append_def hm_simps Let_def)

lemma append_batch_is_appends:
  "bs \<noteq> [] \<Longrightarrow> snd (backend_append_batch p bs st) = fold (\<lambda>b s. snd (backend_append p b s)) bs st"
proof (induction bs arbitrary: st)
  case (Cons b bs)
  show ?case
  proof (cases "bs = []")
    case True
    then show ?thesis by (simp add: backend_append_batch_def backend_append_def Let_def)
  next
    case False
    have "snd (backend_append_batch p (b # bs) st) = snd (backend_append_batch p bs (snd (backend_append p b st)))"
      using log_at_append [of p b st]
      by (simp add: backend_append_batch_def backend_append_def Let_def hm_insert_twice split: prod.splits)
    with Cons.IH [OF False] show ?thesis by simp
  qed
qed simp

text \<open>
  event logs are gapless and replay completely. Starting from a log numbered 1, 2, 3 and so
  on, a batch append gives its payloads the next numbers in order, leaves a log that is numbered
  in the same way and holds the old payloads followed by the new ones, and equals the same
  payloads appended one by one. Afterwards a reader that has seen the first \<open>k\<close> records gets
  from \<open>tail\<close> exactly the records after them, and from \<open>tail_bounded\<close> the first of those.
\<close>

theorem event_log_gapless:
  assumes "log_wf (log_at st p)" and "length (log_at st p) + length bs < 2 ^ 64"
    and "backend_append_batch p bs st = (r, st')"
    and "k \<le> length (log_at st p) + length bs"
  shows "(\<exists>seqs. r = Ok seqs \<and> map unat seqs = [length (log_at st p) + 1 ..< length (log_at st p) + 1 + length bs])
    \<and> log_wf (log_at st' p)
    \<and> map ev_payload (log_at st' p) = map ev_payload (log_at st p) @ bs
    \<and> (bs \<noteq> [] \<longrightarrow> st' = fold (\<lambda>b s. snd (backend_append p b s)) bs st)
    \<and> backend_tail p (of_nat k) st' = Ok (drop k (log_at st' p))
    \<and> backend_tail_bounded p (of_nat k) n st' = Ok (take n (drop k (log_at st' p)))"
proof -
  obtain seqs log' where e: "push_events bs (log_at st p) = (seqs, log')" by force
  then have st': "r = Ok seqs" "log_at st' p = log'"
    using assms(3) by (auto simp: backend_append_batch_def log_at_def hm_simps)
  note spec = push_events_spec [OF e assms(1,2)]
  then have "length log' = length (log_at st p) + length bs"
    by (metis length_append length_map)
  with spec assms(2,4) st' log_wf_tail [of log' k] append_batch_is_appends [of bs p st] assms(3)
  show ?thesis by (simp add: backend_tail_def backend_tail_bounded_def)
qed

theorem event_log_gapless_witness:
  "log_wf (log_at InMemoryBackend_new ''/events/run'')
    \<and> fst (backend_append_batch ''/events/run'' [[1], [2], [3]] InMemoryBackend_new) = Ok [1, 2, 3]
    \<and> backend_tail ''/events/run'' 1 (snd (backend_append_batch ''/events/run'' [[1], [2], [3]] InMemoryBackend_new))
      = Ok [\<lparr>ev_seq = 2, ev_payload = [2]\<rparr>, \<lparr>ev_seq = 3, ev_payload = [3]\<rparr>]"
proof -
  let ?st = "snd (backend_append_batch ''/events/run'' [[1], [2], [3]] InMemoryBackend_new)"
  have log: "log_at InMemoryBackend_new ''/events/run'' = []" by code_simp
  have "backend_tail ''/events/run'' (of_nat 1) ?st = Ok (drop 1 (log_at ?st ''/events/run''))"
    by (rule event_log_gapless [where st = InMemoryBackend_new and bs = "[[1], [2], [3]]"
        and r = "fst (backend_append_batch ''/events/run'' [[1], [2], [3]] InMemoryBackend_new)",
        THEN conjunct2, THEN conjunct2, THEN conjunct2, THEN conjunct2, THEN conjunct1]) (simp_all add: log)
  moreover have "drop 1 (log_at ?st ''/events/run'') = [\<lparr>ev_seq = 2, ev_payload = [2]\<rparr>, \<lparr>ev_seq = 3, ev_payload = [3]\<rparr>]"
    "fst (backend_append_batch ''/events/run'' [[1], [2], [3]] InMemoryBackend_new) = Ok [1, 2, 3]"
    by code_simp+
  ultimately show ?thesis by (simp add: log)
qed

section \<open>Directory listings\<close>

text \<open>The names the listing loop collects, and their types.\<close>

definition child_type :: "string \<Rightarrow> string set \<Rightarrow> string \<Rightarrow> FileType option" where
  "child_type dir ks n =
    (if n = [] \<or> CHR ''/'' \<in> set n then None
     else if \<exists>k \<in> ks. prefix (dir @ n @ ''/'') k then Some Directory
     else if dir @ n \<in> ks then Some File
     else None)"

lemma first_segment_Directory:
  "CHR ''/'' \<notin> set n \<Longrightarrow> prefix (n @ ''/'') sfx \<longleftrightarrow> first_segment sfx = (n, True)"
  by (induction n arbitrary: sfx; case_tac sfx) (auto simp: first_segment_def split: if_splits)

lemma first_segment_File: "CHR ''/'' \<notin> set n \<Longrightarrow> sfx = n \<longleftrightarrow> first_segment sfx = (n, False)"
  by (auto simp: first_segment_def split: if_splits)

lemma first_segment_no_slash: "first_segment sfx = (h, m) \<Longrightarrow> CHR ''/'' \<notin> set h"
  by (auto simp: first_segment_def split: if_splits dest: set_takeWhileD)

lemma see_child_step:
  assumes "\<And>n. hm_get seen n = child_type dir ks n"
  shows "hm_get (see_child dir k seen) n = child_type dir (insert k ks) n"
proof (cases "strip_prefix dir k")
  case None
  then have "\<not> prefix dir k" by (auto simp: strip_prefix_def split: if_splits)
  then have "\<not> prefix (dir @ x) k" for x by (auto simp: prefix_def)
  moreover from \<open>\<not> prefix dir k\<close> have "dir @ x \<noteq> k" for x by (auto simp: prefix_def)
  ultimately show ?thesis using None assms by (simp add: see_child_def child_type_def)
next
  case (Some sfx)
  then have k: "k = dir @ sfx" by (auto simp: strip_prefix_def prefix_def split: if_splits)
  obtain h m where h: "first_segment sfx = (h, m)" by force
  note nos = first_segment_no_slash [OF h]
  have "prefix (dir @ n @ ''/'') k \<longleftrightarrow> n = h \<and> m" "dir @ n = k \<longleftrightarrow> n = h \<and> \<not> m"
    if "CHR ''/'' \<notin> set n"
    using first_segment_Directory [OF that, of sfx] first_segment_File [OF that, of sfx] k h by auto
  with Some h nos assms show ?thesis
    by (auto simp: see_child_def child_type_def hm_simps split: option.splits if_splits)
qed

lemma see_children: "hm_get (fold (see_child dir) ks []) n = child_type dir (set ks) n"
proof (induction ks arbitrary: n rule: rev_induct)
  case Nil
  then show ?case by (simp add: child_type_def)
next
  case (snoc k ks)
  then show ?case using see_child_step [of "fold (see_child dir) ks []" dir "set ks"] by simp
qed

lemma see_children_wf: "hm_wf (fold (see_child dir) ks [])"
proof (induction ks rule: rev_induct)
  case (snoc k ks)
  then show ?case by (auto simp: see_child_def split: option.splits prod.splits)
qed simp

lemma normal_path_child:
  assumes "normal_path k" and "prefix (path @ ''/'' @ n @ ''/'') k \<or> k = path @ ''/'' @ n"
    and "n \<noteq> []" and "CHR ''/'' \<notin> set n"
  shows "clean_segment n"
proof -
  from assms(1) obtain ps where ps: "ps \<noteq> []" "list_all clean_segment ps" "k = path_of ps"
    by (auto simp: normal_path_def)
  from assms(2) have "n \<in> set (split_on (CHR ''/'') k)"
    using split_on_append [of "CHR ''/''" path n] split_on_append [of "CHR ''/''" path "n @ CHR ''/'' # rest" for rest]
      split_on_append [of "CHR ''/''" n] split_on_no_sep [OF assms(4)]
    by (auto simp: prefix_def)
  with ps assms(3) split_on_path_of [OF ps(1,2)] show ?thesis by (auto simp: list_all_iff)
qed

lemma dir_entries_ok:
  "list_all (\<lambda>(n, t). VirtualPath_new (join_path path n) = Inr (join_path path n)) seen \<Longrightarrow>
    dir_entries path seen = Inr (map (\<lambda>(n, t). \<lparr>de_name = n, de_path = join_path path n, de_type = t\<rparr>) seen)"
  by (induction seen) auto

lemma child_path_valid:
  assumes "VirtualPath_new path = Inr path" and "clean_segment n"
  shows "VirtualPath_new (path @ ''/'' @ n) = Inr (path @ ''/'' @ n)"
proof -
  from VirtualPath_new_Ok [OF assms(1)] obtain root where
    "normal_path path" "root \<in> set VIRTUAL_ROOTS" "path_matches_alias root path" by blast
  with normal_path_join [of path "[n]"] assms(2) path_matches_alias_append [of root path n] show ?thesis
    by (auto intro!: VirtualPath_new_normal)
qed

text \<open>
  a directory listing is the sorted set of direct children. When every stored path is a
  valid virtual path, listing a directory succeeds, its names are strictly ascending, and a name
  is listed with its full path as a directory exactly when something is stored below it, and as a
  file exactly when an entry is stored at it and nothing below it.
\<close>

theorem list_dir_exact:
  assumes "VirtualPath_new path = Ok path" and "\<forall>k \<in> fst ` set (entries st). normal_path k"
  shows "\<exists>es. backend_list_dir path st = Ok es \<and> sorted (map de_name es) \<and> distinct (map de_name es)
    \<and> set es = {\<lparr>de_name = n, de_path = path @ ''/'' @ n, de_type = t\<rparr> | n t.
        child_type (path @ ''/'') (fst ` set (entries st)) n = Some t}"
proof -
  have np: "normal_path path" using VirtualPath_new_Ok [OF assms(1)] by blast
  note slash = normal_path_no_slash [OF np]
  have jp: "join_path path n = path @ ''/'' @ n" for n
    using slash by (auto simp: join_path_def with_trailing_slash_def split: if_splits)
  define seen where "seen = fold (see_child (path @ ''/'')) (map fst (entries st)) []"
  have get: "hm_get seen n = child_type (path @ ''/'') (fst ` set (entries st)) n" for n
    by (simp add: seen_def see_children)
  have wf: "hm_wf seen" by (simp add: seen_def see_children_wf)
  then have mem: "(n, t) \<in> set seen \<longleftrightarrow> child_type (path @ ''/'') (fst ` set (entries st)) n = Some t" for n t
    by (simp add: get [symmetric] hm_get_def hm_wf_def)
  have "clean_segment n" if "(n, t) \<in> set seen" for n t
    using that assms(2) normal_path_child [of _ path n]
    by (auto simp: mem child_type_def split: if_splits)
  then have "list_all (\<lambda>(n, t). VirtualPath_new (join_path path n) = Inr (join_path path n)) seen"
    using child_path_valid [OF assms(1)] by (auto simp: jp list_all_iff)
  note ok = dir_entries_ok [OF this]
  define es where "es = map (\<lambda>(n, t). \<lparr>de_name = n, de_path = join_path path n, de_type = t\<rparr>) seen"
  have "backend_list_dir path st = Ok (sort_key de_name es)"
    using ok by (simp add: backend_list_dir_def slash seen_def es_def)
  moreover have "map de_name es = map fst seen" by (simp add: es_def split_beta)
  with wf have "distinct (map de_name (sort_key de_name es))"
    by (simp add: hm_wf_def) (metis distinct_map distinct_sort set_sort)
  moreover have "set es = {\<lparr>de_name = n, de_path = path @ ''/'' @ n, de_type = t\<rparr> | n t.
        child_type (path @ ''/'') (fst ` set (entries st)) n = Some t}"
    by (auto simp: es_def jp mem [symmetric])
  ultimately show ?thesis
    by (intro exI [of _ "sort_key de_name es"]) simp
qed

theorem list_dir_exact_witness:
  "VirtualPath_new ''/projects/a'' = Ok ''/projects/a''
    \<and> map de_name (projr (backend_list_dir ''/projects/a'' example_fs)) = [''b'', ''c'']
    \<and> (\<exists>es. backend_list_dir ''/projects/a'' example_fs = Ok es \<and> sorted (map de_name es) \<and> distinct (map de_name es))"
proof -
  have "VirtualPath_new ''/projects/a'' = Ok ''/projects/a''"
    "map de_name (projr (backend_list_dir ''/projects/a'' example_fs)) = [''b'', ''c'']"
    by code_simp+
  moreover have "\<forall>k \<in> fst ` set (entries example_fs). normal_path k"
    by (simp add: example_fs_def normal_projects)
  ultimately show ?thesis using list_dir_exact [of "''/projects/a''" example_fs] by blast
qed

end
