(* ===== verification/Cas_Update.thy ===== *)
theory Cas_Update
  imports Filesystem_Laws
begin

text \<open>
  The lock-free read-modify-write loop (\<open>ironclaw_filesystem/src/cas.rs\<close>), on which the run-state,
  approval, lease and budget stores rest. Each attempt reads the record, runs the caller's
  transform, and writes with the read version as the precondition; a lost race is retried, at
  most \<open>FILESYSTEM_CAS_RETRIES\<close> times. Other processes act before the read and between the read
  and the write of every attempt, and the deadline around the loop may strike at any of its
  suspension points; both are data of the model.
\<close>

section \<open>The loop\<close>

definition FILESYSTEM_CAS_RETRIES :: nat where
  "FILESYSTEM_CAS_RETRIES = 32"

record ('s, 't) CasApply =
  cas_snapshot :: 's
  cas_outcome :: 't
  cas_write :: bool

definition CasApply_new :: "'s \<Rightarrow> 't \<Rightarrow> ('s, 't) CasApply" where
  "CasApply_new s t = \<lparr>cas_snapshot = s, cas_outcome = t, cas_write = True\<rparr>"

definition CasApply_no_op :: "'s \<Rightarrow> 't \<Rightarrow> ('s, 't) CasApply" where
  "CasApply_no_op s t = \<lparr>cas_snapshot = s, cas_outcome = t, cas_write = False\<rparr>"

datatype 'e CasUpdateError =
    CasApplyError 'e | CasTimeout | CasRetriesExhausted | CasUnsupported | CasBackend FilesystemError

text \<open>
  What surrounds one attempt: the actions of other processes, and the suspension point at which
  the deadline strikes, if it does. A write that completed when the deadline struck is not undone.
\<close>

datatype CutPoint = CutRead | CutWrite | CutWritten | CutBackoff

record 'w attempt_env =
  before_read :: "'w \<Rightarrow> 'w"
  before_write :: "'w \<Rightarrow> 'w"
  cut :: "CutPoint option"

definition quiet :: "'w attempt_env" where
  "quiet = \<lparr>before_read = id, before_write = id, cut = None\<rparr>"

definition env_head :: "'w attempt_env list \<Rightarrow> 'w attempt_env" where
  "env_head envs = (case envs of [] \<Rightarrow> quiet | e # _ \<Rightarrow> e)"

text \<open>Step 1 of the loop: read and decode.\<close>

definition read_current ::
  "(bytes \<Rightarrow> ('e, 's) result) \<Rightarrow> (FilesystemError, VersionedEntry option) result
    \<Rightarrow> ('e CasUpdateError, 's option \<times> RecordVersion option) result" where
  "read_current decode got =
    (case got of
       Inl e \<Rightarrow> Err (CasBackend e)
     | Inr None \<Rightarrow> Ok (None, None)
     | Inr (Some versioned) \<Rightarrow>
         (case decode (body (ve_entry versioned)) of
            Inl e \<Rightarrow> Err (CasApplyError e)
          | Inr decoded \<Rightarrow> Ok (Some decoded, Some (ve_version versioned))))"

definition cas_of :: "RecordVersion option \<Rightarrow> CasExpectation" where
  "cas_of version = (case version of Some v \<Rightarrow> CasVersion v | None \<Rightarrow> CasAbsent)"

text \<open>Steps 2 and 3: the transform, the two ways not to write, and the encoding.\<close>

definition plan_write ::
  "('s \<Rightarrow> ('e, Entry) result) \<Rightarrow> ('s option \<Rightarrow> ('e, ('s, 't) CasApply) result) \<Rightarrow> 's option
    \<Rightarrow> ('e CasUpdateError, 't \<times> Entry option) result" where
  "plan_write encode apply_f current =
    (case apply_f current of
       Inl e \<Rightarrow> Err (CasApplyError e)
     | Inr a \<Rightarrow>
         if \<not> cas_write a then Ok (cas_outcome a, None)
         else if current = Some (cas_snapshot a) then Ok (cas_outcome a, None)
         else case encode (cas_snapshot a) of
           Inl e \<Rightarrow> Err (CasApplyError e)
         | Inr entry \<Rightarrow> Ok (cas_outcome a, Some entry))"

text \<open>One attempt; \<open>None\<close> when the write lost the race.\<close>

definition cas_attempt ::
  "('w \<Rightarrow> (FilesystemError, VersionedEntry option) result)
    \<Rightarrow> (Entry \<Rightarrow> CasExpectation \<Rightarrow> 'w \<Rightarrow> (FilesystemError, RecordVersion) result \<times> 'w)
    \<Rightarrow> (bytes \<Rightarrow> ('e, 's) result) \<Rightarrow> ('s \<Rightarrow> ('e, Entry) result)
    \<Rightarrow> ('s option \<Rightarrow> ('e, ('s, 't) CasApply) result)
    \<Rightarrow> 'w attempt_env \<Rightarrow> 'w \<Rightarrow> ('e CasUpdateError, 't) result option \<times> 'w" where
  "cas_attempt get put decode encode apply_f env w =
    (let w1 = before_read env w in
     if cut env = Some CutRead then (Some (Err CasTimeout), w1)
     else case read_current decode (get w1) of
       Inl e \<Rightarrow> (Some (Err e), w1)
     | Inr (current, version) \<Rightarrow>
         (case plan_write encode apply_f current of
            Inl e \<Rightarrow> (Some (Err e), w1)
          | Inr (out, None) \<Rightarrow> (Some (Ok out), w1)
          | Inr (out, Some entry) \<Rightarrow>
              (let w2 = before_write env w1 in
               if cut env = Some CutWrite then (Some (Err CasTimeout), w2)
               else case put entry (cas_of version) w2 of
                 (Inr _, w3) \<Rightarrow> (Some (if cut env = Some CutWritten then Err CasTimeout else Ok out), w3)
               | (Inl (FsVersionMismatch _ _ _), w3) \<Rightarrow> (None, w3)
               | (Inl (FsUnsupported _ OpWriteFile), w3) \<Rightarrow> (Some (Err CasUnsupported), w3)
               | (Inl e, w3) \<Rightarrow> (Some (Err (CasBackend e)), w3))))"

fun cas_update_loop ::
  "('w \<Rightarrow> (FilesystemError, VersionedEntry option) result)
    \<Rightarrow> (Entry \<Rightarrow> CasExpectation \<Rightarrow> 'w \<Rightarrow> (FilesystemError, RecordVersion) result \<times> 'w)
    \<Rightarrow> (bytes \<Rightarrow> ('e, 's) result) \<Rightarrow> ('s \<Rightarrow> ('e, Entry) result)
    \<Rightarrow> ('s option \<Rightarrow> ('e, ('s, 't) CasApply) result)
    \<Rightarrow> nat \<Rightarrow> 'w attempt_env list \<Rightarrow> 'w \<Rightarrow> ('e CasUpdateError, 't) result \<times> 'w" where
  "cas_update_loop get put decode encode apply_f 0 envs w = (Err CasRetriesExhausted, w)"
| "cas_update_loop get put decode encode apply_f (Suc n) envs w =
    (case cas_attempt get put decode encode apply_f (env_head envs) w of
       (Some r, w') \<Rightarrow> (r, w')
     | (None, w') \<Rightarrow>
         if cut (env_head envs) = Some CutBackoff \<and> n \<noteq> 0 then (Err CasTimeout, w')
         else cas_update_loop get put decode encode apply_f n (tl envs) w')"

text \<open>The capability gate in front of the loop.\<close>

definition cas_update ::
  "BackendCapabilities
    \<Rightarrow> ('w \<Rightarrow> (FilesystemError, VersionedEntry option) result)
    \<Rightarrow> (Entry \<Rightarrow> CasExpectation \<Rightarrow> 'w \<Rightarrow> (FilesystemError, RecordVersion) result \<times> 'w)
    \<Rightarrow> (bytes \<Rightarrow> ('e, 's) result) \<Rightarrow> ('s \<Rightarrow> ('e, Entry) result)
    \<Rightarrow> ('s option \<Rightarrow> ('e, ('s, 't) CasApply) result)
    \<Rightarrow> 'w attempt_env list \<Rightarrow> 'w \<Rightarrow> ('e CasUpdateError, 't) result \<times> 'w" where
  "cas_update capabilities get put decode encode apply_f envs w =
    (if capabilities_known capabilities \<and> \<not> capabilities_support_cas capabilities
     then (Err CasUnsupported, w)
     else cas_update_loop get put decode encode apply_f FILESYSTEM_CAS_RETRIES envs w)"

section \<open>What the loop relies on, and what it promises\<close>

text \<open>
  Interference between two moments keeps versions meaningful: an unchanged version is an
  unchanged record.
\<close>

definition version_tells ::
  "('w \<Rightarrow> (FilesystemError, VersionedEntry option) result) \<Rightarrow> 'w \<Rightarrow> 'w \<Rightarrow> bool" where
  "version_tells get w w' =
    (case (get w, get w') of
       (Inr (Some ve), Inr (Some ve')) \<Rightarrow> ve_version ve' = ve_version ve \<longrightarrow> ve' = ve
     | (Inr _, Inl _) \<Rightarrow> False
     | _ \<Rightarrow> True)"

text \<open>The state after the first \<open>k\<close> actions of the other processes.\<close>

definition after_others :: "'w attempt_env list \<Rightarrow> nat \<Rightarrow> 'w \<Rightarrow> 'w" where
  "after_others envs k w =
    fold (\<lambda>f. f) (take k (concat (map (\<lambda>e. [before_read e, before_write e]) envs))) w"

lemma after_others_step [simp]:
  "before_read (env_head envs) w = after_others envs 1 w"
  "before_write (env_head envs) (after_others envs 1 w) = after_others envs 2 w"
  "after_others (tl envs) k (after_others envs 2 w) = after_others envs (Suc (Suc k)) w"
  by (cases envs; simp add: after_others_def env_head_def quiet_def numeral_2_eq_2)+

text \<open>
  The contract of a versioned record: a conditional write succeeds only against the state it
  names, does so whenever that state holds and the directory check passes, and a refused write
  changes nothing.
\<close>

locale cas_file =
  fixes get :: "'w \<Rightarrow> (FilesystemError, VersionedEntry option) result"
    and put :: "Entry \<Rightarrow> CasExpectation \<Rightarrow> 'w \<Rightarrow> (FilesystemError, RecordVersion) result \<times> 'w"
  assumes put_version: "put e (CasVersion v) w = (Inr v', w') \<Longrightarrow> get w = Inr r \<Longrightarrow>
      \<exists>ve. r = Some ve \<and> ve_version ve = v"
    and put_absent: "put e CasAbsent w = (Inr v', w') \<Longrightarrow> get w = Inr r \<Longrightarrow> r = None"
    and put_refused: "put e c w = (Inl x, w') \<Longrightarrow> w' = w"
    and put_matching: "get w = Inr r \<Longrightarrow>
      put e (cas_of (map_option ve_version r)) w \<noteq> (Inl (FsVersionMismatch p a b), w')"
begin

lemma read_current_version:
  "read_current decode (get w) = Inr (current, version) \<Longrightarrow>
    \<exists>r. get w = Inr r \<and> version = map_option ve_version r"
  by (auto simp: read_current_def split: sum.splits option.splits)

lemma put_at_read_state:
  assumes "version_tells get w w2" and "read_current decode (get w) = Inr (current, version)"
    and "put entry (cas_of version) w2 = (Inr v, w')"
  shows "get w2 = get w"
proof -
  from read_current_version [OF assms(2)] obtain r
    where r: "get w = Inr r" "version = map_option ve_version r" by blast
  with assms(1) obtain r' where r': "get w2 = Inr r'"
    by (cases "get w2") (auto simp: version_tells_def split: option.splits)
  show ?thesis
  proof (cases r)
    case None
    with r assms(3) put_absent [OF _ r'] r' show ?thesis by (simp add: cas_of_def)
  next
    case (Some ve)
    with r assms(3) have "put entry (CasVersion (ve_version ve)) w2 = (Inr v, w')"
      by (simp add: cas_of_def)
    from put_version [OF this r'] obtain ve' where "r' = Some ve'" "ve_version ve' = ve_version ve" by blast
    with assms(1) r r' Some show ?thesis by (auto simp: version_tells_def)
  qed
qed

lemma attempt_ok:
  assumes "version_tells get (before_read env w) (before_write env (before_read env w))"
    and "cas_attempt get put decode encode apply_f env w = (Some (Inr out), w')"
  shows "\<exists>w0 \<in> {before_read env w, before_write env (before_read env w)}.
    cas_attempt get put decode encode apply_f quiet w0 = (Some (Inr out), w')"
proof -
  let ?w1 = "before_read env w"
  from assms(2) obtain current version plan where
    r: "read_current decode (get ?w1) = Inr (current, version)"
    and p: "plan_write encode apply_f current = Inr (out, plan)"
    by (auto simp: cas_attempt_def Let_def
        split: if_splits sum.splits prod.splits option.splits FilesystemError.splits FilesystemOperation.splits)
  show ?thesis
  proof (cases plan)
    case None
    with assms(2) r p show ?thesis by (auto simp: cas_attempt_def quiet_def Let_def split: if_splits)
  next
    case (Some entry)
    with assms(2) r p obtain v where
      put: "put entry (cas_of version) (before_write env ?w1) = (Inr v, w')"
      by (auto simp: cas_attempt_def Let_def
          split: if_splits sum.splits prod.splits FilesystemError.splits FilesystemOperation.splits)
    with put_at_read_state [OF assms(1) r put] r p Some show ?thesis
      by (intro bexI [of _ "before_write env ?w1"]) (auto simp: cas_attempt_def quiet_def Let_def)
  qed
qed

lemma attempt_error:
  assumes "cas_attempt get put decode encode apply_f env w = (Some (Inl e), w')" and "e \<noteq> CasTimeout"
  shows "w' \<in> {before_read env w, before_write env (before_read env w)}"
  using assms put_refused by (auto simp: cas_attempt_def Let_def
      split: if_splits sum.splits prod.splits option.splits FilesystemError.splits FilesystemOperation.splits)

lemma attempt_lost:
  assumes "cas_attempt get put decode encode apply_f env w = (None, w')"
  shows "w' = before_write env (before_read env w) \<and> get w' \<noteq> get (before_read env w)"
proof -
  let ?w1 = "before_read env w"
  from assms obtain current version out entry p a b where
    r: "read_current decode (get ?w1) = Inr (current, version)"
    and put: "put entry (cas_of version) (before_write env ?w1) = (Inl (FsVersionMismatch p a b), w')"
    by (auto simp: cas_attempt_def Let_def
        split: if_splits sum.splits prod.splits option.splits FilesystemError.splits FilesystemOperation.splits)
  from read_current_version [OF r] put_refused [OF put] put put_matching show ?thesis
    by fastforce
qed

lemma attempt_not_exhausted:
  "cas_attempt get put decode encode apply_f env w \<noteq> (Some (Inl CasRetriesExhausted), w')"
  by (auto simp: cas_attempt_def read_current_def plan_write_def Let_def
      split: if_splits sum.splits prod.splits option.splits FilesystemError.splits FilesystemOperation.splits)

lemma loop_ok:
  assumes "\<forall>i < n. version_tells get (after_others envs (2 * i + 1) w) (after_others envs (2 * i + 2) w)"
    and "cas_update_loop get put decode encode apply_f n envs w = (Inr out, w')"
  shows "\<exists>k. cas_attempt get put decode encode apply_f quiet (after_others envs k w) = (Some (Inr out), w')"
  using assms
proof (induction n arbitrary: envs w)
  case (Suc n)
  show ?case
  proof (cases "cas_attempt get put decode encode apply_f (env_head envs) w")
    case (Pair r w1)
    show ?thesis
    proof (cases r)
      case None
      with Pair attempt_lost have w1: "w1 = after_others envs 2 w" by (metis after_others_step(1,2))
      with Suc.prems(2) Pair None have "cas_update_loop get put decode encode apply_f n (tl envs) w1 = (Inr out, w')"
        by (simp split: if_splits)
      moreover have "\<forall>i < n. version_tells get (after_others (tl envs) (2 * i + 1) w1) (after_others (tl envs) (2 * i + 2) w1)"
        using Suc.prems(1) by (auto simp: w1 dest: spec [of _ "Suc _"])
      ultimately obtain k where
        "cas_attempt get put decode encode apply_f quiet (after_others (tl envs) k w1) = (Some (Inr out), w')"
        using Suc.IH by blast
      then show ?thesis by (auto simp: w1)
    next
      case (Some r')
      with Suc.prems Pair have "cas_attempt get put decode encode apply_f (env_head envs) w = (Some (Inr out), w')"
        by simp
      moreover have "version_tells get (after_others envs 1 w) (after_others envs 2 w)"
        using Suc.prems(1) [rule_format, of 0] by (simp add: numeral_2_eq_2)
      ultimately show ?thesis using attempt_ok by (metis after_others_step(1,2) insert_iff singletonD)
    qed
  qed
qed simp

lemma loop_error:
  assumes "cas_update_loop get put decode encode apply_f n envs w = (Inl e, w')" and "e \<noteq> CasTimeout"
  shows "\<exists>k. w' = after_others envs k w"
  using assms
proof (induction n arbitrary: envs w)
  case 0
  then show ?case by (auto simp: after_others_def intro: exI [of _ 0])
next
  case (Suc n)
  show ?case
  proof (cases "cas_attempt get put decode encode apply_f (env_head envs) w")
    case (Pair r w1)
    show ?thesis
    proof (cases r)
      case None
      with Pair attempt_lost have w1: "w1 = after_others envs 2 w" by (metis after_others_step(1,2))
      with Suc.prems Pair None have "cas_update_loop get put decode encode apply_f n (tl envs) w1 = (Inl e, w')"
        by (simp split: if_splits)
      with Suc.IH Suc.prems(2) show ?thesis by (metis after_others_step(3) w1)
    next
      case (Some r')
      with Suc.prems Pair have "cas_attempt get put decode encode apply_f (env_head envs) w = (Some (Inl e), w')"
        by simp
      with attempt_error Suc.prems(2) show ?thesis by (metis after_others_step(1,2) insert_iff singletonD)
    qed
  qed
qed

lemma attempt_timeout:
  assumes "version_tells get (before_read env w) (before_write env (before_read env w))"
    and "cas_attempt get put decode encode apply_f env w = (Some (Inl CasTimeout), w')"
  shows "\<exists>w0 \<in> {before_read env w, before_write env (before_read env w)}.
    w' = w0 \<or> (\<exists>out. cas_attempt get put decode encode apply_f quiet w0 = (Some (Inr out), w'))"
proof (cases "cut env = Some CutWritten")
  case True
  with assms(2) have "\<exists>out. cas_attempt get put decode encode apply_f (env\<lparr>cut := None\<rparr>) w = (Some (Inr out), w')"
    by (auto simp: cas_attempt_def read_current_def plan_write_def Let_def
        split: if_splits sum.splits prod.splits option.splits FilesystemError.splits FilesystemOperation.splits)
  then obtain out where
    "cas_attempt get put decode encode apply_f (env\<lparr>cut := None\<rparr>) w = (Some (Inr out), w')" by blast
  from attempt_ok [OF _ this] assms(1) show ?thesis by auto
next
  case False
  with assms(2) have "w' \<in> {before_read env w, before_write env (before_read env w)}"
    by (auto simp: cas_attempt_def read_current_def plan_write_def Let_def
        split: if_splits sum.splits prod.splits option.splits FilesystemError.splits FilesystemOperation.splits)
  then show ?thesis by blast
qed

lemma loop_timeout:
  assumes "\<forall>i < n. version_tells get (after_others envs (2 * i + 1) w) (after_others envs (2 * i + 2) w)"
    and "cas_update_loop get put decode encode apply_f n envs w = (Inl CasTimeout, w')"
  shows "\<exists>k. w' = after_others envs k w
    \<or> (\<exists>out. cas_attempt get put decode encode apply_f quiet (after_others envs k w) = (Some (Inr out), w'))"
  using assms
proof (induction n arbitrary: envs w)
  case (Suc n)
  obtain r w1 where r: "cas_attempt get put decode encode apply_f (env_head envs) w = (r, w1)" by force
  show ?case
  proof (cases r)
    case None
    with r attempt_lost have w1: "w1 = after_others envs 2 w" by (metis after_others_step(1,2))
    have "\<forall>i < n. version_tells get (after_others (tl envs) (2 * i + 1) w1) (after_others (tl envs) (2 * i + 2) w1)"
      using Suc.prems(1) by (auto simp: w1 dest: spec [of _ "Suc _"])
    with Suc.IH [of "tl envs" w1] Suc.prems(2) r None show ?thesis
      by (auto simp: w1 split: if_splits)
  next
    case (Some r')
    with Suc.prems r have "cas_attempt get put decode encode apply_f (env_head envs) w = (Some (Inl CasTimeout), w')"
      by simp
    moreover have "version_tells get (after_others envs 1 w) (after_others envs 2 w)"
      using Suc.prems(1) [rule_format, of 0] by (simp add: numeral_2_eq_2)
    ultimately show ?thesis using attempt_timeout by (metis after_others_step(1,2) insert_iff singletonD)
  qed
qed simp

lemma attempt_apply_error:
  assumes "cas_attempt get put decode encode apply_f env w = (Some (Inl (CasApplyError e)), w')"
  shows "w' = before_read env w \<and> cas_attempt get put decode encode apply_f quiet w' = (Some (Inl (CasApplyError e)), w')"
  using assms by (auto simp: cas_attempt_def quiet_def Let_def
      split: if_splits sum.splits prod.splits option.splits FilesystemError.splits FilesystemOperation.splits)

lemma loop_apply_error:
  assumes "cas_update_loop get put decode encode apply_f n envs w = (Inl (CasApplyError e), w')"
  shows "\<exists>k. w' = after_others envs k w
    \<and> cas_attempt get put decode encode apply_f quiet w' = (Some (Inl (CasApplyError e)), w')"
  using assms
proof (induction n arbitrary: envs w)
  case (Suc n)
  obtain r w1 where r: "cas_attempt get put decode encode apply_f (env_head envs) w = (r, w1)" by force
  show ?case
  proof (cases r)
    case None
    with r attempt_lost have w1: "w1 = after_others envs 2 w" by (metis after_others_step(1,2))
    with Suc.IH [of "tl envs" w1] Suc.prems r None show ?thesis by (auto split: if_splits)
  next
    case (Some r')
    with Suc.prems r have "cas_attempt get put decode encode apply_f (env_head envs) w
      = (Some (Inl (CasApplyError e)), w')" by simp
    from attempt_apply_error [OF this] show ?thesis by (metis after_others_step(1))
  qed
qed simp

text \<open>What an undisturbed attempt does.\<close>

lemma quiet_ok:
  assumes "cas_attempt get put decode encode apply_f quiet w = (Some (Inr out), w')"
  obtains (unwritten) cur ver a where "read_current decode (get w) = Inr (cur, ver)" "apply_f cur = Inr a"
      "out = cas_outcome a" "w' = w" "\<not> cas_write a \<or> cur = Some (cas_snapshot a)"
  | (written) cur ver a entry v where "read_current decode (get w) = Inr (cur, ver)" "apply_f cur = Inr a"
      "out = cas_outcome a" "cas_write a" "encode (cas_snapshot a) = Inr entry" "put entry (cas_of ver) w = (Inr v, w')"
proof -
  from assms obtain cur ver plan where
    r: "read_current decode (get w) = Inr (cur, ver)" and p: "plan_write encode apply_f cur = Inr (out, plan)"
    by (auto simp: cas_attempt_def quiet_def Let_def
        split: if_splits sum.splits prod.splits option.splits FilesystemError.splits FilesystemOperation.splits)
  from p obtain a where a: "apply_f cur = Inr a" "out = cas_outcome a"
    by (auto simp: plan_write_def split: sum.splits if_splits)
  show thesis
  proof (cases plan)
    case None
    with assms r p a unwritten show ?thesis
      by (auto simp: cas_attempt_def quiet_def plan_write_def Let_def split: if_splits sum.splits)
  next
    case (Some entry)
    with p a have "cas_write a" "encode (cas_snapshot a) = Inr entry"
      by (auto simp: plan_write_def split: if_splits sum.splits)
    moreover from assms r p Some have "\<exists>v. put entry (cas_of ver) w = (Inr v, w')"
      by (auto simp: cas_attempt_def quiet_def Let_def
          split: if_splits sum.splits prod.splits FilesystemError.splits FilesystemOperation.splits)
    ultimately show ?thesis using written [OF r a] by blast
  qed
qed

lemma loop_exhausted:
  assumes "cas_update_loop get put decode encode apply_f n envs w = (Inl CasRetriesExhausted, w')" and "i < n"
  shows "get (after_others envs (2 * i + 2) w) \<noteq> get (after_others envs (2 * i + 1) w)"
  using assms
proof (induction n arbitrary: envs w i)
  case (Suc n)
  obtain r w1 where r: "cas_attempt get put decode encode apply_f (env_head envs) w = (r, w1)" by force
  with Suc.prems(1) have None: "r = None" by (cases r) (auto simp: attempt_not_exhausted)
  with r attempt_lost have w1: "w1 = after_others envs 2 w" "get w1 \<noteq> get (after_others envs 1 w)"
    by (metis after_others_step(1,2))+
  from Suc.prems(1) r None have "cas_update_loop get put decode encode apply_f n (tl envs) w1 = (Inl CasRetriesExhausted, w')"
    by (simp split: if_splits)
  from Suc.IH [OF this] Suc.prems(2) w1 show ?case by (cases i) (auto simp flip: numeral_2_eq_2)
qed simp

end

section \<open>The scoped filesystem honours the contract\<close>

lemma resolve_with_permission_agree:
  "resolve_with_permission resolver s path op1 = Inr v \<Longrightarrow>
   resolve_with_permission resolver s path op2 = Inr v' \<Longrightarrow> v' = v"
  by (auto simp: resolve_with_permission_def resolve_with_permission_view_def mount_view_def result_bind_def
      split: sum.splits if_splits)

lemma resolve_with_permission_no_mismatch:
  "resolve_with_permission resolver s path op \<noteq> Inl (FsVersionMismatch p a b)"
  by (auto simp: resolve_with_permission_def resolve_with_permission_view_def mount_view_def result_bind_def
      split: sum.splits if_splits)

lemma check_cas_Ok:
  "check_cas path (CasVersion v) cur = Inr u \<longleftrightarrow> cur = Some v"
  "check_cas path CasAbsent cur = Inr u \<longleftrightarrow> cur = None"
  by (cases cur; simp)+

lemma check_cas_cas_of: "check_cas path (cas_of cur) cur = Inr ()"
  by (cases cur) (simp_all add: cas_of_def)

lemma scoped_get_Ok:
  "scoped_get resolver s path st = Inr r \<Longrightarrow>
    \<exists>v. resolve_with_permission resolver s path OpReadFile = Inr v \<and> backend_get v st = Inr r"
  by (auto simp: scoped_get_def scoped_read_def result_bind_def split: sum.splits)

lemma backend_get_version: "backend_get v st = Inr r \<Longrightarrow> version_at st v = map_option ve_version r"
  by (cases "hm_get (entries st) v") (auto simp: backend_get_def version_at_def)

interpretation scoped: cas_file "scoped_get resolver s path" "scoped_put now resolver s path" for now resolver s path
proof
  fix e v w v' w' r
  assume "scoped_put now resolver s path e (CasVersion v) w = (Inr v', w')" "scoped_get resolver s path w = Inr r"
  then show "\<exists>ve. r = Some ve \<and> ve_version ve = v"
    by (auto simp: scoped_put_def scoped_write_def backend_put_def check_cas_Ok Let_def
        split: sum.splits if_splits dest!: scoped_get_Ok backend_get_version dest: resolve_with_permission_agree)
next
  fix e w v' w' r
  assume "scoped_put now resolver s path e CasAbsent w = (Inr v', w')" "scoped_get resolver s path w = Inr r"
  then show "r = None"
    by (auto simp: scoped_put_def scoped_write_def backend_put_def check_cas_Ok Let_def
        split: sum.splits if_splits dest!: scoped_get_Ok backend_get_version dest: resolve_with_permission_agree)
next
  fix e c w x w'
  assume "scoped_put now resolver s path e c w = (Inl x, w')"
  then show "w' = w"
    by (auto simp: scoped_put_def scoped_write_def backend_put_def Let_def split: sum.splits if_splits)
next
  fix w r e p a b w'
  assume "scoped_get resolver s path w = Inr r"
  then show "scoped_put now resolver s path e (cas_of (map_option ve_version r)) w \<noteq> (Inl (FsVersionMismatch p a b), w')"
    by (auto simp: scoped_put_def scoped_write_def backend_put_def check_cas_cas_of resolve_with_permission_no_mismatch Let_def
        split: sum.splits if_splits dest!: scoped_get_Ok backend_get_version dest: resolve_with_permission_agree)
qed

section \<open>Atomicity\<close>

lemma cas_update_quiet:
  assumes "cas_attempt get put decode encode apply_f quiet w = (Some (Inr out), w')"
    and "\<not> (capabilities_known capabilities \<and> \<not> capabilities_support_cas capabilities)"
  shows "cas_update capabilities get put decode encode apply_f [] w = (Inr out, w')"
  using assms by (auto simp: cas_update_def FILESYSTEM_CAS_RETRIES_def env_head_def numeral_eq_Suc)

text \<open>
  C13: the read-modify-write helper is atomic. Provided no other process replaces the record by
  another one of the same version between a read and the write of the same attempt, a successful
  update equals one undisturbed update at some moment of the interleaving: what was written was
  computed from the record it replaced. A failed update other than a timeout has written nothing;
  a timed-out one has either written nothing or done exactly such an undisturbed update. Giving up
  after the retry bound happens only if in every single attempt another process changed the
  record in between.
\<close>

theorem cas_update_atomic:
  assumes "\<forall>i < FILESYSTEM_CAS_RETRIES. version_tells (scoped_get R s path)
      (after_others envs (2 * i + 1) st) (after_others envs (2 * i + 2) st)"
    and "cas_update caps (scoped_get R s path) (scoped_put now R s path) decode encode apply_f envs st = (r, st')"
  shows "(case r of
      Inr out \<Rightarrow> \<exists>k. cas_update caps (scoped_get R s path) (scoped_put now R s path) decode encode apply_f []
          (after_others envs k st) = (Ok out, st')
    | Inl CasTimeout \<Rightarrow> \<exists>k. st' = after_others envs k st
        \<or> (\<exists>out. cas_update caps (scoped_get R s path) (scoped_put now R s path) decode encode apply_f []
            (after_others envs k st) = (Ok out, st'))
    | Inl CasRetriesExhausted \<Rightarrow> (\<exists>k. st' = after_others envs k st)
        \<and> (\<forall>i < FILESYSTEM_CAS_RETRIES. scoped_get R s path (after_others envs (2 * i + 2) st)
              \<noteq> scoped_get R s path (after_others envs (2 * i + 1) st))
    | Inl _ \<Rightarrow> \<exists>k. st' = after_others envs k st)"
proof (cases "capabilities_known caps \<and> \<not> capabilities_support_cas caps")
  case True
  with assms(2) have "r = Inl CasUnsupported" "st' = after_others envs 0 st"
    by (simp_all add: cas_update_def after_others_def)
  then show ?thesis by auto
next
  case False
  then have loop: "cas_update_loop (scoped_get R s path) (scoped_put now R s path) decode encode apply_f
      FILESYSTEM_CAS_RETRIES envs st = (r, st')"
    using assms(2) by (simp add: cas_update_def split: if_splits)
  show ?thesis
  proof (cases r)
    case (Inr out)
    from scoped.loop_ok [OF assms(1) loop [unfolded Inr]] cas_update_quiet [OF _ False] Inr show ?thesis
      by fastforce
  next
    case (Inl e)
    have other: "\<exists>k. st' = after_others envs k st" if "e \<noteq> CasTimeout"
      using scoped.loop_error loop Inl that by blast
    have time: "\<exists>k. st' = after_others envs k st
        \<or> (\<exists>out. cas_update caps (scoped_get R s path) (scoped_put now R s path) decode encode apply_f []
            (after_others envs k st) = (Ok out, st'))" if "e = CasTimeout"
      using scoped.loop_timeout [OF assms(1) loop [unfolded Inl that]] cas_update_quiet [OF _ False] by fastforce
    have "\<forall>i < FILESYSTEM_CAS_RETRIES. scoped_get R s path (after_others envs (2 * i + 2) st)
              \<noteq> scoped_get R s path (after_others envs (2 * i + 1) st)" if "e = CasRetriesExhausted"
      using scoped.loop_exhausted loop Inl that by blast
    with other time Inl show ?thesis by (cases e) simp_all
  qed
qed

text \<open>A log of bytes at one path, extended by a caller and by another process.\<close>

definition example_start :: FsState where
  "example_start = InMemoryBackend_new\<lparr>entries := [(''/tenants/a/x'',
     \<lparr>stored_entry = Entry_bytes [1], stored_version = 1, stored_modified = 0\<rparr>)]\<rparr>"

definition example_append :: "bytes option \<Rightarrow> (string, (bytes, unit) CasApply) result" where
  "example_append current = Ok (CasApply_new (unwrap_or [] current @ [2]) ())"

definition example_update :: "FsState attempt_env list \<Rightarrow> FsState \<Rightarrow> (string CasUpdateError, unit) result \<times> FsState" where
  "example_update envs st = cas_update in_memory_full (scoped_get tenant_resolver (tenant_scope ''a'') ''/workspace/x'')
     (scoped_put 0 tenant_resolver (tenant_scope ''a'') ''/workspace/x'') Inr (\<lambda>b. Ok (Entry_bytes b)) example_append envs st"

definition stored_bytes :: "FsState \<Rightarrow> bytes option" where
  "stored_bytes st = map_option (\<lambda>e. body (stored_entry e)) (hm_get (entries st) ''/tenants/a/x'')"

definition other_appends :: "FsState attempt_env" where
  "other_appends = quiet\<lparr>before_write := \<lambda>st. snd (backend_append_file 0 ''/tenants/a/x'' [9] st)\<rparr>"

definition other_recreates :: "FsState attempt_env" where
  "other_recreates = quiet\<lparr>before_write := \<lambda>st. snd (backend_put 0 ''/tenants/a/x'' (Entry_bytes [9]) CasAbsent
     (snd (backend_delete ''/tenants/a/x'' st)))\<rparr>"

lemma version_tells_refl: "version_tells get w w"
  by (auto simp: version_tells_def split: sum.splits option.splits)

theorem cas_update_atomic_witness:
  "fst (example_update [other_appends] example_start) = Ok ()
    \<and> stored_bytes (snd (example_update [other_appends] example_start)) = Some [1, 9, 2]
    \<and> (\<exists>k. example_update [] (after_others [other_appends] k example_start)
          = (Ok (), snd (example_update [other_appends] example_start)))"
proof -
  have r: "fst (example_update [other_appends] example_start) = Ok ()"
    "stored_bytes (snd (example_update [other_appends] example_start)) = Some [1, 9, 2]"
    by code_simp+
  have "version_tells (scoped_get tenant_resolver (tenant_scope ''a'') ''/workspace/x'')
      (after_others [other_appends] (2 * i + 1) example_start) (after_others [other_appends] (2 * i + 2) example_start)" for i
  proof (cases i)
    case 0
    have "version_tells (scoped_get tenant_resolver (tenant_scope ''a'') ''/workspace/x'')
      (after_others [other_appends] 1 example_start) (after_others [other_appends] 2 example_start)" by code_simp
    with 0 show ?thesis by (simp add: numeral_2_eq_2)
  next
    case (Suc j)
    then show ?thesis by (simp add: after_others_def version_tells_refl)
  qed
  then have "\<forall>i < FILESYSTEM_CAS_RETRIES. version_tells (scoped_get tenant_resolver (tenant_scope ''a'') ''/workspace/x'')
      (after_others [other_appends] (2 * i + 1) example_start) (after_others [other_appends] (2 * i + 2) example_start)"
    by blast
  from cas_update_atomic [OF this, of in_memory_full 0 Inr "\<lambda>b. Ok (Entry_bytes b)" example_append
      "Ok ()" "snd (example_update [other_appends] example_start)"] r
  show ?thesis by (simp add: example_update_def prod_eq_iff)
qed


end
