(* ===== verification/Run_State.thy ===== *)
theory Run_State
  imports Cas_Update
begin

text \<open>
  Invocation run state and approval requests (\<open>ironclaw_run_state/src/lib.rs\<close>): the records, the
  in-memory stores behind their mutex, and the filesystem stores, whose every mutation is one
  call of \<open>cas_update\<close> on the record's path. Serialization (serde_json) and the rendering of
  identifiers (uuid) are parameters.
\<close>

section \<open>Records and errors\<close>

datatype RunStatus = Running | BlockedApproval | BlockedAuth | RunCompleted | RunFailed

record RunRecord =
  run_invocation_id :: InvocationId
  run_capability_id :: CapabilityId
  run_scope :: ResourceScope
  run_actor :: "UserId option"
  run_status :: RunStatus
  run_approval_request_id :: "ApprovalRequestId option"
  run_error_kind :: "string option"

record RunStart =
  start_invocation_id :: InvocationId
  start_capability_id :: CapabilityId
  start_scope :: ResourceScope
  start_actor :: "UserId option"

datatype ApprovalStatus = ApPending | ApApproved | ApDenied | ApExpired | ApDiscarded

record 'd ApprovalRecord =
  apr_scope :: ResourceScope
  apr_request :: "'d ApprovalRequest"
  apr_status :: ApprovalStatus

text \<open>
  Where the source stores the rendering of an underlying error, the model keeps the error.
\<close>

datatype RunStateError =
    UnknownInvocation InvocationId
  | InvocationAlreadyExists InvocationId
  | UnknownApprovalRequest ApprovalRequestId
  | ApprovalRequestAlreadyExists ApprovalRequestId
  | ApprovalNotPending ApprovalRequestId ApprovalStatus
  | RsInvalidPath HostApiError
  | RsFilesystem FilesystemError
  | RsSerialization string
  | RsDeserialization string
  | RsBackendHost HostApiError
  | RsBackend string

type_synonym RunStateKey = "owner_key \<times> InvocationId"
type_synonym ApprovalKey = "owner_key \<times> ApprovalRequestId"

definition new_run :: "RunStart \<Rightarrow> RunRecord" where
  "new_run s = \<lparr>run_invocation_id = start_invocation_id s, run_capability_id = start_capability_id s,
     run_scope = start_scope s, run_actor = start_actor s, run_status = Running,
     run_approval_request_id = None, run_error_kind = None\<rparr>"

text \<open>The four updates of a run record.\<close>

definition set_blocked_approval :: "'d ApprovalRequest \<Rightarrow> RunRecord \<Rightarrow> RunRecord" where
  "set_blocked_approval approval r =
    r\<lparr>run_status := BlockedApproval, run_approval_request_id := Some (ar_id approval), run_error_kind := None\<rparr>"

definition set_blocked_auth :: "string \<Rightarrow> RunRecord \<Rightarrow> RunRecord" where
  "set_blocked_auth ekind r =
    r\<lparr>run_status := BlockedAuth, run_approval_request_id := None, run_error_kind := Some ekind\<rparr>"

definition set_completed :: "RunRecord \<Rightarrow> RunRecord" where
  "set_completed r = r\<lparr>run_status := RunCompleted, run_approval_request_id := None, run_error_kind := None\<rparr>"

definition set_failed :: "string \<Rightarrow> RunRecord \<Rightarrow> RunRecord" where
  "set_failed ekind r =
    r\<lparr>run_status := RunFailed, run_approval_request_id := None, run_error_kind := Some ekind\<rparr>"

section \<open>The in-memory stores\<close>

type_synonym RunStore = "(RunStateKey, RunRecord) hashmap"
type_synonym 'd ApprovalStore = "(ApprovalKey, 'd ApprovalRecord) hashmap"

definition runs_update ::
  "ResourceScope \<Rightarrow> InvocationId \<Rightarrow> (RunRecord \<Rightarrow> RunRecord) \<Rightarrow> RunStore
    \<Rightarrow> (RunStateError, RunRecord) result \<times> RunStore" where
  "runs_update s i f records =
    (case hm_get records (owner_of s, i) of
       None \<Rightarrow> (Err (UnknownInvocation i), records)
     | Some r \<Rightarrow> (Ok (f r), hm_insert (owner_of s, i) (f r) records))"

definition runs_start :: "RunStart \<Rightarrow> RunStore \<Rightarrow> (RunStateError, RunRecord) result \<times> RunStore" where
  "runs_start start records =
    (let r = new_run start; key = (owner_of (run_scope r), run_invocation_id r) in
     if hm_contains records key then (Err (InvocationAlreadyExists (run_invocation_id r)), records)
     else (Ok r, hm_insert key r records))"

definition runs_block_approval :: "ResourceScope \<Rightarrow> InvocationId \<Rightarrow> 'd ApprovalRequest \<Rightarrow> RunStore
    \<Rightarrow> (RunStateError, RunRecord) result \<times> RunStore" where
  "runs_block_approval s i approval = runs_update s i (set_blocked_approval approval)"

definition runs_block_auth :: "ResourceScope \<Rightarrow> InvocationId \<Rightarrow> string \<Rightarrow> RunStore
    \<Rightarrow> (RunStateError, RunRecord) result \<times> RunStore" where
  "runs_block_auth s i ekind = runs_update s i (set_blocked_auth ekind)"

definition runs_complete :: "ResourceScope \<Rightarrow> InvocationId \<Rightarrow> RunStore
    \<Rightarrow> (RunStateError, RunRecord) result \<times> RunStore" where
  "runs_complete s i = runs_update s i set_completed"

definition runs_fail :: "ResourceScope \<Rightarrow> InvocationId \<Rightarrow> string \<Rightarrow> RunStore
    \<Rightarrow> (RunStateError, RunRecord) result \<times> RunStore" where
  "runs_fail s i ekind = runs_update s i (set_failed ekind)"

definition runs_get :: "ResourceScope \<Rightarrow> InvocationId \<Rightarrow> RunStore \<Rightarrow> RunRecord option" where
  "runs_get s i records = hm_get records (owner_of s, i)"

definition runs_for_scope :: "ResourceScope \<Rightarrow> RunStore \<Rightarrow> RunRecord list" where
  "runs_for_scope s records =
    sort_key run_invocation_id (filter (\<lambda>r. same_scope_owner (run_scope r) s) (hm_values records))"

definition approvals_update_status :: "ResourceScope \<Rightarrow> ApprovalRequestId \<Rightarrow> ApprovalStatus \<Rightarrow> 'd ApprovalStore
    \<Rightarrow> (RunStateError, 'd ApprovalRecord) result \<times> 'd ApprovalStore" where
  "approvals_update_status s i status records =
    (case hm_get records (owner_of s, i) of
       None \<Rightarrow> (Err (UnknownApprovalRequest i), records)
     | Some r \<Rightarrow>
         if apr_status r \<noteq> ApPending then (Err (ApprovalNotPending i (apr_status r)), records)
         else (Ok (r\<lparr>apr_status := status\<rparr>), hm_insert (owner_of s, i) (r\<lparr>apr_status := status\<rparr>) records))"

definition approvals_save_pending :: "ResourceScope \<Rightarrow> 'd ApprovalRequest \<Rightarrow> 'd ApprovalStore
    \<Rightarrow> (RunStateError, 'd ApprovalRecord) result \<times> 'd ApprovalStore" where
  "approvals_save_pending s request records =
    (let r = \<lparr>apr_scope = s, apr_request = request, apr_status = ApPending\<rparr>;
         key = (owner_of s, ar_id request)
     in if hm_contains records key then (Err (ApprovalRequestAlreadyExists (ar_id request)), records)
        else (Ok r, hm_insert key r records))"

definition approvals_get :: "ResourceScope \<Rightarrow> ApprovalRequestId \<Rightarrow> 'd ApprovalStore \<Rightarrow> 'd ApprovalRecord option" where
  "approvals_get s i records = opt_filter (\<lambda>r. apr_status r \<noteq> ApDiscarded) (hm_get records (owner_of s, i))"

definition approvals_approve :: "ResourceScope \<Rightarrow> ApprovalRequestId \<Rightarrow> 'd ApprovalStore
    \<Rightarrow> (RunStateError, 'd ApprovalRecord) result \<times> 'd ApprovalStore" where
  "approvals_approve s i = approvals_update_status s i ApApproved"

definition approvals_deny :: "ResourceScope \<Rightarrow> ApprovalRequestId \<Rightarrow> 'd ApprovalStore
    \<Rightarrow> (RunStateError, 'd ApprovalRecord) result \<times> 'd ApprovalStore" where
  "approvals_deny s i = approvals_update_status s i ApDenied"

definition approvals_discard_pending :: "ResourceScope \<Rightarrow> ApprovalRequestId \<Rightarrow> 'd ApprovalStore
    \<Rightarrow> (RunStateError, 'd ApprovalRecord) result \<times> 'd ApprovalStore" where
  "approvals_discard_pending s i records =
    (case hm_get records (owner_of s, i) of
       None \<Rightarrow> (Err (UnknownApprovalRequest i), records)
     | Some r \<Rightarrow>
         if apr_status r \<noteq> ApPending then (Err (ApprovalNotPending i (apr_status r)), records)
         else (Ok r, hm_insert (owner_of s, i) (r\<lparr>apr_status := ApDiscarded\<rparr>) records))"

definition approvals_for_scope :: "ResourceScope \<Rightarrow> 'd ApprovalStore \<Rightarrow> 'd ApprovalRecord list" where
  "approvals_for_scope s records =
    sort_key (\<lambda>r. ar_id (apr_request r))
      (filter (\<lambda>r. same_scope_owner (apr_scope r) s \<and> apr_status r \<noteq> ApDiscarded) (hm_values records))"

section \<open>Paths of the filesystem stores\<close>

definition RUN_STATE_PREFIX :: string where
  "RUN_STATE_PREFIX = ''/run-state''"

definition APPROVALS_PREFIX :: string where
  "APPROVALS_PREFIX = ''/approvals''"

definition axis :: "string \<Rightarrow> string option \<Rightarrow> string" where
  "axis tag v = (case v of None \<Rightarrow> [] | Some x \<Rightarrow> ''/'' @ tag @ ''/'' @ x)"

definition scope_owner_alias_string :: "string \<Rightarrow> ResourceScope \<Rightarrow> string" where
  "scope_owner_alias_string base s =
    base @ axis ''agents'' (rs_agent_id s) @ axis ''projects'' (rs_project_id s)
      @ axis ''missions'' (rs_mission_id s) @ axis ''threads'' (rs_thread_id s)"

definition scoped_path :: "string \<Rightarrow> (RunStateError, ScopedPath) result" where
  "scoped_path raw = (case ScopedPath_new raw of Inl e \<Rightarrow> Err (RsInvalidPath e) | Inr p \<Rightarrow> Ok p)"

definition run_records_root_string :: "ResourceScope \<Rightarrow> string" where
  "run_records_root_string s = scope_owner_alias_string RUN_STATE_PREFIX s @ ''/runs''"

definition run_records_root :: "ResourceScope \<Rightarrow> (RunStateError, ScopedPath) result" where
  "run_records_root s = scoped_path (run_records_root_string s)"

definition run_record_path :: "(uuid \<Rightarrow> string) \<Rightarrow> ResourceScope \<Rightarrow> InvocationId \<Rightarrow> (RunStateError, ScopedPath) result" where
  "run_record_path show_uuid s i = scoped_path (run_records_root_string s @ ''/'' @ show_uuid i @ ''.json'')"

definition approval_records_root_string :: "ResourceScope \<Rightarrow> string" where
  "approval_records_root_string s = scope_owner_alias_string APPROVALS_PREFIX s"

definition approval_records_root :: "ResourceScope \<Rightarrow> (RunStateError, ScopedPath) result" where
  "approval_records_root s = scoped_path (approval_records_root_string s)"

definition approval_record_path :: "(uuid \<Rightarrow> string) \<Rightarrow> ResourceScope \<Rightarrow> ApprovalRequestId \<Rightarrow> (RunStateError, ScopedPath) result" where
  "approval_record_path show_uuid s i = scoped_path (approval_records_root_string s @ ''/'' @ show_uuid i @ ''.json'')"

definition join_scoped :: "ScopedPath \<Rightarrow> string \<Rightarrow> (RunStateError, ScopedPath) result" where
  "join_scoped base leaf = scoped_path (trim_end_matches (CHR ''/'') base @ ''/'' @ leaf)"

section \<open>The filesystem stores\<close>

text \<open>
  What a call depends on besides its arguments: the backend's advertised capabilities, the mount
  resolver, the clock, the rendering of identifiers, the serializer of the record type, and the
  other processes.
\<close>

record 'r fs_env =
  fe_capabilities :: BackendCapabilities
  fe_resolver :: MountViewResolver
  fe_now :: instant
  fe_show_uuid :: "uuid \<Rightarrow> string"
  fe_serialize :: "'r \<Rightarrow> (string, bytes) result"
  fe_deserialize :: "bytes \<Rightarrow> (string, 'r) result"
  fe_others :: "FsState attempt_env list"

definition RUN_STATE_RECORD_KIND :: string where
  "RUN_STATE_RECORD_KIND = ''run_state_record''"

definition APPROVAL_RECORD_KIND :: string where
  "APPROVAL_RECORD_KIND = ''approval_record''"

definition serialize_pretty :: "'r fs_env \<Rightarrow> 'r \<Rightarrow> (RunStateError, bytes) result" where
  "serialize_pretty env r = (case fe_serialize env r of Inl e \<Rightarrow> Err (RsSerialization e) | Inr b \<Rightarrow> Ok b)"

definition deserialize :: "'r fs_env \<Rightarrow> bytes \<Rightarrow> (RunStateError, 'r) result" where
  "deserialize env b = (case fe_deserialize env b of Inl e \<Rightarrow> Err (RsDeserialization e) | Inr r \<Rightarrow> Ok r)"

definition record_entry :: "string \<Rightarrow> 'r fs_env \<Rightarrow> 'r \<Rightarrow> (RunStateError, Entry) result" where
  "record_entry kind env r =
    result_bind (serialize_pretty env r) (\<lambda>b.
      case RecordKind_new kind of
        Inl e \<Rightarrow> Err (RsBackendHost e)
      | Inr k \<Rightarrow> Ok ((Entry_bytes b)\<lparr>content_type := ''application/json'', entry_kind := Some k\<rparr>))"

fun map_cas_error :: "RunStateError CasUpdateError \<Rightarrow> RunStateError" where
  "map_cas_error (CasApplyError e) = e"
| "map_cas_error CasTimeout = RsBackend ''filesystem CAS retries exhausted''"
| "map_cas_error CasRetriesExhausted = RsBackend ''filesystem CAS retries exhausted''"
| "map_cas_error CasUnsupported = RsBackend ''backend does not support versioned compare-and-swap''"
| "map_cas_error (CasBackend e) = RsFilesystem e"

definition store_cas ::
  "string \<Rightarrow> 'r fs_env \<Rightarrow> ResourceScope \<Rightarrow> (RunStateError, ScopedPath) result
    \<Rightarrow> ('r option \<Rightarrow> (RunStateError, ('r, 'r) CasApply) result) \<Rightarrow> FsState
    \<Rightarrow> (RunStateError, 'r) result \<times> FsState" where
  "store_cas kind env s path apply_f st =
    (case path of
       Inl e \<Rightarrow> (Err e, st)
     | Inr p \<Rightarrow>
         (case cas_update (fe_capabilities env) (scoped_get (fe_resolver env) s p)
             (scoped_put (fe_now env) (fe_resolver env) s p) (deserialize env) (record_entry kind env)
             apply_f (fe_others env) st of
            (Inl e, st') \<Rightarrow> (Err (map_cas_error e), st')
          | (Inr r, st') \<Rightarrow> (Ok r, st')))"

definition apply_update ::
  "RunRecord fs_env \<Rightarrow> ResourceScope \<Rightarrow> InvocationId \<Rightarrow> (RunRecord \<Rightarrow> RunRecord) \<Rightarrow> FsState
    \<Rightarrow> (RunStateError, RunRecord) result \<times> FsState" where
  "apply_update env s i mutate st =
    store_cas RUN_STATE_RECORD_KIND env s (run_record_path (fe_show_uuid env) s i) (\<lambda>current.
      case current of
        None \<Rightarrow> Err (UnknownInvocation i)
      | Some r \<Rightarrow>
          if \<not> same_scope_owner (run_scope r) s then Err (UnknownInvocation i)
          else Ok (CasApply_new (mutate r) (mutate r))) st"

definition fs_runs_start :: "RunRecord fs_env \<Rightarrow> RunStart \<Rightarrow> FsState \<Rightarrow> (RunStateError, RunRecord) result \<times> FsState" where
  "fs_runs_start env start st =
    store_cas RUN_STATE_RECORD_KIND env (start_scope start)
      (run_record_path (fe_show_uuid env) (start_scope start) (start_invocation_id start)) (\<lambda>current.
      if current \<noteq> None then Err (InvocationAlreadyExists (start_invocation_id start))
      else Ok (CasApply_new (new_run start) (new_run start))) st"

definition fs_runs_block_approval :: "RunRecord fs_env \<Rightarrow> ResourceScope \<Rightarrow> InvocationId \<Rightarrow> 'd ApprovalRequest \<Rightarrow> FsState
    \<Rightarrow> (RunStateError, RunRecord) result \<times> FsState" where
  "fs_runs_block_approval env s i approval = apply_update env s i (set_blocked_approval approval)"

definition fs_runs_block_auth :: "RunRecord fs_env \<Rightarrow> ResourceScope \<Rightarrow> InvocationId \<Rightarrow> string \<Rightarrow> FsState
    \<Rightarrow> (RunStateError, RunRecord) result \<times> FsState" where
  "fs_runs_block_auth env s i ekind = apply_update env s i (set_blocked_auth ekind)"

definition fs_runs_complete :: "RunRecord fs_env \<Rightarrow> ResourceScope \<Rightarrow> InvocationId \<Rightarrow> FsState
    \<Rightarrow> (RunStateError, RunRecord) result \<times> FsState" where
  "fs_runs_complete env s i = apply_update env s i set_completed"

definition fs_runs_fail :: "RunRecord fs_env \<Rightarrow> ResourceScope \<Rightarrow> InvocationId \<Rightarrow> string \<Rightarrow> FsState
    \<Rightarrow> (RunStateError, RunRecord) result \<times> FsState" where
  "fs_runs_fail env s i ekind = apply_update env s i (set_failed ekind)"

text \<open>\<open>read_versioned\<close> of both stores; \<open>owner\<close> selects the scope stored in a record.\<close>

definition read_versioned ::
  "('r \<Rightarrow> ResourceScope) \<Rightarrow> 'r fs_env \<Rightarrow> ResourceScope \<Rightarrow> (RunStateError, ScopedPath) result \<Rightarrow> FsState
    \<Rightarrow> (RunStateError, ('r \<times> RecordVersion) option) result" where
  "read_versioned owner env s path st =
    result_bind path (\<lambda>p.
      case scoped_get (fe_resolver env) s p st of
        Inl e \<Rightarrow> Err (RsFilesystem e)
      | Inr None \<Rightarrow> Ok None
      | Inr (Some v) \<Rightarrow> result_bind (deserialize env (body (ve_entry v))) (\<lambda>r.
          if same_scope_owner (owner r) s then Ok (Some (r, ve_version v)) else Ok None))"

definition fs_runs_get :: "RunRecord fs_env \<Rightarrow> ResourceScope \<Rightarrow> InvocationId \<Rightarrow> FsState
    \<Rightarrow> (RunStateError, RunRecord option) result" where
  "fs_runs_get env s i st =
    result_bind (read_versioned run_scope env s (run_record_path (fe_show_uuid env) s i) st)
      (\<lambda>x. Ok (map_option fst x))"

text \<open>The loop over a listing; every child goes through the scoped read again.\<close>

fun read_listed ::
  "('r \<Rightarrow> bool) \<Rightarrow> 'r fs_env \<Rightarrow> ResourceScope \<Rightarrow> ScopedPath \<Rightarrow> FsState \<Rightarrow> DirEntry list
    \<Rightarrow> (RunStateError, 'r list) result" where
  "read_listed keep env s root st [] = Ok []"
| "read_listed keep env s root st (e # es) =
    (if ends_with ''.json'' (de_name e) then
       result_bind (join_scoped root (de_name e)) (\<lambda>child.
         case scoped_get (fe_resolver env) s child st of
           Inl x \<Rightarrow> Err (RsFilesystem x)
         | Inr None \<Rightarrow> read_listed keep env s root st es
         | Inr (Some v) \<Rightarrow> result_bind (deserialize env (body (ve_entry v))) (\<lambda>r.
             result_bind (read_listed keep env s root st es) (\<lambda>rs. Ok (if keep r then r # rs else rs))))
     else read_listed keep env s root st es)"

definition list_records ::
  "('r \<Rightarrow> bool) \<Rightarrow> 'r fs_env \<Rightarrow> ResourceScope \<Rightarrow> (RunStateError, ScopedPath) result \<Rightarrow> FsState
    \<Rightarrow> (RunStateError, 'r list) result" where
  "list_records keep env s root st =
    result_bind root (\<lambda>p.
      case scoped_list_dir (fe_resolver env) s p st of
        Inl (FsNotFound _ _) \<Rightarrow> Ok []
      | Inl e \<Rightarrow> Err (RsFilesystem e)
      | Inr es \<Rightarrow> read_listed keep env s p st es)"

definition fs_runs_for_scope :: "RunRecord fs_env \<Rightarrow> ResourceScope \<Rightarrow> FsState
    \<Rightarrow> (RunStateError, RunRecord list) result" where
  "fs_runs_for_scope env s st =
    result_bind (list_records (\<lambda>r. same_scope_owner (run_scope r) s) env s (run_records_root s) st)
      (\<lambda>rs. Ok (sort_key run_invocation_id rs))"

text \<open>The transform of \<open>update_status\<close> and \<open>discard_pending\<close>: the checks on the freshly read record.\<close>

definition pending_record :: "ResourceScope \<Rightarrow> ApprovalRequestId \<Rightarrow> 'd ApprovalRecord option
    \<Rightarrow> (RunStateError, 'd ApprovalRecord) result" where
  "pending_record s i current =
    (case current of
       None \<Rightarrow> Err (UnknownApprovalRequest i)
     | Some r \<Rightarrow>
         if \<not> same_scope_owner (apr_scope r) s then Err (UnknownApprovalRequest i)
         else if apr_status r \<noteq> ApPending then Err (ApprovalNotPending i (apr_status r))
         else Ok r)"

definition fs_update_status :: "'d ApprovalRecord fs_env \<Rightarrow> ResourceScope \<Rightarrow> ApprovalRequestId \<Rightarrow> ApprovalStatus \<Rightarrow> FsState
    \<Rightarrow> (RunStateError, 'd ApprovalRecord) result \<times> FsState" where
  "fs_update_status env s i status st =
    store_cas APPROVAL_RECORD_KIND env s (approval_record_path (fe_show_uuid env) s i) (\<lambda>current.
      result_bind (pending_record s i current)
        (\<lambda>r. Ok (CasApply_new (r\<lparr>apr_status := status\<rparr>) (r\<lparr>apr_status := status\<rparr>)))) st"

definition fs_save_pending :: "'d ApprovalRecord fs_env \<Rightarrow> ResourceScope \<Rightarrow> 'd ApprovalRequest \<Rightarrow> FsState
    \<Rightarrow> (RunStateError, 'd ApprovalRecord) result \<times> FsState" where
  "fs_save_pending env s request st =
    (let r = \<lparr>apr_scope = s, apr_request = request, apr_status = ApPending\<rparr> in
     store_cas APPROVAL_RECORD_KIND env s (approval_record_path (fe_show_uuid env) s (ar_id request)) (\<lambda>current.
       if current \<noteq> None then Err (ApprovalRequestAlreadyExists (ar_id request)) else Ok (CasApply_new r r)) st)"

definition fs_approvals_get :: "'d ApprovalRecord fs_env \<Rightarrow> ResourceScope \<Rightarrow> ApprovalRequestId \<Rightarrow> FsState
    \<Rightarrow> (RunStateError, 'd ApprovalRecord option) result" where
  "fs_approvals_get env s i st =
    result_bind (read_versioned apr_scope env s (approval_record_path (fe_show_uuid env) s i) st)
      (\<lambda>x. Ok (opt_filter (\<lambda>r. apr_status r \<noteq> ApDiscarded) (map_option fst x)))"

definition fs_approve :: "'d ApprovalRecord fs_env \<Rightarrow> ResourceScope \<Rightarrow> ApprovalRequestId \<Rightarrow> FsState
    \<Rightarrow> (RunStateError, 'd ApprovalRecord) result \<times> FsState" where
  "fs_approve env s i = fs_update_status env s i ApApproved"

definition fs_deny :: "'d ApprovalRecord fs_env \<Rightarrow> ResourceScope \<Rightarrow> ApprovalRequestId \<Rightarrow> FsState
    \<Rightarrow> (RunStateError, 'd ApprovalRecord) result \<times> FsState" where
  "fs_deny env s i = fs_update_status env s i ApDenied"

definition fs_discard_pending :: "'d ApprovalRecord fs_env \<Rightarrow> ResourceScope \<Rightarrow> ApprovalRequestId \<Rightarrow> FsState
    \<Rightarrow> (RunStateError, 'd ApprovalRecord) result \<times> FsState" where
  "fs_discard_pending env s i st =
    store_cas APPROVAL_RECORD_KIND env s (approval_record_path (fe_show_uuid env) s i) (\<lambda>current.
      result_bind (pending_record s i current) (\<lambda>r. Ok (CasApply_new (r\<lparr>apr_status := ApDiscarded\<rparr>) r))) st"

definition fs_approvals_for_scope :: "'d ApprovalRecord fs_env \<Rightarrow> ResourceScope \<Rightarrow> FsState
    \<Rightarrow> (RunStateError, 'd ApprovalRecord list) result" where
  "fs_approvals_for_scope env s st =
    result_bind (list_records (\<lambda>r. same_scope_owner (apr_scope r) s \<and> apr_status r \<noteq> ApDiscarded) env s
        (approval_records_root s) st)
      (\<lambda>rs. Ok (sort_key (\<lambda>r. ar_id (apr_request r)) rs))"

section \<open>Approvals are settled once\<close>

text \<open>The calls on an approval store, as data.\<close>

datatype 'd ApprovalOp =
    OSave ResourceScope "'d ApprovalRequest"
  | OApprove ResourceScope ApprovalRequestId
  | ODeny ResourceScope ApprovalRequestId
  | ODiscard ResourceScope ApprovalRequestId

text \<open>
  The contract of an approval store. \<open>lookup\<close> is the stored record, tombstones included;
  \<open>settle\<close> is \<open>approve\<close> or \<open>deny\<close>, by the status it writes.
\<close>

locale approval_store =
  fixes lookup :: "'s \<Rightarrow> ResourceScope \<Rightarrow> ApprovalRequestId \<Rightarrow> 'd ApprovalRecord option"
    and save :: "ResourceScope \<Rightarrow> 'd ApprovalRequest \<Rightarrow> 's \<Rightarrow> (RunStateError, 'd ApprovalRecord) result \<times> 's"
    and settle :: "ResourceScope \<Rightarrow> ApprovalRequestId \<Rightarrow> ApprovalStatus \<Rightarrow> 's
      \<Rightarrow> (RunStateError, 'd ApprovalRecord) result \<times> 's"
    and discard :: "ResourceScope \<Rightarrow> ApprovalRequestId \<Rightarrow> 's \<Rightarrow> (RunStateError, 'd ApprovalRecord) result \<times> 's"
  assumes lookup_owner: "owner_of sc = owner_of sc' \<Longrightarrow> lookup s sc i = lookup s sc' i"
    and save_taken: "lookup s sc (ar_id q) \<noteq> None \<Longrightarrow> save sc q s = (Inl (ApprovalRequestAlreadyExists (ar_id q)), s)"
    and save_new: "lookup s sc (ar_id q) = None \<Longrightarrow>
      fst (save sc q s) = Inr \<lparr>apr_scope = sc, apr_request = q, apr_status = ApPending\<rparr>
      \<and> lookup (snd (save sc q s)) sc' i' = (if (owner_of sc', i') = (owner_of sc, ar_id q)
          then Some \<lparr>apr_scope = sc, apr_request = q, apr_status = ApPending\<rparr> else lookup s sc' i')"
    and settle_unknown: "lookup s sc i = None \<Longrightarrow> settle sc i st s = (Inl (UnknownApprovalRequest i), s)"
    and settle_closed: "lookup s sc i = Some r \<Longrightarrow> apr_status r \<noteq> ApPending \<Longrightarrow>
      settle sc i st s = (Inl (ApprovalNotPending i (apr_status r)), s)"
    and settle_pending: "lookup s sc i = Some r \<Longrightarrow> apr_status r = ApPending \<Longrightarrow>
      fst (settle sc i st s) = Inr (r\<lparr>apr_status := st\<rparr>)
      \<and> lookup (snd (settle sc i st s)) sc' i' = (if (owner_of sc', i') = (owner_of sc, i)
          then Some (r\<lparr>apr_status := st\<rparr>) else lookup s sc' i')"
    and discard_unknown: "lookup s sc i = None \<Longrightarrow> discard sc i s = (Inl (UnknownApprovalRequest i), s)"
    and discard_closed: "lookup s sc i = Some r \<Longrightarrow> apr_status r \<noteq> ApPending \<Longrightarrow>
      discard sc i s = (Inl (ApprovalNotPending i (apr_status r)), s)"
    and discard_pending: "lookup s sc i = Some r \<Longrightarrow> apr_status r = ApPending \<Longrightarrow>
      fst (discard sc i s) = Inr r
      \<and> lookup (snd (discard sc i s)) sc' i' = (if (owner_of sc', i') = (owner_of sc, i)
          then Some (r\<lparr>apr_status := ApDiscarded\<rparr>) else lookup s sc' i')"
begin

fun exec :: "'d ApprovalOp \<Rightarrow> 's \<Rightarrow> (RunStateError, 'd ApprovalRecord) result \<times> 's" where
  "exec (OSave sc q) s = save sc q s"
| "exec (OApprove sc i) s = settle sc i ApApproved s"
| "exec (ODeny sc i) s = settle sc i ApDenied s"
| "exec (ODiscard sc i) s = discard sc i s"

lemma settled_exec:
  assumes "lookup s sc i = Some r" and "apr_status r \<noteq> ApPending"
  shows "lookup (snd (exec op s)) sc i = Some r"
proof -
  have "lookup (snd (settle sc' i' st s)) sc i = Some r" for sc' i' st
    using assms settle_unknown [of s sc' i'] settle_closed [of s sc' i'] settle_pending [of s sc' i' _ st sc i]
      lookup_owner [of sc sc' s]
    by (cases "lookup s sc' i'"; cases "apr_status (the (lookup s sc' i')) = ApPending") auto
  moreover have "lookup (snd (save sc' q s)) sc i = Some r" for sc' q
    using assms save_taken [of s sc' q] save_new [of s sc' q sc i] lookup_owner [of sc sc' s]
    by (cases "lookup s sc' (ar_id q)") auto
  moreover have "lookup (snd (discard sc' i' s)) sc i = Some r" for sc' i'
    using assms discard_unknown [of s sc' i'] discard_closed [of s sc' i'] discard_pending [of s sc' i' _ sc i]
      lookup_owner [of sc sc' s]
    by (cases "lookup s sc' i'"; cases "apr_status (the (lookup s sc' i')) = ApPending") auto
  ultimately show ?thesis by (cases op) auto
qed

lemma settled_forever:
  assumes "lookup s sc i = Some r" and "apr_status r \<noteq> ApPending"
  shows "lookup (fold (\<lambda>op s. snd (exec op s)) ops s) sc i = Some r"
  using assms by (induction ops arbitrary: s) (auto simp: settled_exec)

lemma settled_refuses:
  assumes "lookup s sc i = Some r" and "apr_status r \<noteq> ApPending" and "owner_of sc' = owner_of sc"
  shows "settle sc' i st s = (Inl (ApprovalNotPending i (apr_status r)), s)"
    and "discard sc' i s = (Inl (ApprovalNotPending i (apr_status r)), s)"
    and "ar_id q = i \<Longrightarrow> save sc' q s = (Inl (ApprovalRequestAlreadyExists i), s)"
  using assms settle_closed discard_closed save_taken lookup_owner [OF assms(3)] by auto

end

lemma hm_get_owner_insert: "hm_get (hm_insert (owner_of a, i) r m) (owner_of b, j)
    = (if owner_of b = owner_of a \<and> j = i then Some r else hm_get m (owner_of b, j))"
  by (simp add: hm_simps)

interpretation mem_approvals: approval_store "\<lambda>s sc i. hm_get s (owner_of sc, i)" approvals_save_pending
    approvals_update_status approvals_discard_pending
  by unfold_locales (auto simp: approvals_save_pending_def approvals_update_status_def approvals_discard_pending_def
      hm_get_owner_insert hm_contains_iff Let_def)

fun approvals_exec :: "'d ApprovalOp \<Rightarrow> 'd ApprovalStore \<Rightarrow> (RunStateError, 'd ApprovalRecord) result \<times> 'd ApprovalStore" where
  "approvals_exec (OSave sc q) s = approvals_save_pending sc q s"
| "approvals_exec (OApprove sc i) s = approvals_approve sc i s"
| "approvals_exec (ODeny sc i) s = approvals_deny sc i s"
| "approvals_exec (ODiscard sc i) s = approvals_discard_pending sc i s"

definition approvals_run :: "'d ApprovalOp list \<Rightarrow> 'd ApprovalStore \<Rightarrow> 'd ApprovalStore" where
  "approvals_run ops s = fold (\<lambda>op s. snd (approvals_exec op s)) ops s"

text \<open>The status a settling call leaves, with the record it is about.\<close>

fun settles :: "'d ApprovalOp \<Rightarrow> (ResourceScope \<times> ApprovalRequestId \<times> ApprovalStatus) option" where
  "settles (OSave sc q) = None"
| "settles (OApprove sc i) = Some (sc, i, ApApproved)"
| "settles (ODeny sc i) = Some (sc, i, ApDenied)"
| "settles (ODiscard sc i) = Some (sc, i, ApDiscarded)"

lemma approvals_exec_eq: "approvals_exec op s = mem_approvals.exec op s"
  by (cases op) (simp_all add: approvals_approve_def approvals_deny_def)

lemma settles_exec:
  assumes "settles op = Some (sc, i, status)" and "is_ok (fst (approvals_exec op s))"
  shows "\<exists>r. hm_get s (owner_of sc, i) = Some r \<and> apr_status r = ApPending
    \<and> hm_get (snd (approvals_exec op s)) (owner_of sc, i) = Some (r\<lparr>apr_status := status\<rparr>)"
  using assms by (cases op) (auto simp: approvals_approve_def approvals_deny_def approvals_update_status_def
      approvals_discard_pending_def hm_get_owner_insert split: option.splits if_splits)

text \<open>
  C14: an approval request is settled at most once. A call that approves, denies or discards a
  request succeeds only on a pending record, and from then on, whatever calls follow on any
  requests, the record stays exactly as that call left it: no later approve, deny or discard
  succeeds, the id cannot be used for a new request, and a discarded request reads as unknown.
\<close>

theorem approval_settled_once:
  assumes "settles op = Some (sc, i, status)" and "is_ok (fst (approvals_exec op store))"
    and "owner_of sc' = owner_of sc"
    and "store' = approvals_run ops (snd (approvals_exec op store))"
  shows "\<exists>r. hm_get store (owner_of sc, i) = Some r \<and> apr_status r = ApPending
    \<and> hm_get store' (owner_of sc, i) = Some (r\<lparr>apr_status := status\<rparr>)
    \<and> approvals_get sc' i store' = (if status = ApDiscarded then None else Some (r\<lparr>apr_status := status\<rparr>))
    \<and> fst (approvals_approve sc' i store') = Err (ApprovalNotPending i status)
    \<and> fst (approvals_deny sc' i store') = Err (ApprovalNotPending i status)
    \<and> fst (approvals_discard_pending sc' i store') = Err (ApprovalNotPending i status)
    \<and> (ar_id q = i \<longrightarrow> fst (approvals_save_pending sc' q store') = Err (ApprovalRequestAlreadyExists i))"
proof -
  from settles_exec [OF assms(1,2)] obtain r where
    r: "hm_get store (owner_of sc, i) = Some r" "apr_status r = ApPending"
      "hm_get (snd (approvals_exec op store)) (owner_of sc, i) = Some (r\<lparr>apr_status := status\<rparr>)" by blast
  have np: "apr_status (r\<lparr>apr_status := status\<rparr>) \<noteq> ApPending" using assms(1) by (cases op) auto
  have s': "hm_get store' (owner_of sc, i) = Some (r\<lparr>apr_status := status\<rparr>)"
    using mem_approvals.settled_forever [OF r(3) np] by (simp add: assms(4) approvals_run_def approvals_exec_eq)
  note refuses = mem_approvals.settled_refuses [OF s' np assms(3)]
  show ?thesis
    using r s' refuses(1) [of ApApproved] refuses(1) [of ApDenied] refuses(2) refuses(3) [of q] assms(3)
    by (auto simp: approvals_approve_def approvals_deny_def approvals_get_def)
qed

definition plain_estimate :: "nat ResourceEstimate" where
  "plain_estimate = \<lparr>est_usd = None, est_input_tokens = None, est_output_tokens = None,
     est_wall_clock_ms = None, est_output_bytes = None, est_network_egress_bytes = None,
     est_process_count = None, est_concurrency_slots = None\<rparr>"

definition example_request :: "nat ApprovalRequest" where
  "example_request = ApprovalRequest 7 1 (PUser ''alice'') (Dispatch ''shell.run'' plain_estimate) (Some ''fp'') ''run'' None"

definition example_approvals :: "nat ApprovalStore" where
  "example_approvals = snd (approvals_save_pending (tenant_scope ''a'') example_request [])"

theorem approval_settled_once_witness:
  "is_ok (fst (approvals_exec (ODiscard (tenant_scope ''a'') 7) example_approvals))
    \<and> fst (approvals_approve (tenant_scope ''a'') 7
        (approvals_run [OSave (tenant_scope ''a'') example_request] (snd (approvals_exec (ODiscard (tenant_scope ''a'') 7) example_approvals))))
      = Err (ApprovalNotPending 7 ApDiscarded)"
proof -
  have ok: "is_ok (fst (approvals_exec (ODiscard (tenant_scope ''a'') 7) example_approvals))"
    by code_simp
  have "settles (ODiscard (tenant_scope ''a'') 7 :: nat ApprovalOp) = Some (tenant_scope ''a'', 7, ApDiscarded)"
    by simp
  from approval_settled_once [OF this ok refl refl, of "[OSave (tenant_scope ''a'') example_request]" example_request] ok
  show ?thesis by blast
qed

end
