(* ===== verification/Run_State_Laws.thy ===== *)
theory Run_State_Laws
  imports Run_State
begin

text \<open>
  The filesystem stores of \<open>ironclaw_run_state/src/lib.rs\<close>: which record lives in which file, and
  what an update does in the presence of other processes.
\<close>

section \<open>Record paths\<close>

text \<open>The owner axes of a scope, as their validators leave them.\<close>

definition valid_axis :: "string option \<Rightarrow> bool" where
  "valid_axis v = (case v of None \<Rightarrow> True | Some x \<Rightarrow> validate_scope_id ''scope'' x = Ok ())"

definition valid_axes :: "ResourceScope \<Rightarrow> bool" where
  "valid_axes s = (valid_axis (rs_agent_id s) \<and> valid_axis (rs_project_id s) \<and> valid_axis (rs_mission_id s)
     \<and> valid_axis (rs_thread_id s))"

definition axis_segments :: "string \<Rightarrow> string option \<Rightarrow> string list" where
  "axis_segments tag v = (case v of None \<Rightarrow> [] | Some x \<Rightarrow> [tag, x])"

definition owner_segments :: "ResourceScope \<Rightarrow> string list" where
  "owner_segments s = axis_segments ''agents'' (rs_agent_id s) @ axis_segments ''projects'' (rs_project_id s)
     @ axis_segments ''missions'' (rs_mission_id s) @ axis_segments ''threads'' (rs_thread_id s)"

definition axes_of :: "ResourceScope \<Rightarrow> AgentId option \<times> ProjectId option \<times> MissionId option \<times> ThreadId option" where
  "axes_of s = (rs_agent_id s, rs_project_id s, rs_mission_id s, rs_thread_id s)"

lemma nul_is_control: "CHR 0x00 \<in> set v \<Longrightarrow> has_control v"
  by (induction v) (auto simp: Let_def)

lemma validate_scope_id_clean: "validate_scope_id k v = Ok () \<Longrightarrow> clean_segment v"
  by (auto simp: validate_scope_id_def clean_segment_def dest: nul_is_control split: if_splits)

lemma clean_tags: "clean_segment ''agents''" "clean_segment ''projects''" "clean_segment ''missions''"
    "clean_segment ''threads''" "clean_segment ''runs''" "clean_segment ''approvals''" "clean_segment ''run-state''"
  by code_simp+

lemma axis_segments_clean: "clean_segment tag \<Longrightarrow> valid_axis v \<Longrightarrow> list_all clean_segment (axis_segments tag v)"
  by (auto simp: valid_axis_def axis_segments_def split: option.splits dest: validate_scope_id_clean)

lemma owner_segments_clean: "valid_axes s \<Longrightarrow> list_all clean_segment (owner_segments s)"
  by (simp add: valid_axes_def owner_segments_def axis_segments_clean clean_tags)

lemma join_axis: "ps \<noteq> [] \<Longrightarrow> join_with ''/'' ps @ axis tag v = join_with ''/'' (ps @ axis_segments tag v)"
  by (auto simp: axis_def axis_segments_def join_with_append split: option.splits)

lemma path_of_axis: "ps \<noteq> [] \<Longrightarrow> path_of ps @ axis tag v = path_of (ps @ axis_segments tag v)"
  by (simp add: path_of_def join_axis)

lemma owner_alias_path:
  "scope_owner_alias_string (path_of [b]) s = path_of (b # owner_segments s)"
  unfolding scope_owner_alias_string_def append_assoc [symmetric]
  by (simp only: path_of_axis append_is_Nil_conv list.distinct simp_thms owner_segments_def append_assoc append.simps)

lemma path_of_snoc: "ps \<noteq> [] \<Longrightarrow> path_of ps @ ''/'' @ x = path_of (ps @ [x])"
  by (simp add: path_of_def join_with_append)

lemma owner_segments_inj: "owner_segments s = owner_segments s' \<Longrightarrow> axes_of s = axes_of s'"
  by (cases "rs_agent_id s"; cases "rs_agent_id s'"; cases "rs_project_id s"; cases "rs_project_id s'";
      cases "rs_mission_id s"; cases "rs_mission_id s'"; cases "rs_thread_id s"; cases "rs_thread_id s'")
    (simp_all add: owner_segments_def axis_segments_def axes_of_def)

text \<open>A path of clean segments has no empty segment, hence no \<open>//\<close>.\<close>

lemma contains_str_append: "contains_str pat s \<Longrightarrow> \<exists>a b. s = a @ pat @ b"
proof (induction s)
  case Nil
  then show ?case by simp
next
  case (Cons c cs)
  show ?case
  proof (cases "prefix pat (c # cs)")
    case True
    then show ?thesis by (metis append_Nil prefix_def)
  next
    case False
    with Cons obtain a b where "cs = a @ pat @ b" by auto
    then have "c # cs = (c # a) @ pat @ b" by simp
    then show ?thesis by blast
  qed
qed

lemma path_of_not_url:
  assumes "ps \<noteq> []" and "list_all clean_segment ps"
  shows "\<not> looks_like_url (path_of ps)"
proof
  assume "looks_like_url (path_of ps)"
  then obtain a b where "path_of ps = a @ ''://'' @ b"
    unfolding looks_like_url_def using contains_str_append by blast
  then have "path_of ps = (a @ '':'') @ CHR ''/'' # CHR ''/'' # b" by simp
  then have "[] # ps = split_on (CHR ''/'') (a @ '':'') @ [] # split_on (CHR ''/'') b"
    using split_on_path_of [OF assms] by (simp only: split_on_append) simp
  then have "[] \<in> set ps"
    by (cases "split_on (CHR ''/'') (a @ '':'')") auto
  with assms(2) show False
    by (auto simp: list_all_iff clean_segment_def)
qed

text \<open>A path that starts with one of the two store prefixes is accepted as it is.\<close>

lemma scoped_path_ok:
  assumes "b = ''run-state'' \<or> b = ''approvals''" and "list_all clean_segment ps"
  shows "scoped_path (path_of (b # ps)) = Ok (path_of (b # ps))"
proof -
  have clean: "list_all clean_segment (b # ps)"
    using assms clean_tags by auto
  have "path_of (b # ps) = ''/'' @ b @ (if ps = [] then [] else path_of ps)"
    by (simp add: path_of_def join_with_Cons)
  then have "\<not> looks_like_windows_path (path_of (b # ps))"
      "\<not> list_ex (\<lambda>p. prefix p (path_of (b # ps))) RAW_HOST_PREFIXES"
    using assms(1) by (auto simp: looks_like_windows_path_def RAW_HOST_PREFIXES_def)
  moreover have "normalize_absolute_path (path_of (b # ps)) Scoped = Ok (path_of (b # ps))"
    using clean by (intro normalize_normal) (auto simp: normal_path_def)
  ultimately show ?thesis
    using path_of_not_url [OF _ clean]
    by (simp add: scoped_path_def ScopedPath_new_def ScopedPath_new_with_allowed_raw_host_aliases_def)
qed

lemma path_of_inj:
  assumes "path_of ps = path_of qs" and "ps \<noteq> []" "qs \<noteq> []" "list_all clean_segment ps" "list_all clean_segment qs"
  shows "ps = qs"
proof -
  have "[] # ps = [] # qs"
    unfolding split_on_path_of [OF assms(2,4), symmetric] split_on_path_of [OF assms(3,5), symmetric] assms(1) ..
  then show ?thesis by simp
qed

definition run_segments :: "(uuid \<Rightarrow> string) \<Rightarrow> ResourceScope \<Rightarrow> InvocationId \<Rightarrow> string list" where
  "run_segments show_uuid s i = owner_segments s @ [''runs'', show_uuid i @ ''.json'']"

definition approval_segments :: "(uuid \<Rightarrow> string) \<Rightarrow> ResourceScope \<Rightarrow> ApprovalRequestId \<Rightarrow> string list" where
  "approval_segments show_uuid s i = owner_segments s @ [show_uuid i @ ''.json'']"

lemma prefixes_are_paths: "RUN_STATE_PREFIX = path_of [''run-state'']" "APPROVALS_PREFIX = path_of [''approvals'']"
  by (simp_all add: RUN_STATE_PREFIX_def APPROVALS_PREFIX_def path_of_def)

lemma record_path_strings:
  "run_records_root_string s @ ''/'' @ x = path_of (''run-state'' # owner_segments s @ [''runs'', x])"
  "approval_records_root_string s @ ''/'' @ x = path_of (''approvals'' # owner_segments s @ [x])"
proof -
  have "run_records_root_string s = path_of ((''run-state'' # owner_segments s) @ [''runs''])"
    using path_of_snoc [of "''run-state'' # owner_segments s" "''runs''"]
    by (simp add: run_records_root_string_def prefixes_are_paths owner_alias_path)
  then show "run_records_root_string s @ ''/'' @ x = path_of (''run-state'' # owner_segments s @ [''runs'', x])"
    using path_of_snoc [of "(''run-state'' # owner_segments s) @ [''runs'']" x] by simp
  show "approval_records_root_string s @ ''/'' @ x = path_of (''approvals'' # owner_segments s @ [x])"
    using path_of_snoc [of "''approvals'' # owner_segments s" x]
    by (simp add: approval_records_root_string_def prefixes_are_paths owner_alias_path)
qed

lemma segments_clean:
  assumes "valid_axes s" and "clean_segment (show_uuid i @ ''.json'')"
  shows "list_all clean_segment (run_segments show_uuid s i)" "list_all clean_segment (approval_segments show_uuid s i)"
  using assms owner_segments_clean clean_tags by (simp_all add: run_segments_def approval_segments_def)

lemma run_record_path_ok:
  "valid_axes s \<Longrightarrow> clean_segment (show_uuid i @ ''.json'')
    \<Longrightarrow> run_record_path show_uuid s i = Ok (path_of (''run-state'' # run_segments show_uuid s i))"
  unfolding run_record_path_def record_path_strings run_segments_def [symmetric]
  by (intro scoped_path_ok segments_clean) simp_all

lemma approval_record_path_ok:
  "valid_axes s \<Longrightarrow> clean_segment (show_uuid i @ ''.json'')
    \<Longrightarrow> approval_record_path show_uuid s i = Ok (path_of (''approvals'' # approval_segments show_uuid s i))"
  unfolding approval_record_path_def record_path_strings approval_segments_def [symmetric]
  by (intro scoped_path_ok segments_clean) simp_all

text \<open>
  two runs, or two approval requests, live in the same file of a tenant and user exactly when
  they have the same agent, project, mission and thread and the same id; a run and an approval
  request never do. The builders accept every validated scope.
\<close>

theorem record_paths_distinct:
  assumes "valid_axes s" "valid_axes s'"
    and "inj show_uuid" and "\<And>i. clean_segment (show_uuid i @ ''.json'')"
  shows "(\<exists>p. run_record_path show_uuid s i = Ok p) \<and> (\<exists>p. approval_record_path show_uuid s i = Ok p)
    \<and> (run_record_path show_uuid s i = run_record_path show_uuid s' j \<longleftrightarrow> axes_of s = axes_of s' \<and> i = j)
    \<and> (approval_record_path show_uuid s i = approval_record_path show_uuid s' j \<longleftrightarrow> axes_of s = axes_of s' \<and> i = j)
    \<and> run_record_path show_uuid s i \<noteq> approval_record_path show_uuid s' j"
proof -
  have same: "owner_segments s = owner_segments s' \<longleftrightarrow> axes_of s = axes_of s'"
    using owner_segments_inj by (auto simp: axes_of_def owner_segments_def)
  have id_eq: "show_uuid i = show_uuid j \<longleftrightarrow> i = j"
    using assms(3) by (simp add: inj_eq)
  have inj: "path_of (b # ps) = path_of (c # qs) \<longleftrightarrow> b = c \<and> ps = qs"
    if "list_all clean_segment (b # ps)" "list_all clean_segment (c # qs)" for b c ps qs
    using path_of_inj that by blast
  note clean = segments_clean [OF assms(1) assms(4)] segments_clean [OF assms(2) assms(4)] clean_tags
  show ?thesis
    using inj [of "''run-state''" "run_segments show_uuid s i" "''run-state''" "run_segments show_uuid s' j"]
      inj [of "''approvals''" "approval_segments show_uuid s i" "''approvals''" "approval_segments show_uuid s' j"]
      inj [of "''run-state''" "run_segments show_uuid s i" "''approvals''" "approval_segments show_uuid s' j"]
    by (simp add: run_record_path_ok approval_record_path_ok assms clean)
      (simp add: run_segments_def approval_segments_def same id_eq)
qed

text \<open>Identifiers rendered in unary, to instantiate the claims.\<close>

definition unary :: "uuid \<Rightarrow> string" where
  "unary i = replicate i (CHR ''a'')"

lemma unary_inj: "inj unary"
  by (auto simp: inj_def unary_def dest: arg_cong [of _ _ length])

lemma unary_clean: "clean_segment (unary i @ ''.json'')"
proof -
  have "\<not> has_control (unary i @ ''.json'')"
  proof (induction i)
    case 0
    show ?case by code_simp
  next
    case (Suc n)
    then show ?case by (auto simp: unary_def Let_def of_char_def split: list.splits)
  qed
  moreover have "2 < length (unary i @ ''.json'')" by simp
  ultimately show ?thesis
    by (auto simp: clean_segment_def unary_def)
qed

theorem record_paths_distinct_witness:
  "valid_axes (tenant_scope ''a'')
    \<and> run_record_path unary (tenant_scope ''a'') 1 \<noteq> run_record_path unary (tenant_scope ''a'') 2
    \<and> run_record_path unary (tenant_scope ''a'') 1
       \<noteq> run_record_path unary ((tenant_scope ''a'')\<lparr>rs_thread_id := Some ''runs''\<rparr>) 1"
proof -
  have v: "valid_axes (tenant_scope ''a'')" "valid_axes ((tenant_scope ''a'')\<lparr>rs_thread_id := Some ''runs''\<rparr>)"
    by code_simp+
  have "axes_of (tenant_scope ''a'') \<noteq> axes_of ((tenant_scope ''a'')\<lparr>rs_thread_id := Some ''runs''\<rparr>)"
    by code_simp
  with v(1) record_paths_distinct [OF v(1,1) unary_inj unary_clean, of 1 2]
    record_paths_distinct [OF v unary_inj unary_clean, of 1 1]
  show ?thesis by simp
qed

section \<open>Updates under interference\<close>

text \<open>The record stored at a path, whoever owns it.\<close>

definition stored_record :: "'r fs_env \<Rightarrow> ResourceScope \<Rightarrow> ScopedPath \<Rightarrow> FsState \<Rightarrow> (RunStateError CasUpdateError, 'r option) result" where
  "stored_record env s p st =
    result_bind (read_current (deserialize env) (scoped_get (fe_resolver env) s p st)) (\<lambda>(cur, _). Ok cur)"

definition versions_tell :: "'r fs_env \<Rightarrow> ResourceScope \<Rightarrow> ScopedPath \<Rightarrow> FsState \<Rightarrow> bool" where
  "versions_tell env s p st = list_all (\<lambda>i. version_tells (scoped_get (fe_resolver env) s p)
     (after_others (fe_others env) (2 * i + 1) st) (after_others (fe_others env) (2 * i + 2) st)) [0..<FILESYSTEM_CAS_RETRIES]"

definition codec_ok :: "'r fs_env \<Rightarrow> bool" where
  "codec_ok env = (\<forall>r b. fe_serialize env r = Ok b \<longrightarrow> fe_deserialize env b = Ok r)"

lemma scoped_put_get:
  assumes "scoped_put now R s p e c w = (Inr v, w')" and "scoped_get R s p w = Inr r"
  shows "\<exists>vp. scoped_get R s p w' = Inr (Some \<lparr>ve_path = vp, ve_entry = e, ve_version = v\<rparr>)"
  using assms
  by (auto simp: scoped_put_def scoped_write_def scoped_get_def scoped_read_def backend_put_def backend_get_def
      Let_def hm_simps result_bind_def split: sum.splits if_splits dest: resolve_with_permission_agree)

lemma record_entry_body:
  "codec_ok env \<Longrightarrow> record_entry kind env r = Inr e \<Longrightarrow> deserialize env (body e) = Inr r"
  by (auto simp: record_entry_def serialize_pretty_def deserialize_def codec_ok_def result_bind_def Entry_bytes_def
      split: sum.splits)

text \<open>A successful store update is computed from the record it replaces, and is what is stored after it.\<close>

lemma store_cas_ok:
  assumes "versions_tell env s p st" and "codec_ok env"
    and "store_cas kind env s (Ok p) f st = (Inr out, st')"
  shows "\<exists>k cur a. stored_record env s p (after_others (fe_others env) k st) = Ok cur \<and> f cur = Ok a
    \<and> out = cas_outcome a
    \<and> (if cas_write a then stored_record env s p st' = Ok (Some (cas_snapshot a))
       else st' = after_others (fe_others env) k st)"
proof -
  let ?get = "scoped_get (fe_resolver env) s p" and ?put = "scoped_put (fe_now env) (fe_resolver env) s p"
  from assms(3) have loop: "cas_update_loop ?get ?put (deserialize env) (record_entry kind env) f
      FILESYSTEM_CAS_RETRIES (fe_others env) st = (Inr out, st')"
    by (auto simp: store_cas_def cas_update_def split: sum.splits prod.splits if_splits)
  have tells: "\<forall>i < FILESYSTEM_CAS_RETRIES. version_tells ?get (after_others (fe_others env) (2 * i + 1) st)
      (after_others (fe_others env) (2 * i + 2) st)"
    using assms(1) by (simp add: versions_tell_def list_all_iff)
  from scoped.loop_ok [OF tells loop] obtain k where "cas_attempt ?get ?put (deserialize env) (record_entry kind env) f quiet
      (after_others (fe_others env) k st) = (Some (Inr out), st')" ..
  then show ?thesis
  proof (cases rule: scoped.quiet_ok)
    case (unwritten cur ver a)
    from unwritten(1) have "stored_record env s p (after_others (fe_others env) k st) = Ok cur"
      by (simp add: stored_record_def result_bind_def)
    with unwritten(2-5) show ?thesis
      by (intro exI [of _ k] exI [of _ cur] exI [of _ a]) auto
  next
    case (written cur ver a entry v)
    from scoped.read_current_version [OF written(1)] scoped_put_get [OF written(6)] obtain vp
      where "?get st' = Inr (Some \<lparr>ve_path = vp, ve_entry = entry, ve_version = v\<rparr>)" by blast
    then have stored: "stored_record env s p st' = Ok (Some (cas_snapshot a))"
      using record_entry_body [OF assms(2) written(5)]
      by (simp add: stored_record_def read_current_def result_bind_def)
    from written(1) have "stored_record env s p (after_others (fe_others env) k st) = Ok cur"
      by (simp add: stored_record_def result_bind_def)
    with stored written(2-4) show ?thesis
      by (intro exI [of _ k] exI [of _ cur] exI [of _ a]) simp
  qed
qed

lemma store_cas_error:
  assumes "store_cas kind env s (Ok p) f st = (Inl e, st')" and "\<And>m. e \<noteq> RsBackend m"
  shows "\<exists>k. st' = after_others (fe_others env) k st"
proof -
  have "\<exists>e'. cas_update (fe_capabilities env) (scoped_get (fe_resolver env) s p)
      (scoped_put (fe_now env) (fe_resolver env) s p) (deserialize env) (record_entry kind env) f (fe_others env) st
    = (Inl e', st') \<and> e' \<noteq> CasTimeout \<and> e' \<noteq> CasUnsupported"
    using assms(1) assms(2) [of "''filesystem CAS retries exhausted''"]
      assms(2) [of "''backend does not support versioned compare-and-swap''"]
    by (auto simp: store_cas_def split: sum.splits prod.splits)
  then obtain e' where "cas_update_loop (scoped_get (fe_resolver env) s p)
      (scoped_put (fe_now env) (fe_resolver env) s p) (deserialize env) (record_entry kind env) f
      FILESYSTEM_CAS_RETRIES (fe_others env) st = (Inl e', st')" "e' \<noteq> CasTimeout"
    by (auto simp: cas_update_def split: if_splits)
  then show ?thesis by (rule scoped.loop_error)
qed

text \<open>An error that only the transform raises comes from a record that was really there.\<close>

lemma store_cas_refused:
  assumes "store_cas kind env s (Ok p) f st = (Inl e, st')"
    and "e = UnknownApprovalRequest i \<or> (\<exists>x. e = ApprovalNotPending i x) \<or> e = ApprovalRequestAlreadyExists i
      \<or> e = UnknownInvocation i \<or> e = InvocationAlreadyExists i"
  shows "\<exists>k cur. st' = after_others (fe_others env) k st \<and> stored_record env s p st' = Ok cur \<and> f cur = Err e"
proof -
  let ?get = "scoped_get (fe_resolver env) s p" and ?put = "scoped_put (fe_now env) (fe_resolver env) s p"
  have "\<exists>e'. cas_update (fe_capabilities env) ?get ?put (deserialize env) (record_entry kind env) f (fe_others env) st
    = (Inl e', st') \<and> map_cas_error e' = e"
    using assms(1) by (auto simp: store_cas_def split: sum.splits prod.splits)
  then obtain e' where e': "cas_update (fe_capabilities env) ?get ?put (deserialize env) (record_entry kind env) f (fe_others env) st
    = (Inl e', st')" "map_cas_error e' = e" by blast
  from e'(2) assms(2) have "e' = CasApplyError e" by (cases e') auto
  with e'(1) have "cas_update_loop ?get ?put (deserialize env) (record_entry kind env) f
      FILESYSTEM_CAS_RETRIES (fe_others env) st = (Inl (CasApplyError e), st')"
    by (auto simp: cas_update_def split: if_splits)
  from scoped.loop_apply_error [OF this] obtain k where
    k: "st' = after_others (fe_others env) k st"
      "cas_attempt ?get ?put (deserialize env) (record_entry kind env) f quiet st' = (Some (Inl (CasApplyError e)), st')"
    by blast
  have "\<exists>cur. stored_record env s p st' = Ok cur \<and> f cur = Err e"
  proof (cases "read_current (deserialize env) (?get st')")
    case (Inl x)
    with k(2) have "x = CasApplyError e" by (simp add: cas_attempt_def quiet_def)
    with Inl assms(2) show ?thesis
      by (auto simp: read_current_def deserialize_def split: sum.splits option.splits)
  next
    case (Inr cv)
    obtain cur ver where cv: "cv = (cur, ver)" by force
    have "f cur = Err e"
      using k(2) Inr cv assms(2)
      by (auto simp: cas_attempt_def quiet_def plan_write_def record_entry_def serialize_pretty_def result_bind_def Let_def
          split: sum.splits if_splits prod.splits FilesystemError.splits FilesystemOperation.splits)
    with Inr cv show ?thesis by (auto simp: stored_record_def result_bind_def)
  qed
  with k(1) show ?thesis by blast
qed

lemma read_versioned_stored:
  "(\<exists>v. read_versioned owner env s (Ok p) st = Ok (Some (r, v)))
    \<longleftrightarrow> stored_record env s p st = Ok (Some r) \<and> same_scope_owner (owner r) s"
  "read_versioned owner env s (Ok p) st = Ok None
    \<longleftrightarrow> (\<exists>cur. stored_record env s p st = Ok cur \<and> (\<forall>r. cur = Some r \<longrightarrow> \<not> same_scope_owner (owner r) s))"
  by (auto simp: read_versioned_def stored_record_def read_current_def result_bind_def
      split: sum.splits option.splits)

lemma pending_record_Ok:
  "pending_record s i cur = Inr r \<longleftrightarrow> cur = Some r \<and> same_scope_owner (apr_scope r) s \<and> apr_status r = ApPending"
  by (auto simp: pending_record_def split: option.splits)

lemma pending_record_errors:
  "pending_record s i cur = Inl (ApprovalNotPending j x)
    \<longleftrightarrow> (\<exists>r. cur = Some r \<and> same_scope_owner (apr_scope r) s \<and> apr_status r = x \<and> x \<noteq> ApPending \<and> j = i)"
  "pending_record s i cur = Inl (UnknownApprovalRequest j)
    \<longleftrightarrow> j = i \<and> (\<forall>r. cur = Some r \<longrightarrow> \<not> same_scope_owner (apr_scope r) s)"
  by (auto simp: pending_record_def split: option.splits)


text \<open>One request, a codec for its records, and another process that denies it before the write.\<close>

definition status_code :: "ApprovalStatus \<Rightarrow> nat" where
  "status_code x = (case x of ApPending \<Rightarrow> 0 | ApApproved \<Rightarrow> 1 | ApDenied \<Rightarrow> 2 | ApExpired \<Rightarrow> 3 | ApDiscarded \<Rightarrow> 4)"

definition example_record :: "ApprovalStatus \<Rightarrow> nat ApprovalRecord" where
  "example_record x = \<lparr>apr_scope = tenant_scope ''a'', apr_request = example_request, apr_status = x\<rparr>"

definition example_env :: "FsState attempt_env list \<Rightarrow> nat ApprovalRecord fs_env" where
  "example_env others = \<lparr>fe_capabilities = in_memory_full,
     fe_resolver = (\<lambda>s. Ok \<lparr>mounts = [\<lparr>mg_alias = ''/approvals'', mg_target = ''/tenants/'' @ rs_tenant_id s,
       mg_permissions = MountPermissions_read_write_list_delete\<rparr>]\<rparr>),
     fe_now = 0, fe_show_uuid = unary,
     fe_serialize = (\<lambda>r. if r = example_record (apr_status r) then Ok [of_nat (status_code (apr_status r))] else Err ''record''),
     fe_deserialize = (\<lambda>b. if b = [0] then Ok (example_record ApPending) else if b = [1] then Ok (example_record ApApproved)
       else if b = [2] then Ok (example_record ApDenied) else if b = [3] then Ok (example_record ApExpired)
       else if b = [4] then Ok (example_record ApDiscarded) else Err ''bytes''),
     fe_others = others\<rparr>"

definition example_saved :: FsState where
  "example_saved = snd (fs_save_pending (example_env []) (tenant_scope ''a'') example_request InMemoryBackend_new)"

definition other_denies :: "FsState attempt_env" where
  "other_denies = quiet\<lparr>before_write := \<lambda>st. snd (fs_deny (example_env []) (tenant_scope ''a'') 7 st)\<rparr>"

lemma example_codec: "codec_ok (example_env others)"
  by (auto simp: codec_ok_def example_env_def status_code_def split: if_splits ApprovalStatus.splits)

lemma example_path: "approval_record_path (fe_show_uuid (example_env others)) (tenant_scope ''a'') 7 = Ok ''/approvals/aaaaaaa.json''"
  by (simp add: example_env_def) code_simp

lemma example_versions: "versions_tell (example_env [other_denies]) (tenant_scope ''a'') ''/approvals/aaaaaaa.json'' example_saved"
proof -
  have "version_tells (scoped_get (fe_resolver (example_env [other_denies])) (tenant_scope ''a'') ''/approvals/aaaaaaa.json'')
      (after_others [other_denies] 1 example_saved) (after_others [other_denies] 2 example_saved)"
    by code_simp
  moreover have "after_others [other_denies] (2 * i + 1) example_saved = after_others [other_denies] (2 * i + 2) example_saved" if "i \<noteq> 0" for i
    using that by (cases i) (simp_all add: after_others_def)
  moreover have "fe_others (example_env [other_denies]) = [other_denies]" by (simp add: example_env_def)
  ultimately show ?thesis
    unfolding versions_tell_def list_all_iff
    by (metis (no_types, lifting) add_0 mult_0_right version_tells_refl)
qed


end
