(* ===== verification/Audit_Envelope.thy ===== *)
theory Audit_Envelope
  imports Host_Api
begin

text \<open>
  The audit envelope of control-plane decisions (\<open>ironclaw_host_api/src/audit.rs\<close>) and the
  renderings of actions it uses. Rendering of uuids is a parameter.
\<close>

section \<open>Audit envelopes\<close>

fun show_dec :: "nat \<Rightarrow> string" where
  "show_dec n = (if n < 10 then [char_of (n + 48)] else show_dec (n div 10) @ [char_of (n mod 10 + 48)])"

declare show_dec.simps [simp del]

datatype ApprovalDecisionKind = DecisionApproved | DecisionDenied

fun as_wire_str :: "ApprovalDecisionKind \<Rightarrow> string" where
  "as_wire_str DecisionApproved = ''approved''"
| "as_wire_str DecisionDenied = ''denied''"

datatype AuditStage =
    StageBefore | StageAfter | StageDenied | StageApprovalRequested | StageApprovalResolved
  | StageResourceReserved | StageResourceReconciled | StageResourceReleased

record ActionSummary =
  sum_kind :: string
  sum_target :: "string option"
  sum_effects :: "EffectKind list"

record DecisionSummary =
  dec_kind :: string
  dec_reason :: "DenyReason option"
  dec_actor :: "Principal option"

record ActionResultSummary =
  result_success :: bool
  result_status :: "string option"
  result_output_bytes :: "u64 option"

record AuditEnvelope =
  au_event_id :: uuid
  au_correlation_id :: CorrelationId
  au_stage :: AuditStage
  au_timestamp :: instant
  au_tenant_id :: TenantId
  au_user_id :: UserId
  au_agent_id :: "AgentId option"
  au_project_id :: "ProjectId option"
  au_mission_id :: "MissionId option"
  au_thread_id :: "ThreadId option"
  au_invocation_id :: InvocationId
  au_process_id :: "ProcessId option"
  au_approval_request_id :: "ApprovalRequestId option"
  au_extension_id :: "ExtensionId option"
  au_action :: ActionSummary
  au_decision :: DecisionSummary
  au_result :: "ActionResultSummary option"

fun show_secret_use_mode :: "SecretUseMode \<Rightarrow> string" where
  "show_secret_use_mode InjectIntoRequest = ''inject_into_request''"
| "show_secret_use_mode InjectIntoEnvironment = ''inject_into_environment''"
| "show_secret_use_mode ReadRaw = ''read_raw''"

fun show_network_method :: "NetworkMethod \<Rightarrow> string" where
  "show_network_method Get = ''get''"
| "show_network_method Post = ''post''"
| "show_network_method Put = ''put''"
| "show_network_method Patch = ''patch''"
| "show_network_method Delete = ''delete''"
| "show_network_method Head = ''head''"

fun show_lifecycle_operation :: "ExtensionLifecycleOperation \<Rightarrow> string" where
  "show_lifecycle_operation OpInstall = ''install''"
| "show_lifecycle_operation OpUpdate = ''update''"
| "show_lifecycle_operation OpRemove = ''remove''"
| "show_lifecycle_operation OpEnable = ''enable''"
| "show_lifecycle_operation OpDisable = ''disable''"

definition secret_target :: "string \<Rightarrow> SecretUseMode \<Rightarrow> string" where
  "secret_target handle mode = handle @ '':'' @ show_secret_use_mode mode"

definition network_target :: "NetworkMethod \<Rightarrow> string \<Rightarrow> u16 option \<Rightarrow> string" where
  "network_target method host port = show_network_method method @ '':'' @ host
     @ (case port of None \<Rightarrow> [] | Some p \<Rightarrow> '':'' @ show_dec (unat p))"

definition summary :: "string \<Rightarrow> string option \<Rightarrow> EffectKind list \<Rightarrow> ActionSummary" where
  "summary kind target effects = \<lparr>sum_kind = kind, sum_target = target, sum_effects = effects\<rparr>"

fun ActionSummary_from_action :: "(uuid \<Rightarrow> string) \<Rightarrow> 'd Action \<Rightarrow> ActionSummary" where
  "ActionSummary_from_action show_uuid (ReadFile p) = summary ''read_file'' (Some p) [ReadFilesystem]"
| "ActionSummary_from_action show_uuid (ListDir p) = summary ''list_dir'' (Some p) [ReadFilesystem]"
| "ActionSummary_from_action show_uuid (WriteFile p _) = summary ''write_file'' (Some p) [WriteFilesystem]"
| "ActionSummary_from_action show_uuid (DeleteFile p) = summary ''delete_file'' (Some p) [DeleteFilesystem]"
| "ActionSummary_from_action show_uuid (Dispatch c _) = summary ''dispatch'' (Some c) [DispatchCapability]"
| "ActionSummary_from_action show_uuid (SpawnCapability c _) =
     summary ''spawn_capability'' (Some c) [DispatchCapability, SpawnProcess]"
| "ActionSummary_from_action show_uuid (ActUseSecret h m) =
     summary ''use_secret'' (Some (secret_target h m)) [UseSecret]"
| "ActionSummary_from_action show_uuid (ActNetwork t m _) =
     summary ''network'' (Some (network_target m (nt_host t) (nt_port t))) [Network]"
| "ActionSummary_from_action show_uuid (ActReserveResources _) = summary ''reserve_resources'' None [ModifyBudget]"
| "ActionSummary_from_action show_uuid (Approve r) =
     summary ''approve'' (Some (show_uuid (ar_id r))) [ModifyApproval]"
| "ActionSummary_from_action show_uuid (ExtensionLifecycle e op) =
     summary ''extension_lifecycle'' (Some (e @ '':'' @ show_lifecycle_operation op)) [ModifyExtension]"
| "ActionSummary_from_action show_uuid (EmitExternalEffect e) = summary ''emit_external_effect'' None [e]"

definition extension_from_principal :: "Principal \<Rightarrow> ExtensionId option" where
  "extension_from_principal p = (case p of PExtension e \<Rightarrow> Some e | _ \<Rightarrow> None)"

definition approval_resolved ::
  "(uuid \<Rightarrow> string) \<Rightarrow> uuid \<Rightarrow> instant \<Rightarrow> ResourceScope \<Rightarrow> 'd ApprovalRequest \<Rightarrow> Principal \<Rightarrow> ApprovalDecisionKind
    \<Rightarrow> AuditEnvelope" where
  "approval_resolved show_uuid event now s request resolved_by decision =
    \<lparr>au_event_id = event, au_correlation_id = ar_correlation_id request, au_stage = StageApprovalResolved,
     au_timestamp = now, au_tenant_id = rs_tenant_id s, au_user_id = rs_user_id s, au_agent_id = rs_agent_id s,
     au_project_id = rs_project_id s, au_mission_id = rs_mission_id s, au_thread_id = rs_thread_id s,
     au_invocation_id = rs_invocation_id s, au_process_id = None, au_approval_request_id = Some (ar_id request),
     au_extension_id = extension_from_principal (ar_requested_by request),
     au_action = ActionSummary_from_action show_uuid (ar_action request),
     au_decision = \<lparr>dec_kind = as_wire_str decision, dec_reason = None, dec_actor = Some resolved_by\<rparr>,
     au_result = None\<rparr>"

definition audit_denied ::
  "uuid \<Rightarrow> instant \<Rightarrow> 'd ExecutionContext \<Rightarrow> AuditStage \<Rightarrow> ActionSummary \<Rightarrow> DenyReason \<Rightarrow> AuditEnvelope" where
  "audit_denied event now ctx stage action reason =
    \<lparr>au_event_id = event, au_correlation_id = ctx_correlation_id ctx, au_stage = stage,
     au_timestamp = now, au_tenant_id = ctx_tenant_id ctx, au_user_id = ctx_user_id ctx, au_agent_id = ctx_agent_id ctx,
     au_project_id = ctx_project_id ctx, au_mission_id = ctx_mission_id ctx, au_thread_id = ctx_thread_id ctx,
     au_invocation_id = ctx_invocation_id ctx, au_process_id = ctx_process_id ctx, au_approval_request_id = None,
     au_extension_id = Some (ctx_extension_id ctx), au_action = action,
     au_decision = \<lparr>dec_kind = ''deny'', dec_reason = Some reason, dec_actor = None\<rparr>, au_result = None\<rparr>"

end
