(* ===== verification/Approvals.thy ===== *)
theory Approvals
  imports Run_State Leases Audit_Envelope "HOL-Library.Multiset"
begin

text \<open>
  Approval resolution (\<open>ironclaw_approvals/src/lib.rs\<close>). The resolver is generic over its two stores, as in the
  source; its handlers are composed of the parts between their suspension points, so that the
  same parts make up a step relation in which any number of resolver calls interleave.
\<close>

section \<open>The resolver\<close>

datatype ApprovedCapabilityAction = ApprovedDispatch | ApprovedSpawn

fun capability_for_action :: "'d Action \<Rightarrow> ApprovedCapabilityAction \<Rightarrow> CapabilityId option" where
  "capability_for_action (Dispatch c _) ApprovedDispatch = Some c"
| "capability_for_action (SpawnCapability c _) ApprovedSpawn = Some c"
| "capability_for_action _ _ = None"

record 'd LeaseApproval =
  la_issued_by :: Principal
  la_constraints :: "'d GrantConstraints"

record DenyApproval =
  denied_by :: Principal

datatype ApprovalResolutionError =
    ResRunState RunStateError
  | ResNotPending ApprovalStatus
  | ResNotApproved ApprovalStatus
  | MissingInvocationFingerprint
  | UnsupportedAction
  | ResLease CapabilityLeaseError

text \<open>
  The resolver: its stores, and the audit sink with its verdict on an event (the resolver ignores
  it). \<open>fresh\<close> holds what a call draws from outside: a new grant id, a new event id, the clock.
\<close>

record ('a, 'l, 'd) ApprovalResolver =
  rv_get :: "ResourceScope \<Rightarrow> ApprovalRequestId \<Rightarrow> 'a \<Rightarrow> (RunStateError, 'd ApprovalRecord option) result"
  rv_approve :: "ResourceScope \<Rightarrow> ApprovalRequestId \<Rightarrow> 'a \<Rightarrow> (RunStateError, 'd ApprovalRecord) result \<times> 'a"
  rv_deny :: "ResourceScope \<Rightarrow> ApprovalRequestId \<Rightarrow> 'a \<Rightarrow> (RunStateError, 'd ApprovalRecord) result \<times> 'a"
  rv_issue :: "'l \<Rightarrow> 'd CapabilityLease \<Rightarrow> (CapabilityLeaseError, 'd CapabilityLease) result \<times> 'l"
  rv_audit_sink :: "(AuditEnvelope \<Rightarrow> bool) option"
  rv_show_uuid :: "uuid \<Rightarrow> string"

record fresh =
  fresh_grant_id :: CapabilityGrantId
  fresh_event_id :: uuid
  fresh_now :: instant

record ('a, 'l) ResolverWorld =
  w_approvals :: 'a
  w_leases :: 'l
  w_audit :: "AuditEnvelope list"

definition emit_audit_best_effort :: "('a, 'l, 'd) ApprovalResolver \<Rightarrow> AuditEnvelope
    \<Rightarrow> ('a, 'l) ResolverWorld \<Rightarrow> ('a, 'l) ResolverWorld" where
  "emit_audit_best_effort rv e w =
    (case rv_audit_sink rv of
       None \<Rightarrow> w
     | Some accepts \<Rightarrow> if accepts e then w\<lparr>w_audit := w_audit w @ [e]\<rparr> else w)"

definition emit_approval_resolved :: "('a, 'l, 'd) ApprovalResolver \<Rightarrow> fresh \<Rightarrow> ResourceScope \<Rightarrow> 'd ApprovalRequest
    \<Rightarrow> Principal \<Rightarrow> ApprovalDecisionKind \<Rightarrow> ('a, 'l) ResolverWorld \<Rightarrow> ('a, 'l) ResolverWorld" where
  "emit_approval_resolved rv fr s request resolved_by decision w =
    emit_audit_best_effort rv
      (approval_resolved (rv_show_uuid rv) (fresh_event_id fr) (fresh_now fr) s request resolved_by decision) w"

definition require_record :: "('a, 'l, 'd) ApprovalResolver \<Rightarrow> ResourceScope \<Rightarrow> ApprovalRequestId
    \<Rightarrow> ('a, 'l) ResolverWorld \<Rightarrow> (ApprovalResolutionError, 'd ApprovalRecord) result" where
  "require_record rv s i w =
    (case rv_get rv s i (w_approvals w) of
       Inl e \<Rightarrow> Err (ResRunState e)
     | Inr None \<Rightarrow> Err (ResRunState (UnknownApprovalRequest i))
     | Inr (Some r) \<Rightarrow> Ok r)"

text \<open>What the lease will grant: the capability of the expected action and the request's fingerprint.\<close>

definition lease_terms :: "'d ApprovalRecord \<Rightarrow> ApprovedCapabilityAction
    \<Rightarrow> (ApprovalResolutionError, CapabilityId \<times> InvocationFingerprint) result" where
  "lease_terms r expected =
    (case capability_for_action (ar_action (apr_request r)) expected of
       None \<Rightarrow> Err UnsupportedAction
     | Some c \<Rightarrow> (case ar_invocation_fingerprint (apr_request r) of
         None \<Rightarrow> Err MissingInvocationFingerprint
       | Some fp \<Rightarrow> Ok (c, fp)))"

text \<open>The first part of each handler, up to its first write.\<close>

definition check_pending :: "('a, 'l, 'd) ApprovalResolver \<Rightarrow> ResourceScope \<Rightarrow> ApprovalRequestId
    \<Rightarrow> ApprovedCapabilityAction \<Rightarrow> ('a, 'l) ResolverWorld
    \<Rightarrow> (ApprovalResolutionError, CapabilityId \<times> InvocationFingerprint) result" where
  "check_pending rv s i expected w =
    result_bind (require_record rv s i w) (\<lambda>r.
      if apr_status r \<noteq> ApPending then Err (ResNotPending (apr_status r)) else lease_terms r expected)"

definition check_approved :: "('a, 'l, 'd) ApprovalResolver \<Rightarrow> ResourceScope \<Rightarrow> ApprovalRequestId
    \<Rightarrow> ApprovedCapabilityAction \<Rightarrow> ('a, 'l) ResolverWorld
    \<Rightarrow> (ApprovalResolutionError, 'd ApprovalRecord \<times> CapabilityId \<times> InvocationFingerprint) result" where
  "check_approved rv s i expected w =
    result_bind (require_record rv s i w) (\<lambda>r.
      if apr_status r \<noteq> ApApproved then Err (ResNotApproved (apr_status r))
      else result_bind (lease_terms r expected) (\<lambda>terms. Ok (r, terms)))"

definition check_deniable :: "('a, 'l, 'd) ApprovalResolver \<Rightarrow> ResourceScope \<Rightarrow> ApprovalRequestId
    \<Rightarrow> ('a, 'l) ResolverWorld \<Rightarrow> (ApprovalResolutionError, unit) result" where
  "check_deniable rv s i w =
    result_bind (require_record rv s i w) (\<lambda>r.
      if apr_status r \<noteq> ApPending then Err (ResNotPending (apr_status r)) else Ok ())"

definition settled_result :: "(RunStateError, 'd ApprovalRecord) result
    \<Rightarrow> (ApprovalResolutionError, 'd ApprovalRecord) result" where
  "settled_result res =
    (case res of
       Inl (ApprovalNotPending _ st) \<Rightarrow> Err (ResNotPending st)
     | Inl e \<Rightarrow> Err (ResRunState e)
     | Inr r \<Rightarrow> Ok r)"

definition settle_approved :: "('a, 'l, 'd) ApprovalResolver \<Rightarrow> ResourceScope \<Rightarrow> ApprovalRequestId
    \<Rightarrow> ('a, 'l) ResolverWorld \<Rightarrow> (ApprovalResolutionError, 'd ApprovalRecord) result \<times> ('a, 'l) ResolverWorld" where
  "settle_approved rv s i w =
    (case rv_approve rv s i (w_approvals w) of (res, a) \<Rightarrow> (settled_result res, w\<lparr>w_approvals := a\<rparr>))"

definition settle_denied :: "('a, 'l, 'd) ApprovalResolver \<Rightarrow> fresh \<Rightarrow> ResourceScope \<Rightarrow> ApprovalRequestId \<Rightarrow> DenyApproval
    \<Rightarrow> ('a, 'l) ResolverWorld \<Rightarrow> (ApprovalResolutionError, 'd ApprovalRecord) result \<times> ('a, 'l) ResolverWorld" where
  "settle_denied rv fr s i denial w =
    (case rv_deny rv s i (w_approvals w) of (res, a) \<Rightarrow>
       (settled_result res,
        case res of
          Inl e \<Rightarrow> w\<lparr>w_approvals := a\<rparr>
        | Inr r \<Rightarrow> emit_approval_resolved rv fr (apr_scope r) (apr_request r) (denied_by denial) DecisionDenied
            (w\<lparr>w_approvals := a\<rparr>)))"

definition lease_for_approved :: "fresh \<Rightarrow> 'd ApprovalRecord \<Rightarrow> CapabilityId \<Rightarrow> 'd LeaseApproval \<Rightarrow> InvocationFingerprint
    \<Rightarrow> 'd CapabilityLease" where
  "lease_for_approved fr r c approval fp =
    (CapabilityLease_new (apr_scope r)
       \<lparr>grant_id = fresh_grant_id fr, grant_capability = c, grantee = ar_requested_by (apr_request r),
        issued_by = la_issued_by approval, constraints = la_constraints approval\<rparr>)\<lparr>lease_fingerprint := Some fp\<rparr>"

definition issue_lease_for_approved :: "('a, 'l, 'd) ApprovalResolver \<Rightarrow> fresh \<Rightarrow> 'd ApprovalRecord \<Rightarrow> CapabilityId
    \<Rightarrow> 'd LeaseApproval \<Rightarrow> InvocationFingerprint \<Rightarrow> ('a, 'l) ResolverWorld
    \<Rightarrow> (ApprovalResolutionError, 'd CapabilityLease) result \<times> ('a, 'l) ResolverWorld" where
  "issue_lease_for_approved rv fr r c approval fp w =
    (case rv_issue rv (w_leases w) (lease_for_approved fr r c approval fp) of
       (Inl e, l) \<Rightarrow> (Err (ResLease e), w\<lparr>w_leases := l\<rparr>)
     | (Inr lease, l) \<Rightarrow>
         (Ok lease, emit_approval_resolved rv fr (apr_scope r) (apr_request r) (la_issued_by approval) DecisionApproved
            (w\<lparr>w_leases := l\<rparr>)))"

text \<open>
  The handlers. \<open>o1\<close> and \<open>o2\<close> are what other tasks do to the world while a handler waits.
\<close>

definition approve_capability_action :: "('a, 'l, 'd) ApprovalResolver \<Rightarrow> fresh
    \<Rightarrow> (('a, 'l) ResolverWorld \<Rightarrow> ('a, 'l) ResolverWorld) \<Rightarrow> (('a, 'l) ResolverWorld \<Rightarrow> ('a, 'l) ResolverWorld)
    \<Rightarrow> ResourceScope \<Rightarrow> ApprovalRequestId \<Rightarrow> 'd LeaseApproval \<Rightarrow> ApprovedCapabilityAction \<Rightarrow> ('a, 'l) ResolverWorld
    \<Rightarrow> (ApprovalResolutionError, 'd CapabilityLease) result \<times> ('a, 'l) ResolverWorld" where
  "approve_capability_action rv fr o1 o2 s i approval expected w =
    (case check_pending rv s i expected w of
       Inl e \<Rightarrow> (Err e, w)
     | Inr (c, fp) \<Rightarrow>
         (case settle_approved rv s i (o1 w) of
            (Inl e, w') \<Rightarrow> (Err e, w')
          | (Inr r, w') \<Rightarrow> issue_lease_for_approved rv fr r c approval fp (o2 w')))"

definition retry_lease_issue_for_action :: "('a, 'l, 'd) ApprovalResolver \<Rightarrow> fresh
    \<Rightarrow> (('a, 'l) ResolverWorld \<Rightarrow> ('a, 'l) ResolverWorld)
    \<Rightarrow> ResourceScope \<Rightarrow> ApprovalRequestId \<Rightarrow> 'd LeaseApproval \<Rightarrow> ApprovedCapabilityAction \<Rightarrow> ('a, 'l) ResolverWorld
    \<Rightarrow> (ApprovalResolutionError, 'd CapabilityLease) result \<times> ('a, 'l) ResolverWorld" where
  "retry_lease_issue_for_action rv fr o1 s i approval expected w =
    (case check_approved rv s i expected w of
       Inl e \<Rightarrow> (Err e, w)
     | Inr (r, c, fp) \<Rightarrow> issue_lease_for_approved rv fr r c approval fp (o1 w))"

definition resolver_deny :: "('a, 'l, 'd) ApprovalResolver \<Rightarrow> fresh
    \<Rightarrow> (('a, 'l) ResolverWorld \<Rightarrow> ('a, 'l) ResolverWorld)
    \<Rightarrow> ResourceScope \<Rightarrow> ApprovalRequestId \<Rightarrow> DenyApproval \<Rightarrow> ('a, 'l) ResolverWorld
    \<Rightarrow> (ApprovalResolutionError, 'd ApprovalRecord) result \<times> ('a, 'l) ResolverWorld" where
  "resolver_deny rv fr o1 s i denial w =
    (case check_deniable rv s i w of
       Inl e \<Rightarrow> (Err e, w)
     | Inr _ \<Rightarrow> settle_denied rv fr s i denial (o1 w))"

definition approve_dispatch where
  "approve_dispatch rv fr o1 o2 s i approval = approve_capability_action rv fr o1 o2 s i approval ApprovedDispatch"

definition approve_spawn where
  "approve_spawn rv fr o1 o2 s i approval = approve_capability_action rv fr o1 o2 s i approval ApprovedSpawn"

definition retry_lease_issue_for_dispatch where
  "retry_lease_issue_for_dispatch rv fr o1 s i approval = retry_lease_issue_for_action rv fr o1 s i approval ApprovedDispatch"

definition retry_lease_issue_for_spawn where
  "retry_lease_issue_for_spawn rv fr o1 s i approval = retry_lease_issue_for_action rv fr o1 s i approval ApprovedSpawn"

section \<open>Interleaved resolver calls\<close>

text \<open>
  The in-memory stores, any number of resolver calls in flight, and the rest of the system: new
  and discarded requests, and the life of issued leases. A call that waits is a task with what it
  keeps on its stack; it may be cancelled at any time, and lease issuance may fail.
\<close>

datatype 'd task =
    Checked ResourceScope ApprovalRequestId CapabilityId "'d LeaseApproval" InvocationFingerprint
  | Decided "'d ApprovalRecord" CapabilityId "'d LeaseApproval" InvocationFingerprint
  | Denying ResourceScope ApprovalRequestId DenyApproval

type_synonym 'd mem_world = "('d ApprovalStore, 'd LeaseStore) ResolverWorld"

definition mem_resolver :: "(AuditEnvelope \<Rightarrow> bool) option \<Rightarrow> (uuid \<Rightarrow> string)
    \<Rightarrow> ('d ApprovalStore, 'd LeaseStore, 'd) ApprovalResolver" where
  "mem_resolver sink show_uuid = \<lparr>rv_get = (\<lambda>s i a. Ok (approvals_get s i a)), rv_approve = approvals_approve,
     rv_deny = approvals_deny, rv_issue = mem_issue, rv_audit_sink = sink, rv_show_uuid = show_uuid\<rparr>"

inductive resolver_step :: "('d ApprovalStore, 'd LeaseStore, 'd) ApprovalResolver
    \<Rightarrow> 'd mem_world \<times> 'd task list \<Rightarrow> 'd mem_world \<times> 'd task list \<Rightarrow> bool" for rv where
  start_approve: "check_pending rv s i expected w = Ok (c, fp)
    \<Longrightarrow> resolver_step rv (w, ts) (w, Checked s i c approval fp # ts)"
| start_retry: "check_approved rv s i expected w = Ok (r, c, fp)
    \<Longrightarrow> resolver_step rv (w, ts) (w, Decided r c approval fp # ts)"
| start_deny: "check_deniable rv s i w = Ok () \<Longrightarrow> resolver_step rv (w, ts) (w, Denying s i denial # ts)"
| approved: "settle_approved rv s i w = (Ok r, w')
    \<Longrightarrow> resolver_step rv (w, Checked s i c approval fp # ts) (w', Decided r c approval fp # ts)"
| approve_failed: "settle_approved rv s i w = (Err e, w') \<Longrightarrow> resolver_step rv (w, Checked s i c approval fp # ts) (w', ts)"
| issued: "issue_lease_for_approved rv fr r c approval fp w = (res, w')
    \<Longrightarrow> resolver_step rv (w, Decided r c approval fp # ts) (w', ts)"
| denied: "settle_denied rv fr s i denial w = (res, w') \<Longrightarrow> resolver_step rv (w, Denying s i denial # ts) (w', ts)"
| cancelled: "resolver_step rv (w, t # ts) (w, ts)"
| scheduled: "mset ts' = mset ts \<Longrightarrow> resolver_step rv (w, ts) (w, ts')"
| requested: "approvals_save_pending s q (w_approvals w) = (res, a) \<Longrightarrow> resolver_step rv (w, ts) (w\<lparr>w_approvals := a\<rparr>, ts)"
| discarded: "approvals_discard_pending s i (w_approvals w) = (res, a) \<Longrightarrow> resolver_step rv (w, ts) (w\<lparr>w_approvals := a\<rparr>, ts)"
| lease_used: "resolver_step rv (w, ts) (w\<lparr>w_leases := mem_op op (w_leases w)\<rparr>, ts)"

text \<open>The lease is covered by a stored record that is approved and says the same.\<close>

definition backed :: "'d ApprovalStore \<Rightarrow> ResourceScope \<Rightarrow> CapabilityId \<Rightarrow> Principal \<Rightarrow> InvocationFingerprint \<Rightarrow> bool" where
  "backed a s c p fp = (\<exists>r expected. hm_get a (owner_of s, ar_id (apr_request r)) = Some r \<and> apr_status r = ApApproved
     \<and> apr_scope r = s \<and> ar_requested_by (apr_request r) = p \<and> lease_terms r expected = Ok (c, fp))"

definition lease_backed :: "'d ApprovalStore \<Rightarrow> 'd CapabilityLease \<Rightarrow> bool" where
  "lease_backed a l = (\<exists>fp. lease_fingerprint l = Some fp
     \<and> backed a (lease_scope l) (grant_capability (lease_grant l)) (grantee (lease_grant l)) fp)"

fun task_ok :: "'d ApprovalStore \<Rightarrow> 'd task \<Rightarrow> bool" where
  "task_ok a (Checked s i c approval fp) \<longleftrightarrow>
     (\<exists>r expected. hm_get a (owner_of s, i) = Some r \<and> lease_terms r expected = Ok (c, fp))"
| "task_ok a (Decided r c approval fp) \<longleftrightarrow> hm_get a (owner_of (apr_scope r), ar_id (apr_request r)) = Some r
     \<and> apr_status r = ApApproved \<and> (\<exists>expected. lease_terms r expected = Ok (c, fp))"
| "task_ok a (Denying s i denial) \<longleftrightarrow> True"

definition keyed :: "'d ApprovalStore \<Rightarrow> bool" where
  "keyed a = (\<forall>k r. hm_get a k = Some r \<longrightarrow> k = (owner_of (apr_scope r), ar_id (apr_request r)))"

definition resolver_inv :: "'d mem_world \<times> 'd task list \<Rightarrow> bool" where
  "resolver_inv cfg = (keyed (w_approvals (fst cfg))
     \<and> (\<forall>k l. hm_get (w_leases (fst cfg)) k = Some l \<longrightarrow> lease_backed (w_approvals (fst cfg)) l)
     \<and> (\<forall>t \<in> set (snd cfg). task_ok (w_approvals (fst cfg)) t))"

lemma keyedD: "keyed a \<Longrightarrow> hm_get a k = Some r \<Longrightarrow> k = (owner_of (apr_scope r), ar_id (apr_request r))"
  unfolding keyed_def by blast

text \<open>Calls on the approval store only add records and settle pending ones.\<close>

definition extends :: "'d ApprovalStore \<Rightarrow> 'd ApprovalStore \<Rightarrow> bool" where
  "extends a a' = (\<forall>k r. hm_get a k = Some r \<longrightarrow> (\<exists>st. hm_get a' k = Some (r\<lparr>apr_status := st\<rparr>)
     \<and> (apr_status r \<noteq> ApPending \<longrightarrow> st = apr_status r)))"

lemma status_same [simp]: "r\<lparr>apr_status := apr_status r\<rparr> = r"
  by simp

lemma extends_refl: "extends a a"
  unfolding extends_def by (metis status_same)

lemmas approval_ops = approvals_save_pending_def approvals_approve_def approvals_deny_def
  approvals_update_status_def approvals_discard_pending_def

lemma update_effect:
  "snd (approvals_update_status s i st a) = a \<or> (\<exists>r. hm_get a (owner_of s, i) = Some r \<and> apr_status r = ApPending
    \<and> snd (approvals_update_status s i st a) = hm_insert (owner_of s, i) (r\<lparr>apr_status := st\<rparr>) a)"
  by (auto simp: approvals_update_status_def split: option.split)

lemma discard_effect:
  "snd (approvals_discard_pending s i a) = snd (approvals_update_status s i ApDiscarded a)"
  by (auto simp: approvals_discard_pending_def approvals_update_status_def split: option.split)

lemma save_effect:
  "snd (approvals_save_pending s q a) = a \<or> (hm_get a (owner_of s, ar_id q) = None
    \<and> snd (approvals_save_pending s q a)
      = hm_insert (owner_of s, ar_id q) \<lparr>apr_scope = s, apr_request = q, apr_status = ApPending\<rparr> a)"
  by (auto simp: approvals_save_pending_def hm_contains_iff Let_def)

lemma exec_effect:
  obtains (same) "snd (approvals_exec op a) = a"
  | (saved) s q where "hm_get a (owner_of s, ar_id q) = None"
      "snd (approvals_exec op a) = hm_insert (owner_of s, ar_id q) \<lparr>apr_scope = s, apr_request = q, apr_status = ApPending\<rparr> a"
  | (settled) k r st where "hm_get a k = Some r" "apr_status r = ApPending"
      "snd (approvals_exec op a) = hm_insert k (r\<lparr>apr_status := st\<rparr>) a"
proof (cases op)
  case (OSave s q)
  with save_effect [of s q a] same saved show thesis by (metis approvals_exec.simps(1))
next
  case (OApprove s i)
  with update_effect [of s i ApApproved a] same settled show thesis
    by (metis approvals_exec.simps(2) approvals_approve_def)
next
  case (ODeny s i)
  with update_effect [of s i ApDenied a] same settled show thesis
    by (metis approvals_exec.simps(3) approvals_deny_def)
next
  case (ODiscard s i)
  with update_effect [of s i ApDiscarded a] discard_effect [of s i a] same settled show thesis
    by (metis approvals_exec.simps(4))
qed

lemma exec_extends: "extends a (snd (approvals_exec op a))"
proof (cases rule: exec_effect [where op = op and a = a])
  case same
  then show ?thesis by (simp add: extends_refl)
next
  case (saved s q)
  then show ?thesis using extends_refl [of a] by (auto simp: extends_def hm_get_insert)
next
  case (settled k r st)
  then show ?thesis using extends_refl [of a] by (auto simp: extends_def hm_get_insert)
qed

lemma exec_keyed: "keyed a \<Longrightarrow> keyed (snd (approvals_exec op a))"
  by (cases rule: exec_effect [where op = op and a = a]) (auto simp: keyed_def hm_get_insert)

lemma lease_terms_status [simp]: "lease_terms (r\<lparr>apr_status := st\<rparr>) e = lease_terms r e"
  by (simp add: lease_terms_def split: option.split)

lemma extends_approved: "extends a a' \<Longrightarrow> hm_get a k = Some r \<Longrightarrow> apr_status r = ApApproved \<Longrightarrow> hm_get a' k = Some r"
  unfolding extends_def by (metis ApprovalStatus.distinct(1) status_same)

lemma backed_extends: "extends a a' \<Longrightarrow> backed a s c p fp \<Longrightarrow> backed a' s c p fp"
  unfolding backed_def by (blast dest: extends_approved)

lemma task_ok_extends: "extends a a' \<Longrightarrow> task_ok a t \<Longrightarrow> task_ok a' t"
proof (cases t)
  case (Checked s i c approval fp)
  assume "extends a a'" "task_ok a t"
  from \<open>task_ok a t\<close> Checked obtain r e where r: "hm_get a (owner_of s, i) = Some r" "lease_terms r e = Ok (c, fp)"
    by auto
  with \<open>extends a a'\<close> obtain st where "hm_get a' (owner_of s, i) = Some (r\<lparr>apr_status := st\<rparr>)"
    unfolding extends_def by blast
  with r(2) Checked show ?thesis by (auto simp del: split_paired_Ex)
qed (auto dest: extends_approved)

lemma resolver_inv_extends:
  assumes "resolver_inv (w, ts)" and "extends (w_approvals w) a" and "keyed a"
  shows "resolver_inv (w\<lparr>w_approvals := a\<rparr>, ts)"
  using assms backed_extends task_ok_extends
  by (fastforce simp: resolver_inv_def lease_backed_def)

lemma resolver_inv_exec: "resolver_inv (w, ts) \<Longrightarrow> resolver_inv (w\<lparr>w_approvals := snd (approvals_exec op (w_approvals w))\<rparr>, ts)"
  by (rule resolver_inv_extends) (auto simp: exec_extends exec_keyed resolver_inv_def)

lemma emit_stores [simp]:
  "w_approvals (emit_approval_resolved rv fr s q p d w) = w_approvals w"
  "w_leases (emit_approval_resolved rv fr s q p d w) = w_leases w"
  by (simp_all add: emit_approval_resolved_def emit_audit_best_effort_def split: option.split)

lemma resolver_inv_stores:
  "w_approvals w' = w_approvals w \<Longrightarrow> w_leases w' = w_leases w \<Longrightarrow> resolver_inv (w', ts) = resolver_inv (w, ts)"
  by (simp add: resolver_inv_def)

lemma resolver_inv_tasks: "resolver_inv (w, ts) \<Longrightarrow> set ts' \<subseteq> set ts \<Longrightarrow> resolver_inv (w, ts')"
  by (auto simp: resolver_inv_def)

lemma resolver_inv_Cons:
  "resolver_inv (w, t # ts) \<longleftrightarrow> task_ok (w_approvals w) t \<and> resolver_inv (w, ts)"
  by (auto simp: resolver_inv_def)

lemma check_pending_Ok:
  "check_pending (mem_resolver sink sh) s i expected w = Ok (c, fp) \<longleftrightarrow>
    (\<exists>r. hm_get (w_approvals w) (owner_of s, i) = Some r \<and> apr_status r = ApPending \<and> lease_terms r expected = Ok (c, fp))"
  by (cases "hm_get (w_approvals w) (owner_of s, i)")
    (auto simp: check_pending_def require_record_def mem_resolver_def approvals_get_def opt_filter_def)

lemma check_approved_Ok:
  "check_approved (mem_resolver sink sh) s i expected w = Ok (r, c, fp) \<longleftrightarrow>
    hm_get (w_approvals w) (owner_of s, i) = Some r \<and> apr_status r = ApApproved \<and> lease_terms r expected = Ok (c, fp)"
  by (cases "hm_get (w_approvals w) (owner_of s, i)"; cases "lease_terms r expected")
    (auto simp: check_approved_def require_record_def mem_resolver_def approvals_get_def opt_filter_def result_bind_def
      split: sum.splits)

lemma settle_approved_mem:
  "settle_approved (mem_resolver sink sh) s i w =
    (settled_result (fst (approvals_exec (OApprove s i) (w_approvals w))),
     w\<lparr>w_approvals := snd (approvals_exec (OApprove s i) (w_approvals w))\<rparr>)"
  by (simp add: settle_approved_def mem_resolver_def split: prod.split)

lemma settled_result_Ok: "settled_result res = Ok r \<longleftrightarrow> res = Ok r"
  by (auto simp: settled_result_def split: sum.splits RunStateError.splits)

lemma approve_Ok:
  "fst (approvals_exec (OApprove s i) a) = Ok r \<longleftrightarrow>
    (\<exists>old. hm_get a (owner_of s, i) = Some old \<and> apr_status old = ApPending \<and> r = old\<lparr>apr_status := ApApproved\<rparr>)"
  by (auto simp: approvals_approve_def approvals_update_status_def split: option.splits)

lemma approve_stored:
  "fst (approvals_exec (OApprove s i) a) = Ok r \<Longrightarrow> hm_get (snd (approvals_exec (OApprove s i) a)) (owner_of s, i) = Some r"
  by (auto simp: approvals_approve_def approvals_update_status_def hm_simps split: option.splits)

text \<open>The three writing parts of the handlers keep the invariant.\<close>

lemma resolver_inv_approved:
  assumes "resolver_inv (w, Checked s i c approval fp # ts)"
    and "settle_approved (mem_resolver sink sh) s i w = (Ok r, w')"
  shows "resolver_inv (w', Decided r c approval fp # ts)"
proof -
  let ?op = "OApprove s i"
  from assms(2) have w': "w' = w\<lparr>w_approvals := snd (approvals_exec ?op (w_approvals w))\<rparr>"
    and ok: "fst (approvals_exec ?op (w_approvals w)) = Ok r"
    by (auto simp: settle_approved_mem settled_result_Ok)
  have inv: "resolver_inv (w', ts)" and t: "task_ok (w_approvals w) (Checked s i c approval fp)"
    using assms(1) resolver_inv_exec [of w ts ?op] by (simp_all add: resolver_inv_Cons w' del: approvals_exec.simps)
  from ok t obtain old e where old: "hm_get (w_approvals w) (owner_of s, i) = Some old"
      "r = old\<lparr>apr_status := ApApproved\<rparr>" "lease_terms old e = Ok (c, fp)"
    by (auto simp: approve_Ok simp del: approvals_exec.simps)
  moreover from approve_stored [OF ok] have st: "hm_get (w_approvals w') (owner_of s, i) = Some r"
    by (simp add: w' del: approvals_exec.simps)
  moreover from inv st have "(owner_of s, i) = (owner_of (apr_scope r), ar_id (apr_request r))"
    by (intro keyedD) (simp_all add: resolver_inv_def)
  ultimately show ?thesis
    using inv by (auto simp: resolver_inv_Cons)
qed

lemma resolver_inv_issued:
  assumes "resolver_inv (w, Decided r c approval fp # ts)"
    and "issue_lease_for_approved (mem_resolver sink sh) fr r c approval fp w = (res, w')"
  shows "resolver_inv (w', ts)"
proof -
  let ?l = "lease_for_approved fr r c approval fp"
  from assms(2) have w': "w_approvals w' = w_approvals w" "w_leases w' = hm_insert (lease_key ?l) ?l (w_leases w)"
    by (auto simp: issue_lease_for_approved_def mem_resolver_def mem_issue_def)
  from assms(1) have "lease_backed (w_approvals w) ?l"
    by (auto simp: resolver_inv_Cons lease_backed_def backed_def lease_for_approved_def CapabilityLease_new_def)
  with assms(1) show ?thesis
    by (auto simp: resolver_inv_def w' hm_get_insert)
qed

lemma transition_grant:
  "transition now op l = Ok l' \<Longrightarrow> lease_scope l' = lease_scope l \<and> lease_fingerprint l' = lease_fingerprint l
    \<and> grant_capability (lease_grant l') = grant_capability (lease_grant l) \<and> grantee (lease_grant l') = grantee (lease_grant l)"
  by (cases op) (auto simp: lease_defs Let_def split: if_splits option.splits)

lemma resolver_inv_lease_used:
  assumes "resolver_inv (w, ts)"
  shows "resolver_inv (w\<lparr>w_leases := mem_op op (w_leases w)\<rparr>, ts)"
proof -
  obtain now sc i lop where op: "op = (now, sc, i, lop)" by (cases op) auto
  have "lease_backed (w_approvals w) l"
    if "hm_get (mem_op op (w_leases w)) (s, j) = Some l" for s j l
  proof (cases "(s, j) = (sc, i)")
    case False
    with that assms show ?thesis
      by (auto simp: op mem_op_eq mem.get_do_op [unfolded mem_get_def] resolver_inv_def)
  next
    case True
    with that obtain l0 where l0: "hm_get (w_leases w) (sc, i) = Some l0" "l = l0 \<or> transition now lop l0 = Ok l"
      by (auto simp: op mem_op_eq mem.get_do_op [unfolded mem_get_def] split: option.splits sum.splits)
    then have "lease_backed (w_approvals w) l0" using assms by (auto simp: resolver_inv_def)
    with l0(2) transition_grant [of now lop l0 l] show ?thesis by (auto simp: lease_backed_def)
  qed
  with assms show ?thesis by (auto simp: resolver_inv_def)
qed

inductive_cases resolver_stepE: "resolver_step rv cfg cfg'"

lemma resolver_inv_step:
  assumes "resolver_step (mem_resolver sink sh) cfg cfg'" and "resolver_inv cfg"
  shows "resolver_inv cfg'"
  using assms
proof (induction rule: resolver_step.induct)
  case (start_approve s i expected w c fp ts approval)
  then show ?case by (auto simp: resolver_inv_Cons check_pending_Ok)
next
  case (start_retry s i expected w r c fp ts approval)
  then have r: "hm_get (w_approvals w) (owner_of s, i) = Some r" "apr_status r = ApApproved" "lease_terms r expected = Ok (c, fp)"
    by (simp_all add: check_approved_Ok)
  with start_retry(2) have "(owner_of s, i) = (owner_of (apr_scope r), ar_id (apr_request r))"
    by (intro keyedD) (simp_all add: resolver_inv_def)
  with r start_retry(2) show ?case by (auto simp: resolver_inv_Cons)
next
  case (approved s i w r w' c approval fp ts)
  then show ?case by (rule resolver_inv_approved [rotated])
next
  case (approve_failed s i w e w' c approval fp ts)
  then show ?case
    using resolver_inv_exec [of w ts "OApprove s i"]
    by (auto simp: resolver_inv_Cons settle_approved_mem simp del: approvals_exec.simps)
next
  case (issued fr r c approval fp w res w' ts)
  then show ?case by (rule resolver_inv_issued [rotated])
next
  case (denied fr s i denial w res w' ts)
  then have "w_approvals w' = snd (approvals_exec (ODeny s i) (w_approvals w))" "w_leases w' = w_leases w"
    by (auto simp: settle_denied_def mem_resolver_def split: prod.splits sum.splits)
  then have "resolver_inv (w', ts)
      = resolver_inv (w\<lparr>w_approvals := snd (approvals_exec (ODeny s i) (w_approvals w))\<rparr>, ts)"
    by (intro resolver_inv_stores) (simp_all del: approvals_exec.simps)
  with denied(2) resolver_inv_exec [of w ts "ODeny s i"] show ?case
    by (simp add: resolver_inv_Cons del: approvals_exec.simps)
next
  case (scheduled ts' ts w)
  then show ?case by (auto intro: resolver_inv_tasks dest: mset_eq_setD)
next
  case (requested s q w res a ts)
  with resolver_inv_exec [of w ts "OSave s q"] show ?case by simp
next
  case (discarded s i w res a ts)
  with resolver_inv_exec [of w ts "ODiscard s i"] show ?case by simp
next
  case (lease_used w ts op)
  then show ?case by (rule resolver_inv_lease_used)
qed (auto simp: resolver_inv_Cons)

definition empty_world :: "'d mem_world" where
  "empty_world = \<lparr>w_approvals = [], w_leases = [], w_audit = []\<rparr>"

lemma resolver_inv_reachable:
  assumes "(resolver_step (mem_resolver sink sh))\<^sup>*\<^sup>* (empty_world, []) cfg"
  shows "resolver_inv cfg"
  using assms
proof induction
  case base
  then show ?case by (simp add: resolver_inv_def empty_world_def keyed_def)
next
  case (step cfg cfg')
  then show ?case using resolver_inv_step by blast
qed

lemma lease_terms_Ok:
  "lease_terms r e = Ok (c, fp) \<longleftrightarrow> capability_for_action (ar_action (apr_request r)) e = Some c
    \<and> ar_invocation_fingerprint (apr_request r) = Some fp"
  by (auto simp: lease_terms_def split: option.splits)

section \<open>Properties\<close>

text \<open>
  C8: no lease without approval. However approve, retry and deny calls interleave, with requests
  being opened and discarded and leases being used, with calls cancelled between any two
  operations and lease issuance failing: every lease in the store belongs to a request that is
  stored as approved, for exactly the scope, the requesting principal, the capability and the
  invocation fingerprint of that request.
\<close>

theorem lease_backed_by_approval:
  assumes "(resolver_step (mem_resolver sink sh))\<^sup>*\<^sup>* (empty_world, []) (w, ts)"
    and "mem_get (w_leases w) sc j = Some l"
  shows "\<exists>r e. approvals_get (lease_scope l) (ar_id (apr_request r)) (w_approvals w) = Some r
    \<and> apr_status r = ApApproved \<and> apr_scope r = lease_scope l
    \<and> ar_requested_by (apr_request r) = grantee (lease_grant l)
    \<and> capability_for_action (ar_action (apr_request r)) e = Some (grant_capability (lease_grant l))
    \<and> ar_invocation_fingerprint (apr_request r) = lease_fingerprint l \<and> lease_fingerprint l \<noteq> None"
proof -
  from resolver_inv_reachable [OF assms(1)] assms(2) have "lease_backed (w_approvals w) l"
    by (auto simp: resolver_inv_def mem_get_def)
  then show ?thesis
    unfolding lease_backed_def backed_def lease_terms_Ok approvals_get_def opt_filter_def by force
qed

definition example_approval :: "nat LeaseApproval" where
  "example_approval = \<lparr>la_issued_by = PUser ''admin'', la_constraints = constraints (lease_grant (example_lease None None LeaseActive))\<rparr>"

definition example_fresh :: fresh where
  "example_fresh = \<lparr>fresh_grant_id = 5, fresh_event_id = 6, fresh_now = 0\<rparr>"

definition example_world :: "nat mem_world" where
  "example_world = empty_world\<lparr>w_approvals := example_approvals\<rparr>"

abbreviation example_resolver :: "(nat ApprovalStore, nat LeaseStore, nat) ApprovalResolver" where
  "example_resolver \<equiv> mem_resolver (Some (\<lambda>_. True)) (\<lambda>_. ''id'')"

text \<open>A handler that is not disturbed is a path of the step relation.\<close>

lemma approve_steps:
  assumes "approve_capability_action rv fr id id s i approval expected w = (Ok l, w')"
  shows "(resolver_step rv)\<^sup>*\<^sup>* (w, ts) (w', ts)"
proof -
  from assms obtain c fp r w1 where
    c: "check_pending rv s i expected w = Ok (c, fp)" and a: "settle_approved rv s i w = (Ok r, w1)"
    and l: "issue_lease_for_approved rv fr r c approval fp w1 = (Ok l, w')"
    by (auto simp: approve_capability_action_def split: sum.splits prod.splits)
  from start_approve [OF c] approved [OF a] issued [OF l] show ?thesis
    by (meson converse_rtranclp_into_rtranclp rtranclp.rtrancl_refl)
qed

theorem lease_backed_by_approval_witness:
  "\<exists>w l. (resolver_step example_resolver)\<^sup>*\<^sup>* (empty_world, []) (w, [])
    \<and> mem_get (w_leases w) (tenant_scope ''a'') 5 = Some l
    \<and> (\<exists>r. approvals_get (lease_scope l) (ar_id (apr_request r)) (w_approvals w) = Some r \<and> apr_status r = ApApproved)"
proof -
  let ?run = "approve_capability_action example_resolver example_fresh id id (tenant_scope ''a'') 7 example_approval ApprovedDispatch example_world"
  have "resolver_step example_resolver (empty_world, []) (example_world, [])"
    using requested [of "tenant_scope ''a''" example_request empty_world _ example_approvals example_resolver "[]"]
    by (simp add: example_world_def example_approvals_def empty_world_def prod_eq_iff)
  moreover have "is_ok (fst ?run)" by code_simp
  then obtain l where "?run = (Ok l, snd ?run)" by (cases "fst ?run") (auto simp: prod_eq_iff)
  from approve_steps [OF this] have "(resolver_step example_resolver)\<^sup>*\<^sup>* (example_world, []) (snd ?run, [])" .
  ultimately have path: "(resolver_step example_resolver)\<^sup>*\<^sup>* (empty_world, []) (snd ?run, [])" by (rule converse_rtranclp_into_rtranclp)
  have "mem_get (w_leases (snd ?run)) (tenant_scope ''a'') 5 \<noteq> None" by code_simp
  then obtain l' where l': "mem_get (w_leases (snd ?run)) (tenant_scope ''a'') 5 = Some l'" by blast
  from lease_backed_by_approval [OF path l'] path l' show ?thesis by blast
qed

text \<open>What other tasks may do to the stores while a handler waits.\<close>

definition others_act :: "'d ApprovalOp list \<Rightarrow> (instant \<times> ResourceScope \<times> CapabilityGrantId \<times> LeaseOp) list
    \<Rightarrow> 'd mem_world \<Rightarrow> 'd mem_world" where
  "others_act ops lops w = w\<lparr>w_approvals := approvals_run ops (w_approvals w), w_leases := fold mem_op lops (w_leases w)\<rparr>"

lemma extends_trans: "extends a b \<Longrightarrow> extends b c \<Longrightarrow> extends a c"
  unfolding extends_def by (metis (no_types, lifting) ApprovalRecord.select_convs(3) ApprovalRecord.surjective
      ApprovalRecord.update_convs(3))

lemma run_extends: "extends a (approvals_run ops a)"
proof (induction ops arbitrary: a)
  case (Cons op ops)
  then show ?case
    using extends_trans [OF exec_extends [of a op]] by (simp add: approvals_run_def del: approvals_exec.simps)
qed (simp add: approvals_run_def extends_refl)

lemma settle_approved_Err:
  "settle_approved (mem_resolver sink sh) s i w = (Err e, w') \<Longrightarrow> w' = w"
  by (auto simp: settle_approved_def mem_resolver_def approvals_approve_def approvals_update_status_def settled_result_def
      split: option.splits if_splits)

lemma settle_approved_pending:
  assumes "hm_get (w_approvals w) (owner_of s, i) = Some old" and "apr_status old = ApPending"
  shows "settle_approved (mem_resolver sink sh) s i w =
    (Ok (old\<lparr>apr_status := ApApproved\<rparr>),
     w\<lparr>w_approvals := hm_insert (owner_of s, i) (old\<lparr>apr_status := ApApproved\<rparr>) (w_approvals w)\<rparr>)"
  using assms by (simp add: settle_approved_def mem_resolver_def approvals_approve_def approvals_update_status_def settled_result_def)

lemma settle_approved_settled:
  assumes "hm_get (w_approvals w) (owner_of s, i) = Some old" and "apr_status old \<noteq> ApPending"
  shows "settle_approved (mem_resolver sink sh) s i w = (Err (ResNotPending (apr_status old)), w)"
  using assms by (simp add: settle_approved_def mem_resolver_def approvals_approve_def approvals_update_status_def settled_result_def)

lemma issue_mem:
  "issue_lease_for_approved (mem_resolver sink sh) fr r c approval fp w =
    (Ok (lease_for_approved fr r c approval fp),
     emit_approval_resolved (mem_resolver sink sh) fr (apr_scope r) (apr_request r) (la_issued_by approval) DecisionApproved
       (w\<lparr>w_leases := hm_insert (apr_scope r, fresh_grant_id fr) (lease_for_approved fr r c approval fp) (w_leases w)\<rparr>))"
  by (simp add: issue_lease_for_approved_def mem_resolver_def mem_issue_def lease_key_def lease_for_approved_def
      CapabilityLease_new_def)

lemma emit_audit:
  "w_audit (emit_approval_resolved (mem_resolver sink sh) fr s q p d w) = w_audit w @
    (case sink of None \<Rightarrow> [] | Some accepts \<Rightarrow>
       filter accepts [approval_resolved sh (fresh_event_id fr) (fresh_now fr) s q p d])"
  by (simp add: emit_approval_resolved_def emit_audit_best_effort_def mem_resolver_def split: option.split)

lemma approvals_get_approved:
  "hm_get a (owner_of s, i) = Some r \<Longrightarrow> apr_status r = ApApproved \<Longrightarrow> approvals_get s i a = Some r"
  by (simp add: approvals_get_def opt_filter_def)

lemma approvals_get_pending:
  "approvals_get s i a = Some r \<and> apr_status r = ApPending \<longleftrightarrow> hm_get a (owner_of s, i) = Some r \<and> apr_status r = ApPending"
  by (auto simp: approvals_get_def opt_filter_def split: option.splits if_splits)

lemma others_act_stores [simp]:
  "w_approvals (others_act ops lops w) = approvals_run ops (w_approvals w)"
  "w_leases (others_act ops lops w) = fold mem_op lops (w_leases w)"
  "w_audit (others_act ops lops w) = w_audit w"
  by (simp_all add: others_act_def)

text \<open>
  approving a request under interference. The call succeeds exactly when the request is pending
  and of the approved kind with a fingerprint when it is read, and still pending when it is
  settled. The lease it issues is then for the scope and requesting principal of the stored
  request, its capability and its fingerprint, and for nothing else; the request is left approved
  and an audit event is recorded when the sink takes it. When the call fails it has changed
  nothing: the two stores are as the other tasks left them.
\<close>

theorem approve_exact:
  assumes "approve_capability_action (mem_resolver sink sh) fr (others_act ops lops) (others_act ops' lops') s i approval expected w
      = (res, w')"
  shows "(is_ok res \<longleftrightarrow> (\<exists>old c fp. approvals_get s i (w_approvals w) = Some old \<and> apr_status old = ApPending
        \<and> capability_for_action (ar_action (apr_request old)) expected = Some c
        \<and> ar_invocation_fingerprint (apr_request old) = Some fp
        \<and> approvals_get s i (approvals_run ops (w_approvals w)) = Some old))
    \<and> (\<forall>l. res = Ok l \<longrightarrow> (\<exists>old. approvals_get s i (w_approvals w) = Some old
        \<and> lease_scope l = apr_scope old \<and> lease_status l = LeaseActive
        \<and> grant_id (lease_grant l) = fresh_grant_id fr
        \<and> capability_for_action (ar_action (apr_request old)) expected = Some (grant_capability (lease_grant l))
        \<and> lease_fingerprint l = ar_invocation_fingerprint (apr_request old)
        \<and> grantee (lease_grant l) = ar_requested_by (apr_request old)
        \<and> issued_by (lease_grant l) = la_issued_by approval \<and> constraints (lease_grant l) = la_constraints approval
        \<and> approvals_get s i (w_approvals w') = Some (old\<lparr>apr_status := ApApproved\<rparr>)
        \<and> mem_get (w_leases w') (apr_scope old) (fresh_grant_id fr) = Some l
        \<and> w_audit w' = w_audit w @ (case sink of None \<Rightarrow> [] | Some accepts \<Rightarrow> filter accepts
              [approval_resolved sh (fresh_event_id fr) (fresh_now fr) (apr_scope old) (apr_request old)
                (la_issued_by approval) DecisionApproved])))
    \<and> (\<not> is_ok res \<longrightarrow> w' = w \<or> w' = others_act ops lops w)"
proof (cases "check_pending (mem_resolver sink sh) s i expected w")
  case (Inl e)
  with assms have "res = Err e" "w' = w" by (simp_all add: approve_capability_action_def)
  moreover from Inl have "\<not> (\<exists>c fp. check_pending (mem_resolver sink sh) s i expected w = Ok (c, fp))" by simp
  ultimately show ?thesis
    by (auto simp: check_pending_Ok lease_terms_Ok approvals_get_def opt_filter_def split: option.splits if_splits)
next
  case (Inr cf)
  obtain c fp where cf: "cf = (c, fp)" by force
  with Inr obtain old where old: "hm_get (w_approvals w) (owner_of s, i) = Some old" "apr_status old = ApPending"
      "capability_for_action (ar_action (apr_request old)) expected = Some c" "ar_invocation_fingerprint (apr_request old) = Some fp"
    by (auto simp: check_pending_Ok lease_terms_Ok)
  from old(1) run_extends [of "w_approvals w" ops] obtain st
    where st: "hm_get (approvals_run ops (w_approvals w)) (owner_of s, i) = Some (old\<lparr>apr_status := st\<rparr>)"
    unfolding extends_def by blast
  let ?w1 = "others_act ops lops w"
  have get: "approvals_get s i (w_approvals w) = Some old"
    using old approvals_get_pending by blast
  show ?thesis
  proof (cases "st = ApPending")
    case False
    from st have "settle_approved (mem_resolver sink sh) s i ?w1 = (Err (ResNotPending st), ?w1)"
      using settle_approved_settled [of ?w1 s i "old\<lparr>apr_status := st\<rparr>" sink sh] False by simp
    with assms Inr cf have "res = Err (ResNotPending st)" "w' = ?w1"
      by (simp_all add: approve_capability_action_def)
    moreover have "approvals_get s i (approvals_run ops (w_approvals w)) \<noteq> Some old"
      using st False old(2) by (auto simp: approvals_get_def opt_filter_def split: if_splits dest: arg_cong [of _ _ apr_status])
    ultimately show ?thesis using get by auto
  next
    case True
    with st old(2) have st': "hm_get (w_approvals ?w1) (owner_of s, i) = Some old" by simp
    let ?r = "old\<lparr>apr_status := ApApproved\<rparr>"
    let ?w2 = "others_act ops' lops' (?w1\<lparr>w_approvals := hm_insert (owner_of s, i) ?r (w_approvals ?w1)\<rparr>)"
    have w2: "hm_get (w_approvals ?w2) (owner_of s, i) = Some ?r"
      unfolding others_act_stores by (rule extends_approved [OF run_extends]) (simp_all add: hm_get_insert)
    have res: "(res, w') = issue_lease_for_approved (mem_resolver sink sh) fr ?r c approval fp ?w2"
      using assms Inr cf settle_approved_pending [OF st' old(2)] by (simp add: approve_capability_action_def)
    have "approvals_get s i (approvals_run ops (w_approvals w)) = Some old"
      using st' old(2) approvals_get_pending [of s i _ old] by simp
    moreover have "approvals_get s i (w_approvals w') = Some ?r"
      using res w2 by (intro approvals_get_approved) (auto simp: issue_mem)
    ultimately show ?thesis
      using get old res
      by (auto simp: issue_mem lease_for_approved_def CapabilityLease_new_def mem_get_def hm_get_insert emit_audit)
  qed
qed

theorem approve_exact_witness:
  "\<exists>l w'. approve_capability_action example_resolver example_fresh (others_act [] []) (others_act [ODeny (tenant_scope ''a'') 7] [])
      (tenant_scope ''a'') 7 example_approval ApprovedDispatch example_world = (Ok l, w')
    \<and> grantee (lease_grant l) = PUser ''alice'' \<and> lease_fingerprint l = Some ''fp''
    \<and> grant_capability (lease_grant l) = ''shell.run''"
proof -
  let ?run = "approve_capability_action example_resolver example_fresh (others_act [] []) (others_act [ODeny (tenant_scope ''a'') 7] [])
      (tenant_scope ''a'') 7 example_approval ApprovedDispatch example_world"
  have "is_ok (fst ?run)" by code_simp
  then obtain l where l: "?run = (Ok l, snd ?run)" by (cases "fst ?run") (auto simp: prod_eq_iff)
  have "approvals_get (tenant_scope ''a'') 7 (w_approvals example_world)
      = Some \<lparr>apr_scope = tenant_scope ''a'', apr_request = example_request, apr_status = ApPending\<rparr>" by code_simp
  with approve_exact [OF l] have "grantee (lease_grant l) = PUser ''alice''" "lease_fingerprint l = Some ''fp''"
      "grant_capability (lease_grant l) = ''shell.run''"
    by (auto simp: example_request_def)
  with l show ?thesis by blast
qed

section \<open>Failed lease issuance\<close>

text \<open>The resolver over the same stores while the lease store is failing.\<close>

definition failing :: "CapabilityLeaseError \<Rightarrow> ('a, 'l, 'd) ApprovalResolver \<Rightarrow> ('a, 'l, 'd) ApprovalResolver" where
  "failing e rv = rv\<lparr>rv_issue := \<lambda>ls l. (Err e, ls)\<rparr>"

lemma failing_parts [simp]:
  "check_pending (failing e rv) = check_pending rv" "settle_approved (failing e rv) = settle_approved rv"
  "issue_lease_for_approved (failing e rv) fr r c approval fp w = (Err (ResLease e), w)"
  by (auto simp: failing_def check_pending_def require_record_def settle_approved_def issue_lease_for_approved_def fun_eq_iff)

lemma check_pending_no_lease_error: "check_pending rv s i expected w \<noteq> Inl (ResLease e)"
  by (auto simp: check_pending_def require_record_def lease_terms_def result_bind_def split: sum.splits option.splits if_splits)

lemma settle_approved_no_lease_error: "settle_approved rv s i w \<noteq> (Inl (ResLease e), w')"
  by (auto simp: settle_approved_def settled_result_def split: sum.splits prod.splits RunStateError.splits)

lemma require_settled:
  assumes "hm_get (w_approvals w) (owner_of s, i) = Some r" and "apr_status r = ApApproved"
  shows "require_record (mem_resolver sink sh) s i w = Ok r"
  using assms by (simp add: require_record_def mem_resolver_def approvals_get_approved)



end
