(* ===== verification/Runtime_Policy.thy ===== *)
theory Runtime_Policy
  imports Host_Api
begin

text \<open>
  Runtime profiles: the vocabulary of \<open>ironclaw_host_api/src/runtime_policy.rs\<close> and the resolver
  \<open>ironclaw_runtime_policy/src/resolver.rs\<close>, which turns a deployment mode, a requested profile and
  the organization's constraints into the backends an invocation gets.
\<close>

section \<open>Vocabulary\<close>

datatype DeploymentMode = LocalSingleUser | HostedMultiTenant | EnterpriseDedicated

datatype RuntimeProfile =
    SecureDefault | LocalSafe | LocalDev | LocalYolo | HostedSafe | HostedDev | HostedYoloTenantScoped
  | EnterpriseSafe | EnterpriseDev | EnterpriseYoloDedicated | Sandboxed | Experiment

datatype FilesystemBackendKind =
    ScopedVirtual | HostWorkspace | HostWorkspaceAndHome | TenantWorkspace | OrgDedicatedWorkspace

datatype ProcessBackendKind = NoProcess | Docker | Srt | SmolVm | LocalHost | TenantSandbox | OrgDedicatedRunner

datatype NetworkMode = NetDeny | Brokered | Allowlist | DirectLogged | Direct

datatype SecretMode = SecretDeny | BrokeredHandles | TenantBroker | OrgBroker | ScrubbedEnv | InheritedEnv

datatype ApprovalPolicy = AskAlways | AskWrites | AskDestructive | ApprovalOrgPolicy | Minimal

datatype AuditMode = LocalMinimal | AuditStandard | AuditOrgPolicy

fun deployment_as_str :: "DeploymentMode \<Rightarrow> string" where
  "deployment_as_str LocalSingleUser = ''local_single_user''"
| "deployment_as_str HostedMultiTenant = ''hosted_multi_tenant''"
| "deployment_as_str EnterpriseDedicated = ''enterprise_dedicated''"

record ParseRuntimePolicyEnumError =
  parse_kind :: string
  parse_value :: string

definition deployment_from_str :: "string \<Rightarrow> (ParseRuntimePolicyEnumError, DeploymentMode) result" where
  "deployment_from_str v =
    (if v = ''local_single_user'' then Ok LocalSingleUser
     else if v = ''hosted_multi_tenant'' then Ok HostedMultiTenant
     else if v = ''enterprise_dedicated'' then Ok EnterpriseDedicated
     else Err \<lparr>parse_kind = ''deployment mode'', parse_value = v\<rparr>)"

fun profile_as_str :: "RuntimeProfile \<Rightarrow> string" where
  "profile_as_str SecureDefault = ''secure_default''"
| "profile_as_str LocalSafe = ''local_safe''"
| "profile_as_str LocalDev = ''local_dev''"
| "profile_as_str LocalYolo = ''local_yolo''"
| "profile_as_str HostedSafe = ''hosted_safe''"
| "profile_as_str HostedDev = ''hosted_dev''"
| "profile_as_str HostedYoloTenantScoped = ''hosted_yolo_tenant_scoped''"
| "profile_as_str EnterpriseSafe = ''enterprise_safe''"
| "profile_as_str EnterpriseDev = ''enterprise_dev''"
| "profile_as_str EnterpriseYoloDedicated = ''enterprise_yolo_dedicated''"
| "profile_as_str Sandboxed = ''sandboxed''"
| "profile_as_str Experiment = ''experiment''"

definition profile_from_str :: "string \<Rightarrow> (ParseRuntimePolicyEnumError, RuntimeProfile) result" where
  "profile_from_str v =
    (if v = ''secure_default'' then Ok SecureDefault
     else if v = ''local_safe'' then Ok LocalSafe
     else if v = ''local_dev'' then Ok LocalDev
     else if v = ''local_yolo'' then Ok LocalYolo
     else if v = ''hosted_safe'' then Ok HostedSafe
     else if v = ''hosted_dev'' then Ok HostedDev
     else if v = ''hosted_yolo_tenant_scoped'' then Ok HostedYoloTenantScoped
     else if v = ''enterprise_safe'' then Ok EnterpriseSafe
     else if v = ''enterprise_dev'' then Ok EnterpriseDev
     else if v = ''enterprise_yolo_dedicated'' then Ok EnterpriseYoloDedicated
     else if v = ''sandboxed'' then Ok Sandboxed
     else if v = ''experiment'' then Ok Experiment
     else Err \<lparr>parse_kind = ''runtime profile'', parse_value = v\<rparr>)"

fun is_local :: "RuntimeProfile \<Rightarrow> bool" where
  "is_local LocalSafe = True" | "is_local LocalDev = True" | "is_local LocalYolo = True" | "is_local _ = False"

fun is_hosted :: "RuntimeProfile \<Rightarrow> bool" where
  "is_hosted HostedSafe = True" | "is_hosted HostedDev = True" | "is_hosted HostedYoloTenantScoped = True"
| "is_hosted _ = False"

fun is_enterprise :: "RuntimeProfile \<Rightarrow> bool" where
  "is_enterprise EnterpriseSafe = True" | "is_enterprise EnterpriseDev = True"
| "is_enterprise EnterpriseYoloDedicated = True" | "is_enterprise _ = False"

fun is_yolo :: "RuntimeProfile \<Rightarrow> bool" where
  "is_yolo LocalYolo = True" | "is_yolo HostedYoloTenantScoped = True" | "is_yolo EnterpriseYoloDedicated = True"
| "is_yolo _ = False"

fun allows_minimal_approval_bypass :: "RuntimeProfile \<Rightarrow> bool" where
  "allows_minimal_approval_bypass LocalYolo = True"
| "allows_minimal_approval_bypass HostedYoloTenantScoped = True"
| "allows_minimal_approval_bypass _ = False"

record EffectiveRuntimePolicy =
  erp_deployment :: DeploymentMode
  erp_requested_profile :: RuntimeProfile
  erp_resolved_profile :: RuntimeProfile
  erp_filesystem_backend :: FilesystemBackendKind
  erp_process_backend :: ProcessBackendKind
  erp_network_mode :: NetworkMode
  erp_secret_mode :: SecretMode
  erp_approval_policy :: ApprovalPolicy
  erp_audit_mode :: AuditMode

definition was_reduced :: "EffectiveRuntimePolicy \<Rightarrow> bool" where
  "was_reduced p = (erp_requested_profile p \<noteq> erp_resolved_profile p)"

section \<open>The resolver\<close>

record OrgPolicyConstraints =
  max_profile :: "RuntimeProfile option"
  admin_approves_dedicated_yolo :: bool

record ResolveRequest =
  rq_deployment :: DeploymentMode
  rq_requested_profile :: RuntimeProfile
  rq_org_policy :: OrgPolicyConstraints
  rq_yolo_disclosure_acknowledged :: bool

definition ResolveRequest_new :: "DeploymentMode \<Rightarrow> RuntimeProfile \<Rightarrow> ResolveRequest" where
  "ResolveRequest_new d p = \<lparr>rq_deployment = d, rq_requested_profile = p,
     rq_org_policy = \<lparr>max_profile = None, admin_approves_dedicated_yolo = False\<rparr>,
     rq_yolo_disclosure_acknowledged = False\<rparr>"

datatype ResolveError =
    IncompatibleDeployment DeploymentMode RuntimeProfile
  | YoloRequiresDisclosure RuntimeProfile
  | DedicatedYoloRequiresOrgAdminApproval
  | OrgPolicyCeilingFamilyMismatch RuntimeProfile RuntimeProfile

fun is_compatible :: "DeploymentMode \<Rightarrow> RuntimeProfile \<Rightarrow> bool" where
  "is_compatible _ SecureDefault = True"
| "is_compatible _ Sandboxed = True"
| "is_compatible _ Experiment = True"
| "is_compatible LocalSingleUser LocalSafe = True"
| "is_compatible LocalSingleUser LocalDev = True"
| "is_compatible LocalSingleUser LocalYolo = True"
| "is_compatible HostedMultiTenant HostedSafe = True"
| "is_compatible HostedMultiTenant HostedDev = True"
| "is_compatible HostedMultiTenant HostedYoloTenantScoped = True"
| "is_compatible EnterpriseDedicated EnterpriseSafe = True"
| "is_compatible EnterpriseDedicated EnterpriseDev = True"
| "is_compatible EnterpriseDedicated EnterpriseYoloDedicated = True"
| "is_compatible _ _ = False"

datatype ProfileFamily = FamilyLocal | FamilyHosted | FamilyEnterprise

fun family_rank :: "RuntimeProfile \<Rightarrow> (ProfileFamily \<times> nat) option" where
  "family_rank LocalSafe = Some (FamilyLocal, 1)"
| "family_rank LocalDev = Some (FamilyLocal, 2)"
| "family_rank LocalYolo = Some (FamilyLocal, 3)"
| "family_rank HostedSafe = Some (FamilyHosted, 1)"
| "family_rank HostedDev = Some (FamilyHosted, 2)"
| "family_rank HostedYoloTenantScoped = Some (FamilyHosted, 3)"
| "family_rank EnterpriseSafe = Some (FamilyEnterprise, 1)"
| "family_rank EnterpriseDev = Some (FamilyEnterprise, 2)"
| "family_rank EnterpriseYoloDedicated = Some (FamilyEnterprise, 3)"
| "family_rank _ = None"

definition narrow_to_ceiling :: "RuntimeProfile \<Rightarrow> RuntimeProfile \<Rightarrow> (ResolveError, RuntimeProfile) result" where
  "narrow_to_ceiling requested ceiling =
    (case family_rank requested of
       None \<Rightarrow> Err (OrgPolicyCeilingFamilyMismatch requested ceiling)
     | Some (req_family, req_rank) \<Rightarrow>
         (case family_rank ceiling of
            None \<Rightarrow> Err (OrgPolicyCeilingFamilyMismatch requested ceiling)
          | Some (ceil_family, ceil_rank) \<Rightarrow>
              if req_family \<noteq> ceil_family then Err (OrgPolicyCeilingFamilyMismatch requested ceiling)
              else if ceil_rank < req_rank then Ok ceiling else Ok requested))"

fun sandboxed_filesystem_for :: "DeploymentMode \<Rightarrow> FilesystemBackendKind" where
  "sandboxed_filesystem_for LocalSingleUser = ScopedVirtual"
| "sandboxed_filesystem_for HostedMultiTenant = TenantWorkspace"
| "sandboxed_filesystem_for EnterpriseDedicated = OrgDedicatedWorkspace"

fun sandboxed_secret_for :: "DeploymentMode \<Rightarrow> SecretMode" where
  "sandboxed_secret_for LocalSingleUser = BrokeredHandles"
| "sandboxed_secret_for HostedMultiTenant = TenantBroker"
| "sandboxed_secret_for EnterpriseDedicated = OrgBroker"

fun audit_for :: "DeploymentMode \<Rightarrow> AuditMode" where
  "audit_for LocalSingleUser = LocalMinimal"
| "audit_for HostedMultiTenant = AuditStandard"
| "audit_for EnterpriseDedicated = AuditOrgPolicy"

fun backends_for :: "DeploymentMode \<Rightarrow> RuntimeProfile
    \<Rightarrow> FilesystemBackendKind \<times> ProcessBackendKind \<times> NetworkMode \<times> SecretMode \<times> ApprovalPolicy \<times> AuditMode" where
  "backends_for d SecureDefault = (ScopedVirtual, NoProcess, Brokered, BrokeredHandles, AskAlways, audit_for d)"
| "backends_for d LocalSafe = (HostWorkspace, LocalHost, Brokered, ScrubbedEnv, AskWrites, LocalMinimal)"
| "backends_for d LocalDev = (HostWorkspace, LocalHost, DirectLogged, ScrubbedEnv, AskDestructive, LocalMinimal)"
| "backends_for d LocalYolo = (HostWorkspaceAndHome, LocalHost, Direct, InheritedEnv, Minimal, LocalMinimal)"
| "backends_for d HostedSafe = (TenantWorkspace, TenantSandbox, Brokered, TenantBroker, AskWrites, AuditStandard)"
| "backends_for d HostedDev = (TenantWorkspace, TenantSandbox, Allowlist, TenantBroker, AskDestructive, AuditStandard)"
| "backends_for d HostedYoloTenantScoped =
     (TenantWorkspace, TenantSandbox, Allowlist, TenantBroker, Minimal, AuditStandard)"
| "backends_for d EnterpriseSafe =
     (OrgDedicatedWorkspace, OrgDedicatedRunner, Brokered, OrgBroker, ApprovalOrgPolicy, AuditOrgPolicy)"
| "backends_for d EnterpriseDev =
     (OrgDedicatedWorkspace, OrgDedicatedRunner, Allowlist, OrgBroker, ApprovalOrgPolicy, AuditOrgPolicy)"
| "backends_for d EnterpriseYoloDedicated =
     (OrgDedicatedWorkspace, OrgDedicatedRunner, DirectLogged, OrgBroker, ApprovalOrgPolicy, AuditOrgPolicy)"
| "backends_for d Sandboxed =
     (sandboxed_filesystem_for d, Srt, Brokered, sandboxed_secret_for d, AskWrites, audit_for d)"
| "backends_for d Experiment =
     (sandboxed_filesystem_for d, SmolVm, Allowlist, sandboxed_secret_for d, AskDestructive, audit_for d)"

definition map_to_effective :: "DeploymentMode \<Rightarrow> RuntimeProfile \<Rightarrow> RuntimeProfile \<Rightarrow> EffectiveRuntimePolicy" where
  "map_to_effective d requested resolved =
    (case backends_for d resolved of (fs, proc, net, sec, appr, audit) \<Rightarrow>
      \<lparr>erp_deployment = d, erp_requested_profile = requested, erp_resolved_profile = resolved,
       erp_filesystem_backend = fs, erp_process_backend = proc, erp_network_mode = net, erp_secret_mode = sec,
       erp_approval_policy = appr, erp_audit_mode = audit\<rparr>)"

definition resolve :: "ResolveRequest \<Rightarrow> (ResolveError, EffectiveRuntimePolicy) result" where
  "resolve req =
    (if \<not> is_compatible (rq_deployment req) (rq_requested_profile req) then
       Err (IncompatibleDeployment (rq_deployment req) (rq_requested_profile req))
     else if is_yolo (rq_requested_profile req) \<and> \<not> rq_yolo_disclosure_acknowledged req then
       Err (YoloRequiresDisclosure (rq_requested_profile req))
     else if rq_requested_profile req = EnterpriseYoloDedicated
         \<and> \<not> admin_approves_dedicated_yolo (rq_org_policy req) then
       Err DedicatedYoloRequiresOrgAdminApproval
     else result_bind (case max_profile (rq_org_policy req) of
           Some ceiling \<Rightarrow> narrow_to_ceiling (rq_requested_profile req) ceiling
         | None \<Rightarrow> Ok (rq_requested_profile req))
       (\<lambda>resolved. Ok (map_to_effective (rq_deployment req) (rq_requested_profile req) resolved)))"

section \<open>Authority of a resolved policy\<close>

text \<open>The order of \<open>NetworkMode\<close> in its documentation, and the like for the other choices.\<close>

fun network_authority :: "NetworkMode \<Rightarrow> nat" where
  "network_authority NetDeny = 0" | "network_authority Brokered = 1" | "network_authority Allowlist = 2"
| "network_authority DirectLogged = 3" | "network_authority Direct = 4"

fun approval_authority :: "ApprovalPolicy \<Rightarrow> nat" where
  "approval_authority AskAlways = 0" | "approval_authority AskWrites = 1" | "approval_authority AskDestructive = 2"
| "approval_authority ApprovalOrgPolicy = 3" | "approval_authority Minimal = 4"

fun filesystem_authority :: "FilesystemBackendKind \<Rightarrow> nat" where
  "filesystem_authority ScopedVirtual = 0" | "filesystem_authority TenantWorkspace = 1"
| "filesystem_authority OrgDedicatedWorkspace = 2" | "filesystem_authority HostWorkspace = 3"
| "filesystem_authority HostWorkspaceAndHome = 4"

fun secret_authority :: "SecretMode \<Rightarrow> nat" where
  "secret_authority SecretDeny = 0" | "secret_authority BrokeredHandles = 1" | "secret_authority TenantBroker = 2"
| "secret_authority OrgBroker = 3" | "secret_authority ScrubbedEnv = 4" | "secret_authority InheritedEnv = 5"

definition at_most :: "EffectiveRuntimePolicy \<Rightarrow> EffectiveRuntimePolicy \<Rightarrow> bool" where
  "at_most p q = (network_authority (erp_network_mode p) \<le> network_authority (erp_network_mode q)
     \<and> approval_authority (erp_approval_policy p) \<le> approval_authority (erp_approval_policy q)
     \<and> filesystem_authority (erp_filesystem_backend p) \<le> filesystem_authority (erp_filesystem_backend q)
     \<and> secret_authority (erp_secret_mode p) \<le> secret_authority (erp_secret_mode q)
     \<and> erp_process_backend p = erp_process_backend q \<and> erp_audit_mode p = erp_audit_mode q)"

lemma resolve_Ok:
  "resolve req = Ok p \<longleftrightarrow> is_compatible (rq_deployment req) (rq_requested_profile req)
    \<and> (is_yolo (rq_requested_profile req) \<longrightarrow> rq_yolo_disclosure_acknowledged req)
    \<and> (rq_requested_profile req = EnterpriseYoloDedicated \<longrightarrow> admin_approves_dedicated_yolo (rq_org_policy req))
    \<and> (\<exists>resolved. (case max_profile (rq_org_policy req) of
           Some ceiling \<Rightarrow> narrow_to_ceiling (rq_requested_profile req) ceiling
         | None \<Rightarrow> Ok (rq_requested_profile req)) = Ok resolved
       \<and> p = map_to_effective (rq_deployment req) (rq_requested_profile req) resolved)"
  by (auto simp: resolve_def result_bind_def split: sum.splits)

lemma narrow_to_ceiling_Ok:
  "narrow_to_ceiling requested ceiling = Ok p \<longleftrightarrow> (\<exists>family r c. family_rank requested = Some (family, r)
    \<and> family_rank ceiling = Some (family, c) \<and> p = (if c < r then ceiling else requested))"
  by (auto simp: narrow_to_ceiling_def split: option.splits if_splits)

lemma narrow_compatible:
  "is_compatible d requested \<Longrightarrow> narrow_to_ceiling requested ceiling = Ok p \<Longrightarrow> is_compatible d p"
  by (cases requested; cases ceiling; cases d) (auto simp: narrow_to_ceiling_def split: if_splits)

lemma effective_fields:
  "erp_deployment (map_to_effective d q p) = d" "erp_requested_profile (map_to_effective d q p) = q"
  "erp_resolved_profile (map_to_effective d q p) = p"
  by (simp_all add: map_to_effective_def split: prod.split)

text \<open>What a compatible profile can reach, by deployment mode.\<close>

definition confined_to :: "DeploymentMode \<Rightarrow> EffectiveRuntimePolicy \<Rightarrow> bool" where
  "confined_to d p =
    (case d of
       LocalSingleUser \<Rightarrow> erp_filesystem_backend p \<in> {ScopedVirtual, HostWorkspace, HostWorkspaceAndHome}
         \<and> erp_process_backend p \<in> {NoProcess, Srt, SmolVm, LocalHost}
         \<and> erp_secret_mode p \<in> {BrokeredHandles, ScrubbedEnv, InheritedEnv}
     | HostedMultiTenant \<Rightarrow> erp_filesystem_backend p \<in> {ScopedVirtual, TenantWorkspace}
         \<and> erp_process_backend p \<in> {NoProcess, Srt, SmolVm, TenantSandbox}
         \<and> erp_network_mode p \<in> {Brokered, Allowlist} \<and> erp_secret_mode p \<in> {BrokeredHandles, TenantBroker}
     | EnterpriseDedicated \<Rightarrow> erp_filesystem_backend p \<in> {ScopedVirtual, OrgDedicatedWorkspace}
         \<and> erp_process_backend p \<in> {NoProcess, Srt, SmolVm, OrgDedicatedRunner}
         \<and> erp_network_mode p \<in> {Brokered, Allowlist, DirectLogged} \<and> erp_secret_mode p \<in> {BrokeredHandles, OrgBroker})"

lemma compatible_confined: "is_compatible d p \<Longrightarrow> confined_to d (map_to_effective d q p)"
  by (cases p; cases d) (simp_all add: confined_to_def map_to_effective_def)

lemma minimal_only_yolo:
  "erp_approval_policy (map_to_effective d q p) = Minimal \<longleftrightarrow> allows_minimal_approval_bypass p"
  "erp_network_mode (map_to_effective d q p) = Direct \<longleftrightarrow> p = LocalYolo"
  "erp_secret_mode (map_to_effective d q p) = InheritedEnv \<longleftrightarrow> p = LocalYolo"
  by (cases p; cases d; simp add: map_to_effective_def)+

lemma rank_monotone:
  "family_rank p = Some (f, m) \<Longrightarrow> family_rank q = Some (f, n) \<Longrightarrow> m \<le> n
    \<Longrightarrow> at_most (map_to_effective d x p) (map_to_effective d y q)"
  by (cases p; cases q) (auto simp: at_most_def map_to_effective_def)

lemma rank_yolo: "family_rank p = Some (f, m) \<Longrightarrow> is_yolo p \<longleftrightarrow> m = 3" "is_yolo p \<Longrightarrow> family_rank p \<noteq> None"
  by (cases p; auto)+

text \<open>
  C24: a resolved runtime policy stays inside its deployment and only narrows. Every resolved
  policy uses file systems, processes, network modes and secret modes of its own deployment mode:
  hosted tenants never reach the provider's host. A yolo profile, minimal approvals, direct
  network or inherited secrets come out only if a yolo profile was requested with the disclosure
  acknowledged. Under an organization ceiling the result is the lower of request and ceiling, in
  the same family, and grants at most what the request and at most what the ceiling would.
\<close>

theorem resolve_narrows:
  assumes "resolve req = Ok p"
  shows "confined_to (rq_deployment req) p
    \<and> (is_yolo (erp_resolved_profile p) \<or> erp_approval_policy p = Minimal \<or> erp_network_mode p = Direct
        \<or> erp_secret_mode p = InheritedEnv
        \<longrightarrow> is_yolo (rq_requested_profile req) \<and> rq_yolo_disclosure_acknowledged req)
    \<and> at_most p (map_to_effective (rq_deployment req) (rq_requested_profile req) (rq_requested_profile req))
    \<and> (was_reduced p \<longrightarrow> max_profile (rq_org_policy req) = Some (erp_resolved_profile p))
    \<and> (\<forall>ceiling. max_profile (rq_org_policy req) = Some ceiling \<longrightarrow>
        (\<exists>family r c. family_rank (rq_requested_profile req) = Some (family, r) \<and> family_rank ceiling = Some (family, c)
          \<and> family_rank (erp_resolved_profile p) = Some (family, min r c))
        \<and> at_most p (map_to_effective (rq_deployment req) (rq_requested_profile req) ceiling))"
proof -
  let ?q = "rq_requested_profile req" and ?d = "rq_deployment req"
  from assms obtain r where c: "is_compatible ?d ?q" and y: "is_yolo ?q \<Longrightarrow> rq_yolo_disclosure_acknowledged req"
    and r: "(case max_profile (rq_org_policy req) of Some ceiling \<Rightarrow> narrow_to_ceiling ?q ceiling | None \<Rightarrow> Ok ?q) = Ok r"
    and p: "p = map_to_effective ?d ?q r"
    by (auto simp: resolve_Ok)
  show ?thesis
  proof (cases "max_profile (rq_org_policy req)")
    case None
    with r have "r = ?q" by simp
    with None c y show ?thesis
      using minimal_only_yolo [of ?d ?q r] compatible_confined [OF c]
      by (cases ?q) (auto simp: p at_most_def was_reduced_def effective_fields)
  next
    case (Some ceiling)
    with r obtain family m n where n: "family_rank ?q = Some (family, m)" "family_rank ceiling = Some (family, n)"
        "r = (if n < m then ceiling else ?q)" and nr: "narrow_to_ceiling ?q ceiling = Ok r"
      by (auto simp: narrow_to_ceiling_Ok)
    then have rank: "family_rank r = Some (family, min m n)" by auto
    have le: "m \<le> 3" using n(1) by (cases ?q) auto
    have yolo: "is_yolo r \<Longrightarrow> is_yolo ?q"
      using rank_yolo(1) [OF rank] rank_yolo(1) [OF n(1)] le by auto
    have special: "allows_minimal_approval_bypass r \<Longrightarrow> is_yolo r" "r = LocalYolo \<Longrightarrow> is_yolo r" by (cases r; simp)+
    have "confined_to ?d p" using compatible_confined [OF narrow_compatible [OF c nr]] by (simp add: p)
    moreover have "at_most p (map_to_effective ?d ?q ?q)" "at_most p (map_to_effective ?d ?q ceiling)"
      using rank_monotone [OF rank n(1)] rank_monotone [OF rank n(2)] by (simp_all add: p)
    moreover have "was_reduced p \<longrightarrow> max_profile (rq_org_policy req) = Some (erp_resolved_profile p)"
      using n(3) Some by (simp add: p was_reduced_def effective_fields)
    moreover have "is_yolo (erp_resolved_profile p) \<or> erp_approval_policy p = Minimal \<or> erp_network_mode p = Direct
        \<or> erp_secret_mode p = InheritedEnv \<longrightarrow> is_yolo ?q \<and> rq_yolo_disclosure_acknowledged req"
      using yolo y special minimal_only_yolo [of ?d ?q r] by (auto simp: p effective_fields)
    ultimately show ?thesis using Some n rank by (auto simp: p effective_fields)
  qed
qed

theorem resolve_narrows_witness:
  "resolve ((ResolveRequest_new LocalSingleUser LocalYolo)\<lparr>rq_yolo_disclosure_acknowledged := True,
      rq_org_policy := \<lparr>max_profile = Some LocalSafe, admin_approves_dedicated_yolo = False\<rparr>\<rparr>)
      = Ok (map_to_effective LocalSingleUser LocalYolo LocalSafe)
    \<and> at_most (map_to_effective LocalSingleUser LocalYolo LocalSafe) (map_to_effective LocalSingleUser LocalYolo LocalYolo)
    \<and> confined_to LocalSingleUser (map_to_effective LocalSingleUser LocalYolo LocalSafe)"
proof -
  let ?req = "(ResolveRequest_new LocalSingleUser LocalYolo)\<lparr>rq_yolo_disclosure_acknowledged := True,
      rq_org_policy := \<lparr>max_profile = Some LocalSafe, admin_approves_dedicated_yolo = False\<rparr>\<rparr>"
  have "resolve ?req = Ok (map_to_effective LocalSingleUser LocalYolo LocalSafe)" by code_simp
  with resolve_narrows [OF this] show ?thesis by (simp add: ResolveRequest_new_def)
qed

end
