(* ===== verification/Network.thy ===== *)
theory Network
  imports Filesystem Byte_Text
begin

text \<open>
  Outbound network access (\<open>ironclaw_network\<close>): the policy on targets and addresses, the egress
  that checks a request before the transport sees it, and the transport with its pinned
  addresses, client cache and bounded response. Parsing of URLs (\<open>url\<close>), DNS and the HTTP client
  (\<open>reqwest\<close>) are parameters; parsing of IP addresses is that of the standard library.
\<close>

unbundle bit_operations_syntax

section \<open>IP addresses\<close>

datatype IpAddr = V4 u8 u8 u8 u8 | V6 u16 u16 u16 u16 u16 u16 u16 u16

text \<open>\<open>core::net\<close>'s parser. A digit of radix 10 or 16 and its value.\<close>

definition digit_value :: "nat \<Rightarrow> char \<Rightarrow> nat option" where
  "digit_value radix c =
    (let n = (of_char c :: nat);
         v = (if 48 \<le> n \<and> n \<le> 57 then Some (n - 48)
              else if 97 \<le> n \<and> n \<le> 102 then Some (n - 87)
              else if 65 \<le> n \<and> n \<le> 70 then Some (n - 55) else None)
     in opt_filter (\<lambda>d. d < radix) v)"

definition read_number :: "nat \<Rightarrow> nat \<Rightarrow> bool \<Rightarrow> string \<Rightarrow> (nat \<times> string) option" where
  "read_number radix max_digits allow_zero_prefix s =
    (let ds = takeWhile (\<lambda>c. digit_value radix c \<noteq> None) s in
     if ds = [] \<or> max_digits < length ds then None
     else if \<not> allow_zero_prefix \<and> hd ds = CHR ''0'' \<and> 1 < length ds then None
     else Some (foldl (\<lambda>a c. a * radix + the (digit_value radix c)) 0 ds, drop (length ds) s))"

definition read_separator :: "char \<Rightarrow> nat \<Rightarrow> (string \<Rightarrow> ('a \<times> string) option) \<Rightarrow> string \<Rightarrow> ('a \<times> string) option" where
  "read_separator sep i inner s =
    (if i = 0 then inner s
     else case s of [] \<Rightarrow> None | c # cs \<Rightarrow> if c = sep then inner cs else None)"

definition read_octet :: "nat \<Rightarrow> string \<Rightarrow> (nat \<times> string) option" where
  "read_octet i s = opt_filter (\<lambda>(n, _). n \<le> 255) (read_separator (CHR ''.'') i (read_number 10 3 False) s)"

definition read_ipv4_addr :: "string \<Rightarrow> ((nat \<times> nat \<times> nat \<times> nat) \<times> string) option" where
  "read_ipv4_addr s =
    Option.bind (read_octet 0 s) (\<lambda>(a, s).
    Option.bind (read_octet 1 s) (\<lambda>(b, s).
    Option.bind (read_octet 2 s) (\<lambda>(c, s).
    Option.bind (read_octet 3 s) (\<lambda>(d, s). Some ((a, b, c, d), s)))))"

function read_groups :: "nat \<Rightarrow> nat \<Rightarrow> string \<Rightarrow> nat list \<times> bool \<times> string" where
  "read_groups limit i s =
    (if limit \<le> i then ([], False, s)
     else case (if i < limit - 1 then read_separator (CHR '':'') i read_ipv4_addr s else None) of
       Some ((a, b, c, d), rest) \<Rightarrow> ([a * 256 + b, c * 256 + d], True, rest)
     | None \<Rightarrow>
         (case read_separator (CHR '':'') i (read_number 16 4 True) s of
            None \<Rightarrow> ([], False, s)
          | Some (g, rest) \<Rightarrow>
              (case read_groups limit (i + 1) rest of (gs, v4, rest') \<Rightarrow> (g # gs, v4, rest'))))"
  by pat_completeness auto
termination
  by (relation "measure (\<lambda>(limit, i, s). limit - i)") auto

declare read_groups.simps [simp del]

definition read_ipv6_addr :: "string \<Rightarrow> (nat list \<times> string) option" where
  "read_ipv6_addr s =
    (case read_groups 8 0 s of (head, head_ipv4, rest) \<Rightarrow>
      if length head = 8 then Some (head, rest)
      else if head_ipv4 then None
      else if take 2 rest \<noteq> ''::'' then None
      else (case read_groups (8 - (length head + 1)) 0 (drop 2 rest) of (tail, _, rest') \<Rightarrow>
        Some (head @ replicate (8 - length head - length tail) 0 @ tail, rest')))"

definition ip_parse :: "string \<Rightarrow> IpAddr option" where
  "ip_parse s =
    (case read_ipv4_addr s of
       Some ((a, b, c, d), rest) \<Rightarrow>
         if rest = [] then Some (V4 (of_nat a) (of_nat b) (of_nat c) (of_nat d)) else None
     | None \<Rightarrow>
         (case read_ipv6_addr s of
            Some ([a, b, c, d, e, f, g, h], []) \<Rightarrow>
              Some (V6 (of_nat a) (of_nat b) (of_nat c) (of_nat d) (of_nat e) (of_nat f) (of_nat g) (of_nat h))
          | _ \<Rightarrow> None))"

text \<open>The predicates of \<open>Ipv4Addr\<close> and \<open>Ipv6Addr\<close> that the policy uses.\<close>

definition v4_is_private :: "u8 \<Rightarrow> u8 \<Rightarrow> bool" where
  "v4_is_private a b = (a = 10 \<or> (a = 172 \<and> 16 \<le> b \<and> b \<le> 31) \<or> (a = 192 \<and> b = 168))"

definition v4_is_documentation :: "u8 \<Rightarrow> u8 \<Rightarrow> u8 \<Rightarrow> bool" where
  "v4_is_documentation a b c =
    ((a = 192 \<and> b = 0 \<and> c = 2) \<or> (a = 198 \<and> b = 51 \<and> c = 100) \<or> (a = 203 \<and> b = 0 \<and> c = 113))"

definition is_carrier_grade_nat_v4 :: "u8 \<Rightarrow> u8 \<Rightarrow> bool" where
  "is_carrier_grade_nat_v4 a b = (a = 100 \<and> 64 \<le> b \<and> b \<le> 127)"

definition is_private_v4 :: "u8 \<Rightarrow> u8 \<Rightarrow> u8 \<Rightarrow> u8 \<Rightarrow> bool" where
  "is_private_v4 a b c d =
    (v4_is_private a b \<or> a = 127 \<or> (a = 169 \<and> b = 254) \<or> (a = 255 \<and> b = 255 \<and> c = 255 \<and> d = 255)
     \<or> v4_is_documentation a b c \<or> (224 \<le> a \<and> a \<le> 239) \<or> a = 0 \<or> is_carrier_grade_nat_v4 a b)"

definition is_documentation_v6 :: "u16 \<Rightarrow> u16 \<Rightarrow> bool" where
  "is_documentation_v6 a b = (a = 0x2001 \<and> b = 0x0db8)"

fun is_private_or_loopback_ip :: "IpAddr \<Rightarrow> bool" where
  "is_private_or_loopback_ip (V4 a b c d) = is_private_v4 a b c d"
| "is_private_or_loopback_ip (V6 a b c d e f g h) =
    (if a = 0 \<and> b = 0 \<and> c = 0 \<and> d = 0 \<and> e = 0 \<and> f = 0xffff then
       is_private_v4 (ucast (drop_bit 8 g)) (ucast g) (ucast (drop_bit 8 h)) (ucast h)
     else (a = 0 \<and> b = 0 \<and> c = 0 \<and> d = 0 \<and> e = 0 \<and> f = 0 \<and> g = 0 \<and> h = 1)
       \<or> (a = 0 \<and> b = 0 \<and> c = 0 \<and> d = 0 \<and> e = 0 \<and> f = 0 \<and> g = 0 \<and> h = 0)
       \<or> a AND 0xfe00 = 0xfc00 \<or> a AND 0xffc0 = 0xfe80 \<or> a AND 0xff00 = 0xff00
       \<or> is_documentation_v6 a b)"

section \<open>Policy\<close>

record NetworkRequest =
  nr_scope :: ResourceScope
  nr_target :: NetworkTarget
  nr_method :: NetworkMethod
  nr_estimated_bytes :: "u64 option"

record NetworkPermit =
  np_scope :: ResourceScope
  np_target :: NetworkTarget
  np_method :: NetworkMethod
  np_estimated_bytes :: "u64 option"

datatype NetworkPolicyError =
    TargetDenied ResourceScope NetworkTarget
  | PrivateTargetDenied ResourceScope NetworkTarget
  | EgressEstimateRequired ResourceScope u64
  | EgressLimitExceeded ResourceScope u64 u64

definition host_matches_pattern :: "string \<Rightarrow> string \<Rightarrow> bool" where
  "host_matches_pattern host0 pattern0 =
    (let host = to_ascii_lowercase host0; pattern = to_ascii_lowercase pattern0 in
     if pattern = ''*'' then True
     else case strip_prefix ''*.'' pattern of
       Some sfx \<Rightarrow>
         (case strip_suffix (''.'' @ sfx) host of
            None \<Rightarrow> False
          | Some pre \<Rightarrow> pre \<noteq> [] \<and> CHR ''.'' \<notin> set pre)
     | None \<Rightarrow> host = pattern)"

definition target_matches_pattern :: "NetworkTarget \<Rightarrow> NetworkTargetPattern \<Rightarrow> bool" where
  "target_matches_pattern target pattern =
    (if ntp_scheme pattern \<noteq> None \<and> ntp_scheme pattern \<noteq> Some (nt_scheme target) then False
     else if ntp_port pattern \<noteq> None \<and> ntp_port pattern \<noteq> nt_port target then False
     else host_matches_pattern (nt_host target) (ntp_host_pattern pattern))"

definition private_literal :: "NetworkPolicy \<Rightarrow> NetworkTarget \<Rightarrow> bool" where
  "private_literal policy target = (deny_private_ip_ranges policy
     \<and> (case ip_parse (nt_host target) of None \<Rightarrow> False | Some ip \<Rightarrow> is_private_or_loopback_ip ip))"

definition network_policy_allows :: "NetworkPolicy \<Rightarrow> NetworkTarget \<Rightarrow> bool" where
  "network_policy_allows policy target =
    (if allowed_targets policy = [] then False
     else if private_literal policy target then False
     else list_ex (target_matches_pattern target) (allowed_targets policy))"

definition authorize_static_policy :: "NetworkPolicy \<Rightarrow> NetworkRequest \<Rightarrow> (NetworkPolicyError, NetworkPermit) result" where
  "authorize_static_policy policy request =
    result_bind
      (case max_egress_bytes policy of
         None \<Rightarrow> Ok ()
       | Some limit \<Rightarrow>
           (case nr_estimated_bytes request of
              None \<Rightarrow> Err (EgressEstimateRequired (nr_scope request) limit)
            | Some estimated \<Rightarrow>
                if limit < estimated then Err (EgressLimitExceeded (nr_scope request) estimated limit) else Ok ()))
      (\<lambda>_. if private_literal policy (nr_target request) then
             Err (PrivateTargetDenied (nr_scope request) (nr_target request))
           else if \<not> network_policy_allows policy (nr_target request) then
             Err (TargetDenied (nr_scope request) (nr_target request))
           else Ok \<lparr>np_scope = nr_scope request, np_target = nr_target request, np_method = nr_method request,
                    np_estimated_bytes = nr_estimated_bytes request\<rparr>)"

text \<open>The check on declared host patterns (\<open>host_api/action.rs\<close>).\<close>

definition is_host_byte :: "char \<Rightarrow> bool" where
  "is_host_byte c = (let n = (of_char c :: nat) in (48 \<le> n \<and> n \<le> 57) \<or> (65 \<le> n \<and> n \<le> 90) \<or> (97 \<le> n \<and> n \<le> 122)
     \<or> c = CHR ''.'' \<or> c = CHR ''-'' \<or> c = CHR ''_'')"

definition validate_network_host_pattern :: "string \<Rightarrow> (HostApiError, unit) result" where
  "validate_network_host_pattern pattern =
    (if pattern = [] \<or> 253 < length pattern then
       Err (InvalidNetworkTarget pattern ''host pattern must be non-empty and at most 253 bytes'')
     else if pattern = ''*'' then Ok ()
     else if CHR 0x00 \<in> set pattern \<or> has_control pattern then
       Err (InvalidNetworkTarget pattern ''host pattern must not contain NUL/control characters'')
     else let host = unwrap_or pattern (strip_prefix ''*.'' pattern) in
       if host = [] \<or> prefix ''.'' host \<or> suffix ''.'' host \<or> contains_str ''..'' host \<or> \<not> list_all is_host_byte host
       then Err (InvalidNetworkTarget pattern ''host pattern must contain only ASCII host-label characters'')
       else Ok ())"

section \<open>Requests, responses and errors\<close>

record NetworkUsage =
  nu_request_bytes :: u64
  nu_response_bytes :: u64
  nu_resolved_ip :: "IpAddr option"

record NetworkHttpResponse =
  resp_status :: u16
  resp_headers :: "(string \<times> string) list"
  resp_body :: bytes
  resp_usage :: NetworkUsage

record NetworkHttpRequest =
  hr_scope :: ResourceScope
  hr_method :: NetworkMethod
  hr_url :: string
  hr_headers :: "(string \<times> string) list"
  hr_body :: bytes
  hr_policy :: NetworkPolicy
  hr_response_body_limit :: "u64 option"
  hr_timeout_ms :: "u32 option"

record NetworkTransportRequest =
  tr_method :: NetworkMethod
  tr_url :: string
  tr_headers :: "(string \<times> string) list"
  tr_body :: bytes
  tr_resolved_ips :: "IpAddr list"
  tr_response_body_limit :: "u64 option"
  tr_timeout_ms :: "u32 option"

datatype NetworkTargetUrlError =
    UrlParse string | UserinfoDenied | UnsupportedScheme string | MissingHost

text \<open>Where the source renders an error into the reason, the model keeps the error.\<close>

datatype HttpReason =
    ReasonText string | ReasonUrl NetworkTargetUrlError | ReasonPolicy NetworkPolicyError | ReasonHttp NetworkHttpError
and NetworkHttpError =
    HttpInvalidUrl HttpReason u64 u64
  | HttpPolicyDenied HttpReason u64 u64
  | HttpDns HttpReason u64 u64
  | HttpTransport HttpReason u64 u64
  | HttpResponseBodyLimit u64 u64 u64 "NetworkHttpResponse option"

fun http_response_bytes :: "NetworkHttpError \<Rightarrow> u64" where
  "http_response_bytes (HttpInvalidUrl _ _ n) = n"
| "http_response_bytes (HttpPolicyDenied _ _ n) = n"
| "http_response_bytes (HttpDns _ _ n) = n"
| "http_response_bytes (HttpTransport _ _ n) = n"
| "http_response_bytes (HttpResponseBodyLimit _ _ n _) = n"

definition DEFAULT_RESPONSE_BODY_LIMIT :: u64 where
  "DEFAULT_RESPONSE_BODY_LIMIT = 10 * 1024 * 1024"

definition MAX_RESPONSE_BODY_LIMIT :: u64 where
  "MAX_RESPONSE_BODY_LIMIT = DEFAULT_RESPONSE_BODY_LIMIT"

text \<open>What \<open>url::Url\<close> offers.\<close>

record Url =
  url_username :: string
  url_password :: "string option"
  url_scheme :: string
  url_host_str :: "string option"
  url_port_or_known_default :: "u16 option"

definition network_target_for_url :: "(string \<Rightarrow> (string, Url) result) \<Rightarrow> string
    \<Rightarrow> (NetworkTargetUrlError, NetworkTarget) result" where
  "network_target_for_url parse raw =
    (case parse raw of
       Inl e \<Rightarrow> Err (UrlParse e)
     | Inr url \<Rightarrow>
         if url_username url \<noteq> [] \<or> url_password url \<noteq> None then Err UserinfoDenied
         else result_bind
           (if url_scheme url = ''http'' then Ok Http
            else if url_scheme url = ''https'' then Ok Https
            else Err (UnsupportedScheme (url_scheme url)))
           (\<lambda>scheme. case opt_filter (\<lambda>host. trim host \<noteq> []) (url_host_str url) of
              None \<Rightarrow> Err MissingHost
            | Some host \<Rightarrow> Ok \<lparr>nt_scheme = scheme, nt_host = to_ascii_lowercase host,
                 nt_port = url_port_or_known_default url\<rparr>))"

definition network_target_for_http_url :: "(string \<Rightarrow> (string, Url) result) \<Rightarrow> string \<Rightarrow> u64
    \<Rightarrow> (NetworkHttpError, NetworkTarget) result" where
  "network_target_for_http_url parse raw request_bytes =
    (case network_target_for_url parse raw of
       Inl e \<Rightarrow> Err (HttpInvalidUrl (ReasonUrl e) request_bytes 0)
     | Inr t \<Rightarrow> Ok t)"

fun default_port :: "NetworkScheme \<Rightarrow> u16" where
  "default_port Http = 80"
| "default_port Https = 443"

definition resolve_public_ips :: "(string \<Rightarrow> u16 \<Rightarrow> (NetworkHttpError, IpAddr list) result)
    \<Rightarrow> NetworkTarget \<Rightarrow> NetworkPolicy \<Rightarrow> u64 \<Rightarrow> (NetworkHttpError, IpAddr list) result" where
  "resolve_public_ips resolve_ips target policy request_bytes =
    result_bind
      (case ip_parse (nt_host target) of
         Some ip \<Rightarrow> Ok [ip]
       | None \<Rightarrow>
           (case resolve_ips (nt_host target) (unwrap_or (default_port (nt_scheme target)) (nt_port target)) of
              Inl e \<Rightarrow> Err (HttpDns (ReasonHttp e) request_bytes (http_response_bytes e))
            | Inr ips \<Rightarrow> Ok ips))
      (\<lambda>ips. if ips = [] then
               Err (HttpDns (ReasonText ''network target did not resolve to any IP addresses'') request_bytes 0)
             else if deny_private_ip_ranges policy \<and> list_ex is_private_or_loopback_ip ips then
               Err (HttpPolicyDenied (ReasonText ''network target resolves to a private or host-local IP'') request_bytes 0)
             else Ok ips)"

definition system_resolve_ips :: "(string \<Rightarrow> u16 \<Rightarrow> (string, (IpAddr \<times> u16) list) result)
    \<Rightarrow> string \<Rightarrow> u16 \<Rightarrow> (NetworkHttpError, IpAddr list) result" where
  "system_resolve_ips to_socket_addrs host port =
    (case ip_parse host of
       Some ip \<Rightarrow> Ok [ip]
     | None \<Rightarrow>
         (case to_socket_addrs host port of
            Inl e \<Rightarrow> Err (HttpDns (ReasonText e) 0 0)
          | Inr addrs \<Rightarrow> Ok (map fst addrs)))"

section \<open>Egress\<close>

definition reject_caller_host_header :: "(string \<times> string) list \<Rightarrow> (NetworkHttpError, unit) result" where
  "reject_caller_host_header headers =
    (if list_ex (\<lambda>(name, _). to_ascii_lowercase (trim name) = to_ascii_lowercase ''host'') headers then
       Err (HttpPolicyDenied (ReasonText ''caller-provided Host header is not allowed'') 0 0)
     else Ok ())"

fun method_label :: "NetworkMethod \<Rightarrow> string" where
  "method_label Get = ''GET''"
| "method_label Post = ''POST''"
| "method_label Put = ''PUT''"
| "method_label Patch = ''PATCH''"
| "method_label Delete = ''DELETE''"
| "method_label Head = ''HEAD''"

definition add_len :: "nat \<Rightarrow> u64 \<Rightarrow> u64" where
  "add_len len acc = saturating_add acc (if int len < 2 ^ 64 then of_nat len else - 1)"

definition estimate_http_request_bytes :: "NetworkMethod \<Rightarrow> string \<Rightarrow> (string \<times> string) list \<Rightarrow> bytes \<Rightarrow> u64" where
  "estimate_http_request_bytes method url headers bs =
    (let acc = add_len (length (method_label method)) 0;
         acc = add_len (length '' '') acc;
         acc = add_len (length url) acc;
         acc = add_len (length '' HTTP/1.1'' + 2) acc;
         acc = fold (\<lambda>(name, value) t. add_len 2 (add_len (length value) (add_len (length '': '') (add_len (length name) t))))
           headers acc;
         acc = add_len 2 acc
     in add_len (length bs) acc)"

text \<open>
  What the egress depends on: URL parsing, the resolver, the failure of the resolver's worker
  task, and the transport with its own state.
\<close>

record 'w egress_env =
  eg_parse :: "string \<Rightarrow> (string, Url) result"
  eg_resolve_ips :: "string \<Rightarrow> u16 \<Rightarrow> (NetworkHttpError, IpAddr list) result"
  eg_worker_failure :: "string option"
  eg_transport :: "NetworkTransportRequest \<Rightarrow> 'w \<Rightarrow> (NetworkHttpError, NetworkHttpResponse) result \<times> 'w"

definition admit_request :: "'w egress_env \<Rightarrow> NetworkHttpRequest \<Rightarrow> (NetworkHttpError, NetworkTransportRequest) result" where
  "admit_request env request =
    (let estimated = estimate_http_request_bytes (hr_method request) (hr_url request) (hr_headers request) (hr_body request) in
     result_bind (reject_caller_host_header (hr_headers request)) (\<lambda>_.
     result_bind (network_target_for_http_url (eg_parse env) (hr_url request) estimated) (\<lambda>target.
     case authorize_static_policy (hr_policy request)
         \<lparr>nr_scope = hr_scope request, nr_target = target, nr_method = hr_method request, nr_estimated_bytes = Some estimated\<rparr> of
       Inl e \<Rightarrow> Err (HttpPolicyDenied (ReasonPolicy e) estimated 0)
     | Inr permit \<Rightarrow>
         (case eg_worker_failure env of
            Some e \<Rightarrow> Err (HttpTransport (ReasonText e) estimated 0)
          | None \<Rightarrow>
              result_bind (resolve_public_ips (eg_resolve_ips env) target (hr_policy request) estimated) (\<lambda>ips.
                Ok \<lparr>tr_method = np_method permit, tr_url = hr_url request, tr_headers = hr_headers request,
                    tr_body = hr_body request, tr_resolved_ips = ips,
                    tr_response_body_limit = hr_response_body_limit request, tr_timeout_ms = hr_timeout_ms request\<rparr>)))))"

definition egress_execute :: "'w egress_env \<Rightarrow> NetworkHttpRequest \<Rightarrow> 'w
    \<Rightarrow> (NetworkHttpError, NetworkHttpResponse) result \<times> 'w" where
  "egress_execute env request w =
    (case admit_request env request of
       Inl e \<Rightarrow> (Err e, w)
     | Inr transport_request \<Rightarrow> eg_transport env transport_request w)"

section \<open>Transport\<close>

definition MAX_REQWEST_CLIENT_CACHE_ENTRIES :: nat where
  "MAX_REQWEST_CLIENT_CACHE_ENTRIES = 128"

text \<open>Durations in nanoseconds.\<close>

record ReqwestClientKey =
  ck_host :: string
  ck_port :: u16
  ck_resolved_addrs :: "(IpAddr \<times> u16) list"
  ck_timeout :: nat

text \<open>
  The HTTP client library: building a client, and sending, which gives the status, the headers
  (with the values that are text) and the chunks of the body as they arrive.
\<close>

record 'c http_lib =
  lib_parse :: "string \<Rightarrow> (string, Url) result"
  lib_build :: "ReqwestClientKey \<Rightarrow> (string, 'c) result"
  lib_send :: "'c \<Rightarrow> NetworkMethod \<Rightarrow> Url \<Rightarrow> (string \<times> string) list \<Rightarrow> bytes
    \<Rightarrow> (string, u16 \<times> (string \<times> string option) list \<times> (string, bytes) result list) result"

definition client_for :: "'c http_lib \<Rightarrow> ReqwestClientKey \<Rightarrow> u64 \<Rightarrow> (ReqwestClientKey, 'c) hashmap
    \<Rightarrow> (NetworkHttpError, 'c) result \<times> (ReqwestClientKey, 'c) hashmap" where
  "client_for lib key request_bytes cache =
    (case hm_get cache key of
       Some client \<Rightarrow> (Ok client, cache)
     | None \<Rightarrow>
         (case lib_build lib key of
            Inl e \<Rightarrow> (Err (HttpTransport (ReasonText e) request_bytes 0), cache)
          | Inr client \<Rightarrow>
              (let cache' = (if MAX_REQWEST_CLIENT_CACHE_ENTRIES \<le> length cache then [] else cache) in
               (Ok client, hm_insert key client cache'))))"

definition effective_response_body_limit :: "u64 option \<Rightarrow> u64" where
  "effective_response_body_limit requested = min (unwrap_or DEFAULT_RESPONSE_BODY_LIMIT requested) MAX_RESPONSE_BODY_LIMIT"

definition effective_request_timeout :: "u32 option \<Rightarrow> nat \<Rightarrow> nat" where
  "effective_request_timeout requested_ms default_ns =
    (case requested_ms of None \<Rightarrow> default_ns | Some ms \<Rightarrow> min (unat (max ms 1) * 1000000) default_ns)"

definition response_with :: "u16 \<Rightarrow> (string \<times> string) list \<Rightarrow> bytes \<Rightarrow> u64 \<Rightarrow> u64 \<Rightarrow> IpAddr list \<Rightarrow> NetworkHttpResponse" where
  "response_with status headers bs request_bytes response_bytes ips =
    \<lparr>resp_status = status, resp_headers = headers, resp_body = bs,
     resp_usage = \<lparr>nu_request_bytes = request_bytes, nu_response_bytes = response_bytes,
       nu_resolved_ip = (case ips of [] \<Rightarrow> None | ip # _ \<Rightarrow> Some ip)\<rparr>\<rparr>"

fun read_body :: "u64 \<Rightarrow> u64 \<Rightarrow> (bytes \<Rightarrow> u64 \<Rightarrow> NetworkHttpResponse) \<Rightarrow> bytes \<Rightarrow> (string, bytes) result list
    \<Rightarrow> (NetworkHttpError, bytes) result" where
  "read_body limit request_bytes response bs [] = Ok bs"
| "read_body limit request_bytes response bs (Inl e # chunks) =
    Err (HttpTransport (ReasonText e) request_bytes (of_nat (length bs)))"
| "read_body limit request_bytes response bs (Inr chunk # chunks) =
    (let remaining = saturating_sub limit (of_nat (length bs)) in
     if remaining < of_nat (length chunk) then
       Err (HttpResponseBodyLimit limit request_bytes (saturating_add limit 1)
         (Some (response (bs @ take (unat remaining) chunk) (saturating_add limit 1))))
     else let bs' = bs @ chunk in
       if limit < of_nat (length bs') then
         Err (HttpResponseBodyLimit limit request_bytes (of_nat (length bs'))
           (Some (response (take (unat limit) bs') (of_nat (length bs')))))
       else read_body limit request_bytes response bs' chunks)"

definition transport_target :: "'c http_lib \<Rightarrow> NetworkTransportRequest \<Rightarrow> u64
    \<Rightarrow> (NetworkHttpError, Url \<times> string \<times> u16) result" where
  "transport_target lib request request_bytes =
    result_bind (reject_caller_host_header (tr_headers request)) (\<lambda>_.
      case lib_parse lib (tr_url request) of
        Inl _ \<Rightarrow> Err (HttpInvalidUrl (ReasonText ''URL parse error: invalid format'') request_bytes 0)
      | Inr url \<Rightarrow>
          (case url_host_str url of
             None \<Rightarrow> Err (HttpInvalidUrl (ReasonText ''URL host is required'') request_bytes 0)
           | Some host \<Rightarrow>
               (case url_port_or_known_default url of
                  None \<Rightarrow> Err (HttpInvalidUrl (ReasonText ''URL port is required'') request_bytes 0)
                | Some port \<Rightarrow> Ok (url, host, port))))"

definition send_and_receive :: "'c http_lib \<Rightarrow> NetworkTransportRequest \<Rightarrow> u64 \<Rightarrow> Url \<Rightarrow> 'c
    \<Rightarrow> (NetworkHttpError, NetworkHttpResponse) result" where
  "send_and_receive lib request request_bytes url client =
    (case lib_send lib client (tr_method request) url (tr_headers request) (tr_body request) of
       Inl e \<Rightarrow> Err (HttpTransport (ReasonText e) request_bytes 0)
     | Inr (status, raw_headers, chunks) \<Rightarrow>
         (let headers = concat (map (\<lambda>(n, v). case v of None \<Rightarrow> [] | Some x \<Rightarrow> [(n, x)]) raw_headers);
              limit = effective_response_body_limit (tr_response_body_limit request)
          in result_bind (read_body limit request_bytes
                 (\<lambda>bs n. response_with status headers bs request_bytes n (tr_resolved_ips request)) [] chunks)
               (\<lambda>bs. Ok (response_with status headers bs request_bytes (of_nat (length bs)) (tr_resolved_ips request)))))"

definition transport_execute :: "'c http_lib \<Rightarrow> nat \<Rightarrow> NetworkTransportRequest \<Rightarrow> (ReqwestClientKey, 'c) hashmap
    \<Rightarrow> (NetworkHttpError, NetworkHttpResponse) result \<times> (ReqwestClientKey, 'c) hashmap" where
  "transport_execute lib timeout request cache =
    (let request_bytes = of_nat (length (tr_body request)) in
     case transport_target lib request request_bytes of
       Inl e \<Rightarrow> (Err e, cache)
     | Inr (url, host, port) \<Rightarrow>
         (case client_for lib \<lparr>ck_host = host, ck_port = port,
             ck_resolved_addrs = map (\<lambda>ip. (ip, port)) (tr_resolved_ips request),
             ck_timeout = effective_request_timeout (tr_timeout_ms request) timeout\<rparr> request_bytes cache of
            (Inl e, cache') \<Rightarrow> (Err e, cache')
          | (Inr client, cache') \<Rightarrow> (send_and_receive lib request request_bytes url client, cache')))"

end
