(* ===== verification/Network_Laws.thy ===== *)
theory Network_Laws
  imports Network Filesystem_Laws
begin

text \<open>
  What the network boundary guarantees: which requests reach the transport and with which
  addresses, what a host pattern covers, and that the transport pins addresses and bounds bodies.
\<close>

section \<open>Host patterns\<close>

lemma lower_literal: "to_ascii_lowercase ''*'' = ''*''" "to_ascii_lowercase ''*.'' = ''*.''" "to_ascii_lowercase ''.'' = ''.''"
  by code_simp+

lemma lower_append [simp]: "to_ascii_lowercase (a @ b) = to_ascii_lowercase a @ to_ascii_lowercase b"
  by (simp add: to_ascii_lowercase_def)

lemma host_matches_wildcard:
  "host_matches_pattern host (''*.'' @ d) \<longleftrightarrow>
    (\<exists>label. label \<noteq> [] \<and> CHR ''.'' \<notin> set label \<and> to_ascii_lowercase host = label @ ''.'' @ to_ascii_lowercase d)"
proof -
  have "to_ascii_lowercase (''*.'' @ d) = ''*.'' @ to_ascii_lowercase d"
    by (simp only: lower_append lower_literal)
  then show ?thesis
    by (auto simp: host_matches_pattern_def Let_def strip_prefix_def strip_suffix_def suffix_def split: if_splits)
qed

section \<open>What reaches the transport\<close>

lemma authorize_static_policy_Ok:
  "authorize_static_policy policy request = Ok permit \<longleftrightarrow>
    (\<forall>limit. max_egress_bytes policy = Some limit \<longrightarrow>
       (\<exists>estimated. nr_estimated_bytes request = Some estimated \<and> estimated \<le> limit))
    \<and> \<not> private_literal policy (nr_target request)
    \<and> list_ex (target_matches_pattern (nr_target request)) (allowed_targets policy)
    \<and> permit = \<lparr>np_scope = nr_scope request, np_target = nr_target request, np_method = nr_method request,
        np_estimated_bytes = nr_estimated_bytes request\<rparr>"
  by (auto simp: authorize_static_policy_def network_policy_allows_def not_less split: option.splits)

lemma resolve_public_ips_Ok:
  "resolve_public_ips resolve_ips target policy n = Ok ips \<longleftrightarrow> ips \<noteq> []
    \<and> (deny_private_ip_ranges policy \<longrightarrow> (\<forall>ip \<in> set ips. \<not> is_private_or_loopback_ip ip))
    \<and> (case ip_parse (nt_host target) of
         Some ip \<Rightarrow> ips = [ip]
       | None \<Rightarrow> resolve_ips (nt_host target) (unwrap_or (default_port (nt_scheme target)) (nt_port target)) = Ok ips)"
  by (auto simp: resolve_public_ips_def list_ex_iff result_simps split: option.splits sum.splits)

lemma network_target_for_http_url_Ok:
  "network_target_for_http_url parse raw n = Ok t \<longleftrightarrow> network_target_for_url parse raw = Ok t"
  by (auto simp: network_target_for_http_url_def split: sum.splits)

lemma reject_caller_host_header_Ok:
  "reject_caller_host_header hs = Ok () \<longleftrightarrow> (\<forall>(name, v) \<in> set hs. to_ascii_lowercase (trim name) \<noteq> ''host'')"
proof -
  have "to_ascii_lowercase ''host'' = ''host''" by code_simp
  then show ?thesis by (auto simp: reject_caller_host_header_def list_ex_iff)
qed

lemma admit_request_Ok:
  "admit_request env request = Ok t \<longleftrightarrow>
    (\<exists>target ips. reject_caller_host_header (hr_headers request) = Ok ()
      \<and> network_target_for_url (eg_parse env) (hr_url request) = Ok target
      \<and> is_ok (authorize_static_policy (hr_policy request) \<lparr>nr_scope = hr_scope request, nr_target = target,
          nr_method = hr_method request, nr_estimated_bytes = Some (estimate_http_request_bytes (hr_method request)
            (hr_url request) (hr_headers request) (hr_body request))\<rparr>)
      \<and> eg_worker_failure env = None
      \<and> resolve_public_ips (eg_resolve_ips env) target (hr_policy request) (estimate_http_request_bytes (hr_method request)
            (hr_url request) (hr_headers request) (hr_body request)) = Ok ips
      \<and> t = \<lparr>tr_method = hr_method request, tr_url = hr_url request, tr_headers = hr_headers request,
          tr_body = hr_body request, tr_resolved_ips = ips,
          tr_response_body_limit = hr_response_body_limit request, tr_timeout_ms = hr_timeout_ms request\<rparr>)"
  by (auto simp: admit_request_def Let_def result_simps is_ok_def network_target_for_http_url_Ok
      authorize_static_policy_Ok split: sum.splits option.splits)


text \<open>A host that resolves to a public address unless it is called internal.\<close>

definition example_egress :: "NetworkTransportRequest list egress_env" where
  "example_egress = \<lparr>
     eg_parse = (\<lambda>raw. Ok \<lparr>url_username = [], url_password = None, url_scheme = ''https'', url_host_str = Some raw,
       url_port_or_known_default = Some 443\<rparr>),
     eg_resolve_ips = (\<lambda>host port. if host = ''internal.example.org'' then Ok [V4 10 0 0 1] else Ok [V4 93 184 216 34]),
     eg_worker_failure = None,
     eg_transport = (\<lambda>t sent. (Ok (response_with 200 [] [] 0 0 (tr_resolved_ips t)), t # sent))\<rparr>"

definition example_http :: "string \<Rightarrow> NetworkHttpRequest" where
  "example_http url = \<lparr>hr_scope = tenant_scope ''a'', hr_method = Get, hr_url = url, hr_headers = [], hr_body = [],
     hr_policy = \<lparr>allowed_targets = [\<lparr>ntp_scheme = Some Https, ntp_host_pattern = ''*.example.org'', ntp_port = Some 443\<rparr>],
       deny_private_ip_ranges = True, max_egress_bytes = Some 1000\<rparr>,
     hr_response_body_limit = None, hr_timeout_ms = None\<rparr>"


section \<open>The transport\<close>

definition cache_ok :: "'c http_lib \<Rightarrow> (ReqwestClientKey, 'c) hashmap \<Rightarrow> bool" where
  "cache_ok lib cache = ((\<forall>k c. hm_get cache k = Some c \<longrightarrow> lib_build lib k = Ok c)
     \<and> length cache \<le> MAX_REQWEST_CLIENT_CACHE_ENTRIES)"

lemma length_hm_insert: "length (hm_insert k v m) \<le> Suc (length m)"
  by (induction m) (auto simp: hm_insert_def)

lemma client_for_cached:
  assumes "cache_ok lib cache" and "client_for lib key n cache = (r, cache')"
  shows "r = fst (client_for lib key n []) \<and> cache_ok lib cache'"
proof (cases "hm_get cache key")
  case None
  then show ?thesis
    using assms length_hm_insert [of key _ cache] length_hm_insert [of key _ "[]"]
    by (auto simp: client_for_def cache_ok_def Let_def MAX_REQWEST_CLIENT_CACHE_ENTRIES_def hm_get_insert not_le
        split: sum.splits if_splits intro: order_trans [OF length_hm_insert])
next
  case (Some c)
  with assms(1) have "lib_build lib key = Ok c" by (simp add: cache_ok_def)
  with Some assms show ?thesis by (auto simp: client_for_def Let_def)
qed

lemma read_body_bounded:
  assumes "length bs \<le> unat limit" and "\<forall>chunk. Inr chunk \<in> set chunks \<longrightarrow> length chunk < 2 ^ 63" and "unat limit < 2 ^ 63"
  shows "case read_body limit n response bs chunks of
      Inr bs' \<Rightarrow> length bs' \<le> unat limit
    | Inl (HttpResponseBodyLimit _ _ k (Some p)) \<Rightarrow> \<exists>bs'. p = response bs' k \<and> length bs' \<le> unat limit
    | Inl _ \<Rightarrow> True"
  using assms
proof (induction limit n response bs chunks rule: read_body.induct)
  case (3 limit n response bs chunk chunks)
  have small: "length chunk < 2 ^ 63" "length bs < 2 ^ 63" using 3 by auto
  have len: "unat (of_nat (length chunk) :: u64) = length chunk" "unat (of_nat (length bs) :: u64) = length bs"
    using small by (auto simp: unat_of_nat)
  have rem: "unat (saturating_sub limit (of_nat (length bs) :: u64)) = unat limit - length bs"
    by (simp add: unat_saturating_sub len)
  show ?case
  proof (cases "saturating_sub limit (of_nat (length bs)) < (of_nat (length chunk) :: u64)")
    case True
    then show ?thesis using rem 3(2) by (auto simp: Let_def)
  next
    case False
    then have fits: "length (bs @ chunk) \<le> unat limit"
      using rem len 3(2) by (auto simp: word_less_nat_alt)
    with 3(4) have "unat (of_nat (length (bs @ chunk)) :: u64) = length (bs @ chunk)"
      by (auto simp: unat_of_nat simp del: of_nat_add length_append)
    with fits have "\<not> limit < of_nat (length (bs @ chunk))" by (simp add: word_less_nat_alt)
    with False 3(1) fits 3(3,4) show ?thesis by (simp add: Let_def)
  qed
qed auto

lemma effective_limit:
  "unat (effective_response_body_limit requested) \<le> 10485760"
  "requested = Some n \<Longrightarrow> effective_response_body_limit requested \<le> n"
proof -
  have "effective_response_body_limit requested \<le> (10485760 :: u64)"
    by (simp add: effective_response_body_limit_def MAX_RESPONSE_BODY_LIMIT_def DEFAULT_RESPONSE_BODY_LIMIT_def)
  then show "unat (effective_response_body_limit requested) \<le> 10485760"
    by (simp add: word_le_nat_alt)
qed (simp add: effective_response_body_limit_def)

definition partial_body :: "(NetworkHttpError, NetworkHttpResponse) result \<Rightarrow> bytes" where
  "partial_body r = (case r of
     Inr resp \<Rightarrow> resp_body resp
   | Inl (HttpResponseBodyLimit _ _ _ (Some p)) \<Rightarrow> resp_body p
   | Inl _ \<Rightarrow> [])"

definition small_chunks :: "'c http_lib \<Rightarrow> bool" where
  "small_chunks lib = (\<forall>c m u hs b st rhs chunks. lib_send lib c m u hs b = Ok (st, rhs, chunks) \<longrightarrow>
     (\<forall>chunk. Inr chunk \<in> set chunks \<longrightarrow> length chunk < 2 ^ 63))"

lemma send_and_receive_bounded:
  assumes "small_chunks lib"
  shows "length (partial_body (send_and_receive lib request n url client))
    \<le> unat (effective_response_body_limit (tr_response_body_limit request))"
proof (cases "lib_send lib client (tr_method request) url (tr_headers request) (tr_body request)")
  case (Inl e)
  then show ?thesis by (simp add: send_and_receive_def partial_body_def)
next
  case (Inr x)
  obtain st rhs chunks where x: "x = (st, rhs, chunks)" by (cases x)
  with Inr assms have chunks: "\<forall>chunk. Inr chunk \<in> set chunks \<longrightarrow> length chunk < 2 ^ 63"
    unfolding small_chunks_def by blast
  let ?limit = "effective_response_body_limit (tr_response_body_limit request)"
  let ?hs = "concat (map (\<lambda>(n, v). case v of None \<Rightarrow> [] | Some x \<Rightarrow> [(n, x)]) rhs)"
  have limit: "unat ?limit < 2 ^ 63" using effective_limit(1) [of "tr_response_body_limit request"] by simp
  from read_body_bounded [OF _ chunks limit, where bs = "[]" and n = n
      and response = "\<lambda>bs k. response_with st ?hs bs n k (tr_resolved_ips request)"]
  show ?thesis
    by (auto simp: send_and_receive_def Inr x partial_body_def response_with_def Let_def
        split: sum.splits NetworkHttpError.splits option.splits)
qed

lemma no_body_before_send:
  "transport_target lib request n = Inl e \<Longrightarrow> partial_body (Inl e) = []"
  "client_for lib key n cache = (Inl e, cache') \<Longrightarrow> partial_body (Inl e) = []"
  by (auto simp: transport_target_def client_for_def partial_body_def reject_caller_host_header_def result_bind_def Let_def
      split: sum.splits option.splits if_splits)


text \<open>A client library that answers every request with two chunks.\<close>

definition example_lib :: "ReqwestClientKey http_lib" where
  "example_lib = \<lparr>lib_parse = eg_parse example_egress, lib_build = (\<lambda>key. Ok key),
     lib_send = (\<lambda>client method url headers bs. Ok (200, [], [Ok [1, 2], Ok [3, 4]]))\<rparr>"

definition example_transport_request :: NetworkTransportRequest where
  "example_transport_request = \<lparr>tr_method = Get, tr_url = ''api.example.org'', tr_headers = [], tr_body = [],
     tr_resolved_ips = [V4 93 184 216 34], tr_response_body_limit = Some 3, tr_timeout_ms = Some 0\<rparr>"


end
