(* ===== verification/Events.thy ===== *)
theory Events
  imports Audit_Envelope Byte_Text
begin

text \<open>
  Runtime events and durable logs (\<open>ironclaw_events\<close>): the redacted event and its constructors,
  the guards that run on every wire crossing, and the in-memory durable log with cursors, scoped
  replay and retention. The event id and the time stamp of a new event are arguments.
\<close>

section \<open>Runtime events\<close>

datatype RuntimeEventKind =
    DispatchRequested | RuntimeSelected | DispatchSucceeded | DispatchFailed
  | CapabilityActivityRequested | CapabilityActivitySucceeded | CapabilityActivityFailed
  | ModelStarted | ModelCompleted | ModelFailed | AssistantReplyFinalized
  | LoopCompleted | LoopCancelled | LoopFailed
  | ProcessStarted | ProcessCompleted | ProcessFailed | ProcessKilled
  | HookDispatched | HookDecisionEmitted | HookFailed

record RuntimeEvent =
  ev_event_id :: uuid
  ev_timestamp :: instant
  ev_kind :: RuntimeEventKind
  ev_scope :: ResourceScope
  ev_parent_invocation_id :: "InvocationId option"
  ev_capability_id :: CapabilityId
  ev_provider :: "ExtensionId option"
  ev_runtime :: "RuntimeKind option"
  ev_process_id :: "ProcessId option"
  ev_output_bytes :: "u64 option"
  ev_error_kind :: "string option"
  ev_error_summary :: "string option"
  ev_hook_id :: "string option"
  ev_hook_point :: "string option"
  ev_hook_trust_class :: "string option"
  ev_hook_decision :: "string option"
  ev_hook_failure_category :: "string option"
  ev_hook_failure_disposition :: "string option"

record RuntimeEventPayload =
  pl_kind :: RuntimeEventKind
  pl_scope :: ResourceScope
  pl_capability_id :: CapabilityId
  pl_provider :: "ExtensionId option"
  pl_runtime :: "RuntimeKind option"
  pl_process_id :: "ProcessId option"
  pl_output_bytes :: "u64 option"
  pl_error_kind :: "string option"
  pl_hook_id :: "string option"
  pl_hook_point :: "string option"
  pl_hook_trust_class :: "string option"
  pl_hook_decision :: "string option"
  pl_hook_failure_category :: "string option"
  pl_hook_failure_disposition :: "string option"

definition metadata_payload :: "RuntimeEventKind \<Rightarrow> ResourceScope \<Rightarrow> CapabilityId \<Rightarrow> RuntimeEventPayload" where
  "metadata_payload kind scope capability_id =
    \<lparr>pl_kind = kind, pl_scope = scope, pl_capability_id = capability_id, pl_provider = None, pl_runtime = None,
     pl_process_id = None, pl_output_bytes = None, pl_error_kind = None, pl_hook_id = None, pl_hook_point = None,
     pl_hook_trust_class = None, pl_hook_decision = None, pl_hook_failure_category = None,
     pl_hook_failure_disposition = None\<rparr>"

text \<open>A fresh event id and the time of construction.\<close>

type_synonym stamp = "uuid \<times> instant"

definition RuntimeEvent_new :: "stamp \<Rightarrow> RuntimeEventPayload \<Rightarrow> RuntimeEvent" where
  "RuntimeEvent_new st p =
    \<lparr>ev_event_id = fst st, ev_timestamp = snd st, ev_kind = pl_kind p, ev_scope = pl_scope p,
     ev_parent_invocation_id = None, ev_capability_id = pl_capability_id p, ev_provider = pl_provider p,
     ev_runtime = pl_runtime p, ev_process_id = pl_process_id p, ev_output_bytes = pl_output_bytes p,
     ev_error_kind = pl_error_kind p, ev_error_summary = None, ev_hook_id = pl_hook_id p,
     ev_hook_point = pl_hook_point p, ev_hook_trust_class = pl_hook_trust_class p,
     ev_hook_decision = pl_hook_decision p, ev_hook_failure_category = pl_hook_failure_category p,
     ev_hook_failure_disposition = pl_hook_failure_disposition p\<rparr>"

section \<open>Redaction guards\<close>

definition UNCLASSIFIED_ERROR_KIND :: string where
  "UNCLASSIFIED_ERROR_KIND = ''Unclassified''"

definition MAX_ERROR_KIND_LEN :: nat where
  "MAX_ERROR_KIND_LEN = 64"

definition MAX_ERROR_KIND_SEGMENT_LEN :: nat where
  "MAX_ERROR_KIND_SEGMENT_LEN = 24"

definition MAX_ERROR_SUMMARY_BYTES :: nat where
  "MAX_ERROR_SUMMARY_BYTES = 512"

definition REDACTED_ERROR_SUMMARY :: string where
  "REDACTED_ERROR_SUMMARY = ''the tool failure details were redacted''"

definition WORKSPACE_FILE_ERROR_SUMMARY :: string where
  "WORKSPACE_FILE_ERROR_SUMMARY = ''can'' @ [CHR 0x27] @ ''t access your workspace file''"

definition INPUT_ENCODE_HUMAN_SUMMARY :: string where
  "INPUT_ENCODE_HUMAN_SUMMARY = ''the tool input could not be encoded''"

definition is_error_kind_char :: "char \<Rightarrow> bool" where
  "is_error_kind_char c = (is_ascii_lowercase c \<or> is_ascii_digit c \<or> c = CHR ''_'')"

definition is_safe_error_kind :: "string \<Rightarrow> bool" where
  "is_safe_error_kind v =
    (v \<noteq> [] \<and> length v \<le> MAX_ERROR_KIND_LEN \<and> is_ascii_lowercase (hd v)
     \<and> list_all (\<lambda>c. is_error_kind_char c \<or> c = CHR ''.'' \<or> c = CHR '':'') v
     \<and> list_all (\<lambda>segment. segment \<noteq> [] \<and> length segment \<le> MAX_ERROR_KIND_SEGMENT_LEN \<and> is_ascii_lowercase (hd segment))
         (split_where (\<lambda>c. c = CHR ''.'' \<or> c = CHR '':'') v))"

definition sanitize_error_kind :: "string \<Rightarrow> string" where
  "sanitize_error_kind v = (if is_safe_error_kind v then v else UNCLASSIFIED_ERROR_KIND)"

definition is_phrase_boundary :: "char option \<Rightarrow> bool" where
  "is_phrase_boundary c = (case c of Some x \<Rightarrow> \<not> is_ascii_alphanumeric x \<and> x \<noteq> CHR ''_'' | None \<Rightarrow> True)"

text \<open>
  Every occurrence of the phrase is tried. The source takes disjoint ones, which are all of them:
  no phrase it looks for starts the way it ends.
\<close>

fun bounded_phrase_from :: "string \<Rightarrow> char option \<Rightarrow> string \<Rightarrow> bool" where
  "bounded_phrase_from phrase prev [] = False"
| "bounded_phrase_from phrase prev (c # cs) =
    ((prefix phrase (c # cs) \<and> is_phrase_boundary prev
       \<and> is_phrase_boundary (case drop (length phrase) (c # cs) of [] \<Rightarrow> None | d # _ \<Rightarrow> Some d))
     \<or> bounded_phrase_from phrase (Some c) cs)"

definition contains_bounded_phrase :: "string \<Rightarrow> string \<Rightarrow> bool" where
  "contains_bounded_phrase v phrase = bounded_phrase_from phrase None v"

definition mentions_workspace_file_context :: "string \<Rightarrow> bool" where
  "mentions_workspace_file_context lower =
    list_ex (contains_bounded_phrase lower)
      [''workspace file'', ''workspace path'', ''filesystem'', ''file not found'', ''file failed'', ''read_file'',
       ''write_file'', ''list_dir'', ''path workspace'']"

definition contains_internal_workspace_filename :: "string \<Rightarrow> bool" where
  "contains_internal_workspace_filename lower =
    list_ex (\<lambda>forbidden. contains_str forbidden lower)
      [''.system'', ''agents.md'', ''bootstrap.md'', ''heartbeat.md'', ''identity.md'', ''memory.md'', ''soul.md'',
       ''tools.md'', ''user.md'']"

definition is_common_filename_extension :: "string \<Rightarrow> bool" where
  "is_common_filename_extension x = (x \<in> set
    [''bash'', ''css'', ''csv'', ''env'', ''html'', ''js'', ''json'', ''jsonl'', ''lock'', ''log'', ''md'', ''py'', ''rs'', ''sh'', ''toml'',
     ''ts'', ''txt'', ''yaml'', ''yml''])"

definition is_filename_like_token :: "string \<Rightarrow> bool" where
  "is_filename_like_token token =
    (case rsplit_once (CHR ''.'') token of
       None \<Rightarrow> False
     | Some (stem, extension) \<Rightarrow>
         \<not> (stem = [] \<or> extension = [] \<or> 8 < length extension) \<and> is_common_filename_extension extension
         \<and> list_ex is_ascii_alphanumeric stem \<and> list_all is_ascii_alphanumeric extension)"

definition contains_filename_like_token :: "string \<Rightarrow> bool" where
  "contains_filename_like_token lower =
    list_ex is_filename_like_token
      (map (trim_matches (\<lambda>c. c \<in> {CHR 0x22, CHR 0x27, CHR ''('', CHR '')'', CHR '','', CHR '':'', CHR '';'', CHR ''['',
          CHR '']'', CHR ''{'', CHR ''}''}))
        (split_whitespace_at [] lower))"

definition is_workspace_file_error_summary :: "string \<Rightarrow> string \<Rightarrow> bool" where
  "is_workspace_file_error_summary v lower =
    (if v = WORKSPACE_FILE_ERROR_SUMMARY then False
     else if contains_internal_workspace_filename lower then True
     else if mentions_workspace_file_context lower \<and> contains_filename_like_token lower then True
     else mentions_workspace_file_context lower
       \<and> (contains_str ''failed'' lower \<or> contains_str ''not found'' lower \<or> contains_str ''denied'' lower
          \<or> contains_str ''missing'' lower \<or> contains_str (''can'' @ [CHR 0x27] @ ''t access'') lower
          \<or> contains_str ''cannot access'' lower))"

definition is_secret_like_token :: "string \<Rightarrow> bool" where
  "is_secret_like_token token =
    (list_ex (\<lambda>p. prefix p token)
       [''sk-'', ''sk-ant-'', ''ghp_'', ''github_pat_'', ''gho_'', ''ghu_'', ''ghs_'', ''ghr_'', ''glpat-'', ''gcp-'', ''ya29.'', ''aiza'']
     \<or> (16 \<le> length token \<and> (prefix ''akia'' token \<or> prefix ''asia'' token)))"

definition contains_secret_like_token :: "string \<Rightarrow> bool" where
  "contains_secret_like_token lower =
    list_ex is_secret_like_token
      (split_where (\<lambda>c. \<not> is_ascii_alphanumeric c \<and> \<not> (c = CHR ''-'' \<or> c = CHR ''_'' \<or> c = CHR ''.'')) lower)"

definition forbidden_character :: "char \<Rightarrow> bool" where
  "forbidden_character c = (let n = (of_char c :: nat) in n < 32 \<or> n = 127 \<or> 128 \<le> n
     \<or> c \<in> {CHR ''{'', CHR ''}'', CHR ''['', CHR '']'', CHR 0x60, CHR ''<'', CHR ''>'', CHR ''/'', CHR 0x5C})"

definition forbidden_phrases :: "string list" where
  "forbidden_phrases =
    [''access token'', ''api key'', ''api_key'', ''apikey'', ''authorization:'', ''bearer '', ''password'', ''passwd'',
     ''provider error'', ''raw runtime'', ''secret'', ''stack trace'', ''traceback'']"

definition is_safe_error_summary :: "string \<Rightarrow> string \<Rightarrow> bool" where
  "is_safe_error_summary v lower =
    (if list_ex forbidden_character v then False
     else if list_ex (\<lambda>forbidden. contains_str forbidden lower) forbidden_phrases then False
     else \<not> contains_secret_like_token lower)"

fun floor_char_boundary :: "string \<Rightarrow> nat \<Rightarrow> nat" where
  "floor_char_boundary s 0 = 0"
| "floor_char_boundary s (Suc n) = (if is_char_boundary s (Suc n) then Suc n else floor_char_boundary s n)"

definition truncate_error_summary :: "string \<Rightarrow> string" where
  "truncate_error_summary v =
    (if length v \<le> MAX_ERROR_SUMMARY_BYTES then v
     else take (floor_char_boundary v (MAX_ERROR_SUMMARY_BYTES - 3)) v @ ''...'')"

definition sanitize_error_summary :: "string \<Rightarrow> string option" where
  "sanitize_error_summary v =
    (let trimmed = trim v; lower = to_ascii_lowercase trimmed in
     if trimmed = [] then None
     else if trimmed = INPUT_ENCODE_HUMAN_SUMMARY then Some INPUT_ENCODE_HUMAN_SUMMARY
     else if is_workspace_file_error_summary trimmed lower then Some WORKSPACE_FILE_ERROR_SUMMARY
     else if \<not> is_safe_error_summary trimmed lower then Some REDACTED_ERROR_SUMMARY
     else Some (truncate_error_summary trimmed))"

definition UNCLASSIFIED_HOOK_LABEL :: string where
  "UNCLASSIFIED_HOOK_LABEL = ''unclassified''"

definition MAX_HOOK_LABEL_LEN :: nat where
  "MAX_HOOK_LABEL_LEN = 48"

definition HOOK_ID_LEN :: nat where
  "HOOK_ID_LEN = 64"

definition is_safe_hook_label :: "string \<Rightarrow> bool" where
  "is_safe_hook_label v = (v \<noteq> [] \<and> length v \<le> MAX_HOOK_LABEL_LEN \<and> is_ascii_lowercase (hd v) \<and> list_all is_error_kind_char v)"

definition sanitize_hook_label :: "string \<Rightarrow> string" where
  "sanitize_hook_label v = (if is_safe_hook_label v then v else UNCLASSIFIED_HOOK_LABEL)"

definition is_safe_hook_id :: "string \<Rightarrow> bool" where
  "is_safe_hook_id v = (length v = HOOK_ID_LEN
     \<and> list_all (\<lambda>c. is_ascii_digit c \<or> (let n = (of_char c :: nat) in 97 \<le> n \<and> n \<le> 102)) v)"

definition sanitize_hook_id :: "string \<Rightarrow> string" where
  "sanitize_hook_id v = (if is_safe_hook_id v then v else UNCLASSIFIED_HOOK_LABEL)"

text \<open>
  Both directions of the wire run every guard again. The wire structure has the fields of the event.
\<close>

type_synonym RuntimeEventWire = RuntimeEvent

definition event_serialize :: "RuntimeEvent \<Rightarrow> RuntimeEventWire" where
  "event_serialize e =
    e\<lparr>ev_error_kind := map_option sanitize_error_kind (ev_error_kind e),
      ev_error_summary := Option.bind (ev_error_summary e) sanitize_error_summary,
      ev_hook_id := map_option sanitize_hook_id (ev_hook_id e),
      ev_hook_point := map_option sanitize_hook_label (ev_hook_point e),
      ev_hook_trust_class := map_option sanitize_hook_label (ev_hook_trust_class e),
      ev_hook_decision := map_option sanitize_hook_label (ev_hook_decision e),
      ev_hook_failure_category := map_option sanitize_hook_label (ev_hook_failure_category e),
      ev_hook_failure_disposition := map_option sanitize_hook_label (ev_hook_failure_disposition e)\<rparr>"

definition into_event :: "RuntimeEventWire \<Rightarrow> RuntimeEvent" where
  "into_event w =
    w\<lparr>ev_error_summary := Option.bind (ev_error_summary w) sanitize_error_summary,
      ev_error_kind := map_option sanitize_error_kind (ev_error_kind w),
      ev_hook_id := map_option sanitize_hook_id (ev_hook_id w),
      ev_hook_point := map_option sanitize_hook_label (ev_hook_point w),
      ev_hook_trust_class := map_option sanitize_hook_label (ev_hook_trust_class w),
      ev_hook_decision := map_option sanitize_hook_label (ev_hook_decision w),
      ev_hook_failure_category := map_option sanitize_hook_label (ev_hook_failure_category w),
      ev_hook_failure_disposition := map_option sanitize_hook_label (ev_hook_failure_disposition w)\<rparr>"

section \<open>Constructors\<close>

text \<open>Constructors of failure events run the guards already.\<close>

definition dispatch_requested :: "stamp \<Rightarrow> ResourceScope \<Rightarrow> CapabilityId \<Rightarrow> RuntimeEvent" where
  "dispatch_requested st scope capability_id =
    RuntimeEvent_new st (metadata_payload DispatchRequested scope capability_id)"

definition runtime_selected :: "stamp \<Rightarrow> ResourceScope \<Rightarrow> CapabilityId \<Rightarrow> ExtensionId \<Rightarrow> RuntimeKind \<Rightarrow> RuntimeEvent" where
  "runtime_selected st scope capability_id provider runtime =
    RuntimeEvent_new st ((metadata_payload RuntimeSelected scope capability_id)\<lparr>pl_provider := Some provider, pl_runtime := Some runtime\<rparr>)"

definition dispatch_succeeded :: "stamp \<Rightarrow> ResourceScope \<Rightarrow> CapabilityId \<Rightarrow> ExtensionId \<Rightarrow> RuntimeKind \<Rightarrow> u64 \<Rightarrow> RuntimeEvent" where
  "dispatch_succeeded st scope capability_id provider runtime output_bytes =
    RuntimeEvent_new st ((metadata_payload DispatchSucceeded scope capability_id)\<lparr>pl_provider := Some provider, pl_runtime := Some runtime, pl_output_bytes := Some output_bytes\<rparr>)"

definition dispatch_failed :: "stamp \<Rightarrow> ResourceScope \<Rightarrow> CapabilityId \<Rightarrow> ExtensionId option \<Rightarrow> RuntimeKind option \<Rightarrow> string \<Rightarrow> RuntimeEvent" where
  "dispatch_failed st scope capability_id provider runtime ekind =
    RuntimeEvent_new st ((metadata_payload DispatchFailed scope capability_id)\<lparr>pl_provider := provider, pl_runtime := runtime,
      pl_error_kind := Some (sanitize_error_kind ekind)\<rparr>)"

definition new_metadata_only :: "stamp \<Rightarrow> RuntimeEventKind \<Rightarrow> ResourceScope \<Rightarrow> CapabilityId \<Rightarrow> RuntimeEvent" where
  "new_metadata_only st kind scope capability_id = RuntimeEvent_new st (metadata_payload kind scope capability_id)"

definition model_started :: "stamp \<Rightarrow> ResourceScope \<Rightarrow> CapabilityId \<Rightarrow> RuntimeEvent" where
  "model_started st = new_metadata_only st ModelStarted"

definition model_completed :: "stamp \<Rightarrow> ResourceScope \<Rightarrow> CapabilityId \<Rightarrow> RuntimeEvent" where
  "model_completed st = new_metadata_only st ModelCompleted"

definition assistant_reply_finalized :: "stamp \<Rightarrow> ResourceScope \<Rightarrow> CapabilityId \<Rightarrow> RuntimeEvent" where
  "assistant_reply_finalized st = new_metadata_only st AssistantReplyFinalized"

definition loop_completed :: "stamp \<Rightarrow> ResourceScope \<Rightarrow> CapabilityId \<Rightarrow> RuntimeEvent" where
  "loop_completed st = new_metadata_only st LoopCompleted"

definition loop_cancelled :: "stamp \<Rightarrow> ResourceScope \<Rightarrow> CapabilityId \<Rightarrow> RuntimeEvent" where
  "loop_cancelled st = new_metadata_only st LoopCancelled"

definition model_failed :: "stamp \<Rightarrow> ResourceScope \<Rightarrow> CapabilityId \<Rightarrow> string \<Rightarrow> RuntimeEvent" where
  "model_failed st scope capability_id ekind =
    RuntimeEvent_new st ((metadata_payload ModelFailed scope capability_id)\<lparr>pl_error_kind := Some (sanitize_error_kind ekind)\<rparr>)"

definition loop_failed :: "stamp \<Rightarrow> ResourceScope \<Rightarrow> CapabilityId \<Rightarrow> string \<Rightarrow> RuntimeEvent" where
  "loop_failed st scope capability_id ekind =
    RuntimeEvent_new st ((metadata_payload LoopFailed scope capability_id)\<lparr>pl_error_kind := Some (sanitize_error_kind ekind)\<rparr>)"

definition process_started :: "stamp \<Rightarrow> ResourceScope \<Rightarrow> CapabilityId \<Rightarrow> ExtensionId \<Rightarrow> RuntimeKind \<Rightarrow> ProcessId \<Rightarrow> RuntimeEvent" where
  "process_started st scope capability_id provider runtime process_id =
    RuntimeEvent_new st ((metadata_payload ProcessStarted scope capability_id)\<lparr>pl_provider := Some provider, pl_runtime := Some runtime,
      pl_process_id := Some process_id\<rparr>)"

definition process_completed :: "stamp \<Rightarrow> ResourceScope \<Rightarrow> CapabilityId \<Rightarrow> ExtensionId \<Rightarrow> RuntimeKind \<Rightarrow> ProcessId \<Rightarrow> RuntimeEvent" where
  "process_completed st scope capability_id provider runtime process_id =
    RuntimeEvent_new st ((metadata_payload ProcessCompleted scope capability_id)\<lparr>pl_provider := Some provider, pl_runtime := Some runtime,
      pl_process_id := Some process_id\<rparr>)"

definition process_failed :: "stamp \<Rightarrow> ResourceScope \<Rightarrow> CapabilityId \<Rightarrow> ExtensionId \<Rightarrow> RuntimeKind \<Rightarrow> ProcessId \<Rightarrow> string \<Rightarrow> RuntimeEvent" where
  "process_failed st scope capability_id provider runtime process_id ekind =
    RuntimeEvent_new st ((metadata_payload ProcessFailed scope capability_id)\<lparr>pl_provider := Some provider, pl_runtime := Some runtime,
      pl_process_id := Some process_id, pl_error_kind := Some (sanitize_error_kind ekind)\<rparr>)"

definition process_killed :: "stamp \<Rightarrow> ResourceScope \<Rightarrow> CapabilityId \<Rightarrow> ExtensionId \<Rightarrow> RuntimeKind \<Rightarrow> ProcessId \<Rightarrow> RuntimeEvent" where
  "process_killed st scope capability_id provider runtime process_id =
    RuntimeEvent_new st ((metadata_payload ProcessKilled scope capability_id)\<lparr>pl_provider := Some provider, pl_runtime := Some runtime,
      pl_process_id := Some process_id\<rparr>)"

definition capability_activity_requested :: "stamp \<Rightarrow> ResourceScope \<Rightarrow> CapabilityId \<Rightarrow> RuntimeEvent" where
  "capability_activity_requested st scope capability_id =
    (dispatch_requested st scope capability_id)\<lparr>ev_kind := CapabilityActivityRequested\<rparr>"

definition capability_activity_succeeded :: "stamp \<Rightarrow> ResourceScope \<Rightarrow> CapabilityId \<Rightarrow> ExtensionId \<Rightarrow> RuntimeKind \<Rightarrow> u64 \<Rightarrow> RuntimeEvent" where
  "capability_activity_succeeded st scope capability_id provider runtime output_bytes =
    (dispatch_succeeded st scope capability_id provider runtime output_bytes)\<lparr>ev_kind := CapabilityActivitySucceeded\<rparr>"

definition capability_activity_failed :: "stamp \<Rightarrow> ResourceScope \<Rightarrow> CapabilityId \<Rightarrow> ExtensionId option \<Rightarrow> RuntimeKind option \<Rightarrow> string \<Rightarrow> RuntimeEvent" where
  "capability_activity_failed st scope capability_id provider runtime ekind =
    (dispatch_failed st scope capability_id provider runtime ekind)\<lparr>ev_kind := CapabilityActivityFailed\<rparr>"

definition with_error_summary :: "RuntimeEvent \<Rightarrow> string \<Rightarrow> RuntimeEvent" where
  "with_error_summary e v = e\<lparr>ev_error_summary := sanitize_error_summary v\<rparr>"

definition hook_dispatched :: "stamp \<Rightarrow> ResourceScope \<Rightarrow> CapabilityId \<Rightarrow> string \<Rightarrow> string \<Rightarrow> string \<Rightarrow> ExtensionId option \<Rightarrow> RuntimeEvent" where
  "hook_dispatched st scope capability_id hook_id point trust_class owning_extension =
    RuntimeEvent_new st ((metadata_payload HookDispatched scope capability_id)\<lparr>pl_provider := owning_extension, pl_hook_id := Some (sanitize_hook_id hook_id),
      pl_hook_point := Some (sanitize_hook_label point), pl_hook_trust_class := Some (sanitize_hook_label trust_class)\<rparr>)"

definition hook_decision_emitted :: "stamp \<Rightarrow> ResourceScope \<Rightarrow> CapabilityId \<Rightarrow> string \<Rightarrow> string \<Rightarrow> ExtensionId option \<Rightarrow> RuntimeEvent" where
  "hook_decision_emitted st scope capability_id hook_id decision owning_extension =
    RuntimeEvent_new st ((metadata_payload HookDecisionEmitted scope capability_id)\<lparr>pl_provider := owning_extension, pl_hook_id := Some (sanitize_hook_id hook_id),
      pl_hook_decision := Some (sanitize_hook_label decision)\<rparr>)"

definition hook_failed :: "stamp \<Rightarrow> ResourceScope \<Rightarrow> CapabilityId \<Rightarrow> string \<Rightarrow> string \<Rightarrow> string \<Rightarrow> ExtensionId option \<Rightarrow> RuntimeEvent" where
  "hook_failed st scope capability_id hook_id category disposition owning_extension =
    RuntimeEvent_new st ((metadata_payload HookFailed scope capability_id)\<lparr>pl_provider := owning_extension, pl_hook_id := Some (sanitize_hook_id hook_id),
      pl_hook_failure_category := Some (sanitize_hook_label category),
      pl_hook_failure_disposition := Some (sanitize_hook_label disposition)\<rparr>)"

section \<open>Durable logs\<close>

type_synonym EventCursor = u64

record EventStreamKey =
  esk_tenant_id :: TenantId
  esk_user_id :: UserId
  esk_agent_id :: "AgentId option"

definition EventStreamKey_from_scope :: "ResourceScope \<Rightarrow> EventStreamKey" where
  "EventStreamKey_from_scope s =
    \<lparr>esk_tenant_id = rs_tenant_id s, esk_user_id = rs_user_id s, esk_agent_id = rs_agent_id s\<rparr>"

definition stream_matches :: "EventStreamKey \<Rightarrow> ResourceScope \<Rightarrow> bool" where
  "stream_matches k s = (esk_tenant_id k = rs_tenant_id s \<and> esk_user_id k = rs_user_id s \<and> esk_agent_id k = rs_agent_id s)"

record ReadScope =
  rd_project_id :: "ProjectId option"
  rd_mission_id :: "MissionId option"
  rd_thread_id :: "ThreadId option"
  rd_process_id :: "ProcessId option"

definition ReadScope_any :: ReadScope where
  "ReadScope_any = \<lparr>rd_project_id = None, rd_mission_id = None, rd_thread_id = None, rd_process_id = None\<rparr>"

definition matches_optional :: "'a option \<Rightarrow> 'a option \<Rightarrow> bool" where
  "matches_optional want have = (case want of None \<Rightarrow> True | Some w \<Rightarrow> have = Some w)"

definition matches_event :: "ReadScope \<Rightarrow> RuntimeEvent \<Rightarrow> bool" where
  "matches_event f e =
    (matches_optional (rd_project_id f) (rs_project_id (ev_scope e))
     \<and> matches_optional (rd_mission_id f) (rs_mission_id (ev_scope e))
     \<and> matches_optional (rd_thread_id f) (rs_thread_id (ev_scope e))
     \<and> matches_optional (rd_process_id f) (ev_process_id e))"

definition matches_audit :: "ReadScope \<Rightarrow> AuditEnvelope \<Rightarrow> bool" where
  "matches_audit f a =
    (matches_optional (rd_project_id f) (au_project_id a) \<and> matches_optional (rd_mission_id f) (au_mission_id a)
     \<and> matches_optional (rd_thread_id f) (au_thread_id a) \<and> matches_optional (rd_process_id f) (au_process_id a))"

datatype EventError =
    EvSerialize string
  | EvSink string
  | EvDurableLog string
  | ReplayGap EventCursor EventCursor
  | InvalidReplayRequest string

record 'r EventLogEntry =
  le_cursor :: EventCursor
  le_record :: 'r

record 'r EventReplay =
  rp_entries :: "'r EventLogEntry list"
  rp_next_cursor :: EventCursor

record 'r StreamState =
  ss_next_cursor :: u64
  ss_earliest_retained :: u64
  ss_entries :: "'r EventLogEntry list"

definition StreamState_default :: "'r StreamState" where
  "StreamState_default = \<lparr>ss_next_cursor = 0, ss_earliest_retained = 0, ss_entries = []\<rparr>"

text \<open>\<open>checked_add\<close> fails at the greatest cursor.\<close>

definition stream_append :: "'r \<Rightarrow> 'r StreamState \<Rightarrow> (EventError, 'r EventLogEntry) result \<times> 'r StreamState" where
  "stream_append r st =
    (if ss_next_cursor st = - 1 then
       (Err (EvDurableLog ''event cursor overflowed u64; durable log exhausted''), st)
     else
       let entry = \<lparr>le_cursor = ss_next_cursor st + 1, le_record = r\<rparr>
       in (Ok entry, st\<lparr>ss_next_cursor := ss_next_cursor st + 1, ss_entries := ss_entries st @ [entry]\<rparr>))"

text \<open>The loop of \<open>read_after\<close>: entries collected so far (reversed) and the last cursor scanned.\<close>

fun scan_entries :: "('r \<Rightarrow> bool) \<Rightarrow> nat \<Rightarrow> 'r EventLogEntry list \<Rightarrow> EventCursor \<Rightarrow> 'r EventLogEntry list
    \<Rightarrow> 'r EventLogEntry list \<times> EventCursor" where
  "scan_entries is_match limit acc last_scanned [] = (rev acc, last_scanned)"
| "scan_entries is_match limit acc last_scanned (e # es) =
    (if \<not> is_match (le_record e) then scan_entries is_match limit acc (le_cursor e) es
     else if limit \<le> length (e # acc) then (rev (e # acc), le_cursor e)
     else scan_entries is_match limit (e # acc) (le_cursor e) es)"

text \<open>The entries are sorted by cursor, so the partition point is the first one past \<open>after\<close>.\<close>

definition read_after :: "'r StreamState \<Rightarrow> EventCursor \<Rightarrow> nat \<Rightarrow> ('r \<Rightarrow> bool) \<Rightarrow> (EventError, 'r EventReplay) result" where
  "read_after st after limit is_match =
    (if ss_next_cursor st < after then Err (ReplayGap after (ss_next_cursor st))
     else if 0 < ss_earliest_retained st \<and> after < saturating_sub (ss_earliest_retained st) 1 then
       Err (ReplayGap after (ss_earliest_retained st))
     else
       let (found, last_scanned) =
             scan_entries is_match limit [] after (dropWhile (\<lambda>e. le_cursor e \<le> after) (ss_entries st))
       in Ok \<lparr>rp_entries = found,
              rp_next_cursor = (if found = [] then last_scanned else le_cursor (last found))\<rparr>)"

definition stream_truncate :: "EventCursor \<Rightarrow> 'r StreamState \<Rightarrow> (EventError, unit) result \<times> 'r StreamState" where
  "stream_truncate bound st =
    (if bound = 0 then (Ok (), st)
     else if ss_next_cursor st < bound then
       (Err (InvalidReplayRequest ''truncation cursor exceeds stream head''), st)
     else (Ok (), st\<lparr>ss_entries := filter (\<lambda>e. bound < le_cursor e) (ss_entries st),
       ss_earliest_retained := (if ss_earliest_retained st \<le> bound then bound + 1 else ss_earliest_retained st)\<rparr>))"

text \<open>Both in-memory logs: a stream per key. \<open>key_of\<close> and \<open>matches\<close> are those of the record type.\<close>

type_synonym 'r DurableLog = "(EventStreamKey, 'r StreamState) hashmap"

definition log_append :: "('r \<Rightarrow> EventStreamKey) \<Rightarrow> 'r \<Rightarrow> 'r DurableLog
    \<Rightarrow> (EventError, 'r EventLogEntry) result \<times> 'r DurableLog" where
  "log_append key_of r log =
    (let key = key_of r; (res, st) = stream_append r (unwrap_or StreamState_default (hm_get log key))
     in (res, hm_insert key st log))"

definition log_read_after_cursor :: "(ReadScope \<Rightarrow> 'r \<Rightarrow> bool) \<Rightarrow> EventStreamKey \<Rightarrow> ReadScope \<Rightarrow> EventCursor option \<Rightarrow> nat
    \<Rightarrow> 'r DurableLog \<Rightarrow> (EventError, 'r EventReplay) result" where
  "log_read_after_cursor matches stream f after limit log =
    (if limit = 0 then Err (InvalidReplayRequest ''limit must be greater than zero'')
     else let after = unwrap_or 0 after in
       case hm_get log stream of
         Some st \<Rightarrow> read_after st after limit (matches f)
       | None \<Rightarrow>
           if 0 < after then Err (ReplayGap after 0)
           else Ok \<lparr>rp_entries = [], rp_next_cursor = after\<rparr>)"

definition log_truncate :: "EventStreamKey \<Rightarrow> EventCursor \<Rightarrow> 'r DurableLog \<Rightarrow> (EventError, unit) result \<times> 'r DurableLog" where
  "log_truncate stream bound log =
    (case hm_get log stream of
       Some st \<Rightarrow> (let (res, st') = stream_truncate bound st in (res, hm_insert stream st' log))
     | None \<Rightarrow> (Ok (), log))"

definition log_head_cursor :: "EventStreamKey \<Rightarrow> EventCursor \<Rightarrow> 'r DurableLog \<Rightarrow> (EventError, EventCursor) result" where
  "log_head_cursor stream after log =
    (let head = (case hm_get log stream of Some st \<Rightarrow> ss_next_cursor st | None \<Rightarrow> 0)
     in if head < after then Err (ReplayGap after head) else Ok head)"

definition event_key :: "RuntimeEvent \<Rightarrow> EventStreamKey" where
  "event_key e = EventStreamKey_from_scope (ev_scope e)"

definition audit_key :: "AuditEnvelope \<Rightarrow> EventStreamKey" where
  "audit_key a = \<lparr>esk_tenant_id = au_tenant_id a, esk_user_id = au_user_id a, esk_agent_id = au_agent_id a\<rparr>"

text \<open>\<open>append_batch\<close> of the trait: one at a time, in order.\<close>

fun log_append_batch :: "('r \<Rightarrow> EventStreamKey) \<Rightarrow> 'r list \<Rightarrow> 'r DurableLog
    \<Rightarrow> (EventError, 'r EventLogEntry) result list \<times> 'r DurableLog" where
  "log_append_batch key_of [] log = ([], log)"
| "log_append_batch key_of (r # rs) log =
    (let (res, log') = log_append key_of r log; (out, log'') = log_append_batch key_of rs log' in (res # out, log''))"

definition durable_event_sink_emit :: "RuntimeEvent \<Rightarrow> RuntimeEvent DurableLog
    \<Rightarrow> (EventError, unit) result \<times> RuntimeEvent DurableLog" where
  "durable_event_sink_emit e log =
    (case log_append event_key e log of (Inl x, log') \<Rightarrow> (Err x, log') | (Inr _, log') \<Rightarrow> (Ok (), log'))"

definition durable_audit_sink_emit :: "AuditEnvelope \<Rightarrow> AuditEnvelope DurableLog
    \<Rightarrow> (EventError, unit) result \<times> AuditEnvelope DurableLog" where
  "durable_audit_sink_emit a log =
    (case log_append audit_key a log of (Inl x, log') \<Rightarrow> (Err x, log') | (Inr _, log') \<Rightarrow> (Ok (), log'))"

end
