(* ===== verification/Event_Laws.thy ===== *)
theory Event_Laws
  imports Events
begin

text \<open>
  What the event log guarantees: nothing unredacted crosses the wire, and a replay either
  reports a gap or returns exactly the records of the stream after its cursor, in order, a page at
  a time. The contract of a durable log is the locale \<open>durable_log\<close>; both in-memory logs
  interpret it.
\<close>

section \<open>Redaction\<close>

lemma contains_str_sublist: "contains_str pat s \<longleftrightarrow> sublist pat s"
  by (induction s) (auto simp: sublist_Cons_right)

text \<open>Cutting a text and appending dots introduces no phrase without a dot.\<close>

lemma phrase_in_truncated:
  assumes "sublist f (take n s @ ''...'')" and "CHR ''.'' \<notin> set f"
  shows "sublist f s"
proof -
  from assms(1) consider "sublist f (take n s)" | "sublist f ''...''"
    | f1 f2 where "f = f1 @ f2" "suffix f1 (take n s)" "prefix f2 ''...''"
    by (auto simp: sublist_append)
  then show ?thesis
  proof cases
    case 1
    then show ?thesis
      by (meson prefix_imp_sublist sublist_order.order_trans take_is_prefix)
  next
    case 2
    then have "set f \<subseteq> {CHR ''.''}"
      by (auto dest!: set_mono_sublist)
    with assms(2) have "f = []" by (cases f) auto
    then show ?thesis by simp
  next
    case 3
    then have "set f2 \<subseteq> {CHR ''.''}"
      by (auto dest!: set_mono_prefix)
    with 3(1) assms(2) have "f2 = []" by (cases f2) auto
    with 3 have "sublist f (take n s)"
      by (simp add: suffix_imp_sublist)
    then show ?thesis
      by (meson prefix_imp_sublist sublist_order.order_trans take_is_prefix)
  qed
qed

definition redacted_summary :: "string \<Rightarrow> bool" where
  "redacted_summary t = (length t \<le> MAX_ERROR_SUMMARY_BYTES \<and> \<not> list_ex forbidden_character t
     \<and> (\<forall>f \<in> set forbidden_phrases. \<not> contains_str f (to_ascii_lowercase t)))"

lemma redacted_constants:
  "redacted_summary INPUT_ENCODE_HUMAN_SUMMARY" "redacted_summary WORKSPACE_FILE_ERROR_SUMMARY"
  "redacted_summary REDACTED_ERROR_SUMMARY"
  by code_simp+

lemma forbidden_phrases_no_dot: "list_all (\<lambda>f. CHR ''.'' \<notin> set f) forbidden_phrases"
  by code_simp

lemma floor_char_boundary_le: "floor_char_boundary s n \<le> n"
  by (induction n) auto

lemma safe_no_phrase:
  "is_safe_error_summary v lower \<Longrightarrow> f \<in> set forbidden_phrases \<Longrightarrow> \<not> contains_str f lower"
  unfolding is_safe_error_summary_def list_ex_iff by (meson)

lemma redacted_truncated:
  assumes "is_safe_error_summary v (to_ascii_lowercase v)"
  shows "redacted_summary (truncate_error_summary v)"
proof (cases "length v \<le> MAX_ERROR_SUMMARY_BYTES")
  case True
  with assms show ?thesis
    by (auto simp: truncate_error_summary_def redacted_summary_def is_safe_error_summary_def list_ex_iff
        split: if_splits)
next
  case False
  let ?n = "floor_char_boundary v (MAX_ERROR_SUMMARY_BYTES - 3)"
  have t: "truncate_error_summary v = take ?n v @ ''...''"
    using False by (simp add: truncate_error_summary_def)
  have "length (truncate_error_summary v) \<le> MAX_ERROR_SUMMARY_BYTES"
    using floor_char_boundary_le [of v "MAX_ERROR_SUMMARY_BYTES - 3"] False
    by (simp add: t MAX_ERROR_SUMMARY_BYTES_def)
  moreover have "\<not> list_ex forbidden_character (truncate_error_summary v)"
  proof -
    have "\<not> forbidden_character (CHR ''.'')" by code_simp
    with assms show ?thesis
      by (auto simp: t is_safe_error_summary_def list_ex_iff split: if_splits dest: in_set_takeD)
  qed
  moreover have "\<not> contains_str f (to_ascii_lowercase (truncate_error_summary v))" if "f \<in> set forbidden_phrases" for f
  proof -
    have l: "to_ascii_lowercase (truncate_error_summary v) = take ?n (to_ascii_lowercase v) @ ''...''"
    proof -
      have "to_ascii_lowercase ''...'' = ''...''" by code_simp
      then show ?thesis
        by (simp add: t to_ascii_lowercase_def take_map)
    qed
    have "CHR ''.'' \<notin> set f"
      using that forbidden_phrases_no_dot unfolding list_all_iff by blast
    moreover have "\<not> sublist f (to_ascii_lowercase v)"
      using safe_no_phrase [OF assms that] by (simp add: contains_str_sublist)
    ultimately show ?thesis
      unfolding l contains_str_sublist using phrase_in_truncated by blast
  qed
  ultimately show ?thesis
    by (simp add: redacted_summary_def)
qed

lemma sanitize_error_summary_redacted:
  "sanitize_error_summary v = Some t \<Longrightarrow> redacted_summary t"
  by (auto simp: sanitize_error_summary_def Let_def redacted_constants redacted_truncated split: if_splits)

definition redacted_kind :: "string \<Rightarrow> bool" where
  "redacted_kind k = (is_safe_error_kind k \<or> k = UNCLASSIFIED_ERROR_KIND)"

definition redacted_label :: "string \<Rightarrow> bool" where
  "redacted_label l = (is_safe_hook_label l \<or> l = UNCLASSIFIED_HOOK_LABEL)"

lemma guards [simp]:
  "redacted_kind (sanitize_error_kind v)" "redacted_label (sanitize_hook_label v)"
  "is_safe_hook_id (sanitize_hook_id v) \<or> sanitize_hook_id v = UNCLASSIFIED_HOOK_LABEL"
  by (simp_all add: redacted_kind_def redacted_label_def sanitize_error_kind_def sanitize_hook_label_def
      sanitize_hook_id_def)

lemma guards_idempotent [simp]:
  "sanitize_error_kind (sanitize_error_kind v) = sanitize_error_kind v"
  "sanitize_hook_label (sanitize_hook_label v) = sanitize_hook_label v"
  "sanitize_hook_id (sanitize_hook_id v) = sanitize_hook_id v"
  by (simp_all add: sanitize_error_kind_def sanitize_hook_label_def sanitize_hook_id_def)

definition redacted_event :: "RuntimeEvent \<Rightarrow> bool" where
  "redacted_event e =
    (pred_option redacted_kind (ev_error_kind e) \<and> pred_option redacted_summary (ev_error_summary e)
     \<and> pred_option (\<lambda>h. is_safe_hook_id h \<or> h = UNCLASSIFIED_HOOK_LABEL) (ev_hook_id e)
     \<and> pred_option redacted_label (ev_hook_point e) \<and> pred_option redacted_label (ev_hook_trust_class e)
     \<and> pred_option redacted_label (ev_hook_decision e) \<and> pred_option redacted_label (ev_hook_failure_category e)
     \<and> pred_option redacted_label (ev_hook_failure_disposition e))"

lemma pred_option_map: "pred_option p (map_option f x) = pred_option (p \<circ> f) x"
  by (cases x) auto

lemma pred_option_True: "(\<And>a. p a) \<Longrightarrow> pred_option p x"
  by (cases x) auto


section \<open>The history of a stream\<close>

text \<open>All records ever appended, with the cursors they were given.\<close>

fun numbered :: "nat \<Rightarrow> 'r list \<Rightarrow> 'r EventLogEntry list" where
  "numbered n [] = []"
| "numbered n (r # rs) = \<lparr>le_cursor = of_nat (Suc n), le_record = r\<rparr> # numbered (Suc n) rs"

lemma length_numbered [simp]: "length (numbered n rs) = length rs"
  by (induction rs arbitrary: n) auto

lemma numbered_append: "numbered n (xs @ ys) = numbered n xs @ numbered (n + length xs) ys"
  by (induction xs arbitrary: n) auto

lemma numbered_nth:
  "i < length rs \<Longrightarrow> numbered n rs ! i = \<lparr>le_cursor = of_nat (Suc (n + i)), le_record = rs ! i\<rparr>"
  by (induction rs arbitrary: n i) (auto simp: nth_Cons split: nat.split)

lemma drop_numbered: "drop k (numbered n rs) = numbered (n + k) (drop k rs)"
  by (induction k arbitrary: n rs) (simp, case_tac rs, auto)

lemma unat_cursor: "n + length rs < 2 ^ 64 \<Longrightarrow> i < length rs \<Longrightarrow> unat (le_cursor (numbered n rs ! i)) = Suc (n + i)"
  by (simp add: numbered_nth unat_of_nat take_bit_nat_eq_self del: of_nat_Suc)

lemma cursor_le: "n < 2 ^ 64 \<Longrightarrow> (of_nat n :: u64) \<le> c \<longleftrightarrow> n \<le> unat c"
  by (simp add: word_le_nat_alt unat_of_nat take_bit_nat_eq_self)

lemma le_cursor: "n < 2 ^ 64 \<Longrightarrow> c \<le> (of_nat n :: u64) \<longleftrightarrow> unat c \<le> n"
  by (simp add: word_le_nat_alt unat_of_nat take_bit_nat_eq_self)

lemma less_cursor: "n < 2 ^ 64 \<Longrightarrow> c < (of_nat n :: u64) \<longleftrightarrow> unat c < n"
  by (simp add: word_less_nat_alt unat_of_nat take_bit_nat_eq_self)

lemma cursor_less: "n < 2 ^ 64 \<Longrightarrow> (of_nat n :: u64) < c \<longleftrightarrow> n < unat c"
  by (simp add: word_less_nat_alt unat_of_nat take_bit_nat_eq_self)

lemma dropWhile_numbered:
  "n + length rs < 2 ^ 64 \<Longrightarrow> n \<le> unat c
    \<Longrightarrow> dropWhile (\<lambda>e. le_cursor e \<le> c) (numbered n rs) = drop (unat c - n) (numbered n rs)"
proof (induction rs arbitrary: n)
  case Nil
  then show ?case by simp
next
  case (Cons r rs)
  show ?case
  proof (cases "Suc n \<le> unat c")
    case True
    with Cons show ?thesis
      by (simp add: cursor_le del: of_nat_Suc) (metis Suc_diff_le diff_Suc_Suc drop_Suc_Cons)
  next
    case False
    with Cons.prems show ?thesis
      by (simp add: cursor_le del: of_nat_Suc)
  qed
qed

lemma filter_numbered:
  "n + length rs < 2 ^ 64 \<Longrightarrow> filter (\<lambda>e. c < le_cursor e) (numbered n rs) = drop (unat c - n) (numbered n rs)"
proof (induction rs arbitrary: n)
  case Nil
  then show ?case by simp
next
  case (Cons r rs)
  have "drop (unat c - n) (x # xs) = (if unat c < Suc n then x # xs else drop (unat c - Suc n) xs)" for x and xs :: "'a EventLogEntry list"
    by (auto simp: drop_Cons')
  moreover have "drop (unat c - Suc n) xs = xs" if "unat c < Suc n" for xs :: "'a EventLogEntry list"
    using that by simp
  ultimately show ?case
    using Cons by (simp add: less_cursor del: of_nat_Suc)
qed

text \<open>The scan stops after \<open>limit\<close> matches.\<close>

lemma scan_entries_found:
  "length acc < limit \<Longrightarrow>
    fst (scan_entries P limit acc l es) = rev acc @ take (limit - length acc) (filter (P \<circ> le_record) es)"
proof (induction es arbitrary: acc l)
  case Nil
  then show ?case by simp
next
  case (Cons e es)
  show ?case
  proof (cases "limit \<le> length (e # acc)")
    case True
    with Cons have "limit - length acc = Suc 0" by simp
    with Cons True show ?thesis by simp
  next
    case False
    with Cons.prems have "limit - length acc = Suc (limit - length (e # acc))" by simp
    with Cons False show ?thesis by simp
  qed
qed

lemma scan_entries_none:
  "filter (P \<circ> le_record) es = [] \<Longrightarrow> scan_entries P limit acc l es = (rev acc, if es = [] then l else le_cursor (last es))"
  by (induction es arbitrary: l) (auto split: if_splits)

section \<open>What a stream holds\<close>

text \<open>\<open>b\<close> is the number of records dropped by retention.\<close>

definition stream_rep :: "'r StreamState \<Rightarrow> 'r list \<Rightarrow> nat \<Rightarrow> bool" where
  "stream_rep st h b = (Suc (length h) < 2 ^ 64 \<and> b \<le> length h \<and> ss_next_cursor st = of_nat (length h)
     \<and> ss_earliest_retained st = (if b = 0 then 0 else of_nat (Suc b)) \<and> ss_entries st = drop b (numbered 0 h))"

lemma stream_rep_default: "stream_rep StreamState_default [] 0"
  by (simp add: stream_rep_def StreamState_default_def)

lemma stream_append_rep:
  assumes "stream_rep st h b" and "Suc (Suc (length h)) < 2 ^ 64"
  shows "\<exists>st'. stream_append r st = (Ok \<lparr>le_cursor = of_nat (Suc (length h)), le_record = r\<rparr>, st') \<and> stream_rep st' (h @ [r]) b"
proof -
  have "ss_next_cursor st \<noteq> - 1"
  proof
    assume "ss_next_cursor st = - 1"
    then have "unat (of_nat (length h) :: u64) = unat (- 1 :: u64)"
      using assms(1) by (auto simp: stream_rep_def)
    with assms(2) show False
      unfolding unat_max_word by (simp add: unat_of_nat take_bit_nat_eq_self)
  qed
  with assms show ?thesis
    by (auto simp: stream_append_def stream_rep_def numbered_append Let_def add.commute)
qed

lemma stream_truncate_rep:
  assumes "stream_rep st h b"
  shows "\<exists>b'. b' \<le> max b (unat c) \<and> stream_rep (snd (stream_truncate c st)) h b'"
proof (cases "c = 0 \<or> ss_next_cursor st < c")
  case True
  with assms show ?thesis
    by (intro exI [of _ b]) (auto simp: stream_truncate_def)
next
  case False
  let ?b = "max b (unat c)"
  from False assms have c: "0 < unat c" "unat c \<le> length h" "Suc (length h) < 2 ^ 64"
    by (auto simp: stream_rep_def not_less le_cursor unat_gt_0)
  have e: "filter (\<lambda>e. c < le_cursor e) (ss_entries st) = drop ?b (numbered 0 h)"
  proof -
    have "filter (\<lambda>e. c < le_cursor e) (drop b (numbered 0 h)) = drop (unat c - b) (drop b (numbered 0 h))"
      using assms filter_numbered [of b "drop b h" c] by (simp add: drop_numbered stream_rep_def)
    moreover have "b + (unat c - b) = ?b" by simp
    ultimately show ?thesis
      using assms by (simp add: stream_rep_def drop_drop add.commute)
  qed
  have s: "c + 1 = of_nat (Suc (unat c))" by simp
  have "(if ss_earliest_retained st \<le> c then c + 1 else ss_earliest_retained st) = of_nat (Suc ?b)"
  proof (cases "b = 0")
    case True
    with assms show ?thesis by (simp add: stream_rep_def)
  next
    case False
    then have r: "ss_earliest_retained st = of_nat (Suc b)" and "Suc b < 2 ^ 64"
      using assms by (auto simp: stream_rep_def)
    have "ss_earliest_retained st \<le> c \<longleftrightarrow> Suc b \<le> unat c"
      unfolding r by (rule cursor_le [OF \<open>Suc b < 2 ^ 64\<close>])
    then show ?thesis
      by (cases "b = unat c") (auto simp: r s max_def simp del: of_nat_Suc)
  qed
  with e c assms False have "stream_rep (snd (stream_truncate c st)) h ?b"
    by (auto simp: stream_truncate_def stream_rep_def simp del: of_nat_Suc)
  then show ?thesis by blast
qed

text \<open>A page of the history: the first matches after a cursor, and where to go on.\<close>

definition matching_after :: "('r \<Rightarrow> bool) \<Rightarrow> 'r list \<Rightarrow> EventCursor \<Rightarrow> 'r EventLogEntry list" where
  "matching_after P h c = filter (P \<circ> le_record) (drop (unat c) (numbered 0 h))"

definition page_of :: "('r \<Rightarrow> bool) \<Rightarrow> 'r list \<Rightarrow> nat \<Rightarrow> EventCursor \<Rightarrow> 'r EventReplay" where
  "page_of P h limit c =
    (let found = take limit (matching_after P h c)
     in \<lparr>rp_entries = found, rp_next_cursor = (if found = [] then of_nat (length h) else le_cursor (last found))\<rparr>)"

lemma read_after_rep:
  assumes "stream_rep st h b" and "0 < limit"
  shows "read_after st c limit P =
    (if length h < unat c then Err (ReplayGap c (of_nat (length h)))
     else if unat c < b then Err (ReplayGap c (of_nat (Suc b)))
     else Ok (page_of P h limit c))"
proof -
  from assms(1) have h: "Suc (length h) < 2 ^ 64" "ss_next_cursor st = of_nat (length h)" "b \<le> length h"
    "ss_earliest_retained st = (if b = 0 then 0 else of_nat (Suc b))" "ss_entries st = drop b (numbered 0 h)"
    by (auto simp: stream_rep_def)
  have "ss_next_cursor st < c \<longleftrightarrow> length h < unat c"
    using h(1) by (simp add: h(2) cursor_less)
  moreover have "0 < ss_earliest_retained st \<and> c < saturating_sub (ss_earliest_retained st) 1 \<longleftrightarrow> unat c < b"
  proof (cases "b = 0")
    case True
    then show ?thesis by (simp add: h(4))
  next
    case False
    then have "unat (ss_earliest_retained st) = Suc b"
      using h(1,3,4) by (simp add: unat_of_nat take_bit_nat_eq_self del: of_nat_Suc)
    then show ?thesis
      by (simp add: word_less_nat_alt unat_saturating_sub)
  qed
  moreover have "scan_entries P limit [] c (dropWhile (\<lambda>e. le_cursor e \<le> c) (ss_entries st))
      = scan_entries P limit [] c (drop (unat c) (numbered 0 h))" if "b \<le> unat c"
    using dropWhile_numbered [of b "drop b h" c] h(1,3) that
    by (simp add: h(5) drop_numbered)
  moreover have "(let (found, last_scanned) = scan_entries P limit [] c (drop (unat c) (numbered 0 h))
      in \<lparr>rp_entries = found, rp_next_cursor = (if found = [] then last_scanned else le_cursor (last found))\<rparr>)
      = page_of P h limit c" if c: "unat c \<le> length h"
  proof (cases "matching_after P h c = []")
    case True
    have "(if drop (unat c) (numbered 0 h) = [] then c else le_cursor (last (drop (unat c) (numbered 0 h)))) = of_nat (length h)"
    proof (cases "unat c = length h")
      case True
      then show ?thesis by (simp flip: True)
    next
      case False
      with c have "last (drop (unat c) (numbered 0 h)) = numbered 0 h ! (length h - 1)"
        by (simp add: last_conv_nth)
      moreover from c False have "Suc (length h - 1) = length h" by simp
      ultimately show ?thesis
        using c False by (simp add: numbered_nth del: of_nat_Suc)
    qed
    with True show ?thesis
      unfolding matching_after_def page_of_def by (simp add: scan_entries_none)
  next
    case False
    with assms(2) scan_entries_found [of "[]" limit P c "drop (unat c) (numbered 0 h)"] show ?thesis
      by (auto simp: page_of_def matching_after_def Let_def split: prod.split)
  qed
  ultimately show ?thesis
    by (auto simp: read_after_def h(2,4) Let_def split: prod.splits)
qed

text \<open>The next page starts where this one ends.\<close>

lemma filter_take_split:
  "take n (filter P xs) \<noteq> [] \<Longrightarrow> \<exists>ys e zs. xs = ys @ e # zs \<and> last (take n (filter P xs)) = e \<and> filter P zs = drop n (filter P xs)"
proof (induction xs arbitrary: n)
  case Nil
  then show ?case by simp
next
  case (Cons x xs)
  show ?case
  proof (cases "P x")
    case False
    with Cons.prems have "take n (filter P xs) \<noteq> []" by simp
    from Cons.IH [OF this] obtain ys e zs where xs: "xs = ys @ e # zs"
      and "last (take n (filter P xs)) = e" "filter P zs = drop n (filter P xs)"
      by blast
    with False have "x # xs = (x # ys) @ e # zs" "last (take n (filter P (x # xs))) = e"
      "filter P zs = drop n (filter P (x # xs))"
      by (simp_all only: append_Cons filter.simps if_False)
    then show ?thesis by blast
  next
    case True
    with Cons.prems obtain m where n: "n = Suc m" by (cases n) auto
    show ?thesis
    proof (cases "take m (filter P xs) = []")
      case e: True
      with True n show ?thesis
        by (intro exI [of _ "[]"] exI [of _ x] exI [of _ xs]) auto
    next
      case False
      from Cons.IH [OF this] obtain ys e zs where xs: "xs = ys @ e # zs"
        and "last (take m (filter P xs)) = e" "filter P zs = drop m (filter P xs)"
        by blast
      with False True have "x # xs = (x # ys) @ e # zs" "last (take n (filter P (x # xs))) = e"
        "filter P zs = drop n (filter P (x # xs))"
        by (simp_all only: append_Cons filter.simps if_True n take_Suc_Cons drop_Suc_Cons last.simps if_False)
      then show ?thesis by blast
    qed
  qed
qed

lemma page_of_next:
  assumes "Suc (length h) < 2 ^ 64" and "rp_entries (page_of P h limit c) \<noteq> []"
  shows "unat c < unat (rp_next_cursor (page_of P h limit c)) \<and> unat (rp_next_cursor (page_of P h limit c)) \<le> length h
    \<and> matching_after P h (rp_next_cursor (page_of P h limit c)) = drop limit (matching_after P h c)"
proof -
  let ?d = "drop (unat c) (numbered 0 h)"
  let ?n = "rp_next_cursor (page_of P h limit c)"
  from assms(2) have "take limit (filter (P \<circ> le_record) ?d) \<noteq> []"
    by (simp add: page_of_def matching_after_def Let_def)
  from filter_take_split [OF this] obtain ys e zs where d: "?d = ys @ e # zs"
    and e: "last (take limit (filter (P \<circ> le_record) ?d)) = e" and z: "filter (P \<circ> le_record) zs = drop limit (filter (P \<circ> le_record) ?d)"
    by blast
  have n: "?n = le_cursor e"
    using assms(2) e by (simp add: page_of_def matching_after_def Let_def)
  let ?i = "unat c + length ys"
  have i: "?i < length h"
    using arg_cong [OF d, of length] by simp
  have "e = numbered 0 h ! ?i"
    using arg_cong [OF d, of "\<lambda>l. l ! length ys"] i by simp
  then have u: "unat ?n = Suc ?i"
    using unat_cursor [of 0 h ?i] assms(1) i by (simp add: n)
  have "drop (Suc ?i) (numbered 0 h) = drop (Suc (length ys)) ?d"
    by (simp add: add.commute)
  with d have "drop (Suc ?i) (numbered 0 h) = zs"
    by simp
  with u i z show ?thesis
    by (simp add: matching_after_def)
qed

section \<open>The contract of a durable log\<close>

text \<open>A consumer that reads page after page until one is empty; \<open>fuel\<close> bounds the number of pages.\<close>

fun replay_all :: "(EventCursor \<Rightarrow> (EventError, 'r EventReplay) result) \<Rightarrow> nat \<Rightarrow> EventCursor
    \<Rightarrow> (EventError, 'r EventLogEntry list) result option" where
  "replay_all read_page 0 c = None"
| "replay_all read_page (Suc fuel) c =
    (case read_page c of
       Inl e \<Rightarrow> Some (Err e)
     | Inr p \<Rightarrow>
         if rp_entries p = [] then Some (Ok [])
         else case replay_all read_page fuel (rp_next_cursor p) of
           Some (Inr es) \<Rightarrow> Some (Ok (rp_entries p @ es))
         | other \<Rightarrow> other)"

text \<open>
  \<open>rep s h t\<close>: \<open>s\<close> is a log whose stream \<open>k\<close> received the records \<open>h k\<close>, of which the first \<open>t k\<close> are no
  longer retained.
\<close>

datatype 'r LogOp = LAppend 'r | LTruncate EventStreamKey EventCursor

fun appended :: "'r LogOp list \<Rightarrow> 'r list" where
  "appended [] = []"
| "appended (LAppend r # ops) = r # appended ops"
| "appended (LTruncate k c # ops) = appended ops"

definition history :: "('r \<Rightarrow> EventStreamKey) \<Rightarrow> 'r LogOp list \<Rightarrow> EventStreamKey \<Rightarrow> 'r list" where
  "history key_of ops k = filter (\<lambda>r. key_of r = k) (appended ops)"

locale durable_log =
  fixes rep :: "'s \<Rightarrow> (EventStreamKey \<Rightarrow> 'r list) \<Rightarrow> (EventStreamKey \<Rightarrow> nat) \<Rightarrow> bool"
    and key_of :: "'r \<Rightarrow> EventStreamKey"
    and matches :: "ReadScope \<Rightarrow> 'r \<Rightarrow> bool"
    and append_record :: "'r \<Rightarrow> 's \<Rightarrow> (EventError, 'r EventLogEntry) result \<times> 's"
    and truncate_stream :: "EventStreamKey \<Rightarrow> EventCursor \<Rightarrow> 's \<Rightarrow> (EventError, unit) result \<times> 's"
    and read_page :: "EventStreamKey \<Rightarrow> ReadScope \<Rightarrow> EventCursor option \<Rightarrow> nat \<Rightarrow> 's \<Rightarrow> (EventError, 'r EventReplay) result"
  assumes rep_bound: "rep s h t \<Longrightarrow> Suc (length (h k)) < 2 ^ 64"
    and rep_append: "rep s h t \<Longrightarrow> Suc (Suc (length (h (key_of r)))) < 2 ^ 64 \<Longrightarrow>
      \<exists>s'. append_record r s = (Ok \<lparr>le_cursor = of_nat (Suc (length (h (key_of r)))), le_record = r\<rparr>, s')
        \<and> rep s' (h(key_of r := h (key_of r) @ [r])) t"
    and rep_truncate: "rep s h t \<Longrightarrow>
      \<exists>t'. rep (snd (truncate_stream k c s)) h t' \<and> (\<forall>k'. t' k' \<le> (if k' = k then max (t k) (unat c) else t k'))"
    and read_exact: "rep s h t \<Longrightarrow> 0 < limit \<Longrightarrow> read_page k f (Some c) limit s =
      (if length (h k) < unat c then Err (ReplayGap c (of_nat (length (h k))))
       else if unat c < t k then Err (ReplayGap c (of_nat (Suc (t k))))
       else Ok (page_of (matches f) (h k) limit c))"
begin

lemma replay_complete:
  assumes "rep s h t" and "0 < limit" and "unat c \<le> length (h k)" and "t k \<le> unat c" and "length (h k) < fuel + unat c"
  shows "replay_all (\<lambda>c. read_page k f (Some c) limit s) fuel c = Some (Ok (matching_after (matches f) (h k) c))"
  using assms(3-)
proof (induction fuel arbitrary: c)
  case 0
  then show ?case by simp
next
  case (Suc fuel)
  let ?p = "page_of (matches f) (h k) limit c"
  have r: "read_page k f (Some c) limit s = Ok ?p"
    using read_exact [OF assms(1,2)] Suc.prems by simp
  show ?case
  proof (cases "rp_entries ?p = []")
    case True
    with assms(2) r show ?thesis
      by (simp add: page_of_def Let_def)
  next
    case False
    from page_of_next [OF rep_bound [OF assms(1)] False] Suc.prems
    have "replay_all (\<lambda>c. read_page k f (Some c) limit s) fuel (rp_next_cursor ?p)
        = Some (Ok (drop limit (matching_after (matches f) (h k) c)))"
      using Suc.IH [of "rp_next_cursor ?p"] by simp
    with False r show ?thesis
      by (simp add: page_of_def Let_def)
  qed
qed

fun exec :: "'r LogOp \<Rightarrow> 's \<Rightarrow> 's" where
  "exec (LAppend r) s = snd (append_record r s)"
| "exec (LTruncate k c) s = snd (truncate_stream k c s)"

lemma rep_run:
  assumes "rep s h t" and "\<forall>k. Suc (length (h k) + length ops) < 2 ^ 64"
  shows "\<exists>t'. rep (fold exec ops s) (\<lambda>k. h k @ history key_of ops k) t'
    \<and> (\<forall>k. t' k \<le> t k \<or> (\<exists>c. LTruncate k c \<in> set ops \<and> t' k \<le> unat c))"
  using assms
proof (induction ops arbitrary: s h t)
  case Nil
  then show ?case by (auto simp: history_def)
next
  case (Cons op ops)
  show ?case
  proof (cases op)
    case (LAppend r)
    have "length (h (key_of r)) + length (op # ops) < 2 ^ 64 - 1"
      using Cons.prems(2) by (auto simp: less_diff_conv)
    then have "Suc (Suc (length (h (key_of r)))) < 2 ^ 64"
      by simp
    from rep_append [OF Cons.prems(1) this] obtain s' where
      s': "append_record r s = (Ok \<lparr>le_cursor = of_nat (Suc (length (h (key_of r)))), le_record = r\<rparr>, s')"
        "rep s' (h(key_of r := h (key_of r) @ [r])) t"
      by blast
    let ?h = "h(key_of r := h (key_of r) @ [r])"
    have "\<forall>k. Suc (length (?h k) + length ops) < 2 ^ 64"
    proof
      fix k
      have "Suc (length (h k) + length (op # ops)) < 2 ^ 64"
        using Cons.prems(2) by blast
      then show "Suc (length (?h k) + length ops) < 2 ^ 64" by (cases "k = key_of r") simp_all
    qed
    from Cons.IH [OF s'(2) this] obtain t' where
      "rep (fold exec ops s') (\<lambda>k. ?h k @ history key_of ops k) t'"
      and t': "\<forall>k. t' k \<le> t k \<or> (\<exists>c. LTruncate k c \<in> set ops \<and> t' k \<le> unat c)"
      by blast
    moreover have "(\<lambda>k. ?h k @ history key_of ops k) = (\<lambda>k. h k @ history key_of (op # ops) k)"
      by (auto simp: LAppend history_def)
    ultimately have "rep (fold exec (op # ops) s) (\<lambda>k. h k @ history key_of (op # ops) k) t'"
      by (simp add: LAppend s'(1))
    moreover from t' have "\<forall>k. t' k \<le> t k \<or> (\<exists>c. LTruncate k c \<in> set (op # ops) \<and> t' k \<le> unat c)"
      by (meson list.set_intros(2))
    ultimately show ?thesis by blast
  next
    case (LTruncate k c)
    from rep_truncate [OF Cons.prems(1), of k c] obtain t1 where
      t1: "rep (exec op s) h t1" "\<forall>k'. t1 k' \<le> (if k' = k then max (t k) (unat c) else t k')"
      by (auto simp: LTruncate)
    have "\<forall>k. Suc (length (h k) + length ops) < 2 ^ 64"
    proof
      fix k
      have "Suc (length (h k) + length (op # ops)) < 2 ^ 64"
        using Cons.prems(2) by blast
      then show "Suc (length (h k) + length ops) < 2 ^ 64" by simp
    qed
    from Cons.IH [OF t1(1) this] obtain t' where
      t': "rep (fold exec ops (exec op s)) (\<lambda>k. h k @ history key_of ops k) t'"
        "\<forall>k. t' k \<le> t1 k \<or> (\<exists>c. LTruncate k c \<in> set ops \<and> t' k \<le> unat c)"
      by blast
    have "t' k' \<le> t k' \<or> (\<exists>c. LTruncate k' c \<in> set (op # ops) \<and> t' k' \<le> unat c)" for k'
    proof -
      have "t1 k' \<le> t k' \<or> (k' = k \<and> t1 k' \<le> unat c)"
        using t1(2) [rule_format, of k'] by (auto simp: max_def split: if_splits)
      with t'(2) [rule_format, of k'] show ?thesis
        by (metis LTruncate le_trans list.set_intros(1,2))
    qed
    moreover have "history key_of (op # ops) = history key_of ops"
      by (simp add: LTruncate history_def fun_eq_iff)
    ultimately show ?thesis
      using t'(1) by (intro exI [of _ t']) simp
  qed
qed

lemma replay:
  assumes "rep s h t" and "0 < limit"
  shows "case read_page k f (Some c) limit s of
      Inl e \<Rightarrow> (\<exists>earliest. e = ReplayGap c earliest) \<and> (length (h k) < unat c \<or> unat c < t k)
    | Inr p \<Rightarrow> rp_entries p = take limit (matching_after (matches f) (h k) c)
        \<and> replay_all (\<lambda>c. read_page k f (Some c) limit s) (Suc (length (h k))) c
            = Some (Ok (matching_after (matches f) (h k) c))"
  using read_exact [OF assms, of k f c] replay_complete [OF assms, of c k "Suc (length (h k))" f]
  by (auto simp: page_of_def Let_def)

end

section \<open>The in-memory logs\<close>

definition log_rep :: "'r DurableLog \<Rightarrow> (EventStreamKey \<Rightarrow> 'r list) \<Rightarrow> (EventStreamKey \<Rightarrow> nat) \<Rightarrow> bool" where
  "log_rep log h t = (\<forall>k. case hm_get log k of
     None \<Rightarrow> h k = [] \<and> t k = 0 | Some st \<Rightarrow> stream_rep st (h k) (t k))"

lemma log_repD:
  "log_rep log h t \<Longrightarrow> stream_rep (unwrap_or StreamState_default (hm_get log k)) (h k) (t k)"
  using stream_rep_default by (cases "hm_get log k") (auto simp: log_rep_def dest: spec [of _ k])

lemma log_append_rep:
  assumes "log_rep log h t" and "Suc (Suc (length (h (key_of r)))) < 2 ^ 64"
  shows "\<exists>log'. log_append key_of r log = (Ok \<lparr>le_cursor = of_nat (Suc (length (h (key_of r)))), le_record = r\<rparr>, log')
    \<and> log_rep log' (h(key_of r := h (key_of r) @ [r])) t"
proof -
  from stream_append_rep [OF log_repD [OF assms(1)] assms(2)] obtain st' where
    "stream_append r (unwrap_or StreamState_default (hm_get log (key_of r)))
      = (Ok \<lparr>le_cursor = of_nat (Suc (length (h (key_of r)))), le_record = r\<rparr>, st')"
    "stream_rep st' (h (key_of r) @ [r]) (t (key_of r))"
    by blast
  moreover from this(2) assms(1) have "log_rep (hm_insert (key_of r) st' log) (h(key_of r := h (key_of r) @ [r])) t"
    by (simp add: log_rep_def hm_simps cong: option.case_cong)
  ultimately show ?thesis
    by (simp add: log_append_def Let_def del: of_nat_Suc)
qed

lemma log_truncate_rep:
  assumes "log_rep log h t"
  shows "\<exists>t'. log_rep (snd (log_truncate k c log)) h t' \<and> (\<forall>k'. t' k' \<le> (if k' = k then max (t k) (unat c) else t k'))"
proof (cases "hm_get log k")
  case None
  with assms show ?thesis
    by (intro exI [of _ t]) (auto simp: log_truncate_def)
next
  case (Some st)
  with assms have "stream_rep st (h k) (t k)"
    by (auto simp: log_rep_def dest: spec [of _ k])
  from stream_truncate_rep [OF this, of c] obtain b where
    b: "b \<le> max (t k) (unat c)" "stream_rep (snd (stream_truncate c st)) (h k) b"
    by blast
  with Some assms show ?thesis
    by (intro exI [of _ "t(k := b)"]) (auto simp: log_truncate_def log_rep_def hm_simps split: prod.split cong: option.case_cong)
qed

lemma log_read_rep:
  assumes "log_rep log h t" and "0 < limit"
  shows "log_read_after_cursor matches k f (Some c) limit log =
    (if length (h k) < unat c then Err (ReplayGap c (of_nat (length (h k))))
     else if unat c < t k then Err (ReplayGap c (of_nat (Suc (t k))))
     else Ok (page_of (matches f) (h k) limit c))"
proof (cases "hm_get log k")
  case None
  with assms(1) have "h k = []" "t k = 0"
    by (auto simp: log_rep_def dest: spec [of _ k])
  with None assms(2) show ?thesis
    by (auto simp: log_read_after_cursor_def page_of_def matching_after_def word_less_nat_alt unat_eq_zero)
next
  case (Some st)
  with assms(1) have "stream_rep st (h k) (t k)"
    by (auto simp: log_rep_def dest: spec [of _ k])
  from read_after_rep [OF this assms(2)] Some assms(2) show ?thesis
    by (simp add: log_read_after_cursor_def)
qed

lemma log_rep_bound: "log_rep log h t \<Longrightarrow> Suc (length (h k)) < 2 ^ 64"
  using log_repD [of log h t k] by (simp add: stream_rep_def)

interpretation event_log: durable_log log_rep event_key matches_event "log_append event_key" log_truncate
  "log_read_after_cursor matches_event"
  by unfold_locales ((erule log_rep_bound | erule (1) log_append_rep | erule log_truncate_rep | erule (1) log_read_rep))+

interpretation audit_log: durable_log log_rep audit_key matches_audit "log_append audit_key" log_truncate
  "log_read_after_cursor matches_audit"
  by unfold_locales ((erule log_rep_bound | erule (1) log_append_rep | erule log_truncate_rep | erule (1) log_read_rep))+

fun log_op :: "('r \<Rightarrow> EventStreamKey) \<Rightarrow> 'r LogOp \<Rightarrow> 'r DurableLog \<Rightarrow> 'r DurableLog" where
  "log_op key_of (LAppend r) log = snd (log_append key_of r log)"
| "log_op key_of (LTruncate k c) log = snd (log_truncate k c log)"

definition run_log :: "('r \<Rightarrow> EventStreamKey) \<Rightarrow> 'r LogOp list \<Rightarrow> 'r DurableLog" where
  "run_log key_of ops = fold (log_op key_of) ops []"

lemma run_log_eq: "run_log event_key ops = fold event_log.exec ops []" "run_log audit_key ops' = fold audit_log.exec ops' []"
proof -
  have "log_op event_key op = event_log.exec op" for op by (cases op) auto
  moreover have "log_op audit_key op = audit_log.exec op" for op by (cases op) auto
  ultimately show "run_log event_key ops = fold event_log.exec ops []" "run_log audit_key ops' = fold audit_log.exec ops' []"
    by (simp_all add: run_log_def cong: fold_cong)
qed

lemma log_rep_empty: "log_rep [] (\<lambda>k. []) (\<lambda>k. 0)"
  by (simp add: log_rep_def)

text \<open>
  C33: after any sequence of appends and retention cuts on the runtime event log, a read of a stream
  after a cursor never loses or invents a record. Either it reports a replay gap for that cursor,
  and then the cursor lies beyond the head of the stream or retention was asked to cut past it; or
  it returns the first \<open>limit\<close> events of that tenant, user and agent recorded after the cursor that
  the scope filter admits, in order, and a consumer that goes on from each page's next cursor
  finishes within one page more than there are records and has then received all of them.
\<close>

theorem replay_exact:
  assumes "Suc (length ops) < 2 ^ 64" and "0 < limit"
    and "log = run_log event_key ops" and "h = history event_key ops k"
  shows "case log_read_after_cursor matches_event k f (Some c) limit log of
      Inl e \<Rightarrow> (\<exists>earliest. e = ReplayGap c earliest)
        \<and> (length h < unat c \<or> (\<exists>c'. LTruncate k c' \<in> set ops \<and> unat c < unat c'))
    | Inr p \<Rightarrow> rp_entries p = take limit (matching_after (matches_event f) h c)
        \<and> replay_all (\<lambda>c. log_read_after_cursor matches_event k f (Some c) limit log) (Suc (length h)) c
            = Some (Ok (matching_after (matches_event f) h c))
        \<and> (\<forall>e \<in> set (rp_entries p). stream_matches k (ev_scope (le_record e)) \<and> matches_event f (le_record e))"
proof -
  from event_log.rep_run [OF log_rep_empty, of ops] assms(1) obtain t where
    t: "log_rep log (\<lambda>k. [] @ history event_key ops k) t"
      "\<forall>k. t k \<le> 0 \<or> (\<exists>c. LTruncate k c \<in> set ops \<and> t k \<le> unat c)"
    by (auto simp: assms(3) run_log_eq)
  have "stream_matches k (ev_scope (le_record e)) \<and> matches_event f (le_record e)"
    if "e \<in> set (take limit (matching_after (matches_event f) h c))" for e
  proof -
    from that have "matches_event f (le_record e)" "e \<in> set (numbered 0 h)"
      by (auto simp: matching_after_def dest!: in_set_takeD in_set_dropD)
    moreover from this(2) have "le_record e \<in> set h"
      by (auto simp: in_set_conv_nth numbered_nth)
    ultimately show ?thesis
      by (auto simp: assms(4) history_def event_key_def EventStreamKey_from_scope_def stream_matches_def)
  qed
  then show ?thesis
    using event_log.replay [OF t(1) assms(2), where k = k and f = f and c = c] t(2) [rule_format, of k]
    by (auto simp: assms(4) split: sum.splits intro: less_le_trans)
qed

definition example_event :: "TenantId \<Rightarrow> uuid \<Rightarrow> RuntimeEvent" where
  "example_event tenant i = dispatch_requested (i, 0)
    \<lparr>rs_tenant_id = tenant, rs_user_id = ''ann'', rs_agent_id = None, rs_project_id = None, rs_mission_id = None,
     rs_thread_id = Some ''t1'', rs_invocation_id = 7\<rparr> ''shell.run''"

theorem replay_exact_witness:
  "\<exists>p. log_read_after_cursor matches_event (event_key (example_event ''acme'' 4)) ReadScope_any (Some 0) 1
      (run_log event_key [LAppend (example_event ''acme'' 4), LAppend (example_event ''evil'' 5), LAppend (example_event ''acme'' 6)]) = Ok p
    \<and> map (ev_event_id \<circ> le_record) (rp_entries p) = [4]"
proof -
  let ?ops = "[LAppend (example_event ''acme'' 4), LAppend (example_event ''evil'' 5), LAppend (example_event ''acme'' 6)]"
  let ?k = "event_key (example_event ''acme'' 4)"
  have h: "history event_key ?ops ?k = [example_event ''acme'' 4, example_event ''acme'' 6]"
    by (simp add: history_def example_event_def event_key_def EventStreamKey_from_scope_def dispatch_requested_def
        RuntimeEvent_new_def metadata_payload_def)
  have "matching_after (matches_event ReadScope_any) (history event_key ?ops ?k) 0
      = numbered 0 [example_event ''acme'' 4, example_event ''acme'' 6]"
    by (simp add: h matching_after_def matches_event_def matches_optional_def ReadScope_any_def)
  with replay_exact [of ?ops 1 "run_log event_key ?ops" "history event_key ?ops ?k" ?k 0 ReadScope_any] show ?thesis
    by (auto simp: example_event_def dispatch_requested_def RuntimeEvent_new_def metadata_payload_def split: sum.splits)
qed

end
