(* ===== verification/Tasks.thy ===== *)
theory Tasks
  imports Prelude
begin

text \<open>
  Asynchronous functions. A task is a value, or an access to the shared world followed by the rest
  of the task. An access is atomic: it is one call on a store behind its lock, or on a port. Between
  two accesses any other task may run, so the next one finds a world of its own. \<open>finish\<close> runs a
  task alone, \<open>drive\<close> runs it against the worlds it happens to find, and \<open>system_step\<close>
  interleaves any number of tasks.
\<close>

section \<open>Tasks\<close>

datatype ('w, 'r) async = Ready 'r | Await "'w \<Rightarrow> 'w" "'w \<Rightarrow> ('w, 'r) async"

text \<open>\<open>call op\<close> awaits an operation that answers and changes the world.\<close>

definition call :: "('w \<Rightarrow> 'a \<times> 'w) \<Rightarrow> ('w, 'a) async" where
  "call op = Await (\<lambda>w. snd (op w)) (\<lambda>w. Ready (fst (op w)))"

primrec await :: "('w, 'a) async \<Rightarrow> ('a \<Rightarrow> ('w, 'r) async) \<Rightarrow> ('w, 'r) async" where
  "await (Ready a) f = f a"
| "await (Await u n) f = Await u (\<lambda>w. await (n w) f)"

text \<open>The \<open>?\<close> operator on an awaited result.\<close>

definition try_await :: "('w, ('e, 'a) result) async \<Rightarrow> ('a \<Rightarrow> ('w, ('e, 'r) result) async) \<Rightarrow> ('w, ('e, 'r) result) async" where
  "try_await p f = await p (\<lambda>res. case res of Inl e \<Rightarrow> Ready (Err e) | Inr a \<Rightarrow> f a)"

lemma await_call: "await (call op) f = Await (\<lambda>w. snd (op w)) (\<lambda>w. f (fst (op w)))"
  by (simp add: call_def)

lemma await_assoc: "await (await p f) g = await p (\<lambda>a. await (f a) g)"
  by (induction p) (auto simp: fun_eq_iff)

lemma await_Ready [simp]: "await p Ready = p"
  by (induction p) (auto simp: fun_eq_iff)

definition is_ready :: "('w, 'r) async \<Rightarrow> bool" where
  "is_ready p = (case p of Ready _ \<Rightarrow> True | Await _ _ \<Rightarrow> False)"

lemma is_ready_iff: "is_ready p \<longleftrightarrow> (\<exists>r. p = Ready r)"
  by (cases p) (auto simp: is_ready_def)

definition answer :: "('w, 'r) async \<Rightarrow> 'r option" where
  "answer p = (case p of Ready r \<Rightarrow> Some r | Await _ _ \<Rightarrow> None)"

lemma is_ready_Ready [simp]: "is_ready (Ready r)"
  by (simp add: is_ready_def)

section \<open>Running\<close>

primrec finish :: "('w, 'r) async \<Rightarrow> 'w \<Rightarrow> 'r \<times> 'w" where
  "finish (Ready r) = (\<lambda>w. (r, w))"
| "finish (Await u n) = (\<lambda>w. finish (n w) (u w))"

lemma finish_await: "finish (await p f) w = (case finish p w of (a, w') \<Rightarrow> finish (f a) w')"
  by (induction p arbitrary: w) auto

text \<open>The task meets the worlds of the list, one per access; it stops when it is ready.\<close>

fun drive :: "('w, 'r) async \<Rightarrow> 'w list \<Rightarrow> ('w, 'r) async" where
  "drive (Await u n) (w # ws) = drive (n w) ws"
| "drive p ws = p"

lemma drive_Ready [simp]: "drive (Ready r) ws = Ready r"
  by (cases ws) auto

lemma drive_Nil [simp]: "drive p [] = p"
  by (cases p) auto

lemma drive_append: "drive p (ws @ ws') = drive (drive p ws) ws'"
  by (induction p ws rule: drive.induct) auto

text \<open>A bound on the number of accesses, on every path.\<close>

primrec within :: "('w, 'r) async \<Rightarrow> nat \<Rightarrow> bool" where
  "within (Ready r) = (\<lambda>n. True)"
| "within (Await u k) = (\<lambda>n. 0 < n \<and> (\<forall>w. within (k w) (n - 1)))"

lemma within_mono: "within p n \<Longrightarrow> n \<le> m \<Longrightarrow> within p m"
proof (induction p arbitrary: n m)
  case (Await u k)
  have "within (k w) (m - 1)" for w
    by (rule Await.IH [OF rangeI, of w "n - 1"]) (use Await.prems in auto)
  with Await.prems(1,2) show ?case by simp
qed simp

lemma within_drive: "within p n \<Longrightarrow> n \<le> length ws \<Longrightarrow> \<exists>r. drive p ws = Ready r"
proof (induction p arbitrary: n ws)
  case (Await u k)
  then obtain w ws' where "ws = w # ws'" by (cases ws) auto
  with Await.prems Await.IH [OF rangeI, of w "n - 1" ws'] show ?case by simp
qed simp

lemma within_await:
  "within p n \<Longrightarrow> (\<And>a. within (f a) m) \<Longrightarrow> within (await p f) (n + m)"
proof (induction p arbitrary: n)
  case (Ready a)
  from Ready(2) have "within (f a) m" .
  then show ?case using within_mono [of "f a" m "n + m"] by simp
next
  case (Await u k)
  have "within (await (k w) f) (n + m - 1)" for w
    using Await.IH [OF rangeI, of w "n - 1"] Await.prems by simp
  with Await.prems show ?case by simp
qed

lemma within_await_le: "within p n \<Longrightarrow> (\<And>a. within (f a) m) \<Longrightarrow> n + m \<le> k \<Longrightarrow> within (await p f) k"
  by (rule within_mono [OF within_await])

lemma within_try: "within p n \<Longrightarrow> (\<And>a. within (f a) m) \<Longrightarrow> n + m \<le> k \<Longrightarrow> within (try_await p f) k"
  unfolding try_await_def by (erule within_await_le) (auto split: sum.splits)

lemma within_call [simp]: "0 < n \<Longrightarrow> within (call op) n"
  by (simp add: call_def)

section \<open>What a task does, whatever it meets\<close>

text \<open>Every access of the task, in whatever world it finds, is a step of \<open>R\<close>.\<close>

primrec guarantees :: "('w \<Rightarrow> 'w \<Rightarrow> bool) \<Rightarrow> ('w, 'r) async \<Rightarrow> bool" where
  "guarantees R (Ready r) = True"
| "guarantees R (Await u n) = (\<forall>w. R w (u w) \<and> guarantees R (n w))"

lemma guarantees_await [intro]:
  "guarantees R p \<Longrightarrow> (\<And>a. guarantees R (f a)) \<Longrightarrow> guarantees R (await p f)"
  by (induction p) auto

lemma guarantees_call [simp]: "guarantees R (call op) \<longleftrightarrow> (\<forall>w. R w (snd (op w)))"
  by (simp add: call_def)

text \<open>
  Rely and guarantee. Every task of a system makes steps of \<open>R\<close> and relies on the others to make
  steps of \<open>R\<close>; what a task has learnt and goes on using must be stable under \<open>R\<close>.
\<close>

definition stable :: "('w \<Rightarrow> 'w \<Rightarrow> bool) \<Rightarrow> ('w \<Rightarrow> bool) \<Rightarrow> bool" where
  "stable R P = (\<forall>w w'. R w w' \<longrightarrow> P w \<longrightarrow> P w')"

primrec ensures :: "('w \<Rightarrow> 'w \<Rightarrow> bool) \<Rightarrow> ('w, 'r) async \<Rightarrow> ('w \<Rightarrow> bool) \<Rightarrow> ('r \<Rightarrow> 'w \<Rightarrow> bool) \<Rightarrow> bool" where
  "ensures R (Ready r) = (\<lambda>P Q. \<forall>w. P w \<longrightarrow> Q r w)"
| "ensures R (Await u n) = (\<lambda>P Q. \<forall>w. P w \<longrightarrow>
     R w (u w) \<and> (\<exists>P'. stable R P' \<and> P' (u w) \<and> ensures R (n w) P' Q))"

lemma ensures_pre: "ensures R p P Q \<Longrightarrow> (\<And>w. P' w \<Longrightarrow> P w) \<Longrightarrow> ensures R p P' Q"
  by (cases p) auto

lemma ensures_await:
  assumes "ensures R p P Q" and "\<And>a. ensures R (f a) (Q a) Q'"
  shows "ensures R (await p f) P Q'"
  using assms(1)
proof (induction p arbitrary: P)
  case (Ready r)
  then show ?case using ensures_pre [OF assms(2) [of r], where P' = P] by simp
next
  case (Await u n)
  show ?case
    unfolding await.simps ensures.simps
  proof (intro allI impI)
    fix w assume "P w"
    with Await.prems have "R w (u w) \<and> (\<exists>P'. stable R P' \<and> P' (u w) \<and> ensures R (n w) P' Q)" by simp
    then obtain P' where "R w (u w)" "stable R P'" "P' (u w)" "ensures R (n w) P' Q" by (elim conjE exE)
    with Await.IH [OF rangeI, of w P'] show "R w (u w) \<and> (\<exists>P'. stable R P' \<and> P' (u w) \<and> ensures R (await (n w) f) P' Q')"
      by (intro conjI exI [of _ P'])
  qed
qed

lemma ensures_post: "ensures R p P Q \<Longrightarrow> (\<And>a w. Q a w \<Longrightarrow> Q' a w) \<Longrightarrow> ensures R p P Q'"
  using ensures_await [of R p P Q Ready Q'] by simp

lemma ensures_call:
  assumes "\<And>w. P w \<Longrightarrow> R w (snd (op w)) \<and> Q (fst (op w)) (snd (op w))" and "\<And>a. stable R (Q a)"
  shows "ensures R (call op) P Q"
  using assms by (auto simp: call_def)

lemma guarantees_ensures: "guarantees R p \<Longrightarrow> stable R P \<Longrightarrow> ensures R p P (\<lambda>r. P)"
proof (induction p)
  case (Await u n)
  then show ?case by (auto simp: stable_def intro!: exI [of _ P])
qed simp


lemma ensures_frame:
  assumes "ensures R p P Q" and "stable R S"
  shows "ensures R p (\<lambda>w. P w \<and> S w) (\<lambda>r w. Q r w \<and> S w)"
  using assms(1)
proof (induction p arbitrary: P)
  case (Await u n)
  show ?case
    unfolding ensures.simps
  proof (intro allI impI)
    fix w assume w: "P w \<and> S w"
    with Await.prems obtain P' where P': "R w (u w)" "stable R P'" "P' (u w)" "ensures R (n w) P' Q" by auto
    have "stable R (\<lambda>w. P' w \<and> S w)" using P'(2) assms(2) by (auto simp: stable_def)
    moreover have "S (u w)" using w P'(1) assms(2) by (auto simp: stable_def)
    ultimately show "R w (u w) \<and> (\<exists>P'. stable R P' \<and> P' (u w) \<and> ensures R (n w) P' (\<lambda>r w. Q r w \<and> S w))"
      using P' Await.IH [OF rangeI P'(4)] by (intro conjI exI [of _ "\<lambda>w. P' w \<and> S w"])
  qed
qed simp

text \<open>A task that makes steps of \<open>R\<close> only, given \<open>P\<close>.\<close>

definition safe :: "('w \<Rightarrow> 'w \<Rightarrow> bool) \<Rightarrow> ('w \<Rightarrow> bool) \<Rightarrow> ('w, 'r) async \<Rightarrow> bool" where
  "safe R P p = ensures R p P (\<lambda>_ _. True)"

lemma safe_Ready [simp]: "safe R P (Ready r)"
  by (simp add: safe_def)

lemma safe_pre: "safe R P p \<Longrightarrow> (\<And>w. P' w \<Longrightarrow> P w) \<Longrightarrow> safe R P' p"
  unfolding safe_def by (rule ensures_pre)

lemma safe_await: "ensures R p P Q \<Longrightarrow> (\<And>a. safe R (Q a) (f a)) \<Longrightarrow> safe R P (await p f)"
  unfolding safe_def by (rule ensures_await)

lemma safe_quiet: "guarantees R p \<Longrightarrow> safe R P p"
  unfolding safe_def
  by (rule ensures_pre [where P = "\<lambda>_. True"], rule guarantees_ensures) (simp_all add: stable_def)

lemma safe_then: "safe R P p \<Longrightarrow> (\<And>a. guarantees R (f a)) \<Longrightarrow> safe R P (await p f)"
  unfolding safe_def [of R P p] by (rule safe_await) (auto intro: safe_quiet)

lemma safe_after: "guarantees R p \<Longrightarrow> stable R P \<Longrightarrow> (\<And>a. safe R P (f a)) \<Longrightarrow> safe R P (await p f)"
  by (rule safe_await [OF guarantees_ensures])

lemma safe_try: "guarantees R p \<Longrightarrow> stable R P \<Longrightarrow> (\<And>a. safe R P (f a)) \<Longrightarrow> safe R P (try_await p f)"
  unfolding try_await_def by (rule safe_after) (auto split: sum.splits)

text \<open>A task that knows \<open>P\<close> from beginning to end.\<close>

definition keeps :: "('w \<Rightarrow> 'w \<Rightarrow> bool) \<Rightarrow> ('w \<Rightarrow> bool) \<Rightarrow> ('w, 'r) async \<Rightarrow> bool" where
  "keeps R P p = ensures R p P (\<lambda>_. P)"

lemma keeps_Ready [simp]: "keeps R P (Ready r)"
  by (simp add: keeps_def)

lemma keeps_await: "keeps R P p \<Longrightarrow> (\<And>a. keeps R P (f a)) \<Longrightarrow> keeps R P (await p f)"
  unfolding keeps_def by (rule ensures_await)

lemma keeps_try: "keeps R P p \<Longrightarrow> (\<And>a. keeps R P (f a)) \<Longrightarrow> keeps R P (try_await p f)"
  unfolding try_await_def by (rule keeps_await) (auto split: sum.splits)

lemma keeps_call: "(\<And>w. P w \<Longrightarrow> R w (snd (op w))) \<Longrightarrow> stable R P \<Longrightarrow> keeps R P (call op)"
  unfolding keeps_def by (rule ensures_call) (auto simp: stable_def)

lemma keeps_guarantees: "guarantees R p \<Longrightarrow> stable R P \<Longrightarrow> keeps R P p"
  unfolding keeps_def by (rule guarantees_ensures)

lemma stable_True [simp]: "stable R (\<lambda>_. True)"
  by (simp add: stable_def)

text \<open>
  Ownership. \<open>pool w\<close> is the set of things in the world that somebody must account for; a task
  holds a part of it. An access may change what the task holds and what it takes from or puts back
  into the rest of the world, but the part of the pool that is not its own stays as it was.
\<close>

primrec owns :: "('w \<Rightarrow> bool) \<Rightarrow> ('w \<Rightarrow> 'x set) \<Rightarrow> ('w, 'r) async \<Rightarrow> 'x set \<Rightarrow> ('r \<Rightarrow> 'x set \<Rightarrow> bool) \<Rightarrow> bool" where
  "owns I pool (Ready r) = (\<lambda>H Q. Q r H)"
| "owns I pool (Await u n) = (\<lambda>H Q. \<forall>w. I w \<longrightarrow> H \<subseteq> pool w \<longrightarrow>
     I (u w) \<and> (\<exists>H'. H' \<subseteq> pool (u w) \<and> pool (u w) - H' = pool w - H \<and> owns I pool (n w) H' Q))"

lemma owns_await:
  assumes "owns I pool p H Q" and "\<And>a H'. Q a H' \<Longrightarrow> owns I pool (f a) H' Q'"
  shows "owns I pool (await p f) H Q'"
  using assms by (induction p arbitrary: H) (simp, simp, meson rangeI)

lemma owns_mono: "owns I pool p H Q \<Longrightarrow> (\<And>a H'. Q a H' \<Longrightarrow> Q' a H') \<Longrightarrow> owns I pool p H Q'"
  using owns_await [of I pool p H Q Ready Q'] by simp

lemma owns_AwaitD:
  assumes "owns I pool (Await u n) H Q" and "I w" and "H \<subseteq> pool w"
  shows "I (u w) \<and> (\<exists>H'. H' \<subseteq> pool (u w) \<and> pool (u w) - H' = pool w - H \<and> owns I pool (n w) H' Q)"
  by (rule assms(1) [unfolded owns.simps, THEN spec, THEN mp, THEN mp, OF assms(2,3)])

lemma owns_AwaitI:
  assumes "\<And>w. I w \<Longrightarrow> H \<subseteq> pool w \<Longrightarrow>
    I (u w) \<and> (\<exists>H'. H' \<subseteq> pool (u w) \<and> pool (u w) - H' = pool w - H \<and> owns I pool (n w) H' Q)"
  shows "owns I pool (Await u n) H Q"
  using assms by simp

text \<open>
  Credits. \<open>cost w\<close> is what the world has spent or may still spend; a task holds credits of its
  own. An access that lowers the cost may keep the difference as credit, and one that raises it
  pays from the credits.
\<close>

primrec pays :: "('w \<Rightarrow> nat) \<Rightarrow> ('w, 'r) async \<Rightarrow> nat \<Rightarrow> ('r \<Rightarrow> nat \<Rightarrow> bool) \<Rightarrow> bool" where
  "pays cost (Ready r) = (\<lambda>b Q. Q r b)"
| "pays cost (Await u n) = (\<lambda>b Q. \<forall>w. \<exists>b'. cost (u w) + b' \<le> cost w + b \<and> pays cost (n w) b' Q)"

lemma pays_await:
  assumes "pays cost p b Q" and "\<And>a b'. Q a b' \<Longrightarrow> pays cost (f a) b' Q'"
  shows "pays cost (await p f) b Q'"
  using assms(1)
proof (induction p arbitrary: b)
  case (Ready r)
  then show ?case using assms(2) by simp
next
  case (Await u n)
  show ?case
    unfolding await.simps pays.simps
  proof
    fix w
    from Await.prems obtain b' where "cost (u w) + b' \<le> cost w + b" "pays cost (n w) b' Q" by auto
    with Await.IH [OF rangeI, of w b'] show "\<exists>b'. cost (u w) + b' \<le> cost w + b \<and> pays cost (await (n w) f) b' Q'"
      by (intro exI [of _ b'] conjI)
  qed
qed

lemma pays_mono: "pays cost p b Q \<Longrightarrow> (\<And>a b'. Q a b' \<Longrightarrow> Q' a b') \<Longrightarrow> pays cost p b Q'"
  using pays_await [of cost p b Q Ready Q'] by simp

lemma pays_try:
  assumes "pays cost p b Q" and "\<And>a b'. Q (Inr a) b' \<Longrightarrow> pays cost (f a) b' Q'"
    and "\<And>e b'. Q (Inl e) b' \<Longrightarrow> Q' (Inl e) b'"
  shows "pays cost (try_await p f) b Q'"
  unfolding try_await_def by (rule pays_await [OF assms(1)]) (auto split: sum.splits intro: assms(2,3))

lemma pays_call:
  "(\<And>w. \<exists>b'. cost (snd (op w)) + b' \<le> cost w + b \<and> Q (fst (op w)) b') \<Longrightarrow> pays cost (call op) b Q"
  by (simp add: call_def)

text \<open>A task that never raises the cost keeps its credits.\<close>

lemma pays_idle: "guarantees (\<lambda>w w'. cost w' \<le> cost w) p \<Longrightarrow> pays cost p b (\<lambda>_ b'. b' = b)"
proof (induction p)
  case (Await u n)
  then show ?case by (auto intro!: exI [of _ b])
qed simp

lemma pays_idle_await:
  assumes "guarantees (\<lambda>w w'. cost w' \<le> cost w) p" and "\<And>a. pays cost (f a) b Q"
  shows "pays cost (await p f) b Q"
  by (rule pays_await [OF pays_idle [OF assms(1), of b]]) (simp add: assms(2))

lemma pays_idle_try:
  assumes "guarantees (\<lambda>w w'. cost w' \<le> cost w) p" and "\<And>a. pays cost (f a) b Q" and "\<And>e. Q (Inl e) b"
  shows "pays cost (try_await p f) b Q"
  by (rule pays_try [OF pays_idle [OF assms(1), of b]]) (auto simp: assms(2,3))

lemma pays_quiet: "guarantees (\<lambda>w w'. cost w' \<le> cost w) p \<Longrightarrow> pays cost p b (\<lambda>_ _. True)"
  by (rule pays_mono [OF pays_idle]) auto

lemma pays_then:
  assumes "pays cost p b Q" and "\<And>a. guarantees (\<lambda>w w'. cost w' \<le> cost w) (f a)"
  shows "pays cost (await p f) b (\<lambda>_ _. True)"
  by (rule pays_await [OF assms(1)]) (rule pays_quiet [OF assms(2)])

text \<open>A task that runs alone: from a world with \<open>P\<close> it answers with \<open>Q\<close>.\<close>

definition solo :: "('w \<Rightarrow> bool) \<Rightarrow> ('w, 'r) async \<Rightarrow> ('r \<Rightarrow> 'w \<Rightarrow> bool) \<Rightarrow> bool" where
  "solo P p Q = (\<forall>w. P w \<longrightarrow> Q (fst (finish p w)) (snd (finish p w)))"

lemma solo_Ready: "(\<And>w. P w \<Longrightarrow> Q r w) \<Longrightarrow> solo P (Ready r) Q"
  by (simp add: solo_def)

lemma solo_await: "solo P p Q \<Longrightarrow> (\<And>a. solo (Q a) (f a) Q') \<Longrightarrow> solo P (await p f) Q'"
  by (simp add: solo_def finish_await case_prod_beta)

lemma solo_try:
  assumes "solo P p Q" and "\<And>a. solo (Q (Inr a)) (f a) Q'" and "\<And>e w. Q (Inl e) w \<Longrightarrow> Q' (Inl e) w"
  shows "solo P (try_await p f) Q'"
  unfolding try_await_def by (rule solo_await [OF assms(1)]) (auto split: sum.splits intro: solo_Ready assms(2,3))

lemma solo_call: "(\<And>w. P w \<Longrightarrow> Q (fst (op w)) (snd (op w))) \<Longrightarrow> solo P (call op) Q"
  by (simp add: solo_def call_def)

lemma solo_conseq: "solo P p Q \<Longrightarrow> (\<And>w. P' w \<Longrightarrow> P w) \<Longrightarrow> (\<And>r w. Q r w \<Longrightarrow> Q' r w) \<Longrightarrow> solo P' p Q'"
  unfolding solo_def by blast

lemma solo_pure: "(\<And>w. P' w \<Longrightarrow> C \<and> P w) \<Longrightarrow> (C \<Longrightarrow> solo P p Q) \<Longrightarrow> solo P' p Q"
  unfolding solo_def by blast

lemma solo_quiet:
  assumes "guarantees R p" and "\<And>w w'. R w w' \<Longrightarrow> P w \<Longrightarrow> P w'"
  shows "solo P p (\<lambda>_. P)"
proof -
  have "P w \<Longrightarrow> P (snd (finish p w))" for w
    using assms(1)
  proof (induction p arbitrary: w)
    case (Await u n)
    then have "R w (u w)" "guarantees R (n w)" by simp_all
    then have "P (u w)" using assms(2) Await.prems(1) by blast
    with Await.IH [OF rangeI, of "u w" w] \<open>guarantees R (n w)\<close> show ?case by simp
  qed simp
  then show ?thesis by (simp add: solo_def)
qed

section \<open>Systems of tasks\<close>

text \<open>One access of one task, or a change of the world by anyone else.\<close>

inductive system_step :: "('w \<Rightarrow> 'w \<Rightarrow> bool) \<Rightarrow> 'w \<times> ('w, 'r) async list \<Rightarrow> 'w \<times> ('w, 'r) async list \<Rightarrow> bool" for others where
  access: "i < length ps \<Longrightarrow> ps ! i = Await u n \<Longrightarrow> system_step others (w, ps) (u w, ps[i := n w])"
| other: "others w w' \<Longrightarrow> system_step others (w, ps) (w', ps)"

lemma guarantees_step:
  assumes "system_step others c c'" and "\<forall>p \<in> set (snd c). guarantees R p"
    and "\<And>w w'. others w w' \<Longrightarrow> R w w'"
  shows "R (fst c) (fst c') \<and> (\<forall>p \<in> set (snd c'). guarantees R p)"
  using assms
proof (cases rule: system_step.cases)
  case (access i ps u n w)
  then have "Await u n \<in> set (snd c)" by (metis nth_mem snd_conv)
  with assms(2) have "guarantees R (Await u n)" ..
  then have "R w (u w)" "guarantees R (n w)" by simp_all
  moreover have "set (ps[i := n w]) \<subseteq> insert (n w) (set ps)" by (rule set_update_subset_insert)
  ultimately show ?thesis using access(1,2) assms(2) by (simp, blast)
next
  case (other w w' ps)
  then show ?thesis using assms(2,3) by simp
qed

lemma guarantees_run:
  assumes "(system_step others)\<^sup>*\<^sup>* c c'" and "\<forall>p \<in> set (snd c). guarantees R p"
    and "\<And>w w'. others w w' \<Longrightarrow> R w w'"
  shows "R\<^sup>*\<^sup>* (fst c) (fst c')"
proof -
  have "R\<^sup>*\<^sup>* (fst c) (fst c') \<and> (\<forall>p \<in> set (snd c'). guarantees R p)"
    using assms(1)
  proof (induction rule: rtranclp_induct)
    case (step c1 c2)
    from step(3) have "\<forall>p \<in> set (snd c1). guarantees R p" ..
    from guarantees_step [OF step(2) this assms(3)] step(3) show ?case
      by (auto intro: rtranclp.rtrancl_into_rtrancl)
  qed (use assms(2) in simp)
  then show ?thesis ..
qed

lemma ensures_step:
  assumes "system_step others c c'"
    and "\<And>i. i < length (snd c) \<Longrightarrow> \<exists>P. stable R P \<and> P (fst c) \<and> ensures R (snd c ! i) P (Q i)"
    and "\<And>w w'. others w w' \<Longrightarrow> R w w'"
  shows "R (fst c) (fst c') \<and> length (snd c') = length (snd c)
    \<and> (\<forall>i < length (snd c'). \<exists>P. stable R P \<and> P (fst c') \<and> ensures R (snd c' ! i) P (Q i))"
  using assms(1)
proof (cases rule: system_step.cases)
  case (access i ps u n w)
  then obtain P where P: "stable R P" "P w" "ensures R (Await u n) P (Q i)"
    using assms(2) [of i] by auto
  then obtain P' where P': "R w (u w)" "stable R P'" "P' (u w)" "ensures R (n w) P' (Q i)" by auto
  have "\<exists>P. stable R P \<and> P (u w) \<and> ensures R (ps[i := n w] ! j) P (Q j)" if j: "j < length ps" for j
  proof (cases "j = i")
    case True
    with P' access show ?thesis by auto
  next
    case False
    from assms(2) [of j] j access(1) obtain P2 where "stable R P2" "P2 w" "ensures R (ps ! j) P2 (Q j)" by auto
    with P'(1) False show ?thesis unfolding stable_def by (intro exI [of _ P2]) simp
  qed
  with P' access show ?thesis by simp
next
  case (other w w' ps)
  have "\<exists>P. stable R P \<and> P w' \<and> ensures R (ps ! j) P (Q j)" if j: "j < length ps" for j
  proof -
    from assms(2) [of j] j other obtain P2 where "stable R P2" "P2 w" "ensures R (ps ! j) P2 (Q j)" by auto
    moreover have "R w w'" using other assms(3) by simp
    ultimately show ?thesis unfolding stable_def by (intro exI [of _ P2]) simp
  qed
  with other assms(3) show ?thesis by simp
qed

lemma ensures_run:
  assumes "(system_step others)\<^sup>*\<^sup>* c c'"
    and "\<And>i. i < length (snd c) \<Longrightarrow> \<exists>P. stable R P \<and> P (fst c) \<and> ensures R (snd c ! i) P (Q i)"
    and "\<And>w w'. others w w' \<Longrightarrow> R w w'"
  shows "R\<^sup>*\<^sup>* (fst c) (fst c') \<and> length (snd c') = length (snd c)
    \<and> (\<forall>i < length (snd c'). \<exists>P. stable R P \<and> P (fst c') \<and> ensures R (snd c' ! i) P (Q i))"
  using assms(1)
proof (induction rule: rtranclp_induct)
  case base
  with assms(2) show ?case by simp
next
  case (step c1 c2)
  then have "\<And>i. i < length (snd c1) \<Longrightarrow> \<exists>P. stable R P \<and> P (fst c1) \<and> ensures R (snd c1 ! i) P (Q i)" by simp
  from ensures_step [OF step(2) this assms(3)] step(3) show ?case
    by (simp add: rtranclp.rtrancl_into_rtrancl [of R "fst c" "fst c1"])
qed

lemma safe_run:
  assumes "(system_step others)\<^sup>*\<^sup>* c c'" and "\<forall>p \<in> set (snd c). safe R (\<lambda>_. True) p"
    and "\<And>w w'. others w w' \<Longrightarrow> R w w'"
  shows "R\<^sup>*\<^sup>* (fst c) (fst c')"
proof -
  have "\<exists>P. stable R P \<and> P (fst c) \<and> ensures R (snd c ! i) P (\<lambda>_ _. True)" if "i < length (snd c)" for i
    using assms(2) nth_mem [OF that] unfolding safe_def by (intro exI [of _ "\<lambda>_. True"]) simp
  from ensures_run [OF assms(1) this assms(3)] show ?thesis by blast
qed

lemma ensures_finished:
  assumes "(system_step others)\<^sup>*\<^sup>* c c'"
    and "\<And>i. i < length (snd c) \<Longrightarrow> \<exists>P. stable R P \<and> P (fst c) \<and> ensures R (snd c ! i) P (Q i)"
    and "\<And>w w'. others w w' \<Longrightarrow> R w w'" and "i < length (snd c)" and "snd c' ! i = Ready r"
  shows "Q i r (fst c')"
proof -
  have "\<exists>P. stable R P \<and> P (fst c') \<and> ensures R (snd c' ! i) P (Q i)"
    using ensures_run [OF assms(1-3)] assms(4) by simp
  with assms(5) show ?thesis by auto
qed

text \<open>The parts the tasks hold are disjoint, and what nobody holds is \<open>rest\<close>.\<close>

definition shares :: "('w \<Rightarrow> bool) \<Rightarrow> ('w \<Rightarrow> 'x set) \<Rightarrow> 'x set \<Rightarrow> 'w \<times> ('w, 'r) async list \<Rightarrow> bool" where
  "shares I pool rest c = (I (fst c) \<and>
    (\<exists>H. (\<forall>i < length (snd c). owns I pool (snd c ! i) (H i) (\<lambda>r H. H = {}) \<and> H i \<subseteq> pool (fst c))
       \<and> (\<forall>i < length (snd c). \<forall>j < length (snd c). i \<noteq> j \<longrightarrow> H i \<inter> H j = {})
       \<and> pool (fst c) - (\<Union>i < length (snd c). H i) = rest))"

lemma shares_init:
  assumes "I w" and "\<forall>p \<in> set ps. owns I pool p {} (\<lambda>r H. H = {})"
  shows "shares I pool (pool w) (w, ps)"
  unfolding shares_def using assms by (intro conjI exI [of _ "\<lambda>_. {}"]) auto

lemma shares_finished:
  assumes "shares I pool rest (w, ps)" and "\<forall>p \<in> set ps. \<exists>r. p = Ready r"
  shows "I w \<and> pool w = rest"
proof -
  from assms(1) obtain H where H: "I w" "pool w - (\<Union>i < length ps. H i) = rest"
    "\<forall>i < length ps. owns I pool (ps ! i) (H i) (\<lambda>r H. H = {})"
    unfolding shares_def by auto
  have "H i = {}" if "i < length ps" for i
    using H(3) assms(2) that nth_mem [OF that] by fastforce
  then have "(\<Union>i < length ps. H i) = {}" by simp
  with H show ?thesis by simp
qed

lemma shares_access:
  assumes "shares I pool rest (w, ps)" and i: "i < length ps" and a: "ps ! i = Await u n"
  shows "shares I pool rest (u w, ps[i := n w])"
proof -
  from assms(1) obtain H where H: "I w"
    "\<And>j. j < length ps \<Longrightarrow> owns I pool (ps ! j) (H j) (\<lambda>r H. H = {}) \<and> H j \<subseteq> pool w"
    "\<And>j k. j < length ps \<Longrightarrow> k < length ps \<Longrightarrow> j \<noteq> k \<Longrightarrow> H j \<inter> H k = {}"
    "pool w - (\<Union>j < length ps. H j) = rest"
    unfolding shares_def fst_conv snd_conv by metis
  have "owns I pool (Await u n) (H i) (\<lambda>r H. H = {})" "H i \<subseteq> pool w"
    using H(2) [OF i] unfolding a by simp_all
  from owns_AwaitD [OF this(1) H(1) this(2)] obtain H' where n: "I (u w)" "H' \<subseteq> pool (u w)"
    "pool (u w) - H' = pool w - H i" "owns I pool (n w) H' (\<lambda>r H. H = {})"
    by (elim conjE exE)
  have others: "H j \<subseteq> pool (u w) - H'" if "j < length ps" "j \<noteq> i" for j
    unfolding n(3) using H(2) [OF that(1)] H(3) [OF that(1) i that(2)] by blast
  have "(\<Union>j < length ps. (H(i := H')) j) = H' \<union> (\<Union>j \<in> {..<length ps} - {i}. H j)"
    using i by (auto split: if_splits)
  then have "pool (u w) - (\<Union>j < length ps. (H(i := H')) j) = pool w - (\<Union>j < length ps. H j)"
    using n(3) i by blast
  then have rest: "pool (u w) - (\<Union>j < length (ps[i := n w]). (H(i := H')) j) = rest"
    using H(4) by simp
  have own: "owns I pool (ps[i := n w] ! j) ((H(i := H')) j) (\<lambda>r H. H = {}) \<and> (H(i := H')) j \<subseteq> pool (u w)"
    if "j < length ps" for j
  proof (cases "j = i")
    case True
    with n i show ?thesis by simp
  next
    case False
    with others [OF that] H(2) [OF that] show ?thesis by auto
  qed
  have disj: "(H(i := H')) j \<inter> (H(i := H')) k = {}" if "j < length ps" "k < length ps" "j \<noteq> k" for j k
    using others [OF that(1)] others [OF that(2)] H(3) [OF that] that(3)
    by (cases "j = i"; cases "k = i") (simp_all, blast+)
  show ?thesis
    unfolding shares_def fst_conv snd_conv
    using n(1) rest own disj unfolding length_list_update by blast
qed

lemma shares_step:
  assumes "system_step others c c'" and "shares I pool rest c"
    and "\<And>w w'. others w w' \<Longrightarrow> I w \<Longrightarrow> I w' \<and> pool w' = pool w"
  shows "shares I pool rest c'"
  using assms
proof (cases rule: system_step.cases)
  case (access i ps u n w)
  with assms(2) show ?thesis by (auto intro: shares_access)
next
  case (other w w' ps)
  with assms(2,3) have "I w'" "pool w' = pool w" by (auto simp: shares_def)
  with other assms(2) show ?thesis by (auto simp: shares_def)
qed

lemma shares_run:
  assumes "(system_step others)\<^sup>*\<^sup>* c c'" and "shares I pool rest c"
    and "\<And>w w'. others w w' \<Longrightarrow> I w \<Longrightarrow> I w' \<and> pool w' = pool w"
  shows "shares I pool rest c'"
  using assms(1,2) by (induction rule: rtranclp_induct) (auto intro: shares_step [OF _ _ assms(3)])

lemma pays_run:
  assumes "(system_step others)\<^sup>*\<^sup>* c c'" and "\<forall>p \<in> set (snd c). pays cost p 0 (\<lambda>_ _. True)"
    and "\<And>w w'. others w w' \<Longrightarrow> cost w' \<le> cost w"
  shows "cost (fst c') \<le> cost (fst c)"
proof -
  have "\<exists>bs. length bs = length (snd c') \<and> cost (fst c') + sum_list bs \<le> cost (fst c)
    \<and> (\<forall>i < length bs. pays cost (snd c' ! i) (bs ! i) (\<lambda>_ _. True))"
    using assms(1)
  proof (induction rule: rtranclp_induct)
    case base
    show ?case
      using assms(2) by (intro exI [of _ "replicate (length (snd c)) 0"]) (simp add: sum_list_replicate)
  next
    case (step c1 c2)
    then obtain bs where bs: "length bs = length (snd c1)" "cost (fst c1) + sum_list bs \<le> cost (fst c)"
      "\<And>i. i < length bs \<Longrightarrow> pays cost (snd c1 ! i) (bs ! i) (\<lambda>_ _. True)" by blast
    from step(2) show ?case
    proof (cases rule: system_step.cases)
      case (access i ps u n w)
      then have i: "i < length bs" "pays cost (Await u n) (bs ! i) (\<lambda>_ _. True)"
        using bs(1) bs(3) [of i] by auto
      then obtain b where b: "cost (u w) + b \<le> cost w + bs ! i" "pays cost (n w) b (\<lambda>_ _. True)" by auto
      have "bs ! i \<le> sum_list bs" using i(1) by (simp add: member_le_sum_list)
      then show ?thesis
        using access bs b i
        by (intro exI [of _ "bs[i := b]"]) (auto simp: sum_list_update nth_list_update)
    next
      case (other w w' ps)
      with bs assms(3) [of w w'] show ?thesis by (intro exI [of _ bs]) auto
    qed
  qed
  then obtain bs where "cost (fst c') + sum_list bs \<le> cost (fst c)" by blast
  then show ?thesis by linarith
qed

lemma finish_reaches:
  assumes "i < length ps" and "ps ! i = p"
  shows "(system_step others)\<^sup>*\<^sup>* (w, ps) (snd (finish p w), ps[i := Ready (fst (finish p w))])"
  using assms
proof (induction p arbitrary: w ps)
  case (Ready r)
  then show ?case using list_update_id [of ps i] by simp
next
  case (Await u n)
  have "(system_step others)\<^sup>*\<^sup>* (u w, ps[i := n w])
      (snd (finish (n w) (u w)), (ps[i := n w])[i := Ready (fst (finish (n w) (u w)))])"
    by (rule Await.IH [OF rangeI]) (use Await.prems in auto)
  from converse_rtranclp_into_rtranclp [OF access [OF Await.prems, where others = others and w = w] this]
  show ?case by simp
qed

text \<open>A schedule names the task that makes the next access.\<close>

fun run_schedule :: "nat list \<Rightarrow> 'w \<times> ('w, 'r) async list \<Rightarrow> 'w \<times> ('w, 'r) async list" where
  "run_schedule [] c = c"
| "run_schedule (i # is) (w, ps) =
    (if i < length ps then
       (case ps ! i of Ready r \<Rightarrow> run_schedule is (w, ps) | Await u n \<Rightarrow> run_schedule is (u w, ps[i := n w]))
     else run_schedule is (w, ps))"

lemma run_schedule_reaches: "(system_step others)\<^sup>*\<^sup>* c (run_schedule is c)"
proof (induction "is" c rule: run_schedule.induct)
  case (1 c)
  then show ?case by simp
next
  case (2 i js w ps)
  show ?case
  proof (cases "i < length ps \<and> (\<exists>u n. ps ! i = Await u n)")
    case True
    then obtain u n where a: "i < length ps" "ps ! i = Await u n" by blast
    show ?thesis
      using converse_rtranclp_into_rtranclp
        [OF access [OF a, where others = others and w = w] 2(2) [OF a]] a by simp
  next
    case False
    with 2 show ?thesis
      by (cases "ps ! i") auto
  qed
qed

end
