(* ===== verification/Processes.thy ===== *)
theory Processes
  imports Tasks Events Filesystem Resource_Governor
begin

text \<open>
  Processes (\<open>ironclaw_processes\<close>): the lifecycle records, the in-memory process and result stores,
  cancellation tokens, the eventing and resource-managed store decorators, the background manager
  that runs an executor and writes its result, and the query side of the host. The traits are
  records of operations on a world of type \<open>'w\<close>; a trait method is a task. A JSON value is of type
  \<open>'v\<close>.
\<close>

section \<open>Records and errors\<close>

datatype ProcessStatus = PsRunning | PsCompleted | PsFailed | PsKilled

definition process_is_terminal :: "ProcessStatus \<Rightarrow> bool" where
  "process_is_terminal s = (s \<noteq> PsRunning)"

record 'd ProcessRecord =
  pr_process_id :: ProcessId
  pr_parent_process_id :: "ProcessId option"
  pr_invocation_id :: InvocationId
  pr_scope :: ResourceScope
  pr_authenticated_actor_user_id :: "UserId option"
  pr_extension_id :: ExtensionId
  pr_capability_id :: CapabilityId
  pr_runtime :: RuntimeKind
  pr_status :: ProcessStatus
  pr_grants :: "'d CapabilitySet"
  pr_mounts :: MountView
  pr_estimated_resources :: "'d ResourceEstimate"
  pr_resource_reservation_id :: "ResourceReservationId option"
  pr_error_kind :: "string option"

record ('d, 'v) ProcessStart =
  st_process_id :: ProcessId
  st_parent_process_id :: "ProcessId option"
  st_invocation_id :: InvocationId
  st_scope :: ResourceScope
  st_authenticated_actor_user_id :: "UserId option"
  st_extension_id :: ExtensionId
  st_capability_id :: CapabilityId
  st_runtime :: RuntimeKind
  st_grants :: "'d CapabilitySet"
  st_mounts :: MountView
  st_estimated_resources :: "'d ResourceEstimate"
  st_resource_reservation_id :: "ResourceReservationId option"
  st_input :: 'v

record ProcessExit =
  px_process_id :: ProcessId
  px_scope :: ResourceScope
  px_extension_id :: ExtensionId
  px_capability_id :: CapabilityId
  px_runtime :: RuntimeKind
  px_status :: ProcessStatus
  px_error_kind :: "string option"

record 'v ProcessResultRecord =
  prr_process_id :: ProcessId
  prr_scope :: ResourceScope
  prr_status :: ProcessStatus
  prr_output :: "'v option"
  prr_output_ref :: "VirtualPath option"
  prr_error_kind :: "string option"

definition exit_from_terminal :: "'d ProcessRecord \<Rightarrow> ProcessExit" where
  "exit_from_terminal r =
    \<lparr>px_process_id = pr_process_id r, px_scope = pr_scope r, px_extension_id = pr_extension_id r,
     px_capability_id = pr_capability_id r, px_runtime = pr_runtime r, px_status = pr_status r,
     px_error_kind = pr_error_kind r\<rparr>"

datatype 'd ProcessError =
    UnknownProcess ProcessId
  | ProcessAlreadyExists ProcessId
  | InvalidTransition ProcessId ProcessStatus ProcessStatus
  | ResourceReservationMismatch ProcessId ResourceReservationId "ResourceReservationId option"
  | ResourceReservationAlreadyAssigned ProcessId ResourceReservationId
  | ResourceReservationNotOwned ProcessId "ResourceReservationId option"
  | ProcResource "'d ResourceError"
  | ResourceCleanupFailed "'d ProcessError" "'d ResourceError"
  | ProcessResultStoreUnavailable
  | ProcessResultUnavailable ProcessId
  | ProcInvalidStoredRecord string
  | ProcInvalidPath HostApiError
  | ProcFilesystem FilesystemError
  | ProcSerialization string
  | ProcDeserialization string

fun is_filesystem_not_found :: "'d ProcessError \<Rightarrow> bool" where
  "is_filesystem_not_found (ProcFilesystem (FsNotFound _ _)) = True"
| "is_filesystem_not_found (ResourceCleanupFailed original _) = is_filesystem_not_found original"
| "is_filesystem_not_found _ = False"

record ('d, 'v) ProcessExecutionRequest =
  xr_process_id :: ProcessId
  xr_invocation_id :: InvocationId
  xr_scope :: ResourceScope
  xr_authenticated_actor_user_id :: "UserId option"
  xr_extension_id :: ExtensionId
  xr_capability_id :: CapabilityId
  xr_runtime :: RuntimeKind
  xr_estimate :: "'d ResourceEstimate"
  xr_mounts :: MountView
  xr_resource_reservation :: "'d ResourceReservation option"
  xr_input :: 'v
  xr_cancellation :: "nat option"

type_synonym ProcessKey = "owner_key \<times> ProcessId"

definition ProcessKey_new :: "ResourceScope \<Rightarrow> ProcessId \<Rightarrow> ProcessKey" where
  "ProcessKey_new scope i = (owner_of scope, i)"

definition ensure_status_transition :: "ProcessId \<Rightarrow> ProcessStatus \<Rightarrow> ProcessStatus \<Rightarrow> ('d ProcessError, unit) result" where
  "ensure_status_transition i from to =
    (if from \<noteq> PsRunning then Err (InvalidTransition i from to) else Ok ())"

section \<open>The traits\<close>

record ('d, 'v, 'w) ProcessStore =
  ps_start :: "('d, 'v) ProcessStart \<Rightarrow> ('w, ('d ProcessError, 'd ProcessRecord) result) async"
  ps_complete :: "ResourceScope \<Rightarrow> ProcessId \<Rightarrow> ('w, ('d ProcessError, 'd ProcessRecord) result) async"
  ps_fail :: "ResourceScope \<Rightarrow> ProcessId \<Rightarrow> string \<Rightarrow> ('w, ('d ProcessError, 'd ProcessRecord) result) async"
  ps_kill :: "ResourceScope \<Rightarrow> ProcessId \<Rightarrow> ('w, ('d ProcessError, 'd ProcessRecord) result) async"
  ps_get :: "ResourceScope \<Rightarrow> ProcessId \<Rightarrow> ('w, ('d ProcessError, 'd ProcessRecord option) result) async"
  ps_records_for_scope :: "ResourceScope \<Rightarrow> ('w, ('d ProcessError, 'd ProcessRecord list) result) async"

record ('d, 'v, 'w) ProcessResultStore =
  rs_complete :: "ResourceScope \<Rightarrow> ProcessId \<Rightarrow> 'v \<Rightarrow> ('w, ('d ProcessError, 'v ProcessResultRecord) result) async"
  rs_fail :: "ResourceScope \<Rightarrow> ProcessId \<Rightarrow> string \<Rightarrow> ('w, ('d ProcessError, 'v ProcessResultRecord) result) async"
  rs_kill :: "ResourceScope \<Rightarrow> ProcessId \<Rightarrow> ('w, ('d ProcessError, 'v ProcessResultRecord) result) async"
  rs_get :: "ResourceScope \<Rightarrow> ProcessId \<Rightarrow> ('w, ('d ProcessError, 'v ProcessResultRecord option) result) async"
  rs_output :: "ResourceScope \<Rightarrow> ProcessId \<Rightarrow> ('w, ('d ProcessError, 'v option) result) async"

text \<open>The trait's default for \<open>output\<close>, which the in-memory store keeps.\<close>

definition default_output ::
  "(ResourceScope \<Rightarrow> ProcessId \<Rightarrow> ('w, ('d ProcessError, 'v ProcessResultRecord option) result) async)
     \<Rightarrow> ResourceScope \<Rightarrow> ProcessId \<Rightarrow> ('w, ('d ProcessError, 'v option) result) async" where
  "default_output get scope i =
    try_await (get scope i) (\<lambda>record. Ready (Ok (Option.bind record prr_output)))"

section \<open>The in-memory stores\<close>

type_synonym 'd ProcessRecords = "(ProcessKey, 'd ProcessRecord) hashmap"
type_synonym 'v ProcessResults = "(ProcessKey, 'v ProcessResultRecord) hashmap"

definition update_status ::
  "ResourceScope \<Rightarrow> ProcessId \<Rightarrow> ProcessStatus \<Rightarrow> string option \<Rightarrow> 'd ProcessRecords
     \<Rightarrow> ('d ProcessError, 'd ProcessRecord) result \<times> 'd ProcessRecords" where
  "update_status scope i to ekind records =
    (case hm_get records (ProcessKey_new scope i) of
       None \<Rightarrow> (Err (UnknownProcess i), records)
     | Some r \<Rightarrow>
         (case ensure_status_transition i (pr_status r) to of
            Inl e \<Rightarrow> (Err e, records)
          | Inr _ \<Rightarrow>
              let r' = r\<lparr>pr_status := to, pr_error_kind := ekind\<rparr>
              in (Ok r', hm_insert (ProcessKey_new scope i) r' records)))"

definition running_record :: "('d, 'v) ProcessStart \<Rightarrow> 'd ProcessRecord" where
  "running_record start =
    \<lparr>pr_process_id = st_process_id start, pr_parent_process_id = st_parent_process_id start,
     pr_invocation_id = st_invocation_id start, pr_scope = st_scope start,
     pr_authenticated_actor_user_id = st_authenticated_actor_user_id start,
     pr_extension_id = st_extension_id start, pr_capability_id = st_capability_id start,
     pr_runtime = st_runtime start, pr_status = PsRunning, pr_grants = st_grants start,
     pr_mounts = st_mounts start, pr_estimated_resources = st_estimated_resources start,
     pr_resource_reservation_id = st_resource_reservation_id start, pr_error_kind = None\<rparr>"

definition process_start ::
  "('d, 'v) ProcessStart \<Rightarrow> 'd ProcessRecords \<Rightarrow> ('d ProcessError, 'd ProcessRecord) result \<times> 'd ProcessRecords" where
  "process_start start records =
    (let r = running_record start; key = ProcessKey_new (pr_scope r) (pr_process_id r)
     in if hm_contains records key then (Err (ProcessAlreadyExists (pr_process_id r)), records)
        else (Ok r, hm_insert key r records))"

definition process_complete where
  "process_complete scope i = update_status scope i PsCompleted None"

definition process_fail where
  "process_fail scope i ekind = update_status scope i PsFailed (Some (sanitize_error_kind ekind))"

definition process_kill where
  "process_kill scope i = update_status scope i PsKilled None"

definition process_get :: "ResourceScope \<Rightarrow> ProcessId \<Rightarrow> 'd ProcessRecords \<Rightarrow> 'd ProcessRecord option" where
  "process_get scope i records = hm_get records (ProcessKey_new scope i)"

definition process_records_for_scope :: "ResourceScope \<Rightarrow> 'd ProcessRecords \<Rightarrow> 'd ProcessRecord list" where
  "process_records_for_scope scope records =
    sort_key pr_process_id (filter (\<lambda>r. same_scope_owner (pr_scope r) scope) (hm_values records))"

definition store_result ::
  "ResourceScope \<Rightarrow> ProcessId \<Rightarrow> ProcessStatus \<Rightarrow> 'v option \<Rightarrow> string option \<Rightarrow> 'v ProcessResults
     \<Rightarrow> 'v ProcessResultRecord \<times> 'v ProcessResults" where
  "store_result scope i status output ekind records =
    (let r = \<lparr>prr_process_id = i, prr_scope = scope, prr_status = status, prr_output = output,
              prr_output_ref = None, prr_error_kind = ekind\<rparr>
     in (r, hm_insert (ProcessKey_new scope i) r records))"

section \<open>Cancellation\<close>

text \<open>
  A token is a shared flag. \<open>flags\<close> is the heap of flags, a token the index of its flag; the
  registry keeps one token per process.
\<close>

record Cancellation =
  flags :: "bool list"
  tokens :: "(ProcessKey, nat) hashmap"

definition token_cancel :: "nat \<Rightarrow> Cancellation \<Rightarrow> Cancellation" where
  "token_cancel t c = c\<lparr>flags := (flags c)[t := True]\<rparr>"

definition is_cancelled :: "nat \<Rightarrow> Cancellation \<Rightarrow> bool" where
  "is_cancelled t c = (t < length (flags c) \<and> flags c ! t)"

definition registry_register :: "ResourceScope \<Rightarrow> ProcessId \<Rightarrow> Cancellation \<Rightarrow> nat \<times> Cancellation" where
  "registry_register scope i c =
    (let t = length (flags c)
     in (t, c\<lparr>flags := flags c @ [False], tokens := hm_insert (ProcessKey_new scope i) t (tokens c)\<rparr>))"

definition registry_cancel :: "ResourceScope \<Rightarrow> ProcessId \<Rightarrow> Cancellation \<Rightarrow> bool \<times> Cancellation" where
  "registry_cancel scope i c =
    (let key = ProcessKey_new scope i; c' = c\<lparr>tokens := hm_remove key (tokens c)\<rparr>
     in case hm_get (tokens c) key of
          Some t \<Rightarrow> (True, token_cancel t c')
        | None \<Rightarrow> (False, c'))"

definition registry_unregister :: "ResourceScope \<Rightarrow> ProcessId \<Rightarrow> Cancellation \<Rightarrow> Cancellation" where
  "registry_unregister scope i c = c\<lparr>tokens := hm_remove (ProcessKey_new scope i) (tokens c)\<rparr>"

text \<open>A registry shared by tasks.\<close>

record 'w CancellationRegistry =
  cr_register :: "ResourceScope \<Rightarrow> ProcessId \<Rightarrow> 'w \<Rightarrow> nat \<times> 'w"
  cr_cancel :: "ResourceScope \<Rightarrow> ProcessId \<Rightarrow> 'w \<Rightarrow> bool \<times> 'w"
  cr_unregister :: "ResourceScope \<Rightarrow> ProcessId \<Rightarrow> 'w \<Rightarrow> unit \<times> 'w"

section \<open>The eventing store\<close>

text \<open>Emission draws the stamp of the event from the world and ignores the sink's answer.\<close>

record ('d, 'v, 'w) EventingProcessStore =
  es_inner :: "('d, 'v, 'w) ProcessStore"
  es_stamp :: "'w \<Rightarrow> stamp"
  es_emit :: "RuntimeEvent \<Rightarrow> 'w \<Rightarrow> (EventError, unit) result \<times> 'w"

definition emit_best_effort :: "('d, 'v, 'w) EventingProcessStore \<Rightarrow> (stamp \<Rightarrow> RuntimeEvent) \<Rightarrow> ('w, unit) async" where
  "emit_best_effort es event = await (call (\<lambda>w. es_emit es (event (es_stamp es w)) w)) (\<lambda>_. Ready ())"

definition eventing_start where
  "eventing_start es start =
    try_await (ps_start (es_inner es) start) (\<lambda>record.
      await (emit_best_effort es (\<lambda>st. process_started st (pr_scope record) (pr_capability_id record)
               (pr_extension_id record) (pr_runtime record) (pr_process_id record)))
        (\<lambda>_. Ready (Ok record)))"

definition eventing_complete where
  "eventing_complete es scope i =
    try_await (ps_complete (es_inner es) scope i) (\<lambda>record.
      await (emit_best_effort es (\<lambda>st. process_completed st (pr_scope record) (pr_capability_id record)
               (pr_extension_id record) (pr_runtime record) (pr_process_id record)))
        (\<lambda>_. Ready (Ok record)))"

definition eventing_fail where
  "eventing_fail es scope i ekind =
    try_await (ps_fail (es_inner es) scope i ekind) (\<lambda>record.
      await (emit_best_effort es (\<lambda>st. process_failed st (pr_scope record) (pr_capability_id record)
               (pr_extension_id record) (pr_runtime record) (pr_process_id record)
               (unwrap_or ''Unknown'' (pr_error_kind record))))
        (\<lambda>_. Ready (Ok record)))"

definition eventing_kill where
  "eventing_kill es scope i =
    try_await (ps_kill (es_inner es) scope i) (\<lambda>record.
      await (emit_best_effort es (\<lambda>st. process_killed st (pr_scope record) (pr_capability_id record)
               (pr_extension_id record) (pr_runtime record) (pr_process_id record)))
        (\<lambda>_. Ready (Ok record)))"

definition eventing_store :: "('d, 'v, 'w) EventingProcessStore \<Rightarrow> ('d, 'v, 'w) ProcessStore" where
  "eventing_store es =
    \<lparr>ps_start = eventing_start es, ps_complete = eventing_complete es, ps_fail = eventing_fail es,
     ps_kill = eventing_kill es, ps_get = ps_get (es_inner es),
     ps_records_for_scope = ps_records_for_scope (es_inner es)\<rparr>"

section \<open>The resource-managed store\<close>

text \<open>The part of the \<open>ResourceGovernor\<close> trait that the store calls.\<close>

record ('d, 'w) GovernorPort =
  gp_reserve :: "ResourceScope \<Rightarrow> 'd ResourceEstimate \<Rightarrow> 'w \<Rightarrow> ('d ResourceError, 'd ResourceReservation) result \<times> 'w"
  gp_reconcile :: "ResourceReservationId \<Rightarrow> 'd ResourceUsage \<Rightarrow> 'w \<Rightarrow> ('d ResourceError, 'd ResourceReceipt) result \<times> 'w"
  gp_release :: "ResourceReservationId \<Rightarrow> 'w \<Rightarrow> ('d ResourceError, 'd ResourceReceipt) result \<times> 'w"

text \<open>
  The map of owned reservations has its own mutex, so it is a part of the world with a getter and
  a setter. A panic inside the inner store's \<open>start\<close> is not modelled: it would run the drop guard,
  which releases the reservation.
\<close>

record ('d, 'v, 'w) ResourceManagedProcessStore =
  ms_inner :: "('d, 'v, 'w) ProcessStore"
  ms_governor :: "('d, 'w) GovernorPort"
  ms_completion_usage :: "'d ResourceUsage"
  ms_owned :: "'w \<Rightarrow> (ProcessKey, ResourceReservationId) hashmap"
  ms_put_owned :: "(ProcessKey, ResourceReservationId) hashmap \<Rightarrow> 'w \<Rightarrow> 'w"

definition record_owned_reservation ::
  "('d, 'v, 'w) ResourceManagedProcessStore \<Rightarrow> ResourceScope \<Rightarrow> ProcessId \<Rightarrow> ResourceReservationId \<Rightarrow> ('w, unit) async" where
  "record_owned_reservation ms scope i rid =
    call (\<lambda>w. ((), ms_put_owned ms (hm_insert (ProcessKey_new scope i) rid (ms_owned ms w)) w))"

definition take_owned_reservation ::
  "('d, 'v, 'w) ResourceManagedProcessStore \<Rightarrow> ResourceScope \<Rightarrow> ProcessId \<Rightarrow> ResourceReservationId option
     \<Rightarrow> ('w, ('d ProcessError, ResourceReservationId) result) async" where
  "take_owned_reservation ms scope i record_rid =
    await (call (\<lambda>w. (hm_get (ms_owned ms w) (ProcessKey_new scope i),
                      ms_put_owned ms (hm_remove (ProcessKey_new scope i) (ms_owned ms w)) w)))
      (\<lambda>removed. case removed of
         None \<Rightarrow> Ready (Err (ResourceReservationNotOwned i record_rid))
       | Some rid \<Rightarrow>
           if Some rid \<noteq> record_rid then
             await (record_owned_reservation ms scope i rid)
               (\<lambda>_. Ready (Err (ResourceReservationMismatch i rid record_rid)))
           else Ready (Ok rid))"

definition release_reservation ::
  "('d, 'v, 'w) ResourceManagedProcessStore \<Rightarrow> ResourceReservationId \<Rightarrow> ('w, ('d ResourceError, unit) result) async" where
  "release_reservation ms rid = try_await (call (gp_release (ms_governor ms) rid)) (\<lambda>_. Ready (Ok ()))"

definition reconcile_reservation ::
  "('d, 'v, 'w) ResourceManagedProcessStore \<Rightarrow> ResourceReservationId \<Rightarrow> ('w, ('d ResourceError, unit) result) async" where
  "reconcile_reservation ms rid =
    try_await (call (gp_reconcile (ms_governor ms) rid (ms_completion_usage ms))) (\<lambda>_. Ready (Ok ()))"

definition after_error ::
  "('w, ('d ResourceError, unit) result) async \<Rightarrow> 'd ProcessError \<Rightarrow> ('w, 'd ProcessError) async" where
  "after_error cleaning original =
    await cleaning (\<lambda>res. case res of
      Inr _ \<Rightarrow> Ready original
    | Inl cleanup \<Rightarrow> Ready (ResourceCleanupFailed original cleanup))"

definition release_reservation_after_error where
  "release_reservation_after_error ms rid original = after_error (release_reservation ms rid) original"

definition reconcile_reservation_after_error where
  "reconcile_reservation_after_error ms rid original = after_error (reconcile_reservation ms rid) original"

definition managed_started ::
  "('d, 'v, 'w) ResourceManagedProcessStore \<Rightarrow> ResourceReservationId \<Rightarrow> ('d ProcessError, 'd ProcessRecord) result
     \<Rightarrow> ('w, ('d ProcessError, 'd ProcessRecord) result) async" where
  "managed_started ms rid inner_result =
    (case inner_result of
       Inr record \<Rightarrow>
         if pr_resource_reservation_id record = Some rid then
           await (record_owned_reservation ms (pr_scope record) (pr_process_id record) rid) (\<lambda>_. Ready (Ok record))
         else
           await (release_reservation_after_error ms rid
                   (ResourceReservationMismatch (pr_process_id record) rid (pr_resource_reservation_id record)))
             (\<lambda>e. Ready (Err e))
     | Inl e \<Rightarrow> await (release_reservation_after_error ms rid e) (\<lambda>e. Ready (Err e)))"

definition managed_start ::
  "('d, 'v, 'w) ResourceManagedProcessStore \<Rightarrow> ('d, 'v) ProcessStart
     \<Rightarrow> ('w, ('d ProcessError, 'd ProcessRecord) result) async" where
  "managed_start ms start =
    (case st_resource_reservation_id start of
       Some rid \<Rightarrow> Ready (Err (ResourceReservationAlreadyAssigned (st_process_id start) rid))
     | None \<Rightarrow>
         await (call (gp_reserve (ms_governor ms) (st_scope start) (st_estimated_resources start)))
           (\<lambda>reserved. case reserved of
              Inl e \<Rightarrow> Ready (Err (ProcResource e))
            | Inr reservation \<Rightarrow>
                await (ps_start (ms_inner ms) (start\<lparr>st_resource_reservation_id := Some (res_id reservation)\<rparr>))
                  (managed_started ms (res_id reservation))))"

text \<open>
  The three terminal transitions have one body: look the record up, take the reservation, call the
  inner store, and settle the reservation; the transition and the way to settle differ.
\<close>

definition managed_settled ::
  "('d, 'v, 'w) ResourceManagedProcessStore \<Rightarrow> (ResourceReservationId \<Rightarrow> ('w, ('d ResourceError, unit) result) async)
     \<Rightarrow> ResourceScope \<Rightarrow> ProcessId \<Rightarrow> ResourceReservationId \<Rightarrow> ('d ProcessError, 'd ProcessRecord) result
     \<Rightarrow> ('w, ('d ProcessError, 'd ProcessRecord) result) async" where
  "managed_settled ms settle scope i rid res =
    (case res of
       Inl e \<Rightarrow> await (record_owned_reservation ms scope i rid) (\<lambda>_. Ready (Err e))
     | Inr record \<Rightarrow>
         if pr_resource_reservation_id record \<noteq> Some rid then
           await (after_error (settle rid)
                   (ResourceReservationMismatch (pr_process_id record) rid (pr_resource_reservation_id record)))
             (\<lambda>e. Ready (Err e))
         else
           await (settle rid) (\<lambda>res. case res of
             Inl e \<Rightarrow> Ready (Err (ProcResource e))
           | Inr _ \<Rightarrow> Ready (Ok record)))"

definition managed_finish ::
  "('d, 'v, 'w) ResourceManagedProcessStore \<Rightarrow> ('w, ('d ProcessError, 'd ProcessRecord) result) async
     \<Rightarrow> (ResourceReservationId \<Rightarrow> ('w, ('d ResourceError, unit) result) async)
     \<Rightarrow> ResourceScope \<Rightarrow> ProcessId \<Rightarrow> ('w, ('d ProcessError, 'd ProcessRecord) result) async" where
  "managed_finish ms transition settle scope i =
    try_await (ps_get (ms_inner ms) scope i) (\<lambda>found. case found of
      None \<Rightarrow> Ready (Err (UnknownProcess i))
    | Some current \<Rightarrow>
        try_await (take_owned_reservation ms scope i (pr_resource_reservation_id current)) (\<lambda>rid.
          await transition (managed_settled ms settle scope i rid)))"

definition managed_complete where
  "managed_complete ms scope i =
    managed_finish ms (ps_complete (ms_inner ms) scope i) (reconcile_reservation ms) scope i"

definition managed_fail where
  "managed_fail ms scope i ekind =
    managed_finish ms (ps_fail (ms_inner ms) scope i ekind) (release_reservation ms) scope i"

definition managed_kill where
  "managed_kill ms scope i =
    managed_finish ms (ps_kill (ms_inner ms) scope i) (release_reservation ms) scope i"

definition managed_store :: "('d, 'v, 'w) ResourceManagedProcessStore \<Rightarrow> ('d, 'v, 'w) ProcessStore" where
  "managed_store ms =
    \<lparr>ps_start = managed_start ms, ps_complete = managed_complete ms, ps_fail = managed_fail ms,
     ps_kill = managed_kill ms, ps_get = ps_get (ms_inner ms),
     ps_records_for_scope = ps_records_for_scope (ms_inner ms)\<rparr>"

section \<open>The background manager\<close>

datatype BackgroundFailureStage = StoreLookup | StoreComplete | StoreFail | ResultStoreComplete | ResultStoreFail

record 'd BackgroundFailure =
  bf_scope :: ResourceScope
  bf_process_id :: ProcessId
  bf_stage :: BackgroundFailureStage
  bf_error :: "'d ProcessError"

text \<open>The executor is not part of the crate. It answers, reports an error kind, or panics.\<close>

datatype 'v Execution = Executed 'v | ExecutionError string | Panicked

record ('d, 'v, 'w) BackgroundProcessManager =
  bm_store :: "('d, 'v, 'w) ProcessStore"
  bm_executor :: "('d, 'v) ProcessExecutionRequest \<Rightarrow> ('w, 'v Execution) async"
  bm_cancellation_registry :: "'w CancellationRegistry option"
  bm_result_store :: "('d, 'v, 'w) ProcessResultStore option"
  bm_error_handler :: "('d BackgroundFailure \<Rightarrow> 'w \<Rightarrow> 'w) option"

definition background_report ::
  "('d, 'v, 'w) BackgroundProcessManager \<Rightarrow> ResourceScope \<Rightarrow> ProcessId \<Rightarrow> BackgroundFailureStage
     \<Rightarrow> 'd ProcessError \<Rightarrow> ('w, unit) async" where
  "background_report m scope i stage e =
    (case bm_error_handler m of
       None \<Rightarrow> Ready ()
     | Some handler \<Rightarrow>
         call (\<lambda>w. ((), handler \<lparr>bf_scope = scope, bf_process_id = i, bf_stage = stage, bf_error = e\<rparr> w)))"

definition still_running ::
  "('d, 'v, 'w) BackgroundProcessManager \<Rightarrow> ResourceScope \<Rightarrow> ProcessId \<Rightarrow> ('w, bool) async" where
  "still_running m scope i =
    await (ps_get (bm_store m) scope i) (\<lambda>res. case res of
      Inr (Some record) \<Rightarrow> Ready (pr_status record = PsRunning)
    | Inr None \<Rightarrow> Ready False
    | Inl e \<Rightarrow> await (background_report m scope i StoreLookup e) (\<lambda>_. Ready False))"

definition persist_result ::
  "('d, 'v, 'w) BackgroundProcessManager \<Rightarrow> ResourceScope \<Rightarrow> ProcessId \<Rightarrow> BackgroundFailureStage
     \<Rightarrow> (('d, 'v, 'w) ProcessResultStore \<Rightarrow> ('w, ('d ProcessError, 'v ProcessResultRecord) result) async)
     \<Rightarrow> ('w, bool) async" where
  "persist_result m scope i stage save =
    (case bm_result_store m of
       None \<Rightarrow> Ready True
     | Some rs \<Rightarrow> await (save rs) (\<lambda>res. case res of
           Inr _ \<Rightarrow> Ready True
         | Inl e \<Rightarrow> await (background_report m scope i stage e) (\<lambda>_. Ready False)))"

definition promote ::
  "('d, 'v, 'w) BackgroundProcessManager \<Rightarrow> ResourceScope \<Rightarrow> ProcessId \<Rightarrow> BackgroundFailureStage
     \<Rightarrow> ('w, ('d ProcessError, 'd ProcessRecord) result) async \<Rightarrow> ('w, unit) async" where
  "promote m scope i stage transition =
    await transition (\<lambda>res. case res of
      Inl e \<Rightarrow> background_report m scope i stage e
    | Inr _ \<Rightarrow> Ready ())"

definition finish_completed where
  "finish_completed m scope i output =
    await (persist_result m scope i ResultStoreComplete (\<lambda>rs. rs_complete rs scope i output)) (\<lambda>result_persisted.
      if result_persisted then promote m scope i StoreComplete (ps_complete (bm_store m) scope i) else Ready ())"

definition finish_failed where
  "finish_failed m scope i ekind =
    await (persist_result m scope i ResultStoreFail (\<lambda>rs. rs_fail rs scope i ekind)) (\<lambda>result_persisted.
      if result_persisted then promote m scope i StoreFail (ps_fail (bm_store m) scope i ekind) else Ready ())"

definition background_unregister ::
  "('d, 'v, 'w) BackgroundProcessManager \<Rightarrow> ResourceScope \<Rightarrow> ProcessId \<Rightarrow> ('w, unit) async" where
  "background_unregister m scope i =
    (case bm_cancellation_registry m of
       None \<Rightarrow> Ready ()
     | Some registry \<Rightarrow> call (cr_unregister registry scope i))"

definition background_task ::
  "('d, 'v, 'w) BackgroundProcessManager \<Rightarrow> ResourceScope \<Rightarrow> ProcessId \<Rightarrow> ('d, 'v) ProcessExecutionRequest
     \<Rightarrow> ('w, unit) async" where
  "background_task m scope i request =
    await (bm_executor m request) (\<lambda>execution.
    await (still_running m scope i) (\<lambda>running.
    await (if running then
             (case execution of
                Executed output \<Rightarrow> finish_completed m scope i output
              | ExecutionError ekind \<Rightarrow> finish_failed m scope i (sanitize_error_kind ekind)
              | Panicked \<Rightarrow> finish_failed m scope i ''runtime_panic'')
           else Ready ()) (\<lambda>_.
    background_unregister m scope i)))"

definition execution_request ::
  "'v \<Rightarrow> 'd ProcessRecord \<Rightarrow> nat option \<Rightarrow> ('d, 'v) ProcessExecutionRequest" where
  "execution_request input record cancellation =
    \<lparr>xr_process_id = pr_process_id record, xr_invocation_id = pr_invocation_id record,
     xr_scope = pr_scope record, xr_authenticated_actor_user_id = pr_authenticated_actor_user_id record,
     xr_extension_id = pr_extension_id record, xr_capability_id = pr_capability_id record,
     xr_runtime = pr_runtime record, xr_estimate = pr_estimated_resources record,
     xr_mounts = pr_mounts record,
     xr_resource_reservation = map_option (\<lambda>rid. \<lparr>res_id = rid, res_scope = pr_scope record,
        res_estimate = pr_estimated_resources record\<rparr>) (pr_resource_reservation_id record),
     xr_input = input, xr_cancellation = cancellation\<rparr>"

text \<open>\<open>spawn\<close> answers with the record and the detached task. Without a registry the token is
  shared with nobody.\<close>

definition background_spawn ::
  "('d, 'v, 'w) BackgroundProcessManager \<Rightarrow> ('d, 'v) ProcessStart
     \<Rightarrow> ('w, ('d ProcessError, 'd ProcessRecord \<times> ('w, unit) async) result) async" where
  "background_spawn m start =
    try_await (ps_start (bm_store m) start) (\<lambda>record.
    await (case bm_cancellation_registry m of
             None \<Rightarrow> Ready None
           | Some registry \<Rightarrow> await (call (cr_register registry (pr_scope record) (pr_process_id record)))
               (\<lambda>token. Ready (Some token))) (\<lambda>cancellation.
    Ready (Ok (record, background_task m (pr_scope record) (pr_process_id record)
                         (execution_request (st_input start) record cancellation)))))"

section \<open>The host\<close>

record ('d, 'v, 'w) ProcessHost =
  ph_store :: "('d, 'v, 'w) ProcessStore"
  ph_cancellation_registry :: "'w CancellationRegistry option"
  ph_result_store :: "('d, 'v, 'w) ProcessResultStore option"

definition host_result_store :: "('d, 'v, 'w) ProcessHost \<Rightarrow> ('d ProcessError, ('d, 'v, 'w) ProcessResultStore) result" where
  "host_result_store h =
    (case ph_result_store h of Some rs \<Rightarrow> Ok rs | None \<Rightarrow> Err ProcessResultStoreUnavailable)"

definition host_status where
  "host_status h scope i = ps_get (ph_store h) scope i"

definition record_kill_side_effects ::
  "('d, 'v, 'w) ProcessHost \<Rightarrow> 'd ProcessRecord \<Rightarrow> ('w, ('d ProcessError, unit) result) async" where
  "record_kill_side_effects h record =
    await (case ph_cancellation_registry h of
             Some registry \<Rightarrow> await (call (cr_cancel registry (pr_scope record) (pr_process_id record))) (\<lambda>_. Ready ())
           | None \<Rightarrow> Ready ()) (\<lambda>_.
      case ph_result_store h of
        Some rs \<Rightarrow> try_await (rs_kill rs (pr_scope record) (pr_process_id record)) (\<lambda>_. Ready (Ok ()))
      | None \<Rightarrow> Ready (Ok ()))"

definition host_kill ::
  "('d, 'v, 'w) ProcessHost \<Rightarrow> ResourceScope \<Rightarrow> ProcessId \<Rightarrow> ('w, ('d ProcessError, 'd ProcessRecord) result) async" where
  "host_kill h scope i =
    await (ps_kill (ph_store h) scope i) (\<lambda>res. case res of
      Inr record \<Rightarrow> try_await (record_kill_side_effects h record) (\<lambda>_. Ready (Ok record))
    | Inl e \<Rightarrow>
        (case e of
           InvalidTransition _ _ _ \<Rightarrow>
             await (ps_get (ph_store h) scope i) (\<lambda>found. case found of
               Inr (Some record) \<Rightarrow>
                 if pr_status record = PsKilled then
                   try_await (record_kill_side_effects h record) (\<lambda>_. Ready (Ok record))
                 else Ready (Err e)
             | _ \<Rightarrow> Ready (Err e))
         | _ \<Rightarrow>
             await (ps_get (ph_store h) scope i) (\<lambda>found. case found of
               Inr (Some record) \<Rightarrow>
                 if pr_status record = PsKilled then
                   try_await (record_kill_side_effects h record) (\<lambda>_. Ready (Err e))
                 else Ready (Err e)
             | _ \<Rightarrow> Ready (Err e))))"

definition host_result where
  "host_result h scope i =
    (case host_result_store h of Inl e \<Rightarrow> Ready (Err e) | Inr rs \<Rightarrow> rs_get rs scope i)"

definition host_output where
  "host_output h scope i =
    (case host_result_store h of Inl e \<Rightarrow> Ready (Err e) | Inr rs \<Rightarrow> rs_output rs scope i)"

text \<open>
  The polling loops sleep between two rounds and have no bound of their own. The last argument
  bounds the number of rounds; \<open>None\<close> is a loop that is still polling after that many.
\<close>

fun await_result ::
  "('d, 'v, 'w) ProcessHost \<Rightarrow> ResourceScope \<Rightarrow> ProcessId \<Rightarrow> bool \<Rightarrow> nat
     \<Rightarrow> ('w, ('d ProcessError, 'v ProcessResultRecord) result option) async" where
  "await_result h scope i seen 0 = Ready None"
| "await_result h scope i seen (Suc rounds) =
    await (host_result h scope i) (\<lambda>res. case res of
      Inl e \<Rightarrow> Ready (Some (Err e))
    | Inr (Some result) \<Rightarrow> Ready (Some (Ok result))
    | Inr None \<Rightarrow>
        await (ps_get (ph_store h) scope i) (\<lambda>found. case found of
          Inl e \<Rightarrow> Ready (Some (Err e))
        | Inr None \<Rightarrow> Ready (Some (Err (UnknownProcess i)))
        | Inr (Some record) \<Rightarrow>
            if process_is_terminal (pr_status record) then
              if ph_result_store h = None \<or> seen then Ready (Some (Err (ProcessResultUnavailable i)))
              else await_result h scope i True rounds
            else await_result h scope i False rounds))"

fun await_process ::
  "('d, 'v, 'w) ProcessHost \<Rightarrow> ResourceScope \<Rightarrow> ProcessId \<Rightarrow> nat
     \<Rightarrow> ('w, ('d ProcessError, ProcessExit) result option) async" where
  "await_process h scope i 0 = Ready None"
| "await_process h scope i (Suc rounds) =
    await (ps_get (ph_store h) scope i) (\<lambda>found. case found of
      Inl e \<Rightarrow> Ready (Some (Err e))
    | Inr None \<Rightarrow> Ready (Some (Err (UnknownProcess i)))
    | Inr (Some record) \<Rightarrow>
        if process_is_terminal (pr_status record) then Ready (Some (Ok (exit_from_terminal record)))
        else await_process h scope i rounds)"

record ('d, 'v, 'w) ProcessSubscription =
  sub_store :: "('d, 'v, 'w) ProcessStore"
  sub_scope :: ResourceScope
  sub_process_id :: ProcessId
  sub_last_status :: "ProcessStatus option"
  sub_pending_initial :: "'d ProcessRecord option"
  sub_finished :: bool

definition subscribe ::
  "('d, 'v, 'w) ProcessHost \<Rightarrow> ResourceScope \<Rightarrow> ProcessId
     \<Rightarrow> ('w, ('d ProcessError, ('d, 'v, 'w) ProcessSubscription) result) async" where
  "subscribe h scope i =
    try_await (ps_get (ph_store h) scope i) (\<lambda>found. case found of
      None \<Rightarrow> Ready (Err (UnknownProcess i))
    | Some initial_record \<Rightarrow>
        Ready (Ok \<lparr>sub_store = ph_store h, sub_scope = scope, sub_process_id = i,
                   sub_last_status = Some (pr_status initial_record),
                   sub_pending_initial = Some initial_record, sub_finished = False\<rparr>))"

fun poll_change ::
  "('d, 'v, 'w) ProcessSubscription \<Rightarrow> nat
     \<Rightarrow> ('w, (('d ProcessError, 'd ProcessRecord option) result \<times> ('d, 'v, 'w) ProcessSubscription) option) async" where
  "poll_change s 0 = Ready None"
| "poll_change s (Suc rounds) =
    await (ps_get (sub_store s) (sub_scope s) (sub_process_id s)) (\<lambda>found. case found of
      Inl e \<Rightarrow> Ready (Some (Err e, s))
    | Inr None \<Rightarrow> Ready (Some (Err (UnknownProcess (sub_process_id s)), s))
    | Inr (Some record) \<Rightarrow>
        if Some (pr_status record) \<noteq> sub_last_status s then
          Ready (Some (Ok (Some record),
            s\<lparr>sub_last_status := Some (pr_status record),
              sub_finished := sub_finished s \<or> process_is_terminal (pr_status record)\<rparr>))
        else poll_change s rounds)"

definition subscription_next ::
  "('d, 'v, 'w) ProcessSubscription \<Rightarrow> nat
     \<Rightarrow> ('w, (('d ProcessError, 'd ProcessRecord option) result \<times> ('d, 'v, 'w) ProcessSubscription) option) async" where
  "subscription_next s rounds =
    (case sub_pending_initial s of
       Some record \<Rightarrow>
         Ready (Some (Ok (Some record), s\<lparr>sub_pending_initial := None,
           sub_finished := sub_finished s \<or> process_is_terminal (pr_status record)\<rparr>))
     | None \<Rightarrow>
         if sub_finished s then Ready (Some (Ok None, s)) else poll_change s rounds)"

section \<open>In-memory services\<close>

text \<open>
  The world the in-memory services share. \<open>pw_clock\<close> and \<open>pw_random\<close> are what the next call finds
  when it reads the clock or draws an identifier; anything may change them between two accesses.
\<close>

record ('d, 'v) process_world =
  pw_records :: "'d ProcessRecords"
  pw_results :: "'v ProcessResults"
  pw_cancellation :: Cancellation
  pw_owned :: "(ProcessKey, ResourceReservationId) hashmap"
  pw_governor :: "'d InMemoryResourceGovernor"
  pw_events :: "RuntimeEvent list"
  pw_clock :: instant
  pw_random :: uuid

definition on_records ::
  "('d ProcessRecords \<Rightarrow> ('d ProcessError, 'd ProcessRecord) result \<times> 'd ProcessRecords) \<Rightarrow> ('d, 'v) process_world
     \<Rightarrow> ('d ProcessError, 'd ProcessRecord) result \<times> ('d, 'v) process_world" where
  "on_records f w = (case f (pw_records w) of (res, records) \<Rightarrow> (res, w\<lparr>pw_records := records\<rparr>))"

definition memory_store :: "('d, 'v, ('d, 'v) process_world) ProcessStore" where
  "memory_store =
    \<lparr>ps_start = (\<lambda>start. call (on_records (process_start start))),
     ps_complete = (\<lambda>scope i. call (on_records (process_complete scope i))),
     ps_fail = (\<lambda>scope i ekind. call (on_records (process_fail scope i ekind))),
     ps_kill = (\<lambda>scope i. call (on_records (process_kill scope i))),
     ps_get = (\<lambda>scope i. call (\<lambda>w. (Ok (process_get scope i (pw_records w)), w))),
     ps_records_for_scope = (\<lambda>scope. call (\<lambda>w. (Ok (process_records_for_scope scope (pw_records w)), w)))\<rparr>"

definition save_result ::
  "ResourceScope \<Rightarrow> ProcessId \<Rightarrow> ProcessStatus \<Rightarrow> 'v option \<Rightarrow> string option
     \<Rightarrow> (('d, 'v) process_world, ('d ProcessError, 'v ProcessResultRecord) result) async" where
  "save_result scope i status output ekind =
    call (\<lambda>w. case store_result scope i status output ekind (pw_results w) of
      (r, results) \<Rightarrow> (Ok r, w\<lparr>pw_results := results\<rparr>))"

definition memory_result_get where
  "memory_result_get scope i = call (\<lambda>w. (Ok (hm_get (pw_results w) (ProcessKey_new scope i)), w))"

definition memory_result_store :: "('d, 'v, ('d, 'v) process_world) ProcessResultStore" where
  "memory_result_store =
    \<lparr>rs_complete = (\<lambda>scope i output. save_result scope i PsCompleted (Some output) None),
     rs_fail = (\<lambda>scope i ekind. save_result scope i PsFailed None (Some (sanitize_error_kind ekind))),
     rs_kill = (\<lambda>scope i. save_result scope i PsKilled None None),
     rs_get = memory_result_get, rs_output = default_output memory_result_get\<rparr>"

definition memory_registry :: "('d, 'v) process_world CancellationRegistry" where
  "memory_registry =
    \<lparr>cr_register = (\<lambda>scope i w. case registry_register scope i (pw_cancellation w) of
        (t, c) \<Rightarrow> (t, w\<lparr>pw_cancellation := c\<rparr>)),
     cr_cancel = (\<lambda>scope i w. case registry_cancel scope i (pw_cancellation w) of
        (b, c) \<Rightarrow> (b, w\<lparr>pw_cancellation := c\<rparr>)),
     cr_unregister = (\<lambda>scope i w. ((), w\<lparr>pw_cancellation := registry_unregister scope i (pw_cancellation w)\<rparr>))\<rparr>"

text \<open>\<open>reserve\<close> is the trait's default: a fresh identifier, and the warnings dropped.\<close>

definition memory_governor :: "'d::linorder decimal_ops \<Rightarrow> chrono_ops \<Rightarrow> ('d, ('d, 'v) process_world) GovernorPort" where
  "memory_governor D C =
    \<lparr>gp_reserve = (\<lambda>scope estimate w.
        case mem_reserve_with_id_and_outcome D C (pw_clock w) (pw_governor w) scope estimate (pw_random w) of
          (res, g) \<Rightarrow> (map_sum id out_reservation res, w\<lparr>pw_governor := g\<rparr>)),
     gp_reconcile = (\<lambda>rid usage w. case mem_reconcile D C (pw_clock w) (pw_governor w) rid usage of
          (res, g) \<Rightarrow> (res, w\<lparr>pw_governor := g\<rparr>)),
     gp_release = (\<lambda>rid w. case mem_release D C (pw_clock w) (pw_governor w) rid of
          (res, g) \<Rightarrow> (res, w\<lparr>pw_governor := g\<rparr>))\<rparr>"

definition memory_managed ::
  "'d::linorder decimal_ops \<Rightarrow> chrono_ops \<Rightarrow> 'd ResourceUsage \<Rightarrow> ('d, 'v, ('d, 'v) process_world) ResourceManagedProcessStore" where
  "memory_managed D C usage =
    \<lparr>ms_inner = memory_store, ms_governor = memory_governor D C, ms_completion_usage = usage,
     ms_owned = pw_owned, ms_put_owned = (\<lambda>owned w. w\<lparr>pw_owned := owned\<rparr>)\<rparr>"

text \<open>The stack of a production composition: events over resources over the store.\<close>

definition process_stack ::
  "'d::linorder decimal_ops \<Rightarrow> chrono_ops \<Rightarrow> 'd ResourceUsage \<Rightarrow> ('d, 'v, ('d, 'v) process_world) ProcessStore" where
  "process_stack D C usage =
    eventing_store \<lparr>es_inner = managed_store (memory_managed D C usage),
      es_stamp = (\<lambda>w. (pw_random w, pw_clock w)), es_emit = (\<lambda>e w. (Ok (), w\<lparr>pw_events := pw_events w @ [e]\<rparr>))\<rparr>"

text \<open>\<open>ProcessServices\<close> hands the store, the result store and the registry to both sides.\<close>

definition services_host ::
  "('d, 'v, ('d, 'v) process_world) ProcessStore \<Rightarrow> ('d, 'v, ('d, 'v) process_world) ProcessHost" where
  "services_host store =
    \<lparr>ph_store = store, ph_cancellation_registry = Some memory_registry, ph_result_store = Some memory_result_store\<rparr>"

definition background_manager ::
  "('d, 'v, ('d, 'v) process_world) ProcessStore
     \<Rightarrow> (('d, 'v) ProcessExecutionRequest \<Rightarrow> (('d, 'v) process_world, 'v Execution) async)
     \<Rightarrow> ('d, 'v, ('d, 'v) process_world) BackgroundProcessManager" where
  "background_manager store executor =
    \<lparr>bm_store = store, bm_executor = executor, bm_cancellation_registry = Some memory_registry,
     bm_result_store = Some memory_result_store, bm_error_handler = None\<rparr>"

end
