(* ===== verification/Process_Laws.thy ===== *)
theory Process_Laws
  imports Processes
begin

text \<open>
  What holds of the process services however their tasks are interleaved: every active reservation
  belongs to a running process, a terminal record is final, a result is stored before the status
  that announces it; and what does not: the two places where a kill races with the task that
  finishes the process.
\<close>

section \<open>The ledgers\<close>

definition active_reservation :: "('d, 'v) process_world \<Rightarrow> ResourceReservationId \<Rightarrow> bool" where
  "active_reservation w rid =
    (case hm_get (reservations (mem_state (pw_governor w))) rid of
       Some r \<Rightarrow> rec_status r = RActive | None \<Rightarrow> False)"

definition running :: "('d, 'v) process_world \<Rightarrow> ProcessKey \<Rightarrow> 'd ProcessRecord \<Rightarrow> bool" where
  "running w k r = (hm_get (pw_records w) k = Some r \<and> pr_status r = PsRunning)"

text \<open>
  Owned reservations are active and belong to the running process they are filed under, no
  reservation to two processes.
\<close>

definition ledgers_ok :: "('d, 'v) process_world \<Rightarrow> bool" where
  "ledgers_ok w =
    ((\<forall>k rid. hm_get (pw_owned w) k = Some rid \<longrightarrow>
        active_reservation w rid \<and> (\<exists>r. running w k r \<and> pr_resource_reservation_id r = Some rid))
     \<and> (\<forall>k k' rid. hm_get (pw_owned w) k = Some rid \<longrightarrow> hm_get (pw_owned w) k' = Some rid \<longrightarrow> k = k'))"

text \<open>What nobody has filed yet: reservations without an owner and processes without a reservation.\<close>

definition unfiled :: "('d, 'v) process_world \<Rightarrow> (ResourceReservationId + ProcessKey \<times> 'd ProcessRecord) set" where
  "unfiled w =
    Inl ` {rid. active_reservation w rid \<and> rid \<notin> ran (hm_get (pw_owned w))}
    \<union> Inr ` {(k, r). running w k r \<and> hm_get (pw_owned w) k = None}"

lemma unfiled_iff [simp]:
  "Inl rid \<in> unfiled w \<longleftrightarrow> active_reservation w rid \<and> rid \<notin> ran (hm_get (pw_owned w))"
  "Inr (k, r) \<in> unfiled w \<longleftrightarrow> running w k r \<and> hm_get (pw_owned w) k = None"
  by (auto simp: unfiled_def)

abbreviation holds ::
  "(('d, 'v) process_world, 'r) async \<Rightarrow> (ResourceReservationId + ProcessKey \<times> 'd ProcessRecord) set
     \<Rightarrow> ('r \<Rightarrow> (ResourceReservationId + ProcessKey \<times> 'd ProcessRecord) set \<Rightarrow> bool) \<Rightarrow> bool" where
  "holds \<equiv> owns ledgers_ok unfiled"

lemma holds_call:
  assumes "\<And>w. ledgers_ok w \<Longrightarrow> H \<subseteq> unfiled w \<Longrightarrow>
    ledgers_ok (snd (op w)) \<and> (\<exists>H'. H' \<subseteq> unfiled (snd (op w)) \<and> unfiled (snd (op w)) - H' = unfiled w - H \<and> Q (fst (op w)) H')"
  shows "holds (call op) H Q"
  using assms by (simp add: call_def)

text \<open>Accesses that leave the three ledgers alone.\<close>

definition same_ledgers :: "('d, 'v) process_world \<Rightarrow> ('d, 'v) process_world \<Rightarrow> bool" where
  "same_ledgers w w' = (pw_records w' = pw_records w \<and> pw_owned w' = pw_owned w \<and> pw_governor w' = pw_governor w)"

lemma same_ledgers_frame:
  assumes "same_ledgers w w'"
  shows "ledgers_ok w' = ledgers_ok w" and "unfiled w' = unfiled w"
    and "active_reservation w' = active_reservation w" and "running w' = running w"
proof -
  show a: "active_reservation w' = active_reservation w" and r: "running w' = running w"
    using assms by (auto simp: same_ledgers_def active_reservation_def running_def fun_eq_iff)
  show "ledgers_ok w' = ledgers_ok w" and "unfiled w' = unfiled w"
    using assms unfolding ledgers_ok_def unfiled_def a r by (simp_all add: same_ledgers_def)
qed

lemma guarantees_same_holds:
  fixes p :: "(('d, 'v) process_world, 'r) async"
  assumes "guarantees same_ledgers p"
  shows "holds p H (\<lambda>_ H'. H' = H)"
  using assms
proof (induction p)
  case (Await u n)
  show ?case
  proof (rule owns_AwaitI)
    fix w :: "('d, 'v) process_world"
    assume "ledgers_ok w" "H \<subseteq> unfiled w"
    moreover have s: "same_ledgers w (u w)" "guarantees same_ledgers (n w)" using Await.prems by auto
    ultimately show "ledgers_ok (u w) \<and> (\<exists>H'. H' \<subseteq> unfiled (u w) \<and> unfiled (u w) - H' = unfiled w - H
        \<and> holds (n w) H' (\<lambda>_ H'. H' = H))"
      using Await.IH [OF rangeI s(2)] by (intro conjI exI [of _ H]) (simp_all add: same_ledgers_frame [OF s(1)])
  qed
qed simp

section \<open>The accesses of the managed store\<close>

lemma mem_state_upd [simp]: "mem_state (pw_governor (w\<lparr>pw_governor := g\<rparr>)) = mem_state g"
  by simp

lemma reserve_ledger:
  assumes "gp_reserve (memory_governor D C) scope est w = (res, w')"
  shows "pw_records w' = pw_records w \<and> pw_owned w' = pw_owned w \<and>
    (case res of
       Inl _ \<Rightarrow> active_reservation w' = active_reservation w
     | Inr reservation \<Rightarrow> \<not> active_reservation w (res_id reservation)
         \<and> active_reservation w' = (active_reservation w)(res_id reservation := True))"
proof -
  obtain out st where o: "reserve_with_outcome_in_state D C (mem_state (pw_governor w)) scope est (pw_random w) (pw_clock w) = (out, st)"
    by fastforce
  show ?thesis
  proof (cases out)
    case (Inl e)
    from reserve_Err_frame [OF o [unfolded Inl]] have "reservations st = reservations (mem_state (pw_governor w))"
      by (auto simp: frame_simps)
    with o Inl assms show ?thesis
      by (auto simp: memory_governor_def mem_reserve_with_id_and_outcome_def active_reservation_def fun_eq_iff)
  next
    case (Inr oc)
    from reserve_Ok_elim [OF o [unfolded Inr]] have
      "reservations st = hm_insert (pw_random w)
        \<lparr>rec_reservation = \<lparr>res_id = pw_random w, res_scope = scope, res_estimate = est\<rparr>,
         rec_accounts = cascade scope, rec_tally = from_estimate D est, rec_status = RActive, rec_actual = None\<rparr>
        (reservations (mem_state (pw_governor w)))"
      "hm_get (reservations (mem_state (pw_governor w))) (pw_random w) = None"
      "res_id (out_reservation oc) = pw_random w"
      by (metis ResourceState.select_convs(4) ResourceState.surjective ResourceState.update_convs(4)
          ResourceReservation.select_convs(1))+
    with o Inr assms show ?thesis
      by (auto simp: memory_governor_def mem_reserve_with_id_and_outcome_def
          active_reservation_def fun_eq_iff hm_simps)
  qed
qed

lemma release_ledger:
  assumes "gp_release (memory_governor D C) rid w = (res, w')" and "active_reservation w rid"
  shows "pw_records w' = pw_records w \<and> pw_owned w' = pw_owned w \<and> is_ok res
    \<and> active_reservation w' = (active_reservation w)(rid := False)"
proof -
  obtain out st where o: "release_in_state D C (mem_state (pw_governor w)) rid (pw_clock w) = (out, st)"
    by fastforce
  have "is_ok out" using o assms(2)
    by (auto simp: release_in_state_def active_reservation_def Let_def split: option.splits)
  then obtain rcpt where Inr: "out = Inr rcpt" by (cases out) auto
  obtain r where "st = (fold (release_one D C (pw_clock w) (rec_tally r)) (rec_accounts r) (mem_state (pw_governor w)))
           \<lparr>reservations := hm_insert rid (r\<lparr>rec_status := RReleased\<rparr>) (reservations (mem_state (pw_governor w)))\<rparr>"
    by (rule release_Ok_elim [OF o [unfolded Inr]]) (rule that)
  then show ?thesis using o Inr assms(1)
      by (auto simp: memory_governor_def mem_release_def active_reservation_def fun_eq_iff hm_simps)
qed

lemma reconcile_ledger:
  assumes "gp_reconcile (memory_governor D C) rid usage w = (res, w')" and "active_reservation w rid"
    and "validate_usage D usage = Ok ()"
  shows "pw_records w' = pw_records w \<and> pw_owned w' = pw_owned w \<and> is_ok res
    \<and> active_reservation w' = (active_reservation w)(rid := False)"
proof -
  obtain out st where o: "reconcile_in_state D C (mem_state (pw_governor w)) rid usage (pw_clock w) = (out, st)"
    by fastforce
  have "is_ok out" using o assms(2,3)
    by (auto simp: reconcile_in_state_def active_reservation_def Let_def split: option.splits)
  then obtain rcpt where Inr: "out = Inr rcpt" by (cases out) auto
  obtain r where "st = (fold (reconcile_one D C (pw_clock w) (rec_tally r) (from_usage usage)) (rec_accounts r) (mem_state (pw_governor w)))
           \<lparr>reservations := hm_insert rid (r\<lparr>rec_status := RReconciled, rec_actual := Some usage\<rparr>)
              (reservations (mem_state (pw_governor w)))\<rparr>"
    by (rule reconcile_Ok_elim [OF o [unfolded Inr]]) (rule that)
  then show ?thesis using o Inr assms(1)
      by (auto simp: memory_governor_def mem_reconcile_def active_reservation_def fun_eq_iff hm_simps)
qed

lemma ledgers_okD:
  assumes "ledgers_ok w" and "hm_get (pw_owned w) k = Some rid"
  shows "active_reservation w rid" and "\<exists>r. running w k r \<and> pr_resource_reservation_id r = Some rid"
    and "hm_get (pw_owned w) k' = Some rid \<Longrightarrow> k' = k"
  using assms unfolding ledgers_ok_def by blast+

lemma ledgers_okI:
  assumes "\<And>k rid. hm_get (pw_owned w) k = Some rid
      \<Longrightarrow> active_reservation w rid \<and> (\<exists>r. running w k r \<and> pr_resource_reservation_id r = Some rid)"
    and "\<And>k k' rid. hm_get (pw_owned w) k = Some rid \<Longrightarrow> hm_get (pw_owned w) k' = Some rid \<Longrightarrow> k = k'"
  shows "ledgers_ok w"
  unfolding ledgers_ok_def using assms by blast

lemma unfiled_eqI:
  assumes "\<And>rid. Inl rid \<in> A \<longleftrightarrow> Inl rid \<in> B" and "\<And>k r. Inr (k, r) \<in> A \<longleftrightarrow> Inr (k, r) \<in> B"
  shows "A = B"
proof (rule set_eqI)
  fix x show "x \<in> A \<longleftrightarrow> x \<in> B"
    using assms by (cases x) auto
qed

lemma holds_reserve:
  "holds (call (gp_reserve (memory_governor D C) scope est)) {}
     (\<lambda>res H. case res of Inl _ \<Rightarrow> H = {} | Inr reservation \<Rightarrow> H = {Inl (res_id reservation)})"
proof (rule holds_call)
  fix w :: "('a, 'b) process_world"
  assume ok: "ledgers_ok w"
  obtain res w' where e: "gp_reserve (memory_governor D C) scope est w = (res, w')" by fastforce
  note eff = reserve_ledger [OF e]
  have run: "running w' = running w" using eff by (auto simp: running_def fun_eq_iff)
  show "ledgers_ok (snd (gp_reserve (memory_governor D C) scope est w)) \<and>
    (\<exists>H'. H' \<subseteq> unfiled (snd (gp_reserve (memory_governor D C) scope est w))
       \<and> unfiled (snd (gp_reserve (memory_governor D C) scope est w)) - H' = unfiled w - {}
       \<and> (case fst (gp_reserve (memory_governor D C) scope est w) of Inl _ \<Rightarrow> H' = {}
          | Inr reservation \<Rightarrow> H' = {Inl (res_id reservation)}))"
  proof (cases res)
    case (Inl e')
    with eff run have "ledgers_ok w' = ledgers_ok w" "unfiled w' = unfiled w"
      by (simp_all add: ledgers_ok_def unfiled_def)
    with ok e Inl show ?thesis by simp
  next
    case (Inr v)
    with eff have a: "active_reservation w' = (active_reservation w)(res_id v := True)"
      "\<not> active_reservation w (res_id v)" "pw_owned w' = pw_owned w" by simp_all
    have own: "res_id v \<notin> ran (hm_get (pw_owned w))"
      using ledgers_okD(1) [OF ok] a(2) unfolding ran_def by blast
    have "ledgers_ok w'"
      using ok unfolding ledgers_ok_def a run by auto
    moreover have "unfiled w' - {Inl (res_id v)} = unfiled w - {}"
      by (rule unfiled_eqI) (use a own run in \<open>auto\<close>)
    moreover have "{Inl (res_id v)} \<subseteq> unfiled w'" using a own by simp
    ultimately show ?thesis using e Inr by auto
  qed
qed

lemma holds_start:
  assumes "st_resource_reservation_id start = Some rid"
  shows "holds (call (on_records (process_start start))) {Inl rid}
     (\<lambda>res H. case res of Inl _ \<Rightarrow> H = {Inl rid}
        | Inr r \<Rightarrow> r = running_record start \<and> H = {Inl rid, Inr (ProcessKey_new (pr_scope r) (pr_process_id r), r)})"
proof (rule holds_call)
  fix w :: "('a, 'c) process_world"
  assume ok: "ledgers_ok w" and h: "{Inl rid} \<subseteq> unfiled w"
  let ?r = "running_record start"
  let ?k = "ProcessKey_new (pr_scope ?r) (pr_process_id ?r)"
  show "ledgers_ok (snd (on_records (process_start start) w)) \<and>
    (\<exists>H'. H' \<subseteq> unfiled (snd (on_records (process_start start) w))
       \<and> unfiled (snd (on_records (process_start start) w)) - H' = unfiled w - {Inl rid}
       \<and> (case fst (on_records (process_start start) w) of Inl _ \<Rightarrow> H' = {Inl rid}
          | Inr r \<Rightarrow> r = ?r \<and> H' = {Inl rid, Inr (ProcessKey_new (pr_scope r) (pr_process_id r), r)}))"
  proof (cases "hm_contains (pw_records w) ?k")
    case True
    then have "on_records (process_start start) w = (Inl (ProcessAlreadyExists (pr_process_id ?r)), w)"
      by (simp add: on_records_def process_start_def Let_def)
    with ok h show ?thesis by simp
  next
    case False
    define w' where "w' = w\<lparr>pw_records := hm_insert ?k ?r (pw_records w)\<rparr>"
    from False have e: "on_records (process_start start) w = (Inr ?r, w')"
      by (simp add: on_records_def process_start_def Let_def w'_def)
    from False have new: "hm_get (pw_records w) ?k = None" by (auto simp: hm_simps)
    have own: "hm_get (pw_owned w) ?k = None"
    proof (rule ccontr)
      assume "hm_get (pw_owned w) ?k \<noteq> None"
      then obtain rid' where "hm_get (pw_owned w) ?k = Some rid'" by blast
      from ledgers_okD(2) [OF ok this] new show False by (simp add: running_def)
    qed
    have run: "running w' k r \<longleftrightarrow> running w k r \<or> k = ?k \<and> r = ?r" for k r
      using new by (auto simp: running_def w'_def hm_simps running_record_def)
    have same: "pw_owned w' = pw_owned w" "active_reservation w' = active_reservation w"
      by (auto simp: w'_def active_reservation_def fun_eq_iff)
    have "ledgers_ok w'" using ok unfolding ledgers_ok_def same run by blast
    moreover have "unfiled w' - {Inl rid, Inr (?k, ?r)} = unfiled w - {Inl rid}"
    proof (rule unfiled_eqI)
      fix k r
      have "\<not> running w ?k r" using new by (simp add: running_def)
      then show "Inr (k, r) \<in> unfiled w' - {Inl rid, Inr (?k, ?r)} \<longleftrightarrow> Inr (k, r) \<in> unfiled w - {Inl rid}"
        using run same by auto
    qed (use same in auto)
    moreover have "{Inl rid, Inr (?k, ?r)} \<subseteq> unfiled w'" using h own run same by auto
    ultimately show ?thesis using e by auto
  qed
qed

lemma holds_record:
  assumes "pr_resource_reservation_id r = Some rid" and "k = ProcessKey_new scope i"
  shows "holds (record_owned_reservation (memory_managed D C usage) scope i rid) {Inl rid, Inr (k, r)} (\<lambda>_ H. H = {})"
  unfolding record_owned_reservation_def
proof (rule holds_call)
  fix w :: "('a, 'c) process_world"
  assume ok: "ledgers_ok w" and h: "{Inl rid, Inr (k, r)} \<subseteq> unfiled w"
  define w' where "w' = w\<lparr>pw_owned := hm_insert k rid (pw_owned w)\<rparr>"
  have same: "running w' = running w" "active_reservation w' = active_reservation w"
    by (simp_all add: w'_def running_def active_reservation_def fun_eq_iff)
  have own': "hm_get (pw_owned w') = (hm_get (pw_owned w))(k \<mapsto> rid)"
    by (simp add: w'_def fun_eq_iff hm_simps)
  from h have new: "hm_get (pw_owned w) k = None" "rid \<notin> ran (hm_get (pw_owned w))"
    "running w k r" "active_reservation w rid" by simp_all
  have "ledgers_ok w'"
  proof (rule ledgers_okI)
    fix k' rid' assume o: "hm_get (pw_owned w') k' = Some rid'"
    show "active_reservation w' rid' \<and> (\<exists>r. running w' k' r \<and> pr_resource_reservation_id r = Some rid')"
    proof (cases "k' = k")
      case True
      with o new assms(1) show ?thesis by (auto simp: own' same)
    next
      case False
      with o have "hm_get (pw_owned w) k' = Some rid'" by (simp add: own')
      from ledgers_okD(1,2) [OF ok this] show ?thesis by (simp add: same)
    qed
    fix k'' assume o': "hm_get (pw_owned w') k'' = Some rid'"
    have "k' = k \<longleftrightarrow> rid' = rid" "k'' = k \<longleftrightarrow> rid' = rid"
      using o o' new(2) by (auto simp: own' ranI split: if_splits)
    then show "k' = k''"
      using o o' ledgers_okD(3) [OF ok, of k'' rid' k'] by (cases "rid' = rid") (auto simp: own')
  qed
  moreover have "unfiled w' = unfiled w - {Inl rid, Inr (k, r)}"
  proof (rule unfiled_eqI)
    fix k' r'
    have "running w k' r' \<Longrightarrow> k' = k \<Longrightarrow> r' = r" using new by (simp add: running_def)
    then show "Inr (k', r') \<in> unfiled w' \<longleftrightarrow> Inr (k', r') \<in> unfiled w - {Inl rid, Inr (k, r)}"
      unfolding unfiled_iff same own' by auto
  next
    fix rid'
    show "Inl rid' \<in> unfiled w' \<longleftrightarrow> Inl rid' \<in> unfiled w - {Inl rid, Inr (k, r)}"
      using new by (simp add: own' same ran_map_upd) blast
  qed
  ultimately show "ledgers_ok (snd ((), ms_put_owned (memory_managed D C usage)
      (hm_insert (ProcessKey_new scope i) rid (ms_owned (memory_managed D C usage) w)) w)) \<and>
    (\<exists>H'. H' \<subseteq> unfiled (snd ((), ms_put_owned (memory_managed D C usage)
      (hm_insert (ProcessKey_new scope i) rid (ms_owned (memory_managed D C usage) w)) w))
     \<and> unfiled (snd ((), ms_put_owned (memory_managed D C usage)
      (hm_insert (ProcessKey_new scope i) rid (ms_owned (memory_managed D C usage) w)) w)) - H' = unfiled w - {Inl rid, Inr (k, r)}
     \<and> H' = {})"
    using assms(2) by (simp add: memory_managed_def w'_def)
qed

lemma ran_without:
  assumes "m k = Some x" and "\<And>k'. m k' = Some x \<Longrightarrow> k' = k"
  shows "y \<in> ran (m(k := None)) \<longleftrightarrow> y \<in> ran m \<and> y \<noteq> x"
proof
  assume "y \<in> ran (m(k := None))"
  then obtain k' where "k' \<noteq> k" "m k' = Some y" by (auto simp: ran_def split: if_splits)
  with assms(2) [of k'] show "y \<in> ran m \<and> y \<noteq> x" by (auto intro: ranI)
next
  assume "y \<in> ran m \<and> y \<noteq> x"
  then obtain k' where "m k' = Some y" "y \<noteq> x" by (auto simp: ran_def)
  with assms(1) have "(m(k := None)) k' = Some y" by auto
  then show "y \<in> ran (m(k := None))" by (rule ranI)
qed

lemma holds_take_access:
  "holds (call (\<lambda>w. (hm_get (pw_owned w) k, w\<lparr>pw_owned := hm_remove k (pw_owned w)\<rparr>))) {}
     (\<lambda>rem H. case rem of None \<Rightarrow> H = {}
        | Some rid \<Rightarrow> \<exists>r. pr_resource_reservation_id r = Some rid \<and> H = {Inl rid, Inr (k, r)})"
proof -
  let ?op = "\<lambda>w :: ('a, 'c) process_world. (hm_get (pw_owned w) k, w\<lparr>pw_owned := hm_remove k (pw_owned w)\<rparr>)"
  show "holds (call ?op) {} (\<lambda>rem H. case rem of None \<Rightarrow> H = {}
      | Some rid \<Rightarrow> \<exists>r. pr_resource_reservation_id r = Some rid \<and> H = {Inl rid, Inr (k, r)})"
  proof (rule holds_call)
    fix w :: "('a, 'c) process_world"
    assume ok: "ledgers_ok w"
    define w' where "w' = snd (?op w)"
    have same: "running w' = running w" "active_reservation w' = active_reservation w"
      by (simp_all add: w'_def running_def active_reservation_def fun_eq_iff)
    have own': "hm_get (pw_owned w') = (hm_get (pw_owned w))(k := None)"
      by (simp add: w'_def fun_eq_iff hm_simps)
    have ok': "ledgers_ok w'"
    proof (rule ledgers_okI)
      fix k' rid' assume "hm_get (pw_owned w') k' = Some rid'"
      then have o: "hm_get (pw_owned w) k' = Some rid'" by (simp add: own' split: if_splits)
      from ledgers_okD(1,2) [OF ok this] show "active_reservation w' rid'
          \<and> (\<exists>r. running w' k' r \<and> pr_resource_reservation_id r = Some rid')" by (simp add: same)
      fix k'' assume "hm_get (pw_owned w') k'' = Some rid'"
      then have "hm_get (pw_owned w) k'' = Some rid'" by (simp add: own' split: if_splits)
      from ledgers_okD(3) [OF ok this o] show "k' = k''" .
    qed
    have "\<exists>H'. H' \<subseteq> unfiled w' \<and> unfiled w' - H' = unfiled w \<and> (case hm_get (pw_owned w) k of None \<Rightarrow> H' = {}
        | Some rid \<Rightarrow> \<exists>r. pr_resource_reservation_id r = Some rid \<and> H' = {Inl rid, Inr (k, r)})"
    proof (cases "hm_get (pw_owned w) k")
      case None
      then have "hm_get (pw_owned w') = hm_get (pw_owned w)" unfolding own' by (simp add: fun_eq_iff)
      then have "unfiled w' = unfiled w" by (simp add: unfiled_def same)
      with None show ?thesis by simp
    next
      case (Some rid)
      from ledgers_okD(1,2) [OF ok Some] obtain r where r: "active_reservation w rid" "running w k r"
        "pr_resource_reservation_id r = Some rid" by blast
      have gone: "rid' \<in> ran (hm_get (pw_owned w')) \<longleftrightarrow> rid' \<in> ran (hm_get (pw_owned w)) \<and> rid' \<noteq> rid" for rid'
        unfolding own' by (rule ran_without [where m = "hm_get (pw_owned w)", OF Some]) (rule ledgers_okD(3) [OF ok Some])
      have "unfiled w' - {Inl rid, Inr (k, r)} = unfiled w"
      proof (rule unfiled_eqI)
        fix k' r'
        have "running w k r' \<Longrightarrow> r' = r" using r(2) by (simp add: running_def)
        then show "Inr (k', r') \<in> unfiled w' - {Inl rid, Inr (k, r)} \<longleftrightarrow> Inr (k', r') \<in> unfiled w"
          using Some by (auto simp: own' same)
      next
        fix rid'
        show "Inl rid' \<in> unfiled w' - {Inl rid, Inr (k, r)} \<longleftrightarrow> Inl rid' \<in> unfiled w"
          using ranI [where m = "hm_get (pw_owned w)", OF Some] by (auto simp: gone same)
      qed
      moreover have "{Inl rid, Inr (k, r)} \<subseteq> unfiled w'" using r gone own' same by simp
      ultimately show ?thesis using Some r(3) by (intro exI [of _ "{Inl rid, Inr (k, r)}"]) auto
    qed
    with ok' show "ledgers_ok (snd (?op w)) \<and> (\<exists>H'. H' \<subseteq> unfiled (snd (?op w)) \<and> unfiled (snd (?op w)) - H' = unfiled w - {}
        \<and> (case fst (?op w) of None \<Rightarrow> H' = {}
           | Some rid \<Rightarrow> \<exists>r. pr_resource_reservation_id r = Some rid \<and> H' = {Inl rid, Inr (k, r)}))"
      unfolding w'_def by simp
  qed
qed

lemma holds_take:
  assumes "k = ProcessKey_new scope i"
  shows "holds (take_owned_reservation (memory_managed D C usage) scope i record_rid) {}
     (\<lambda>res H. case res of Inl _ \<Rightarrow> H = {}
        | Inr rid \<Rightarrow> \<exists>r. pr_resource_reservation_id r = Some rid \<and> H = {Inl rid, Inr (k, r)})"
proof -
  have op: "(\<lambda>w. (hm_get (ms_owned (memory_managed D C usage) w) (ProcessKey_new scope i),
      ms_put_owned (memory_managed D C usage)
        (hm_remove (ProcessKey_new scope i) (ms_owned (memory_managed D C usage) w)) w)) = (\<lambda>w. (hm_get (pw_owned w) k, w\<lparr>pw_owned := hm_remove k (pw_owned w)\<rparr>))"
    by (simp add: memory_managed_def assms)
  show ?thesis
    unfolding take_owned_reservation_def op
    by (rule owns_await [OF holds_take_access [where k = k]])
       (auto split: option.splits intro!: owns_await [OF holds_record [OF _ assms]])
qed

lemma holds_transition:
  assumes "k = ProcessKey_new scope i" and "to \<noteq> PsRunning"
  shows "holds (call (on_records (update_status scope i to ekind))) {Inl rid, Inr (k, r)}
     (\<lambda>res H. (\<exists>r'. res = Inr r' \<and> pr_resource_reservation_id r' = pr_resource_reservation_id r) \<and> H = {Inl rid})"
proof (rule holds_call)
  fix w :: "('a, 'b) process_world"
  assume ok: "ledgers_ok w" and h: "{Inl rid, Inr (k, r)} \<subseteq> unfiled w"
  let ?r = "r\<lparr>pr_status := to, pr_error_kind := ekind\<rparr>"
  define w' where "w' = w\<lparr>pw_records := hm_insert k ?r (pw_records w)\<rparr>"
  from h have run: "running w k r" "hm_get (pw_owned w) k = None" by simp_all
  then have e: "on_records (update_status scope i to ekind) w = (Inr ?r, w')"
    by (simp add: on_records_def update_status_def running_def ensure_status_transition_def Let_def w'_def assms)
  have same: "active_reservation w' = active_reservation w" "pw_owned w' = pw_owned w"
    by (simp_all add: w'_def active_reservation_def fun_eq_iff)
  have run': "running w' k' r' \<longleftrightarrow> running w k' r' \<and> k' \<noteq> k" for k' r'
    using assms(2) by (auto simp: running_def w'_def hm_simps)
  have "ledgers_ok w'"
  proof (rule ledgers_okI)
    fix k' rid' assume o: "hm_get (pw_owned w') k' = Some rid'"
    with run(2) have "k' \<noteq> k" by (auto simp: same)
    with ledgers_okD(1,2) [OF ok, of k' rid'] o show "active_reservation w' rid'
        \<and> (\<exists>r. running w' k' r \<and> pr_resource_reservation_id r = Some rid')" by (simp add: same run')
    fix k'' assume "hm_get (pw_owned w') k'' = Some rid'"
    with ledgers_okD(3) [OF ok, of k'' rid' k'] o show "k' = k''" by (simp add: same)
  qed
  moreover have "unfiled w' - {Inl rid} = unfiled w - {Inl rid, Inr (k, r)}"
  proof (rule unfiled_eqI)
    fix k' r'
    have "running w k r' \<Longrightarrow> r' = r" using run(1) by (simp add: running_def)
    then show "Inr (k', r') \<in> unfiled w' - {Inl rid} \<longleftrightarrow> Inr (k', r') \<in> unfiled w - {Inl rid, Inr (k, r)}"
      by (simp add: run' same) blast
  qed (simp add: same)
  moreover have "{Inl rid} \<subseteq> unfiled w'" using h by (simp add: same)
  ultimately show "ledgers_ok (snd (on_records (update_status scope i to ekind) w)) \<and>
    (\<exists>H'. H' \<subseteq> unfiled (snd (on_records (update_status scope i to ekind) w))
     \<and> unfiled (snd (on_records (update_status scope i to ekind) w)) - H' = unfiled w - {Inl rid, Inr (k, r)}
     \<and> (\<exists>r'. fst (on_records (update_status scope i to ekind) w) = Inr r'
          \<and> pr_resource_reservation_id r' = pr_resource_reservation_id r) \<and> H' = {Inl rid})"
    unfolding e by simp
qed

lemma holds_settle:
  assumes "\<And>w res w'. op w = (res, w') \<Longrightarrow> active_reservation w rid \<Longrightarrow> pw_records w' = pw_records w
      \<and> pw_owned w' = pw_owned w \<and> is_ok res \<and> active_reservation w' = (active_reservation w)(rid := False)"
  shows "holds (try_await (call op) (\<lambda>_. Ready (Ok ()))) {Inl rid} (\<lambda>res H. res = Ok () \<and> H = {})"
proof -
  have "holds (call op) {Inl rid} (\<lambda>res H. is_ok res \<and> H = {})"
  proof (rule holds_call)
    fix w :: "('a, 'b) process_world"
    assume ok: "ledgers_ok w" and h: "{Inl rid} \<subseteq> unfiled w"
    obtain res w' where e: "op w = (res, w')" by fastforce
    from h have act: "active_reservation w rid" and free: "rid \<notin> ran (hm_get (pw_owned w))" by simp_all
    from assms [OF e act] have eff: "pw_records w' = pw_records w" "pw_owned w' = pw_owned w" "is_ok res"
      "active_reservation w' = (active_reservation w)(rid := False)" by simp_all
    have run: "running w' = running w" by (simp add: running_def fun_eq_iff eff)
    have "ledgers_ok w'"
    proof (rule ledgers_okI)
      fix k' rid' assume o: "hm_get (pw_owned w') k' = Some rid'"
      with free have "rid' \<noteq> rid" by (auto simp: eff intro: ranI)
      with ledgers_okD(1,2) [OF ok, of k' rid'] o show "active_reservation w' rid'
          \<and> (\<exists>r. running w' k' r \<and> pr_resource_reservation_id r = Some rid')" by (simp add: eff run)
      fix k'' assume "hm_get (pw_owned w') k'' = Some rid'"
      with ledgers_okD(3) [OF ok, of k'' rid' k'] o show "k' = k''" by (simp add: eff)
    qed
    moreover have "unfiled w' = unfiled w - {Inl rid}"
      by (rule unfiled_eqI) (auto simp: eff run)
    ultimately show "ledgers_ok (snd (op w)) \<and> (\<exists>H'. H' \<subseteq> unfiled (snd (op w))
        \<and> unfiled (snd (op w)) - H' = unfiled w - {Inl rid} \<and> is_ok (fst (op w)) \<and> H' = {})"
      unfolding e using eff(3) by simp
  qed
  then show ?thesis
    unfolding try_await_def by (elim owns_await) (auto split: sum.splits)
qed

lemma holds_release: "holds (release_reservation (memory_managed D C usage) rid) {Inl rid} (\<lambda>res H. res = Ok () \<and> H = {})"
  unfolding release_reservation_def
  by (rule holds_settle) (simp add: memory_managed_def release_ledger)

lemma holds_reconcile:
  assumes "validate_usage D usage = Ok ()"
  shows "holds (reconcile_reservation (memory_managed D C usage) rid) {Inl rid} (\<lambda>res H. res = Ok () \<and> H = {})"
  unfolding reconcile_reservation_def
  by (rule holds_settle) (simp add: memory_managed_def reconcile_ledger [OF _ _ assms])

lemma holds_same_call:
  assumes "\<And>w. same_ledgers w (snd (op w))"
  shows "holds (call op) H (\<lambda>_ H'. H' = H)"
  by (rule guarantees_same_holds) (simp add: assms)

text \<open>A task that neither keeps nor loses anything.\<close>

abbreviation balanced_task :: "(('d, 'v) process_world, 'r) async \<Rightarrow> bool" where
  "balanced_task p \<equiv> holds p {} (\<lambda>_ H. H = {})"

lemma balanced_await:
  assumes "balanced_task p" and "\<And>a. balanced_task (f a)"
  shows "balanced_task (await p f)"
  by (rule owns_await [OF assms(1)]) (use assms(2) in simp)

lemma balanced_try:
  assumes "balanced_task p" and "\<And>a. balanced_task (f a)"
  shows "balanced_task (try_await p f)"
  unfolding try_await_def by (rule balanced_await [OF assms(1)]) (use assms(2) in \<open>auto split: sum.splits\<close>)

lemma balanced_get: "balanced_task (ps_get memory_store scope i)"
  by (simp add: memory_store_def) (rule holds_same_call, simp add: same_ledgers_def)

lemma balanced_managed_start: "balanced_task (managed_start (memory_managed D C usage) start)"
proof (cases "st_resource_reservation_id start")
  case None
  have store: "ms_governor (memory_managed D C usage) = memory_governor D C" "ms_inner (memory_managed D C usage) = memory_store"
    by (simp_all add: memory_managed_def)
  have release: "holds (await (release_reservation_after_error (memory_managed D C usage) rid e) (\<lambda>e. Ready (Inl e)))
      {Inl rid} (\<lambda>_ H. H = {})" for rid e
    unfolding release_reservation_after_error_def after_error_def await_assoc
    by (rule owns_await [OF holds_release]) simp
  have started: "holds (managed_started (memory_managed D C usage) rid res) H (\<lambda>_ H. H = {})"
    if "case res of Inl _ \<Rightarrow> H = {Inl rid}
        | Inr r \<Rightarrow> r = running_record (start\<lparr>st_resource_reservation_id := Some rid\<rparr>)
             \<and> H = {Inl rid, Inr (ProcessKey_new (pr_scope r) (pr_process_id r), r)}" for rid res H
  proof (cases res)
    case (Inl e)
    with that release show ?thesis by (simp add: managed_started_def)
  next
    case (Inr r)
    with that have "pr_resource_reservation_id r = Some rid" by (simp add: running_record_def)
    with that Inr show ?thesis
      by (simp add: managed_started_def) (rule owns_await [OF holds_record], simp_all)
  qed
  have "holds (await (ps_start memory_store (start\<lparr>st_resource_reservation_id := Some rid\<rparr>))
      (managed_started (memory_managed D C usage) rid)) {Inl rid} (\<lambda>_ H. H = {})" for rid
    unfolding memory_store_def ProcessStore.select_convs
    by (rule owns_await [OF holds_start]) (simp, rule started)
  then show ?thesis
    unfolding managed_start_def store None option.case
    by (intro owns_await [OF holds_reserve]) (auto split: sum.splits)
qed (simp add: managed_start_def)

lemma balanced_managed_finish:
  assumes "\<And>rid. holds (settle rid) {Inl rid} (\<lambda>res H. res = Ok () \<and> H = {})" and "to \<noteq> PsRunning"
    and "transition = call (on_records (update_status scope i to ekind))"
  shows "balanced_task (managed_finish (memory_managed D C usage) transition settle scope i)"
proof -
  have settled: "holds (managed_settled (memory_managed D C usage) settle scope i rid res) {Inl rid} (\<lambda>_ H. H = {})"
    if "\<exists>r'. res = Inr r' \<and> pr_resource_reservation_id r' = Some rid" for res rid
    using that by (elim exE conjE) (simp add: managed_settled_def, rule owns_await [OF assms(1)], simp)
  have moved: "holds (await transition (managed_settled (memory_managed D C usage) settle scope i rid))
      {Inl rid, Inr (ProcessKey_new scope i, r)} (\<lambda>_ H. H = {})"
    if "pr_resource_reservation_id r = Some rid" for r rid
    unfolding assms(3)
    by (rule owns_await [OF holds_transition [OF refl assms(2)]]) (use that settled in simp)
  have "balanced_task (try_await (take_owned_reservation (memory_managed D C usage) scope i q) (\<lambda>rid.
      await transition (managed_settled (memory_managed D C usage) settle scope i rid)))" for q
    unfolding try_await_def
  proof (rule owns_await [OF holds_take [OF refl]])
    fix res :: "'a ProcessError + ResourceReservationId" and H :: "(ResourceReservationId + ProcessKey \<times> 'a ProcessRecord) set"
    assume "case res of Inl _ \<Rightarrow> H = {}
      | Inr rid \<Rightarrow> \<exists>r. pr_resource_reservation_id r = Some rid \<and> H = {Inl rid, Inr (ProcessKey_new scope i, r)}"
    then show "holds (case res of Inl e \<Rightarrow> Ready (Inl e)
      | Inr rid \<Rightarrow> await transition (managed_settled (memory_managed D C usage) settle scope i rid)) H (\<lambda>_ H. H = {})"
      using moved by (cases res) (simp, simp, blast)
  qed
  then show ?thesis
    unfolding managed_finish_def
    by (intro balanced_try) (auto simp: memory_managed_def balanced_get split: option.splits)
qed

lemma balanced_managed:
  assumes "validate_usage D usage = Ok ()"
  shows "balanced_task (managed_complete (memory_managed D C usage) scope i)"
    and "balanced_task (managed_fail (memory_managed D C usage) scope i ekind)"
    and "balanced_task (managed_kill (memory_managed D C usage) scope i)"
proof -
  have inner: "ms_inner (memory_managed D C usage) = memory_store" by (simp add: memory_managed_def)
  show "balanced_task (managed_complete (memory_managed D C usage) scope i)"
    unfolding managed_complete_def inner
    by (rule balanced_managed_finish [OF holds_reconcile [OF assms], of PsCompleted])
       (simp_all add: memory_store_def process_complete_def)
  show "balanced_task (managed_fail (memory_managed D C usage) scope i ekind)"
    unfolding managed_fail_def inner
    by (rule balanced_managed_finish [OF holds_release, of PsFailed])
       (simp_all add: memory_store_def process_fail_def)
  show "balanced_task (managed_kill (memory_managed D C usage) scope i)"
    unfolding managed_kill_def inner
    by (rule balanced_managed_finish [OF holds_release, of PsKilled])
       (simp_all add: memory_store_def process_kill_def)
qed

section \<open>The services\<close>

text \<open>
  The contract of a store whose operations neither keep nor lose anything, and what the services
  built on such a store inherit.
\<close>

text \<open>The calls a client makes; a background task may run for any process at any time.\<close>

datatype ('d, 'v) ProcessCall =
    CallSpawn "('d, 'v) ProcessStart"
  | CallBackground ResourceScope ProcessId "('d, 'v) ProcessExecutionRequest"
  | CallKill ResourceScope ProcessId
  | CallStatus ResourceScope ProcessId
  | CallAwaitResult ResourceScope ProcessId nat
  | CallAwaitProcess ResourceScope ProcessId nat

primrec run_call ::
  "('d, 'v, ('d, 'v) process_world) ProcessStore
     \<Rightarrow> (('d, 'v) ProcessExecutionRequest \<Rightarrow> (('d, 'v) process_world, 'v Execution) async)
     \<Rightarrow> ('d, 'v) ProcessCall \<Rightarrow> (('d, 'v) process_world, unit) async" where
  "run_call store executor (CallSpawn start) = await (background_spawn (background_manager store executor) start) (\<lambda>_. Ready ())"
| "run_call store executor (CallBackground scope i request) = background_task (background_manager store executor) scope i request"
| "run_call store executor (CallKill scope i) = await (host_kill (services_host store) scope i) (\<lambda>_. Ready ())"
| "run_call store executor (CallStatus scope i) = await (host_status (services_host store) scope i) (\<lambda>_. Ready ())"
| "run_call store executor (CallAwaitResult scope i rounds) =
    await (await_result (services_host store) scope i False rounds) (\<lambda>_. Ready ())"
| "run_call store executor (CallAwaitProcess scope i rounds) =
    await (await_process (services_host store) scope i rounds) (\<lambda>_. Ready ())"

lemma balanced_results [simp]:
  "balanced_task (rs_complete memory_result_store scope i v)" "balanced_task (rs_fail memory_result_store scope i k)"
  "balanced_task (rs_kill memory_result_store scope i)" "balanced_task (rs_get memory_result_store scope i)"
  by (simp_all add: memory_result_store_def save_result_def memory_result_get_def store_result_def Let_def)
     (rule holds_same_call, simp add: same_ledgers_def)+

lemma balanced_registry [simp]:
  "balanced_task (call (cr_register memory_registry scope i))" "balanced_task (call (cr_cancel memory_registry scope i))"
  "balanced_task (call (cr_unregister memory_registry scope i))"
  by (rule holds_same_call, simp add: same_ledgers_def memory_registry_def split: prod.splits)+

locale balanced_store =
  fixes store :: "('d, 'v, ('d, 'v) process_world) ProcessStore"
  assumes start_kept: "balanced_task (ps_start store start)"
    and complete_kept: "balanced_task (ps_complete store scope i)"
    and fail_kept: "balanced_task (ps_fail store scope i ekind)"
    and kill_kept: "balanced_task (ps_kill store scope i)"
    and get_kept: "balanced_task (ps_get store scope i)"
begin

lemmas kept = start_kept complete_kept fail_kept kill_kept get_kept

lemma balanced_background:
  assumes "\<And>request. guarantees same_ledgers (executor request)"
  shows "balanced_task (background_task (background_manager store executor) scope i request)"
proof -
  have report: "background_report (background_manager store executor) scope i stage e = Ready ()" for stage e
    by (simp add: background_report_def background_manager_def)
  have store: "bm_store (background_manager store executor) = store"
    "bm_result_store (background_manager store executor) = Some memory_result_store"
    "bm_executor (background_manager store executor) = executor"
    "bm_cancellation_registry (background_manager store executor) = Some memory_registry"
    by (simp_all add: background_manager_def)
  note exec = guarantees_same_holds [OF assms, where H = "{}"]
  show ?thesis
    unfolding background_task_def still_running_def finish_completed_def finish_failed_def persist_result_def promote_def
      background_unregister_def store option.case report
    by (intro balanced_await)
       (auto intro!: balanced_await kept exec split: sum.splits option.splits Execution.splits)
qed

lemma balanced_spawn:
  shows "balanced_task (background_spawn (background_manager store executor) start)"
  unfolding background_spawn_def
  by (intro balanced_try balanced_await)
     (auto simp: background_manager_def intro!: balanced_await kept)

lemma balanced_kill:
  shows "balanced_task (host_kill (services_host store) scope i)"
proof -
  have side: "balanced_task (record_kill_side_effects (services_host store) r)" for r
    unfolding record_kill_side_effects_def services_host_def
    by (simp add: await_assoc) (intro balanced_await balanced_try, simp_all)
  show ?thesis
    unfolding host_kill_def
    by (intro balanced_await)
       (auto simp: services_host_def kept intro!: balanced_await balanced_try side [unfolded services_host_def]
         split: sum.splits ProcessError.splits option.splits)
qed

lemma balanced_polls:
  shows "balanced_task (await_result (services_host store) scope i seen rounds)"
    and "balanced_task (await_process (services_host store) scope i rounds)"
  by (induction rounds arbitrary: seen)
     (auto simp: services_host_def host_result_def host_result_store_def kept
       intro!: balanced_await split: sum.splits option.splits)

lemma balanced_call:
  assumes "\<And>request. guarantees same_ledgers (executor request)"
  shows "balanced_task (run_call store executor c)"
proof -
  have "balanced_task (host_status (services_host store) scope i)" for scope i
    by (simp add: host_status_def services_host_def kept)
  then show ?thesis
    by (cases c) (auto intro!: balanced_await balanced_spawn balanced_kill balanced_polls balanced_background assms)
qed

end

lemma balanced_stack:
  assumes "validate_usage D usage = Ok ()"
  shows "balanced_store (process_stack D C usage)"
proof -
  define es :: "('a, 'b, ('a, 'b) process_world) EventingProcessStore" where
    "es = \<lparr>es_inner = managed_store (memory_managed D C usage),
      es_stamp = (\<lambda>w. (pw_random w, pw_clock w)), es_emit = (\<lambda>e w. (Ok (), w\<lparr>pw_events := pw_events w @ [e]\<rparr>))\<rparr>"
  have emit: "balanced_task (await (emit_best_effort es e) (\<lambda>_. Ready (Inr r)))" for e r
    unfolding emit_best_effort_def
    by (intro balanced_await) (auto intro!: holds_same_call simp: same_ledgers_def es_def)
  have inner: "es_inner es = managed_store (memory_managed D C usage)" by (simp add: es_def)
  have "balanced_store (eventing_store es)"
    unfolding balanced_store_def eventing_store_def ProcessStore.select_convs
      eventing_start_def eventing_complete_def eventing_fail_def eventing_kill_def inner
    unfolding managed_store_def ProcessStore.select_convs
    by (intro conjI allI balanced_try emit balanced_managed [OF assms] balanced_managed_start)
       (simp add: memory_managed_def balanced_get)
  then show ?thesis by (simp add: process_stack_def es_def)
qed

text \<open>The store with the default completion usage, which is no usage at all.\<close>

definition no_usage :: "'d decimal_ops \<Rightarrow> 'd ResourceUsage" where
  "no_usage D = \<lparr>use_usd = dec_zero D, use_input_tokens = 0, use_output_tokens = 0, use_wall_clock_ms = 0,
     use_output_bytes = 0, use_network_egress_bytes = 0, use_process_count = 0\<rparr>"

interpretation default_stack: balanced_store "process_stack D C (no_usage D)"
  by (rule balanced_stack) (simp add: validate_usage_def no_usage_def)

text \<open>
  C17: reservations follow processes. However the spawns, background tasks, kills and polls of the
  services are interleaved, once they have all finished every active reservation of the governor
  belongs to the running process it is filed under, and every running process has an active
  reservation. Nothing leaks when a start is refused, when a kill meets a completion, or when two
  kills race. The executor and the rest of the system only have to leave the ledgers alone, and the
  configured completion usage has to be valid.
\<close>

theorem reservations_follow_processes:
  assumes "validate_usage D usage = Ok ()"
    and "\<And>request. guarantees same_ledgers (executor request)"
    and "\<And>w w'. others w w' \<Longrightarrow> same_ledgers w w'"
    and "ledgers_ok w" and "unfiled w = {}"
    and "(system_step others)\<^sup>*\<^sup>* (w, map (run_call (process_stack D C usage) executor) calls) (w', tasks)"
    and "list_all is_ready tasks"
  shows "(active_reservation w' rid \<longleftrightarrow>
       (\<exists>k r. hm_get (pw_owned w') k = Some rid \<and> running w' k r \<and> pr_resource_reservation_id r = Some rid))
    \<and> (running w' key proc \<longrightarrow>
         (\<exists>rid. pr_resource_reservation_id proc = Some rid \<and> hm_get (pw_owned w') key = Some rid \<and> active_reservation w' rid))"
proof -
  have "shares ledgers_ok unfiled (unfiled w) (w, map (run_call (process_stack D C usage) executor) calls)"
    by (rule shares_init) (use assms(4) balanced_store.balanced_call [OF balanced_stack [OF assms(1)] assms(2)] in auto)
  then have "shares ledgers_ok unfiled {} (w', tasks)"
    using shares_run [OF assms(6), of ledgers_ok unfiled] same_ledgers_frame(1,2) [OF assms(3)] assms(5) by simp
  then have ok: "ledgers_ok w'" and empty: "unfiled w' = {}"
    using shares_finished [of ledgers_ok unfiled "{}" w' tasks] assms(7) by (auto simp: list_all_iff is_ready_iff)
  have filed: "active_reservation w' rid \<Longrightarrow> rid \<in> ran (hm_get (pw_owned w'))"
    and owner: "running w' key proc \<Longrightarrow> hm_get (pw_owned w') key \<noteq> None"
    using empty unfiled_iff(1) [of rid w'] unfiled_iff(2) [of key proc w'] by auto
  have "active_reservation w' rid \<longleftrightarrow> (\<exists>k r. hm_get (pw_owned w') k = Some rid \<and> running w' k r \<and> pr_resource_reservation_id r = Some rid)"
    using filed ledgers_okD(1,2) [OF ok] unfolding ran_def by blast
  moreover have "\<exists>rid. pr_resource_reservation_id proc = Some rid \<and> hm_get (pw_owned w') key = Some rid \<and> active_reservation w' rid"
    if run: "running w' key proc"
  proof -
    from owner [OF run] obtain rid where o: "hm_get (pw_owned w') key = Some rid" by blast
    with ledgers_okD(1,2) [OF ok o] run show ?thesis by (auto simp: running_def)
  qed
  ultimately show ?thesis by blast
qed

definition no_processes :: "(int, string) process_world" where
  "no_processes =
    \<lparr>pw_records = [], pw_results = [], pw_cancellation = \<lparr>flags = [], tokens = []\<rparr>, pw_owned = [],
     pw_governor = \<lparr>mem_state = ResourceState_default, mem_events = []\<rparr>, pw_events = [],
     pw_clock = noon, pw_random = 7\<rparr>"

definition shell_start :: "(int, string) ProcessStart" where
  "shell_start =
    \<lparr>st_process_id = 1, st_parent_process_id = None, st_invocation_id = 5, st_scope = example_scope,
     st_authenticated_actor_user_id = None, st_extension_id = ''shell'', st_capability_id = ''shell.run'',
     st_runtime = Script, st_grants = \<lparr>set_grants = []\<rparr>, st_mounts = \<lparr>mounts = []\<rparr>,
     st_estimated_resources = example_estimate 300, st_resource_reservation_id = None, st_input = ''ls''\<rparr>"

definition at_once :: "(int, string) ProcessExecutionRequest \<Rightarrow> ((int, string) process_world, string Execution) async" where
  "at_once request = Ready (Executed (xr_input request))"

text \<open>A spawn and then a kill of the same process.\<close>

definition spawn_then_kill :: "(int, string) ProcessCall \<Rightarrow> (int, string) ProcessCall \<Rightarrow> (int, string) process_world" where
  "spawn_then_kill spawn kill =
    snd (finish (run_call (process_stack cents utc (example_usage 0)) at_once kill)
      (snd (finish (run_call (process_stack cents utc (example_usage 0)) at_once spawn) no_processes)))"

lemma spawn_then_kill_runs:
  "\<exists>r r'. (system_step others)\<^sup>*\<^sup>*
     (no_processes, map (run_call (process_stack cents utc (example_usage 0)) at_once) [spawn, kill])
     (spawn_then_kill spawn kill, [Ready r, Ready r'])"
proof -
  let ?p = "run_call (process_stack cents utc (example_usage 0)) at_once spawn"
  let ?q = "run_call (process_stack cents utc (example_usage 0)) at_once kill"
  have "(system_step others)\<^sup>*\<^sup>* (no_processes, [?p, ?q]) (snd (finish ?p no_processes), [Ready (fst (finish ?p no_processes)), ?q])"
    using finish_reaches [of 0 "[?p, ?q]" ?p others no_processes] by simp
  also have "(system_step others)\<^sup>*\<^sup>* \<dots> (spawn_then_kill spawn kill, [Ready (fst (finish ?p no_processes)),
      Ready (fst (finish ?q (snd (finish ?p no_processes))))])"
    using finish_reaches [of 1 "[Ready (fst (finish ?p no_processes)), ?q]" ?q others "snd (finish ?p no_processes)"]
    by (simp add: spawn_then_kill_def)
  finally show ?thesis by auto
qed

lemma no_processes_ok: "ledgers_ok no_processes" "unfiled no_processes = {}"
  by (auto simp: ledgers_ok_def unfiled_def no_processes_def active_reservation_def running_def ResourceState_default_def)

lemma reservations_follow_processes_witness:
  "active_reservation (spawn_then_kill (CallSpawn shell_start) (CallKill example_scope 1)) 7 \<longleftrightarrow>
     (\<exists>k r. hm_get (pw_owned (spawn_then_kill (CallSpawn shell_start) (CallKill example_scope 1))) k = Some 7
       \<and> running (spawn_then_kill (CallSpawn shell_start) (CallKill example_scope 1)) k r
       \<and> pr_resource_reservation_id r = Some 7)"
proof -
  obtain r r' where "(system_step (\<lambda>_ _. False))\<^sup>*\<^sup>*
     (no_processes, map (run_call (process_stack cents utc (example_usage 0)) at_once) [CallSpawn shell_start, CallKill example_scope 1])
     (spawn_then_kill (CallSpawn shell_start) (CallKill example_scope 1), [Ready r, Ready r'])"
    using spawn_then_kill_runs by blast
  moreover have "validate_usage cents (example_usage 0) = Ok ()" by code_simp
  ultimately show ?thesis
    using reservations_follow_processes [of cents "example_usage 0" at_once "\<lambda>_ _. False" no_processes utc
        "[CallSpawn shell_start, CallKill example_scope 1]" _ "[Ready r, Ready r']" 7]
    by (simp add: no_processes_ok at_once_def)
qed

section \<open>Lifecycles\<close>

definition has_result :: "ProcessKey \<Rightarrow> ('d, 'v) process_world \<Rightarrow> bool" where
  "has_result k w = (hm_get (pw_results w) k \<noteq> None)"

definition finished :: "('d, 'v) process_world \<Rightarrow> ProcessKey \<Rightarrow> bool" where
  "finished w k = (\<exists>r. hm_get (pw_records w) k = Some r \<and> (pr_status r = PsCompleted \<or> pr_status r = PsFailed))"

text \<open>
  What every access keeps: terminal records, stored results, and that no process is finished
  without a result.
\<close>

definition lifecycle_step :: "('d, 'v) process_world \<Rightarrow> ('d, 'v) process_world \<Rightarrow> bool" where
  "lifecycle_step w w' =
    ((\<forall>k r. hm_get (pw_records w) k = Some r \<longrightarrow> process_is_terminal (pr_status r) \<longrightarrow> hm_get (pw_records w') k = Some r)
     \<and> (\<forall>k. has_result k w \<longrightarrow> has_result k w')
     \<and> ((\<forall>k. finished w k \<longrightarrow> has_result k w) \<longrightarrow> (\<forall>k. finished w' k \<longrightarrow> has_result k w')))"

lemma lifecycle_same:
  assumes "pw_records w' = pw_records w" and "\<And>k. has_result k w \<Longrightarrow> has_result k w'"
  shows "lifecycle_step w w'"
  using assms by (simp add: lifecycle_step_def finished_def)

lemma lifecycle_insert:
  assumes "hm_get (pw_records w) k = old" and "old = None \<or> \<not> process_is_terminal (pr_status (the old))"
    and "pr_status r = PsCompleted \<or> pr_status r = PsFailed \<Longrightarrow> has_result k w"
  shows "lifecycle_step w (w\<lparr>pw_records := hm_insert k r (pw_records w)\<rparr>)"
proof -
  let ?w = "w\<lparr>pw_records := hm_insert k r (pw_records w)\<rparr>"
  have res: "has_result k' ?w = has_result k' w" for k' by (simp add: has_result_def)
  have fin: "finished ?w k' \<longleftrightarrow> (if k' = k then pr_status r = PsCompleted \<or> pr_status r = PsFailed else finished w k')" for k'
    by (simp add: finished_def hm_simps)
  have keep: "hm_get (pw_records ?w) k' = Some r'"
    if "hm_get (pw_records w) k' = Some r'" "process_is_terminal (pr_status r')" for k' r'
    using that assms(1,2) by (auto simp: hm_simps)
  have "finished ?w k' \<Longrightarrow> has_result k' ?w" if "\<And>k. finished w k \<Longrightarrow> has_result k w" for k'
    using that assms(3) unfolding res fin by (simp split: if_splits)
  with keep res show ?thesis unfolding lifecycle_step_def by blast
qed

lemma lifecycle_start: "lifecycle_step w (snd (on_records (process_start start) w))"
proof (cases "hm_contains (pw_records w) (ProcessKey_new (pr_scope (running_record start)) (pr_process_id (running_record start)))")
  case True
  then show ?thesis by (simp add: on_records_def process_start_def Let_def lifecycle_same)
next
  case False
  then have "hm_get (pw_records w) (ProcessKey_new (pr_scope (running_record start)) (pr_process_id (running_record start))) = None"
    by (simp add: hm_contains_def)
  with False show ?thesis
    by (simp add: on_records_def process_start_def Let_def) (rule lifecycle_insert, auto simp: running_record_def)
qed

lemma lifecycle_update:
  assumes "to = PsKilled \<or> has_result (ProcessKey_new scope i) w" and "to \<noteq> PsRunning"
  shows "lifecycle_step w (snd (on_records (update_status scope i to ekind) w))"
proof (cases "hm_get (pw_records w) (ProcessKey_new scope i)")
  case None
  then show ?thesis by (simp add: on_records_def update_status_def lifecycle_same)
next
  case (Some r)
  show ?thesis
  proof (cases "pr_status r = PsRunning")
    case True
    with Some show ?thesis
      by (simp add: on_records_def update_status_def ensure_status_transition_def Let_def)
         (rule lifecycle_insert [OF Some], use assms in \<open>auto simp: process_is_terminal_def\<close>)
  next
    case False
    with Some show ?thesis
      by (simp add: on_records_def update_status_def ensure_status_transition_def lifecycle_same)
  qed
qed

abbreviation preserves :: "(('d, 'v) process_world \<Rightarrow> bool) \<Rightarrow> (('d, 'v) process_world, 'r) async \<Rightarrow> bool" where
  "preserves \<equiv> keeps lifecycle_step"

lemma stable_has_result [simp]: "stable lifecycle_step (has_result k)"
  unfolding stable_def lifecycle_step_def by blast

lemma memory_managed_select [simp]:
  "ms_inner (memory_managed D C usage) = memory_store" "ms_governor (memory_managed D C usage) = memory_governor D C"
  by (simp_all add: memory_managed_def)

lemma preserves_same:
  assumes "stable lifecycle_step P" and "\<And>w. pw_records (snd (op w)) = pw_records w"
    and "\<And>w k. has_result k w \<Longrightarrow> has_result k (snd (op w))"
  shows "preserves P (call op)"
  by (rule keeps_call [OF lifecycle_same assms(1)]) (use assms in auto)

lemma preserves_managed_parts:
  assumes "stable lifecycle_step P"
  shows "preserves P (record_owned_reservation (memory_managed D C usage) scope i rid)"
    and "preserves P (take_owned_reservation (memory_managed D C usage) scope i q)"
    and "preserves P (release_reservation (memory_managed D C usage) rid)"
    and "preserves P (reconcile_reservation (memory_managed D C usage) rid)"
    and "preserves P (call (gp_reserve (memory_governor D C) scope est))"
proof -
  show r: "preserves P (record_owned_reservation (memory_managed D C usage) scope i rid)" for rid
    unfolding record_owned_reservation_def
    by (rule preserves_same [OF assms]) (simp_all add: memory_managed_def has_result_def)
  show "preserves P (take_owned_reservation (memory_managed D C usage) scope i q)"
    unfolding take_owned_reservation_def
    by (intro keeps_await preserves_same [OF assms])
       (auto simp: memory_managed_def has_result_def split: option.splits intro!: keeps_await r [unfolded memory_managed_def])
  show "preserves P (release_reservation (memory_managed D C usage) rid)"
    unfolding release_reservation_def
    by (intro keeps_try preserves_same [OF assms])
       (auto simp: memory_managed_def memory_governor_def has_result_def split: prod.splits)
  show "preserves P (reconcile_reservation (memory_managed D C usage) rid)"
    unfolding reconcile_reservation_def
    by (intro keeps_try preserves_same [OF assms])
       (auto simp: memory_managed_def memory_governor_def has_result_def split: prod.splits)
  show "preserves P (call (gp_reserve (memory_governor D C) scope est))"
    by (rule preserves_same [OF assms]) (auto simp: memory_governor_def has_result_def split: prod.splits)
qed

lemma preserves_get:
  assumes "stable lifecycle_step P"
  shows "preserves P (ps_get memory_store scope i)"
  unfolding memory_store_def ProcessStore.select_convs
  by (rule preserves_same [OF assms]) (simp_all add: has_result_def)

lemma preserves_managed_finish:
  assumes "stable lifecycle_step P" and "preserves P transition" and "\<And>rid. preserves P (settle rid)"
  shows "preserves P (managed_finish (memory_managed D C usage) transition settle scope i)"
proof -
  note parts = preserves_managed_parts [OF assms(1)]
  have "preserves P (managed_settled (memory_managed D C usage) settle scope i rid res)" for rid res
    unfolding managed_settled_def after_error_def
    by (cases res) (auto intro!: keeps_await parts(1) assms(3) split: sum.splits)
  then have "preserves P (try_await (take_owned_reservation (memory_managed D C usage) scope i q)
      (\<lambda>rid. await transition (managed_settled (memory_managed D C usage) settle scope i rid)))" for q
    by (intro keeps_try keeps_await parts(2) assms(2))
  then show ?thesis
    unfolding managed_finish_def by (intro keeps_try) (simp_all add: preserves_get [OF assms(1)] split: option.splits)
qed

lemma preserves_managed_start:
  assumes "stable lifecycle_step P"
  shows "preserves P (managed_start (memory_managed D C usage) start)"
proof -
  note parts = preserves_managed_parts [OF assms]
  have "preserves P (managed_started (memory_managed D C usage) rid res)" for rid res
    unfolding managed_started_def release_reservation_after_error_def after_error_def
    by (cases res) (auto intro!: keeps_await parts(1,3) split: sum.splits)
  moreover have "preserves P (ps_start memory_store start')" for start'
    unfolding memory_store_def ProcessStore.select_convs by (rule keeps_call [OF lifecycle_start assms])
  ultimately show ?thesis
    unfolding managed_start_def memory_managed_select
    by (auto split: option.splits sum.splits intro!: keeps_await parts(5))
qed

text \<open>What the executor and the rest of the system may do: nothing to the ledgers or the results.\<close>

definition outside_step :: "('d, 'v) process_world \<Rightarrow> ('d, 'v) process_world \<Rightarrow> bool" where
  "outside_step w w' = (same_ledgers w w' \<and> pw_results w' = pw_results w)"

lemma outside_lifecycle: "outside_step w w' \<Longrightarrow> lifecycle_step w w'"
  by (auto simp: outside_step_def same_ledgers_def has_result_def intro: lifecycle_same)

lemma guarantees_weaken: "guarantees R p \<Longrightarrow> (\<And>w w'. R w w' \<Longrightarrow> R' w w') \<Longrightarrow> guarantees R' p"
  by (induction p) auto

lemma preserves_results:
  assumes "stable lifecycle_step P"
  shows "preserves P (rs_get memory_result_store scope i)" and "preserves P (rs_kill memory_result_store scope i)"
  unfolding memory_result_store_def ProcessResultStore.select_convs memory_result_get_def save_result_def
  by (rule preserves_same [OF assms]; simp add: has_result_def store_result_def Let_def hm_simps)+

lemma result_known:
  "ensures lifecycle_step (save_result scope i status output ekind) (\<lambda>_. True) (\<lambda>_. has_result (ProcessKey_new scope i))"
  unfolding save_result_def
  by (rule ensures_call)
     (auto simp: store_result_def Let_def has_result_def hm_simps intro!: lifecycle_same)

lemma preserves_registry:
  assumes "stable lifecycle_step P"
  shows "preserves P (call (cr_register memory_registry scope i))" and "preserves P (call (cr_cancel memory_registry scope i))"
    and "preserves P (call (cr_unregister memory_registry scope i))"
  by (rule preserves_same [OF assms]; simp add: memory_registry_def has_result_def split: prod.splits)+

lemma lifecycle_steps: "lifecycle_step\<^sup>*\<^sup>* w w' \<Longrightarrow> lifecycle_step w w'"
proof (induction rule: rtranclp_induct)
  case base
  show ?case by (simp add: lifecycle_same)
next
  case (step v v')
  then show ?case unfolding lifecycle_step_def by blast
qed

text \<open>
  The contract of a process store. A completion or a failure is only kept by callers that know the
  result to be stored; a start, a kill and a lookup are kept under anything.
\<close>

locale lifecycle_store =
  fixes store :: "('d, 'v, ('d, 'v) process_world) ProcessStore"
  assumes start_lifecycle: "preserves (\<lambda>_. True) (ps_start store start)"
    and complete_lifecycle: "preserves (has_result (ProcessKey_new scope i)) (ps_complete store scope i)"
    and fail_lifecycle: "preserves (has_result (ProcessKey_new scope i)) (ps_fail store scope i ekind)"
    and kill_lifecycle: "preserves (\<lambda>_. True) (ps_kill store scope i)"
    and get_lifecycle: "preserves (\<lambda>_. True) (ps_get store scope i)"
begin

lemmas lifecycle = start_lifecycle complete_lifecycle fail_lifecycle kill_lifecycle get_lifecycle

lemma preserves_background:
  assumes "\<And>request. guarantees outside_step (executor request)"
  shows "preserves (\<lambda>_. True) (background_task (background_manager store executor) scope i request)"
proof -
  let ?m = "background_manager store executor"
  let ?k = "ProcessKey_new scope i"
  have report: "background_report ?m scope i stage e = Ready ()" for stage e
    by (simp add: background_report_def background_manager_def)
  have m: "bm_store ?m = store" "bm_result_store ?m = Some memory_result_store"
    "bm_executor ?m = executor" "bm_cancellation_registry ?m = Some memory_registry"
    by (simp_all add: background_manager_def)
  have exec: "preserves (\<lambda>_. True) (executor request)"
    by (rule keeps_guarantees [OF guarantees_weaken [OF assms outside_lifecycle]]) simp_all
  have persist: "ensures lifecycle_step (persist_result ?m scope i stage save) (\<lambda>_. True) (\<lambda>_. has_result ?k)"
    if "save memory_result_store = save_result scope i status out ekind" for stage save status out ekind
    unfolding persist_result_def m option.case report that
    by (rule ensures_await [OF result_known]) (auto split: sum.splits)
  have promoted: "preserves (has_result ?k) (promote ?m scope i stage transition)"
    if "preserves (has_result ?k) transition" for stage transition
    unfolding promote_def report by (intro keeps_await that) (simp split: sum.splits)
  have ended: "ensures lifecycle_step (await (persist_result ?m scope i stage save)
      (\<lambda>ok. if ok then promote ?m scope i stage' transition else Ready ())) (\<lambda>_. True) (\<lambda>_ _. True)"
    if "save memory_result_store = save_result scope i status out ekind" "preserves (has_result ?k) transition"
    for stage stage' save status out ekind transition
    by (rule ensures_await [OF persist [where save = save, OF that(1)]])
       (use promoted [OF that(2)] in \<open>auto simp: keeps_def intro: ensures_post\<close>)
  have "preserves (\<lambda>_. True) (finish_completed ?m scope i out)" for out
    unfolding keeps_def finish_completed_def m
    by (rule ended) (auto simp: memory_result_store_def intro: lifecycle)
  moreover have "preserves (\<lambda>_. True) (finish_failed ?m scope i ekind)" for ekind
    unfolding keeps_def finish_failed_def m
    by (rule ended) (auto simp: memory_result_store_def intro: lifecycle)
  moreover have "preserves (\<lambda>_. True) (still_running ?m scope i)"
    unfolding still_running_def m report
    by (intro keeps_await lifecycle) (auto split: sum.splits option.splits)
  moreover have "preserves (\<lambda>_. True) (background_unregister ?m scope i)"
    by (simp add: background_unregister_def m preserves_registry)
  ultimately show ?thesis
    unfolding background_task_def m
    by (intro keeps_await exec) (auto split: Execution.splits)
qed

lemma preserves_spawn:
  shows "preserves (\<lambda>_. True) (background_spawn (background_manager store executor) start)"
  unfolding background_spawn_def
  by (intro keeps_try keeps_await)
     (auto simp: background_manager_def intro!: keeps_await lifecycle preserves_registry)

lemma preserves_kill:
  shows "preserves (\<lambda>_. True) (host_kill (services_host store) scope i)"
proof -
  have side: "preserves (\<lambda>_. True) (record_kill_side_effects (services_host store) r)" for r
    unfolding record_kill_side_effects_def services_host_def
    by (simp add: await_assoc) (intro keeps_await keeps_try, simp_all add: preserves_registry preserves_results)
  show ?thesis
    unfolding host_kill_def
    by (intro keeps_await)
       (auto simp: services_host_def lifecycle intro!: keeps_await keeps_try side [unfolded services_host_def]
         split: sum.splits ProcessError.splits option.splits)
qed

lemma preserves_polls:
  shows "preserves (\<lambda>_. True) (await_result (services_host store) scope i seen rounds)"
    and "preserves (\<lambda>_. True) (await_process (services_host store) scope i rounds)"
  by (induction rounds arbitrary: seen)
     (auto simp: services_host_def host_result_def host_result_store_def lifecycle preserves_results
       intro!: keeps_await split: sum.splits option.splits)

lemma preserves_call:
  assumes "\<And>request. guarantees outside_step (executor request)"
  shows "preserves (\<lambda>_. True) (run_call store executor c)"
proof -
  have "preserves (\<lambda>_. True) (host_status (services_host store) scope i)" for scope i
    by (simp add: host_status_def services_host_def lifecycle)
  then show ?thesis
    by (cases c) (auto intro!: keeps_await preserves_spawn preserves_kill preserves_polls preserves_background assms)
qed

lemma lifecycle_run:
  assumes "\<And>request. guarantees outside_step (executor request)"
    and "\<And>w w'. others w w' \<Longrightarrow> outside_step w w'"
    and "(system_step others)\<^sup>*\<^sup>* (w, map (run_call store executor) calls) (w', tasks)"
  shows "lifecycle_step\<^sup>*\<^sup>* w w'"
proof -
  have "\<exists>P. stable lifecycle_step P \<and> P w \<and> ensures lifecycle_step (map (run_call store executor) calls ! i) P (\<lambda>_ _. True)"
    if "i < length calls" for i
    using preserves_call [OF assms(1), where c = "calls ! i"] that by (intro exI [of _ "\<lambda>_. True"]) (simp add: keeps_def)
  with ensures_run [OF assms(3), where R = lifecycle_step and Q = "\<lambda>_ _ _. True"] outside_lifecycle [OF assms(2)]
  show ?thesis by simp
qed

end

lemma preserves_memory:
  "preserves (has_result (ProcessKey_new scope i)) (ps_complete memory_store scope i)"
  "preserves (has_result (ProcessKey_new scope i)) (ps_fail memory_store scope i ekind)"
  "preserves (\<lambda>_. True) (ps_kill memory_store scope i)"
  unfolding memory_store_def ProcessStore.select_convs process_complete_def process_fail_def process_kill_def
  by (rule keeps_call; simp add: lifecycle_update)+

lemma preserves_start: "preserves (\<lambda>_. True) (ps_start memory_store start)"
  unfolding memory_store_def ProcessStore.select_convs by (rule keeps_call) (simp_all add: lifecycle_start)

interpretation memory_lifecycle: lifecycle_store memory_store
  by unfold_locales (simp_all add: preserves_memory preserves_start preserves_get)

interpretation managed_lifecycle: lifecycle_store "managed_store (memory_managed D C usage)"
  unfolding lifecycle_store_def managed_store_def ProcessStore.select_convs managed_complete_def managed_fail_def
    managed_kill_def memory_managed_select
  by (intro conjI allI preserves_managed_finish preserves_managed_start preserves_memory)
     (simp_all add: preserves_managed_parts preserves_get)

lemma lifecycle_stack: "lifecycle_store (process_stack D C usage)"
proof -
  define es :: "('a, 'b, ('a, 'b) process_world) EventingProcessStore" where
    "es = \<lparr>es_inner = managed_store (memory_managed D C usage),
      es_stamp = (\<lambda>w. (pw_random w, pw_clock w)), es_emit = (\<lambda>e w. (Ok (), w\<lparr>pw_events := pw_events w @ [e]\<rparr>))\<rparr>"
  have emit: "preserves P (await (emit_best_effort es e) (\<lambda>_. Ready (Inr r)))" if "stable lifecycle_step P" for e r P
    unfolding emit_best_effort_def
    by (intro keeps_await preserves_same [OF that]) (auto simp: es_def has_result_def)
  have inner: "es_inner es = managed_store (memory_managed D C usage)" by (simp add: es_def)
  have "lifecycle_store (eventing_store es)"
    unfolding lifecycle_store_def eventing_store_def ProcessStore.select_convs
      eventing_start_def eventing_complete_def eventing_fail_def eventing_kill_def inner
    by (intro conjI allI keeps_try emit managed_lifecycle.lifecycle) simp_all
  then show ?thesis by (simp add: process_stack_def es_def)
qed

interpretation stack_lifecycle: lifecycle_store "process_stack D C usage"
  by (rule lifecycle_stack)

text \<open>
  C18: a process lives once. Whatever is spawned, executed, killed and polled at the same time, a
  record that has reached a terminal status never changes again, and if every completed or failed
  process had its result stored before, every completed or failed process has it afterwards.
\<close>

theorem process_lifecycle:
  assumes "\<And>request. guarantees outside_step (executor request)"
    and "\<And>w w'. others w w' \<Longrightarrow> outside_step w w'"
    and "(system_step others)\<^sup>*\<^sup>* (w, map (run_call (process_stack D C usage) executor) calls) (w', tasks)"
  shows "(hm_get (pw_records w) k = Some r \<longrightarrow> process_is_terminal (pr_status r) \<longrightarrow> hm_get (pw_records w') k = Some r)
    \<and> ((\<forall>k. finished w k \<longrightarrow> has_result k w) \<longrightarrow> finished w' k \<longrightarrow> has_result k w')"
proof -
  have "lifecycle_step w w'"
    by (rule lifecycle_steps [OF stack_lifecycle.lifecycle_run [OF assms]])
  then show ?thesis unfolding lifecycle_step_def by blast
qed

definition one_process :: "(int, string) process_world" where
  "one_process =
    \<lparr>pw_records = [(ProcessKey_new example_scope 1, running_record shell_start)], pw_results = [],
     pw_cancellation = \<lparr>flags = [False], tokens = [(ProcessKey_new example_scope 1, 0)]\<rparr>, pw_owned = [],
     pw_governor = \<lparr>mem_state = ResourceState_default, mem_events = []\<rparr>, pw_events = [],
     pw_clock = noon, pw_random = 7\<rparr>"

text \<open>A process that completed and stored its result, and then a kill that comes too late.\<close>

definition completed_process :: "(int, string) process_world" where
  "completed_process =
    one_process\<lparr>pw_records := [(ProcessKey_new example_scope 1, (running_record shell_start)\<lparr>pr_status := PsCompleted\<rparr>)],
      pw_results := [(ProcessKey_new example_scope 1, \<lparr>prr_process_id = 1, prr_scope = example_scope,
        prr_status = PsCompleted, prr_output = Some [], prr_output_ref = None, prr_error_kind = None\<rparr>)]\<rparr>"

definition killed_late :: "(int, string) process_world" where
  "killed_late =
    snd (finish (run_call (process_stack cents utc (example_usage 0)) at_once (CallKill example_scope 1)) completed_process)"

lemma completed_process_facts:
  "hm_get (pw_records completed_process) k =
     (if k = ProcessKey_new example_scope 1 then Some ((running_record shell_start)\<lparr>pr_status := PsCompleted\<rparr>) else None)"
  "has_result (ProcessKey_new example_scope 1) completed_process"
  by (simp_all add: completed_process_def hm_get_def has_result_def)

lemma process_lifecycle_witness:
  "finished killed_late (ProcessKey_new example_scope 1) \<and> has_result (ProcessKey_new example_scope 1) killed_late"
proof -
  let ?p = "run_call (process_stack cents utc (example_usage 0)) at_once (CallKill example_scope 1)"
  let ?r = "(running_record shell_start)\<lparr>pr_status := PsCompleted\<rparr>"
  have run: "(system_step (\<lambda>_ _. False))\<^sup>*\<^sup>* (completed_process,
      map (run_call (process_stack cents utc (example_usage 0)) at_once) [CallKill example_scope 1])
      (killed_late, [Ready (fst (finish ?p completed_process))])"
    using finish_reaches [of 0 "[?p]" ?p "\<lambda>_ _. False" completed_process] by (simp add: killed_late_def)
  have quiet: "guarantees outside_step (at_once request)" for request by (simp add: at_once_def)
  have initially: "\<forall>k. finished completed_process k \<longrightarrow> has_result k completed_process"
    using completed_process_facts(2) unfolding finished_def completed_process_facts(1)
    by (auto split: if_splits simp del: split_paired_All)
  have "hm_get (pw_records killed_late) (ProcessKey_new example_scope 1) = Some ?r
    \<and> (finished killed_late (ProcessKey_new example_scope 1) \<longrightarrow> has_result (ProcessKey_new example_scope 1) killed_late)"
    using process_lifecycle [OF quiet _ run, where k = "ProcessKey_new example_scope 1" and r = ?r] initially
    by (simp add: completed_process_facts(1) process_is_terminal_def)
  moreover from this have "finished killed_late (ProcessKey_new example_scope 1)" by (simp add: finished_def)
  ultimately show ?thesis by blast
qed

section \<open>Races with a kill\<close>

text \<open>
  a killed process has no result at first. The kill writes the status before the result, so
  between the two accesses the process is terminal and its result is missing; a caller that polls
  twice in between is told that the result is unavailable, although it is stored right after.
\<close>

theorem kill_precedes_result:
  "case run_schedule [0] (one_process, [run_call memory_store at_once (CallKill example_scope 1)]) of
     (w, tasks) \<Rightarrow>
       map_option pr_status (hm_get (pw_records w) (ProcessKey_new example_scope 1)) = Some PsKilled
       \<and> hm_get (pw_results w) (ProcessKey_new example_scope 1) = None
       \<and> answer (drive (await_result (services_host memory_store) example_scope 1 False 2) [w, w, w, w])
           = Some (Some (Err (ProcessResultUnavailable 1)))
       \<and> (case run_schedule [0, 0] (w, tasks) of (w', tasks') \<Rightarrow>
            map_option prr_status (hm_get (pw_results w') (ProcessKey_new example_scope 1)) = Some PsKilled)"
  by code_simp


section \<open>Termination\<close>

lemma within_memory:
  "within (ps_get memory_store scope i) 1" "within (ps_start memory_store start) 1"
  "within (ps_complete memory_store scope i) 1" "within (ps_fail memory_store scope i ekind) 1"
  "within (ps_kill memory_store scope i) 1"
  by (simp_all add: memory_store_def)

lemma within_settle:
  "within (release_reservation (memory_managed D C usage) rid) 1"
  "within (reconcile_reservation (memory_managed D C usage) rid) 1"
  unfolding release_reservation_def reconcile_reservation_def
  by (intro within_try [where n = 1 and m = 0]; simp)+

lemma within_take: "within (take_owned_reservation (memory_managed D C usage) scope i q) 2"
  unfolding take_owned_reservation_def record_owned_reservation_def
  by (rule within_await_le [where n = 1 and m = 1]) (auto split: option.splits intro!: within_await_le [where n = 1 and m = 0])

lemma within_settled:
  assumes "\<And>rid. within (settle rid) 1"
  shows "within (managed_settled (memory_managed D C usage) settle scope i rid res) 1"
  unfolding managed_settled_def after_error_def record_owned_reservation_def
  by (auto split: sum.splits intro!: within_await_le [where n = 1 and m = 0] assms)

lemma within_managed_finish:
  assumes "within transition 1" and "\<And>rid. within (settle rid) 1"
  shows "within (managed_finish (memory_managed D C usage) transition settle scope i) 5"
proof -
  have "within (await transition (managed_settled (memory_managed D C usage) settle scope i rid)) 2" for rid
    by (rule within_await_le [OF assms(1) within_settled [OF assms(2)]]) simp
  then have "within (try_await (take_owned_reservation (memory_managed D C usage) scope i q) (\<lambda>rid.
      await transition (managed_settled (memory_managed D C usage) settle scope i rid))) 4" for q
    by (rule within_try [OF within_take]) simp
  then show ?thesis
    unfolding managed_finish_def memory_managed_select
    by (intro within_try [OF within_memory(1), where m = 4]) (simp_all split: option.splits)
qed

lemma within_managed_start:
  fixes start :: "('d::linorder, 'v) ProcessStart"
  shows "within (managed_start (memory_managed D C usage) start) 3"
proof -
  let ?ms = "memory_managed D C usage :: ('d, 'v, ('d, 'v) process_world) ResourceManagedProcessStore"
  have "within (managed_started ?ms rid res) 1" for rid res
    unfolding managed_started_def release_reservation_after_error_def after_error_def record_owned_reservation_def
    by (auto split: sum.splits intro!: within_await_le [where n = 1 and m = 0] within_settle)
  then have "within (await (ps_start memory_store s) (managed_started ?ms rid)) 2" for s rid
    by (rule within_await_le [OF within_memory(2)]) simp
  then show ?thesis
    unfolding managed_start_def memory_managed_select
    by (auto split: option.splits sum.splits intro!: within_await_le [where n = 1 and m = 2])
qed

lemma within_store:
  fixes store :: "('d::linorder, 'v, ('d, 'v) process_world) ProcessStore"
  assumes "store = process_stack D C usage"
  shows "within (ps_get store scope i) 1" and "within (ps_start store start) 4"
    and "within (ps_complete store scope i) 6" and "within (ps_fail store scope i ekind) 6"
    and "within (ps_kill store scope i) 6"
proof -
  define es :: "('d, 'v, ('d, 'v) process_world) EventingProcessStore" where
    "es = \<lparr>es_inner = managed_store (memory_managed D C usage),
      es_stamp = (\<lambda>w. (pw_random w, pw_clock w)), es_emit = (\<lambda>e w. (Ok (), w\<lparr>pw_events := pw_events w @ [e]\<rparr>))\<rparr>"
  have stack: "store = eventing_store es" by (simp add: assms process_stack_def es_def)
  have inner: "es_inner es = managed_store (memory_managed D C usage)" by (simp add: es_def)
  have emit: "within (await (emit_best_effort es e) (\<lambda>_. Ready (Inr r))) 1" for e and r :: "'d ProcessRecord"
    unfolding emit_best_effort_def await_assoc
    by (rule within_await_le [where n = 1 and m = 0]) simp_all
  note layers = stack eventing_store_def ProcessStore.select_convs eventing_start_def eventing_complete_def
    eventing_fail_def eventing_kill_def inner
  note managed = managed_store_def ProcessStore.select_convs managed_complete_def managed_fail_def managed_kill_def
    memory_managed_select
  show "within (ps_get store scope i) 1"
    unfolding layers unfolding managed by (rule within_memory(1))
  show "within (ps_start store start) 4"
    unfolding layers unfolding managed by (rule within_try [OF within_managed_start emit]) simp
  show "within (ps_complete store scope i) 6"
    unfolding layers unfolding managed
    by (rule within_try [OF within_managed_finish [OF within_memory(3) within_settle(2)] emit]) simp
  show "within (ps_fail store scope i ekind) 6"
    unfolding layers unfolding managed
    by (rule within_try [OF within_managed_finish [OF within_memory(4) within_settle(1)] emit]) simp
  show "within (ps_kill store scope i) 6"
    unfolding layers unfolding managed
    by (rule within_try [OF within_managed_finish [OF within_memory(5) within_settle(1)] emit]) simp
qed

text \<open>A bound on the accesses of a call, for an executor that makes at most \<open>n\<close>.\<close>

fun call_bound :: "nat \<Rightarrow> ('d, 'v) ProcessCall \<Rightarrow> nat" where
  "call_bound n (CallSpawn start) = 5"
| "call_bound n (CallBackground scope i request) = n + 9"
| "call_bound n (CallKill scope i) = 9"
| "call_bound n (CallStatus scope i) = 1"
| "call_bound n (CallAwaitResult scope i rounds) = 2 * rounds"
| "call_bound n (CallAwaitProcess scope i rounds) = rounds"

lemma within_results:
  "within (rs_complete memory_result_store scope i v) 1" "within (rs_fail memory_result_store scope i k) 1"
  "within (rs_get memory_result_store scope i) 1"
  by (simp_all add: memory_result_store_def save_result_def memory_result_get_def)

lemma within_background:
  assumes "store = process_stack D C usage" and "\<And>request. within (executor request) n"
  shows "within (background_task (background_manager store executor) scope i request) (n + 9)"
proof -
  let ?m = "background_manager store executor"
  have report: "background_report ?m scope i stage e = Ready ()" for stage e
    by (simp add: background_report_def background_manager_def)
  have m: "bm_store ?m = store" "bm_result_store ?m = Some memory_result_store"
    "bm_executor ?m = executor" "bm_cancellation_registry ?m = Some memory_registry"
    by (simp_all add: background_manager_def)
  note ops = within_store [OF assms(1)]
  have running: "within (still_running ?m scope i) 1"
    unfolding still_running_def m report
    by (rule within_await_le [OF ops(1), where m = 0]) (simp_all split: sum.splits option.splits)
  have promoted: "within (promote ?m scope i stage transition) 6" if "within transition 6" for stage transition
    unfolding promote_def report by (rule within_await_le [OF that, where m = 0]) (simp_all split: sum.splits)
  have persist: "within (persist_result ?m scope i stage save) 1" if "within (save memory_result_store) 1" for stage save
    unfolding persist_result_def m option.case report
    by (rule within_await_le [OF that, where m = 0]) (simp_all split: sum.splits)
  have "within (finish_completed ?m scope i v) 7" for v
    unfolding finish_completed_def m
    by (rule within_await_le [OF persist [where save = "\<lambda>rs. rs_complete rs scope i v", OF within_results(1)], where m = 6])
       (simp_all add: promoted ops(3))
  moreover have "within (finish_failed ?m scope i k) 7" for k
    unfolding finish_failed_def m
    by (rule within_await_le [OF persist [where save = "\<lambda>rs. rs_fail rs scope i k", OF within_results(2)], where m = 6])
       (simp_all add: promoted ops(4))
  ultimately have tail: "within (if running then
             (case execution of
                Executed v \<Rightarrow> finish_completed ?m scope i v
              | ExecutionError ekind \<Rightarrow> finish_failed ?m scope i (sanitize_error_kind ekind)
              | Panicked \<Rightarrow> finish_failed ?m scope i ''runtime_panic'')
           else Ready ()) 7" for running execution
    by (simp split: Execution.splits)
  have "within (background_unregister ?m scope i) 1"
    by (simp add: background_unregister_def m)
  then have "within (await (if running then
             (case execution of
                Executed v \<Rightarrow> finish_completed ?m scope i v
              | ExecutionError ekind \<Rightarrow> finish_failed ?m scope i (sanitize_error_kind ekind)
              | Panicked \<Rightarrow> finish_failed ?m scope i ''runtime_panic'')
           else Ready ()) (\<lambda>_. background_unregister ?m scope i)) 8" for running execution
    by (rule within_await_le [OF tail]) simp
  then show ?thesis
    unfolding background_task_def m
    by (intro within_await_le [OF assms(2), where m = 9] within_await_le [OF running, where m = 8]) simp_all
qed

lemma within_kill:
  assumes "store = process_stack D C usage"
  shows "within (host_kill (services_host store) scope i) 9"
proof -
  let ?h = "services_host store"
  note ops = within_store [OF assms]
  have h: "ph_store ?h = store" by (simp add: services_host_def)
  have side: "within (record_kill_side_effects ?h r) 2" for r
    unfolding record_kill_side_effects_def services_host_def
    by (simp add: await_assoc memory_result_store_def save_result_def)
       (intro within_await_le [where n = 1 and m = 1] within_try [where n = 1 and m = 0]; simp)
  have "within (try_await (record_kill_side_effects ?h r) (\<lambda>_. Ready x)) 2" for r and x :: "'a ProcessError + 'a ProcessRecord"
    by (rule within_try [OF side, where m = 0]) simp_all
  moreover from this have "within (await (ps_get store scope i) (\<lambda>found. case found of
      Inr (Some r) \<Rightarrow> if pr_status r = PsKilled then try_await (record_kill_side_effects ?h r) (\<lambda>_. Ready (x r)) else Ready e
    | _ \<Rightarrow> Ready e)) 3" for e and x :: "'a ProcessRecord \<Rightarrow> 'a ProcessError + 'a ProcessRecord"
    by (intro within_await_le [OF ops(1), where m = 2]) (auto split: sum.splits option.splits)
  moreover have "within p 2 \<Longrightarrow> within p 3" for p :: "(('a, 'b) process_world, 'a ProcessError + 'a ProcessRecord) async"
    by (erule within_mono) simp
  ultimately show ?thesis
    unfolding host_kill_def h
    by (intro within_await_le [OF ops(5), where m = 3]) (auto split: sum.splits ProcessError.splits)
qed

lemma within_polls:
  fixes store :: "('a::linorder, 'b, ('a, 'b) process_world) ProcessStore"
  assumes "store = process_stack D C usage"
  shows "within (await_result (services_host store) scope i seen rounds) (2 * rounds)"
    and "within (await_process (services_host store) scope i rounds) rounds"
proof -
  note ops = within_store [OF assms]
  have h: "ph_store (services_host store) = store" "ph_result_store (services_host store) \<noteq> None"
    by (simp_all add: services_host_def)
  have r: "host_result (services_host store) scope i = rs_get memory_result_store scope i"
    by (simp add: host_result_def host_result_store_def services_host_def)
  show "within (await_result (services_host store) scope i seen rounds) (2 * rounds)"
  proof (induction rounds arbitrary: seen)
    case (Suc rounds)
    note poll = within_await_le [OF ops(1) [where scope = scope and i = i], where m = "2 * rounds"]
    show ?case
      unfolding await_result.simps r h(1)
    proof (rule within_await_le [OF within_results(3), where m = "1 + 2 * rounds"])
      fix res :: "'a ProcessError + 'b ProcessResultRecord option"
      show "within (case res of Inl e \<Rightarrow> Ready (Some (Err e)) | Inr None \<Rightarrow>
          await (ps_get store scope i) (\<lambda>found. case found of
            Inl e \<Rightarrow> Ready (Some (Err e))
          | Inr None \<Rightarrow> Ready (Some (Err (UnknownProcess i)))
          | Inr (Some p) \<Rightarrow>
              if process_is_terminal (pr_status p) then
                if ph_result_store (services_host store) = None \<or> seen then Ready (Some (Err (ProcessResultUnavailable i)))
                else await_result (services_host store) scope i True rounds
              else await_result (services_host store) scope i False rounds)
        | Inr (Some result) \<Rightarrow> Ready (Some (Ok result))) (1 + 2 * rounds)"
        by (cases res) (auto simp: Suc intro!: poll split: sum.splits option.split)
    qed simp
  qed simp
  show "within (await_process (services_host store) scope i rounds) rounds"
  proof (induction rounds)
    case (Suc rounds)
    show ?case
      unfolding await_process.simps h(1)
      by (rule within_await_le [OF ops(1), where m = rounds]) (simp_all add: Suc split: sum.splits option.splits)
  qed simp
qed

lemma within_run_call:
  assumes "store = process_stack D C usage" and "\<And>request. within (executor request) n"
  shows "within (run_call store executor c) (call_bound n c)"
proof (cases c)
  case (CallSpawn start)
  have "within (background_spawn (background_manager store executor) start) 5"
    unfolding background_spawn_def
    by (rule within_try [where n = 4 and m = 1])
       (simp_all add: background_manager_def within_store [OF assms(1)] await_assoc within_await_le [where n = 1 and m = 0])
  then show ?thesis unfolding CallSpawn run_call.simps call_bound.simps
    by (rule within_await_le [where m = 0]) simp_all
next
  case (CallStatus scope i)
  have "within (host_status (services_host store) scope i) 1"
    unfolding host_status_def services_host_def ProcessHost.select_convs by (rule within_store(1) [OF assms(1)])
  then show ?thesis unfolding CallStatus run_call.simps call_bound.simps
    by (rule within_await_le [where m = 0]) simp_all
qed (auto intro: within_background [OF assms] within_await_le [OF within_kill [OF assms(1)], where m = 0]
      within_await_le [OF within_polls(1) [OF assms(1)], where m = 0] within_await_le [OF within_polls(2) [OF assms(1)], where m = 0])



end
