(* ===== verification/Dispatch_Port.thy ===== *)
theory Dispatch_Port
  imports Host_Api Byte_Text Events
begin

text \<open>
  The dispatch port (\<open>ironclaw_host_api/src/dispatch.rs\<close>): requests, results, and the failure
  categories with their stable names. A JSON value is of type \<open>'v\<close>.
\<close>

record ('d, 'v) CapabilityDispatchRequest =
  dq_capability_id :: CapabilityId
  dq_scope :: ResourceScope
  dq_authenticated_actor_user_id :: "UserId option"
  dq_estimate :: "'d ResourceEstimate"
  dq_mounts :: "MountView option"
  dq_resource_reservation :: "'d ResourceReservation option"
  dq_input :: 'v

record CapabilityDisplayOutputPreview =
  dp_output_summary :: "string option"
  dp_output_preview :: string
  dp_output_kind :: string
  dp_subtitle :: "string option"
  dp_truncated :: bool

record CapabilityDisplayText =
  dt_text :: string
  dt_truncated :: bool

fun last_char_boundary :: "string \<Rightarrow> nat \<Rightarrow> nat" where
  "last_char_boundary s 0 = 0"
| "last_char_boundary s (Suc n) = (if is_char_boundary s (Suc n) then Suc n else last_char_boundary s n)"

definition truncate_capability_display_text :: "string \<Rightarrow> nat \<Rightarrow> CapabilityDisplayText" where
  "truncate_capability_display_text t max_bytes =
    (if length t \<le> max_bytes then \<lparr>dt_text = t, dt_truncated = False\<rparr>
     else \<lparr>dt_text = take (last_char_boundary t max_bytes) t, dt_truncated = True\<rparr>)"

record ('d, 'v) CapabilityDispatchResult =
  dr_capability_id :: CapabilityId
  dr_provider :: ExtensionId
  dr_runtime :: RuntimeKind
  dr_output :: 'v
  dr_display_preview :: "CapabilityDisplayOutputPreview option"
  dr_usage :: "'d ResourceUsage"
  dr_receipt :: "'d ResourceReceipt"

datatype DispatchInputIssueCode = MissingRequired | UnexpectedField | TypeMismatch | InvalidValue

record DispatchInputIssue =
  di_path :: string
  di_code :: DispatchInputIssueCode
  di_expected :: "string option"
  di_received :: "string option"
  di_schema_path :: "string option"

definition DispatchInputIssue_new :: "string \<Rightarrow> DispatchInputIssueCode \<Rightarrow> DispatchInputIssue" where
  "DispatchInputIssue_new path code =
    \<lparr>di_path = path, di_code = code, di_expected = None, di_received = None, di_schema_path = None\<rparr>"

definition issue_expected :: "DispatchInputIssue \<Rightarrow> string \<Rightarrow> DispatchInputIssue" where
  "issue_expected issue expected = issue\<lparr>di_expected := Some expected\<rparr>"

definition issue_received :: "DispatchInputIssue \<Rightarrow> string \<Rightarrow> DispatchInputIssue" where
  "issue_received issue received = issue\<lparr>di_received := Some received\<rparr>"

definition issue_schema_path :: "DispatchInputIssue \<Rightarrow> string \<Rightarrow> DispatchInputIssue" where
  "issue_schema_path issue path = issue\<lparr>di_schema_path := Some path\<rparr>"

datatype DispatchFailureDetail = InvalidInput "DispatchInputIssue list" | Diagnostic string

datatype RuntimeDispatchErrorKind =
    RBackend | RClient | RExecutor | RExitFailure | RExtensionRuntimeMismatch | RFilesystemDenied | RGuest
  | RInputEncode | RInvalidResult | RManifest | RMemory | RMethodMissing | RNetworkDenied | ROperationFailed
  | ROutputDecode | ROutputTooLarge | RPolicyDenied | RResource | RSecretDenied | RUndeclaredCapability
  | RUnsupportedRunner | RUnknown

fun runtime_kind_as_str :: "RuntimeDispatchErrorKind \<Rightarrow> string" where
  "runtime_kind_as_str RBackend = ''Backend''"
| "runtime_kind_as_str RClient = ''Client''"
| "runtime_kind_as_str RExecutor = ''Executor''"
| "runtime_kind_as_str RExitFailure = ''ExitFailure''"
| "runtime_kind_as_str RExtensionRuntimeMismatch = ''ExtensionRuntimeMismatch''"
| "runtime_kind_as_str RFilesystemDenied = ''FilesystemDenied''"
| "runtime_kind_as_str RGuest = ''Guest''"
| "runtime_kind_as_str RInputEncode = ''InputEncode''"
| "runtime_kind_as_str RInvalidResult = ''InvalidResult''"
| "runtime_kind_as_str RManifest = ''Manifest''"
| "runtime_kind_as_str RMemory = ''Memory''"
| "runtime_kind_as_str RMethodMissing = ''MethodMissing''"
| "runtime_kind_as_str RNetworkDenied = ''NetworkDenied''"
| "runtime_kind_as_str ROperationFailed = ''OperationFailed''"
| "runtime_kind_as_str ROutputDecode = ''OutputDecode''"
| "runtime_kind_as_str ROutputTooLarge = ''OutputTooLarge''"
| "runtime_kind_as_str RPolicyDenied = ''PolicyDenied''"
| "runtime_kind_as_str RResource = ''Resource''"
| "runtime_kind_as_str RSecretDenied = ''SecretDenied''"
| "runtime_kind_as_str RUndeclaredCapability = ''UndeclaredCapability''"
| "runtime_kind_as_str RUnsupportedRunner = ''UnsupportedRunner''"
| "runtime_kind_as_str RUnknown = ''Unknown''"

fun runtime_kind_event_kind :: "RuntimeDispatchErrorKind \<Rightarrow> string" where
  "runtime_kind_event_kind RBackend = ''backend''"
| "runtime_kind_event_kind RClient = ''client''"
| "runtime_kind_event_kind RExecutor = ''executor''"
| "runtime_kind_event_kind RExitFailure = ''exit_failure''"
| "runtime_kind_event_kind RExtensionRuntimeMismatch = ''extension.runtime_mismatch''"
| "runtime_kind_event_kind RFilesystemDenied = ''filesystem_denied''"
| "runtime_kind_event_kind RGuest = ''guest''"
| "runtime_kind_event_kind RInputEncode = ''input_encode''"
| "runtime_kind_event_kind RInvalidResult = ''invalid_result''"
| "runtime_kind_event_kind RManifest = ''manifest''"
| "runtime_kind_event_kind RMemory = ''memory''"
| "runtime_kind_event_kind RMethodMissing = ''method_missing''"
| "runtime_kind_event_kind RNetworkDenied = ''network_denied''"
| "runtime_kind_event_kind ROperationFailed = ''operation_failed''"
| "runtime_kind_event_kind ROutputDecode = ''output_decode''"
| "runtime_kind_event_kind ROutputTooLarge = ''output_too_large''"
| "runtime_kind_event_kind RPolicyDenied = ''policy_denied''"
| "runtime_kind_event_kind RResource = ''resource''"
| "runtime_kind_event_kind RSecretDenied = ''secret_denied''"
| "runtime_kind_event_kind RUndeclaredCapability = ''undeclared_capability''"
| "runtime_kind_event_kind RUnsupportedRunner = ''unsupported_runner''"
| "runtime_kind_event_kind RUnknown = ''unknown''"

fun runtime_kind_human_summary :: "RuntimeDispatchErrorKind \<Rightarrow> string" where
  "runtime_kind_human_summary RBackend = ''the tool'' @ [CHR 0x27] @ ''s backend failed''"
| "runtime_kind_human_summary RClient = ''the tool client failed to run''"
| "runtime_kind_human_summary RExecutor = ''the tool executor failed''"
| "runtime_kind_human_summary RExitFailure = ''the tool exited with an error''"
| "runtime_kind_human_summary RExtensionRuntimeMismatch = ''the tool runtime did not match its extension''"
| "runtime_kind_human_summary RFilesystemDenied = ''the tool was denied filesystem access''"
| "runtime_kind_human_summary RGuest = ''the tool reported an internal error''"
| "runtime_kind_human_summary RInputEncode = INPUT_ENCODE_HUMAN_SUMMARY"
| "runtime_kind_human_summary RInvalidResult = ''the tool returned an invalid result''"
| "runtime_kind_human_summary RManifest = ''the tool manifest is invalid''"
| "runtime_kind_human_summary RMemory = ''the tool exceeded its memory limit''"
| "runtime_kind_human_summary RMethodMissing = ''the tool method is not available''"
| "runtime_kind_human_summary RNetworkDenied = ''the tool was denied network access''"
| "runtime_kind_human_summary ROperationFailed = ''the tool operation failed''"
| "runtime_kind_human_summary ROutputDecode = ''the tool output could not be decoded''"
| "runtime_kind_human_summary ROutputTooLarge = ''the tool output was too large''"
| "runtime_kind_human_summary RPolicyDenied = ''the tool call was denied by policy''"
| "runtime_kind_human_summary RResource = ''the tool ran out of resources''"
| "runtime_kind_human_summary RSecretDenied = ''the tool was denied access to a required secret''"
| "runtime_kind_human_summary RUndeclaredCapability = ''the tool used an undeclared capability''"
| "runtime_kind_human_summary RUnsupportedRunner = ''the tool runner is not supported''"
| "runtime_kind_human_summary RUnknown = ''the tool failed for an unknown reason''"

datatype DispatchFailureKind =
    KindUnknownCapability | KindUnknownProvider | KindRuntimeMismatch | KindMissingRuntimeBackend
  | KindUnsupportedRuntime | KindAuthRequired | KindRuntime RuntimeDispatchErrorKind

fun failure_kind_as_str :: "DispatchFailureKind \<Rightarrow> string" where
  "failure_kind_as_str KindUnknownCapability = ''UnknownCapability''"
| "failure_kind_as_str KindUnknownProvider = ''UnknownProvider''"
| "failure_kind_as_str KindRuntimeMismatch = ''RuntimeMismatch''"
| "failure_kind_as_str KindMissingRuntimeBackend = ''MissingRuntimeBackend''"
| "failure_kind_as_str KindUnsupportedRuntime = ''UnsupportedRuntime''"
| "failure_kind_as_str KindAuthRequired = ''AuthRequired''"
| "failure_kind_as_str (KindRuntime k) = runtime_kind_as_str k"

fun failure_kind_human_summary :: "DispatchFailureKind \<Rightarrow> string" where
  "failure_kind_human_summary KindUnknownCapability = ''the requested tool was not found''"
| "failure_kind_human_summary KindUnknownProvider = ''the tool provider was not found''"
| "failure_kind_human_summary KindRuntimeMismatch = ''the tool runtime did not match''"
| "failure_kind_human_summary KindMissingRuntimeBackend = ''the tool runtime backend is unavailable''"
| "failure_kind_human_summary KindUnsupportedRuntime = ''the tool runtime is not supported''"
| "failure_kind_human_summary KindAuthRequired = ''the tool requires authentication''"
| "failure_kind_human_summary (KindRuntime k) = runtime_kind_human_summary k"

record RuntimeCredentialAuthRequirement =
  car_provider :: RuntimeCredentialAccountProviderId
  car_setup :: RuntimeCredentialAccountSetup
  car_requester_extension :: ExtensionId
  car_provider_scopes :: "string list"

definition credential_auth_requirement :: "'d Obligation \<Rightarrow> RuntimeCredentialAuthRequirement option" where
  "credential_auth_requirement ob =
    (case ob of
       InjectCredentialAccountOnce handle provider setup provider_scopes requester_extension \<Rightarrow>
         Some \<lparr>car_provider = provider, car_setup = setup, car_requester_extension = requester_extension,
               car_provider_scopes = provider_scopes\<rparr>
     | _ \<Rightarrow> None)"

datatype DispatchError =
    DUnknownCapability CapabilityId
  | DUnknownProvider CapabilityId ExtensionId
  | DRuntimeMismatch CapabilityId RuntimeKind RuntimeKind
  | DMissingRuntimeBackend RuntimeKind
  | DUnsupportedRuntime CapabilityId RuntimeKind
  | DAuthRequired CapabilityId "SecretHandle list" "RuntimeCredentialAuthRequirement list"
  | DMcp RuntimeDispatchErrorKind
  | DScript RuntimeDispatchErrorKind
  | DWasm RuntimeDispatchErrorKind "string option"
  | DFirstParty RuntimeDispatchErrorKind "string option" "DispatchFailureDetail option"

datatype CredentialStageError = CredentialAuthRequired | CredentialBackend

fun failure_kind :: "DispatchError \<Rightarrow> DispatchFailureKind" where
  "failure_kind (DUnknownCapability _) = KindUnknownCapability"
| "failure_kind (DUnknownProvider _ _) = KindUnknownProvider"
| "failure_kind (DRuntimeMismatch _ _ _) = KindRuntimeMismatch"
| "failure_kind (DMissingRuntimeBackend _) = KindMissingRuntimeBackend"
| "failure_kind (DUnsupportedRuntime _ _) = KindUnsupportedRuntime"
| "failure_kind (DAuthRequired _ _ _) = KindAuthRequired"
| "failure_kind (DMcp k) = KindRuntime k"
| "failure_kind (DScript k) = KindRuntime k"
| "failure_kind (DWasm k _) = KindRuntime k"
| "failure_kind (DFirstParty k _ _) = KindRuntime k"

fun dispatch_event_kind :: "DispatchError \<Rightarrow> string" where
  "dispatch_event_kind (DUnknownCapability _) = ''unknown_capability''"
| "dispatch_event_kind (DUnknownProvider _ _) = ''unknown_provider''"
| "dispatch_event_kind (DRuntimeMismatch _ _ _) = ''runtime_mismatch''"
| "dispatch_event_kind (DMissingRuntimeBackend _) = ''missing_runtime_backend''"
| "dispatch_event_kind (DUnsupportedRuntime _ _) = ''unsupported_runtime''"
| "dispatch_event_kind (DAuthRequired _ _ _) = ''auth_required''"
| "dispatch_event_kind (DMcp k) = runtime_kind_event_kind k"
| "dispatch_event_kind (DScript k) = runtime_kind_event_kind k"
| "dispatch_event_kind (DWasm k _) = runtime_kind_event_kind k"
| "dispatch_event_kind (DFirstParty k _ _) = runtime_kind_event_kind k"

end
