(* ===== verification/Capability_Types.thy ===== *)
theory Capability_Types
  imports Dispatch_Port Tasks Run_State Leases Trust Processes
begin

text \<open>
  The vocabulary of the capability host (\<open>ironclaw_capabilities\<close>: \<open>requests.rs\<close>, \<open>error.rs\<close>,
  \<open>obligations.rs\<close> and the pure functions of \<open>helpers.rs\<close> and \<open>host.rs\<close>): requests and results,
  the invocation errors and the run-state transition each one calls for, the obligation phases and
  their outcomes. A JSON value is of type \<open>'v\<close>.
\<close>

section \<open>Requests and results\<close>

text \<open>The resume requests have the fields of an invocation request and one more.\<close>

record ('d, 'v) CapabilityInvocationRequest =
  rq_context :: "'d ExecutionContext"
  rq_capability_id :: CapabilityId
  rq_estimate :: "'d ResourceEstimate"
  rq_input :: 'v
  rq_trust_decision :: "'d TrustDecision"

type_synonym ('d, 'v) CapabilitySpawnRequest = "('d, 'v) CapabilityInvocationRequest"

record ('d, 'v) CapabilityResumeRequest = "('d, 'v) CapabilityInvocationRequest" +
  rq_approval_request_id :: ApprovalRequestId

record ('d, 'v) CapabilityAuthResumeRequest = "('d, 'v) CapabilityInvocationRequest" +
  rq_prior_approval_request_id :: "ApprovalRequestId option"

record ('d, 'v) CapabilityInvocationResult =
  ir_dispatch :: "('d, 'v) CapabilityDispatchResult"

record 'd CapabilitySpawnResult =
  sr_process :: "'d ProcessRecord"

abbreviation rq_scope :: "('d, 'v, 'z) CapabilityInvocationRequest_scheme \<Rightarrow> ResourceScope" where
  "rq_scope rq \<equiv> ctx_resource_scope (rq_context rq)"

abbreviation rq_invocation_id :: "('d, 'v, 'z) CapabilityInvocationRequest_scheme \<Rightarrow> InvocationId" where
  "rq_invocation_id rq \<equiv> ctx_invocation_id (rq_context rq)"

section \<open>Obligations\<close>

datatype CapabilityObligationPhase = PhaseInvoke | PhaseResume | PhaseSpawn

record 'd CapabilityObligationRequest =
  ob_phase :: CapabilityObligationPhase
  ob_context :: "'d ExecutionContext"
  ob_capability_id :: CapabilityId
  ob_estimate :: "'d ResourceEstimate"
  ob_obligations :: "'d Obligation list"

record 'd CapabilityObligationOutcome =
  oo_mounts :: "MountView option"
  oo_resource_reservation :: "'d ResourceReservation option"

definition CapabilityObligationOutcome_default :: "'d CapabilityObligationOutcome" where
  "CapabilityObligationOutcome_default = \<lparr>oo_mounts = None, oo_resource_reservation = None\<rparr>"

record ('d, 'v) CapabilityObligationCompletionRequest = "'d CapabilityObligationRequest" +
  ob_dispatch :: "('d, 'v) CapabilityDispatchResult"

record 'd CapabilityObligationAbortRequest = "'d CapabilityObligationRequest" +
  ob_outcome :: "'d CapabilityObligationOutcome"

datatype CapabilityObligationFailureKind =
  FailAudit | FailMount | FailNetwork | FailOutput | FailResource | FailSecret

datatype 'd CapabilityObligationError =
    ObUnsupported "'d Obligation list"
  | ObAuthRequired "RuntimeCredentialAuthRequirement list"
  | ObFailed CapabilityObligationFailureKind

fun is_post_dispatch :: "'d Obligation \<Rightarrow> bool" where
  "is_post_dispatch AuditAfter = True"
| "is_post_dispatch RedactOutput = True"
| "is_post_dispatch (EnforceResourceCeiling _) = True"
| "is_post_dispatch (EnforceOutputLimit _) = True"
| "is_post_dispatch _ = False"

definition post_dispatch_obligations :: "'d Obligation list \<Rightarrow> 'd Obligation list" where
  "post_dispatch_obligations obligations = filter is_post_dispatch obligations"

section \<open>Errors\<close>

datatype ResumeContextMismatchKind =
  MismatchCapabilityId | MismatchApprovalRequestId | MismatchCapabilityAndApprovalRequestId

datatype 'd CapabilityInvocationError =
    CiUnknownCapability CapabilityId
  | CiAuthorizationDenied CapabilityId DenyReason
  | CiUnsupportedObligations CapabilityId "'d Obligation list"
  | CiObligationFailed CapabilityId CapabilityObligationFailureKind
  | CiAuthorizationRequiresApproval CapabilityId
  | CiAuthorizationRequiresAuth CapabilityId "SecretHandle list" "RuntimeCredentialAuthRequirement list"
  | CiInvocationFingerprint CapabilityId HostApiError
  | CiApprovalRequestMismatch CapabilityId string
  | CiApprovalFingerprintMismatch CapabilityId
  | CiApprovalNotApproved CapabilityId ApprovalStatus
  | CiApprovalStoreMissing CapabilityId string
  | CiApprovalLeaseMissing CapabilityId
  | CiResumeStoreMissing CapabilityId string
  | CiProcessManagerMissing CapabilityId
  | CiResumeNotBlocked CapabilityId RunStatus
  | CiResumeContextMismatch CapabilityId ResumeContextMismatchKind
  | CiLease CapabilityLeaseError
  | CiRunState RunStateError
  | CiProcess "'d ProcessError"
  | CiDispatch DispatchFailureKind "string option" "DispatchFailureDetail option"

fun dispatch_error_safe_summary :: "DispatchError \<Rightarrow> string option" where
  "dispatch_error_safe_summary (DFirstParty _ safe_summary _) = safe_summary"
| "dispatch_error_safe_summary (DWasm _ safe_summary) = safe_summary"
| "dispatch_error_safe_summary _ = None"

fun dispatch_error_detail :: "DispatchError \<Rightarrow> DispatchFailureDetail option" where
  "dispatch_error_detail (DFirstParty _ _ detail) = detail"
| "dispatch_error_detail _ = None"

fun invocation_error_of_dispatch :: "DispatchError \<Rightarrow> 'd CapabilityInvocationError" where
  "invocation_error_of_dispatch (DAuthRequired capability required_secrets credential_requirements) =
    CiAuthorizationRequiresAuth capability required_secrets credential_requirements"
| "invocation_error_of_dispatch other =
    CiDispatch (failure_kind other) (dispatch_error_safe_summary other) (dispatch_error_detail other)"

section \<open>Run-state transitions\<close>

datatype CapabilityRunStateTransition = TransitionFail string | TransitionBlockAuth string

fun transition_error_kind :: "CapabilityRunStateTransition \<Rightarrow> string" where
  "transition_error_kind (TransitionFail ekind) = ekind"
| "transition_error_kind (TransitionBlockAuth ekind) = ekind"

fun run_state_transition :: "'d CapabilityInvocationError \<Rightarrow> CapabilityRunStateTransition option" where
  "run_state_transition (CiUnsupportedObligations _ _) = Some (TransitionFail ''UnsupportedObligations'')"
| "run_state_transition (CiObligationFailed _ _) = Some (TransitionFail ''ObligationFailed'')"
| "run_state_transition (CiAuthorizationRequiresAuth _ _ _) = Some (TransitionBlockAuth ''AuthRequired'')"
| "run_state_transition (CiDispatch _ _ _) = None"
| "run_state_transition _ = Some (TransitionFail ''Obligation'')"

definition is_block_auth_transition :: "'d CapabilityInvocationError \<Rightarrow> bool" where
  "is_block_auth_transition e =
    (case run_state_transition e of Some (TransitionBlockAuth _) \<Rightarrow> True | _ \<Rightarrow> False)"

definition obligation_invocation_error_kind :: "'d CapabilityInvocationError \<Rightarrow> string" where
  "obligation_invocation_error_kind e =
    unwrap_or ''Dispatch'' (map_option transition_error_kind (run_state_transition e))"

fun approval_not_approved_error_kind :: "ApprovalStatus \<Rightarrow> string" where
  "approval_not_approved_error_kind ApPending = ''ApprovalPending''"
| "approval_not_approved_error_kind ApApproved = ''ApprovalApproved''"
| "approval_not_approved_error_kind ApDenied = ''ApprovalDenied''"
| "approval_not_approved_error_kind ApExpired = ''ApprovalExpired''"
| "approval_not_approved_error_kind ApDiscarded = ''ApprovalDiscarded''"

text \<open>The source calls this only when one of the two flags is set; it panics otherwise.\<close>

fun resume_context_mismatch_kind :: "bool \<Rightarrow> bool \<Rightarrow> ResumeContextMismatchKind option" where
  "resume_context_mismatch_kind True True = Some MismatchCapabilityAndApprovalRequestId"
| "resume_context_mismatch_kind True False = Some MismatchCapabilityId"
| "resume_context_mismatch_kind False True = Some MismatchApprovalRequestId"
| "resume_context_mismatch_kind False False = None"

fun claim_error_may_be_concurrent_resume :: "CapabilityLeaseError \<Rightarrow> bool" where
  "claim_error_may_be_concurrent_resume (InactiveLease _ status) =
    (status = LeaseClaimed \<or> status = LeaseDispatching \<or> status = LeaseConsumed)"
| "claim_error_may_be_concurrent_resume _ = False"

section \<open>Obligation errors and credential requirements\<close>

fun prepare_obligation_error_to_invocation ::
  "CapabilityId \<Rightarrow> 'd CapabilityObligationError \<Rightarrow> 'd CapabilityInvocationError" where
  "prepare_obligation_error_to_invocation c (ObUnsupported obligations) = CiUnsupportedObligations c obligations"
| "prepare_obligation_error_to_invocation c (ObAuthRequired requirements) = CiAuthorizationRequiresAuth c [] requirements"
| "prepare_obligation_error_to_invocation c (ObFailed kind) = CiObligationFailed c kind"

fun completion_obligation_error_to_invocation ::
  "CapabilityId \<Rightarrow> 'd CapabilityObligationError \<Rightarrow> 'd CapabilityInvocationError" where
  "completion_obligation_error_to_invocation c (ObAuthRequired _) = CiObligationFailed c FailSecret"
| "completion_obligation_error_to_invocation c other = prepare_obligation_error_to_invocation c other"

fun enrich_dispatch_error_credential_requirements :: "DispatchError \<Rightarrow> 'd Obligation list \<Rightarrow> DispatchError" where
  "enrich_dispatch_error_credential_requirements (DAuthRequired capability required_secrets requirements) obligations =
    (if required_secrets \<noteq> [] \<or> requirements \<noteq> [] then DAuthRequired capability required_secrets requirements
     else case List.map_filter credential_auth_requirement obligations of
       [requirement] \<Rightarrow> DAuthRequired capability required_secrets [requirement]
     | _ \<Rightarrow> DAuthRequired capability required_secrets requirements)"
| "enrich_dispatch_error_credential_requirements e obligations = e"

section \<open>Matching an approval with an invocation\<close>

datatype CapabilityActionKind = ActDispatch | ActSpawn

fun action_matches :: "CapabilityActionKind \<Rightarrow> 'd Action \<Rightarrow> CapabilityId \<Rightarrow> 'd ResourceEstimate \<Rightarrow> bool" where
  "action_matches ActDispatch (Dispatch capability estimated_resources) capability_id estimate =
    (capability = capability_id \<and> estimated_resources = estimate)"
| "action_matches ActSpawn (SpawnCapability capability estimated_resources) capability_id estimate =
    (capability = capability_id \<and> estimated_resources = estimate)"
| "action_matches _ _ _ _ = False"

definition validate_approval_request_matches_invocation ::
  "'d ApprovalRequest \<Rightarrow> 'd ExecutionContext \<Rightarrow> CapabilityId \<Rightarrow> 'd ResourceEstimate \<Rightarrow> CapabilityActionKind
     \<Rightarrow> ('d CapabilityInvocationError, unit) result" where
  "validate_approval_request_matches_invocation approval ctx capability_id estimate expected_action =
    (if \<not> action_matches expected_action (ar_action approval) capability_id estimate
     then Err (CiApprovalRequestMismatch capability_id ''action'')
     else if ar_correlation_id approval \<noteq> ctx_correlation_id ctx
     then Err (CiApprovalRequestMismatch capability_id ''correlation_id'')
     else if ar_requested_by approval \<noteq> PExtension (ctx_extension_id ctx)
     then Err (CiApprovalRequestMismatch capability_id ''requested_by'')
     else Ok ())"

text \<open>
  \<open>command\<close> reads the \<open>command\<close> string of a JSON object; \<open>display\<close> is
  \<open>shell_command_display_text\<close> of the safety crate.
\<close>

definition newline :: string where
  "newline = [CHR 0x0A]"

definition add_capability_input_display_hint ::
  "('v \<Rightarrow> string option) \<Rightarrow> (string \<Rightarrow> CapabilityDisplayText) \<Rightarrow> string \<Rightarrow> CapabilityId \<Rightarrow> 'v \<Rightarrow> string" where
  "add_capability_input_display_hint command display reason capability_id input =
    (if capability_id \<noteq> ''shell'' \<and> capability_id \<noteq> ''builtin.shell'' \<and> \<not> ends_with ''.shell'' capability_id
     then reason
     else case map_option display (command input) of
       None \<Rightarrow> reason
     | Some t \<Rightarrow>
         if dt_text t = [] then reason
         else reason @ newline @ newline @ ''Command:'' @ newline @ dt_text t
           @ (if dt_truncated t then newline @ ''[truncated]'' else []))"

definition with_reason :: "string \<Rightarrow> 'd ApprovalRequest \<Rightarrow> 'd ApprovalRequest" where
  "with_reason reason a =
    ApprovalRequest (ar_id a) (ar_correlation_id a) (ar_requested_by a) (ar_action a)
      (ar_invocation_fingerprint a) reason (ar_reusable_scope a)"

definition with_fingerprint :: "InvocationFingerprint \<Rightarrow> 'd ApprovalRequest \<Rightarrow> 'd ApprovalRequest" where
  "with_fingerprint fp a =
    ApprovalRequest (ar_id a) (ar_correlation_id a) (ar_requested_by a) (ar_action a)
      (Some fp) (ar_reason a) (ar_reusable_scope a)"

definition push_grant :: "'d CapabilityGrant \<Rightarrow> 'd ExecutionContext \<Rightarrow> 'd ExecutionContext" where
  "push_grant g ctx = ctx\<lparr>ctx_grants := (ctx_grants ctx)\<lparr>set_grants := set_grants (ctx_grants ctx) @ [g]\<rparr>\<rparr>"

end
