(* ===== verification/Capability_Host.thy ===== *)
theory Capability_Host
  imports Capability_Types
begin

text \<open>
  The capability host (\<open>ironclaw_capabilities/src/host.rs\<close> and \<open>helpers.rs\<close>): every caller-facing
  workflow is a task over the stores and ports the host was built with. A store that was not
  attached is \<open>None\<close>; a store has the methods the host calls. Diagnostics (\<open>debug!\<close>, \<open>warn!\<close>) are left out: a failure that is only logged
  is an answer that is dropped.
\<close>

section \<open>Stores and ports\<close>

record ('d, 'w) RunStateStore =
  rst_start :: "RunStart \<Rightarrow> ('w, (RunStateError, RunRecord) result) async"
  rst_block_approval :: "ResourceScope \<Rightarrow> InvocationId \<Rightarrow> 'd ApprovalRequest \<Rightarrow> ('w, (RunStateError, RunRecord) result) async"
  rst_block_auth :: "ResourceScope \<Rightarrow> InvocationId \<Rightarrow> string \<Rightarrow> ('w, (RunStateError, RunRecord) result) async"
  rst_complete :: "ResourceScope \<Rightarrow> InvocationId \<Rightarrow> ('w, (RunStateError, RunRecord) result) async"
  rst_fail :: "ResourceScope \<Rightarrow> InvocationId \<Rightarrow> string \<Rightarrow> ('w, (RunStateError, RunRecord) result) async"
  rst_get :: "ResourceScope \<Rightarrow> InvocationId \<Rightarrow> ('w, (RunStateError, RunRecord option) result) async"

record ('d, 'w) ApprovalRequestStore =
  aps_save_pending :: "ResourceScope \<Rightarrow> 'd ApprovalRequest \<Rightarrow> ('w, (RunStateError, 'd ApprovalRecord) result) async"
  aps_get :: "ResourceScope \<Rightarrow> ApprovalRequestId \<Rightarrow> ('w, (RunStateError, 'd ApprovalRecord option) result) async"
  aps_discard_pending :: "ResourceScope \<Rightarrow> ApprovalRequestId \<Rightarrow> ('w, (RunStateError, 'd ApprovalRecord) result) async"

record ('d, 'w) CapabilityLeaseStore =
  cls_revoke :: "ResourceScope \<Rightarrow> CapabilityGrantId \<Rightarrow> ('w, (CapabilityLeaseError, 'd CapabilityLease) result) async"
  cls_claim :: "ResourceScope \<Rightarrow> CapabilityGrantId \<Rightarrow> InvocationFingerprint
    \<Rightarrow> ('w, (CapabilityLeaseError, 'd CapabilityLease) result) async"
  cls_consume :: "ResourceScope \<Rightarrow> CapabilityGrantId \<Rightarrow> ('w, (CapabilityLeaseError, 'd CapabilityLease) result) async"
  cls_begin_dispatch_claimed :: "ResourceScope \<Rightarrow> CapabilityGrantId \<Rightarrow> InvocationFingerprint
    \<Rightarrow> ('w, (CapabilityLeaseError, 'd CapabilityLease) result) async"
  cls_abort_dispatch_claimed :: "ResourceScope \<Rightarrow> CapabilityGrantId
    \<Rightarrow> ('w, (CapabilityLeaseError, 'd CapabilityLease) result) async"
  cls_leases_for_scope :: "ResourceScope \<Rightarrow> ('w, 'd CapabilityLease list) async"
  cls_active_leases_for_context :: "'d ExecutionContext \<Rightarrow> ('w, 'd CapabilityLease list) async"

record ('d, 'v, 'w) CapabilityObligationHandler =
  oh_prepare :: "'d CapabilityObligationRequest \<Rightarrow> ('w, ('d CapabilityObligationError, 'd CapabilityObligationOutcome) result) async"
  oh_abort :: "'d CapabilityObligationAbortRequest \<Rightarrow> ('w, ('d CapabilityObligationError, unit) result) async"
  oh_complete_dispatch :: "('d, 'v) CapabilityObligationCompletionRequest
    \<Rightarrow> ('w, ('d CapabilityObligationError, ('d, 'v) CapabilityDispatchResult) result) async"

text \<open>The handler a type gets that implements \<open>satisfy\<close> only.\<close>

definition default_obligation_handler ::
  "('d CapabilityObligationRequest \<Rightarrow> ('w, ('d CapabilityObligationError, unit) result) async)
     \<Rightarrow> ('d, 'v, 'w) CapabilityObligationHandler" where
  "default_obligation_handler satisfy =
    \<lparr>oh_prepare = (\<lambda>request. try_await (satisfy request) (\<lambda>_. Ready (Ok CapabilityObligationOutcome_default))),
     oh_abort = (\<lambda>request. Ready (Ok ())),
     oh_complete_dispatch = (\<lambda>request.
       let unsupported = post_dispatch_obligations (ob_obligations request)
       in if unsupported = [] then Ready (Ok (ob_dispatch request)) else Ready (Err (ObUnsupported unsupported)))\<rparr>"

type_synonym ('d, 's, 't, 'w) authorizer =
  "'d ExecutionContext \<Rightarrow> ('d, 's, 't) CapabilityDescriptor \<Rightarrow> 'd ResourceEstimate \<Rightarrow> 'd TrustDecision
     \<Rightarrow> ('w, 'd Decision) async"

text \<open>
  The last four fields stand for the digest of an invocation (\<open>InvocationFingerprint\<close>), for the
  reading and rendering of a shell command, and for \<open>ProcessId::new\<close>.
\<close>

record ('d, 'v, 's, 't, 'w) CapabilityHost =
  h_registry :: "CapabilityId \<Rightarrow> ('d, 's, 't) CapabilityDescriptor option"
  h_dispatcher :: "('d, 'v) CapabilityDispatchRequest \<Rightarrow> ('w, (DispatchError, ('d, 'v) CapabilityDispatchResult) result) async"
  h_authorize_dispatch :: "('d, 's, 't, 'w) authorizer"
  h_authorize_spawn :: "('d, 's, 't, 'w) authorizer"
  h_run_state :: "('d, 'w) RunStateStore option"
  h_approval_requests :: "('d, 'w) ApprovalRequestStore option"
  h_run_state_approval_store :: "(ResourceScope \<Rightarrow> InvocationId \<Rightarrow> 'd ApprovalRequest \<Rightarrow> ('w, (RunStateError, RunRecord) result) async) option"
  h_capability_leases :: "('d, 'w) CapabilityLeaseStore option"
  h_process_manager :: "(('d, 'v) ProcessStart \<Rightarrow> ('w, ('d ProcessError, 'd ProcessRecord) result) async) option"
  h_obligation_handler :: "('d, 'v, 'w) CapabilityObligationHandler option"
  h_fingerprint :: "CapabilityActionKind \<Rightarrow> ResourceScope \<Rightarrow> CapabilityId \<Rightarrow> 'd ResourceEstimate \<Rightarrow> 'v
    \<Rightarrow> (HostApiError, InvocationFingerprint) result"
  h_command :: "'v \<Rightarrow> string option"
  h_display :: "string \<Rightarrow> CapabilityDisplayText"
  h_new_process_id :: "'w \<Rightarrow> ProcessId \<times> 'w"

text \<open>
  A host starts without stores; attaching a store on its own detaches the combined one, which would
  otherwise keep writing to the store that was replaced.
\<close>

definition CapabilityHost_new ::
  "(CapabilityId \<Rightarrow> ('d, 's, 't) CapabilityDescriptor option)
     \<Rightarrow> (('d, 'v) CapabilityDispatchRequest \<Rightarrow> ('w, (DispatchError, ('d, 'v) CapabilityDispatchResult) result) async)
     \<Rightarrow> ('d, 's, 't, 'w) authorizer \<Rightarrow> ('d, 's, 't, 'w) authorizer
     \<Rightarrow> (CapabilityActionKind \<Rightarrow> ResourceScope \<Rightarrow> CapabilityId \<Rightarrow> 'd ResourceEstimate \<Rightarrow> 'v
           \<Rightarrow> (HostApiError, InvocationFingerprint) result)
     \<Rightarrow> ('v \<Rightarrow> string option) \<Rightarrow> (string \<Rightarrow> CapabilityDisplayText) \<Rightarrow> ('w \<Rightarrow> ProcessId \<times> 'w)
     \<Rightarrow> ('d, 'v, 's, 't, 'w) CapabilityHost" where
  "CapabilityHost_new registry dispatcher authorize_dispatch authorize_spawn fingerprint command display new_process_id =
    \<lparr>h_registry = registry, h_dispatcher = dispatcher, h_authorize_dispatch = authorize_dispatch,
     h_authorize_spawn = authorize_spawn, h_run_state = None, h_approval_requests = None,
     h_run_state_approval_store = None, h_capability_leases = None, h_process_manager = None,
     h_obligation_handler = None, h_fingerprint = fingerprint, h_command = command, h_display = display,
     h_new_process_id = new_process_id\<rparr>"

definition with_run_state :: "('d, 'w) RunStateStore \<Rightarrow> ('d, 'v, 's, 't, 'w) CapabilityHost \<Rightarrow> ('d, 'v, 's, 't, 'w) CapabilityHost" where
  "with_run_state run_state h = h\<lparr>h_run_state := Some run_state, h_run_state_approval_store := None\<rparr>"

definition with_approval_requests ::
  "('d, 'w) ApprovalRequestStore \<Rightarrow> ('d, 'v, 's, 't, 'w) CapabilityHost \<Rightarrow> ('d, 'v, 's, 't, 'w) CapabilityHost" where
  "with_approval_requests approval_requests h =
    h\<lparr>h_approval_requests := Some approval_requests, h_run_state_approval_store := None\<rparr>"

text \<open>The combined store is both stores and the operation that writes to both.\<close>

definition with_run_state_approval_store ::
  "('d, 'w) RunStateStore \<Rightarrow> ('d, 'w) ApprovalRequestStore
     \<Rightarrow> (ResourceScope \<Rightarrow> InvocationId \<Rightarrow> 'd ApprovalRequest \<Rightarrow> ('w, (RunStateError, RunRecord) result) async)
     \<Rightarrow> ('d, 'v, 's, 't, 'w) CapabilityHost \<Rightarrow> ('d, 'v, 's, 't, 'w) CapabilityHost" where
  "with_run_state_approval_store run_state approval_requests save_pending_and_block h =
    h\<lparr>h_run_state := Some run_state, h_approval_requests := Some approval_requests,
      h_run_state_approval_store := Some save_pending_and_block\<rparr>"

definition with_capability_leases ::
  "('d, 'w) CapabilityLeaseStore \<Rightarrow> ('d, 'v, 's, 't, 'w) CapabilityHost \<Rightarrow> ('d, 'v, 's, 't, 'w) CapabilityHost" where
  "with_capability_leases leases h = h\<lparr>h_capability_leases := Some leases\<rparr>"

definition with_process_manager ::
  "(('d, 'v) ProcessStart \<Rightarrow> ('w, ('d ProcessError, 'd ProcessRecord) result) async)
     \<Rightarrow> ('d, 'v, 's, 't, 'w) CapabilityHost \<Rightarrow> ('d, 'v, 's, 't, 'w) CapabilityHost" where
  "with_process_manager spawn h = h\<lparr>h_process_manager := Some spawn\<rparr>"

definition with_obligation_handler ::
  "('d, 'v, 'w) CapabilityObligationHandler \<Rightarrow> ('d, 'v, 's, 't, 'w) CapabilityHost \<Rightarrow> ('d, 'v, 's, 't, 'w) CapabilityHost" where
  "with_obligation_handler handler h = h\<lparr>h_obligation_handler := Some handler\<rparr>"

definition invocation_fingerprint_for_kind ::
  "('d, 'v, 's, 't, 'w) CapabilityHost \<Rightarrow> CapabilityActionKind \<Rightarrow> ('d, 'v, 'z) CapabilityInvocationRequest_scheme
     \<Rightarrow> (HostApiError, InvocationFingerprint) result" where
  "invocation_fingerprint_for_kind h kind rq =
    h_fingerprint h kind (rq_scope rq) (rq_capability_id rq) (rq_estimate rq) (rq_input rq)"

section \<open>Run state\<close>

text \<open>The outcome of a best-effort call.\<close>

definition ignoring :: "('w, 'a) async \<Rightarrow> ('w, 'r) async \<Rightarrow> ('w, 'r) async" where
  "ignoring p q = await p (\<lambda>_. q)"

definition fail_run_if_configured ::
  "('d, 'w) RunStateStore option \<Rightarrow> ResourceScope \<Rightarrow> InvocationId \<Rightarrow> string \<Rightarrow> ('w, unit) async" where
  "fail_run_if_configured run_state scope i ekind =
    (case run_state of None \<Rightarrow> Ready () | Some rs \<Rightarrow> ignoring (rst_fail rs scope i ekind) (Ready ()))"

definition apply_run_state_transition_if_configured ::
  "('d, 'w) RunStateStore option \<Rightarrow> ResourceScope \<Rightarrow> InvocationId \<Rightarrow> 'd CapabilityInvocationError \<Rightarrow> ('w, unit) async" where
  "apply_run_state_transition_if_configured run_state scope i e =
    (case run_state of
       None \<Rightarrow> Ready ()
     | Some rs \<Rightarrow>
         (case run_state_transition e of
            None \<Rightarrow> Ready ()
          | Some (TransitionFail ekind) \<Rightarrow> fail_run_if_configured (Some rs) scope i ekind
          | Some (TransitionBlockAuth ekind) \<Rightarrow> ignoring (rst_block_auth rs scope i ekind) (Ready ())))"

definition complete_run_after_side_effect ::
  "('d, 'w) RunStateStore \<Rightarrow> ResourceScope \<Rightarrow> InvocationId \<Rightarrow> ('w, unit) async" where
  "complete_run_after_side_effect rs scope i = ignoring (rst_complete rs scope i) (Ready ())"

text \<open>The shape of most refusals: mark the run failed, answer the error.\<close>

definition refuse ::
  "('d, 'w) RunStateStore option \<Rightarrow> ('d, 'v, 'z) CapabilityInvocationRequest_scheme \<Rightarrow> string
     \<Rightarrow> 'd CapabilityInvocationError \<Rightarrow> ('w, ('d CapabilityInvocationError, 'r) result) async" where
  "refuse run_state rq ekind e =
    ignoring (fail_run_if_configured run_state (rq_scope rq) (rq_invocation_id rq) ekind) (Ready (Err e))"

definition start_run ::
  "('d, 'v, 's, 't, 'w) CapabilityHost \<Rightarrow> ('d, 'v, 'z) CapabilityInvocationRequest_scheme \<Rightarrow> ('w, ('d CapabilityInvocationError, unit) result) async" where
  "start_run h rq =
    (case h_run_state h of
       None \<Rightarrow> Ready (Ok ())
     | Some rs \<Rightarrow>
         await (rst_start rs \<lparr>start_invocation_id = rq_invocation_id rq, start_capability_id = rq_capability_id rq,
             start_scope = rq_scope rq, start_actor = ctx_authenticated_actor_user_id (rq_context rq)\<rparr>)
           (\<lambda>res. Ready (case res of Inl e \<Rightarrow> Err (CiRunState e) | Inr _ \<Rightarrow> Ok ())))"

section \<open>Obligations\<close>

definition prepare_obligations ::
  "('d, 'v, 's, 't, 'w) CapabilityHost \<Rightarrow> CapabilityObligationPhase \<Rightarrow> 'd ExecutionContext \<Rightarrow> CapabilityId
     \<Rightarrow> 'd ResourceEstimate \<Rightarrow> 'd Obligation list \<Rightarrow> ('w, ('d CapabilityInvocationError, 'd CapabilityObligationOutcome) result) async" where
  "prepare_obligations h phase ctx capability_id estimate obligations =
    (if obligations = [] then Ready (Ok CapabilityObligationOutcome_default)
     else if phase = PhaseSpawn \<and> post_dispatch_obligations obligations \<noteq> []
     then Ready (Err (CiUnsupportedObligations capability_id (post_dispatch_obligations obligations)))
     else case h_obligation_handler h of
       None \<Rightarrow> Ready (Err (CiUnsupportedObligations capability_id obligations))
     | Some handler \<Rightarrow>
         await (oh_prepare handler \<lparr>ob_phase = phase, ob_context = ctx, ob_capability_id = capability_id,
             ob_estimate = estimate, ob_obligations = obligations\<rparr>)
           (\<lambda>res. Ready (map_sum (prepare_obligation_error_to_invocation capability_id) id res)))"

definition complete_dispatch_obligations ::
  "('d, 'v, 's, 't, 'w) CapabilityHost \<Rightarrow> CapabilityObligationPhase \<Rightarrow> 'd ExecutionContext \<Rightarrow> CapabilityId
     \<Rightarrow> 'd ResourceEstimate \<Rightarrow> 'd Obligation list \<Rightarrow> ('d, 'v) CapabilityDispatchResult
     \<Rightarrow> ('w, ('d CapabilityInvocationError, ('d, 'v) CapabilityDispatchResult) result) async" where
  "complete_dispatch_obligations h phase ctx capability_id estimate obligations dispatch =
    (if obligations = [] then Ready (Ok dispatch)
     else case h_obligation_handler h of
       None \<Rightarrow>
         (if post_dispatch_obligations obligations = [] then Ready (Ok dispatch)
          else Ready (Err (CiUnsupportedObligations capability_id (post_dispatch_obligations obligations))))
     | Some handler \<Rightarrow>
         await (oh_complete_dispatch handler \<lparr>ob_phase = phase, ob_context = ctx, ob_capability_id = capability_id,
             ob_estimate = estimate, ob_obligations = obligations, ob_dispatch = dispatch\<rparr>)
           (\<lambda>res. Ready (map_sum (completion_obligation_error_to_invocation capability_id) id res)))"

definition abort_obligations ::
  "('d, 'v, 's, 't, 'w) CapabilityHost \<Rightarrow> CapabilityObligationPhase \<Rightarrow> 'd ExecutionContext \<Rightarrow> CapabilityId
     \<Rightarrow> 'd ResourceEstimate \<Rightarrow> 'd Obligation list \<Rightarrow> 'd CapabilityObligationOutcome \<Rightarrow> ('w, unit) async" where
  "abort_obligations h phase ctx capability_id estimate obligations outcm =
    (if obligations = [] then Ready ()
     else case h_obligation_handler h of
       None \<Rightarrow> Ready ()
     | Some handler \<Rightarrow>
         ignoring (oh_abort handler \<lparr>ob_phase = phase, ob_context = ctx, ob_capability_id = capability_id,
             ob_estimate = estimate, ob_obligations = obligations, ob_outcome = outcm\<rparr>) (Ready ()))"

section \<open>Blocking on an approval\<close>

text \<open>The arm \<open>RequireApproval\<close> of \<open>invoke_json\<close> and of \<open>spawn_json\<close>: persist the request, block the run.\<close>

definition block_on_approval ::
  "('d, 'v, 's, 't, 'w) CapabilityHost \<Rightarrow> ('d, 'v, 'z) CapabilityInvocationRequest_scheme \<Rightarrow> 'd ApprovalRequest \<Rightarrow> ('w, ('d CapabilityInvocationError, 'r) result) async" where
  "block_on_approval h rq approval =
    (case (h_run_state h, h_approval_requests h) of
       (Some rs, Some ars) \<Rightarrow>
         (case h_run_state_approval_store h of
            Some save_pending_and_block_approval \<Rightarrow>
              await (save_pending_and_block_approval (rq_scope rq) (rq_invocation_id rq) approval) (\<lambda>res. case res of
                Inl e \<Rightarrow> refuse (Some rs) rq ''ApprovalBlock'' (CiRunState e)
              | Inr _ \<Rightarrow> Ready (Err (CiAuthorizationRequiresApproval (rq_capability_id rq))))
          | None \<Rightarrow>
              await (aps_save_pending ars (rq_scope rq) approval) (\<lambda>res. case res of
                Inl e \<Rightarrow> refuse (Some rs) rq ''ApprovalStore'' (CiRunState e)
              | Inr _ \<Rightarrow>
                  await (rst_block_approval rs (rq_scope rq) (rq_invocation_id rq) approval) (\<lambda>res. case res of
                    Inl e \<Rightarrow> ignoring (aps_discard_pending ars (rq_scope rq) (ar_id approval))
                      (refuse (Some rs) rq ''ApprovalBlock'' (CiRunState e))
                  | Inr _ \<Rightarrow> Ready (Err (CiAuthorizationRequiresApproval (rq_capability_id rq))))))
     | (Some rs, None) \<Rightarrow>
         refuse (Some rs) rq ''ApprovalStoreMissing'' (CiApprovalStoreMissing (rq_capability_id rq) ''approval_requests'')
     | (None, Some _) \<Rightarrow> Ready (Err (CiApprovalStoreMissing (rq_capability_id rq) ''run_state''))
     | (None, None) \<Rightarrow> Ready (Err (CiApprovalStoreMissing (rq_capability_id rq) ''run_state and approval_requests'')))"

definition require_approval ::
  "('d, 'v, 's, 't, 'w) CapabilityHost \<Rightarrow> CapabilityActionKind \<Rightarrow> ('d, 'v, 'z) CapabilityInvocationRequest_scheme \<Rightarrow> InvocationFingerprint
     \<Rightarrow> 'd ApprovalRequest \<Rightarrow> ('w, ('d CapabilityInvocationError, 'r) result) async" where
  "require_approval h kind rq fp approval0 =
    (let approval = with_reason (add_capability_input_display_hint (h_command h) (h_display h)
           (ar_reason approval0) (rq_capability_id rq) (rq_input rq)) approval0
     in case validate_approval_request_matches_invocation approval (rq_context rq) (rq_capability_id rq)
              (rq_estimate rq) kind of
       Inl e \<Rightarrow> refuse (h_run_state h) rq ''ApprovalRequestMismatch'' e
     | Inr _ \<Rightarrow>
         (case ar_invocation_fingerprint approval of
            Some existing \<Rightarrow>
              if existing \<noteq> fp
              then refuse (h_run_state h) rq ''InvocationFingerprintMismatch'' (CiApprovalFingerprintMismatch (rq_capability_id rq))
              else block_on_approval h rq approval
          | None \<Rightarrow> block_on_approval h rq (with_fingerprint fp approval)))"

section \<open>Invocation\<close>

definition dispatch_request ::
  "'d ExecutionContext \<Rightarrow> CapabilityId \<Rightarrow> 'd ResourceEstimate \<Rightarrow> 'v \<Rightarrow> 'd CapabilityObligationOutcome
     \<Rightarrow> ('d, 'v) CapabilityDispatchRequest" where
  "dispatch_request ctx capability_id estimate input outcm =
    \<lparr>dq_capability_id = capability_id, dq_scope = ctx_resource_scope ctx,
     dq_authenticated_actor_user_id = ctx_authenticated_actor_user_id ctx, dq_estimate = estimate,
     dq_mounts = oo_mounts outcm, dq_resource_reservation = oo_resource_reservation outcm, dq_input = input\<rparr>"

definition complete_run_if_configured ::
  "('d, 'v, 's, 't, 'w) CapabilityHost \<Rightarrow> ('d, 'v, 'z) CapabilityInvocationRequest_scheme \<Rightarrow> ('w, unit) async" where
  "complete_run_if_configured h rq =
    (case h_run_state h of
       None \<Rightarrow> Ready ()
     | Some rs \<Rightarrow> complete_run_after_side_effect rs (rq_scope rq) (rq_invocation_id rq))"

text \<open>The rest of \<open>invoke_json\<close> once authorization allowed the dispatch.\<close>

definition invoke_completed ::
  "('d, 'v, 's, 't, 'w) CapabilityHost \<Rightarrow> ('d, 'v, 'z) CapabilityInvocationRequest_scheme \<Rightarrow> 'd Obligation list
     \<Rightarrow> ('d, 'v) CapabilityDispatchResult \<Rightarrow> ('w, ('d CapabilityInvocationError, ('d, 'v) CapabilityInvocationResult) result) async" where
  "invoke_completed h rq obligations dispatch =
    await (complete_dispatch_obligations h PhaseInvoke (rq_context rq) (rq_capability_id rq) (rq_estimate rq)
        obligations dispatch) (\<lambda>res. case res of
      Inl e \<Rightarrow>
        ignoring (abort_obligations h PhaseInvoke (rq_context rq) (rq_capability_id rq) (rq_estimate rq) obligations
            CapabilityObligationOutcome_default)
          (refuse (h_run_state h) rq (obligation_invocation_error_kind e) e)
    | Inr dispatch' \<Rightarrow> ignoring (complete_run_if_configured h rq) (Ready (Ok \<lparr>ir_dispatch = dispatch'\<rparr>)))"

definition invoke_allowed ::
  "('d, 'v, 's, 't, 'w) CapabilityHost \<Rightarrow> ('d, 'v, 'z) CapabilityInvocationRequest_scheme \<Rightarrow> 'd Obligation list \<Rightarrow> ('w, ('d CapabilityInvocationError, ('d, 'v) CapabilityInvocationResult) result) async" where
  "invoke_allowed h rq obligations =
    await (prepare_obligations h PhaseInvoke (rq_context rq) (rq_capability_id rq) (rq_estimate rq) obligations)
      (\<lambda>res. case res of
        Inl e \<Rightarrow>
          ignoring (apply_run_state_transition_if_configured (h_run_state h) (rq_scope rq) (rq_invocation_id rq) e)
            (Ready (Err e))
      | Inr outcm \<Rightarrow>
          await (h_dispatcher h (dispatch_request (rq_context rq) (rq_capability_id rq) (rq_estimate rq) (rq_input rq) outcm))
            (\<lambda>res. case res of
              Inl de \<Rightarrow>
                let e = invocation_error_of_dispatch (enrich_dispatch_error_credential_requirements de obligations)
                in ignoring (abort_obligations h PhaseInvoke (rq_context rq) (rq_capability_id rq) (rq_estimate rq)
                     obligations outcm)
                   (ignoring (apply_run_state_transition_if_configured (h_run_state h) (rq_scope rq) (rq_invocation_id rq) e)
                     (Ready (Err e)))
            | Inr dispatch \<Rightarrow> invoke_completed h rq obligations dispatch))"

text \<open>The opening of \<open>invoke_json\<close> and \<open>spawn_json\<close>, up to the decision.\<close>

definition begin_invocation ::
  "('d, 'v, 's, 't, 'w) CapabilityHost \<Rightarrow> CapabilityActionKind \<Rightarrow> ('d, 's, 't, 'w) authorizer \<Rightarrow> ('d, 'v, 'z) CapabilityInvocationRequest_scheme
     \<Rightarrow> (('d, 's, 't) CapabilityDescriptor \<Rightarrow> 'd Obligation list \<Rightarrow> ('w, ('d CapabilityInvocationError, 'r) result) async)
     \<Rightarrow> ('w, ('d CapabilityInvocationError, 'r) result) async" where
  "begin_invocation h kind authorize rq allowed =
    (if \<not> is_ok (ExecutionContext_validate (rq_context rq))
     then Ready (Err (CiAuthorizationDenied (rq_capability_id rq) InternalInvariantViolation))
     else case invocation_fingerprint_for_kind h kind rq of
       Inl src \<Rightarrow> Ready (Err (CiInvocationFingerprint (rq_capability_id rq) src))
     | Inr fp \<Rightarrow>
         try_await (start_run h rq) (\<lambda>_.
           case h_registry h (rq_capability_id rq) of
             None \<Rightarrow> refuse (h_run_state h) rq ''UnknownCapability'' (CiUnknownCapability (rq_capability_id rq))
           | Some descriptor \<Rightarrow>
               await (authorize (rq_context rq) descriptor (rq_estimate rq) (rq_trust_decision rq)) (\<lambda>decision.
                 case decision of
                   Allow obligations \<Rightarrow> allowed descriptor obligations
                 | Deny reason \<Rightarrow>
                     refuse (h_run_state h) rq ''AuthorizationDenied'' (CiAuthorizationDenied (rq_capability_id rq) reason)
                 | RequireApproval approval \<Rightarrow> require_approval h kind rq fp approval)))"

definition invoke_json ::
  "('d, 'v, 's, 't, 'w) CapabilityHost \<Rightarrow> ('d, 'v) CapabilityInvocationRequest \<Rightarrow> ('w, ('d CapabilityInvocationError, ('d, 'v) CapabilityInvocationResult) result) async" where
  "invoke_json h rq =
    begin_invocation h ActDispatch (h_authorize_dispatch h) rq (\<lambda>_. invoke_allowed h rq)"

section \<open>Spawning\<close>

definition process_start_request ::
  "('d, 'v, 'z) CapabilityInvocationRequest_scheme \<Rightarrow> 'd ExecutionContext \<Rightarrow> ('d, 's, 't) CapabilityDescriptor
     \<Rightarrow> 'd CapabilityObligationOutcome \<Rightarrow> ProcessId \<Rightarrow> ('d, 'v) ProcessStart" where
  "process_start_request rq ctx descriptor outcm process_id =
    \<lparr>st_process_id = process_id, st_parent_process_id = ctx_process_id ctx,
     st_invocation_id = rq_invocation_id rq, st_scope = rq_scope rq,
     st_authenticated_actor_user_id = ctx_authenticated_actor_user_id ctx,
     st_extension_id = desc_provider descriptor, st_capability_id = rq_capability_id rq,
     st_runtime = desc_runtime descriptor, st_grants = ctx_grants ctx,
     st_mounts = unwrap_or (ctx_mounts ctx) (oo_mounts outcm), st_estimated_resources = rq_estimate rq,
     st_resource_reservation_id = map_option res_id (oo_resource_reservation outcm), st_input = rq_input rq\<rparr>"

definition spawn_process ::
  "('d, 'v, 's, 't, 'w) CapabilityHost \<Rightarrow> (('d, 'v) ProcessStart \<Rightarrow> ('w, ('d ProcessError, 'd ProcessRecord) result) async)
     \<Rightarrow> 'd ExecutionContext \<Rightarrow> ('d, 'v, 'z) CapabilityInvocationRequest_scheme \<Rightarrow> ('d, 's, 't) CapabilityDescriptor
     \<Rightarrow> 'd CapabilityObligationOutcome \<Rightarrow> ('w, ('d ProcessError, 'd ProcessRecord) result) async" where
  "spawn_process h spawn ctx rq descriptor outcm =
    await (call (h_new_process_id h)) (\<lambda>process_id. spawn (process_start_request rq ctx descriptor outcm process_id))"

definition spawn_allowed ::
  "('d, 'v, 's, 't, 'w) CapabilityHost \<Rightarrow> (('d, 'v) ProcessStart \<Rightarrow> ('w, ('d ProcessError, 'd ProcessRecord) result) async)
     \<Rightarrow> ('d, 'v, 'z) CapabilityInvocationRequest_scheme \<Rightarrow> ('d, 's, 't) CapabilityDescriptor \<Rightarrow> 'd Obligation list \<Rightarrow> ('w, ('d CapabilityInvocationError, 'd CapabilitySpawnResult) result) async" where
  "spawn_allowed h spawn rq descriptor obligations =
    await (prepare_obligations h PhaseSpawn (rq_context rq) (rq_capability_id rq) (rq_estimate rq) obligations)
      (\<lambda>res. case res of
        Inl e \<Rightarrow>
          ignoring (apply_run_state_transition_if_configured (h_run_state h) (rq_scope rq) (rq_invocation_id rq) e)
            (Ready (Err e))
      | Inr outcm \<Rightarrow>
          await (spawn_process h spawn (rq_context rq) rq descriptor outcm) (\<lambda>res. case res of
            Inl e \<Rightarrow>
              ignoring (abort_obligations h PhaseSpawn (rq_context rq) (rq_capability_id rq) (rq_estimate rq) obligations outcm)
                (refuse (h_run_state h) rq ''ProcessSpawn'' (CiProcess e))
          | Inr process \<Rightarrow> ignoring (complete_run_if_configured h rq) (Ready (Ok \<lparr>sr_process = process\<rparr>))))"

definition spawn_json ::
  "('d, 'v, 's, 't, 'w) CapabilityHost \<Rightarrow> ('d, 'v) CapabilitySpawnRequest \<Rightarrow> ('w, ('d CapabilityInvocationError, 'd CapabilitySpawnResult) result) async" where
  "spawn_json h rq =
    (case h_process_manager h of
       None \<Rightarrow> Ready (Err (CiProcessManagerMissing (rq_capability_id rq)))
     | Some spawn \<Rightarrow>
         begin_invocation h ActSpawn (h_authorize_spawn h) rq (spawn_allowed h spawn rq))"

section \<open>Leases of an approval\<close>

definition lease_matches :: "ResourceScope \<Rightarrow> CapabilityId \<Rightarrow> InvocationFingerprint \<Rightarrow> 'd CapabilityLease \<Rightarrow> bool" where
  "lease_matches scope capability_id fp l =
    (lease_scope l = scope \<and> grant_capability (lease_grant l) = capability_id \<and> lease_fingerprint l = Some fp)"

definition matching_approval_lease ::
  "('d, 'w) CapabilityLeaseStore \<Rightarrow> 'd ExecutionContext \<Rightarrow> CapabilityId \<Rightarrow> InvocationFingerprint
     \<Rightarrow> ('w, 'd CapabilityLease option) async" where
  "matching_approval_lease cls ctx capability_id fp =
    await (cls_active_leases_for_context cls ctx) (\<lambda>leases.
      Ready (List.find (lease_matches (ctx_resource_scope ctx) capability_id fp) leases))"

definition matching_claimed_approval_lease_for_auth_resume ::
  "('d, 'w) CapabilityLeaseStore \<Rightarrow> ResourceScope \<Rightarrow> CapabilityId \<Rightarrow> InvocationFingerprint
     \<Rightarrow> ('w, 'd CapabilityLease option) async" where
  "matching_claimed_approval_lease_for_auth_resume cls scope capability_id fp =
    await (cls_leases_for_scope cls scope) (\<lambda>leases.
      Ready (List.find (\<lambda>l. lease_matches scope capability_id fp l \<and> lease_status l = LeaseClaimed) leases))"

definition cleanup_claimed_lease_after_resume_error ::
  "('d, 'w) CapabilityLeaseStore \<Rightarrow> ResourceScope \<Rightarrow> CapabilityGrantId
     \<Rightarrow> 'd CapabilityInvocationError \<Rightarrow> ('w, unit) async" where
  "cleanup_claimed_lease_after_resume_error cls scope i e =
    (if is_block_auth_transition e then ignoring (cls_abort_dispatch_claimed cls scope i) (Ready ())
     else ignoring (cls_revoke cls scope i) (Ready ()))"

text \<open>A claim that fails: lost to another resume, or a failure of this run.\<close>

definition claim_failed ::
  "('d, 'w) RunStateStore \<Rightarrow> ('d, 'v, 'z) CapabilityInvocationRequest_scheme \<Rightarrow> CapabilityLeaseError \<Rightarrow> ('w, ('d CapabilityInvocationError, 'r) result) async" where
  "claim_failed rs rq e =
    (if claim_error_may_be_concurrent_resume e then Ready (Err (CiLease e))
     else refuse (Some rs) rq ''ApprovalLeaseClaim'' (CiLease e))"

section \<open>The dispatch of a resumed capability\<close>

datatype ('d, 'w) ResumedLeaseState =
    PendingClaim "('d, 'w) CapabilityLeaseStore" CapabilityGrantId InvocationFingerprint
  | AlreadyClaimed "('d, 'w) CapabilityLeaseStore" "'d CapabilityLease"
  | NoPriorLease

text \<open>A refused authorization is terminal for a lease that was claimed before it ran.\<close>

definition revoke_already_claimed ::
  "('d, 'w) ResumedLeaseState \<Rightarrow> ResourceScope \<Rightarrow> ('w, unit) async" where
  "revoke_already_claimed lease_state scope =
    (case lease_state of
       AlreadyClaimed cls l \<Rightarrow> ignoring (cls_revoke cls scope (lease_id l)) (Ready ())
     | _ \<Rightarrow> Ready ())"

text \<open>The lease this resume goes on with, if the approval gave one.\<close>

definition claim_resumed ::
  "('d, 'w) ResumedLeaseState \<Rightarrow> ('d, 'w) RunStateStore \<Rightarrow> ('d, 'v, 'z) CapabilityInvocationRequest_scheme
     \<Rightarrow> ('w, ('d CapabilityInvocationError, (('d, 'w) CapabilityLeaseStore \<times> 'd CapabilityLease) option) result) async" where
  "claim_resumed lease_state rs rq =
    (case lease_state of
       PendingClaim cls i fp \<Rightarrow>
         await (cls_claim cls (rq_scope rq) i fp) (\<lambda>res. case res of
           Inl e \<Rightarrow> claim_failed rs rq e
         | Inr claimed \<Rightarrow> Ready (Ok (Some (cls, claimed))))
     | AlreadyClaimed cls l \<Rightarrow> Ready (Ok (Some (cls, l)))
     | NoPriorLease \<Rightarrow> Ready (Ok None))"

definition on_claimed ::
  "(('d, 'w) CapabilityLeaseStore \<times> 'd CapabilityLease) option \<Rightarrow> (('d, 'w) CapabilityLeaseStore \<Rightarrow> CapabilityGrantId \<Rightarrow> ('w, 'a) async)
     \<Rightarrow> ('w, unit) async" where
  "on_claimed claimed f = (case claimed of None \<Rightarrow> Ready () | Some (cls, l) \<Rightarrow> ignoring (f cls (lease_id l)) (Ready ()))"

definition resumed_failed ::
  "('d, 'w) RunStateStore \<Rightarrow> ('d, 'v, 'z) CapabilityInvocationRequest_scheme \<Rightarrow> (('d, 'w) CapabilityLeaseStore \<times> 'd CapabilityLease) option
     \<Rightarrow> 'd CapabilityInvocationError \<Rightarrow> ('w, ('d CapabilityInvocationError, 'r) result) async" where
  "resumed_failed rs rq claimed e =
    ignoring (apply_run_state_transition_if_configured (Some rs) (rq_scope rq) (rq_invocation_id rq) e)
      (ignoring (on_claimed claimed (\<lambda>cls i. cleanup_claimed_lease_after_resume_error cls (rq_scope rq) i e))
        (Ready (Err e)))"

definition resumed_completed ::
  "('d, 'v, 's, 't, 'w) CapabilityHost \<Rightarrow> ('d, 'w) RunStateStore \<Rightarrow> ('d, 'v, 'z) CapabilityInvocationRequest_scheme
     \<Rightarrow> 'd ExecutionContext \<Rightarrow> 'd Obligation list \<Rightarrow> (('d, 'w) CapabilityLeaseStore \<times> 'd CapabilityLease) option
     \<Rightarrow> ('d, 'v) CapabilityDispatchResult \<Rightarrow> ('w, ('d CapabilityInvocationError, ('d, 'v) CapabilityInvocationResult) result) async" where
  "resumed_completed h rs rq ctx obligations claimed dispatch =
    await (complete_dispatch_obligations h PhaseResume ctx (rq_capability_id rq) (rq_estimate rq) obligations dispatch)
      (\<lambda>res. case res of
        Inl e \<Rightarrow>
          ignoring (abort_obligations h PhaseResume ctx (rq_capability_id rq) (rq_estimate rq) obligations
              CapabilityObligationOutcome_default)
            (ignoring (fail_run_if_configured (Some rs) (rq_scope rq) (rq_invocation_id rq) (obligation_invocation_error_kind e))
              (ignoring (on_claimed claimed (\<lambda>cls i. cls_revoke cls (rq_scope rq) i)) (Ready (Err e))))
      | Inr dispatch' \<Rightarrow>
          ignoring (on_claimed claimed (\<lambda>cls i. cls_consume cls (rq_scope rq) i))
            (ignoring (complete_run_after_side_effect rs (rq_scope rq) (rq_invocation_id rq))
              (Ready (Ok \<lparr>ir_dispatch = dispatch'\<rparr>))))"

definition dispatch_claimed ::
  "('d, 'v, 's, 't, 'w) CapabilityHost \<Rightarrow> ('d, 'w) RunStateStore \<Rightarrow> ('d, 'v, 'z) CapabilityInvocationRequest_scheme
     \<Rightarrow> 'd ExecutionContext \<Rightarrow> 'd Obligation list \<Rightarrow> (('d, 'w) CapabilityLeaseStore \<times> 'd CapabilityLease) option \<Rightarrow> ('w, ('d CapabilityInvocationError, ('d, 'v) CapabilityInvocationResult) result) async" where
  "dispatch_claimed h rs rq ctx obligations claimed =
    await (prepare_obligations h PhaseResume ctx (rq_capability_id rq) (rq_estimate rq) obligations) (\<lambda>res. case res of
      Inl e \<Rightarrow> resumed_failed rs rq claimed e
    | Inr outcm \<Rightarrow>
        await (h_dispatcher h (dispatch_request ctx (rq_capability_id rq) (rq_estimate rq) (rq_input rq) outcm)) (\<lambda>res. case res of
          Inl de \<Rightarrow>
            ignoring (abort_obligations h PhaseResume ctx (rq_capability_id rq) (rq_estimate rq) obligations outcm)
              (resumed_failed rs rq claimed
                (invocation_error_of_dispatch (enrich_dispatch_error_credential_requirements de obligations)))
        | Inr dispatch \<Rightarrow> resumed_completed h rs rq ctx obligations claimed dispatch))"

definition dispatch_resumed_capability ::
  "('d, 'v, 's, 't, 'w) CapabilityHost \<Rightarrow> ('d, 'w) RunStateStore \<Rightarrow> ('d, 'v, 'z) CapabilityInvocationRequest_scheme
     \<Rightarrow> 'd ExecutionContext \<Rightarrow> ('d, 's, 't) CapabilityDescriptor \<Rightarrow> ('d, 'w) ResumedLeaseState
     \<Rightarrow> ('w, ('d CapabilityInvocationError, ('d, 'v) CapabilityInvocationResult) result) async" where
  "dispatch_resumed_capability h rs rq ctx descriptor lease_state =
    await (h_authorize_dispatch h ctx descriptor (rq_estimate rq) (rq_trust_decision rq)) (\<lambda>decision. case decision of
      Allow obligations \<Rightarrow>
        try_await (claim_resumed lease_state rs rq) (dispatch_claimed h rs rq ctx obligations)
    | Deny reason \<Rightarrow>
        ignoring (fail_run_if_configured (Some rs) (rq_scope rq) (rq_invocation_id rq) ''AuthorizationDenied'')
          (ignoring (revoke_already_claimed lease_state (rq_scope rq))
            (Ready (Err (CiAuthorizationDenied (rq_capability_id rq) reason))))
    | RequireApproval _ \<Rightarrow>
        ignoring (fail_run_if_configured (Some rs) (rq_scope rq) (rq_invocation_id rq) ''AuthorizationRequiresApproval'')
          (ignoring (revoke_already_claimed lease_state (rq_scope rq))
            (Ready (Err (CiAuthorizationRequiresApproval (rq_capability_id rq))))))"

section \<open>Resuming\<close>

definition from_run_state :: "('w, (RunStateError, 'a) result) async \<Rightarrow> ('w, ('d CapabilityInvocationError, 'a) result) async" where
  "from_run_state p = await p (\<lambda>res. Ready (map_sum CiRunState id res))"

text \<open>The run record of the request, its actor and its status.\<close>

definition blocked_run ::
  "('d, 'w) RunStateStore \<Rightarrow> ('d, 'v, 'z) CapabilityInvocationRequest_scheme \<Rightarrow> RunStatus
     \<Rightarrow> (RunRecord \<Rightarrow> ('w, ('d CapabilityInvocationError, 'r) result) async)
     \<Rightarrow> ('w, ('d CapabilityInvocationError, 'r) result) async" where
  "blocked_run rs rq expected rest =
    try_await (from_run_state (rst_get rs (rq_scope rq) (rq_invocation_id rq))) (\<lambda>found. case found of
      None \<Rightarrow> Ready (Err (CiRunState (UnknownInvocation (rq_invocation_id rq))))
    | Some run \<Rightarrow>
        if run_actor run \<noteq> ctx_authenticated_actor_user_id (rq_context rq)
        then Ready (Err (CiAuthorizationDenied (rq_capability_id rq) PolicyDenied))
        else if run_status run \<noteq> expected
        then Ready (Err (CiResumeNotBlocked (rq_capability_id rq) (run_status run)))
        else rest run)"

text \<open>The approval record of the request: approved, for this invocation, with this fingerprint.\<close>

definition approved_request ::
  "('d, 'w) RunStateStore \<Rightarrow> ('d, 'w) ApprovalRequestStore \<Rightarrow> CapabilityActionKind
     \<Rightarrow> ('d, 'v, 'z) CapabilityInvocationRequest_scheme \<Rightarrow> ApprovalRequestId \<Rightarrow> InvocationFingerprint
     \<Rightarrow> ('w, ('d CapabilityInvocationError, 'r) result) async \<Rightarrow> ('w, ('d CapabilityInvocationError, 'r) result) async" where
  "approved_request rs ars kind rq approval_request_id fp rest =
    try_await (from_run_state (aps_get ars (rq_scope rq) approval_request_id)) (\<lambda>found. case found of
      None \<Rightarrow> Ready (Err (CiRunState (UnknownApprovalRequest approval_request_id)))
    | Some approval \<Rightarrow>
        if apr_status approval \<noteq> ApApproved
        then (if apr_status approval \<noteq> ApPending
              then refuse (Some rs) rq (approval_not_approved_error_kind (apr_status approval))
                (CiApprovalNotApproved (rq_capability_id rq) (apr_status approval))
              else Ready (Err (CiApprovalNotApproved (rq_capability_id rq) (apr_status approval))))
        else case validate_approval_request_matches_invocation (apr_request approval) (rq_context rq)
                    (rq_capability_id rq) (rq_estimate rq) kind of
          Inl e \<Rightarrow> refuse (Some rs) rq ''ApprovalRequestMismatch'' e
        | Inr _ \<Rightarrow>
            if ar_invocation_fingerprint (apr_request approval) \<noteq> Some fp
            then refuse (Some rs) rq ''InvocationFingerprintMismatch'' (CiApprovalFingerprintMismatch (rq_capability_id rq))
            else rest)"

text \<open>The opening of \<open>resume_json\<close> and \<open>resume_spawn_json\<close>, up to the lease.\<close>

definition begin_resume ::
  "('d, 'v, 's, 't, 'w) CapabilityHost \<Rightarrow> CapabilityActionKind \<Rightarrow> ('d, 'v) CapabilityResumeRequest
     \<Rightarrow> (('d, 'w) RunStateStore \<Rightarrow> ('d, 'w) CapabilityLeaseStore \<Rightarrow> ('d, 's, 't) CapabilityDescriptor \<Rightarrow> InvocationFingerprint
           \<Rightarrow> 'd CapabilityLease \<Rightarrow> ('w, ('d CapabilityInvocationError, 'r) result) async)
     \<Rightarrow> ('w, ('d CapabilityInvocationError, 'r) result) async" where
  "begin_resume h kind rq rest =
    (case (h_run_state h, h_approval_requests h, h_capability_leases h) of
       (None, _, _) \<Rightarrow> Ready (Err (CiResumeStoreMissing (rq_capability_id rq) ''run_state''))
     | (Some rs, None, _) \<Rightarrow> Ready (Err (CiResumeStoreMissing (rq_capability_id rq) ''approval_requests''))
     | (Some rs, Some ars, None) \<Rightarrow> Ready (Err (CiResumeStoreMissing (rq_capability_id rq) ''capability_leases''))
     | (Some rs, Some ars, Some cls) \<Rightarrow>
         if \<not> is_ok (ExecutionContext_validate (rq_context rq))
         then Ready (Err (CiAuthorizationDenied (rq_capability_id rq) InternalInvariantViolation))
         else case invocation_fingerprint_for_kind h kind rq of
           Inl src \<Rightarrow> Ready (Err (CiInvocationFingerprint (rq_capability_id rq) src))
         | Inr fp \<Rightarrow>
             blocked_run rs rq BlockedApproval (\<lambda>run.
               case resume_context_mismatch_kind (run_capability_id run \<noteq> rq_capability_id rq)
                      (run_approval_request_id run \<noteq> Some (rq_approval_request_id rq)) of
                 Some kind \<Rightarrow>
                   refuse (Some rs) rq ''ResumeContextMismatch'' (CiResumeContextMismatch (rq_capability_id rq) kind)
               | None \<Rightarrow>
                   approved_request rs ars kind rq (rq_approval_request_id rq) fp (
                     case h_registry h (rq_capability_id rq) of
                       None \<Rightarrow> refuse (Some rs) rq ''UnknownCapability'' (CiUnknownCapability (rq_capability_id rq))
                     | Some descriptor \<Rightarrow>
                         await (matching_approval_lease cls (rq_context rq) (rq_capability_id rq) fp) (\<lambda>found.
                           case found of
                             None \<Rightarrow> refuse (Some rs) rq ''ApprovalLeaseMissing'' (CiApprovalLeaseMissing (rq_capability_id rq))
                           | Some l \<Rightarrow> rest rs cls descriptor fp l))))"

definition resume_json ::
  "('d, 'v, 's, 't, 'w) CapabilityHost \<Rightarrow> ('d, 'v) CapabilityResumeRequest \<Rightarrow> ('w, ('d CapabilityInvocationError, ('d, 'v) CapabilityInvocationResult) result) async" where
  "resume_json h rq =
    begin_resume h ActDispatch rq (\<lambda>rs cls descriptor fp l.
      dispatch_resumed_capability h rs rq (push_grant (lease_grant l) (rq_context rq)) descriptor
        (PendingClaim cls (lease_id l) fp))"

section \<open>Resuming after authentication\<close>

text \<open>The winner moves the lease from claimed to dispatching.\<close>

definition begin_dispatch ::
  "('d, 'w) CapabilityLeaseStore \<Rightarrow> ('d, 'w) RunStateStore \<Rightarrow> ('d, 'v, 'z) CapabilityInvocationRequest_scheme \<Rightarrow> InvocationFingerprint
     \<Rightarrow> 'd CapabilityLease \<Rightarrow> ('w, ('d CapabilityInvocationError, 'd CapabilityLease) result) async" where
  "begin_dispatch cls rs rq fp l =
    await (cls_begin_dispatch_claimed cls (rq_scope rq) (lease_id l) fp) (\<lambda>res. case res of
      Inl e \<Rightarrow> claim_failed rs rq e
    | Inr dispatching \<Rightarrow> Ready (Ok dispatching))"

definition acquire_lease ::
  "('d, 'w) CapabilityLeaseStore \<Rightarrow> ('d, 'w) RunStateStore \<Rightarrow> ('d, 'v, 'z) CapabilityInvocationRequest_scheme \<Rightarrow> InvocationFingerprint
     \<Rightarrow> ('w, ('d CapabilityInvocationError, 'd CapabilityLease) result) async" where
  "acquire_lease cls rs rq fp =
    await (matching_approval_lease cls (rq_context rq) (rq_capability_id rq) fp) (\<lambda>active. case active of
      Some l \<Rightarrow>
        await (cls_claim cls (rq_scope rq) (lease_id l) fp) (\<lambda>res. case res of
          Inl e \<Rightarrow> claim_failed rs rq e
        | Inr claimed \<Rightarrow> begin_dispatch cls rs rq fp claimed)
    | None \<Rightarrow>
        await (matching_claimed_approval_lease_for_auth_resume cls (rq_scope rq) (rq_capability_id rq) fp)
          (\<lambda>claimed. case claimed of
            Some l \<Rightarrow> begin_dispatch cls rs rq fp l
          | None \<Rightarrow> refuse (Some rs) rq ''ApprovalLeaseMissing'' (CiApprovalLeaseMissing (rq_capability_id rq))))"

definition auth_resume_approved ::
  "('d, 'v, 's, 't, 'w) CapabilityHost \<Rightarrow> ('d, 'w) RunStateStore \<Rightarrow> ('d, 'v, 'z) CapabilityInvocationRequest_scheme
     \<Rightarrow> ('d, 's, 't) CapabilityDescriptor \<Rightarrow> ApprovalRequestId \<Rightarrow> ('w, ('d CapabilityInvocationError, ('d, 'v) CapabilityInvocationResult) result) async" where
  "auth_resume_approved h rs rq descriptor approval_request_id =
    (case (h_approval_requests h, h_capability_leases h) of
       (None, _) \<Rightarrow> Ready (Err (CiResumeStoreMissing (rq_capability_id rq) ''approval_requests''))
     | (Some ars, None) \<Rightarrow> Ready (Err (CiResumeStoreMissing (rq_capability_id rq) ''capability_leases''))
     | (Some ars, Some cls) \<Rightarrow>
         (case invocation_fingerprint_for_kind h ActDispatch rq of
            Inl src \<Rightarrow> Ready (Err (CiInvocationFingerprint (rq_capability_id rq) src))
          | Inr fp \<Rightarrow>
              approved_request rs ars ActDispatch rq approval_request_id fp (
                try_await (acquire_lease cls rs rq fp) (\<lambda>claimed.
                  dispatch_resumed_capability h rs rq (push_grant (lease_grant claimed) (rq_context rq)) descriptor
                    (AlreadyClaimed cls claimed)))))"

definition auth_resume_json ::
  "('d, 'v, 's, 't, 'w) CapabilityHost \<Rightarrow> ('d, 'v) CapabilityAuthResumeRequest \<Rightarrow> ('w, ('d CapabilityInvocationError, ('d, 'v) CapabilityInvocationResult) result) async" where
  "auth_resume_json h rq =
    (case h_run_state h of
       None \<Rightarrow> Ready (Err (CiResumeStoreMissing (rq_capability_id rq) ''run_state''))
     | Some rs \<Rightarrow>
         if \<not> is_ok (ExecutionContext_validate (rq_context rq))
         then Ready (Err (CiAuthorizationDenied (rq_capability_id rq) InternalInvariantViolation))
         else blocked_run rs rq BlockedAuth (\<lambda>run.
           if run_capability_id run \<noteq> rq_capability_id rq
           then refuse (Some rs) rq ''ResumeContextMismatch''
                  (CiResumeContextMismatch (rq_capability_id rq) MismatchCapabilityId)
           else case h_registry h (rq_capability_id rq) of
             None \<Rightarrow> refuse (Some rs) rq ''UnknownCapability'' (CiUnknownCapability (rq_capability_id rq))
           | Some descriptor \<Rightarrow>
               (case rq_prior_approval_request_id rq of
                  Some approval_request_id \<Rightarrow> auth_resume_approved h rs rq descriptor approval_request_id
                | None \<Rightarrow> dispatch_resumed_capability h rs rq (rq_context rq) descriptor NoPriorLease)))"

section \<open>Resuming a spawn\<close>

definition spawn_claimed ::
  "('d, 'v, 's, 't, 'w) CapabilityHost \<Rightarrow> (('d, 'v) ProcessStart \<Rightarrow> ('w, ('d ProcessError, 'd ProcessRecord) result) async)
     \<Rightarrow> ('d, 'w) RunStateStore \<Rightarrow> ('d, 'w) CapabilityLeaseStore \<Rightarrow> ('d, 'v, 'z) CapabilityInvocationRequest_scheme
     \<Rightarrow> 'd ExecutionContext \<Rightarrow> ('d, 's, 't) CapabilityDescriptor \<Rightarrow> 'd Obligation list \<Rightarrow> 'd CapabilityLease \<Rightarrow> ('w, ('d CapabilityInvocationError, 'd CapabilitySpawnResult) result) async" where
  "spawn_claimed h spawn rs cls rq ctx descriptor obligations claimed =
    await (prepare_obligations h PhaseSpawn ctx (rq_capability_id rq) (rq_estimate rq) obligations) (\<lambda>res. case res of
      Inl e \<Rightarrow>
        ignoring (apply_run_state_transition_if_configured (Some rs) (rq_scope rq) (rq_invocation_id rq) e)
          (ignoring (cls_revoke cls (rq_scope rq) (lease_id claimed)) (Ready (Err e)))
    | Inr outcm \<Rightarrow>
        await (spawn_process h spawn ctx rq descriptor outcm) (\<lambda>res. case res of
          Inl e \<Rightarrow>
            ignoring (abort_obligations h PhaseSpawn ctx (rq_capability_id rq) (rq_estimate rq) obligations outcm)
              (ignoring (fail_run_if_configured (Some rs) (rq_scope rq) (rq_invocation_id rq) ''ProcessSpawn'')
                (ignoring (cls_revoke cls (rq_scope rq) (lease_id claimed)) (Ready (Err (CiProcess e)))))
        | Inr process \<Rightarrow>
            ignoring (cls_consume cls (rq_scope rq) (lease_id claimed))
              (ignoring (complete_run_after_side_effect rs (rq_scope rq) (rq_invocation_id rq))
                (Ready (Ok \<lparr>sr_process = process\<rparr>)))))"

definition resume_spawn_json ::
  "('d, 'v, 's, 't, 'w) CapabilityHost \<Rightarrow> ('d, 'v) CapabilityResumeRequest \<Rightarrow> ('w, ('d CapabilityInvocationError, 'd CapabilitySpawnResult) result) async" where
  "resume_spawn_json h rq =
    (case h_process_manager h of
       None \<Rightarrow> Ready (Err (CiProcessManagerMissing (rq_capability_id rq)))
     | Some spawn \<Rightarrow>
         begin_resume h ActSpawn rq (\<lambda>rs cls descriptor fp l.
           let ctx = push_grant (lease_grant l) (rq_context rq)
           in await (h_authorize_spawn h ctx descriptor (rq_estimate rq) (rq_trust_decision rq)) (\<lambda>decision. case decision of
             Allow obligations \<Rightarrow>
               await (cls_claim cls (rq_scope rq) (lease_id l) fp) (\<lambda>res. case res of
                 Inl e \<Rightarrow> claim_failed rs rq e
               | Inr claimed \<Rightarrow> spawn_claimed h spawn rs cls rq ctx descriptor obligations claimed)
           | Deny reason \<Rightarrow>
               refuse (Some rs) rq ''AuthorizationDenied'' (CiAuthorizationDenied (rq_capability_id rq) reason)
           | RequireApproval _ \<Rightarrow>
               refuse (Some rs) rq ''AuthorizationRequiresApproval'' (CiAuthorizationRequiresApproval (rq_capability_id rq)))))"

end
