(* ===== verification/Capability_Memory.thy ===== *)
theory Capability_Memory
  imports Capability_Host Authorization
begin

text \<open>
  A capability host over the in-memory stores. The run records, the approval requests and the
  leases are the stores of \<open>ironclaw_run_state\<close> and \<open>ironclaw_authorization\<close>; the dispatcher, the
  authorizer, the obligation handler and the process manager are ports, each call of which is
  entered in a journal with its answer.
\<close>

section \<open>The world\<close>

datatype ('d, 'v, 's, 't) PortCall =
    Authorized CapabilityActionKind "'d ExecutionContext" "('d, 's, 't) CapabilityDescriptor" "'d ResourceEstimate"
      "'d TrustDecision" "'d Decision"
  | Prepared "'d CapabilityObligationRequest" "('d CapabilityObligationError, 'd CapabilityObligationOutcome) result"
  | Dispatched "('d, 'v) CapabilityDispatchRequest" "(DispatchError, ('d, 'v) CapabilityDispatchResult) result"
  | Started "('d, 'v) ProcessStart" "('d ProcessError, 'd ProcessRecord) result"
  | CompletedDispatch "('d, 'v) CapabilityObligationCompletionRequest"
  | Aborted "'d CapabilityObligationAbortRequest"

record ('d, 'v, 's, 't, 'e) host_world =
  hw_runs :: RunStore
  hw_approvals :: "'d ApprovalStore"
  hw_leases :: "'d LeaseStore"
  hw_clock :: instant
  hw_env :: 'e
  hw_journal :: "('d, 'v, 's, 't) PortCall list"

section \<open>The stores\<close>

definition on_runs where
  "on_runs f = call (\<lambda>w. case f (hw_runs w) of (res, runs) \<Rightarrow> (res, w\<lparr>hw_runs := runs\<rparr>))"

definition on_approvals where
  "on_approvals f = call (\<lambda>w. case f (hw_approvals w) of (res, approvals) \<Rightarrow> (res, w\<lparr>hw_approvals := approvals\<rparr>))"

definition on_leases where
  "on_leases f = call (\<lambda>w. case f (hw_clock w) (hw_leases w) of (res, leases) \<Rightarrow> (res, w\<lparr>hw_leases := leases\<rparr>))"

definition memory_run_state :: "('d, ('d, 'v, 's, 't, 'e) host_world) RunStateStore" where
  "memory_run_state =
    \<lparr>rst_start = (\<lambda>start. on_runs (runs_start start)),
     rst_block_approval = (\<lambda>scope i approval. on_runs (runs_block_approval scope i approval)),
     rst_block_auth = (\<lambda>scope i ekind. on_runs (runs_block_auth scope i ekind)),
     rst_complete = (\<lambda>scope i. on_runs (runs_complete scope i)),
     rst_fail = (\<lambda>scope i ekind. on_runs (runs_fail scope i ekind)),
     rst_get = (\<lambda>scope i. on_runs (\<lambda>runs. (Ok (runs_get scope i runs), runs)))\<rparr>"

definition memory_approval_requests :: "('d, ('d, 'v, 's, 't, 'e) host_world) ApprovalRequestStore" where
  "memory_approval_requests =
    \<lparr>aps_save_pending = (\<lambda>scope approval. on_approvals (approvals_save_pending scope approval)),
     aps_get = (\<lambda>scope i. on_approvals (\<lambda>approvals. (Ok (approvals_get scope i approvals), approvals))),
     aps_discard_pending = (\<lambda>scope i. on_approvals (approvals_discard_pending scope i))\<rparr>"

definition memory_capability_leases :: "('d, ('d, 'v, 's, 't, 'e) host_world) CapabilityLeaseStore" where
  "memory_capability_leases =
    \<lparr>cls_revoke = (\<lambda>scope i. on_leases (\<lambda>now leases. mem_revoke leases scope i)),
     cls_claim = (\<lambda>scope i fp. on_leases (\<lambda>now leases. mem_claim now leases scope i fp)),
     cls_consume = (\<lambda>scope i. on_leases (\<lambda>now leases. mem_consume now leases scope i)),
     cls_begin_dispatch_claimed = (\<lambda>scope i fp. on_leases (\<lambda>now leases. mem_begin_dispatch_claimed now leases scope i fp)),
     cls_abort_dispatch_claimed = (\<lambda>scope i. on_leases (\<lambda>now leases. mem_abort_dispatch_claimed leases scope i)),
     cls_leases_for_scope = (\<lambda>scope. on_leases (\<lambda>now leases. (leases_for_scope leases scope, leases))),
     cls_active_leases_for_context = (\<lambda>ctx. on_leases (\<lambda>now leases. (active_leases_for_context now leases ctx, leases)))\<rparr>"

section \<open>The ports\<close>

text \<open>What stands behind the ports may keep a state of its own, \<open>hw_env\<close>.\<close>

record ('d, 'v, 's, 't, 'e) host_ports =
  po_registry :: "CapabilityId \<Rightarrow> ('d, 's, 't) CapabilityDescriptor option"
  po_authorize :: "CapabilityActionKind \<Rightarrow> 'd ExecutionContext \<Rightarrow> ('d, 's, 't) CapabilityDescriptor \<Rightarrow> 'd ResourceEstimate
    \<Rightarrow> 'd TrustDecision \<Rightarrow> ('d, 'v, 's, 't, 'e) host_world \<Rightarrow> 'd Decision"
  po_dispatch :: "('d, 'v) CapabilityDispatchRequest \<Rightarrow> 'e \<Rightarrow> (DispatchError, ('d, 'v) CapabilityDispatchResult) result \<times> 'e"
  po_spawn :: "('d, 'v) ProcessStart \<Rightarrow> 'e \<Rightarrow> ('d ProcessError, 'd ProcessRecord) result \<times> 'e"
  po_prepare :: "'d CapabilityObligationRequest \<Rightarrow> 'e \<Rightarrow> ('d CapabilityObligationError, 'd CapabilityObligationOutcome) result \<times> 'e"
  po_abort :: "'d CapabilityObligationAbortRequest \<Rightarrow> 'e \<Rightarrow> ('d CapabilityObligationError, unit) result \<times> 'e"
  po_complete_dispatch :: "('d, 'v) CapabilityObligationCompletionRequest \<Rightarrow> 'e
    \<Rightarrow> ('d CapabilityObligationError, ('d, 'v) CapabilityDispatchResult) result \<times> 'e"
  po_fingerprint :: "CapabilityActionKind \<Rightarrow> ResourceScope \<Rightarrow> CapabilityId \<Rightarrow> 'd ResourceEstimate \<Rightarrow> 'v
    \<Rightarrow> (HostApiError, InvocationFingerprint) result"
  po_command :: "'v \<Rightarrow> string option"
  po_display :: "string \<Rightarrow> CapabilityDisplayText"
  po_new_process_id :: "'e \<Rightarrow> ProcessId \<times> 'e"

definition journaled where
  "journaled op entry =
    call (\<lambda>w. case op (hw_env w) of (res, env) \<Rightarrow> (res, w\<lparr>hw_env := env, hw_journal := hw_journal w @ [entry res]\<rparr>))"

definition journaled_authorizer where
  "journaled_authorizer p kind ctx d estimate trust =
    call (\<lambda>w. let decision = po_authorize p kind ctx d estimate trust w
      in (decision, w\<lparr>hw_journal := hw_journal w @ [Authorized kind ctx d estimate trust decision]\<rparr>))"

definition memory_obligation_handler where
  "memory_obligation_handler p =
    \<lparr>oh_prepare = (\<lambda>request. journaled (po_prepare p request) (Prepared request)),
     oh_abort = (\<lambda>request. journaled (po_abort p request) (\<lambda>_. Aborted request)),
     oh_complete_dispatch = (\<lambda>request. journaled (po_complete_dispatch p request) (\<lambda>_. CompletedDispatch request))\<rparr>"

definition memory_host ::
  "('d, 'v, 's, 't, 'e) host_ports \<Rightarrow> ('d, 'v, 's, 't, ('d, 'v, 's, 't, 'e) host_world) CapabilityHost" where
  "memory_host p =
    with_obligation_handler (memory_obligation_handler p)
      (with_process_manager (\<lambda>start. journaled (po_spawn p start) (Started start))
        (with_capability_leases memory_capability_leases
          (with_approval_requests memory_approval_requests
            (with_run_state memory_run_state
              (CapabilityHost_new (po_registry p) (\<lambda>request. journaled (po_dispatch p request) (Dispatched request))
                (journaled_authorizer p ActDispatch) (journaled_authorizer p ActSpawn)
                (po_fingerprint p) (po_command p) (po_display p)
                (\<lambda>w. case po_new_process_id p (hw_env w) of (i, env) \<Rightarrow> (i, w\<lparr>hw_env := env\<rparr>)))))))"

lemma memory_host_ports:
  "memory_host p =
    \<lparr>h_registry = po_registry p,
     h_dispatcher = (\<lambda>request. journaled (po_dispatch p request) (Dispatched request)),
     h_authorize_dispatch = journaled_authorizer p ActDispatch,
     h_authorize_spawn = journaled_authorizer p ActSpawn,
     h_run_state = Some memory_run_state,
     h_approval_requests = Some memory_approval_requests,
     h_run_state_approval_store = None,
     h_capability_leases = Some memory_capability_leases,
     h_process_manager = Some (\<lambda>start. journaled (po_spawn p start) (Started start)),
     h_obligation_handler = Some (memory_obligation_handler p),
     h_fingerprint = po_fingerprint p, h_command = po_command p, h_display = po_display p,
     h_new_process_id = (\<lambda>w. case po_new_process_id p (hw_env w) of (i, env) \<Rightarrow> (i, w\<lparr>hw_env := env\<rparr>))\<rparr>"
  by (simp add: memory_host_def CapabilityHost_new_def with_run_state_def with_approval_requests_def
      with_capability_leases_def with_process_manager_def with_obligation_handler_def)

section \<open>Calls on the host\<close>

datatype ('d, 'v) HostCall =
    CallInvoke "('d, 'v) CapabilityInvocationRequest"
  | CallResume "('d, 'v) CapabilityResumeRequest"
  | CallAuthResume "('d, 'v) CapabilityAuthResumeRequest"
  | CallResumeSpawn "('d, 'v) CapabilityResumeRequest"
  | CallSpawnCapability "('d, 'v) CapabilitySpawnRequest"

datatype ('d, 'v) HostReply = Dispatch_Reply "('d, 'v) CapabilityInvocationResult" | Spawn_Reply "'d CapabilitySpawnResult"

definition replying :: "('a \<Rightarrow> 'b) \<Rightarrow> ('w, ('e, 'a) result) async \<Rightarrow> ('w, ('e, 'b) result) async" where
  "replying f p = await p (\<lambda>res. Ready (map_sum id f res))"

primrec host_call ::
  "('d, 'v, 's, 't, 'w) CapabilityHost \<Rightarrow> ('d, 'v) HostCall
     \<Rightarrow> ('w, ('d CapabilityInvocationError, ('d, 'v) HostReply) result) async" where
  "host_call h (CallInvoke rq) = replying Dispatch_Reply (invoke_json h rq)"
| "host_call h (CallResume rq) = replying Dispatch_Reply (resume_json h rq)"
| "host_call h (CallAuthResume rq) = replying Dispatch_Reply (auth_resume_json h rq)"
| "host_call h (CallResumeSpawn rq) = replying Spawn_Reply (resume_spawn_json h rq)"
| "host_call h (CallSpawnCapability rq) = replying Spawn_Reply (spawn_json h rq)"

end
