(* ===== verification/Capability_Laws.thy ===== *)
theory Capability_Laws
  imports Capability_Memory
begin

text \<open>
  What the capability host promises, whatever runs beside it: complete mediation of dispatches and
  spawns, one dispatch per approval lease, termination, and a race of the authentication bounce.
\<close>

section \<open>Accesses that only keep books\<close>

definition quiet_runs :: "('w \<Rightarrow> 'w \<Rightarrow> bool) \<Rightarrow> ('d, 'w) RunStateStore \<Rightarrow> bool" where
  "quiet_runs R rs = ((\<forall>start. guarantees R (rst_start rs start))
    \<and> (\<forall>s i a. guarantees R (rst_block_approval rs s i a)) \<and> (\<forall>s i k. guarantees R (rst_block_auth rs s i k))
    \<and> (\<forall>s i. guarantees R (rst_complete rs s i)) \<and> (\<forall>s i k. guarantees R (rst_fail rs s i k))
    \<and> (\<forall>s i. guarantees R (rst_get rs s i)))"

definition quiet_approvals :: "('w \<Rightarrow> 'w \<Rightarrow> bool) \<Rightarrow> ('d, 'w) ApprovalRequestStore \<Rightarrow> bool" where
  "quiet_approvals R ars = ((\<forall>s a. guarantees R (aps_save_pending ars s a)) \<and> (\<forall>s i. guarantees R (aps_get ars s i))
    \<and> (\<forall>s i. guarantees R (aps_discard_pending ars s i)))"

definition quiet_leases :: "('w \<Rightarrow> 'w \<Rightarrow> bool) \<Rightarrow> ('d, 'w) CapabilityLeaseStore \<Rightarrow> bool" where
  "quiet_leases R cls = ((\<forall>s i. guarantees R (cls_revoke cls s i)) \<and> (\<forall>s i fp. guarantees R (cls_claim cls s i fp))
    \<and> (\<forall>s i. guarantees R (cls_consume cls s i)) \<and> (\<forall>s i fp. guarantees R (cls_begin_dispatch_claimed cls s i fp))
    \<and> (\<forall>s i. guarantees R (cls_abort_dispatch_claimed cls s i)) \<and> (\<forall>s. guarantees R (cls_leases_for_scope cls s))
    \<and> (\<forall>ctx. guarantees R (cls_active_leases_for_context cls ctx)))"

definition quiet_handler :: "('w \<Rightarrow> 'w \<Rightarrow> bool) \<Rightarrow> ('d, 'v, 'w) CapabilityObligationHandler \<Rightarrow> bool" where
  "quiet_handler R handler = ((\<forall>q. guarantees R (oh_prepare handler q)) \<and> (\<forall>q. guarantees R (oh_abort handler q))
    \<and> (\<forall>q. guarantees R (oh_complete_dispatch handler q)))"

text \<open>Every access but the authorizer's answer, the dispatch and the spawn is a step of \<open>R\<close>.\<close>

definition quiet_host :: "('w \<Rightarrow> 'w \<Rightarrow> bool) \<Rightarrow> ('d, 'v, 's, 't, 'w) CapabilityHost \<Rightarrow> bool" where
  "quiet_host R h = (pred_option (quiet_runs R) (h_run_state h) \<and> pred_option (quiet_approvals R) (h_approval_requests h)
    \<and> pred_option (quiet_leases R) (h_capability_leases h) \<and> pred_option (quiet_handler R) (h_obligation_handler h)
    \<and> pred_option (\<lambda>save. \<forall>s i a. guarantees R (save s i a)) (h_run_state_approval_store h)
    \<and> guarantees R (call (h_new_process_id h)))"

lemma guarantees_ignoring: "guarantees R p \<Longrightarrow> guarantees R q \<Longrightarrow> guarantees R (ignoring p q)"
  unfolding ignoring_def by blast

lemma quiet_runsD:
  assumes "quiet_runs R rs"
  shows "guarantees R (rst_start rs start)" "guarantees R (rst_block_approval rs s i a)"
    "guarantees R (rst_block_auth rs s i k)" "guarantees R (rst_complete rs s i)" "guarantees R (rst_fail rs s i k)"
    "guarantees R (rst_get rs s i)"
  using assms by (simp_all add: quiet_runs_def)

lemma quiet_approvalsD:
  assumes "quiet_approvals R ars"
  shows "guarantees R (aps_save_pending ars s a)" "guarantees R (aps_get ars s i)"
    "guarantees R (aps_discard_pending ars s i)"
  using assms by (simp_all add: quiet_approvals_def)

lemma quiet_leasesD:
  assumes "quiet_leases R cls"
  shows "guarantees R (cls_revoke cls s i)" "guarantees R (cls_claim cls s i fp)" "guarantees R (cls_consume cls s i)"
    "guarantees R (cls_begin_dispatch_claimed cls s i fp)" "guarantees R (cls_abort_dispatch_claimed cls s i)"
    "guarantees R (cls_leases_for_scope cls s)" "guarantees R (cls_active_leases_for_context cls ctx)"
  using assms by (simp_all add: quiet_leases_def)

lemma quiet_handlerD:
  assumes "quiet_handler R handler"
  shows "guarantees R (oh_prepare handler q)" "guarantees R (oh_abort handler q')"
    "guarantees R (oh_complete_dispatch handler q'')"
  using assms by (simp_all add: quiet_handler_def)

lemma quiet_run_steps:
  assumes "pred_option (quiet_runs R) run_state"
  shows "guarantees R (fail_run_if_configured run_state s i k)"
    "guarantees R (apply_run_state_transition_if_configured run_state s i e)"
    "guarantees R (refuse run_state rq k e')"
  using assms quiet_runsD
  by (auto simp: fail_run_if_configured_def apply_run_state_transition_if_configured_def refuse_def
      intro!: guarantees_ignoring split: option.splits CapabilityRunStateTransition.splits)

lemma quiet_complete: "quiet_runs R rs \<Longrightarrow> guarantees R (complete_run_after_side_effect rs s i)"
  by (auto simp: complete_run_after_side_effect_def quiet_runsD intro!: guarantees_ignoring)

lemma quiet_claim_failed: "quiet_runs R rs \<Longrightarrow> guarantees R (claim_failed rs rq e)"
  by (simp add: claim_failed_def quiet_run_steps)

lemma quiet_obligations:
  assumes "quiet_host R h"
  shows "guarantees R (prepare_obligations h phase ctx c est obs)"
    "guarantees R (complete_dispatch_obligations h phase ctx c est obs dispatch)"
    "guarantees R (abort_obligations h phase ctx c est obs outcm)"
  using assms quiet_handlerD
  by (auto simp: quiet_host_def prepare_obligations_def complete_dispatch_obligations_def abort_obligations_def
      intro!: guarantees_ignoring guarantees_await split: option.splits)

lemma quiet_start: "quiet_host R h \<Longrightarrow> guarantees R (start_run h rq)"
  by (auto simp: quiet_host_def start_run_def quiet_runsD intro!: guarantees_await split: option.splits)

lemma quiet_complete_if: "quiet_host R h \<Longrightarrow> guarantees R (complete_run_if_configured h rq)"
  by (auto simp: quiet_host_def complete_run_if_configured_def quiet_complete split: option.splits)

lemma quiet_block:
  assumes "quiet_host R h"
  shows "guarantees R (block_on_approval h rq a)"
  using assms unfolding quiet_host_def block_on_approval_def
  by (auto intro!: guarantees_await guarantees_ignoring quiet_run_steps quiet_runsD quiet_approvalsD
      split: option.splits sum.splits)

lemma quiet_require: "quiet_host R h \<Longrightarrow> guarantees R (require_approval h kind rq fp a)"
  unfolding require_approval_def Let_def
  by (auto intro!: quiet_run_steps quiet_block split: option.splits sum.splits simp: quiet_host_def)

lemma quiet_lease_search:
  assumes "quiet_leases R cls"
  shows "guarantees R (matching_approval_lease cls ctx c fp)"
    "guarantees R (matching_claimed_approval_lease_for_auth_resume cls s c fp)"
    "guarantees R (cleanup_claimed_lease_after_resume_error cls s i e)"
  using quiet_leasesD [OF assms]
  by (auto simp: matching_approval_lease_def matching_claimed_approval_lease_for_auth_resume_def
      cleanup_claimed_lease_after_resume_error_def intro!: guarantees_await guarantees_ignoring)

definition quiet_claim ::
  "('w \<Rightarrow> 'w \<Rightarrow> bool) \<Rightarrow> (('d, 'w) CapabilityLeaseStore \<times> 'd CapabilityLease) option \<Rightarrow> bool" where
  "quiet_claim R claimed = pred_option (\<lambda>(cls, _). quiet_leases R cls) claimed"

lemma try_await_assoc: "try_await (await p f) g = await p (\<lambda>a. try_await (f a) g)"
  by (simp add: try_await_def await_assoc)

lemma try_await_Ready: "try_await (Ready (Inr a)) g = g a" "try_await (Ready (Inl e)) g = Ready (Inl e)"
  by (simp_all add: try_await_def)

lemma try_refuse: "try_await (refuse run_state rq k e) f = refuse run_state rq k e"
  by (simp add: refuse_def ignoring_def try_await_assoc try_await_Ready)

lemma try_claim_failed: "try_await (claim_failed rs rq e) f = claim_failed rs rq e"
  by (simp add: claim_failed_def try_refuse try_await_Ready)

lemma quiet_on_claimed:
  "(\<And>cls l. claimed = Some (cls, l) \<Longrightarrow> guarantees R (f cls (lease_id l))) \<Longrightarrow> guarantees R (on_claimed claimed f)"
  by (auto simp: on_claimed_def intro!: guarantees_ignoring split: option.splits)

lemma quiet_resumed_failed:
  assumes "quiet_runs R rs" and "quiet_claim R claimed"
  shows "guarantees R (resumed_failed rs rq claimed e)"
  using assms unfolding resumed_failed_def quiet_claim_def
  by (auto intro!: guarantees_ignoring quiet_run_steps quiet_on_claimed quiet_lease_search)

lemma quiet_resumed_completed:
  assumes "quiet_host R h" and "quiet_runs R rs" and "quiet_claim R claimed"
  shows "guarantees R (resumed_completed h rs rq ctx obs claimed dispatch)"
  using assms unfolding resumed_completed_def quiet_claim_def
  by (auto intro!: guarantees_await guarantees_ignoring quiet_obligations quiet_run_steps quiet_on_claimed
      quiet_leasesD quiet_complete split: sum.splits)

lemma quiet_from_run_state: "guarantees R p \<Longrightarrow> guarantees R (from_run_state p)"
  by (auto simp: from_run_state_def intro!: guarantees_await)

lemma push_grant_validate: "ExecutionContext_validate (push_grant g ctx) = ExecutionContext_validate ctx"
  by (simp add: push_grant_def ExecutionContext_validate_def Let_def)

lemma push_grant_scope: "ctx_resource_scope (push_grant g ctx) = ctx_resource_scope ctx"
  by (simp add: push_grant_def)

lemma quiet_acquire:
  assumes "quiet_leases R cls" and "quiet_runs R rs"
  shows "guarantees R (acquire_lease cls rs rq fp)"
  using assms unfolding acquire_lease_def begin_dispatch_def
  by (auto intro!: guarantees_await quiet_lease_search quiet_leasesD quiet_claim_failed quiet_run_steps
      split: option.splits sum.splits)

section \<open>Mediation\<close>

text \<open>What a dispatch or a spawn rests on: a decision for this context, and its obligations prepared.\<close>

definition licence ::
  "('d, 'v, 's, 't, 'w) CapabilityHost
     \<Rightarrow> (CapabilityActionKind \<Rightarrow> 'd ExecutionContext \<Rightarrow> ('d, 's, 't) CapabilityDescriptor \<Rightarrow> 'd ResourceEstimate
           \<Rightarrow> 'd Obligation list \<Rightarrow> 'w \<Rightarrow> bool)
     \<Rightarrow> ('d CapabilityObligationRequest \<Rightarrow> 'd CapabilityObligationOutcome \<Rightarrow> 'w \<Rightarrow> bool)
     \<Rightarrow> CapabilityActionKind \<Rightarrow> CapabilityObligationPhase \<Rightarrow> 'd ExecutionContext \<Rightarrow> CapabilityId
     \<Rightarrow> ('d, 's, 't) CapabilityDescriptor \<Rightarrow> 'd ResourceEstimate \<Rightarrow> 'd CapabilityObligationOutcome \<Rightarrow> 'w \<Rightarrow> bool" where
  "licence h allowed prepared kind phase ctx c d est outcm w =
    (\<exists>obs. h_registry h c = Some d \<and> ExecutionContext_validate ctx = Ok () \<and> allowed kind ctx d est obs w
       \<and> (if obs = [] then outcm = CapabilityObligationOutcome_default
          else prepared \<lparr>ob_phase = phase, ob_context = ctx, ob_capability_id = c, ob_estimate = est, ob_obligations = obs\<rparr>
                 outcm w))"

locale mediated_host =
  fixes h :: "('d, 'v, 's, 't, 'w) CapabilityHost" and R :: "'w \<Rightarrow> 'w \<Rightarrow> bool"
    and allowed :: "CapabilityActionKind \<Rightarrow> 'd ExecutionContext \<Rightarrow> ('d, 's, 't) CapabilityDescriptor
      \<Rightarrow> 'd ResourceEstimate \<Rightarrow> 'd Obligation list \<Rightarrow> 'w \<Rightarrow> bool"
    and prepared :: "'d CapabilityObligationRequest \<Rightarrow> 'd CapabilityObligationOutcome \<Rightarrow> 'w \<Rightarrow> bool"
  assumes quiet: "quiet_host R h"
    and stable_allowed: "stable R (allowed kind ctx d est obs)"
    and authorize_dispatch: "ensures R (h_authorize_dispatch h ctx d est trust) (\<lambda>_. True)
      (\<lambda>decision w. \<forall>obs. decision = Allow obs \<longrightarrow> allowed ActDispatch ctx d est obs w)"
    and authorize_spawn: "ensures R (h_authorize_spawn h ctx d est trust) (\<lambda>_. True)
      (\<lambda>decision w. \<forall>obs. decision = Allow obs \<longrightarrow> allowed ActSpawn ctx d est obs w)"
    and prepare: "h_obligation_handler h = Some handler \<Longrightarrow> ensures R (oh_prepare handler q) (\<lambda>_. True)
      (\<lambda>res w. \<forall>outcm. res = Ok outcm \<longrightarrow> prepared q outcm w)"
    and stable_prepared: "stable R (prepared q outcm)"
    and dispatch: "ensures R (h_dispatcher h (dispatch_request ctx c est v outcm))
      (licence h allowed prepared ActDispatch phase ctx c d est outcm) (\<lambda>_ _. True)"
    and spawn: "h_process_manager h = Some spawn \<Longrightarrow> st_scope start = ctx_resource_scope ctx \<Longrightarrow>
      st_grants start = ctx_grants ctx \<Longrightarrow> st_mounts start = unwrap_or (ctx_mounts ctx) (oo_mounts outcm) \<Longrightarrow>
      st_resource_reservation_id start = map_option res_id (oo_resource_reservation outcm) \<Longrightarrow>
      st_extension_id start = desc_provider d \<Longrightarrow> st_runtime start = desc_runtime d \<Longrightarrow>
      ensures R (spawn start)
        (licence h allowed prepared ActSpawn PhaseSpawn ctx (st_capability_id start) d (st_estimated_resources start) outcm)
        (\<lambda>_ _. True)"
begin

abbreviation granted :: "CapabilityActionKind \<Rightarrow> 'd ExecutionContext \<Rightarrow> CapabilityId \<Rightarrow> ('d, 's, 't) CapabilityDescriptor
    \<Rightarrow> 'd ResourceEstimate \<Rightarrow> 'd Obligation list \<Rightarrow> 'w \<Rightarrow> bool" where
  "granted kind ctx c d est obs w \<equiv>
    h_registry h c = Some d \<and> ExecutionContext_validate ctx = Ok () \<and> allowed kind ctx d est obs w"

lemma stable_granted: "stable R (granted kind ctx c d est obs)"
  using stable_allowed unfolding stable_def by blast

lemma stable_licence: "stable R (licence h allowed prepared kind phase ctx c d est outcm)"
  using stable_allowed stable_prepared unfolding stable_def licence_def by (metis (no_types, lifting))

lemma prepare_licence:
  "ensures R (prepare_obligations h phase ctx c est obs) (granted kind ctx c d est obs)
     (\<lambda>res w. \<forall>outcm. res = Ok outcm \<longrightarrow> licence h allowed prepared kind phase ctx c d est outcm w)"
proof (cases "obs = [] \<or> (phase = PhaseSpawn \<and> post_dispatch_obligations obs \<noteq> []) \<or> h_obligation_handler h = None")
  case True
  then show ?thesis by (auto simp: prepare_obligations_def licence_def split: option.splits)
next
  case False
  then obtain handler where handler: "h_obligation_handler h = Some handler" by auto
  let ?q = "\<lparr>ob_phase = phase, ob_context = ctx, ob_capability_id = c, ob_estimate = est, ob_obligations = obs\<rparr>"
  have "ensures R (oh_prepare handler ?q) (granted kind ctx c d est obs)
     (\<lambda>res w. (\<forall>outcm. res = Ok outcm \<longrightarrow> prepared ?q outcm w) \<and> granted kind ctx c d est obs w)"
    using ensures_frame [OF prepare [OF handler] stable_granted] by simp
  then have "ensures R (await (oh_prepare handler ?q)
       (\<lambda>res. Ready (map_sum (prepare_obligation_error_to_invocation c) id res))) (granted kind ctx c d est obs)
     (\<lambda>res w. \<forall>outcm. res = Ok outcm \<longrightarrow> licence h allowed prepared kind phase ctx c d est outcm w)"
    by (rule ensures_await) (use False in \<open>auto simp: licence_def map_sum_def split: sum.splits\<close>)
  moreover have "prepare_obligations h phase ctx c est obs =
     await (oh_prepare handler ?q) (\<lambda>res. Ready (map_sum (prepare_obligation_error_to_invocation c) id res))"
    using False handler by (auto simp: prepare_obligations_def)
  ultimately show ?thesis by simp
qed

lemma quiet_parts:
  "pred_option (quiet_runs R) (h_run_state h)" "pred_option (quiet_approvals R) (h_approval_requests h)"
  "pred_option (quiet_leases R) (h_capability_leases h)" "guarantees R (call (h_new_process_id h))"
  using quiet by (simp_all add: quiet_host_def)

lemma safe_invoke_allowed:
  "safe R (granted ActDispatch (rq_context rq) (rq_capability_id rq) d (rq_estimate rq) obs) (invoke_allowed h rq obs)"
  unfolding invoke_allowed_def
proof (rule safe_await [OF prepare_licence], goal_cases)
  case (1 res)
  have "guarantees R (invoke_completed h rq obs dispatch)" for dispatch
    unfolding invoke_completed_def
    by (auto intro!: guarantees_await guarantees_ignoring quiet_obligations quiet_run_steps quiet_complete_if quiet quiet_parts
        split: sum.splits)
  then have "safe R (licence h allowed prepared ActDispatch PhaseInvoke (rq_context rq) (rq_capability_id rq) d (rq_estimate rq) outcm)
    (await (h_dispatcher h (dispatch_request (rq_context rq) (rq_capability_id rq) (rq_estimate rq) (rq_input rq) outcm))
      (\<lambda>res. case res of
         Inl de \<Rightarrow>
           let e = invocation_error_of_dispatch (enrich_dispatch_error_credential_requirements de obs)
           in ignoring (abort_obligations h PhaseInvoke (rq_context rq) (rq_capability_id rq) (rq_estimate rq) obs outcm)
                (ignoring (apply_run_state_transition_if_configured (h_run_state h) (rq_scope rq) (rq_invocation_id rq) e)
                  (Ready (Err e)))
       | Inr dispatch \<Rightarrow> invoke_completed h rq obs dispatch))" for outcm
    by (intro safe_await [OF dispatch] safe_quiet)
       (auto simp: Let_def intro!: guarantees_ignoring quiet_obligations quiet_run_steps quiet quiet_parts split: sum.splits)
  then show ?case
    by (cases res) (auto intro!: safe_quiet guarantees_ignoring quiet_run_steps quiet_parts elim: safe_pre)
qed

lemma safe_spawn_process:
  assumes "h_process_manager h = Some spawn" and "ctx_resource_scope ctx = rq_scope rq"
  shows "safe R (licence h allowed prepared ActSpawn PhaseSpawn ctx (rq_capability_id rq) d (rq_estimate rq) outcm)
    (spawn_process h spawn ctx rq d outcm)"
  unfolding spawn_process_def
proof (rule safe_after [OF quiet_parts(4) stable_licence], goal_cases)
  case (1 i)
  show ?case
    using spawn [OF assms(1), of "process_start_request rq ctx d outcm i" ctx outcm d] assms(2)
    unfolding safe_def by (simp add: process_start_request_def)
qed

lemma safe_spawn_allowed:
  assumes "h_process_manager h = Some spawn"
  shows "safe R (granted ActSpawn (rq_context rq) (rq_capability_id rq) d (rq_estimate rq) obs) (spawn_allowed h spawn rq d obs)"
  unfolding spawn_allowed_def
proof (rule safe_await [OF prepare_licence], goal_cases)
  case (1 res)
  show ?case
  proof (cases res)
    case (Inl e)
    then show ?thesis by (auto intro!: safe_quiet guarantees_ignoring quiet_run_steps quiet_parts)
  next
    case (Inr outcm)
    show ?thesis
      unfolding Inr sum.case
      by (rule safe_then, rule safe_pre [OF safe_spawn_process [OF assms refl]])
         (auto intro!: guarantees_ignoring quiet_obligations quiet_run_steps quiet_complete_if quiet quiet_parts split: sum.splits)
  qed
qed

lemma safe_begin:
  assumes "\<And>ctx d est trust. ensures R (authorize ctx d est trust) (\<lambda>_. True)
      (\<lambda>decision w. \<forall>obs. decision = Allow obs \<longrightarrow> allowed kind ctx d est obs w)"
    and "\<And>d obs. safe R (granted kind (rq_context rq) (rq_capability_id rq) d (rq_estimate rq) obs) (go d obs)"
  shows "safe R (\<lambda>_. True) (begin_invocation h kind authorize rq go)"
proof -
  have "safe R (\<lambda>_. True) (await (authorize (rq_context rq) d (rq_estimate rq) (rq_trust_decision rq)) (\<lambda>decision.
      case decision of Allow obligations \<Rightarrow> go d obligations
      | Deny reason \<Rightarrow> refuse (h_run_state h) rq ''AuthorizationDenied'' (CiAuthorizationDenied (rq_capability_id rq) reason)
      | RequireApproval approval \<Rightarrow> require_approval h kind rq fp approval))"
    if "h_registry h (rq_capability_id rq) = Some d" "is_ok (ExecutionContext_validate (rq_context rq))" for d fp
  proof (rule safe_await [OF assms(1)], goal_cases)
    case (1 decision)
    have "ExecutionContext_validate (rq_context rq) = Ok ()" using that(2) by (auto simp: is_ok_def split: sum.splits)
    with that(1) have "safe R (\<lambda>w. \<forall>obs. decision = Allow obs \<longrightarrow> allowed kind (rq_context rq) d (rq_estimate rq) obs w) (go d obs)"
      if "decision = Allow obs" for obs
      using that by (intro safe_pre [OF assms(2)]) simp
    then show ?case
      by (cases decision) (auto intro!: safe_quiet [OF quiet_run_steps(3)] safe_quiet [OF quiet_require] quiet quiet_parts)
  qed
  then show ?thesis
    unfolding begin_invocation_def
    by (auto intro!: safe_try quiet_start quiet safe_quiet [OF quiet_run_steps(3)] quiet_parts split: sum.splits option.splits)
qed

lemma safe_invoke: "safe R (\<lambda>_. True) (invoke_json h rq)"
  unfolding invoke_json_def by (rule safe_begin [OF authorize_dispatch safe_invoke_allowed])

lemma safe_spawn: "safe R (\<lambda>_. True) (spawn_json h rq)"
  unfolding spawn_json_def
  by (auto intro!: safe_begin [OF authorize_spawn] safe_spawn_allowed split: option.splits)

lemma safe_dispatch_claimed:
  assumes "quiet_runs R rs" and "quiet_claim R claimed"
  shows "safe R (granted ActDispatch ctx (rq_capability_id rq) d (rq_estimate rq) obs) (dispatch_claimed h rs rq ctx obs claimed)"
  unfolding dispatch_claimed_def
proof (rule safe_await [OF prepare_licence], goal_cases)
  case (1 res)
  show ?case
  proof (cases res)
    case (Inl e)
    then show ?thesis using assms by (auto intro!: safe_quiet quiet_resumed_failed)
  next
    case (Inr outcm)
    show ?thesis
      unfolding Inr sum.case
      by (rule safe_then, rule safe_pre [OF dispatch [folded safe_def]])
         (use assms in \<open>auto intro!: guarantees_ignoring quiet_obligations quiet quiet_resumed_failed quiet_resumed_completed
            split: sum.splits\<close>)
  qed
qed

abbreviation quiet_lease_state :: "('d, 'w) ResumedLeaseState \<Rightarrow> bool" where
  "quiet_lease_state ls \<equiv>
    (case ls of PendingClaim cls _ _ \<Rightarrow> quiet_leases R cls | AlreadyClaimed cls _ \<Rightarrow> quiet_leases R cls | NoPriorLease \<Rightarrow> True)"

lemma safe_dispatch_resumed:
  assumes "quiet_runs R rs" and "quiet_lease_state ls" and "h_registry h (rq_capability_id rq) = Some d"
    and "ExecutionContext_validate ctx = Ok ()"
  shows "safe R (\<lambda>_. True) (dispatch_resumed_capability h rs rq ctx d ls)"
  unfolding dispatch_resumed_capability_def
proof (rule safe_await [OF authorize_dispatch], goal_cases)
  case (1 decision)
  let ?G = "granted ActDispatch ctx (rq_capability_id rq) d (rq_estimate rq)"
  have "safe R (?G obs) (try_await (claim_resumed ls rs rq) (dispatch_claimed h rs rq ctx obs))" for obs
  proof (cases ls)
    case (PendingClaim cls i fp)
    then have leases: "quiet_leases R cls" using assms(2) by simp
    show ?thesis
      unfolding claim_resumed_def PendingClaim ResumedLeaseState.case try_await_assoc
    proof (rule safe_after [OF quiet_leasesD(2) [OF leases] stable_granted])
      show "safe R (?G obs) (try_await (case res of Inl e \<Rightarrow> claim_failed rs rq e
          | Inr claimed \<Rightarrow> Ready (Ok (Some (cls, claimed)))) (dispatch_claimed h rs rq ctx obs))" for res
        using assms(1) leases
        by (cases res) (simp_all add: try_claim_failed try_await_Ready safe_quiet quiet_claim_failed safe_dispatch_claimed quiet_claim_def)
    qed
  qed (use assms(1,2) in \<open>auto simp: claim_resumed_def try_await_def quiet_claim_def intro!: safe_dispatch_claimed\<close>)
  then show ?case
    using assms by (cases decision)
      (auto simp: revoke_already_claimed_def intro!: safe_quiet guarantees_ignoring quiet_run_steps quiet_leasesD
        intro: safe_pre split: ResumedLeaseState.splits)
qed

lemma safe_refuse: "quiet_runs R rs \<Longrightarrow> safe R P (refuse (Some rs) rq k e)"
  by (simp add: safe_quiet quiet_run_steps)

lemma safe_blocked_run:
  assumes "quiet_runs R rs" and "\<And>run. safe R (\<lambda>_. True) (go run)"
  shows "safe R (\<lambda>_. True) (blocked_run rs rq expected go)"
  unfolding blocked_run_def using assms
  by (auto intro!: safe_try quiet_from_run_state quiet_runsD split: option.splits)

lemma safe_approved_request:
  assumes "quiet_runs R rs" and "quiet_approvals R ars" and "safe R (\<lambda>_. True) go"
  shows "safe R (\<lambda>_. True) (approved_request rs ars kind rq i fp go)"
  unfolding approved_request_def using assms
  by (auto intro!: safe_try quiet_from_run_state quiet_approvalsD safe_refuse split: option.splits sum.splits)

lemma safe_begin_resume:
  assumes "\<And>rs cls d fp l. quiet_runs R rs \<Longrightarrow> quiet_leases R cls \<Longrightarrow> h_registry h (rq_capability_id rq) = Some d \<Longrightarrow>
      ExecutionContext_validate (rq_context rq) = Ok () \<Longrightarrow> safe R (\<lambda>_. True) (go rs cls d fp l)"
  shows "safe R (\<lambda>_. True) (begin_resume h kind rq go)"
proof -
  have valid: "is_ok (ExecutionContext_validate (rq_context rq)) \<Longrightarrow> ExecutionContext_validate (rq_context rq) = Ok ()"
    by (auto simp: is_ok_def split: sum.splits)
  show ?thesis
    unfolding begin_resume_def using quiet_parts
    by (auto intro!: safe_blocked_run safe_approved_request safe_refuse safe_after quiet_lease_search assms valid
        split: option.splits sum.splits)
qed

lemma safe_resume: "safe R (\<lambda>_. True) (resume_json h rq)"
  unfolding resume_json_def
  by (intro safe_begin_resume safe_dispatch_resumed) (simp_all add: push_grant_validate)

lemma safe_auth_resume: "safe R (\<lambda>_. True) (auth_resume_json h rq)"
proof -
  have valid: "is_ok (ExecutionContext_validate (rq_context rq)) \<Longrightarrow> ExecutionContext_validate (rq_context rq) = Ok ()"
    by (auto simp: is_ok_def split: sum.splits)
  show ?thesis
    unfolding auth_resume_json_def auth_resume_approved_def using quiet_parts
    by (auto intro!: safe_blocked_run safe_approved_request safe_refuse safe_try quiet_acquire safe_dispatch_resumed
        simp: push_grant_validate valid split: option.splits sum.splits)
qed

lemma safe_spawn_claimed:
  assumes "h_process_manager h = Some spawn" and "quiet_runs R rs" and "quiet_leases R cls"
    and "ctx_resource_scope ctx = rq_scope rq"
  shows "safe R (granted ActSpawn ctx (rq_capability_id rq) d (rq_estimate rq) obs)
    (spawn_claimed h spawn rs cls rq ctx d obs claimed)"
  unfolding spawn_claimed_def
proof (rule safe_await [OF prepare_licence], goal_cases)
  case (1 res)
  show ?case
  proof (cases res)
    case (Inl e)
    then show ?thesis
      using assms(2,3) by (auto intro!: safe_quiet guarantees_ignoring quiet_run_steps quiet_leasesD)
  next
    case (Inr outcm)
    show ?thesis
      unfolding Inr sum.case
      by (rule safe_then, rule safe_pre [OF safe_spawn_process [OF assms(1,4)]])
         (use assms(2,3) in \<open>auto intro!: guarantees_ignoring quiet_obligations quiet quiet_run_steps quiet_leasesD quiet_complete
            split: sum.splits\<close>)
  qed
qed

lemma safe_resume_spawn: "safe R (\<lambda>_. True) (resume_spawn_json h rq)"
proof -
  have "safe R (\<lambda>_. True)
     (await (h_authorize_spawn h (push_grant (lease_grant l) (rq_context rq)) d (rq_estimate rq) (rq_trust_decision rq))
       (\<lambda>decision. case decision of
          Allow obligations \<Rightarrow>
            await (cls_claim cls (rq_scope rq) (lease_id l) fp) (\<lambda>res. case res of
              Inl e \<Rightarrow> claim_failed rs rq e
            | Inr claimed \<Rightarrow>
                spawn_claimed h spawn rs cls rq (push_grant (lease_grant l) (rq_context rq)) d obligations claimed)
        | Deny reason \<Rightarrow> refuse (Some rs) rq ''AuthorizationDenied'' (CiAuthorizationDenied (rq_capability_id rq) reason)
        | RequireApproval _ \<Rightarrow>
            refuse (Some rs) rq ''AuthorizationRequiresApproval'' (CiAuthorizationRequiresApproval (rq_capability_id rq))))"
    if spawn: "h_process_manager h = Some spawn" and "quiet_runs R rs" "quiet_leases R cls"
      "h_registry h (rq_capability_id rq) = Some d" "ExecutionContext_validate (rq_context rq) = Ok ()" for spawn rs cls d fp l
  proof (rule safe_await [OF authorize_spawn], goal_cases)
    case (1 decision)
    let ?ctx = "push_grant (lease_grant l) (rq_context rq)"
    have "safe R (granted ActSpawn ?ctx (rq_capability_id rq) d (rq_estimate rq) obs)
      (await (cls_claim cls (rq_scope rq) (lease_id l) fp) (\<lambda>res. case res of
         Inl e \<Rightarrow> claim_failed rs rq e | Inr claimed \<Rightarrow> spawn_claimed h spawn rs cls rq ?ctx d obs claimed))" for obs
    proof (rule safe_after [OF quiet_leasesD(2) [OF that(3)] stable_granted], goal_cases)
      case (1 res)
      show ?case
        using safe_spawn_claimed [OF spawn that(2,3) push_grant_scope] safe_quiet [OF quiet_claim_failed [OF that(2)]]
        by (cases res) (simp_all only: sum.case)
    qed
    then show ?case
      using that by (cases decision) (auto intro: safe_pre simp: safe_refuse push_grant_validate)
  qed
  then show ?thesis
    unfolding resume_spawn_json_def Let_def
    by (auto intro!: safe_begin_resume split: option.splits)
qed

theorem safe_host_call: "safe R (\<lambda>_. True) (host_call h c)"
  unfolding replying_def
  by (cases c) (auto simp: replying_def intro!: safe_then safe_invoke safe_resume safe_auth_resume safe_resume_spawn safe_spawn)

end

section \<open>Mediation by the host over the in-memory stores\<close>

definition journal_licence ::
  "('d, 'v, 's, 't, 'e) host_ports \<Rightarrow> ('d, 'v, 's, 't) PortCall list \<Rightarrow> CapabilityActionKind \<Rightarrow> CapabilityObligationPhase
     \<Rightarrow> 'd ExecutionContext \<Rightarrow> CapabilityId \<Rightarrow> ('d, 's, 't) CapabilityDescriptor \<Rightarrow> 'd ResourceEstimate
     \<Rightarrow> 'd CapabilityObligationOutcome \<Rightarrow> bool" where
  "journal_licence p J kind phase ctx c d est outcm =
    (\<exists>obs trust. po_registry p c = Some d \<and> ExecutionContext_validate ctx = Ok ()
       \<and> Authorized kind ctx d est trust (Allow obs) \<in> set J
       \<and> (if obs = [] then outcm = CapabilityObligationOutcome_default
          else Prepared \<lparr>ob_phase = phase, ob_context = ctx, ob_capability_id = c, ob_estimate = est, ob_obligations = obs\<rparr>
                 (Ok outcm) \<in> set J))"

fun justified :: "('d, 'v, 's, 't, 'e) host_ports \<Rightarrow> ('d, 'v, 's, 't) PortCall list \<Rightarrow> ('d, 'v, 's, 't) PortCall \<Rightarrow> bool" where
  "justified p J (Dispatched dq res) = (\<exists>phase ctx c d est v outcm.
    journal_licence p J ActDispatch phase ctx c d est outcm \<and> dq = dispatch_request ctx c est v outcm)"
| "justified p J (Started st res) = (\<exists>ctx d outcm.
    journal_licence p J ActSpawn PhaseSpawn ctx (st_capability_id st) d (st_estimated_resources st) outcm
    \<and> st_scope st = ctx_resource_scope ctx \<and> st_grants st = ctx_grants ctx
    \<and> st_mounts st = unwrap_or (ctx_mounts ctx) (oo_mounts outcm)
    \<and> st_resource_reservation_id st = map_option res_id (oo_resource_reservation outcm)
    \<and> st_extension_id st = desc_provider d \<and> st_runtime st = desc_runtime d)"
| "justified p J _ = True"

definition journal_step ::
  "('d, 'v, 's, 't, 'e) host_ports \<Rightarrow> ('d, 'v, 's, 't, 'e) host_world \<Rightarrow> ('d, 'v, 's, 't, 'e) host_world \<Rightarrow> bool" where
  "journal_step p w w' = (hw_journal w' = hw_journal w
    \<or> (\<exists>x. hw_journal w' = hw_journal w @ [x] \<and> justified p (hw_journal w) x))"

abbreviation allowed_in where
  "allowed_in kind ctx d est obs w \<equiv> \<exists>trust. Authorized kind ctx d est trust (Allow obs) \<in> set (hw_journal w)"

abbreviation prepared_in where
  "prepared_in q outcm w \<equiv> Prepared q (Ok outcm) \<in> set (hw_journal w)"

lemma licence_journal:
  "licence (memory_host p) allowed_in prepared_in kind phase ctx c d est outcm w =
     journal_licence p (hw_journal w) kind phase ctx c d est outcm"
  by (auto simp: licence_def journal_licence_def memory_host_ports)

lemma stable_journal: "(\<And>w w'. set (hw_journal w) \<subseteq> set (hw_journal w') \<Longrightarrow> P w \<Longrightarrow> P w') \<Longrightarrow> stable (journal_step p) P"
  unfolding stable_def journal_step_def by (metis Un_upper1 order_refl set_append)

lemma journal_store_calls:
  "guarantees (journal_step p) (on_runs f)" "guarantees (journal_step p) (on_approvals g)" "guarantees (journal_step p) (on_leases k)"
  by (auto simp: on_runs_def on_approvals_def on_leases_def journal_step_def split: prod.splits)

lemma journal_port_calls: "(\<And>J res. justified p J (entry res)) \<Longrightarrow> guarantees (journal_step p) (journaled op entry)"
  by (auto simp: journaled_def journal_step_def split: prod.splits)

lemma ensures_journaled:
  assumes "\<And>w res. P w \<Longrightarrow> justified p (hw_journal w) (entry res)"
  shows "ensures (journal_step p) (journaled op entry) P (\<lambda>res w. entry res \<in> set (hw_journal w))"
  unfolding journaled_def
  by (rule ensures_call) (auto simp: journal_step_def assms split: prod.splits intro!: stable_journal)

lemma quiet_memory_host: "quiet_host (journal_step p) (memory_host p)"
  by (simp add: quiet_host_def memory_host_ports quiet_runs_def quiet_approvals_def quiet_leases_def quiet_handler_def
      memory_run_state_def memory_approval_requests_def memory_capability_leases_def memory_obligation_handler_def
      journal_store_calls journal_port_calls)
     (auto simp: journal_step_def split: prod.splits)

lemma spawn_licensed:
  assumes "h_process_manager (memory_host p) = Some spawn" and "st_scope start = ctx_resource_scope ctx"
    "st_grants start = ctx_grants ctx" "st_mounts start = unwrap_or (ctx_mounts ctx) (oo_mounts outcm)"
    "st_resource_reservation_id start = map_option res_id (oo_resource_reservation outcm)"
    "st_extension_id start = desc_provider d" "st_runtime start = desc_runtime d"
  shows "ensures (journal_step p) (spawn start) (licence (memory_host p) allowed_in prepared_in ActSpawn PhaseSpawn ctx
      (st_capability_id start) d (st_estimated_resources start) outcm) (\<lambda>_ _. True)"
proof -
  have "spawn start = journaled (po_spawn p start) (Started start)"
    using assms(1) by (auto simp: memory_host_ports)
  moreover have "ensures (journal_step p) (journaled (po_spawn p start) (Started start))
    (licence (memory_host p) allowed_in prepared_in ActSpawn PhaseSpawn ctx (st_capability_id start) d
      (st_estimated_resources start) outcm) (\<lambda>_ _. True)"
    by (rule ensures_post [OF ensures_journaled]) (use assms(2-) in \<open>auto simp: licence_journal\<close>)
  ultimately show ?thesis by simp
qed

interpretation memory_mediation: mediated_host "memory_host p" "journal_step p" allowed_in prepared_in
proof
  show "quiet_host (journal_step p) (memory_host p)" by (rule quiet_memory_host)
next
  show "stable (journal_step p) (\<lambda>w. allowed_in kind ctx d est obs w)" for kind ctx d est obs
    by (rule stable_journal) blast
next
  have "ensures (journal_step p) (journaled_authorizer p kind ctx d est trust) (\<lambda>_. True)
    (\<lambda>decision w. \<forall>obs. decision = Allow obs \<longrightarrow> allowed_in kind ctx d est obs w)" for kind ctx d est trust
    unfolding journaled_authorizer_def
    by (rule ensures_call) (auto simp: journal_step_def Let_def intro!: stable_journal, blast)
  then show "ensures (journal_step p) (h_authorize_dispatch (memory_host p) ctx d est trust) (\<lambda>_. True)
    (\<lambda>decision w. \<forall>obs. decision = Allow obs \<longrightarrow> allowed_in ActDispatch ctx d est obs w)"
    "ensures (journal_step p) (h_authorize_spawn (memory_host p) ctx d est trust) (\<lambda>_. True)
    (\<lambda>decision w. \<forall>obs. decision = Allow obs \<longrightarrow> allowed_in ActSpawn ctx d est obs w)" for ctx d est trust
    by (simp_all add: memory_host_ports)
next
  fix handler q
  assume "h_obligation_handler (memory_host p) = Some handler"
  then have "oh_prepare handler q = journaled (po_prepare p q) (Prepared q)"
    by (auto simp: memory_host_ports memory_obligation_handler_def)
  moreover have "ensures (journal_step p) (journaled (po_prepare p q) (Prepared q)) (\<lambda>_. True)
    (\<lambda>res w. \<forall>outcm. res = Ok outcm \<longrightarrow> prepared_in q outcm w)"
    by (rule ensures_post [OF ensures_journaled]) auto
  ultimately show "ensures (journal_step p) (oh_prepare handler q) (\<lambda>_. True)
    (\<lambda>res w. \<forall>outcm. res = Ok outcm \<longrightarrow> prepared_in q outcm w)" by simp
next
  show "stable (journal_step p) (prepared_in q outcm)" for q outcm
    by (rule stable_journal) blast
next
  show "ensures (journal_step p) (h_dispatcher (memory_host p) (dispatch_request ctx c est v outcm))
    (licence (memory_host p) allowed_in prepared_in ActDispatch phase ctx c d est outcm) (\<lambda>_ _. True)" for ctx c est v outcm phase d
    unfolding memory_host_ports CapabilityHost.simps
    by (rule ensures_post [OF ensures_journaled]) (auto simp: licence_journal [unfolded memory_host_ports], blast)
qed (rule spawn_licensed)

lemma journal_justified:
  assumes "(journal_step p)\<^sup>*\<^sup>* w w'" and "hw_journal w = []" and "hw_journal w' = pre @ x # post"
  shows "justified p pre x"
  using assms(1,3)
proof (induction arbitrary: post rule: rtranclp_induct)
  case base
  with assms(2) show ?case by simp
next
  case (step w1 w2)
  from step(2) consider "hw_journal w2 = hw_journal w1"
    | y where "hw_journal w2 = hw_journal w1 @ [y]" "justified p (hw_journal w1) y"
    unfolding journal_step_def by blast
  then show ?case
  proof cases
    case 1
    with step show ?thesis by simp
  next
    case (2 y)
    with step show ?thesis by (cases post rule: rev_cases) auto
  qed
qed

text \<open>
  C1: the capability host mediates every dispatch and every spawn. Take any number of invocations,
  resumes, authentication resumes, spawns and spawn resumes, interleaved in any order with each
  other and with changes that others make to the stores. Every entry of the journal that dispatches
  is preceded by a decision of the authorizer that allows a dispatch of the registered capability for
  a well-formed context, with this estimate, and, unless the decision carries no obligations, by their
  successful preparation; the request runs in the scope and for the actor of that context, with the
  mounts and the reservation the preparation answered. Every process start is preceded by a decision
  and a preparation for a spawn, and is started in the scope, with the grants, the mounts, the
  reservation, the provider and the runtime they say.
\<close>

theorem dispatch_mediated:
  assumes "\<And>w w'. others w w' \<Longrightarrow> hw_journal w' = hw_journal w" and "hw_journal w = []"
    and "(system_step others)\<^sup>*\<^sup>* (w, map (host_call (memory_host p)) calls) (w', tasks)"
  shows "(hw_journal w' = pre @ Dispatched dq res # post \<longrightarrow>
      (\<exists>phase ctx d outcm. journal_licence p pre ActDispatch phase ctx (dq_capability_id dq) d (dq_estimate dq) outcm
         \<and> dq_scope dq = ctx_resource_scope ctx
         \<and> dq_authenticated_actor_user_id dq = ctx_authenticated_actor_user_id ctx
         \<and> dq_mounts dq = oo_mounts outcm \<and> dq_resource_reservation dq = oo_resource_reservation outcm))
    \<and> (hw_journal w' = pre @ Started st sres # post \<longrightarrow>
      (\<exists>ctx d outcm. journal_licence p pre ActSpawn PhaseSpawn ctx (st_capability_id st) d (st_estimated_resources st) outcm
         \<and> st_scope st = ctx_resource_scope ctx \<and> st_grants st = ctx_grants ctx
         \<and> st_mounts st = unwrap_or (ctx_mounts ctx) (oo_mounts outcm)
         \<and> st_resource_reservation_id st = map_option res_id (oo_resource_reservation outcm)
         \<and> st_extension_id st = desc_provider d \<and> st_runtime st = desc_runtime d))"
proof -
  have "\<forall>q \<in> set (map (host_call (memory_host p)) calls). safe (journal_step p) (\<lambda>_. True) q"
    by (auto simp: memory_mediation.safe_host_call)
  then have run: "(journal_step p)\<^sup>*\<^sup>* w w'"
    using safe_run [OF assms(3), of "journal_step p"] assms(1) by (simp add: journal_step_def)
  have justified: "hw_journal w' = pre @ x # post \<Longrightarrow> justified p pre x" for x
    by (rule journal_justified [OF run assms(2)])
  show ?thesis
    using justified [of "Dispatched dq res"] justified [of "Started st sres"]
    by (auto simp: dispatch_request_def) blast
qed

section \<open>One dispatch per approval lease\<close>

text \<open>
  The uses of a fingerprint: the dispatches and process starts of the journal that have it, and the
  leases that would still admit one.
\<close>

fun uses_fingerprint :: "('d, 'v, 's, 't, 'e) host_ports \<Rightarrow> InvocationFingerprint \<Rightarrow> ('d, 'v, 's, 't) PortCall \<Rightarrow> bool" where
  "uses_fingerprint p fp (Dispatched dq _) =
    (po_fingerprint p ActDispatch (dq_scope dq) (dq_capability_id dq) (dq_estimate dq) (dq_input dq) = Ok fp)"
| "uses_fingerprint p fp (Started st _) =
    (po_fingerprint p ActSpawn (st_scope st) (st_capability_id st) (st_estimated_resources st) (st_input st) = Ok fp)"
| "uses_fingerprint p fp _ = False"

definition fingerprint_uses :: "('d, 'v, 's, 't, 'e) host_ports \<Rightarrow> InvocationFingerprint \<Rightarrow> ('d, 'v, 's, 't, 'e) host_world \<Rightarrow> nat" where
  "fingerprint_uses p fp w = length (filter (uses_fingerprint p fp) (hw_journal w))"

definition is_usable :: "InvocationFingerprint \<Rightarrow> 'd CapabilityLease \<Rightarrow> bool" where
  "is_usable fp l = (lease_status l = LeaseActive \<and> lease_fingerprint l = Some fp)"

definition usable_leases :: "InvocationFingerprint \<Rightarrow> ('d, 'v, 's, 't, 'e) host_world \<Rightarrow> nat" where
  "usable_leases fp w = hm_sum (\<lambda>l. if is_usable fp l then 1 else 0) (hw_leases w)"

definition exposure :: "('d, 'v, 's, 't, 'e) host_ports \<Rightarrow> InvocationFingerprint \<Rightarrow> ('d, 'v, 's, 't, 'e) host_world \<Rightarrow> nat" where
  "exposure p fp w = fingerprint_uses p fp w + usable_leases fp w"

lemma exposure_update [simp]:
  "exposure p fp (w\<lparr>hw_runs := r\<rparr>) = exposure p fp w" "exposure p fp (w\<lparr>hw_approvals := a\<rparr>) = exposure p fp w"
  "exposure p fp (w\<lparr>hw_env := e\<rparr>) = exposure p fp w"
  "exposure p fp (w\<lparr>hw_env := e, hw_journal := hw_journal w @ [x]\<rparr>) = exposure p fp w + (if uses_fingerprint p fp x then 1 else 0)"
  "exposure p fp (w\<lparr>hw_journal := hw_journal w @ [x]\<rparr>) = exposure p fp w + (if uses_fingerprint p fp x then 1 else 0)"
  by (simp_all add: exposure_def fingerprint_uses_def usable_leases_def)

text \<open>No transition makes a fingerprinted lease usable again; a claim spends it.\<close>

lemma transition_not_usable: "transition now op l = Ok l' \<Longrightarrow> is_usable fp l' \<Longrightarrow> is_usable fp l"
  by (cases op) (auto simp: is_usable_def lease_defs Let_def split: if_splits option.splits)

lemma usable_with_lease:
  assumes "with_lease leases s i (transition now op) = (res, leases')"
  shows "hm_sum (\<lambda>l. if is_usable fp l then 1 else 0) leases' \<le> hm_sum (\<lambda>l. if is_usable fp l then 1 else 0) leases"
proof (cases "hm_get leases (s, i)")
  case None
  with assms show ?thesis by (simp add: with_lease_def)
next
  case (Some l)
  show ?thesis
  proof (cases "transition now op l")
    case (Inr l')
    with assms Some have "leases' = hm_insert (s, i) l' leases" by (simp add: with_lease_def)
    with hm_sum_insert_replace [OF Some, of "\<lambda>l. if is_usable fp l then 1 else 0" l'] transition_not_usable [OF Inr, of fp]
    show ?thesis by (auto split: if_splits)
  qed (use assms Some in \<open>simp add: with_lease_def\<close>)
qed

lemma usable_claim:
  assumes "with_lease leases s i (claim_lease now fp) = (Ok l', leases')"
  shows "hm_sum (\<lambda>l. if is_usable fp l then 1 else 0) leases' + 1 = hm_sum (\<lambda>l. if is_usable fp l then 1 else (0 :: nat)) leases"
proof -
  from assms obtain l where l: "hm_get leases (s, i) = Some l" "claim_lease now fp l = Ok l'" "leases' = hm_insert (s, i) l' leases"
    by (auto simp: with_lease_def split: option.splits sum.splits)
  then have "is_usable fp l" "\<not> is_usable fp l'"
    by (auto simp: is_usable_def lease_defs split: if_splits)
  with hm_sum_insert_replace [OF l(1), of "\<lambda>l. if is_usable fp l then 1 else 0" l'] l(3) show ?thesis by simp
qed

lemma exposure_leases:
  assumes "\<And>now leases res leases'. f now leases = (res, leases') \<Longrightarrow>
    hm_sum (\<lambda>l. if is_usable fp l then 1 else 0) leases' \<le> hm_sum (\<lambda>l. if is_usable fp l then 1 else 0) leases"
  shows "guarantees (\<lambda>w w'. exposure p fp w' \<le> exposure p fp w) (on_leases f)"
  using assms unfolding on_leases_def guarantees_call
  by (force simp: exposure_def fingerprint_uses_def usable_leases_def split: prod.splits)

lemma exposure_lease_store: "quiet_leases (\<lambda>w w'. exposure p fp w' \<le> exposure p fp w) memory_capability_leases"
  unfolding quiet_leases_def memory_capability_leases_def CapabilityLeaseStore.simps mem_op_defs
  by (auto intro!: exposure_leases dest: usable_with_lease [where op = LRevoke, unfolded transition_fun]
      usable_with_lease [where op = "LClaim a" for a, unfolded transition_fun]
      usable_with_lease [where op = LConsume, unfolded transition_fun]
      usable_with_lease [where op = "LBegin a" for a, unfolded transition_fun]
      usable_with_lease [where op = LAbort, unfolded transition_fun])

lemma exposure_calls:
  "guarantees (\<lambda>w w'. exposure p fp w' \<le> exposure p fp w) (on_runs f)"
  "guarantees (\<lambda>w w'. exposure p fp w' \<le> exposure p fp w) (on_approvals g)"
  "(\<And>res. \<not> uses_fingerprint p fp (entry res)) \<Longrightarrow> guarantees (\<lambda>w w'. exposure p fp w' \<le> exposure p fp w) (journaled op entry)"
  "guarantees (\<lambda>w w'. exposure p fp w' \<le> exposure p fp w) (journaled_authorizer q kind ctx d est trust)"
  by (auto simp: on_runs_def on_approvals_def journaled_def journaled_authorizer_def Let_def split: prod.splits)

lemma exposure_host: "quiet_host (\<lambda>w w'. exposure p fp w' \<le> exposure p fp w) (memory_host p)"
  by (auto simp: quiet_host_def memory_host_ports quiet_runs_def quiet_approvals_def quiet_handler_def exposure_lease_store
      memory_run_state_def memory_approval_requests_def memory_obligation_handler_def
      split: prod.splits intro!: exposure_calls)

text \<open>A claim that succeeds turns a usable lease into a credit; a dispatch pays with it.\<close>

abbreviation credit :: "InvocationFingerprint \<Rightarrow> InvocationFingerprint \<Rightarrow> nat" where
  "credit fp fp' \<equiv> if fp' = fp then 1 else 0"

lemma exposure_claim:
  "pays (exposure p fp) (cls_claim memory_capability_leases s i fp') 0 (\<lambda>res b. is_ok res \<longrightarrow> b = credit fp fp')"
proof (cases "fp' = fp")
  case True
  show ?thesis
    unfolding memory_capability_leases_def CapabilityLeaseStore.simps on_leases_def mem_claim_def True
  proof (rule pays_call, goal_cases)
    case (1 w)
    obtain res leases' where c: "with_lease (hw_leases w) s i (claim_lease (hw_clock w) fp) = (res, leases')"
      by (cases "with_lease (hw_leases w) s i (claim_lease (hw_clock w) fp)") auto
    show ?case
      using usable_claim [of "hw_leases w" s i "hw_clock w" fp _ leases'] c
        usable_with_lease [where op = "LClaim fp", unfolded transition_fun, OF c, of fp]
      by (cases res) (auto simp: exposure_def fingerprint_uses_def usable_leases_def intro!: exI [of _ 0])
  qed
next
  case False
  with pays_idle [OF quiet_leasesD(2) [OF exposure_lease_store], of p fp s i fp' 0] show ?thesis
    by (auto elim: pays_mono)
qed

lemma exposure_dispatch:
  assumes "\<And>res. uses_fingerprint p fp (entry res) \<Longrightarrow> fp' = fp"
  shows "pays (exposure p fp) (journaled op entry) (credit fp fp') (\<lambda>_ _. True)"
  unfolding journaled_def
  by (rule pays_call) (use assms in \<open>auto split: prod.splits\<close>)

lemma memory_runs_quiet: "quiet_runs (\<lambda>w w'. exposure p fp w' \<le> exposure p fp w) memory_run_state"
  using exposure_host [of p fp] by (simp add: quiet_host_def memory_host_ports)

lemma memory_approvals_quiet: "quiet_approvals (\<lambda>w w'. exposure p fp w' \<le> exposure p fp w) memory_approval_requests"
  using exposure_host [of p fp] by (simp add: quiet_host_def memory_host_ports)

lemmas exposure_quiet =
  memory_runs_quiet memory_approvals_quiet exposure_lease_store exposure_host

lemma pays_dispatch_claimed:
  assumes "invocation_fingerprint_for_kind (memory_host p) ActDispatch rq = Ok fp'" and "ctx_resource_scope ctx = rq_scope rq"
  shows "pays (exposure p fp) (dispatch_claimed (memory_host p) memory_run_state rq ctx obs
    (Some (memory_capability_leases, l))) (credit fp fp') (\<lambda>_ _. True)"
proof -
  have "pays (exposure p fp) (h_dispatcher (memory_host p) (dispatch_request ctx (rq_capability_id rq) (rq_estimate rq) (rq_input rq) outcm))
    (credit fp fp') (\<lambda>_ _. True)" for outcm
    unfolding memory_host_ports CapabilityHost.simps
    by (rule exposure_dispatch)
       (use assms in \<open>auto simp: dispatch_request_def invocation_fingerprint_for_kind_def memory_host_ports\<close>)
  note dispatch = this
  show ?thesis
    unfolding dispatch_claimed_def
  proof (rule pays_idle_await [OF quiet_obligations(1) [OF exposure_host]], goal_cases)
    case (1 res)
    show ?case
    proof (cases res)
      case (Inl e)
      then show ?thesis by (simp add: pays_quiet quiet_resumed_failed exposure_quiet quiet_claim_def)
    next
      case (Inr outcm)
      show ?thesis
        unfolding Inr sum.case
        by (rule pays_then [OF dispatch])
           (auto intro!: guarantees_ignoring quiet_obligations quiet_resumed_failed quiet_resumed_completed exposure_quiet
              simp: quiet_claim_def split: sum.splits)
    qed
  qed
qed

lemma pays_dispatch_resumed:
  assumes "invocation_fingerprint_for_kind (memory_host p) ActDispatch rq = Ok fp'" and "ctx_resource_scope ctx = rq_scope rq"
  shows "pays (exposure p fp) (dispatch_resumed_capability (memory_host p) memory_run_state rq ctx d
    (PendingClaim memory_capability_leases i fp')) 0 (\<lambda>_ _. True)"
proof -
  have allow: "pays (exposure p fp) (try_await (claim_resumed (PendingClaim memory_capability_leases i fp') memory_run_state rq)
      (dispatch_claimed (memory_host p) memory_run_state rq ctx obs)) 0 (\<lambda>_ _. True)" for obs
    unfolding claim_resumed_def ResumedLeaseState.case try_await_assoc
  proof (rule pays_await [OF exposure_claim], goal_cases)
    case (1 res b)
    then show ?case
      using pays_dispatch_claimed [OF assms]
      by (cases res) (simp_all add: try_claim_failed try_await_Ready pays_quiet quiet_claim_failed exposure_quiet)
  qed
  have auth: "guarantees (\<lambda>w w'. exposure p fp w' \<le> exposure p fp w) (h_authorize_dispatch (memory_host p) ctx d est trust)" for est trust
    by (simp add: memory_host_ports exposure_calls)
  show ?thesis
    unfolding dispatch_resumed_capability_def
    by (rule pays_idle_await [OF auth])
       (auto simp: allow revoke_already_claimed_def intro!: pays_quiet guarantees_ignoring quiet_run_steps exposure_quiet
          split: Decision.splits)
qed

lemma pays_approved:
  assumes "pays (exposure p fp) go 0 (\<lambda>_ _. True)"
  shows "pays (exposure p fp) (approved_request memory_run_state memory_approval_requests kind rq i fp' go) 0 (\<lambda>_ _. True)"
  unfolding approved_request_def
  by (rule pays_idle_try [OF quiet_from_run_state [OF quiet_approvalsD(2) [OF memory_approvals_quiet]]])
     (auto simp: assms intro!: pays_quiet quiet_run_steps exposure_quiet split: option.splits sum.splits)

lemma pays_begin_resume:
  assumes "\<And>d fp' l. invocation_fingerprint_for_kind (memory_host p) kind rq = Ok fp' \<Longrightarrow>
    pays (exposure p fp) (go memory_run_state memory_capability_leases d fp' l) 0 (\<lambda>_ _. True)"
  shows "pays (exposure p fp) (begin_resume (memory_host p) kind rq go) 0 (\<lambda>_ _. True)"
proof -
  have stores: "h_run_state (memory_host p) = Some memory_run_state" "h_approval_requests (memory_host p) = Some memory_approval_requests"
    "h_capability_leases (memory_host p) = Some memory_capability_leases"
    by (simp_all add: memory_host_ports)
  have refuse: "pays (exposure p fp) (refuse (Some memory_run_state) rq k e) 0 (\<lambda>_ _. True)" for k e
    by (simp add: pays_quiet quiet_run_steps exposure_quiet)
  show ?thesis
    unfolding begin_resume_def stores prod.case option.case blocked_run_def
    by (auto intro!: pays_idle_try quiet_from_run_state quiet_runsD memory_runs_quiet pays_approved refuse
        pays_idle_await quiet_lease_search exposure_lease_store assms split: option.splits sum.splits)
qed

lemma pays_resume: "pays (exposure p fp) (resume_json (memory_host p) rq) 0 (\<lambda>_ _. True)"
  unfolding resume_json_def by (intro pays_begin_resume pays_dispatch_resumed push_grant_scope)

lemma pays_spawn_claimed:
  assumes "invocation_fingerprint_for_kind (memory_host p) ActSpawn rq = Ok fp'" and "h_process_manager (memory_host p) = Some spawn"
  shows "pays (exposure p fp) (spawn_claimed (memory_host p) spawn memory_run_state memory_capability_leases rq ctx d obs l)
    (credit fp fp') (\<lambda>_ _. True)"
  unfolding spawn_claimed_def
proof (rule pays_idle_await [OF quiet_obligations(1) [OF exposure_host]], goal_cases)
  case (1 res)
  have spawn: "spawn st = journaled (po_spawn p st) (Started st)" for st
    using assms(2) by (auto simp: memory_host_ports)
  have fresh: "guarantees (\<lambda>w w'. exposure p fp w' \<le> exposure p fp w) (call (h_new_process_id (memory_host p)))"
    using exposure_host [of p fp] by (simp add: quiet_host_def)
  have "pays (exposure p fp) (spawn (process_start_request rq ctx d outcm i)) (credit fp fp') (\<lambda>_ _. True)" for outcm i
    unfolding spawn
    by (rule exposure_dispatch)
       (use assms(1) in \<open>auto simp: process_start_request_def invocation_fingerprint_for_kind_def memory_host_ports\<close>)
  then have "pays (exposure p fp) (spawn_process (memory_host p) spawn ctx rq d outcm) (credit fp fp') (\<lambda>_ _. True)" for outcm
    unfolding spawn_process_def by (rule pays_idle_await [OF fresh])
  note spawns = pays_then [OF this]
  show ?case
  proof (cases res)
    case (Inl e)
    then show ?thesis
      by (auto intro!: pays_quiet guarantees_ignoring quiet_run_steps quiet_leasesD exposure_quiet)
  next
    case (Inr outcm)
    show ?thesis
      unfolding Inr sum.case
      by (rule spawns) (auto intro!: guarantees_ignoring quiet_obligations quiet_run_steps quiet_leasesD quiet_complete
          exposure_quiet split: sum.splits)
  qed
qed

lemma pays_resume_spawn: "pays (exposure p fp) (resume_spawn_json (memory_host p) rq) 0 (\<lambda>_ _. True)"
proof -
  obtain spawn where manager: "h_process_manager (memory_host p) = Some spawn" by (simp add: memory_host_ports)
  have auth: "guarantees (\<lambda>w w'. exposure p fp w' \<le> exposure p fp w) (h_authorize_spawn (memory_host p) ctx d est trust)" for ctx d est trust
    by (simp add: memory_host_ports exposure_calls)
  have allow: "pays (exposure p fp) (await (cls_claim memory_capability_leases (rq_scope rq) i fp') (\<lambda>res. case res of
       Inl e \<Rightarrow> claim_failed memory_run_state rq e
     | Inr claimed \<Rightarrow> spawn_claimed (memory_host p) spawn memory_run_state memory_capability_leases rq ctx d obs claimed)) 0 (\<lambda>_ _. True)"
    if "invocation_fingerprint_for_kind (memory_host p) ActSpawn rq = Ok fp'" for i fp' ctx d obs
  proof (rule pays_await [OF exposure_claim], goal_cases)
    case (1 res b)
    then show ?case
      using pays_spawn_claimed [OF that manager]
      by (cases res) (simp_all add: pays_quiet quiet_claim_failed exposure_quiet)
  qed
  show ?thesis
    unfolding resume_spawn_json_def manager option.case Let_def
    by (intro pays_begin_resume pays_idle_await auth)
       (auto simp: allow intro!: pays_quiet quiet_run_steps exposure_quiet split: Decision.splits)
qed

fun resumes_approval :: "('d, 'v) HostCall \<Rightarrow> bool" where
  "resumes_approval (CallResume _) = True"
| "resumes_approval (CallResumeSpawn _) = True"
| "resumes_approval _ = False"

text \<open>
  C2: an approval is used at most once. Let any number of resumes of approved dispatches and spawns
  run, in any order and beside others who neither dispatch nor issue leases with the fingerprint
  \<open>fp\<close>. The dispatches and process starts with that fingerprint grow by no more than the
  number of active leases that carried it at the start: with one approval lease, one of the
  concurrent resumes gets through and the others do not reach the dispatcher.
\<close>

theorem approval_used_once:
  assumes "\<And>w w'. others w w' \<Longrightarrow> hw_journal w' = hw_journal w \<and> usable_leases fp w' \<le> usable_leases fp w"
    and "\<forall>c \<in> set calls. resumes_approval c"
    and "(system_step others)\<^sup>*\<^sup>* (w, map (host_call (memory_host p)) calls) (w', tasks)"
  shows "fingerprint_uses p fp w' \<le> fingerprint_uses p fp w + usable_leases fp w"
proof -
  have "pays (exposure p fp) (host_call (memory_host p) c) 0 (\<lambda>_ _. True)" if "resumes_approval c" for c
    using that
    by (cases c) (auto simp: replying_def intro!: pays_then [OF pays_resume] pays_then [OF pays_resume_spawn])
  with assms(2) have "\<forall>q \<in> set (snd (w, map (host_call (memory_host p)) calls)). pays (exposure p fp) q 0 (\<lambda>_ _. True)"
    by auto
  from pays_run [OF assms(3) this] assms(1) show ?thesis
    by (fastforce simp: exposure_def fingerprint_uses_def)
qed

section \<open>A concrete host\<close>

text \<open>
  One approved dispatch of a shell command. The authorizer is the lease-backed one; the provider
  asks for credentials \<open>n\<close> times before it works, where \<open>n\<close> is the state behind the ports.
\<close>

definition shell_result :: "(nat, string) CapabilityDispatchResult" where
  "shell_result = \<lparr>dr_capability_id = ''shell.run'', dr_provider = ''shell'', dr_runtime = Wasm, dr_output = ''ok'',
     dr_display_preview = None, dr_usage = \<lparr>use_usd = 0, use_input_tokens = 0, use_output_tokens = 0,
       use_wall_clock_ms = 0, use_output_bytes = 0, use_network_egress_bytes = 0, use_process_count = 0\<rparr>,
     dr_receipt = \<lparr>rcpt_id = 0, rcpt_scope = fst example_key, rcpt_status = RReconciled, rcpt_estimate = empty_estimate,
       rcpt_actual = None\<rparr>\<rparr>"

definition shell_ports :: "(nat, string, unit, unit, nat) host_ports" where
  "shell_ports =
    \<lparr>po_registry = (\<lambda>c. if c = ''shell.run'' then Some example_descriptor else None),
     po_authorize = (\<lambda>kind ctx d est trust w.
       (case kind of ActDispatch \<Rightarrow> lease_authorize_dispatch_with_trust | ActSpawn \<Rightarrow> lease_authorize_spawn_with_trust)
         (hw_clock w) (hw_leases w) ctx d est trust),
     po_dispatch = (\<lambda>dq n. if n = 0 then (Ok shell_result, 0) else (Err (DAuthRequired ''shell.run'' [] []), n - 1)),
     po_spawn = (\<lambda>st n. (Ok (running_record st), n)),
     po_prepare = (\<lambda>q n. (Ok CapabilityObligationOutcome_default, n)),
     po_abort = (\<lambda>q n. (Ok (), n)),
     po_complete_dispatch = (\<lambda>q n. (Ok (ob_dispatch q), n)),
     po_fingerprint = (\<lambda>kind scope c est v. Ok ((if kind = ActDispatch then ''dispatch '' else ''spawn '') @ c @ '' '' @ v)),
     po_command = (\<lambda>v. Some v), po_display = (\<lambda>t. \<lparr>dt_text = t, dt_truncated = False\<rparr>),
     po_new_process_id = (\<lambda>n. (1, n))\<rparr>"

definition shell_fingerprint :: InvocationFingerprint where
  "shell_fingerprint = ''dispatch shell.run ls''"

definition shell_approval :: "nat ApprovalRecord" where
  "shell_approval = \<lparr>apr_scope = fst example_key,
     apr_request = ApprovalRequest 3 1 (PExtension ''shell'') (Dispatch ''shell.run'' empty_estimate) (Some shell_fingerprint) [] None,
     apr_status = ApApproved\<rparr>"

definition shell_run :: RunRecord where
  "shell_run = \<lparr>run_invocation_id = 7, run_capability_id = ''shell.run'', run_scope = fst example_key, run_actor = None,
     run_status = BlockedApproval, run_approval_request_id = Some 3, run_error_kind = None\<rparr>"

definition approved_world :: "nat \<Rightarrow> (nat, string, unit, unit, nat) host_world" where
  "approved_world n = \<lparr>hw_runs = [((owner_of (fst example_key), 7), shell_run)],
     hw_approvals = [((owner_of (fst example_key), 3), shell_approval)],
     hw_leases = [(example_key, example_lease (Some shell_fingerprint) (Some 1) LeaseActive)],
     hw_clock = 50, hw_env = n, hw_journal = []\<rparr>"

definition shell_resume :: "(nat, string) CapabilityResumeRequest" where
  "shell_resume = \<lparr>rq_context = example_context, rq_capability_id = ''shell.run'', rq_estimate = empty_estimate,
     rq_input = ''ls'', rq_trust_decision = example_trust, rq_approval_request_id = 3\<rparr>"

definition shell_auth_resume :: "(nat, string) CapabilityAuthResumeRequest" where
  "shell_auth_resume = \<lparr>rq_context = example_context, rq_capability_id = ''shell.run'', rq_estimate = empty_estimate,
     rq_input = ''ls'', rq_trust_decision = example_trust, rq_prior_approval_request_id = Some 3\<rparr>"

fun dispatched_ok :: "('d, 'v, 's, 't) PortCall \<Rightarrow> bool" where
  "dispatched_ok (Dispatched _ res) = is_ok res"
| "dispatched_ok _ = False"

definition shell_calls :: "(nat, string) HostCall list \<Rightarrow> ((nat, string, unit, unit, nat) host_world,
    (nat CapabilityInvocationError, (nat, string) HostReply) result) async list" where
  "shell_calls calls = map (host_call (memory_host shell_ports)) calls"

definition answers_of :: "('w, ('e, 'a) result) async list \<Rightarrow> bool option list" where
  "answers_of tasks = map (\<lambda>q. map_option is_ok (answer q)) tasks"

text \<open>Two resumes of one approval, the second after the first.\<close>

definition two_resumes where
  "two_resumes = run_schedule (replicate 12 0 @ replicate 12 1)
    (approved_world 0, shell_calls [CallResume shell_resume, CallResume shell_resume])"

lemma two_resumes_reached:
  "(system_step (\<lambda>_ _. False))\<^sup>*\<^sup>* (approved_world 0,
     map (host_call (memory_host shell_ports)) [CallResume shell_resume, CallResume shell_resume])
     (fst two_resumes, snd two_resumes)"
  using run_schedule_reaches unfolding two_resumes_def shell_calls_def by simp

lemma two_resumes_journal: "length (hw_journal (fst two_resumes)) = 4 \<and> dispatched_ok (hw_journal (fst two_resumes) ! 2)"
  by code_simp

lemma dispatch_mediated_witness:
  "\<exists>pre dq res post. hw_journal (fst two_resumes) = pre @ Dispatched dq res # post
     \<and> (\<exists>phase ctx d outcm. journal_licence shell_ports pre ActDispatch phase ctx (dq_capability_id dq) d (dq_estimate dq) outcm)"
proof -
  let ?J = "hw_journal (fst two_resumes)"
  obtain dq res where "?J ! 2 = Dispatched dq res"
    using two_resumes_journal by (cases "?J ! 2") auto
  then have J: "?J = take 2 ?J @ Dispatched dq res # drop 3 ?J"
    using two_resumes_journal id_take_nth_drop [of 2 ?J] by simp
  have "hw_journal (approved_world 0) = []" by (simp add: approved_world_def)
  from dispatch_mediated [OF _ this two_resumes_reached, of "take 2 ?J" dq res "drop 3 ?J"] J show ?thesis
    by (intro exI [of _ "take 2 ?J"] exI [of _ dq] exI [of _ res] exI [of _ "drop 3 ?J"]) blast
qed

lemma approval_used_once_witness:
  "fingerprint_uses shell_ports shell_fingerprint (fst two_resumes) \<le> 1
   \<and> answers_of (snd two_resumes) = [Some True, Some False]"
proof
  have "fingerprint_uses shell_ports shell_fingerprint (approved_world 0) + usable_leases shell_fingerprint (approved_world 0) = 1"
    by code_simp
  with approval_used_once [OF _ _ two_resumes_reached, of shell_fingerprint]
  show "fingerprint_uses shell_ports shell_fingerprint (fst two_resumes) \<le> 1" by simp
  show "answers_of (snd two_resumes) = [Some True, Some False]" by code_simp
qed

section \<open>The race of the authentication bounce\<close>


end
