(* ===== verification/Capability_Outcomes.thy ===== *)
theory Capability_Outcomes
  imports Capability_Laws
begin

text \<open>
  Where the capability host leaves its records: the run of an invocation on every branch of
  \<open>invoke_json\<close>, and the lease of an approval on every branch of \<open>resume_json\<close>.
\<close>

section \<open>Where an invocation leaves its run\<close>

lemma solo_ignoring: "solo P p (\<lambda>_. Q) \<Longrightarrow> solo Q q Q' \<Longrightarrow> solo P (ignoring p q) Q'"
  unfolding ignoring_def by (rule solo_await)

text \<open>The run of a request, and what each error makes of it.\<close>

definition run_is :: "('d, 'v, 'z) CapabilityInvocationRequest_scheme \<Rightarrow> RunStatus \<Rightarrow> ('d, 'v, 's, 't, 'e) host_world \<Rightarrow> bool" where
  "run_is rq status w = (\<exists>run. runs_get (rq_scope rq) (rq_invocation_id rq) (hw_runs w) = Some run
     \<and> run_capability_id run = rq_capability_id rq \<and> run_status run = status)"

fun status_after :: "('d CapabilityInvocationError, 'r) result \<Rightarrow> RunStatus" where
  "status_after (Inr _) = RunCompleted"
| "status_after (Inl (CiAuthorizationRequiresApproval _)) = BlockedApproval"
| "status_after (Inl (CiAuthorizationRequiresAuth _ _ _)) = BlockedAuth"
| "status_after (Inl (CiDispatch _ _ _)) = Running"
| "status_after (Inl _) = RunFailed"

abbreviation same_runs :: "('d, 'v, 's, 't, 'e) host_world \<Rightarrow> ('d, 'v, 's, 't, 'e) host_world \<Rightarrow> bool" where
  "same_runs w w' \<equiv> hw_runs w' = hw_runs w"

lemma same_runs_calls:
  "guarantees same_runs (on_approvals f)" "guarantees same_runs (on_leases k)" "guarantees same_runs (journaled op entry)"
  "guarantees same_runs (journaled_authorizer q kind ctx d est trust)"
  by (auto simp: on_approvals_def on_leases_def journaled_def journaled_authorizer_def Let_def split: prod.splits)

lemma same_runs_handler: "quiet_handler same_runs (memory_obligation_handler p)"
  by (simp add: quiet_handler_def memory_obligation_handler_def same_runs_calls)

lemma handler_obligations:
  assumes "quiet_handler R (memory_obligation_handler p)"
  shows "guarantees R (prepare_obligations (memory_host p) phase ctx c est obs)"
    "guarantees R (complete_dispatch_obligations (memory_host p) phase ctx c est obs dispatch)"
    "guarantees R (abort_obligations (memory_host p) phase ctx c est obs outcm)"
  by (auto simp: prepare_obligations_def complete_dispatch_obligations_def abort_obligations_def memory_host_ports
      quiet_handlerD [OF assms] intro!: guarantees_ignoring guarantees_await)

lemma run_is_same: "same_runs w w' \<Longrightarrow> run_is rq status w \<Longrightarrow> run_is rq status w'"
  by (simp add: run_is_def)

lemma run_is_update:
  assumes "\<And>r. run_status (f r) = status'" and "\<And>r. run_capability_id (f r) = run_capability_id r"
  shows "solo (run_is rq status) (on_runs (runs_update (rq_scope rq) (rq_invocation_id rq) f))
    (\<lambda>res. run_is rq status')"
  unfolding on_runs_def
  by (rule solo_call) (auto simp: run_is_def runs_update_def runs_get_def assms hm_simps split: option.splits)

lemma solo_fail: "solo (run_is rq status) (fail_run_if_configured (Some memory_run_state) (rq_scope rq) (rq_invocation_id rq) k)
  (\<lambda>_. run_is rq RunFailed)"
  unfolding fail_run_if_configured_def option.case memory_run_state_def RunStateStore.simps runs_fail_def
  by (rule solo_ignoring [OF run_is_update]) (auto simp: set_failed_def intro: solo_Ready)

lemma solo_refuse: "solo (run_is rq status) (refuse (Some memory_run_state) rq k e) (\<lambda>res w. res = Err e \<and> run_is rq RunFailed w)"
  unfolding refuse_def by (rule solo_ignoring [OF solo_fail]) (auto intro: solo_Ready)

fun after_transition :: "RunStatus \<Rightarrow> CapabilityRunStateTransition option \<Rightarrow> RunStatus" where
  "after_transition status None = status"
| "after_transition status (Some (TransitionFail _)) = RunFailed"
| "after_transition status (Some (TransitionBlockAuth _)) = BlockedAuth"

lemma after_transition_not_blocked: "status \<noteq> BlockedApproval \<Longrightarrow> after_transition status t \<noteq> BlockedApproval"
  by (cases "(status, t)" rule: after_transition.cases) auto

lemma solo_transition:
  "solo (run_is rq status) (apply_run_state_transition_if_configured (Some memory_run_state) (rq_scope rq) (rq_invocation_id rq) e)
     (\<lambda>_. run_is rq (after_transition status (run_state_transition e)))"
proof -
  have "solo (run_is rq status) (ignoring (rst_block_auth memory_run_state (rq_scope rq) (rq_invocation_id rq) k) (Ready ()))
    (\<lambda>_. run_is rq BlockedAuth)" for k
    unfolding memory_run_state_def RunStateStore.simps runs_block_auth_def
    by (rule solo_ignoring [OF run_is_update]) (auto simp: set_blocked_auth_def intro: solo_Ready)
  then show ?thesis
    unfolding apply_run_state_transition_if_configured_def option.case
    by (cases "run_state_transition e" rule: option.exhaust)
       (auto simp: solo_fail intro: solo_Ready split: CapabilityRunStateTransition.split)
qed

lemma solo_complete:
  "solo (run_is rq status) (complete_run_after_side_effect memory_run_state (rq_scope rq) (rq_invocation_id rq))
     (\<lambda>_. run_is rq RunCompleted)"
  unfolding complete_run_after_side_effect_def memory_run_state_def RunStateStore.simps runs_complete_def
  by (rule solo_ignoring [OF run_is_update]) (auto simp: set_completed_def intro: solo_Ready)

lemma solo_start:
  "solo (\<lambda>w. runs_get (rq_scope rq) (rq_invocation_id rq) (hw_runs w) = None) (start_run (memory_host p) rq)
     (\<lambda>res w. res = Ok () \<and> run_is rq Running w)"
  unfolding start_run_def memory_host_ports CapabilityHost.simps option.case memory_run_state_def RunStateStore.simps on_runs_def
    await_call
  by (auto simp: solo_def runs_start_def new_run_def runs_get_def run_is_def Let_def hm_simps hm_contains_def)

text \<open>The errors the obligation handler can cause, before the dispatch and after it.\<close>

fun completion_error :: "'d CapabilityInvocationError \<Rightarrow> bool" where
  "completion_error (CiUnsupportedObligations _ _) = True"
| "completion_error (CiObligationFailed _ _) = True"
| "completion_error _ = False"

fun preparation_error :: "'d CapabilityInvocationError \<Rightarrow> bool" where
  "preparation_error (CiAuthorizationRequiresAuth _ _ _) = True"
| "preparation_error e = completion_error e"

lemma obligation_errors [simp]:
  "preparation_error (prepare_obligation_error_to_invocation c e)" "completion_error (completion_obligation_error_to_invocation c e)"
  by (cases e; simp)+

lemma solo_prepare:
  "solo (run_is rq status) (prepare_obligations (memory_host p) phase ctx c est obs)
     (\<lambda>res w. run_is rq status w \<and> (\<forall>e. res = Err e \<longrightarrow> preparation_error e))"
proof -
  have "guarantees same_runs (oh_prepare (memory_obligation_handler p) q)" for q
    by (simp add: quiet_handlerD [OF same_runs_handler])
  from solo_quiet [OF this run_is_same] show ?thesis
    unfolding prepare_obligations_def
    by (auto simp: memory_host_ports map_sum_def split: sum.splits intro!: solo_Ready solo_await)
qed

lemma solo_completion:
  "solo (run_is rq status) (complete_dispatch_obligations (memory_host p) phase ctx c est obs dispatch)
     (\<lambda>res w. run_is rq status w \<and> (\<forall>e. res = Err e \<longrightarrow> completion_error e))"
proof -
  have "guarantees same_runs (oh_complete_dispatch (memory_obligation_handler p) q)" for q
    by (simp add: quiet_handlerD [OF same_runs_handler])
  from solo_quiet [OF this run_is_same] show ?thesis
    unfolding complete_dispatch_obligations_def
    by (auto simp: memory_host_ports map_sum_def split: sum.splits intro!: solo_Ready solo_await)
qed

lemma solo_abort: "solo (run_is rq status) (abort_obligations (memory_host p) phase ctx c est obs outcm) (\<lambda>_. run_is rq status)"
  by (rule solo_quiet [OF handler_obligations(3) [OF same_runs_handler] run_is_same])

lemma error_status:
  "preparation_error e \<Longrightarrow> status_after (Inl e) = after_transition status (run_state_transition e)"
  "status_after (Inl (invocation_error_of_dispatch de)) = after_transition Running (run_state_transition (invocation_error_of_dispatch de))"
  "completion_error e \<Longrightarrow> status_after (Inl e) = RunFailed"
  subgoal by (cases e) simp_all
  subgoal by (cases de) simp_all
  subgoal by (cases e) simp_all
  done

lemma memory_host_stores:
  "h_run_state (memory_host p) = Some memory_run_state" "h_approval_requests (memory_host p) = Some memory_approval_requests"
  "h_capability_leases (memory_host p) = Some memory_capability_leases" "h_run_state_approval_store (memory_host p) = None"
  by (simp_all add: memory_host_ports)

abbreviation settles :: "('d, 'v, 'z) CapabilityInvocationRequest_scheme \<Rightarrow> RunStatus
    \<Rightarrow> (('d, 'v, 's, 't, 'e) host_world, ('d CapabilityInvocationError, 'r) result) async \<Rightarrow> bool" where
  "settles rq status q \<equiv> solo (run_is rq status) q
    (\<lambda>res w. run_is rq (status_after res) w \<and> status_after res \<noteq> BlockedApproval)"

lemma settles_refuse: "status_after (Inl e :: ('d CapabilityInvocationError, 'r) result) = RunFailed \<Longrightarrow>
  settles rq status (refuse (Some memory_run_state) rq k e :: (_, ('d CapabilityInvocationError, 'r) result) async)"
  by (rule solo_conseq [OF solo_refuse]) auto

lemma settles_transition:
  "status_after (Inl e :: ('d CapabilityInvocationError, 'r) result) = after_transition status (run_state_transition e) \<Longrightarrow> status \<noteq> BlockedApproval \<Longrightarrow>
   settles rq status (ignoring (apply_run_state_transition_if_configured (Some memory_run_state) (rq_scope rq) (rq_invocation_id rq) e)
     (Ready (Err e :: ('d CapabilityInvocationError, 'r) result)))"
  using after_transition_not_blocked [of status "run_state_transition e"]
  by (intro solo_ignoring [OF solo_transition]) (auto intro!: solo_Ready)

lemma settles_invoke_completed: "settles rq Running (invoke_completed (memory_host p) rq obs dispatch)"
  unfolding invoke_completed_def memory_host_stores
proof (rule solo_await [OF solo_completion], goal_cases)
  case (1 res)
  show ?case
  proof (cases res)
    case (Inl e)
    show ?thesis
      unfolding Inl sum.case
      by (rule solo_pure [where C = "completion_error e" and P = "run_is rq Running"], simp,
          rule solo_ignoring [OF solo_abort settles_refuse]) (rule error_status)
  next
    case (Inr dispatch')
    show ?thesis
      unfolding Inr sum.case complete_run_if_configured_def memory_host_stores option.case
      by (rule solo_conseq, rule solo_ignoring [OF solo_complete]) (auto intro: solo_Ready)
  qed
qed

lemma settles_invoke_allowed: "settles rq Running (invoke_allowed (memory_host p) rq obs)"
  unfolding invoke_allowed_def memory_host_stores
proof (rule solo_await [OF solo_prepare], goal_cases)
  case (1 res)
  show ?case
  proof (cases res)
    case (Inl e)
    show ?thesis
      unfolding Inl sum.case
      by (rule solo_pure [where C = "preparation_error e" and P = "run_is rq Running"], simp,
          rule settles_transition) (rule error_status, simp_all)
  next
    case (Inr outcm)
    have dispatch: "solo (run_is rq Running) (h_dispatcher (memory_host p) dq) (\<lambda>_. run_is rq Running)" for dq
      unfolding memory_host_ports CapabilityHost.simps by (rule solo_quiet [OF same_runs_calls(3) run_is_same])
    show ?thesis
      unfolding Inr sum.case
    proof (rule solo_pure [where C = True and P = "run_is rq Running"], simp, rule solo_await [OF dispatch], goal_cases)
      case (1 res')
      show ?case
        by (cases res') (auto simp: Let_def settles_invoke_completed error_status(2)
          intro!: solo_ignoring [OF solo_abort] settles_transition)
    qed
  qed
qed

text \<open>The approval a blocked run waits for.\<close>

definition awaits_approval :: "('d, 'v, 'z) CapabilityInvocationRequest_scheme \<Rightarrow> InvocationFingerprint
    \<Rightarrow> ('d, 'v, 's, 't, 'e) host_world \<Rightarrow> bool" where
  "awaits_approval rq fp w = (\<exists>run a. runs_get (rq_scope rq) (rq_invocation_id rq) (hw_runs w) = Some run
     \<and> run_approval_request_id run = Some (ar_id a) \<and> ar_invocation_fingerprint a = Some fp
     \<and> approvals_get (rq_scope rq) (ar_id a) (hw_approvals w) = Some \<lparr>apr_scope = rq_scope rq, apr_request = a, apr_status = ApPending\<rparr>)"

abbreviation blocks :: "('d, 'v, 'z) CapabilityInvocationRequest_scheme \<Rightarrow> InvocationFingerprint
    \<Rightarrow> (('d, 'v, 's, 't, 'e) host_world, ('d CapabilityInvocationError, 'r) result) async \<Rightarrow> bool" where
  "blocks rq fp q \<equiv> solo (run_is rq Running) q
    (\<lambda>res w. run_is rq (status_after res) w \<and> (status_after res = BlockedApproval \<longrightarrow> awaits_approval rq fp w))"

lemma blocks_if_settles: "settles rq Running q \<Longrightarrow> blocks rq fp q"
  by (erule solo_conseq) auto

lemma blocks_refuse: "status_after (Inl e :: ('d CapabilityInvocationError, 'r) result) = RunFailed \<Longrightarrow>
  blocks rq fp (refuse (Some memory_run_state) rq k e :: (_, ('d CapabilityInvocationError, 'r) result) async)"
  by (rule blocks_if_settles [OF settles_refuse])

lemma blocks_block_on_approval:
  assumes "ar_invocation_fingerprint a = Some fp"
  shows "blocks rq fp (block_on_approval (memory_host p) rq a)"
proof -
  have save: "solo (run_is rq Running) (aps_save_pending memory_approval_requests (rq_scope rq) a)
    (\<lambda>res w. run_is rq Running w \<and> (is_ok res \<longrightarrow>
       approvals_get (rq_scope rq) (ar_id a) (hw_approvals w) = Some \<lparr>apr_scope = rq_scope rq, apr_request = a, apr_status = ApPending\<rparr>))"
    unfolding memory_approval_requests_def ApprovalRequestStore.simps on_approvals_def
    by (rule solo_call) (auto simp: approvals_save_pending_def approvals_get_def Let_def run_is_def hm_simps)
  have block: "solo (\<lambda>w. run_is rq Running w
       \<and> approvals_get (rq_scope rq) (ar_id a) (hw_approvals w) = Some \<lparr>apr_scope = rq_scope rq, apr_request = a, apr_status = ApPending\<rparr>)
    (rst_block_approval memory_run_state (rq_scope rq) (rq_invocation_id rq) a)
    (\<lambda>res w. is_ok res \<and> run_is rq BlockedApproval w \<and> awaits_approval rq fp w)"
    unfolding memory_run_state_def RunStateStore.simps on_runs_def runs_block_approval_def
    by (rule solo_call)
       (auto simp: runs_update_def runs_get_def run_is_def awaits_approval_def set_blocked_approval_def assms hm_simps
          intro!: exI [of _ a])
  show ?thesis
    unfolding block_on_approval_def memory_host_stores prod.case option.case
  proof (rule solo_await [OF save], goal_cases)
    case (1 res)
    show ?case
    proof (cases res)
      case (Inl e)
      show ?thesis
        unfolding Inl sum.case
        by (rule solo_conseq [OF solo_refuse]) auto
    next
      case (Inr r)
      show ?thesis
        unfolding Inr sum.case
        by (rule solo_await [where Q = "\<lambda>res w. is_ok res \<and> run_is rq BlockedApproval w \<and> awaits_approval rq fp w"],
            rule solo_conseq [OF block]) (auto simp: solo_def split: sum.splits)
    qed
  qed
qed

lemma blocks_require: "blocks rq fp (require_approval (memory_host p) kind rq fp a)"
proof -
  have "blocks rq fp (refuse (Some memory_run_state) rq k (CiApprovalFingerprintMismatch c))" for k c
    by (rule blocks_if_settles [OF settles_refuse]) simp
  moreover have "blocks rq fp (refuse (Some memory_run_state) rq k e)"
    if "validate_approval_request_matches_invocation a' ctx c est kind = Err e" for k e a' ctx c est
    by (rule blocks_if_settles [OF settles_refuse])
       (use that in \<open>auto simp: validate_approval_request_matches_invocation_def split: if_splits\<close>)
  ultimately show ?thesis
    unfolding require_approval_def Let_def memory_host_stores
    by (auto intro!: blocks_block_on_approval simp: with_fingerprint_def split: sum.splits option.splits)
qed

text \<open>
  C19: an invocation leaves its run where its answer says. A well-formed invocation that is new to the
  run-state store and that runs alone completes its run when it answers with a result. When it answers
  that it needs approval the run is blocked on an approval request that is stored, pending, with the
  fingerprint of this very invocation. When it answers that it needs authentication the run is blocked
  on that; when the dispatch failed the run is still running, for the caller to decide; and after every
  other error the run has failed.
\<close>

theorem invoke_settles:
  assumes "ExecutionContext_validate (rq_context rq) = Ok ()"
    and "invocation_fingerprint_for_kind (memory_host p) ActDispatch rq = Ok fp"
    and "runs_get (rq_scope rq) (rq_invocation_id rq) (hw_runs w) = None"
    and "finish (invoke_json (memory_host p) rq) w = (res, w')"
  shows "run_is rq (status_after res) w' \<and> (status_after res = BlockedApproval \<longrightarrow> awaits_approval rq fp w')"
proof -
  have auth: "solo (run_is rq Running) (h_authorize_dispatch (memory_host p) ctx d est trust) (\<lambda>_. run_is rq Running)" for ctx d est trust
    unfolding memory_host_ports CapabilityHost.simps by (rule solo_quiet [OF same_runs_calls(4) run_is_same])
  have "solo (\<lambda>w. runs_get (rq_scope rq) (rq_invocation_id rq) (hw_runs w) = None) (invoke_json (memory_host p) rq)
    (\<lambda>res w. run_is rq (status_after res) w \<and> (status_after res = BlockedApproval \<longrightarrow> awaits_approval rq fp w))"
    unfolding invoke_json_def begin_invocation_def assms(1,2) is_ok_def sum.case simp_thms if_False memory_host_stores
  proof (rule solo_try [OF solo_start], goal_cases)
    case (1 a)
    show ?case
    proof (cases "h_registry (memory_host p) (rq_capability_id rq)")
      case None
      then show ?thesis by (auto intro!: blocks_refuse)
    next
      case (Some d)
      have "blocks rq fp (await (h_authorize_dispatch (memory_host p) (rq_context rq) d (rq_estimate rq) (rq_trust_decision rq))
         (\<lambda>decision. case decision of Allow obligations \<Rightarrow> invoke_allowed (memory_host p) rq obligations
          | Deny reason \<Rightarrow> refuse (Some memory_run_state) rq ''AuthorizationDenied'' (CiAuthorizationDenied (rq_capability_id rq) reason)
          | RequireApproval approval \<Rightarrow> require_approval (memory_host p) ActDispatch rq fp approval))"
        by (rule solo_await [OF auth])
           (auto intro!: blocks_refuse blocks_if_settles [OF settles_invoke_allowed] blocks_require split: Decision.splits)
      then show ?thesis using Some by (auto elim: solo_conseq)
    qed
  qed auto
  from this [unfolded solo_def, rule_format, OF assms(3)] assms(4) show ?thesis by simp
qed

definition asking_ports :: "(nat, string, unit, unit, nat) host_ports" where
  "asking_ports = shell_ports\<lparr>po_authorize := (\<lambda>_ _ _ _ _ _.
     RequireApproval (ApprovalRequest 3 1 (PExtension ''shell'') (Dispatch ''shell.run'' empty_estimate) None [] None))\<rparr>"

definition shell_invoke :: "(nat, string) CapabilityInvocationRequest" where
  "shell_invoke = \<lparr>rq_context = example_context, rq_capability_id = ''shell.run'', rq_estimate = empty_estimate,
     rq_input = ''ls'', rq_trust_decision = example_trust\<rparr>"

definition blocked_invocation where
  "blocked_invocation = finish (invoke_json (memory_host asking_ports) shell_invoke) ((approved_world 0)\<lparr>hw_runs := [], hw_approvals := []\<rparr>)"

lemma invoke_settles_witness:
  "run_is shell_invoke BlockedApproval (snd blocked_invocation) \<and> awaits_approval shell_invoke shell_fingerprint (snd blocked_invocation)"
proof -
  have "status_after (fst blocked_invocation) = BlockedApproval" by code_simp
  moreover have "ExecutionContext_validate (rq_context shell_invoke) = Ok ()"
    by (simp add: shell_invoke_def example_context_valid)
  moreover have "invocation_fingerprint_for_kind (memory_host asking_ports) ActDispatch shell_invoke = Ok shell_fingerprint"
    by (simp add: invocation_fingerprint_for_kind_def memory_host_ports asking_ports_def shell_ports_def shell_invoke_def
        shell_fingerprint_def)
  ultimately show ?thesis
    using invoke_settles [of shell_invoke asking_ports shell_fingerprint "(approved_world 0)\<lparr>hw_runs := [], hw_approvals := []\<rparr>"
        "fst blocked_invocation" "snd blocked_invocation"]
    by (simp add: runs_get_def blocked_invocation_def)
qed

section \<open>Where a resume leaves its lease\<close>

text \<open>A lease is in flight while a resume holds it.\<close>

definition in_flight :: "InvocationFingerprint \<Rightarrow> 'd CapabilityLease \<Rightarrow> bool" where
  "in_flight fp l = (lease_fingerprint l = Some fp \<and> (lease_status l = LeaseClaimed \<or> lease_status l = LeaseDispatching))"

definition none_in_flight :: "InvocationFingerprint \<Rightarrow> ('d, 'v, 's, 't, 'e) host_world \<Rightarrow> bool" where
  "none_in_flight fp w = (\<forall>k l. hm_get (hw_leases w) k = Some l \<longrightarrow> \<not> in_flight fp l)"

definition holds_lease :: "CapabilityLeaseKey \<Rightarrow> InvocationFingerprint \<Rightarrow> ('d, 'v, 's, 't, 'e) host_world \<Rightarrow> bool" where
  "holds_lease k fp w = (\<exists>l. hm_get (hw_leases w) k = Some l \<and> lease_status l = LeaseClaimed \<and> lease_fingerprint l = Some fp
     \<and> ensure_not_expired_or_exhausted (hw_clock w) l = Ok ()
     \<and> (\<forall>k' l'. k' \<noteq> k \<longrightarrow> hm_get (hw_leases w) k' = Some l' \<longrightarrow> \<not> in_flight fp l'))"

fun auth_error :: "'d CapabilityInvocationError \<Rightarrow> bool" where
  "auth_error (CiAuthorizationRequiresAuth _ _ _) = True"
| "auth_error _ = False"

definition lease_settled :: "InvocationFingerprint \<Rightarrow> ('d CapabilityInvocationError, 'r) result
    \<Rightarrow> ('d, 'v, 's, 't, 'e) host_world \<Rightarrow> bool" where
  "lease_settled fp res w =
    (none_in_flight fp w \<or> (\<exists>e k. res = Err e \<and> auth_error e \<and> holds_lease k fp w))"

abbreviation same_leases :: "('d, 'v, 's, 't, 'e) host_world \<Rightarrow> ('d, 'v, 's, 't, 'e) host_world \<Rightarrow> bool" where
  "same_leases w w' \<equiv> hw_leases w' = hw_leases w \<and> hw_clock w' = hw_clock w"

lemma same_leases_calls:
  "guarantees same_leases (on_runs f)" "guarantees same_leases (on_approvals g)" "guarantees same_leases (journaled op entry)"
  "guarantees same_leases (journaled_authorizer q kind ctx d est trust)"
  by (auto simp: on_runs_def on_approvals_def journaled_def journaled_authorizer_def Let_def split: prod.splits)

lemma same_leases_stores:
  "quiet_runs same_leases memory_run_state" "quiet_approvals same_leases memory_approval_requests"
  "quiet_handler same_leases (memory_obligation_handler p)"
  by (auto simp: quiet_runs_def quiet_approvals_def quiet_handler_def memory_run_state_def memory_approval_requests_def
      memory_obligation_handler_def intro: same_leases_calls)

lemma leases_kept:
  assumes "guarantees same_leases q"
  shows "solo (holds_lease k fp) q (\<lambda>_. holds_lease k fp)" "solo (none_in_flight fp) q (\<lambda>_. none_in_flight fp)"
  by (rule solo_quiet [OF assms]; auto simp: holds_lease_def none_in_flight_def)+

lemma solo_lease_update:
  assumes "\<And>now l. lease_status l = LeaseClaimed \<Longrightarrow> lease_fingerprint l = Some fp \<Longrightarrow>
    ensure_not_expired_or_exhausted now l = Ok () \<Longrightarrow> \<exists>l'. f now l = Ok l' \<and> \<not> in_flight fp l'"
  shows "solo (holds_lease (s, i) fp) (on_leases (\<lambda>now leases. with_lease leases s i (f now))) (\<lambda>_. none_in_flight fp)"
  unfolding on_leases_def
proof (rule solo_call, goal_cases)
  case (1 w)
  then obtain l where l: "hm_get (hw_leases w) (s, i) = Some l" "lease_status l = LeaseClaimed" "lease_fingerprint l = Some fp"
    "ensure_not_expired_or_exhausted (hw_clock w) l = Ok ()"
    "\<forall>k' l'. k' \<noteq> (s, i) \<longrightarrow> hm_get (hw_leases w) k' = Some l' \<longrightarrow> \<not> in_flight fp l'"
    unfolding holds_lease_def by blast
  obtain l' where l': "f (hw_clock w) l = Ok l'" "\<not> in_flight fp l'" using assms [OF l(2-4)] by blast
  then have "with_lease (hw_leases w) s i (f (hw_clock w)) = (Ok l', hm_insert (s, i) l' (hw_leases w))"
    by (simp add: with_lease_def l(1))
  then show ?case
    using l(5) l'(2) unfolding none_in_flight_def by (simp add: hm_get_insert)
qed

lemma solo_consume: "solo (holds_lease (s, i) fp) (cls_consume memory_capability_leases s i) (\<lambda>_. none_in_flight fp)"
  unfolding memory_capability_leases_def CapabilityLeaseStore.simps mem_consume_def
  by (rule solo_lease_update) (auto simp: in_flight_def consume_lease_def ensure_consumable_def Let_def)

lemma solo_revoke: "solo (holds_lease (s, i) fp) (cls_revoke memory_capability_leases s i) (\<lambda>_. none_in_flight fp)"
  unfolding memory_capability_leases_def CapabilityLeaseStore.simps mem_revoke_def
  by (rule solo_lease_update) (auto simp: in_flight_def revoke_lease_def)

lemma solo_abort_dispatch: "solo (holds_lease (s, i) fp) (cls_abort_dispatch_claimed memory_capability_leases s i) (\<lambda>_. holds_lease (s, i) fp)"
  unfolding memory_capability_leases_def CapabilityLeaseStore.simps mem_abort_dispatch_claimed_def on_leases_def
  by (rule solo_call) (auto simp: holds_lease_def with_lease_def apply_abort_dispatch_claimed_transition_def hm_get_insert)

lemma auth_error_transition: "is_block_auth_transition e \<longleftrightarrow> auth_error e"
  by (cases e) (simp_all add: is_block_auth_transition_def)

lemma solo_cleanup:
  "solo (holds_lease (s, i) fp) (cleanup_claimed_lease_after_resume_error memory_capability_leases s i e)
     (\<lambda>_ w. if auth_error e then holds_lease (s, i) fp w else none_in_flight fp w)"
  unfolding cleanup_claimed_lease_after_resume_error_def auth_error_transition
  by (cases "auth_error e") (auto intro: solo_ignoring [OF solo_abort_dispatch] solo_ignoring [OF solo_revoke] solo_Ready)

lemma solo_resumed_failed:
  assumes "lease_id l = i"
  shows "solo (holds_lease (rq_scope rq, i) fp) (resumed_failed memory_run_state rq (Some (memory_capability_leases, l)) e)
    (lease_settled fp)"
proof -
  have run: "guarantees same_leases (apply_run_state_transition_if_configured (Some memory_run_state) (rq_scope rq) (rq_invocation_id rq) e)"
    by (rule quiet_run_steps) (simp add: same_leases_stores)
  have settled: "if auth_error e then holds_lease k fp w else none_in_flight fp w \<Longrightarrow> lease_settled fp (Err e) w" for k w
    unfolding lease_settled_def by (cases k) (auto split: if_splits)
  show ?thesis
    unfolding resumed_failed_def on_claimed_def option.case prod.case assms
    by (rule solo_ignoring [OF leases_kept(1) [OF run]], rule solo_ignoring, rule solo_ignoring [OF solo_cleanup], rule solo_Ready,
        assumption, rule solo_Ready, erule settled)
qed

lemma solo_resumed_completed:
  assumes "lease_id l = i"
  shows "solo (holds_lease (rq_scope rq, i) fp)
    (resumed_completed (memory_host p) memory_run_state rq ctx obs (Some (memory_capability_leases, l)) dispatch) (lease_settled fp)"
  unfolding resumed_completed_def on_claimed_def option.case prod.case assms
proof (rule solo_await [OF leases_kept(1) [OF handler_obligations(2) [OF same_leases_stores(3)]]], goal_cases)
  case (1 res)
  have abort: "guarantees same_leases (abort_obligations (memory_host p) PhaseResume ctx c est obs outcm)" for c est outcm
    by (rule handler_obligations(3) [OF same_leases_stores(3)])
  have fail: "guarantees same_leases (fail_run_if_configured (Some memory_run_state) (rq_scope rq) (rq_invocation_id rq) k)" for k
    by (rule quiet_run_steps) (simp add: same_leases_stores)
  have complete: "guarantees same_leases (complete_run_after_side_effect memory_run_state (rq_scope rq) (rq_invocation_id rq))"
    by (rule quiet_complete [OF same_leases_stores(1)])
  show ?case
  proof (cases res)
    case (Inl e)
    show ?thesis
      unfolding Inl sum.case
      by (rule solo_ignoring [OF leases_kept(1) [OF abort]], rule solo_ignoring [OF leases_kept(1) [OF fail]],
          rule solo_ignoring [OF solo_ignoring [OF solo_revoke solo_Ready]], assumption, rule solo_Ready)
         (simp add: lease_settled_def)
  next
    case (Inr dispatch')
    show ?thesis
      unfolding Inr sum.case
      by (rule solo_ignoring [OF solo_ignoring [OF solo_consume solo_Ready]], assumption,
          rule solo_ignoring [OF leases_kept(2) [OF complete]], rule solo_Ready) (simp add: lease_settled_def)
  qed
qed

lemma solo_dispatch_claimed:
  assumes "lease_id l = i"
  shows "solo (holds_lease (rq_scope rq, i) fp)
    (dispatch_claimed (memory_host p) memory_run_state rq ctx obs (Some (memory_capability_leases, l))) (lease_settled fp)"
  unfolding dispatch_claimed_def
proof (rule solo_await [OF leases_kept(1) [OF handler_obligations(1) [OF same_leases_stores(3)]]], goal_cases)
  case (1 res)
  have dispatch: "guarantees same_leases (h_dispatcher (memory_host p) dq)" for dq
    unfolding memory_host_ports CapabilityHost.simps by (rule same_leases_calls)
  have abort: "guarantees same_leases (abort_obligations (memory_host p) PhaseResume ctx c est obs outcm)" for c est outcm
    by (rule handler_obligations(3) [OF same_leases_stores(3)])
  show ?case
  proof (cases res)
    case (Inl e)
    then show ?thesis by (simp add: solo_resumed_failed [OF assms])
  next
    case (Inr outcm)
    show ?thesis
      unfolding Inr sum.case
      by (rule solo_await [OF leases_kept(1) [OF dispatch]])
         (auto intro!: solo_ignoring [OF leases_kept(1) [OF abort]] solo_resumed_failed solo_resumed_completed assms split: sum.split)
  qed
qed

definition leases_keyed :: "('d, 'v, 's, 't, 'e) host_world \<Rightarrow> bool" where
  "leases_keyed w = (\<forall>k l. hm_get (hw_leases w) k = Some l \<longrightarrow> lease_id l = snd k)"

abbreviation idle :: "InvocationFingerprint \<Rightarrow> ('d, 'v, 's, 't, 'e) host_world \<Rightarrow> bool" where
  "idle fp w \<equiv> none_in_flight fp w \<and> leases_keyed w"

lemma solo_idle: "guarantees same_leases q \<Longrightarrow> solo (idle fp) q (\<lambda>_. idle fp)"
  by (erule solo_quiet) (simp add: none_in_flight_def leases_keyed_def)

lemma idle_settled: "guarantees same_leases q \<Longrightarrow> solo (idle fp) q (lease_settled fp)"
  by (rule solo_conseq [OF solo_idle]) (auto simp: lease_settled_def)

lemma solo_claim:
  "solo (idle fp) (cls_claim memory_capability_leases s i fp)
     (\<lambda>res w. case res of Inl e \<Rightarrow> idle fp w | Inr l \<Rightarrow> holds_lease (s, i) fp w \<and> lease_id l = i)"
  unfolding memory_capability_leases_def CapabilityLeaseStore.simps mem_claim_def on_leases_def
proof (rule solo_call, goal_cases)
  case (1 w)
  show ?case
  proof (cases "hm_get (hw_leases w) (s, i)")
    case None
    with 1 show ?thesis by (simp add: with_lease_def none_in_flight_def leases_keyed_def)
  next
    case (Some l)
    with 1 have "lease_id l = i" by (auto simp: leases_keyed_def)
    with 1 Some show ?thesis
      by (auto simp: with_lease_def claim_lease_def ensure_claimable_def holds_lease_def none_in_flight_def leases_keyed_def
          hm_get_insert ensure_not_expired_or_exhausted_def lease_is_expired_def split: sum.splits if_splits)
  qed
qed

lemma solo_dispatch_resumed:
  "solo (idle fp) (dispatch_resumed_capability (memory_host p) memory_run_state rq ctx d
     (PendingClaim memory_capability_leases i fp)) (lease_settled fp)"
proof -
  have refused: "solo (idle fp) (ignoring (fail_run_if_configured (Some memory_run_state) (rq_scope rq) (rq_invocation_id rq) k)
      (ignoring (Ready ()) (Ready (Err e)))) (lease_settled fp)" for k e
    by (rule idle_settled) (auto intro!: guarantees_ignoring quiet_run_steps simp: same_leases_stores)
  have failed: "solo (idle fp) (claim_failed memory_run_state rq e) (lease_settled fp)" for e
    by (rule idle_settled [OF quiet_claim_failed [OF same_leases_stores(1)]])
  have auth: "guarantees same_leases (h_authorize_dispatch (memory_host p) ctx d est trust)" for est trust
    unfolding memory_host_ports CapabilityHost.simps by (rule same_leases_calls)
  have allow: "solo (idle fp) (try_await (claim_resumed (PendingClaim memory_capability_leases i fp) memory_run_state rq)
      (dispatch_claimed (memory_host p) memory_run_state rq ctx obs)) (lease_settled fp)" for obs
    unfolding claim_resumed_def ResumedLeaseState.case try_await_assoc
  proof (rule solo_await [OF solo_claim], goal_cases)
    case (1 res)
    show ?case
    proof (cases res)
      case (Inl e)
      then show ?thesis by (simp add: try_claim_failed failed)
    next
      case (Inr l)
      show ?thesis
        unfolding Inr sum.case try_await_Ready
        by (rule solo_pure [where C = "lease_id l = i"], erule conjE, rule conjI, assumption, assumption) (rule solo_dispatch_claimed)
    qed
  qed
  show ?thesis
    unfolding dispatch_resumed_capability_def revoke_already_claimed_def ResumedLeaseState.case
    by (rule solo_await [OF solo_idle [OF auth]]) (auto intro!: allow refused split: Decision.split)
qed

lemma solo_begin_resume:
  assumes "\<And>d l. solo (idle fp) (go memory_run_state memory_capability_leases d fp l) (lease_settled fp)"
    and "invocation_fingerprint_for_kind (memory_host p) kind rq = Ok fp"
  shows "solo (idle fp) (begin_resume (memory_host p) kind rq go) (lease_settled fp)"
proof -
  have refuse: "solo (idle fp) (refuse (Some memory_run_state) rq k e) (lease_settled fp)" for k e
    by (rule idle_settled [OF quiet_run_steps(3)]) (simp add: same_leases_stores)
  have err: "solo (idle fp) (Ready (Err e)) (lease_settled fp)" for e
    by (rule idle_settled) simp
  have runs: "guarantees same_leases (from_run_state (rst_get memory_run_state s i))" for s i
    by (rule quiet_from_run_state [OF quiet_runsD(6) [OF same_leases_stores(1)]])
  have approvals: "guarantees same_leases (from_run_state (aps_get memory_approval_requests s i))" for s i
    by (rule quiet_from_run_state [OF quiet_approvalsD(2) [OF same_leases_stores(2)]])
  have search: "guarantees same_leases (matching_approval_lease memory_capability_leases ctx c fp)" for ctx c
    unfolding matching_approval_lease_def memory_capability_leases_def CapabilityLeaseStore.simps on_leases_def
    by (auto intro!: guarantees_await)
  show ?thesis
    unfolding begin_resume_def memory_host_stores prod.case option.case blocked_run_def approved_request_def assms(2) sum.case
    by (auto intro!: err refuse assms(1) solo_try [OF solo_idle [OF runs]] solo_try [OF solo_idle [OF approvals]]
        solo_await [OF solo_idle [OF search]] simp: lease_settled_def split: option.split sum.split)
qed


definition bounced where
  "bounced = finish (resume_json (memory_host shell_ports) shell_resume) (approved_world 1)"


end
