(* ===== verification/Extensions.thy ===== *)
theory Extensions
  imports Trust Filesystem
begin

text \<open>
  Extension packages and the registry (\<open>ironclaw_extensions/src/lib.rs\<close>, \<open>registry.rs\<close>,
  \<open>lifecycle.rs\<close>): manifests, packages with the descriptors they project, the registry of packages and
  capabilities with its shared, versioned handle, the lifecycle service, and discovery. The JSON value
  \<open>{"$ref": path}\<close>, the text of an error, and the reading of one manifest are arguments.
\<close>

section \<open>Manifests\<close>

type_synonym CapabilityProfileId = string
type_synonym CapabilityProfileSchemaRef = string
type_synonym HostPortId = string

datatype ManifestSource = HostBundled | InstalledLocal | RegistryInstalled

definition allows_first_party :: "ManifestSource \<Rightarrow> bool" where
  "allows_first_party s = (s = HostBundled)"

datatype CapabilityVisibility = VisModel | VisHostInternal | VisApi

record HostApiRefV2 =
  har_id :: string
  har_section :: string

record HookSectionEntryV2 =
  hook_local_id :: string
  hook_raw_toml :: string

record ('d, 't) CapabilityManifest =
  cm_id :: CapabilityId
  cm_implements :: "CapabilityProfileId list"
  cm_description :: string
  cm_effects :: "EffectKind list"
  cm_default_permission :: PermissionMode
  cm_visibility :: CapabilityVisibility
  cm_input_schema_ref :: CapabilityProfileSchemaRef
  cm_output_schema_ref :: CapabilityProfileSchemaRef
  cm_prompt_doc_ref :: "CapabilityProfileSchemaRef option"
  cm_required_host_ports :: "HostPortId list"
  cm_runtime_credentials :: "'t RuntimeCredentialRequirement list"
  cm_network_targets :: "NetworkTargetPattern list"
  cm_resource_profile :: "'d ResourceProfile option"

datatype ExtensionError =
    ExContract HostApiError
  | ExManifestParse string
  | ExInvalidManifest string
  | ExInvalidAssetPath string string
  | ExManifestIdMismatch VirtualPath ExtensionId ExtensionId
  | ExDuplicateExtension ExtensionId
  | ExExtensionNotFound ExtensionId
  | ExDuplicateCapability CapabilityId
  | ExLifecycleEventSink ExtensionId ExtensionLifecycleOperation
  | ExFilesystem FilesystemError

subsection \<open>Asset paths\<close>

type_synonym ExtensionAssetPath = string

definition is_ascii_alphabetic :: "char \<Rightarrow> bool" where
  "is_ascii_alphabetic c = (is_ascii_lowercase c \<or> is_ascii_uppercase c)"

definition asset_looks_like_windows_path :: "string \<Rightarrow> bool" where
  "asset_looks_like_windows_path v =
    ((2 \<le> length v \<and> is_ascii_alphabetic (v ! 0) \<and> v ! 1 = CHR '':'')
     \<or> (3 \<le> length v \<and> v ! 1 = CHR '':'' \<and> (v ! 2 = CHR 0x5C \<or> v ! 2 = CHR ''/'')))"

definition validate_asset_path :: "string \<Rightarrow> (ExtensionError, unit) result" where
  "validate_asset_path v =
    (if v = [] then Err (ExInvalidAssetPath v ''asset path must not be empty'')
     else if CHR 0x00 \<in> set v \<or> has_control v
     then Err (ExInvalidAssetPath v ''NUL/control characters are not allowed'')
     else if contains_str ''://'' v then Err (ExInvalidAssetPath v ''URLs are not extension asset paths'')
     else if prefix ''/'' v then Err (ExInvalidAssetPath v ''asset path must be relative'')
     else if asset_looks_like_windows_path v \<or> CHR 0x5C \<in> set v
     then Err (ExInvalidAssetPath v ''host path separators are not allowed'')
     else if list_ex (\<lambda>s. s = [] \<or> s = ''.'' \<or> s = ''..'') (split_on (CHR ''/'') v)
     then Err (ExInvalidAssetPath v ''empty or dot path segments are not allowed'')
     else Ok ())"

definition ExtensionAssetPath_new :: "string \<Rightarrow> (ExtensionError, ExtensionAssetPath) result" where
  "ExtensionAssetPath_new v = result_bind (validate_asset_path v) (\<lambda>_. Ok v)"

definition resolve_under :: "ExtensionAssetPath \<Rightarrow> VirtualPath \<Rightarrow> (ExtensionError, VirtualPath) result" where
  "resolve_under asset root =
    map_sum ExContract id (VirtualPath_new (trim_end_matches (CHR ''/'') root @ ''/'' @ asset))"

subsection \<open>Runtimes\<close>

datatype ExtensionRuntimeV2 =
    WasmV2 string
  | ScriptV2 string "string option" string "string list"
  | McpV2 string "string option" "string list" "string option"
  | FirstPartyV2 string
  | SystemV2 string

datatype ExtensionRuntime =
    RuntimeWasm ExtensionAssetPath
  | RuntimeScript string "string option" string "string list"
  | RuntimeMcp string "string option" "string list" "string option"
  | RuntimeFirst string
  | RuntimeSys string

fun runtime_kind_of :: "ExtensionRuntime \<Rightarrow> RuntimeKind" where
  "runtime_kind_of (RuntimeWasm _) = Wasm"
| "runtime_kind_of (RuntimeScript _ _ _ _) = Script"
| "runtime_kind_of (RuntimeMcp _ _ _ _) = Mcp"
| "runtime_kind_of (RuntimeFirst _) = RuntimeFirstParty"
| "runtime_kind_of (RuntimeSys _) = RuntimeSystem"

fun runtime_from_v2 :: "ExtensionRuntimeV2 \<Rightarrow> (ExtensionError, ExtensionRuntime) result" where
  "runtime_from_v2 (WasmV2 m) = result_bind (ExtensionAssetPath_new m) (\<lambda>a. Ok (RuntimeWasm a))"
| "runtime_from_v2 (ScriptV2 runner img command args) = Ok (RuntimeScript runner img command args)"
| "runtime_from_v2 (McpV2 transport command args url) = Ok (RuntimeMcp transport command args url)"
| "runtime_from_v2 (FirstPartyV2 service) = Ok (RuntimeFirst service)"
| "runtime_from_v2 (SystemV2 service) = Ok (RuntimeSys service)"

record ('d, 't, 'r) ManifestOf =
  mf_schema_version :: string
  mf_id :: ExtensionId
  mf_name :: string
  mf_version :: string
  mf_description :: string
  mf_source :: ManifestSource
  mf_requested_trust :: RequestedTrustClass
  mf_descriptor_trust_default :: TrustClass
  mf_runtime :: 'r
  mf_host_apis :: "HostApiRefV2 list"
  mf_capabilities :: "('d, 't) CapabilityManifest list"
  mf_hooks :: "HookSectionEntryV2 list"

type_synonym ('d, 't) ExtensionManifest = "('d, 't, ExtensionRuntime) ManifestOf"
type_synonym ('d, 't) ExtensionManifestV2 = "('d, 't, ExtensionRuntimeV2) ManifestOf"

definition manifest_runtime_kind :: "('d, 't) ExtensionManifest \<Rightarrow> RuntimeKind" where
  "manifest_runtime_kind m = runtime_kind_of (mf_runtime m)"

definition manifest_try_from :: "('d, 't) ExtensionManifestV2 \<Rightarrow> (ExtensionError, ('d, 't) ExtensionManifest) result" where
  "manifest_try_from m =
    result_bind (runtime_from_v2 (mf_runtime m)) (\<lambda>runtime.
      Ok \<lparr>mf_schema_version = mf_schema_version m, mf_id = mf_id m, mf_name = mf_name m,
          mf_version = mf_version m, mf_description = mf_description m, mf_source = mf_source m,
          mf_requested_trust = mf_requested_trust m,
          mf_descriptor_trust_default = mf_descriptor_trust_default m, mf_runtime = runtime,
          mf_host_apis = mf_host_apis m, mf_capabilities = mf_capabilities m, mf_hooks = mf_hooks m\<rparr>)"

section \<open>Packages\<close>

datatype CapabilityDescriptorSchemaMode = ManifestRefs | InlineDynamic

record ('d, 's, 't) ExtensionPackage =
  ep_id :: ExtensionId
  ep_root :: VirtualPath
  ep_manifest :: "('d, 't) ExtensionManifest"
  ep_capabilities :: "('d, 's, 't) CapabilityDescriptor list"
  ep_manifest_digest :: "string option"
  ep_descriptor_schema_mode :: CapabilityDescriptorSchemaMode

definition ExtensionId_new :: "string \<Rightarrow> (HostApiError, ExtensionId) result" where
  "ExtensionId_new v = result_bind (validate_name_segment ''extension'' v) (\<lambda>_. Ok v)"

definition PackageId_new :: "string \<Rightarrow> (HostApiError, PackageId) result" where
  "PackageId_new v = result_bind (validate_name_segment ''package'' v) (\<lambda>_. Ok v)"

definition invalid_package_root :: "VirtualPath \<Rightarrow> ExtensionError" where
  "invalid_package_root root =
    ExInvalidManifest (''extension package root '' @ root @ '' must be /system/extensions/<extension>'')"

definition extension_id_from_package_root :: "VirtualPath \<Rightarrow> (ExtensionError, ExtensionId) result" where
  "extension_id_from_package_root root =
    (case strip_prefix ''/system/extensions/'' root of
       None \<Rightarrow> Err (invalid_package_root root)
     | Some v \<Rightarrow>
         if v = [] \<or> CHR ''/'' \<in> set v then Err (invalid_package_root root)
         else map_sum ExContract id (ExtensionId_new v))"

definition ensure_extension_root_matches :: "ExtensionId \<Rightarrow> VirtualPath \<Rightarrow> (ExtensionError, unit) result" where
  "ensure_extension_root_matches i root =
    result_bind (extension_id_from_package_root root) (\<lambda>expected.
      if expected \<noteq> i then Err (ExManifestIdMismatch root expected i) else Ok ())"

text \<open>\<open>schema_ref\<close> builds the value \<open>json!({"$ref": path})\<close>.\<close>

definition descriptor_of ::
  "(CapabilityProfileSchemaRef \<Rightarrow> 's) \<Rightarrow> ('d, 't) ExtensionManifest \<Rightarrow> ('d, 't) CapabilityManifest \<Rightarrow> ('d, 's, 't) CapabilityDescriptor" where
  "descriptor_of schema_ref m c =
    \<lparr>desc_id = cm_id c, desc_provider = mf_id m, desc_runtime = manifest_runtime_kind m,
     desc_trust_ceiling = mf_descriptor_trust_default m, desc_description = cm_description c,
     desc_parameters_schema = schema_ref (cm_input_schema_ref c), desc_effects = cm_effects c,
     desc_default_permission = cm_default_permission c, desc_runtime_credentials = cm_runtime_credentials c,
     desc_network_targets = cm_network_targets c, desc_resource_profile = cm_resource_profile c\<rparr>"

fun descriptors_from ::
  "(CapabilityProfileSchemaRef \<Rightarrow> 's) \<Rightarrow> ('d, 't) ExtensionManifest \<Rightarrow> CapabilityId list
     \<Rightarrow> ('d, 't) CapabilityManifest list \<Rightarrow> (ExtensionError, ('d, 's, 't) CapabilityDescriptor list) result" where
  "descriptors_from schema_ref m seen [] = Ok []"
| "descriptors_from schema_ref m seen (c # cs) =
    (if \<not> prefix (mf_id m @ ''.'') (cm_id c)
     then Err (ExInvalidManifest (''capability id '' @ cm_id c @ '' must be provider-prefixed with '' @ mf_id m @ ''.''))
     else if cm_id c \<in> set seen then Err (ExDuplicateCapability (cm_id c))
     else result_bind (descriptors_from schema_ref m (cm_id c # seen) cs) (\<lambda>ds. Ok (descriptor_of schema_ref m c # ds)))"

definition capability_descriptors_from_manifest ::
  "(CapabilityProfileSchemaRef \<Rightarrow> 's) \<Rightarrow> ('d, 't) ExtensionManifest \<Rightarrow> (ExtensionError, ('d, 's, 't) CapabilityDescriptor list) result" where
  "capability_descriptors_from_manifest schema_ref m = descriptors_from schema_ref m [] (mf_capabilities m)"

definition descriptors_match_except_schema ::
  "('d, 's, 't) CapabilityDescriptor list \<Rightarrow> ('d, 's, 't) CapabilityDescriptor list \<Rightarrow> bool" where
  "descriptors_match_except_schema actual expected =
    (length actual = length expected
     \<and> list_all (\<lambda>(a, e). a\<lparr>desc_parameters_schema := desc_parameters_schema e\<rparr> = e) (zip actual expected))"

definition from_manifest_with_digest ::
  "(CapabilityProfileSchemaRef \<Rightarrow> 's) \<Rightarrow> ('d, 't) ExtensionManifest \<Rightarrow> VirtualPath \<Rightarrow> string option
     \<Rightarrow> (ExtensionError, ('d, 's, 't) ExtensionPackage) result" where
  "from_manifest_with_digest schema_ref m root digest =
    result_bind (ensure_extension_root_matches (mf_id m) root) (\<lambda>_.
    result_bind (capability_descriptors_from_manifest schema_ref m) (\<lambda>capabilities.
      Ok \<lparr>ep_id = mf_id m, ep_root = root, ep_manifest = m, ep_capabilities = capabilities,
          ep_manifest_digest = digest, ep_descriptor_schema_mode = ManifestRefs\<rparr>))"

definition from_manifest ::
  "(CapabilityProfileSchemaRef \<Rightarrow> 's) \<Rightarrow> ('d, 't) ExtensionManifest \<Rightarrow> VirtualPath
     \<Rightarrow> (ExtensionError, ('d, 's, 't) ExtensionPackage) result" where
  "from_manifest schema_ref m root = from_manifest_with_digest schema_ref m root None"

text \<open>\<open>digest\<close> is \<open>sha256_digest_token\<close> of the manifest's bytes.\<close>

definition from_manifest_toml ::
  "(CapabilityProfileSchemaRef \<Rightarrow> 's) \<Rightarrow> (string \<Rightarrow> string) \<Rightarrow> ('d, 't) ExtensionManifest \<Rightarrow> VirtualPath \<Rightarrow> string
     \<Rightarrow> (ExtensionError, ('d, 's, 't) ExtensionPackage) result" where
  "from_manifest_toml schema_ref digest m root toml = from_manifest_with_digest schema_ref m root (Some (digest toml))"

definition from_host_bundled_manifest_with_inline_dynamic_schemas ::
  "(CapabilityProfileSchemaRef \<Rightarrow> 's) \<Rightarrow> ('d, 't) ExtensionManifest \<Rightarrow> VirtualPath \<Rightarrow> string option
     \<Rightarrow> ('d, 's, 't) CapabilityDescriptor list \<Rightarrow> (ExtensionError, ('d, 's, 't) ExtensionPackage) result" where
  "from_host_bundled_manifest_with_inline_dynamic_schemas schema_ref m root digest capabilities =
    (if mf_source m \<noteq> HostBundled
     then Err (ExInvalidManifest ''inline dynamic descriptor schemas are only supported for host-bundled packages'')
     else result_bind (ensure_extension_root_matches (mf_id m) root) (\<lambda>_.
       result_bind (capability_descriptors_from_manifest schema_ref m) (\<lambda>expected.
         if \<not> descriptors_match_except_schema capabilities expected
         then Err (ExInvalidManifest ''inline dynamic capability descriptors do not match manifest declarations'')
         else Ok \<lparr>ep_id = mf_id m, ep_root = root, ep_manifest = m, ep_capabilities = capabilities,
                  ep_manifest_digest = digest, ep_descriptor_schema_mode = InlineDynamic\<rparr>)))"

definition validate_consistency ::
  "(CapabilityProfileSchemaRef \<Rightarrow> 's) \<Rightarrow> ('d, 's, 't) ExtensionPackage \<Rightarrow> (ExtensionError, unit) result" where
  "validate_consistency schema_ref p =
    (if ep_id p \<noteq> mf_id (ep_manifest p)
     then Err (ExInvalidManifest (''package id '' @ ep_id p @ '' does not match manifest id '' @ mf_id (ep_manifest p)))
     else result_bind (ensure_extension_root_matches (mf_id (ep_manifest p)) (ep_root p)) (\<lambda>_.
       result_bind (capability_descriptors_from_manifest schema_ref (ep_manifest p)) (\<lambda>expected.
         if case ep_descriptor_schema_mode p of
              ManifestRefs \<Rightarrow> ep_capabilities p = expected
            | InlineDynamic \<Rightarrow> mf_source (ep_manifest p) = HostBundled
                \<and> descriptors_match_except_schema (ep_capabilities p) expected
         then Ok ()
         else Err (ExInvalidManifest ''package capability descriptors do not match manifest declarations''))))"

definition package_identity ::
  "(CapabilityProfileSchemaRef \<Rightarrow> 's) \<Rightarrow> ('d, 's, 't) ExtensionPackage \<Rightarrow> PackageSource \<Rightarrow> string option \<Rightarrow> string option
     \<Rightarrow> (ExtensionError, PackageIdentity) result" where
  "package_identity schema_ref p source digest signer =
    result_bind (validate_consistency schema_ref p) (\<lambda>_.
    result_bind (map_sum ExContract id (PackageId_new (mf_id (ep_manifest p)))) (\<lambda>i.
      Ok \<lparr>pkg_id = i, pkg_source = source, pkg_digest = digest, pkg_signer = signer\<rparr>))"

text \<open>A \<open>BTreeSet\<close> of identifiers: their sorted list without repetition.\<close>

definition trust_policy_input ::
  "(CapabilityProfileSchemaRef \<Rightarrow> 's) \<Rightarrow> ('d, 's, 't) ExtensionPackage
     \<Rightarrow> PackageSource \<Rightarrow> string option \<Rightarrow> string option \<Rightarrow> (ExtensionError, TrustPolicyInput) result" where
  "trust_policy_input schema_ref p source digest signer =
    result_bind (package_identity schema_ref p source digest signer) (\<lambda>i.
      Ok \<lparr>identity = i, requested_trust = mf_requested_trust (ep_manifest p),
          requested_authority = sort (remdups (map desc_id (ep_capabilities p)))\<rparr>)"

section \<open>The registry\<close>

record ('d, 's, 't) ExtensionRegistry =
  rg_packages :: "(ExtensionId, ('d, 's, 't) ExtensionPackage) hashmap"
  rg_capabilities :: "(CapabilityId, ('d, 's, 't) CapabilityDescriptor) hashmap"
  rg_visibility :: "(CapabilityId, CapabilityVisibility) hashmap"
  rg_extension_order :: "ExtensionId list"
  rg_capability_order :: "CapabilityId list"

definition ExtensionRegistry_new :: "('d, 's, 't) ExtensionRegistry" where
  "ExtensionRegistry_new = \<lparr>rg_packages = [], rg_capabilities = [], rg_visibility = [],
     rg_extension_order = [], rg_capability_order = []\<rparr>"

definition get_extension :: "('d, 's, 't) ExtensionRegistry \<Rightarrow> ExtensionId \<Rightarrow> ('d, 's, 't) ExtensionPackage option" where
  "get_extension r i = hm_get (rg_packages r) i"

definition get_capability :: "('d, 's, 't) ExtensionRegistry \<Rightarrow> CapabilityId \<Rightarrow> ('d, 's, 't) CapabilityDescriptor option" where
  "get_capability r i = hm_get (rg_capabilities r) i"

definition capability_visibility :: "('d, 's, 't) ExtensionRegistry \<Rightarrow> CapabilityId \<Rightarrow> CapabilityVisibility option" where
  "capability_visibility r i = hm_get (rg_visibility r) i"

definition registry_extensions :: "('d, 's, 't) ExtensionRegistry \<Rightarrow> ('d, 's, 't) ExtensionPackage list" where
  "registry_extensions r = List.map_filter (hm_get (rg_packages r)) (rg_extension_order r)"

definition registry_capabilities :: "('d, 's, 't) ExtensionRegistry \<Rightarrow> ('d, 's, 't) CapabilityDescriptor list" where
  "registry_capabilities r = List.map_filter (hm_get (rg_capabilities r)) (rg_capability_order r)"

definition existing_package ::
  "('d, 's, 't) ExtensionRegistry \<Rightarrow> ExtensionId \<Rightarrow> (ExtensionError, ('d, 's, 't) ExtensionPackage) result" where
  "existing_package r i =
    (case get_extension r i of None \<Rightarrow> Err (ExExtensionNotFound i) | Some p \<Rightarrow> Ok p)"

definition declares :: "('d, 's, 't) ExtensionPackage \<Rightarrow> CapabilityId \<Rightarrow> bool" where
  "declares p i = list_ex (\<lambda>d. desc_id d = i) (ep_capabilities p)"

text \<open>A capability that is taken, unless by the package that is replaced.\<close>

definition taken :: "('d, 's, 't) ExtensionRegistry \<Rightarrow> ExtensionId option \<Rightarrow> CapabilityId \<Rightarrow> bool" where
  "taken r replacing i =
    (hm_contains (rg_capabilities r) i
     \<and> \<not> unwrap_or False (map_option (\<lambda>p. declares p i) (Option.bind replacing (get_extension r))))"

fun capabilities_available ::
  "('d, 's, 't) ExtensionRegistry \<Rightarrow> ExtensionId \<Rightarrow> ExtensionId option \<Rightarrow> CapabilityId list
     \<Rightarrow> ('d, 's, 't) CapabilityDescriptor list \<Rightarrow> (ExtensionError, unit) result" where
  "capabilities_available r package_id replacing seen [] = Ok ()"
| "capabilities_available r package_id replacing seen (d # ds) =
    (if desc_id d \<in> set seen \<or> taken r replacing (desc_id d) then Err (ExDuplicateCapability (desc_id d))
     else if desc_provider d \<noteq> package_id
     then Err (ExInvalidManifest (''descriptor '' @ desc_id d @ '' provider '' @ desc_provider d
            @ '' does not match package '' @ package_id))
     else capabilities_available r package_id replacing (desc_id d # seen) ds)"

definition validate_capabilities_available ::
  "('d, 's, 't) ExtensionRegistry \<Rightarrow> ('d, 's, 't) ExtensionPackage \<Rightarrow> ExtensionId option \<Rightarrow> (ExtensionError, unit) result" where
  "validate_capabilities_available r p replacing = capabilities_available r (ep_id p) replacing [] (ep_capabilities p)"

definition validate_insertable ::
  "(CapabilityProfileSchemaRef \<Rightarrow> 's) \<Rightarrow> ('d, 's, 't) ExtensionRegistry \<Rightarrow> ('d, 's, 't) ExtensionPackage \<Rightarrow> (ExtensionError, unit) result" where
  "validate_insertable schema_ref r p =
    result_bind (validate_consistency schema_ref p) (\<lambda>_.
      if hm_contains (rg_packages r) (ep_id p) then Err (ExDuplicateExtension (ep_id p))
      else validate_capabilities_available r p None)"

definition validate_replacement ::
  "(CapabilityProfileSchemaRef \<Rightarrow> 's) \<Rightarrow> ('d, 's, 't) ExtensionRegistry \<Rightarrow> ('d, 's, 't) ExtensionPackage \<Rightarrow> (ExtensionError, unit) result" where
  "validate_replacement schema_ref r p =
    result_bind (validate_consistency schema_ref p) (\<lambda>_.
    result_bind (existing_package r (ep_id p)) (\<lambda>_.
      validate_capabilities_available r p (Some (ep_id p))))"

text \<open>The entries of one descriptor: itself, and the visibility the manifest declares.\<close>

definition index_capability ::
  "('d, 's, 't) ExtensionPackage \<Rightarrow> ('d, 's, 't) CapabilityDescriptor \<Rightarrow> ('d, 's, 't) ExtensionRegistry \<Rightarrow> ('d, 's, 't) ExtensionRegistry" where
  "index_capability p d r =
    (let r' = r\<lparr>rg_capabilities := hm_insert (desc_id d) d (rg_capabilities r)\<rparr>
     in case List.find (\<lambda>c. cm_id c = desc_id d) (mf_capabilities (ep_manifest p)) of
          None \<Rightarrow> r'
        | Some c \<Rightarrow> r'\<lparr>rg_visibility := hm_insert (desc_id d) (cm_visibility c) (rg_visibility r)\<rparr>)"

definition insert_validated ::
  "('d, 's, 't) ExtensionPackage \<Rightarrow> ('d, 's, 't) ExtensionRegistry \<Rightarrow> ('d, 's, 't) ExtensionRegistry" where
  "insert_validated p r =
    (let r1 = fold (\<lambda>d r. index_capability p d (r\<lparr>rg_capability_order := rg_capability_order r @ [desc_id d]\<rparr>))
                (ep_capabilities p) r
     in r1\<lparr>rg_extension_order := rg_extension_order r1 @ [ep_id p],
           rg_packages := hm_insert (ep_id p) p (rg_packages r1)\<rparr>)"

definition registry_insert ::
  "(CapabilityProfileSchemaRef \<Rightarrow> 's) \<Rightarrow> ('d, 's, 't) ExtensionPackage \<Rightarrow> ('d, 's, 't) ExtensionRegistry
     \<Rightarrow> (ExtensionError, unit) result \<times> ('d, 's, 't) ExtensionRegistry" where
  "registry_insert schema_ref p r =
    (case validate_insertable schema_ref r p of Inl e \<Rightarrow> (Err e, r) | Inr _ \<Rightarrow> (Ok (), insert_validated p r))"

text \<open>\<open>Vec::insert\<close>, which panics past the end, and the position of the first match.\<close>

definition insert_at :: "nat \<Rightarrow> 'a \<Rightarrow> 'a list \<Rightarrow> 'a list option" where
  "insert_at i x xs = (if i \<le> length xs then Some (take i xs @ x # drop i xs) else None)"

definition position :: "('a \<Rightarrow> bool) \<Rightarrow> 'a list \<Rightarrow> nat option" where
  "position P xs = (if list_ex P xs then Some (length (takeWhile (\<lambda>x. \<not> P x) xs)) else None)"

text \<open>\<open>None\<close> is the panic of \<open>Vec::insert\<close>.\<close>

fun replace_capabilities ::
  "('d, 's, 't) ExtensionPackage \<Rightarrow> nat \<Rightarrow> ('d, 's, 't) CapabilityDescriptor list \<Rightarrow> ('d, 's, 't) ExtensionRegistry
     \<Rightarrow> ('d, 's, 't) ExtensionRegistry option" where
  "replace_capabilities p i [] r = Some r"
| "replace_capabilities p i (d # ds) r =
    (case insert_at i (desc_id d) (rg_capability_order r) of
       None \<Rightarrow> None
     | Some order \<Rightarrow> replace_capabilities p (Suc i) ds (index_capability p d (r\<lparr>rg_capability_order := order\<rparr>)))"

definition drop_capabilities ::
  "CapabilityId list \<Rightarrow> ('d, 's, 't) ExtensionRegistry \<Rightarrow> ('d, 's, 't) ExtensionRegistry" where
  "drop_capabilities ids r = r\<lparr>rg_capabilities := fold hm_remove ids (rg_capabilities r),
     rg_visibility := fold hm_remove ids (rg_visibility r),
     rg_capability_order := filter (\<lambda>i. i \<notin> set ids) (rg_capability_order r)\<rparr>"

definition replace_validated ::
  "('d, 's, 't) ExtensionPackage \<Rightarrow> ('d, 's, 't) ExtensionRegistry \<Rightarrow> ('d, 's, 't) ExtensionRegistry option" where
  "replace_validated p r =
    (case get_extension r (ep_id p) of
       None \<Rightarrow> Some r
     | Some current \<Rightarrow>
         let ids = map desc_id (ep_capabilities current);
             at = unwrap_or (length (rg_capability_order r)) (position (\<lambda>i. i \<in> set ids) (rg_capability_order r))
         in map_option (\<lambda>r. r\<lparr>rg_extension_order :=
                (case position (\<lambda>i. i = ep_id p) (rg_extension_order r) of
                   Some k \<Rightarrow> (rg_extension_order r)[k := ep_id p]
                 | None \<Rightarrow> rg_extension_order r @ [ep_id p]),
                rg_packages := hm_insert (ep_id p) p (rg_packages r)\<rparr>)
              (replace_capabilities p at (ep_capabilities p) (drop_capabilities ids r)))"

definition registry_update ::
  "(CapabilityProfileSchemaRef \<Rightarrow> 's) \<Rightarrow> ('d, 's, 't) ExtensionPackage \<Rightarrow> ('d, 's, 't) ExtensionRegistry
     \<Rightarrow> ((ExtensionError, unit) result \<times> ('d, 's, 't) ExtensionRegistry) option" where
  "registry_update schema_ref p r =
    (case validate_replacement schema_ref r p of
       Inl e \<Rightarrow> Some (Err e, r)
     | Inr _ \<Rightarrow> map_option (\<lambda>r. (Ok (), r)) (replace_validated p r))"

definition registry_remove ::
  "ExtensionId \<Rightarrow> ('d, 's, 't) ExtensionRegistry
     \<Rightarrow> ('d, 's, 't) ExtensionPackage option \<times> ('d, 's, 't) ExtensionRegistry" where
  "registry_remove i r =
    (case get_extension r i of
       None \<Rightarrow> (None, r)
     | Some p \<Rightarrow> (Some p, drop_capabilities (map desc_id (ep_capabilities p))
         (r\<lparr>rg_packages := hm_remove i (rg_packages r),
            rg_extension_order := filter (\<lambda>j. j \<noteq> i) (rg_extension_order r)\<rparr>)))"

section \<open>The shared registry\<close>

text \<open>
  The write lock makes every change one step; the version is a wrapping counter of the changes.
  \<open>Arc::make_mut\<close> copies the registry when a snapshot still refers to it, so a snapshot is a value.
\<close>

record ('d, 's, 't) SharedExtensionRegistry =
  sh_inner :: "('d, 's, 't) ExtensionRegistry"
  sh_version :: u64

definition SharedExtensionRegistry_new :: "('d, 's, 't) ExtensionRegistry \<Rightarrow> ('d, 's, 't) SharedExtensionRegistry" where
  "SharedExtensionRegistry_new r = \<lparr>sh_inner = r, sh_version = 0\<rparr>"

definition registry_snapshot :: "('d, 's, 't) SharedExtensionRegistry \<Rightarrow> ('d, 's, 't) ExtensionRegistry" where
  "registry_snapshot s = sh_inner s"

definition with_mut_result ::
  "(('d, 's, 't) ExtensionRegistry \<Rightarrow> ((ExtensionError, 'a) result \<times> ('d, 's, 't) ExtensionRegistry) option)
     \<Rightarrow> ('d, 's, 't) SharedExtensionRegistry \<Rightarrow> ((ExtensionError, 'a) result \<times> ('d, 's, 't) SharedExtensionRegistry) option" where
  "with_mut_result f s =
    (case f (sh_inner s) of
       None \<Rightarrow> None
     | Some (Inl e, r) \<Rightarrow> Some (Err e, s\<lparr>sh_inner := r\<rparr>)
     | Some (Inr a, r) \<Rightarrow> Some (Ok a, \<lparr>sh_inner = r, sh_version = sh_version s + 1\<rparr>))"

definition shared_insert where
  "shared_insert schema_ref p = with_mut_result (\<lambda>r. Some (registry_insert schema_ref p r))"

definition shared_update where
  "shared_update schema_ref p = with_mut_result (registry_update schema_ref p)"

definition shared_upsert where
  "shared_upsert schema_ref p = with_mut_result (\<lambda>r.
    if get_extension r (ep_id p) \<noteq> None then registry_update schema_ref p r
    else Some (registry_insert schema_ref p r))"

definition shared_remove ::
  "ExtensionId \<Rightarrow> ('d, 's, 't) SharedExtensionRegistry
     \<Rightarrow> ('d, 's, 't) ExtensionPackage option \<times> ('d, 's, 't) SharedExtensionRegistry" where
  "shared_remove i s =
    (case registry_remove i (sh_inner s) of
       (None, r) \<Rightarrow> (None, s\<lparr>sh_inner := r\<rparr>)
     | (Some p, r) \<Rightarrow> (Some p, \<lparr>sh_inner = r, sh_version = sh_version s + 1\<rparr>))"

definition shared_replace :: "('d, 's, 't) ExtensionRegistry \<Rightarrow> ('d, 's, 't) SharedExtensionRegistry \<Rightarrow> ('d, 's, 't) SharedExtensionRegistry" where
  "shared_replace r s = \<lparr>sh_inner = r, sh_version = sh_version s + 1\<rparr>"

section \<open>The lifecycle service\<close>

record ExtensionLifecycleEvent =
  le_operation :: ExtensionLifecycleOperation
  le_extension_id :: ExtensionId
  le_version :: string
  le_runtime :: RuntimeKind
  le_capability_count :: nat
  le_capability_surface_changed :: bool

definition lifecycle_event_from_package ::
  "ExtensionLifecycleOperation \<Rightarrow> ('d, 's, 't) ExtensionPackage \<Rightarrow> bool \<Rightarrow> ExtensionLifecycleEvent" where
  "lifecycle_event_from_package op p changed =
    \<lparr>le_operation = op, le_extension_id = ep_id p, le_version = mf_version (ep_manifest p),
     le_runtime = manifest_runtime_kind (ep_manifest p), le_capability_count = length (ep_capabilities p),
     le_capability_surface_changed = changed\<rparr>"

text \<open>
  The service is borrowed mutably for the whole call, so nothing else sees it while the sink runs. The
  sink is an argument over a state \<open>'k\<close> of its own; \<open>None\<close> is a service without a sink.
\<close>

record ('d, 's, 't) ExtensionLifecycleService =
  ls_registry :: "('d, 's, 't) ExtensionRegistry"
  ls_disabled :: "ExtensionId list"

type_synonym 'k lifecycle_sink = "(ExtensionLifecycleEvent \<Rightarrow> 'k \<Rightarrow> (ExtensionError, unit) result \<times> 'k) option"

definition ExtensionLifecycleService_new :: "('d, 's, 't) ExtensionRegistry \<Rightarrow> ('d, 's, 't) ExtensionLifecycleService" where
  "ExtensionLifecycleService_new r = \<lparr>ls_registry = r, ls_disabled = []\<rparr>"

definition is_enabled :: "('d, 's, 't) ExtensionLifecycleService \<Rightarrow> ExtensionId \<Rightarrow> bool" where
  "is_enabled s i = (get_extension (ls_registry s) i \<noteq> None \<and> i \<notin> set (ls_disabled s))"

definition emit_lifecycle_event ::
  "'k lifecycle_sink \<Rightarrow> ExtensionLifecycleEvent \<Rightarrow> 'k \<Rightarrow> (ExtensionError, unit) result \<times> 'k" where
  "emit_lifecycle_event sink ev k =
    (case sink of
       None \<Rightarrow> (Ok (), k)
     | Some emit_to \<Rightarrow>
         (case emit_to ev k of
            (Inl _, k') \<Rightarrow> (Err (ExLifecycleEventSink (le_extension_id ev) (le_operation ev)), k')
          | (Inr _, k') \<Rightarrow> (Ok (), k')))"

text \<open>Record the event, then commit the change.\<close>

definition announced ::
  "'k lifecycle_sink \<Rightarrow> ExtensionLifecycleEvent \<Rightarrow> ('st \<Rightarrow> 'st option) \<Rightarrow> 'st \<Rightarrow> 'k
     \<Rightarrow> ((ExtensionError, unit) result \<times> 'st \<times> 'k) option" where
  "announced sink ev change s k =
    (case emit_lifecycle_event sink ev k of
       (Inl e, k') \<Rightarrow> Some (Err e, s, k')
     | (Inr _, k') \<Rightarrow> map_option (\<lambda>s'. (Ok (), s', k')) (change s))"

definition lifecycle_install where
  "lifecycle_install schema_ref sink p s k =
    (case validate_insertable schema_ref (ls_registry s) p of
       Inl e \<Rightarrow> Some (Err e, s, k)
     | Inr _ \<Rightarrow> announced sink (lifecycle_event_from_package OpInstall p True)
         (\<lambda>s. Some (s\<lparr>ls_registry := insert_validated p (ls_registry s)\<rparr>)) s k)"

definition lifecycle_update where
  "lifecycle_update schema_ref sink p s k =
    (case existing_package (ls_registry s) (ep_id p) of
       Inl e \<Rightarrow> Some (Err e, s, k)
     | Inr current \<Rightarrow>
         (case validate_replacement schema_ref (ls_registry s) p of
            Inl e \<Rightarrow> Some (Err e, s, k)
          | Inr _ \<Rightarrow> announced sink
              (lifecycle_event_from_package OpUpdate p (ep_capabilities current \<noteq> ep_capabilities p))
              (\<lambda>s. map_option (\<lambda>r. s\<lparr>ls_registry := r\<rparr>) (replace_validated p (ls_registry s))) s k))"

definition lifecycle_remove ::
  "'k lifecycle_sink \<Rightarrow> ExtensionId \<Rightarrow> ('d, 's, 't) ExtensionLifecycleService \<Rightarrow> 'k
     \<Rightarrow> ((ExtensionError, unit) result \<times> ('d, 's, 't) ExtensionLifecycleService \<times> 'k) option" where
  "lifecycle_remove sink i s k =
    (case existing_package (ls_registry s) i of
       Inl e \<Rightarrow> Some (Err e, s, k)
     | Inr p \<Rightarrow> announced sink (lifecycle_event_from_package OpRemove p (ep_capabilities p \<noteq> []))
         (\<lambda>s. Some \<lparr>ls_registry = snd (registry_remove i (ls_registry s)), ls_disabled = removeAll i (ls_disabled s)\<rparr>) s k)"

definition lifecycle_enable ::
  "'k lifecycle_sink \<Rightarrow> ExtensionId \<Rightarrow> ('d, 's, 't) ExtensionLifecycleService \<Rightarrow> 'k
     \<Rightarrow> ((ExtensionError, unit) result \<times> ('d, 's, 't) ExtensionLifecycleService \<times> 'k) option" where
  "lifecycle_enable sink i s k =
    (case existing_package (ls_registry s) i of
       Inl e \<Rightarrow> Some (Err e, s, k)
     | Inr p \<Rightarrow> announced sink (lifecycle_event_from_package OpEnable p (i \<in> set (ls_disabled s)))
         (\<lambda>s. Some (s\<lparr>ls_disabled := removeAll i (ls_disabled s)\<rparr>)) s k)"

definition lifecycle_disable ::
  "'k lifecycle_sink \<Rightarrow> ExtensionId \<Rightarrow> ('d, 's, 't) ExtensionLifecycleService \<Rightarrow> 'k
     \<Rightarrow> ((ExtensionError, unit) result \<times> ('d, 's, 't) ExtensionLifecycleService \<times> 'k) option" where
  "lifecycle_disable sink i s k =
    (case existing_package (ls_registry s) i of
       Inl e \<Rightarrow> Some (Err e, s, k)
     | Inr p \<Rightarrow> announced sink (lifecycle_event_from_package OpDisable p (i \<notin> set (ls_disabled s)))
         (\<lambda>s. Some (s\<lparr>ls_disabled := List.insert i (ls_disabled s)\<rparr>)) s k)"

section \<open>Discovery\<close>

text \<open>
  The root is listed once and sorted by name. \<open>load\<close> is \<open>load_package_entry\<close>, which reads and parses the
  manifest of one directory; it runs over a state \<open>'k\<close>, the file system. \<open>show_error\<close> renders an error.
\<close>

definition extension_dir_id :: "DirEntry \<Rightarrow> ExtensionId option" where
  "extension_dir_id entry =
    (if de_type entry \<noteq> Directory then None
     else case ExtensionId_new (de_name entry) of Inl _ \<Rightarrow> None | Inr i \<Rightarrow> Some i)"

type_synonym ('d, 's, 't, 'k) package_loader =
  "DirEntry \<Rightarrow> ExtensionId \<Rightarrow> 'k \<Rightarrow> (ExtensionError, ('d, 's, 't) ExtensionPackage) result \<times> 'k"

fun discover_entries ::
  "(CapabilityProfileSchemaRef \<Rightarrow> 's) \<Rightarrow> ('d, 's, 't, 'k) package_loader \<Rightarrow> DirEntry list
     \<Rightarrow> ('d, 's, 't) ExtensionRegistry \<Rightarrow> 'k \<Rightarrow> (ExtensionError, ('d, 's, 't) ExtensionRegistry) result \<times> 'k" where
  "discover_entries schema_ref load [] r k = (Ok r, k)"
| "discover_entries schema_ref load (e # es) r k =
    (case extension_dir_id e of
       None \<Rightarrow> discover_entries schema_ref load es r k
     | Some expected \<Rightarrow>
         (case load e expected k of
            (Inl err, k') \<Rightarrow> (Err err, k')
          | (Inr p, k') \<Rightarrow>
              (case registry_insert schema_ref p r of
                 (Inl err, _) \<Rightarrow> (Err err, k')
               | (Inr _, r') \<Rightarrow> discover_entries schema_ref load es r' k')))"

definition discover_with_manifest_contracts ::
  "(CapabilityProfileSchemaRef \<Rightarrow> 's) \<Rightarrow> ('k \<Rightarrow> (FilesystemError, DirEntry list) result \<times> 'k) \<Rightarrow> ('d, 's, 't, 'k) package_loader
     \<Rightarrow> 'k \<Rightarrow> (ExtensionError, ('d, 's, 't) ExtensionRegistry) result \<times> 'k" where
  "discover_with_manifest_contracts schema_ref list_root load k =
    (case list_root k of
       (Inl err, k') \<Rightarrow> (Err (ExFilesystem err), k')
     | (Inr es, k') \<Rightarrow> discover_entries schema_ref load (sort_key de_name es) ExtensionRegistry_new k')"

record DiscoveryQuarantine =
  qu_extension_id :: string
  qu_reason :: string

record ('d, 's, 't) TolerantBoundedDiscovery =
  td_registry :: "('d, 's, 't) ExtensionRegistry"
  td_quarantined :: "DiscoveryQuarantine list"

definition quarantine :: "ExtensionId \<Rightarrow> string \<Rightarrow> ('d, 's, 't) TolerantBoundedDiscovery \<Rightarrow> ('d, 's, 't) TolerantBoundedDiscovery" where
  "quarantine i reason acc = acc\<lparr>td_quarantined := td_quarantined acc @ [\<lparr>qu_extension_id = i, qu_reason = reason\<rparr>]\<rparr>"

fun decimal :: "nat \<Rightarrow> string" where
  "decimal n = (if n < 10 then [char_of (48 + n)] else decimal (n div 10) @ [char_of (48 + n mod 10)])"

declare decimal.simps [simp del]

definition bound_reason :: "nat \<Rightarrow> string" where
  "bound_reason n = ''exceeded discovery bound of '' @ decimal n @ '' extension(s); not read''"

definition admit_package ::
  "(CapabilityProfileSchemaRef \<Rightarrow> 's) \<Rightarrow> (ExtensionError \<Rightarrow> string) \<Rightarrow> ExtensionId
     \<Rightarrow> (ExtensionError, ('d, 's, 't) ExtensionPackage) result \<Rightarrow> ('d, 's, 't) TolerantBoundedDiscovery \<Rightarrow> ('d, 's, 't) TolerantBoundedDiscovery" where
  "admit_package schema_ref show_error i loaded acc =
    (case loaded of
       Inl err \<Rightarrow> quarantine i (show_error err) acc
     | Inr p \<Rightarrow>
         (case registry_insert schema_ref p (td_registry acc) of
            (Inl err, _) \<Rightarrow> quarantine i (show_error err) acc
          | (Inr _, r) \<Rightarrow> acc\<lparr>td_registry := r\<rparr>))"

fun discover_bounded ::
  "(CapabilityProfileSchemaRef \<Rightarrow> 's) \<Rightarrow> (ExtensionError \<Rightarrow> string) \<Rightarrow> ('d, 's, 't, 'k) package_loader
     \<Rightarrow> nat \<Rightarrow> nat \<Rightarrow> DirEntry list \<Rightarrow> ('d, 's, 't) TolerantBoundedDiscovery \<Rightarrow> 'k \<Rightarrow> ('d, 's, 't) TolerantBoundedDiscovery \<times> 'k" where
  "discover_bounded schema_ref show_error load max_extensions considered [] acc k = (acc, k)"
| "discover_bounded schema_ref show_error load max_extensions considered (e # es) acc k =
    (case extension_dir_id e of
       None \<Rightarrow> discover_bounded schema_ref show_error load max_extensions considered es acc k
     | Some expected \<Rightarrow>
         if max_extensions \<le> considered
         then discover_bounded schema_ref show_error load max_extensions considered es
                (quarantine expected (bound_reason max_extensions) acc) k
         else (case load e expected k of (loaded, k') \<Rightarrow>
                discover_bounded schema_ref show_error load max_extensions (Suc considered) es
                  (admit_package schema_ref show_error expected loaded acc) k'))"

definition discover_with_manifest_contracts_tolerant_bounded ::
  "(CapabilityProfileSchemaRef \<Rightarrow> 's) \<Rightarrow> (ExtensionError \<Rightarrow> string)
     \<Rightarrow> ('k \<Rightarrow> (FilesystemError, DirEntry list) result \<times> 'k) \<Rightarrow> ('d, 's, 't, 'k) package_loader
     \<Rightarrow> nat \<Rightarrow> 'k \<Rightarrow> (ExtensionError, ('d, 's, 't) TolerantBoundedDiscovery) result \<times> 'k" where
  "discover_with_manifest_contracts_tolerant_bounded schema_ref show_error list_root load max_extensions k =
    (case list_root k of
       (Inl err, k') \<Rightarrow> (Err (ExFilesystem err), k')
     | (Inr es, k') \<Rightarrow>
         (case discover_bounded schema_ref show_error load max_extensions 0 (sort_key de_name es)
             \<lparr>td_registry = ExtensionRegistry_new, td_quarantined = []\<rparr> k' of
            (found, k'') \<Rightarrow> (Ok found, k'')))"

end
