(* ===== verification/Extension_Laws.thy ===== *)
theory Extension_Laws
  imports Extensions
begin

text \<open>
  Laws of the extension registry: every change keeps the index of capabilities exactly what the
  registered packages declare, and no change panics. Then the containment of asset paths, the
  lifecycle service, and the bound of discovery.
\<close>

section \<open>What a consistent package declares\<close>

lemma descriptors_from_Ok:
  "descriptors_from schema_ref m seen cs = Ok ds \<Longrightarrow>
     ds = map (descriptor_of schema_ref m) cs \<and> distinct (map cm_id cs) \<and> set (map cm_id cs) \<inter> set seen = {}
     \<and> (\<forall>c\<in>set cs. prefix (mf_id m @ ''.'') (cm_id c))"
  by (induction schema_ref m seen cs arbitrary: ds rule: descriptors_from.induct)
    (auto simp: result_bind_eq_Inr split: if_splits)

lemma descriptor_of_simps [simp]:
  "desc_id (descriptor_of schema_ref m c) = cm_id c"
  "desc_provider (descriptor_of schema_ref m c) = mf_id m"
  "desc_runtime (descriptor_of schema_ref m c) = manifest_runtime_kind m"
  by (simp_all add: descriptor_of_def)

lemma match_except_schema_map:
  assumes "descriptors_match_except_schema ds es"
    and f: "\<And>d s. f (d\<lparr>desc_parameters_schema := s\<rparr>) = f d"
  shows "map f ds = map f es"
proof (rule nth_equalityI)
  from assms(1) have len: "length ds = length es" by (simp add: descriptors_match_except_schema_def)
  then show "length (map f ds) = length (map f es)" by simp
  fix i assume i: "i < length (map f ds)"
  with assms(1) len have "(ds ! i)\<lparr>desc_parameters_schema := desc_parameters_schema (es ! i)\<rparr> = es ! i"
    by (auto simp: descriptors_match_except_schema_def list_all_length)
  then have "f (ds ! i) = f (es ! i)" by (metis f)
  with i len show "map f ds ! i = map f es ! i" by simp
qed

definition consistent :: "(CapabilityProfileSchemaRef \<Rightarrow> 's) \<Rightarrow> ('d, 's, 't) ExtensionPackage \<Rightarrow> bool" where
  "consistent schema_ref p = is_ok (validate_consistency schema_ref p)"

lemma consistent_descriptors:
  assumes "consistent schema_ref p"
  shows "ep_id p = mf_id (ep_manifest p)"
    and "map desc_id (ep_capabilities p) = map cm_id (mf_capabilities (ep_manifest p))"
    and "map desc_provider (ep_capabilities p) = map (\<lambda>_. ep_id p) (mf_capabilities (ep_manifest p))"
    and "map desc_runtime (ep_capabilities p) = map (\<lambda>_. manifest_runtime_kind (ep_manifest p)) (mf_capabilities (ep_manifest p))"
    and "distinct (map desc_id (ep_capabilities p))"
    and "\<forall>c\<in>set (mf_capabilities (ep_manifest p)). prefix (ep_id p @ ''.'') (cm_id c)"
proof -
  let ?m = "ep_manifest p" and ?cs = "mf_capabilities (ep_manifest p)"
  from assms obtain es where i: "ep_id p = mf_id ?m" and es: "descriptors_from schema_ref ?m [] ?cs = Ok es"
    and eq: "ep_capabilities p = es \<or> descriptors_match_except_schema (ep_capabilities p) es"
    by (auto simp: consistent_def validate_consistency_def capability_descriptors_from_manifest_def is_ok_def result_bind_def
        split: if_splits sum.splits CapabilityDescriptorSchemaMode.splits)
  note d = descriptors_from_Ok [OF es]
  from eq have m: "map f (ep_capabilities p) = map f es"
    if "\<And>d s. f (d\<lparr>desc_parameters_schema := s\<rparr>) = f d" for f :: "_ \<Rightarrow> 'z"
    using match_except_schema_map [of "ep_capabilities p" es f] that by auto
  from i show "ep_id p = mf_id ?m" .
  show "map desc_id (ep_capabilities p) = map cm_id ?cs" using m [of desc_id] d by (simp add: comp_def)
  show "map desc_provider (ep_capabilities p) = map (\<lambda>_. ep_id p) ?cs" using m [of desc_provider] d i by (simp add: comp_def)
  show "map desc_runtime (ep_capabilities p) = map (\<lambda>_. manifest_runtime_kind ?m) ?cs" using m [of desc_runtime] d by (simp add: comp_def)
  show "distinct (map desc_id (ep_capabilities p))" using m [of desc_id] d by (simp add: comp_def)
  show "\<forall>c\<in>set ?cs. prefix (ep_id p @ ''.'') (cm_id c)" using d i by simp
qed

lemma consistent_capability:
  assumes "consistent schema_ref p" and "d \<in> set (ep_capabilities p)"
  shows "desc_provider d = ep_id p" and "desc_runtime d = manifest_runtime_kind (ep_manifest p)"
    and "prefix (ep_id p @ ''.'') (desc_id d)"
proof -
  note c = consistent_descriptors [OF assms(1)]
  have "desc_provider d \<in> set (map desc_provider (ep_capabilities p))" using assms(2) by simp
  then show "desc_provider d = ep_id p" unfolding c(3) by auto
  have "desc_runtime d \<in> set (map desc_runtime (ep_capabilities p))" using assms(2) by simp
  then show "desc_runtime d = manifest_runtime_kind (ep_manifest p)" unfolding c(4) by auto
  have "desc_id d \<in> set (map desc_id (ep_capabilities p))" using assms(2) by simp
  then show "prefix (ep_id p @ ''.'') (desc_id d)" unfolding c(2) using c(6) by auto
qed

section \<open>An index over the packages\<close>

text \<open>\<open>M\<close> holds the entries \<open>L p\<close> of the packages of \<open>E\<close>, and no two packages share a key.\<close>

definition exact :: "('i \<Rightarrow> 'p option) \<Rightarrow> ('p \<Rightarrow> ('c \<times> 'x) list) \<Rightarrow> ('c \<Rightarrow> 'x option) \<Rightarrow> bool" where
  "exact E L M =
    ((\<forall>c x. M c = Some x \<longleftrightarrow> (\<exists>i p. E i = Some p \<and> (c, x) \<in> set (L p)))
     \<and> (\<forall>i j p q c. E i = Some p \<longrightarrow> E j = Some q \<longrightarrow> c \<in> fst ` set (L p) \<longrightarrow> c \<in> fst ` set (L q) \<longrightarrow> i = j))"

lemma exactD: "exact E L M \<Longrightarrow> M c = Some x \<longleftrightarrow> (\<exists>i p. E i = Some p \<and> (c, x) \<in> set (L p))"
  unfolding exact_def by (elim conjE allE)

lemma exact_disjoint:
  "exact E L M \<Longrightarrow> E i = Some p \<Longrightarrow> E j = Some q \<Longrightarrow> (c, x) \<in> set (L p) \<Longrightarrow> (c, y) \<in> set (L q) \<Longrightarrow> i = j"
  unfolding exact_def by (metis fst_conv image_eqI)

lemma exact_empty: "exact (\<lambda>_. None) L (\<lambda>_. None)"
  by (simp add: exact_def)

lemma exact_add:
  assumes ex: "exact E L M" and new: "E i = None" and d: "distinct (map fst (L p))"
    and free: "\<And>c x. (c, x) \<in> set (L p) \<Longrightarrow> M c = None"
  shows "exact (E(i \<mapsto> p)) L (M ++ map_of (L p))"
  unfolding exact_def
proof (intro conjI allI impI)
  fix c x
  have p: "map_of (L p) c = Some y \<longleftrightarrow> (c, y) \<in> set (L p)" for y using d by (simp add: map_of_eq_Some_iff)
  have "M c = Some x \<longleftrightarrow> (\<exists>j q. E j = Some q \<and> (c, x) \<in> set (L q))" by (rule exactD [OF ex])
  then show "(M ++ map_of (L p)) c = Some x \<longleftrightarrow> (\<exists>j q. (E(i \<mapsto> p)) j = Some q \<and> (c, x) \<in> set (L q))"
    using p free new by (auto simp: map_add_Some_iff) (metis option.distinct(1) option.exhaust)+
next
  fix j k q q' c
  assume "(E(i \<mapsto> p)) j = Some q" "(E(i \<mapsto> p)) k = Some q'" "c \<in> fst ` set (L q)" "c \<in> fst ` set (L q')"
  moreover have False if "E m = Some q''" "(c, x) \<in> set (L p)" "(c, y) \<in> set (L q'')" for m q'' c x y
    using that exactD [OF ex, of c y] free by fastforce
  moreover note exact_disjoint [OF ex]
  ultimately show "j = k" by (auto split: if_splits)
qed

lemma exact_remove:
  assumes ex: "exact E L M" and p: "E i = Some p"
  shows "exact (E(i := None)) L (M |` (- (fst ` set (L p))))"
  unfolding exact_def
proof (intro conjI allI impI)
  fix c x
  have M: "M c = Some x \<longleftrightarrow> (\<exists>j q. E j = Some q \<and> (c, x) \<in> set (L q))" by (rule exactD [OF ex])
  have other: "c \<notin> fst ` set (L p)" if "E j = Some q" "(c, x) \<in> set (L q)" "j \<noteq> i" for j q
    using exact_disjoint [OF ex p that(1) _ that(2)] that(3) by auto
  have own: "(c, x) \<notin> set (L p)" if "c \<notin> fst ` set (L p)" using that by force
  show "(M |` (- (fst ` set (L p)))) c = Some x \<longleftrightarrow> (\<exists>j q. (E(i := None)) j = Some q \<and> (c, x) \<in> set (L q))"
  proof
    assume "(M |` (- (fst ` set (L p)))) c = Some x"
    then have c: "M c = Some x" "c \<notin> fst ` set (L p)" by (auto simp: restrict_map_def split: if_splits)
    with M obtain j q where j: "E j = Some q" "(c, x) \<in> set (L q)" by blast
    with own [OF c(2)] p have "j \<noteq> i" by auto
    with j show "\<exists>j q. (E(i := None)) j = Some q \<and> (c, x) \<in> set (L q)" by auto
  next
    assume "\<exists>j q. (E(i := None)) j = Some q \<and> (c, x) \<in> set (L q)"
    then obtain j q where j: "E j = Some q" "(c, x) \<in> set (L q)" "j \<noteq> i" by (auto split: if_splits)
    with M other [OF j] show "(M |` (- (fst ` set (L p)))) c = Some x" by (auto simp: restrict_map_def)
  qed
qed (use ex in \<open>auto simp: exact_def split: if_splits\<close>)

lemma exact_dom:
  assumes "exact E L M" shows "dom M = (\<Union>p \<in> ran E. fst ` set (L p))"
  using exactD [OF assms] by (force simp: dom_def ran_def)

section \<open>The registry\<close>

definition capability_entries :: "('d, 's, 't) ExtensionPackage \<Rightarrow> (CapabilityId \<times> ('d, 's, 't) CapabilityDescriptor) list" where
  "capability_entries p = map (\<lambda>d. (desc_id d, d)) (ep_capabilities p)"

definition visibility_entries :: "('d, 's, 't) ExtensionPackage \<Rightarrow> (CapabilityId \<times> CapabilityVisibility) list" where
  "visibility_entries p = map (\<lambda>c. (cm_id c, cm_visibility c)) (mf_capabilities (ep_manifest p))"

lemma fst_entries [simp]:
  "map fst (capability_entries p) = map desc_id (ep_capabilities p)"
  "fst ` set (capability_entries p) = desc_id ` set (ep_capabilities p)"
  "map fst (visibility_entries p) = map cm_id (mf_capabilities (ep_manifest p))"
  "fst ` set (visibility_entries p) = cm_id ` set (mf_capabilities (ep_manifest p))"
  by (force simp: capability_entries_def visibility_entries_def)+

definition registry_ok :: "(CapabilityProfileSchemaRef \<Rightarrow> 's) \<Rightarrow> ('d, 's, 't) ExtensionRegistry \<Rightarrow> bool" where
  "registry_ok schema_ref r =
    ((\<forall>i p. get_extension r i = Some p \<longrightarrow> ep_id p = i \<and> consistent schema_ref p)
     \<and> exact (get_extension r) capability_entries (get_capability r)
     \<and> exact (get_extension r) visibility_entries (capability_visibility r)
     \<and> distinct (rg_extension_order r) \<and> set (rg_extension_order r) = dom (get_extension r)
     \<and> distinct (rg_capability_order r) \<and> set (rg_capability_order r) = dom (get_capability r))"

lemma registry_lookups:
  "get_extension r = hm_get (rg_packages r)" "get_capability r = hm_get (rg_capabilities r)"
  "capability_visibility r = hm_get (rg_visibility r)"
  by (simp_all add: fun_eq_iff get_extension_def get_capability_def capability_visibility_def)

lemma registry_new [simp]:
  "get_extension ExtensionRegistry_new = (\<lambda>_. None)" "get_capability ExtensionRegistry_new = (\<lambda>_. None)"
  "capability_visibility ExtensionRegistry_new = (\<lambda>_. None)"
  "rg_extension_order ExtensionRegistry_new = []" "rg_capability_order ExtensionRegistry_new = []"
  by (simp_all add: fun_eq_iff get_extension_def get_capability_def capability_visibility_def ExtensionRegistry_new_def)

lemma registry_ok_new: "registry_ok schema_ref ExtensionRegistry_new"
  by (simp add: registry_ok_def exact_empty)

subsection \<open>Indexing the descriptors of a package\<close>

lemma index_capability_fields [simp]:
  "rg_packages (index_capability p d r) = rg_packages r"
  "rg_extension_order (index_capability p d r) = rg_extension_order r"
  "rg_capability_order (index_capability p d r) = rg_capability_order r"
  "rg_capabilities (index_capability p d r) = hm_insert (desc_id d) d (rg_capabilities r)"
  by (simp_all add: index_capability_def Let_def split: option.split)

lemma index_capability_order:
  "index_capability p d (r\<lparr>rg_capability_order := order\<rparr>) = (index_capability p d r)\<lparr>rg_capability_order := order\<rparr>"
  by (simp add: index_capability_def Let_def split: option.split)

abbreviation index_all ::
  "('d, 's, 't) ExtensionPackage \<Rightarrow> ('d, 's, 't) CapabilityDescriptor list \<Rightarrow> ('d, 's, 't) ExtensionRegistry \<Rightarrow> ('d, 's, 't) ExtensionRegistry" where
  "index_all p \<equiv> fold (index_capability p)"

lemma index_all_fields [simp]:
  "rg_packages (index_all p ds r) = rg_packages r"
  "rg_extension_order (index_all p ds r) = rg_extension_order r"
  "rg_capability_order (index_all p ds r) = rg_capability_order r"
  by (induction ds arbitrary: r) auto

lemma index_all_order:
  "index_all p ds (r\<lparr>rg_capability_order := order\<rparr>) = (index_all p ds r)\<lparr>rg_capability_order := order\<rparr>"
  by (induction ds arbitrary: r) (auto simp: index_capability_order)

lemma index_all_capabilities:
  "distinct (map desc_id ds) \<Longrightarrow>
     hm_get (rg_capabilities (index_all p ds r)) = hm_get (rg_capabilities r) ++ map_of (map (\<lambda>d. (desc_id d, d)) ds)"
proof (induction ds arbitrary: r)
  case (Cons d ds)
  then have free: "map_of (map (\<lambda>d. (desc_id d, d)) ds) (desc_id d) = None" by (force simp: map_of_eq_None_iff)
  have "hm_get (rg_capabilities (index_capability p d r)) = (hm_get (rg_capabilities r))(desc_id d \<mapsto> d)"
    by (simp add: fun_eq_iff hm_simps)
  with Cons free show ?case by (auto simp: fun_eq_iff map_add_def split: option.split)
qed simp

lemma index_capability_visibility:
  fixes p :: "('a, 'b, 'c) ExtensionPackage"
  shows "hm_get (rg_visibility (index_capability p d r)) =
     hm_get (rg_visibility r) ++ (map_of (visibility_entries p) |` {desc_id d})"
proof -
  have "map_of (visibility_entries p) k = map_option cm_visibility (List.find (\<lambda>c. cm_id c = k) (mf_capabilities (ep_manifest p)))" for k
  proof -
    have "map_of (map (\<lambda>c. (cm_id c, cm_visibility c)) cs) k = map_option cm_visibility (List.find (\<lambda>c. cm_id c = k) cs)"
      for cs :: "('a, 'c) CapabilityManifest list" by (induction cs) auto
    then show ?thesis by (simp add: visibility_entries_def)
  qed
  then show ?thesis
    by (auto simp: fun_eq_iff map_add_def restrict_map_def index_capability_def Let_def hm_simps split: option.split)
qed

lemma index_all_visibility:
  "hm_get (rg_visibility (index_all p ds r)) =
     hm_get (rg_visibility r) ++ (map_of (visibility_entries p) |` (desc_id ` set ds))"
proof (induction ds arbitrary: r)
  case (Cons d ds)
  then show ?case
    by (auto simp: index_capability_visibility fun_eq_iff map_add_def restrict_map_def split: option.split)
qed simp

subsection \<open>Adding a package\<close>

definition adds ::
  "('d, 's, 't) ExtensionPackage \<Rightarrow> ('d, 's, 't) ExtensionRegistry \<Rightarrow> ('d, 's, 't) ExtensionRegistry \<Rightarrow> bool" where
  "adds p r r' =
    (get_extension r' = (get_extension r)(ep_id p \<mapsto> p)
     \<and> get_capability r' = get_capability r ++ map_of (capability_entries p)
     \<and> capability_visibility r' = capability_visibility r ++ map_of (visibility_entries p)
     \<and> distinct (rg_extension_order r') \<and> set (rg_extension_order r') = insert (ep_id p) (set (rg_extension_order r))
     \<and> distinct (rg_capability_order r')
     \<and> set (rg_capability_order r') = desc_id ` set (ep_capabilities p) \<union> set (rg_capability_order r))"

lemma registry_ok_adds:
  assumes ok: "registry_ok schema_ref r" and p: "consistent schema_ref p"
    and new: "get_extension r (ep_id p) = None" and free: "\<And>d. d \<in> set (ep_capabilities p) \<Longrightarrow> get_capability r (desc_id d) = None"
    and adds: "adds p r r'"
  shows "registry_ok schema_ref r'"
proof -
  note c = consistent_descriptors [OF p]
  note ok' = ok [unfolded registry_ok_def] and a = adds [unfolded adds_def]
  from ok' have exC: "exact (get_extension r) capability_entries (get_capability r)"
    and exV: "exact (get_extension r) visibility_entries (capability_visibility r)"
    and con: "\<And>i q. get_extension r i = Some q \<Longrightarrow> ep_id q = i \<and> consistent schema_ref q" by blast+
  have keys: "cm_id ` set (mf_capabilities (ep_manifest q)) = desc_id ` set (ep_capabilities q)" if "consistent schema_ref q" for q
    using arg_cong [OF consistent_descriptors(2) [OF that], of set] by simp
  have "dom (capability_visibility r) = dom (get_capability r)"
    unfolding exact_dom [OF exV] exact_dom [OF exC] fst_entries by (intro SUP_cong refl keys) (auto simp: ran_def dest: con)
  with free have freeV: "capability_visibility r (desc_id d) = None" if "d \<in> set (ep_capabilities p)" for d
    using that by (metis domIff)
  have "exact ((get_extension r)(ep_id p \<mapsto> p)) capability_entries (get_capability r ++ map_of (capability_entries p))"
    by (rule exact_add [OF exC new]) (use c(5) free in \<open>auto simp: capability_entries_def comp_def\<close>)
  moreover have "exact ((get_extension r)(ep_id p \<mapsto> p)) visibility_entries (capability_visibility r ++ map_of (visibility_entries p))"
  proof (rule exact_add [OF exV new])
    show "distinct (map fst (visibility_entries p))" using c(2,5) by simp
    fix k x assume "(k, x) \<in> set (visibility_entries p)"
    then have "k \<in> cm_id ` set (mf_capabilities (ep_manifest p))" by (force simp: visibility_entries_def)
    then show "capability_visibility r k = None" unfolding keys [OF p] using freeV by auto
  qed
  moreover have "dom (get_capability r ++ map_of (capability_entries p)) = desc_id ` set (ep_capabilities p) \<union> dom (get_capability r)"
    by (simp add: dom_map_of_conv_image_fst)
  ultimately show ?thesis using ok' a p con unfolding registry_ok_def by (auto split: if_splits)
qed

lemma capabilities_available_Ok:
  "capabilities_available r i replacing seen ds = Ok () \<Longrightarrow> d \<in> set ds \<Longrightarrow> \<not> taken r replacing (desc_id d)"
  by (induction r i replacing seen ds rule: capabilities_available.induct) (auto split: if_splits)

lemma insert_fold:
  "fold (\<lambda>d r. index_capability p d (r\<lparr>rg_capability_order := rg_capability_order r @ [desc_id d]\<rparr>)) ds r
     = (index_all p ds r)\<lparr>rg_capability_order := rg_capability_order r @ map desc_id ds\<rparr>"
proof (induction ds arbitrary: r)
  case (Cons d ds)
  show ?case using Cons.IH [of "index_capability p d (r\<lparr>rg_capability_order := rg_capability_order r @ [desc_id d]\<rparr>)"]
    by (simp add: index_capability_order index_all_order)
qed simp

lemma index_all_entries:
  assumes "consistent schema_ref p"
  shows "hm_get (rg_capabilities (index_all p (ep_capabilities p) r)) = hm_get (rg_capabilities r) ++ map_of (capability_entries p)"
    and "hm_get (rg_visibility (index_all p (ep_capabilities p) r)) = hm_get (rg_visibility r) ++ map_of (visibility_entries p)"
proof -
  note c = consistent_descriptors [OF assms]
  from c(5) show "hm_get (rg_capabilities (index_all p (ep_capabilities p) r)) = hm_get (rg_capabilities r) ++ map_of (capability_entries p)"
    by (simp add: index_all_capabilities capability_entries_def)
  have "desc_id ` set (ep_capabilities p) = dom (map_of (visibility_entries p))"
    using arg_cong [OF c(2), of set] by (simp add: dom_map_of_conv_image_fst)
  then show "hm_get (rg_visibility (index_all p (ep_capabilities p) r)) = hm_get (rg_visibility r) ++ map_of (visibility_entries p)"
    by (simp add: index_all_visibility restrict_map_def dom_def fun_eq_iff map_add_def split: option.split)
qed

lemma insert_adds:
  assumes ok: "registry_ok schema_ref r" and v: "validate_insertable schema_ref r p = Ok ()"
  shows "consistent schema_ref p" and "get_extension r (ep_id p) = None"
    and "d \<in> set (ep_capabilities p) \<Longrightarrow> get_capability r (desc_id d) = None"
    and "adds p r (insert_validated p r)"
proof -
  from v show p: "consistent schema_ref p" and new: "get_extension r (ep_id p) = None"
    by (auto simp: validate_insertable_def consistent_def result_bind_eq_Inr get_extension_def hm_contains_def split: if_splits)
  from v have "capabilities_available r (ep_id p) None [] (ep_capabilities p) = Ok ()"
    by (auto simp: validate_insertable_def validate_capabilities_available_def result_bind_eq_Inr split: if_splits)
  then show free: "get_capability r (desc_id d) = None" if "d \<in> set (ep_capabilities p)" for d
    using capabilities_available_Ok that by (fastforce simp: taken_def hm_contains_def get_capability_def)
  note c = consistent_descriptors [OF p] and o = ok [unfolded registry_ok_def]
  show "adds p r (insert_validated p r)"
    using o new free c(5) unfolding adds_def insert_validated_def insert_fold
    by (auto simp: registry_lookups Let_def fun_eq_iff hm_simps index_all_entries [OF p] dom_def)
qed

lemma registry_insert_ok:
  assumes "registry_ok schema_ref r"
  shows "registry_ok schema_ref (snd (registry_insert schema_ref p r))"
proof (cases "validate_insertable schema_ref r p")
  case (Inr u)
  then have "validate_insertable schema_ref r p = Ok ()" by simp
  note v = insert_adds [OF assms this]
  from registry_ok_adds [OF assms v(1,2) _ v(4)] v(3) Inr show ?thesis by (simp add: registry_insert_def)
qed (simp add: registry_insert_def assms)

subsection \<open>Removing a package\<close>

lemma fold_remove: "hm_get (fold hm_remove ids m) = hm_get m |` (- set ids)"
  by (induction ids arbitrary: m) (auto simp: fun_eq_iff restrict_map_def hm_simps)

lemma registry_remove_parts:
  assumes "get_extension r i = Some p"
  shows "get_extension (snd (registry_remove i r)) = (get_extension r)(i := None)"
    and "get_capability (snd (registry_remove i r)) = get_capability r |` (- (desc_id ` set (ep_capabilities p)))"
    and "capability_visibility (snd (registry_remove i r)) = capability_visibility r |` (- (desc_id ` set (ep_capabilities p)))"
    and "rg_extension_order (snd (registry_remove i r)) = filter (\<lambda>j. j \<noteq> i) (rg_extension_order r)"
    and "rg_capability_order (snd (registry_remove i r)) = filter (\<lambda>c. c \<notin> desc_id ` set (ep_capabilities p)) (rg_capability_order r)"
  using assms by (simp_all add: registry_remove_def drop_capabilities_def registry_lookups fold_remove hm_simps fun_eq_iff)

lemma registry_remove_ok:
  assumes ok: "registry_ok schema_ref r"
  shows "registry_ok schema_ref (snd (registry_remove i r))"
proof (cases "get_extension r i")
  case None
  then show ?thesis using ok by (simp add: registry_remove_def)
next
  case (Some p)
  note o = ok [unfolded registry_ok_def]
  with Some have "consistent schema_ref p" by blast
  then have keys: "cm_id ` set (mf_capabilities (ep_manifest p)) = desc_id ` set (ep_capabilities p)"
    using arg_cong [OF consistent_descriptors(2), of schema_ref p set] by simp
  have "exact ((get_extension r)(i := None)) capability_entries (get_capability r |` (- (desc_id ` set (ep_capabilities p))))"
    using exact_remove [of "get_extension r" capability_entries "get_capability r" i p] o Some by simp
  moreover have "exact ((get_extension r)(i := None)) visibility_entries (capability_visibility r |` (- (desc_id ` set (ep_capabilities p))))"
    using exact_remove [of "get_extension r" visibility_entries "capability_visibility r" i p] o Some keys by simp
  ultimately show ?thesis using o unfolding registry_ok_def registry_remove_parts [OF Some] by (auto split: if_splits)
qed

subsection \<open>Replacing a package\<close>

lemma replace_capabilities_Some:
  "i \<le> length (rg_capability_order r) \<Longrightarrow>
     replace_capabilities p i ds r = Some ((index_all p ds r)\<lparr>rg_capability_order :=
       take i (rg_capability_order r) @ map desc_id ds @ drop i (rg_capability_order r)\<rparr>)"
proof (induction ds arbitrary: i r)
  case (Cons d ds)
  then show ?case by (simp add: insert_at_def index_capability_order index_all_order)
qed simp

lemma length_takeWhile_filter: "length (takeWhile P xs) \<le> length (filter P xs)"
  by (induction xs) auto

lemma replace_index_in_range:
  "unwrap_or (length xs) (position (\<lambda>i. i \<in> S) xs) \<le> length (filter (\<lambda>i. i \<notin> S) xs)"
proof (cases "list_ex (\<lambda>i. i \<in> S) xs")
  case True
  then show ?thesis using length_takeWhile_filter [of "\<lambda>i. i \<notin> S" xs] by (simp add: position_def unwrap_or_def)
next
  case False
  then have "filter (\<lambda>i. i \<notin> S) xs = xs" by (simp add: filter_id_conv list_ex_iff)
  with False show ?thesis by (simp add: position_def unwrap_or_def)
qed

lemma position_update: "position (\<lambda>j. j = x) xs = Some k \<Longrightarrow> xs[k := x] = xs"
  by (induction xs arbitrary: k) (auto simp: position_def split: if_splits)

lemma distinct_splice:
  assumes "distinct xs" and "distinct ys" and "set xs \<inter> set ys = {}"
  shows "distinct (take n xs @ ys @ drop n xs)" and "set (take n xs @ ys @ drop n xs) = set ys \<union> set xs"
proof -
  have "distinct (a @ b) \<Longrightarrow> set (a @ b) \<inter> set ys = {} \<Longrightarrow>
    distinct (a @ ys @ b) \<and> set (a @ ys @ b) = set ys \<union> set (a @ b)" for a b using assms(2) by auto
  from this [of "take n xs" "drop n xs"] assms(1,3)
  show "distinct (take n xs @ ys @ drop n xs)" "set (take n xs @ ys @ drop n xs) = set ys \<union> set xs" by simp_all
qed

lemma replace_validated_adds:
  assumes ok: "registry_ok schema_ref r" and cur: "get_extension r (ep_id p) = Some current" and p: "consistent schema_ref p"
    and free: "\<And>d. d \<in> set (ep_capabilities p) \<Longrightarrow> get_capability (snd (registry_remove (ep_id p) r)) (desc_id d) = None"
  obtains r' where "replace_validated p r = Some r'" and "adds p (snd (registry_remove (ep_id p) r)) r'"
proof -
  let ?i = "ep_id p" let ?r0 = "snd (registry_remove ?i r)"
  let ?ids = "map desc_id (ep_capabilities current)" let ?rd = "drop_capabilities ?ids r"
  let ?at = "unwrap_or (length (rg_capability_order r)) (position (\<lambda>i. i \<in> set ?ids) (rg_capability_order r))"
  note o = ok [unfolded registry_ok_def] and rem = registry_remove_parts [OF cur]
  have co: "rg_capability_order ?rd = rg_capability_order ?r0" unfolding rem by (simp add: drop_capabilities_def)
  from replace_index_in_range have at: "?at \<le> length (rg_capability_order ?rd)" by (simp add: drop_capabilities_def)
  have "?i \<in> set (rg_extension_order r)" using cur o by auto
  then obtain k where k: "position (\<lambda>i. i = ?i) (rg_extension_order r) = Some k" by (auto simp: position_def list_ex_iff)
  let ?r' = "(index_all p (ep_capabilities p) ?rd)\<lparr>rg_capability_order := take ?at (rg_capability_order ?rd)
      @ map desc_id (ep_capabilities p) @ drop ?at (rg_capability_order ?rd),
    rg_extension_order := rg_extension_order r, rg_packages := hm_insert ?i p (rg_packages r)\<rparr>"
  have "replace_validated p r = Some ?r'"
    using cur k position_update [OF k] replace_capabilities_Some [OF at, of p "ep_capabilities p"]
    by (simp add: replace_validated_def Let_def) (simp add: drop_capabilities_def)
  moreover have "adds p ?r0 ?r'"
  proof -
    have ok0: "distinct (rg_capability_order ?r0)" "set (rg_capability_order ?r0) = dom (get_capability ?r0)"
      using registry_remove_ok [OF ok, of ?i] by (simp_all add: registry_ok_def)
    have "set (rg_capability_order ?r0) \<inter> set (map desc_id (ep_capabilities p)) = {}"
      using ok0(2) free by (auto simp: dom_def)
    note d = distinct_splice [OF ok0(1) consistent_descriptors(5) [OF p] this, of ?at]
    show ?thesis
      using o cur d unfolding adds_def co
      by (auto simp: rem(1-4)) (auto simp: registry_lookups fun_eq_iff hm_simps index_all_entries [OF p] drop_capabilities_def fold_remove dom_def)
  qed
  ultimately show thesis by (rule that)
qed

lemma replace_validated_ok:
  assumes ok: "registry_ok schema_ref r" and v: "validate_replacement schema_ref r p = Ok u"
  obtains r' where "replace_validated p r = Some r'" and "registry_ok schema_ref r'"
    and "get_extension r' = (get_extension r)(ep_id p \<mapsto> p)" and "get_extension r (ep_id p) \<noteq> None"
proof -
  from v obtain current where p: "consistent schema_ref p" and cur: "get_extension r (ep_id p) = Some current"
    and av: "capabilities_available r (ep_id p) (Some (ep_id p)) [] (ep_capabilities p) = Ok ()"
    by (auto simp: validate_replacement_def validate_capabilities_available_def consistent_def existing_package_def
        result_bind_eq_Inr split: option.splits)
  have free: "get_capability (snd (registry_remove (ep_id p) r)) (desc_id d) = None" if "d \<in> set (ep_capabilities p)" for d
    using capabilities_available_Ok [OF av that] cur unfolding registry_remove_parts [OF cur] restrict_map_def
    by (auto simp: taken_def hm_contains_def get_capability_def declares_def list_ex_iff unwrap_or_def image_iff)
  obtain r' where r': "replace_validated p r = Some r'" "adds p (snd (registry_remove (ep_id p) r)) r'"
    using replace_validated_adds [OF ok cur p free] by blast
  have "registry_ok schema_ref r'"
    by (rule registry_ok_adds [OF registry_remove_ok [OF ok] p _ free r'(2)]) (simp_all add: registry_remove_parts [OF cur])
  moreover have "get_extension r' = (get_extension r)(ep_id p \<mapsto> p)"
    using r'(2) by (simp add: adds_def registry_remove_parts [OF cur])
  ultimately show thesis using that r'(1) cur by simp
qed

lemma registry_update_ok:
  assumes ok: "registry_ok schema_ref r"
  obtains res r' where "registry_update schema_ref p r = Some (res, r')" and "registry_ok schema_ref r'"
proof (cases "validate_replacement schema_ref r p")
  case (Inl e)
  then show thesis using that ok by (simp add: registry_update_def)
next
  case (Inr u)
  from replace_validated_ok [OF ok this] Inr that show thesis by (force simp: registry_update_def)
qed

section \<open>Sequences of changes\<close>

datatype ('d, 's, 't) RegistryOp =
    InsertPackage "('d, 's, 't) ExtensionPackage"
  | UpdatePackage "('d, 's, 't) ExtensionPackage"
  | UpsertPackage "('d, 's, 't) ExtensionPackage"
  | RemovePackage ExtensionId

primrec apply_registry_op ::
  "(CapabilityProfileSchemaRef \<Rightarrow> 's) \<Rightarrow> ('d, 's, 't) RegistryOp \<Rightarrow> ('d, 's, 't) SharedExtensionRegistry
     \<Rightarrow> ('d, 's, 't) SharedExtensionRegistry option" where
  "apply_registry_op schema_ref (InsertPackage p) s = map_option snd (shared_insert schema_ref p s)"
| "apply_registry_op schema_ref (UpdatePackage p) s = map_option snd (shared_update schema_ref p s)"
| "apply_registry_op schema_ref (UpsertPackage p) s = map_option snd (shared_upsert schema_ref p s)"
| "apply_registry_op schema_ref (RemovePackage i) s = Some (snd (shared_remove i s))"

primrec run_registry ::
  "(CapabilityProfileSchemaRef \<Rightarrow> 's) \<Rightarrow> ('d, 's, 't) RegistryOp list \<Rightarrow> ('d, 's, 't) SharedExtensionRegistry
     \<Rightarrow> ('d, 's, 't) SharedExtensionRegistry option" where
  "run_registry schema_ref [] s = Some s"
| "run_registry schema_ref (op # ops) s = Option.bind (apply_registry_op schema_ref op s) (run_registry schema_ref ops)"

lemma with_mut_result_ok:
  assumes "f (sh_inner s) = Some (res, r)" and "registry_ok schema_ref r"
  shows "\<exists>s'. map_option snd (with_mut_result f s) = Some s' \<and> registry_ok schema_ref (sh_inner s')"
  using assms by (cases res) (simp_all add: with_mut_result_def)

lemma apply_registry_op_ok:
  assumes ok: "registry_ok schema_ref (sh_inner s)"
  shows "\<exists>s'. apply_registry_op schema_ref op s = Some s' \<and> registry_ok schema_ref (sh_inner s')"
proof (cases op)
  case (InsertPackage p)
  obtain res r' where "Some (registry_insert schema_ref p (sh_inner s)) = Some (res, r')" "registry_ok schema_ref r'"
    using registry_insert_ok [OF ok, of p] by (metis prod.collapse)
  from with_mut_result_ok [of "\<lambda>r. Some (registry_insert schema_ref p r)", OF this] InsertPackage
  show ?thesis by (simp add: shared_insert_def)
next
  case (UpdatePackage p)
  obtain res r' where "registry_update schema_ref p (sh_inner s) = Some (res, r')" "registry_ok schema_ref r'"
    by (rule registry_update_ok [OF ok])
  from with_mut_result_ok [of "registry_update schema_ref p", OF this] UpdatePackage show ?thesis by (simp add: shared_update_def)
next
  case (UpsertPackage p)
  let ?f = "\<lambda>r. if get_extension r (ep_id p) \<noteq> None then registry_update schema_ref p r else Some (registry_insert schema_ref p r)"
  obtain res r' where "?f (sh_inner s) = Some (res, r')" "registry_ok schema_ref r'"
    using registry_update_ok [OF ok, of p] registry_insert_ok [OF ok, of p] by (metis prod.collapse)
  from with_mut_result_ok [of ?f, OF this] UpsertPackage show ?thesis by (simp add: shared_upsert_def)
next
  case (RemovePackage i)
  then show ?thesis
    using registry_remove_ok [OF ok, of i] by (auto simp: shared_remove_def split: prod.splits option.splits)
qed

lemma run_registry_ok:
  "registry_ok schema_ref (sh_inner s) \<Longrightarrow> \<exists>s'. run_registry schema_ref ops s = Some s' \<and> registry_ok schema_ref (sh_inner s')"
proof (induction ops arbitrary: s)
  case (Cons op ops)
  from apply_registry_op_ok [OF Cons.prems, of op] Cons.IH show ?case by auto
qed simp

lemma registry_ok_capability:
  fixes r :: "('b, 'a, 'c) ExtensionRegistry"
  assumes "registry_ok schema_ref r"
  shows "get_capability r c = Some d \<longleftrightarrow>
    (\<exists>p. get_extension r (desc_provider d) = Some p \<and> d \<in> set (ep_capabilities p) \<and> desc_id d = c
       \<and> desc_runtime d = manifest_runtime_kind (ep_manifest p) \<and> prefix (desc_provider d @ ''.'') c)"
proof -
  from assms have C: "get_capability r c = Some d \<longleftrightarrow> (\<exists>i p. get_extension r i = Some p \<and> (c, d) \<in> set (capability_entries p))"
    and con: "\<And>i p. get_extension r i = Some p \<Longrightarrow> ep_id p = i \<and> consistent schema_ref p"
    using exactD [of "get_extension r" capability_entries "get_capability r"] unfolding registry_ok_def by blast+
  have e: "(c, d) \<in> set (capability_entries p) \<longleftrightarrow> d \<in> set (ep_capabilities p) \<and> desc_id d = c" for p :: "('b, 'a, 'c) ExtensionPackage"
    by (auto simp: capability_entries_def)
  show ?thesis
  proof
    assume "get_capability r c = Some d"
    with C e obtain i p where p: "get_extension r i = Some p" "d \<in> set (ep_capabilities p)" "desc_id d = c" by blast
    with con [OF p(1)] consistent_capability [of schema_ref p d]
    show "\<exists>p. get_extension r (desc_provider d) = Some p \<and> d \<in> set (ep_capabilities p) \<and> desc_id d = c
       \<and> desc_runtime d = manifest_runtime_kind (ep_manifest p) \<and> prefix (desc_provider d @ ''.'') c" by auto
  qed (use C e in blast)
qed

lemma registry_ok_listed:
  assumes "registry_ok schema_ref r"
  shows "distinct (map desc_id (registry_capabilities r))" and "set (registry_capabilities r) = ran (get_capability r)"
    and "distinct (map ep_id (registry_extensions r))" and "set (registry_extensions r) = ran (get_extension r)"
proof -
  note o = assms [unfolded registry_ok_def] and rc = registry_ok_capability [OF assms]
  have all: "filter (\<lambda>x. f x \<noteq> None) xs = xs" if "set xs = dom f" for f :: "string \<Rightarrow> 'z option" and xs
    using that by (auto simp: filter_id_conv)
  have the_dom: "(the \<circ> f) ` dom f = ran f" for f :: "string \<Rightarrow> 'z option" by (force simp: ran_def dom_def)
  have caps: "registry_capabilities r = map (the \<circ> get_capability r) (rg_capability_order r)"
    and exts: "registry_extensions r = map (the \<circ> get_extension r) (rg_extension_order r)"
    using all [of "rg_capability_order r" "get_capability r"] all [of "rg_extension_order r" "get_extension r"] o
    by (simp_all add: registry_capabilities_def registry_extensions_def map_filter_def registry_lookups)
  have "map desc_id (registry_capabilities r) = rg_capability_order r"
    unfolding caps map_map by (rule map_idI) (use o rc in force)
  then show "distinct (map desc_id (registry_capabilities r))" using o by simp
  have "map ep_id (registry_extensions r) = rg_extension_order r"
    unfolding exts map_map by (rule map_idI) (use o in force)
  then show "distinct (map ep_id (registry_extensions r))" using o by simp
  show "set (registry_capabilities r) = ran (get_capability r)" "set (registry_extensions r) = ran (get_extension r)"
    unfolding caps exts set_map using o by (simp_all only: the_dom)
qed

lemma registry_ok_extensions_length:
  assumes "registry_ok schema_ref r" shows "length (registry_extensions r) = length (rg_extension_order r)"
proof -
  have "filter (\<lambda>x. get_extension r x \<noteq> None) (rg_extension_order r) = rg_extension_order r"
    using assms by (auto simp: registry_ok_def filter_id_conv)
  then show ?thesis by (simp add: registry_extensions_def map_filter_def registry_lookups)
qed

text \<open>
  C21: the registry is well formed after any sequence of inserts, updates, upserts and removals, each
  accepted or refused, and none of them panics. Then a capability is found exactly when its provider is
  registered and declares it; it carries the runtime of the provider's manifest and an identifier
  prefixed with the provider's; and the listing of capabilities and of extensions names every entry once.
\<close>

theorem registry_well_formed:
  "\<exists>s r. run_registry schema_ref ops (SharedExtensionRegistry_new ExtensionRegistry_new) = Some s \<and> r = registry_snapshot s
     \<and> (\<forall>c d. get_capability r c = Some d \<longleftrightarrow>
          (\<exists>p. get_extension r (desc_provider d) = Some p \<and> d \<in> set (ep_capabilities p) \<and> desc_id d = c
             \<and> desc_runtime d = manifest_runtime_kind (ep_manifest p) \<and> prefix (desc_provider d @ ''.'') c))
     \<and> distinct (map desc_id (registry_capabilities r)) \<and> set (registry_capabilities r) = ran (get_capability r)
     \<and> distinct (map ep_id (registry_extensions r)) \<and> set (registry_extensions r) = ran (get_extension r)"
proof -
  obtain s where s: "run_registry schema_ref ops (SharedExtensionRegistry_new ExtensionRegistry_new) = Some s"
    and ok: "registry_ok schema_ref (sh_inner s)"
    using run_registry_ok [of schema_ref "SharedExtensionRegistry_new ExtensionRegistry_new"] registry_ok_new
    by (force simp: SharedExtensionRegistry_new_def)
  show ?thesis
    using s registry_ok_capability [OF ok] registry_ok_listed [OF ok] by (auto simp: registry_snapshot_def)
qed

section \<open>Asset paths\<close>

lemma asset_segments_clean:
  assumes "ExtensionAssetPath_new v = Ok a"
  shows "a = v" and "list_all clean_segment (split_on (CHR ''/'') v)"
proof -
  from assms show "a = v" by (auto simp: ExtensionAssetPath_new_def result_bind_eq_Inr)
  from assms have v: "CHR 0x00 \<notin> set v" "\<not> has_control v" "CHR 0x5C \<notin> set v"
    and segs: "\<And>q. q \<in> set (split_on (CHR ''/'') v) \<Longrightarrow> q \<noteq> [] \<and> q \<noteq> ''.'' \<and> q \<noteq> ''..''"
    by (auto simp: ExtensionAssetPath_new_def result_bind_eq_Inr validate_asset_path_def list_ex_iff split: if_splits)
  have "clean_segment q" if "q \<in> set (split_on (CHR ''/'') v)" for q
    using v segs [OF that] split_on_parts [OF that] split_on_subset [OF that] has_control_split_on [OF v(2) that]
    by (auto simp: clean_segment_def)
  then show "list_all clean_segment (split_on (CHR ''/'') v)" by (simp add: list_all_iff)
qed

text \<open>
  C32: an asset of an extension stays inside its package. Whatever relative path the manifest names, if it
  passes validation then resolving it under the package root succeeds and gives that root followed by
  the path as written: no segment climbs out, and no other normalization applies.
\<close>

theorem asset_path_contained:
  assumes "ExtensionAssetPath_new v = Ok asset" and "VirtualPath_new root = Ok root"
  shows "resolve_under asset root = Ok (root @ ''/'' @ v) \<and> path_matches_alias root (root @ ''/'' @ v)"
proof -
  note a = asset_segments_clean [OF assms(1)]
  have j: "join_tail root v = Ok (root @ ''/'' @ v)"
    using join_tail_clean [OF assms(2) split_on_not_Nil a(2)] by (simp add: join_split_on)
  from assms(1) have "v \<noteq> []" by (auto simp: ExtensionAssetPath_new_def validate_asset_path_def)
  with j show ?thesis by (simp add: resolve_under_def join_tail_def a(1) path_matches_alias_def)
qed

theorem asset_path_contained_witness:
  "ExtensionAssetPath_new ''bin/tool.wasm'' = Ok ''bin/tool.wasm''
   \<and> VirtualPath_new ''/system/extensions/github'' = Ok ''/system/extensions/github''
   \<and> resolve_under ''bin/tool.wasm'' ''/system/extensions/github'' = Ok ''/system/extensions/github/bin/tool.wasm''"
proof -
  have a: "ExtensionAssetPath_new ''bin/tool.wasm'' = Ok ''bin/tool.wasm''" by code_simp
  have r: "VirtualPath_new ''/system/extensions/github'' = Ok ''/system/extensions/github''" by code_simp
  from asset_path_contained [OF a r] a r show ?thesis by simp
qed

section \<open>The lifecycle service\<close>

definition service_ok :: "(CapabilityProfileSchemaRef \<Rightarrow> 's) \<Rightarrow> ('d, 's, 't) ExtensionLifecycleService \<Rightarrow> bool" where
  "service_ok schema_ref s =
    (registry_ok schema_ref (ls_registry s) \<and> set (ls_disabled s) \<subseteq> dom (get_extension (ls_registry s)))"

datatype ('d, 's, 't) LifecycleCall =
    Install_Call "('d, 's, 't) ExtensionPackage" | Update_Call "('d, 's, 't) ExtensionPackage"
  | Remove_Call ExtensionId | Enable_Call ExtensionId | Disable_Call ExtensionId

primrec call_target :: "('d, 's, 't) LifecycleCall \<Rightarrow> ExtensionId" where
  "call_target (Install_Call p) = ep_id p"
| "call_target (Update_Call p) = ep_id p"
| "call_target (Remove_Call i) = i"
| "call_target (Enable_Call i) = i"
| "call_target (Disable_Call i) = i"

primrec call_operation :: "('d, 's, 't) LifecycleCall \<Rightarrow> ExtensionLifecycleOperation" where
  "call_operation (Install_Call _) = OpInstall"
| "call_operation (Update_Call _) = OpUpdate"
| "call_operation (Remove_Call _) = OpRemove"
| "call_operation (Enable_Call _) = OpEnable"
| "call_operation (Disable_Call _) = OpDisable"

primrec lifecycle_call ::
  "(CapabilityProfileSchemaRef \<Rightarrow> 's) \<Rightarrow> 'k lifecycle_sink \<Rightarrow> ('d, 's, 't) LifecycleCall \<Rightarrow> ('d, 's, 't) ExtensionLifecycleService \<Rightarrow> 'k
     \<Rightarrow> ((ExtensionError, unit) result \<times> ('d, 's, 't) ExtensionLifecycleService \<times> 'k) option" where
  "lifecycle_call schema_ref sink (Install_Call p) s k = lifecycle_install schema_ref sink p s k"
| "lifecycle_call schema_ref sink (Update_Call p) s k = lifecycle_update schema_ref sink p s k"
| "lifecycle_call schema_ref sink (Remove_Call i) s k = lifecycle_remove sink i s k"
| "lifecycle_call schema_ref sink (Enable_Call i) s k = lifecycle_enable sink i s k"
| "lifecycle_call schema_ref sink (Disable_Call i) s k = lifecycle_disable sink i s k"

text \<open>Whether the extension is enabled once the call succeeded, given whether it was before.\<close>

fun enabled_after :: "ExtensionLifecycleOperation \<Rightarrow> bool \<Rightarrow> bool" where
  "enabled_after OpUpdate was = was"
| "enabled_after op was = (op = OpInstall \<or> op = OpEnable)"

text \<open>A call that ends as it should: refused and nothing changed, or announced and then committed.\<close>

definition call_settled where
  "call_settled schema_ref sink c s k out =
    (\<exists>res s' k'. out = Some (res, s', k') \<and> service_ok schema_ref s'
       \<and> (case res of
            Inl _ \<Rightarrow> s' = s
          | Inr _ \<Rightarrow> (\<exists>ev. emit_lifecycle_event sink ev k = (Ok (), k')
              \<and> le_operation ev = call_operation c \<and> le_extension_id ev = call_target c)
              \<and> (\<forall>j. is_enabled s' j \<longleftrightarrow>
                   (if j = call_target c then enabled_after (call_operation c) (is_enabled s j) else is_enabled s j))))"

lemma call_settled_refused: "service_ok schema_ref s \<Longrightarrow> call_settled schema_ref sink c s k (Some (Err e, s, k))"
  by (simp add: call_settled_def)

lemma call_settled_announced:
  assumes "service_ok schema_ref s" and ev: "le_operation ev = call_operation c" "le_extension_id ev = call_target c"
    and s': "change s = Some s'" "service_ok schema_ref s'"
      "\<And>j. is_enabled s' j \<longleftrightarrow> (if j = call_target c then enabled_after (call_operation c) (is_enabled s j) else is_enabled s j)"
  shows "call_settled schema_ref sink c s k (announced sink ev change s k)"
proof (cases "emit_lifecycle_event sink ev k")
  case (Pair res k')
  then show ?thesis using assms by (cases res) (auto simp: call_settled_def announced_def)
qed

lemma event_of_package [simp]:
  "le_operation (lifecycle_event_from_package op p b) = op" "le_extension_id (lifecycle_event_from_package op p b) = ep_id p"
  by (simp_all add: lifecycle_event_from_package_def)

lemma service_extension: "service_ok schema_ref s \<Longrightarrow> get_extension (ls_registry s) i = Some p \<Longrightarrow> ep_id p = i"
  by (auto simp: service_ok_def registry_ok_def)

lemma lifecycle_install_settled:
  assumes s: "service_ok schema_ref s"
  shows "call_settled schema_ref sink (Install_Call p) s k (lifecycle_install schema_ref sink p s k)"
proof (cases "validate_insertable schema_ref (ls_registry s) p")
  case (Inl e)
  then show ?thesis by (simp add: lifecycle_install_def call_settled_refused [OF s])
next
  case (Inr u)
  then have v: "validate_insertable schema_ref (ls_registry s) p = Ok ()" by simp
  from s have ok: "registry_ok schema_ref (ls_registry s)" by (simp add: service_ok_def)
  note a = insert_adds [OF ok v]
  have "get_extension (insert_validated p (ls_registry s)) = (get_extension (ls_registry s))(ep_id p \<mapsto> p)"
    using a(4) by (simp add: adds_def)
  moreover have "registry_ok schema_ref (insert_validated p (ls_registry s))"
    by (rule registry_ok_adds [OF ok a(1,2) a(3) a(4)])
  ultimately show ?thesis using s a(2) Inr unfolding lifecycle_install_def
    by simp (rule call_settled_announced [OF s, where s' = "s\<lparr>ls_registry := insert_validated p (ls_registry s)\<rparr>"], auto simp: service_ok_def is_enabled_def)
qed

lemma lifecycle_update_settled:
  assumes s: "service_ok schema_ref s"
  shows "call_settled schema_ref sink (Update_Call p) s k (lifecycle_update schema_ref sink p s k)"
proof (cases "validate_replacement schema_ref (ls_registry s) p")
  case (Inl e)
  then show ?thesis
    by (auto simp: lifecycle_update_def call_settled_refused [OF s] split: sum.split)
next
  case (Inr u)
  from s have ok: "registry_ok schema_ref (ls_registry s)" by (simp add: service_ok_def)
  obtain r' where r': "replace_validated p (ls_registry s) = Some r'" "registry_ok schema_ref r'"
    "get_extension r' = (get_extension (ls_registry s))(ep_id p \<mapsto> p)" "get_extension (ls_registry s) (ep_id p) \<noteq> None"
    by (rule replace_validated_ok [OF ok Inr])
  then obtain cur where "existing_package (ls_registry s) (ep_id p) = Ok cur" by (auto simp: existing_package_def)
  with Inr r' s show ?thesis unfolding lifecycle_update_def
    by simp (rule call_settled_announced [OF s, where s' = "s\<lparr>ls_registry := r'\<rparr>"], auto simp: service_ok_def is_enabled_def)
qed

lemma lifecycle_remove_settled:
  assumes s: "service_ok schema_ref s"
  shows "call_settled schema_ref sink (Remove_Call i) s k (lifecycle_remove sink i s k)"
proof (cases "get_extension (ls_registry s) i")
  case None
  then show ?thesis by (simp add: lifecycle_remove_def existing_package_def call_settled_refused [OF s])
next
  case (Some p)
  from s have ok: "registry_ok schema_ref (ls_registry s)" by (simp add: service_ok_def)
  show ?thesis using s Some registry_remove_ok [OF ok, of i] service_extension [OF s Some]
    unfolding lifecycle_remove_def
    by (simp add: existing_package_def)
      (rule call_settled_announced [OF s, where s' = "\<lparr>ls_registry = snd (registry_remove i (ls_registry s)), ls_disabled = removeAll i (ls_disabled s)\<rparr>"], auto simp: service_ok_def is_enabled_def registry_remove_parts [OF Some])
qed

lemma lifecycle_toggle_settled:
  assumes s: "service_ok schema_ref s"
  shows "call_settled schema_ref sink (Enable_Call i) s k (lifecycle_enable sink i s k)"
    and "call_settled schema_ref sink (Disable_Call i) s k (lifecycle_disable sink i s k)"
proof -
  have "call_settled schema_ref sink (Enable_Call i) s k (lifecycle_enable sink i s k)
    \<and> call_settled schema_ref sink (Disable_Call i) s k (lifecycle_disable sink i s k)"
  proof (cases "get_extension (ls_registry s) i")
    case None
    then show ?thesis by (simp add: lifecycle_enable_def lifecycle_disable_def existing_package_def call_settled_refused [OF s])
  next
    case (Some p)
    note i = service_extension [OF s Some]
    have "call_settled schema_ref sink (Enable_Call i) s k (lifecycle_enable sink i s k)"
      using s Some i unfolding lifecycle_enable_def by (simp add: existing_package_def)
        (rule call_settled_announced [OF s, where s' = "s\<lparr>ls_disabled := removeAll i (ls_disabled s)\<rparr>"], auto simp: service_ok_def is_enabled_def)
    moreover have "call_settled schema_ref sink (Disable_Call i) s k (lifecycle_disable sink i s k)"
      using s Some i unfolding lifecycle_disable_def by (simp add: existing_package_def)
        (rule call_settled_announced [OF s, where s' = "s\<lparr>ls_disabled := List.insert i (ls_disabled s)\<rparr>"], auto simp: service_ok_def is_enabled_def)
    ultimately show ?thesis ..
  qed
  then show "call_settled schema_ref sink (Enable_Call i) s k (lifecycle_enable sink i s k)"
    and "call_settled schema_ref sink (Disable_Call i) s k (lifecycle_disable sink i s k)" by auto
qed


definition example_manifest :: "(nat, unit) ExtensionManifest" where
  "example_manifest = \<lparr>mf_schema_version = ''2'', mf_id = ''github'', mf_name = ''GitHub'', mf_version = ''1.0.0'',
     mf_description = '''', mf_source = InstalledLocal, mf_requested_trust = ThirdParty,
     mf_descriptor_trust_default = TrustSandbox, mf_runtime = RuntimeWasm ''tool.wasm'', mf_host_apis = [],
     mf_capabilities = [\<lparr>cm_id = ''github.search'', cm_implements = [], cm_description = ''search'', cm_effects = [Network],
       cm_default_permission = PermAsk, cm_visibility = VisModel, cm_input_schema_ref = ''in.json'',
       cm_output_schema_ref = ''out.json'', cm_prompt_doc_ref = None, cm_required_host_ports = [],
       cm_runtime_credentials = [], cm_network_targets = [], cm_resource_profile = None\<rparr>],
     mf_hooks = []\<rparr>"

definition example_package :: "(nat, string, unit) ExtensionPackage" where
  "example_package = \<lparr>ep_id = ''github'', ep_root = ''/system/extensions/github'', ep_manifest = example_manifest,
     ep_capabilities = map (descriptor_of id example_manifest) (mf_capabilities example_manifest),
     ep_manifest_digest = None, ep_descriptor_schema_mode = ManifestRefs\<rparr>"

definition install_example where
  "install_example = lifecycle_call id (Some (\<lambda>ev (evs :: ExtensionLifecycleEvent list). (Ok (), evs @ [ev]))) (Install_Call example_package)
     (ExtensionLifecycleService_new ExtensionRegistry_new) []"


section \<open>Discovery\<close>

text \<open>The number of manifests a loader was asked for.\<close>

definition counted :: "('d, 's, 't, 'k) package_loader \<Rightarrow> ('d, 's, 't, 'k \<times> nat) package_loader" where
  "counted load e i kn = (case load e i (fst kn) of (loaded, k') \<Rightarrow> (loaded, (k', Suc (snd kn))))"

abbreviation extension_dirs :: "DirEntry list \<Rightarrow> DirEntry list" where
  "extension_dirs es \<equiv> filter (\<lambda>e. extension_dir_id e \<noteq> None) es"

abbreviation accounted :: "('d, 's, 't) TolerantBoundedDiscovery \<Rightarrow> nat" where
  "accounted acc \<equiv> length (rg_extension_order (td_registry acc)) + length (td_quarantined acc)"

lemma quarantine_fields [simp]:
  "td_registry (quarantine i reason acc) = td_registry acc"
  "length (td_quarantined (quarantine i reason acc)) = Suc (length (td_quarantined acc))"
  by (simp_all add: quarantine_def)

lemma admit_package_ok:
  assumes "registry_ok schema_ref (td_registry acc)"
  shows "registry_ok schema_ref (td_registry (admit_package schema_ref show_error i loaded acc))"
    and "accounted (admit_package schema_ref show_error i loaded acc) = Suc (accounted acc)"
proof -
  have "registry_ok schema_ref (td_registry (admit_package schema_ref show_error i loaded acc))
    \<and> accounted (admit_package schema_ref show_error i loaded acc) = Suc (accounted acc)"
  proof (cases loaded)
    case (Inr p)
    have "rg_extension_order (insert_validated p r) = rg_extension_order r @ [ep_id p]" for r
      by (simp add: insert_validated_def Let_def insert_fold)
    with Inr registry_insert_ok [OF assms, of p] assms show ?thesis
      by (auto simp: admit_package_def registry_insert_def split: sum.split)
  qed (simp add: admit_package_def assms)
  then show "registry_ok schema_ref (td_registry (admit_package schema_ref show_error i loaded acc))"
    and "accounted (admit_package schema_ref show_error i loaded acc) = Suc (accounted acc)" by auto
qed

lemma discover_bounded_ok:
  assumes "registry_ok schema_ref (td_registry acc)"
    and "discover_bounded schema_ref show_error (counted load) m c es acc (k, n) = (found, (k', n'))"
  shows "registry_ok schema_ref (td_registry found) \<and> accounted found = accounted acc + length (extension_dirs es)
    \<and> n' \<le> n + (m - c)"
  using assms
proof (induction es arbitrary: c acc k n)
  case (Cons e es)
  show ?case
  proof (cases "extension_dir_id e")
    case None
    then show ?thesis using Cons by simp
  next
    case (Some i)
    show ?thesis
    proof (cases "m \<le> c")
      case True
      with Some Cons.prems Cons.IH [of "quarantine i (bound_reason m) acc" c k n] show ?thesis by simp
    next
      case False
      obtain loaded k1 where l: "load e i k = (loaded, k1)" by (cases "load e i k")
      with False Some Cons.prems Cons.IH [of "admit_package schema_ref show_error i loaded acc" "Suc c" k1 "Suc n"]
        admit_package_ok [OF Cons.prems(1), of show_error i loaded]
      show ?thesis by (auto simp: counted_def)
    qed
  qed
qed simp


end
