(* ===== verification/Dispatcher.thy ===== *)
theory Dispatcher
  imports Extension_Laws Dispatch_Port Tasks Runtime_Policy Resources
begin

text \<open>
  The runtime dispatcher (\<open>ironclaw_dispatcher/src/lib.rs\<close>): it looks a capability up in a snapshot of the
  registry, checks its provider and runtime, and hands the call to the adapter of that runtime, with the
  resource reservation that was prepared for it. Every access to a service is a step of a task; the guard
  that releases an untaken reservation runs when the method returns. Dropping the future half-way is not
  modelled.
\<close>

section \<open>Definitions\<close>

record ('d, 's, 't, 'v) RuntimeAdapterRequest =
  ra_package :: "('d, 's, 't) ExtensionPackage"
  ra_descriptor :: "('d, 's, 't) CapabilityDescriptor"
  ra_runtime_policy :: EffectiveRuntimePolicy
  ra_capability_id :: CapabilityId
  ra_scope :: ResourceScope
  ra_authenticated_actor_user_id :: "UserId option"
  ra_estimate :: "'d ResourceEstimate"
  ra_mounts :: "MountView option"
  ra_resource_reservation :: "'d ResourceReservation option"
  ra_input :: 'v

record ('d, 'v) RuntimeAdapterResult =
  rr_output :: 'v
  rr_display_preview :: "CapabilityDisplayOutputPreview option"
  rr_usage :: "'d ResourceUsage"
  rr_receipt :: "'d ResourceReceipt"
  rr_output_bytes :: u64

type_synonym ('d, 's, 't, 'v, 'w) RuntimeAdapter =
  "('d, 's, 't, 'v) RuntimeAdapterRequest \<Rightarrow> ('w, (DispatchError, ('d, 'v) RuntimeAdapterResult) result) async"

text \<open>\<open>rd_stamp\<close> draws the identifier and the time of a new event.\<close>

record ('d, 's, 't, 'v, 'w) RuntimeDispatcher =
  rd_registry :: "'w \<Rightarrow> ('d, 's, 't) ExtensionRegistry \<times> 'w"
  rd_release :: "ResourceReservationId \<Rightarrow> 'w \<Rightarrow> ('d ResourceError, 'd ResourceReceipt) result \<times> 'w"
  rd_runtime_policy :: EffectiveRuntimePolicy
  rd_runtime_adapters :: "(RuntimeKind, ('d, 's, 't, 'v, 'w) RuntimeAdapter) hashmap"
  rd_event_sink :: "(RuntimeEvent \<Rightarrow> ('w, (EventError, unit) result) async) option"
  rd_stamp :: "'w \<Rightarrow> stamp \<times> 'w"

definition default_runtime_policy :: EffectiveRuntimePolicy where
  "default_runtime_policy =
    \<lparr>erp_deployment = LocalSingleUser, erp_requested_profile = SecureDefault, erp_resolved_profile = SecureDefault,
     erp_filesystem_backend = ScopedVirtual, erp_process_backend = NoProcess, erp_network_mode = NetDeny,
     erp_secret_mode = BrokeredHandles, erp_approval_policy = AskAlways, erp_audit_mode = LocalMinimal\<rparr>"

definition RuntimeDispatcher_new ::
  "('w \<Rightarrow> ('d, 's, 't) ExtensionRegistry \<times> 'w)
     \<Rightarrow> (ResourceReservationId \<Rightarrow> 'w \<Rightarrow> ('d ResourceError, 'd ResourceReceipt) result \<times> 'w) \<Rightarrow> ('w \<Rightarrow> stamp \<times> 'w)
     \<Rightarrow> ('d, 's, 't, 'v, 'w) RuntimeDispatcher" where
  "RuntimeDispatcher_new registry release stmp =
    \<lparr>rd_registry = registry, rd_release = release, rd_runtime_policy = default_runtime_policy,
     rd_runtime_adapters = [], rd_event_sink = None, rd_stamp = stmp\<rparr>"

definition with_runtime_policy :: "EffectiveRuntimePolicy \<Rightarrow> ('d, 's, 't, 'v, 'w) RuntimeDispatcher \<Rightarrow> ('d, 's, 't, 'v, 'w) RuntimeDispatcher" where
  "with_runtime_policy policy rd = rd\<lparr>rd_runtime_policy := policy\<rparr>"

definition with_runtime_adapter ::
  "RuntimeKind \<Rightarrow> ('d, 's, 't, 'v, 'w) RuntimeAdapter \<Rightarrow> ('d, 's, 't, 'v, 'w) RuntimeDispatcher \<Rightarrow> ('d, 's, 't, 'v, 'w) RuntimeDispatcher" where
  "with_runtime_adapter runtime adapter rd = rd\<lparr>rd_runtime_adapters := hm_insert runtime adapter (rd_runtime_adapters rd)\<rparr>"

definition with_event_sink ::
  "(RuntimeEvent \<Rightarrow> ('w, (EventError, unit) result) async) \<Rightarrow> ('d, 's, 't, 'v, 'w) RuntimeDispatcher \<Rightarrow> ('d, 's, 't, 'v, 'w) RuntimeDispatcher" where
  "with_event_sink sink rd = rd\<lparr>rd_event_sink := Some sink\<rparr>"

text \<open>An event is built with its stamp whether or not a sink listens; what the sink answers is dropped.\<close>

definition emit_event ::
  "('d, 's, 't, 'v, 'w) RuntimeDispatcher \<Rightarrow> (stamp \<Rightarrow> RuntimeEvent) \<Rightarrow> ('w, (DispatchError, unit) result) async" where
  "emit_event rd event_at =
    await (call (rd_stamp rd)) (\<lambda>st.
      case rd_event_sink rd of
        None \<Rightarrow> Ready (Ok ())
      | Some sink \<Rightarrow> await (sink (event_at st)) (\<lambda>_. Ready (Ok ())))"

definition emit_dispatch_failure ::
  "('d, 's, 't, 'v, 'w) RuntimeDispatcher \<Rightarrow> ResourceScope \<Rightarrow> CapabilityId \<Rightarrow> ExtensionId option \<Rightarrow> RuntimeKind option \<Rightarrow> DispatchError
     \<Rightarrow> ('w, (DispatchError, unit) result) async" where
  "emit_dispatch_failure rd scope capability_id provider runtime e =
    emit_event rd (\<lambda>st. dispatch_failed st scope capability_id provider runtime (dispatch_event_kind e))"

text \<open>\<open>DispatchReservationGuard::drop\<close>, with the reservation the guard still holds.\<close>

definition guard_drop ::
  "('d, 's, 't, 'v, 'w) RuntimeDispatcher \<Rightarrow> 'd ResourceReservation option \<Rightarrow> ('w, unit) async" where
  "guard_drop rd held =
    (case held of
       None \<Rightarrow> Ready ()
     | Some reservation \<Rightarrow> await (call (rd_release rd (res_id reservation))) (\<lambda>_. Ready ()))"

definition guarded ::
  "('d, 's, 't, 'v, 'w) RuntimeDispatcher \<Rightarrow> 'd ResourceReservation option \<Rightarrow> ('w, 'r) async \<Rightarrow> ('w, 'r) async" where
  "guarded rd held p = await p (\<lambda>r. await (guard_drop rd held) (\<lambda>_. Ready r))"

definition failed_dispatch ::
  "('d, 's, 't, 'v, 'w) RuntimeDispatcher \<Rightarrow> ('d, 'v) CapabilityDispatchRequest \<Rightarrow> ExtensionId option \<Rightarrow> RuntimeKind option \<Rightarrow> DispatchError
     \<Rightarrow> ('w, (DispatchError, 'r) result) async" where
  "failed_dispatch rd rq provider runtime e =
    try_await (emit_dispatch_failure rd (dq_scope rq) (dq_capability_id rq) provider runtime e) (\<lambda>_. Ready (Err e))"

definition adapter_request ::
  "('d, 's, 't, 'v, 'w) RuntimeDispatcher \<Rightarrow> ('d, 'v) CapabilityDispatchRequest \<Rightarrow> ('d, 's, 't) ExtensionPackage
     \<Rightarrow> ('d, 's, 't) CapabilityDescriptor \<Rightarrow> ('d, 's, 't, 'v) RuntimeAdapterRequest" where
  "adapter_request rd rq package descriptor =
    \<lparr>ra_package = package, ra_descriptor = descriptor, ra_runtime_policy = rd_runtime_policy rd,
     ra_capability_id = dq_capability_id rq, ra_scope = dq_scope rq,
     ra_authenticated_actor_user_id = dq_authenticated_actor_user_id rq, ra_estimate = dq_estimate rq,
     ra_mounts = dq_mounts rq, ra_resource_reservation = dq_resource_reservation rq, ra_input = dq_input rq\<rparr>"

text \<open>The tail of \<open>dispatch_json\<close> once the adapter is known: the reservation goes to the adapter.\<close>

definition run_adapter ::
  "('d, 's, 't, 'v, 'w) RuntimeDispatcher \<Rightarrow> ('d, 'v) CapabilityDispatchRequest \<Rightarrow> ('d, 's, 't) ExtensionPackage
     \<Rightarrow> ('d, 's, 't) CapabilityDescriptor \<Rightarrow> ('d, 's, 't, 'v, 'w) RuntimeAdapter
     \<Rightarrow> ('w, (DispatchError, ('d, 'v) CapabilityDispatchResult) result) async" where
  "run_adapter rd rq package descriptor adapter =
    try_await (emit_event rd (\<lambda>st. runtime_selected st (dq_scope rq) (dq_capability_id rq) (desc_provider descriptor) (desc_runtime descriptor))) (\<lambda>_.
      await (adapter (adapter_request rd rq package descriptor)) (\<lambda>res. case res of
        Inl e \<Rightarrow> failed_dispatch rd rq (Some (desc_provider descriptor)) (Some (desc_runtime descriptor)) e
      | Inr execution \<Rightarrow>
          try_await (emit_event rd (\<lambda>st. dispatch_succeeded st (dq_scope rq) (dq_capability_id rq) (desc_provider descriptor)
              (desc_runtime descriptor) (rr_output_bytes execution))) (\<lambda>_.
            Ready (Ok \<lparr>dr_capability_id = dq_capability_id rq, dr_provider = desc_provider descriptor,
              dr_runtime = desc_runtime descriptor, dr_output = rr_output execution,
              dr_display_preview = rr_display_preview execution, dr_usage = rr_usage execution,
              dr_receipt = rr_receipt execution\<rparr>))))"

text \<open>The checks; every refusal drops the guard with the reservation still in it.\<close>

definition select_and_run ::
  "('d, 's, 't, 'v, 'w) RuntimeDispatcher \<Rightarrow> ('d, 'v) CapabilityDispatchRequest \<Rightarrow> ('d, 's, 't) ExtensionRegistry
     \<Rightarrow> ('w, (DispatchError, ('d, 'v) CapabilityDispatchResult) result) async" where
  "select_and_run rd rq registry =
    (let held = dq_resource_reservation rq;
         capability_id = dq_capability_id rq
     in case get_capability registry capability_id of
       None \<Rightarrow> guarded rd held (failed_dispatch rd rq None None (DUnknownCapability capability_id))
     | Some descriptor \<Rightarrow>
         let provider = desc_provider descriptor;
             runtime = desc_runtime descriptor
         in case get_extension registry provider of
           None \<Rightarrow> guarded rd held (failed_dispatch rd rq (Some provider) (Some runtime) (DUnknownProvider capability_id provider))
         | Some package \<Rightarrow>
             if runtime \<noteq> manifest_runtime_kind (ep_manifest package)
             then guarded rd held (failed_dispatch rd rq (Some provider) (Some runtime)
                    (DRuntimeMismatch capability_id runtime (manifest_runtime_kind (ep_manifest package))))
             else case hm_get (rd_runtime_adapters rd) runtime of
               None \<Rightarrow> guarded rd held (failed_dispatch rd rq (Some provider) (Some runtime) (DMissingRuntimeBackend runtime))
             | Some adapter \<Rightarrow> run_adapter rd rq package descriptor adapter)"

definition dispatch_json ::
  "('d, 's, 't, 'v, 'w) RuntimeDispatcher \<Rightarrow> ('d, 'v) CapabilityDispatchRequest
     \<Rightarrow> ('w, (DispatchError, ('d, 'v) CapabilityDispatchResult) result) async" where
  "dispatch_json rd rq =
    try_await (emit_event rd (\<lambda>st. dispatch_requested st (dq_scope rq) (dq_capability_id rq))) (\<lambda>_.
      await (call (rd_registry rd)) (select_and_run rd rq))"

section \<open>A dispatcher whose services are recorded\<close>

text \<open>
  Services that are arbitrary functions of an environment \<open>'e\<close>, with a journal of what the dispatcher asked
  of them. An environment may change at every access, so what other tasks do in between is covered.
\<close>

datatype ('d, 's, 't, 'v) DispatchStep =
    Announced RuntimeEvent
  | Adapted RuntimeKind "('d, 's, 't, 'v) RuntimeAdapterRequest" "(DispatchError, ('d, 'v) RuntimeAdapterResult) result"
  | Released ResourceReservationId

type_synonym ('d, 's, 't, 'v, 'e) dispatch_world = "'e \<times> ('d, 's, 't, 'v) DispatchStep list"

record ('d, 's, 't, 'v, 'e) dispatch_services =
  ds_registry :: "'e \<Rightarrow> ('d, 's, 't) ExtensionRegistry \<times> 'e"
  ds_release :: "ResourceReservationId \<Rightarrow> 'e \<Rightarrow> ('d ResourceError, 'd ResourceReceipt) result \<times> 'e"
  ds_adapters :: "RuntimeKind list"
  ds_adapt :: "RuntimeKind \<Rightarrow> ('d, 's, 't, 'v) RuntimeAdapterRequest \<Rightarrow> 'e \<Rightarrow> (DispatchError, ('d, 'v) RuntimeAdapterResult) result \<times> 'e"
  ds_emit :: "RuntimeEvent \<Rightarrow> 'e \<Rightarrow> (EventError, unit) result \<times> 'e"
  ds_stamp :: "'e \<Rightarrow> stamp \<times> 'e"

definition recorded :: "('a \<Rightarrow> ('d, 's, 't, 'v) DispatchStep list) \<Rightarrow> ('e \<Rightarrow> 'a \<times> 'e)
     \<Rightarrow> ('d, 's, 't, 'v, 'e) dispatch_world \<Rightarrow> 'a \<times> ('d, 's, 't, 'v, 'e) dispatch_world" where
  "recorded note op w = (case op (fst w) of (a, env) \<Rightarrow> (a, (env, snd w @ note a)))"

definition recorded_dispatcher ::
  "('d, 's, 't, 'v, 'e) dispatch_services \<Rightarrow> ('d, 's, 't, 'v, ('d, 's, 't, 'v, 'e) dispatch_world) RuntimeDispatcher" where
  "recorded_dispatcher s =
    with_event_sink (\<lambda>ev. call (recorded (\<lambda>_. [Announced ev]) (ds_emit s ev)))
      (fold (\<lambda>k. with_runtime_adapter k (\<lambda>rq. call (recorded (\<lambda>res. [Adapted k rq res]) (ds_adapt s k rq))))
        (ds_adapters s)
        (RuntimeDispatcher_new (recorded (\<lambda>_. []) (ds_registry s)) (\<lambda>i. recorded (\<lambda>_. [Released i]) (ds_release s i))
          (recorded (\<lambda>_. []) (ds_stamp s))))"

lemma recorded_adapters:
  "rd_runtime_adapters (fold (\<lambda>k. with_runtime_adapter k (f k)) ks rd) = fold (\<lambda>k. hm_insert k (f k)) ks (rd_runtime_adapters rd)"
  by (induction ks arbitrary: rd) (simp_all add: with_runtime_adapter_def)

lemma hm_get_fold_insert:
  "hm_get (fold (\<lambda>k. hm_insert k (f k)) ks m) k = (if k \<in> set ks then Some (f k) else hm_get m k)"
  by (induction ks arbitrary: m) (auto simp: hm_simps)

lemma fold_adapter_fields [simp]:
  "rd_registry (fold (\<lambda>k. with_runtime_adapter k (f k)) ks rd) = rd_registry rd"
  "rd_release (fold (\<lambda>k. with_runtime_adapter k (f k)) ks rd) = rd_release rd"
  "rd_stamp (fold (\<lambda>k. with_runtime_adapter k (f k)) ks rd) = rd_stamp rd"
  by (induction ks arbitrary: rd) (simp_all add: with_runtime_adapter_def)

lemma recorded_services [simp]:
  "rd_registry (recorded_dispatcher s) = recorded (\<lambda>_. []) (ds_registry s)"
  "rd_release (recorded_dispatcher s) = (\<lambda>i. recorded (\<lambda>_. [Released i]) (ds_release s i))"
  "rd_stamp (recorded_dispatcher s) = recorded (\<lambda>_. []) (ds_stamp s)"
  "rd_event_sink (recorded_dispatcher s) = Some (\<lambda>ev. call (recorded (\<lambda>_. [Announced ev]) (ds_emit s ev)))"
  "hm_get (rd_runtime_adapters (recorded_dispatcher s)) k =
     (if k \<in> set (ds_adapters s) then Some (\<lambda>rq. call (recorded (\<lambda>res. [Adapted k rq res]) (ds_adapt s k rq))) else None)"
  by (simp_all add: recorded_dispatcher_def with_event_sink_def RuntimeDispatcher_new_def recorded_adapters hm_get_fold_insert)

section \<open>What one dispatch does\<close>

text \<open>A task, run alone from a journal \<open>J\<close>, appends the steps that \<open>Q\<close> allows for its answer.\<close>

definition appends :: "(('d, 's, 't, 'v, 'e) dispatch_world, 'r) async \<Rightarrow> ('r \<Rightarrow> ('d, 's, 't, 'v) DispatchStep list \<Rightarrow> bool) \<Rightarrow> bool" where
  "appends p Q = (\<forall>env J. \<exists>env' S. snd (finish p (env, J)) = (env', J @ S) \<and> Q (fst (finish p (env, J))) S)"

lemma appends_Ready: "Q r [] \<Longrightarrow> appends (Ready r) Q"
  by (simp add: appends_def)

lemma appends_call: "(\<And>a. Q a (note a)) \<Longrightarrow> appends (call (recorded note op)) Q"
  by (auto simp: appends_def call_def recorded_def split: prod.split)

lemma appends_await:
  assumes "appends p Q" and "\<And>a S. Q a S \<Longrightarrow> appends (f a) (\<lambda>r S'. Q' r (S @ S'))"
  shows "appends (await p f) Q'"
  unfolding appends_def
proof (intro allI)
  fix env J
  obtain env1 S where 1: "snd (finish p (env, J)) = (env1, J @ S)" "Q (fst (finish p (env, J))) S"
    using assms(1) unfolding appends_def by blast
  obtain env2 S' where 2: "snd (finish (f (fst (finish p (env, J)))) (env1, J @ S)) = (env2, (J @ S) @ S')"
    "Q' (fst (finish (f (fst (finish p (env, J)))) (env1, J @ S))) (S @ S')"
    using assms(2) [OF 1(2)] unfolding appends_def by blast
  from 1 2 show "\<exists>env' S. snd (finish (await p f) (env, J)) = (env', J @ S) \<and> Q' (fst (finish (await p f) (env, J))) S"
    by (auto simp: finish_await case_prod_beta)
qed

lemma appends_weaken: "appends p Q \<Longrightarrow> (\<And>r S. Q r S \<Longrightarrow> Q' r S) \<Longrightarrow> appends p Q'"
  unfolding appends_def by blast

lemma appends_try:
  assumes "appends p (\<lambda>r S. r = Ok a \<and> Q S)" and "\<And>S. Q S \<Longrightarrow> appends (f a) (\<lambda>r S'. Q' r (S @ S'))"
  shows "appends (try_await p f) Q'"
  unfolding try_await_def by (rule appends_await [OF assms(1)]) (use assms(2) in auto)

lemma appends_emit: "appends (emit_event (recorded_dispatcher s) mk) (\<lambda>r S. r = Ok () \<and> (\<exists>st. S = [Announced (mk st)]))"
  unfolding emit_event_def
  by (rule appends_await [where Q = "\<lambda>_ S. S = []"]) (auto intro!: appends_call appends_await [where Q = "\<lambda>_ S. S = [Announced ev]" for ev] appends_Ready)

abbreviation requested_event :: "('d, 'v) CapabilityDispatchRequest \<Rightarrow> stamp \<Rightarrow> RuntimeEvent" where
  "requested_event rq st \<equiv> dispatch_requested st (dq_scope rq) (dq_capability_id rq)"

abbreviation failed_event :: "('d, 'v) CapabilityDispatchRequest \<Rightarrow> stamp \<Rightarrow> ExtensionId option \<Rightarrow> RuntimeKind option \<Rightarrow> DispatchError \<Rightarrow> RuntimeEvent" where
  "failed_event rq st provider runtime e \<equiv> dispatch_failed st (dq_scope rq) (dq_capability_id rq) provider runtime (dispatch_event_kind e)"

definition releases_of :: "('d, 'v) CapabilityDispatchRequest \<Rightarrow> ('d, 's, 't, 'v) DispatchStep list" where
  "releases_of rq = (case dq_resource_reservation rq of None \<Rightarrow> [] | Some r \<Rightarrow> [Released (res_id r)])"

fun refusal :: "DispatchError \<Rightarrow> bool" where
  "refusal (DUnknownCapability _) = True"
| "refusal (DUnknownProvider _ _) = True"
| "refusal (DRuntimeMismatch _ _ _) = True"
| "refusal (DMissingRuntimeBackend _) = True"
| "refusal _ = False"

text \<open>The two ways a dispatch goes after its first event, for a snapshot of the registry.\<close>

inductive dispatch_spec ::
  "('d, 's, 't, 'v, 'e) dispatch_services \<Rightarrow> ('d, 'v) CapabilityDispatchRequest \<Rightarrow> ('d, 's, 't) ExtensionRegistry
     \<Rightarrow> (DispatchError, ('d, 'v) CapabilityDispatchResult) result \<Rightarrow> ('d, 's, 't, 'v) DispatchStep list \<Rightarrow> bool"
  for s rq reg where
  refused: "refusal e \<Longrightarrow>
    get_capability reg (dq_capability_id rq) = None \<or>
    (\<exists>d. get_capability reg (dq_capability_id rq) = Some d \<and> (desc_runtime d \<notin> set (ds_adapters s) \<or>
       (\<forall>p. get_extension reg (desc_provider d) = Some p \<longrightarrow> desc_runtime d \<noteq> manifest_runtime_kind (ep_manifest p)))) \<Longrightarrow>
    dispatch_spec s rq reg (Err e) (Announced (failed_event rq st provider runtime e) # releases_of rq)"
| adapted: "get_capability reg (dq_capability_id rq) = Some d \<Longrightarrow> get_extension reg (desc_provider d) = Some p \<Longrightarrow>
    desc_runtime d = manifest_runtime_kind (ep_manifest p) \<Longrightarrow> desc_runtime d \<in> set (ds_adapters s) \<Longrightarrow>
    a = adapter_request (recorded_dispatcher s) rq p d \<Longrightarrow>
    (case out of
       Inl e \<Rightarrow> res = Err e \<and> ev = failed_event rq st (Some (desc_provider d)) (Some (desc_runtime d)) e
     | Inr x \<Rightarrow> (\<exists>r. res = Ok r \<and> dr_output r = rr_output x \<and> dr_usage r = rr_usage x \<and> dr_receipt r = rr_receipt x
         \<and> dr_capability_id r = dq_capability_id rq \<and> dr_provider r = desc_provider d \<and> dr_runtime r = desc_runtime d)
         \<and> ev = dispatch_succeeded st (dq_scope rq) (dq_capability_id rq) (desc_provider d) (desc_runtime d) (rr_output_bytes x)) \<Longrightarrow>
    dispatch_spec s rq reg res
      [Announced (runtime_selected st0 (dq_scope rq) (dq_capability_id rq) (desc_provider d) (desc_runtime d)),
       Adapted (desc_runtime d) a out, Announced ev]"

lemma appends_failed:
  "appends (failed_dispatch (recorded_dispatcher s) rq provider runtime e)
     (\<lambda>r S. r = Err e \<and> (\<exists>st. S = [Announced (failed_event rq st provider runtime e)]))"
  unfolding failed_dispatch_def emit_dispatch_failure_def
  by (rule appends_try [OF appends_emit], rule appends_Ready) simp

lemma appends_guard_drop: "appends (guard_drop (recorded_dispatcher s) (dq_resource_reservation rq)) (\<lambda>_ S. S = releases_of rq)"
proof (cases "dq_resource_reservation rq")
  case (Some r)
  have "appends (call (recorded (\<lambda>_. [Released (res_id r)]) (ds_release s (res_id r)))) (\<lambda>_ S. S = [Released (res_id r)])"
    by (rule appends_call) simp
  from appends_await [OF this, of "\<lambda>_. Ready ()" "\<lambda>_ S. S = [Released (res_id r)]"] Some show ?thesis
    by (simp add: guard_drop_def releases_of_def appends_Ready)
qed (simp add: guard_drop_def releases_of_def appends_Ready)

lemma appends_refused:
  fixes s :: "('d, 's, 't, 'v, 'e) dispatch_services"
  assumes "refusal e" and "get_capability reg (dq_capability_id rq) = None \<or>
    (\<exists>d. get_capability reg (dq_capability_id rq) = Some d \<and> (desc_runtime d \<notin> set (ds_adapters s) \<or>
       (\<forall>p. get_extension reg (desc_provider d) = Some p \<longrightarrow> desc_runtime d \<noteq> manifest_runtime_kind (ep_manifest p))))"
  shows "appends (guarded (recorded_dispatcher s) (dq_resource_reservation rq) (failed_dispatch (recorded_dispatcher s) rq provider runtime e))
    (dispatch_spec s rq reg)"
  unfolding guarded_def
proof (rule appends_await [OF appends_failed])
  fix r :: "(DispatchError, ('d, 'v) CapabilityDispatchResult) result" and S :: "('d, 's, 't, 'v) DispatchStep list" assume S: "r = Err e \<and> (\<exists>st. S = [Announced (failed_event rq st provider runtime e)])"
  have "appends (await (guard_drop (recorded_dispatcher s) (dq_resource_reservation rq)) (\<lambda>_. Ready r)) (\<lambda>r' S'. r' = r \<and> S' = releases_of rq)"
    by (rule appends_await [OF appends_guard_drop]) (simp add: appends_Ready)
  then show "appends (await (guard_drop (recorded_dispatcher s) (dq_resource_reservation rq)) (\<lambda>_. Ready r))
      (\<lambda>r S'. dispatch_spec s rq reg r (S @ S'))"
    by (rule appends_weaken) (use S dispatch_spec.refused [OF assms] in auto)
qed

lemma appends_after_adapter:
  assumes d: "get_capability reg (dq_capability_id rq) = Some d" "get_extension reg (desc_provider d) = Some p"
    "desc_runtime d = manifest_runtime_kind (ep_manifest p)" "desc_runtime d \<in> set (ds_adapters s)"
  shows "appends (case out of
        Inl e \<Rightarrow> failed_dispatch (recorded_dispatcher s) rq (Some (desc_provider d)) (Some (desc_runtime d)) e
      | Inr x \<Rightarrow> try_await (emit_event (recorded_dispatcher s) (\<lambda>st. dispatch_succeeded st (dq_scope rq) (dq_capability_id rq)
            (desc_provider d) (desc_runtime d) (rr_output_bytes x)))
          (\<lambda>_. Ready (Ok \<lparr>dr_capability_id = dq_capability_id rq, dr_provider = desc_provider d, dr_runtime = desc_runtime d,
            dr_output = rr_output x, dr_display_preview = rr_display_preview x, dr_usage = rr_usage x, dr_receipt = rr_receipt x\<rparr>)))
     (\<lambda>r S'. dispatch_spec s rq reg r
       ([Announced (runtime_selected st0 (dq_scope rq) (dq_capability_id rq) (desc_provider d) (desc_runtime d))]
        @ [Adapted (desc_runtime d) (adapter_request (recorded_dispatcher s) rq p d) out] @ S'))"
proof -
  let ?a = "adapter_request (recorded_dispatcher s) rq p d"
  let ?sel = "Announced (runtime_selected st0 (dq_scope rq) (dq_capability_id rq) (desc_provider d) (desc_runtime d))"
  note spec = dispatch_spec.adapted [OF d refl]
  show ?thesis
  proof (cases out)
    case (Inl e)
    have "dispatch_spec s rq reg (Err e) [?sel, Adapted (desc_runtime d) ?a out,
        Announced (failed_event rq st (Some (desc_provider d)) (Some (desc_runtime d)) e)]" for st
      by (rule spec) (simp add: Inl)
    with Inl show ?thesis by simp (rule appends_weaken [OF appends_failed], auto)
  next
    case (Inr x)
    let ?r = "\<lparr>dr_capability_id = dq_capability_id rq, dr_provider = desc_provider d, dr_runtime = desc_runtime d,
      dr_output = rr_output x, dr_display_preview = rr_display_preview x, dr_usage = rr_usage x, dr_receipt = rr_receipt x\<rparr>"
    have "dispatch_spec s rq reg (Ok ?r) [?sel, Adapted (desc_runtime d) ?a out, Announced
        (dispatch_succeeded st (dq_scope rq) (dq_capability_id rq) (desc_provider d) (desc_runtime d) (rr_output_bytes x))]" for st
      by (rule spec) (simp add: Inr)
    with Inr show ?thesis by simp (rule appends_try [OF appends_emit], rule appends_Ready, auto)
  qed
qed

lemma appends_run_adapter:
  assumes "get_capability reg (dq_capability_id rq) = Some d" "get_extension reg (desc_provider d) = Some p"
    "desc_runtime d = manifest_runtime_kind (ep_manifest p)" "desc_runtime d \<in> set (ds_adapters s)"
  shows "appends (run_adapter (recorded_dispatcher s) rq p d
      (\<lambda>a. call (recorded (\<lambda>out. [Adapted (desc_runtime d) a out]) (ds_adapt s (desc_runtime d) a)))) (dispatch_spec s rq reg)"
proof -
  have "appends (call (recorded (\<lambda>out. [Adapted k a out]) (ds_adapt s k a))) (\<lambda>out S. S = [Adapted k a out])" for k a
    by (rule appends_call) simp
  note step = appends_await [OF this]
  show ?thesis
    unfolding run_adapter_def
    by (rule appends_try [OF appends_emit], elim exE, hypsubst, rule step, hypsubst, rule appends_after_adapter [OF assms])
qed

lemma appends_select: "appends (select_and_run (recorded_dispatcher s) rq reg) (dispatch_spec s rq reg)"
proof (cases "get_capability reg (dq_capability_id rq)")
  case None
  then show ?thesis by (simp add: select_and_run_def Let_def appends_refused)
next
  case (Some d)
  show ?thesis
  proof (cases "get_extension reg (desc_provider d)")
    case None
    with Some show ?thesis by (simp add: select_and_run_def Let_def appends_refused)
  next
    case p: (Some p)
    show ?thesis using Some p appends_run_adapter [OF Some p, of s]
      by (cases "desc_runtime d = manifest_runtime_kind (ep_manifest p)")
        (simp_all add: select_and_run_def Let_def appends_refused)
  qed
qed

lemma appends_read:
  assumes "\<And>env. appends (f (fst (op env))) Q"
  shows "appends (await (call (recorded (\<lambda>_. []) op)) f) Q"
  unfolding appends_def
proof (intro allI)
  fix env J
  obtain env' S where "snd (finish (f (fst (op env))) (snd (op env), J)) = (env', J @ S)"
    "Q (fst (finish (f (fst (op env))) (snd (op env), J))) S"
    using assms [of env] unfolding appends_def by blast
  then show "\<exists>env' S. snd (finish (await (call (recorded (\<lambda>_. []) op)) f) (env, J)) = (env', J @ S)
      \<and> Q (fst (finish (await (call (recorded (\<lambda>_. []) op)) f) (env, J))) S"
    by (simp add: await_call recorded_def case_prod_beta)
qed

text \<open>The first event, a snapshot that the registry had at some moment, and then what it calls for.\<close>

lemma appends_dispatch:
  fixes s :: "('d, 's, 't, 'v, 'e) dispatch_services"
  shows "appends (dispatch_json (recorded_dispatcher s) rq)
     (\<lambda>res S. \<exists>st env S'. S = Announced (requested_event rq st) # S' \<and> dispatch_spec s rq (fst (ds_registry s env)) res S')"
  unfolding dispatch_json_def
proof (rule appends_try [OF appends_emit])
  fix S :: "('d, 's, 't, 'v) DispatchStep list"
  assume "\<exists>st. S = [Announced (requested_event rq st)]"
  then obtain st where S: "S = [Announced (requested_event rq st)]" ..
  show "appends (await (call (rd_registry (recorded_dispatcher s))) (select_and_run (recorded_dispatcher s) rq))
     (\<lambda>res S'. \<exists>st env S''. S @ S' = Announced (requested_event rq st) # S'' \<and> dispatch_spec s rq (fst (ds_registry s env)) res S'')"
    unfolding recorded_services by (rule appends_read, rule appends_weaken [OF appends_select]) (metis S append_Cons append_Nil)
qed

section \<open>Properties\<close>

fun charged :: "'d ResourceReservation \<Rightarrow> ('d, 's, 't, 'v) DispatchStep \<Rightarrow> bool" where
  "charged r (Released i) = (i = res_id r)"
| "charged r (Adapted k a out) = (ra_resource_reservation a = Some r)"
| "charged r (Announced ev) = False"

fun lawful :: "('d, 'v) CapabilityDispatchRequest \<Rightarrow> ('d, 's, 't, 'v) DispatchStep \<Rightarrow> bool" where
  "lawful rq (Adapted k a out) =
    (k = desc_runtime (ra_descriptor a) \<and> k = manifest_runtime_kind (ep_manifest (ra_package a))
     \<and> ra_capability_id a = dq_capability_id rq \<and> ra_scope a = dq_scope rq \<and> ra_mounts a = dq_mounts rq
     \<and> ra_resource_reservation a = dq_resource_reservation rq)"
| "lawful rq (Released i) = (Some i = map_option res_id (dq_resource_reservation rq))"
| "lawful rq (Announced ev) = True"

definition announced_kinds :: "('d, 's, 't, 'v) DispatchStep list \<Rightarrow> RuntimeEventKind list" where
  "announced_kinds J = List.map_filter (\<lambda>x. case x of Announced ev \<Rightarrow> Some (ev_kind ev) | _ \<Rightarrow> None) J"

lemma event_kinds [simp]:
  "ev_kind (dispatch_requested st scope c) = DispatchRequested"
  "ev_kind (runtime_selected st scope c p k) = RuntimeSelected"
  "ev_kind (dispatch_succeeded st scope c p k n) = DispatchSucceeded"
  "ev_kind (dispatch_failed st scope c p' k' e) = DispatchFailed"
  by (simp_all add: dispatch_requested_def runtime_selected_def dispatch_succeeded_def dispatch_failed_def RuntimeEvent_new_def
      metadata_payload_def)

lemma announced_kinds_simps [simp]:
  "announced_kinds [] = []" "announced_kinds (Announced ev # J) = ev_kind ev # announced_kinds J"
  "announced_kinds (Adapted k a out # J) = announced_kinds J" "announced_kinds (Released i # J) = announced_kinds J"
  by (simp_all add: announced_kinds_def map_filter_simps)

definition accounted_for ::
  "('d, 'v) CapabilityDispatchRequest \<Rightarrow> (DispatchError, ('d, 'v) CapabilityDispatchResult) result \<Rightarrow> ('d, 's, 't, 'v) DispatchStep list \<Rightarrow> bool" where
  "accounted_for rq res J =
    ((case dq_resource_reservation rq of None \<Rightarrow> True | Some r \<Rightarrow> length (filter (charged r) J) = 1)
     \<and> list_all (lawful rq) J
     \<and> (announced_kinds J = (if is_ok res then [RuntimeSelected, DispatchSucceeded] else [RuntimeSelected, DispatchFailed])
        \<or> \<not> is_ok res \<and> announced_kinds J = [DispatchFailed]))"

lemma dispatch_spec_accounted: "dispatch_spec s rq reg res J \<Longrightarrow> accounted_for rq res J"
proof (induction rule: dispatch_spec.induct)
  case (refused e st provider runtime)
  then show ?case by (auto simp: accounted_for_def releases_of_def split: option.splits)
next
  case (adapted d p a out res ev st st0)
  then show ?case
    by (cases out) (auto simp: accounted_for_def adapter_request_def split: option.splits)
qed

text \<open>
  C22: a dispatch settles its reservation and tells one story. Whatever the registry, the adapters and the
  event sink answer, a resource reservation prepared for the call is charged exactly once: handed to
  one adapter, or released to the governor when the call is refused before an adapter runs, never both
  and never twice. An adapter runs only for a capability whose descriptor and whose package have its
  runtime, with the identity, scope and mounts of the request. The events are the request, then
  the refusal alone or the selected runtime followed by success exactly when the call succeeded.
\<close>

theorem dispatch_settles_reservation:
  "case finish (dispatch_json (recorded_dispatcher s) rq) (env, []) of (res, (env', J)) \<Rightarrow>
     (case dq_resource_reservation rq of None \<Rightarrow> True | Some r \<Rightarrow> length (filter (charged r) J) = 1)
     \<and> list_all (lawful rq) J
     \<and> announced_kinds J \<in> (if is_ok res then {[DispatchRequested, RuntimeSelected, DispatchSucceeded]}
         else {[DispatchRequested, DispatchFailed], [DispatchRequested, RuntimeSelected, DispatchFailed]})"
proof -
  obtain res env' J where f: "finish (dispatch_json (recorded_dispatcher s) rq) (env, []) = (res, (env', J))" by (metis prod.exhaust)
  with appends_dispatch [of s rq] obtain st env'' S' where J: "J = Announced (requested_event rq st) # S'"
    and S': "dispatch_spec s rq (fst (ds_registry s env'')) res S'"
    unfolding appends_def by (metis append_Nil fst_conv snd_conv)
  from dispatch_spec_accounted [OF S'] show ?thesis
    unfolding f J by (auto simp: accounted_for_def split: option.splits)
qed

text \<open>
  C23: what is registered is served. While the registry is well formed, a capability it lists and whose
  runtime has an adapter is always handed to that adapter, with the package that declares it: the
  dispatcher's own refusals (unknown provider, runtime mismatch) cannot occur.
\<close>

theorem registered_capability_served:
  assumes reg: "\<And>env. fst (ds_registry s env) = reg" and ok: "registry_ok schema_ref reg"
    and d: "get_capability reg (dq_capability_id rq) = Some d" and k: "desc_runtime d \<in> set (ds_adapters s)"
  shows "\<exists>a out. Adapted (desc_runtime d) a out \<in> set (snd (snd (finish (dispatch_json (recorded_dispatcher s) rq) (env, []))))
    \<and> ra_descriptor a = d \<and> get_extension reg (desc_provider d) = Some (ra_package a) \<and> d \<in> set (ep_capabilities (ra_package a))"
proof -
  obtain res env' J where f: "finish (dispatch_json (recorded_dispatcher s) rq) (env, []) = (res, (env', J))" by (metis prod.exhaust)
  with appends_dispatch [of s rq] obtain st S' where J: "J = Announced (requested_event rq st) # S'" and S': "dispatch_spec s rq reg res S'"
    unfolding appends_def reg by (metis append_Nil fst_conv snd_conv)
  obtain p where p: "get_extension reg (desc_provider d) = Some p" "d \<in> set (ep_capabilities p)"
    "desc_runtime d = manifest_runtime_kind (ep_manifest p)"
    using registry_ok_capability [OF ok, THEN iffD1, OF d] by blast
  from S' show ?thesis unfolding f J
    by (cases rule: dispatch_spec.cases) (use d k p in \<open>auto simp: adapter_request_def\<close>)
qed

definition example_registry :: "(nat, string, unit) ExtensionRegistry" where
  "example_registry = snd (registry_insert id example_package ExtensionRegistry_new)"

definition example_services :: "(nat, string, unit, string, unit) dispatch_services" where
  "example_services =
    \<lparr>ds_registry = Pair example_registry, ds_release = (\<lambda>i env. (Err (UnknownReservation i), env)), ds_adapters = [Wasm],
     ds_adapt = (\<lambda>k a env. (Err (DWasm RGuest None), env)), ds_emit = (\<lambda>ev env. (Ok (), env)), ds_stamp = Pair (0, 0)\<rparr>"

definition example_dispatch :: "(nat, string) CapabilityDispatchRequest" where
  "example_dispatch =
    \<lparr>dq_capability_id = ''github.search'', dq_scope = \<lparr>rs_tenant_id = ''t'', rs_user_id = ''u'', rs_agent_id = None,
       rs_project_id = None, rs_mission_id = None, rs_thread_id = None, rs_invocation_id = 7\<rparr>,
     dq_authenticated_actor_user_id = None,
     dq_estimate = \<lparr>est_usd = None, est_input_tokens = None, est_output_tokens = None, est_wall_clock_ms = None,
       est_output_bytes = None, est_network_egress_bytes = None, est_process_count = None, est_concurrency_slots = None\<rparr>,
     dq_mounts = None, dq_resource_reservation = None, dq_input = ''q''\<rparr>"

theorem registered_capability_served_witness:
  "\<exists>a out. Adapted Wasm a out \<in> set (snd (snd (finish (dispatch_json (recorded_dispatcher example_services) example_dispatch) ((), []))))
    \<and> get_extension example_registry ''github'' = Some (ra_package a)"
proof -
  have ok: "registry_ok id example_registry"
    unfolding example_registry_def by (rule registry_insert_ok [OF registry_ok_new])
  have "map_option (\<lambda>d. (desc_runtime d, desc_provider d)) (get_capability example_registry ''github.search'') = Some (Wasm, ''github'')"
    by code_simp
  then obtain d where d: "get_capability example_registry ''github.search'' = Some d" "desc_runtime d = Wasm" "desc_provider d = ''github''"
    by auto
  have s: "fst (ds_registry example_services env) = example_registry" "ds_adapters example_services = [Wasm]" for env
    by (simp_all add: example_services_def)
  have rq: "dq_capability_id example_dispatch = ''github.search''" by (simp add: example_dispatch_def)
  show ?thesis
    using registered_capability_served [OF s(1) ok, of example_dispatch d "()"] d unfolding rq s(2) by force
qed

end
