(* ===== verification/Fingerprints.thy ===== *)
theory Fingerprints
  imports Host_Api "HOL-Library.Char_ord" "HOL-Library.List_Lexorder"
begin

text \<open>
  The fingerprint of an invocation (\<open>ironclaw_host_api/src/approval.rs\<close>): the canonical form of a JSON
  input, and the digest that ties an approval to one invocation. JSON serialization
  (\<open>serde_json::to_vec\<close>) and SHA-256 are arguments.
\<close>

unbundle bit_operations_syntax

section \<open>Canonical JSON\<close>

text \<open>
  \<open>serde_json::Value\<close>; a number is of type \<open>'n\<close>. The fields of an object are listed in the order of the
  map's iteration, and a map has every key once (\<open>wf_json\<close>).
\<close>

datatype 'n json =
    JNull
  | JBool bool
  | JNumber 'n
  | JString string
  | JArray "'n json list"
  | JObject "(string \<times> 'n json) list"

fun collect :: "('e, 'a) result list \<Rightarrow> ('e, 'a list) result" where
  "collect [] = Ok []"
| "collect (r # rs) = result_bind r (\<lambda>a. result_bind (collect rs) (\<lambda>as. Ok (a # as)))"

definition MAX_CANONICAL_JSON_DEPTH :: nat where
  "MAX_CANONICAL_JSON_DEPTH = 64"

function canonical_json_at_depth :: "'n json \<Rightarrow> nat \<Rightarrow> (HostApiError, 'n json) result" where
  "canonical_json_at_depth v depth =
    (if MAX_CANONICAL_JSON_DEPTH < depth then Err (InvariantViolation ''canonical_json: max depth exceeded'')
     else case v of
       JArray items \<Rightarrow>
         result_bind (collect (map (\<lambda>item. canonical_json_at_depth item (depth + 1)) items)) (\<lambda>cs. Ok (JArray cs))
     | JObject fs \<Rightarrow>
         result_bind (collect (map (\<lambda>(key, x). result_bind (canonical_json_at_depth x (depth + 1)) (\<lambda>c. Ok (key, c)))
             (sort_key fst fs))) (\<lambda>cs. Ok (JObject cs))
     | _ \<Rightarrow> Ok v)"
  by pat_completeness auto

lemma json_field_size: "(k, x) \<in> set fs \<Longrightarrow> size x < Suc (size_list (size_prod (\<lambda>_. 0) size) fs)"
  by (induction fs) auto

lemma json_item_size: "x \<in> set xs \<Longrightarrow> size x < Suc (size_list size xs)"
  by (induction xs) auto

termination canonical_json_at_depth
  by (relation "measure (size \<circ> fst)") (auto simp: json_item_size json_field_size)

declare canonical_json_at_depth.simps [simp del]

definition canonical_json_v1 :: "'n json \<Rightarrow> (HostApiError, 'n json) result" where
  "canonical_json_v1 v = canonical_json_at_depth v 0"

section \<open>Digests\<close>

definition HEX :: string where
  "HEX = ''0123456789abcdef''"

definition to_lower_hex :: "8 word list \<Rightarrow> string" where
  "to_lower_hex bytes = concat (map (\<lambda>b. [HEX ! unat (drop_bit 4 b), HEX ! unat (b AND 0x0f)]) bytes)"

definition sha256_digest_token :: "(8 word list \<Rightarrow> 8 word list) \<Rightarrow> 8 word list \<Rightarrow> string" where
  "sha256_digest_token sha256 bytes = ''sha256:'' @ to_lower_hex (sha256 bytes)"

record ('d, 'n) Payload =
  py_version :: nat
  py_kind :: string
  py_scope :: ResourceScope
  py_capability :: CapabilityId
  py_estimate :: "'d ResourceEstimate"
  py_input :: "'n json"

definition for_action ::
  "(('d, 'n) Payload \<Rightarrow> (string, 8 word list) result) \<Rightarrow> (8 word list \<Rightarrow> 8 word list) \<Rightarrow> string \<Rightarrow> ResourceScope \<Rightarrow> CapabilityId
     \<Rightarrow> 'd ResourceEstimate \<Rightarrow> 'n json \<Rightarrow> (HostApiError, InvocationFingerprint) result" where
  "for_action to_vec sha256 kind scope capability estimate input =
    result_bind (canonical_json_v1 input) (\<lambda>canonical_input.
      case to_vec \<lparr>py_version = 1, py_kind = kind, py_scope = scope, py_capability = capability,
          py_estimate = estimate, py_input = canonical_input\<rparr> of
        Inl text \<Rightarrow> Err (InvariantViolation text)
      | Inr bytes \<Rightarrow> Ok (sha256_digest_token sha256 bytes))"

definition for_dispatch ::
  "(('d, 'n) Payload \<Rightarrow> (string, 8 word list) result) \<Rightarrow> (8 word list \<Rightarrow> 8 word list) \<Rightarrow> ResourceScope \<Rightarrow> CapabilityId
     \<Rightarrow> 'd ResourceEstimate \<Rightarrow> 'n json \<Rightarrow> (HostApiError, InvocationFingerprint) result" where
  "for_dispatch to_vec sha256 = for_action to_vec sha256 ''dispatch''"

definition for_spawn ::
  "(('d, 'n) Payload \<Rightarrow> (string, 8 word list) result) \<Rightarrow> (8 word list \<Rightarrow> 8 word list) \<Rightarrow> ResourceScope \<Rightarrow> CapabilityId
     \<Rightarrow> 'd ResourceEstimate \<Rightarrow> 'n json \<Rightarrow> (HostApiError, InvocationFingerprint) result" where
  "for_spawn to_vec sha256 = for_action to_vec sha256 ''spawn_capability''"

section \<open>Depth\<close>

fun json_depth :: "'n json \<Rightarrow> nat" where
  "json_depth (JArray xs) = fold max (map (\<lambda>x. Suc (json_depth x)) xs) 0"
| "json_depth (JObject fs) = fold max (map (\<lambda>(k, x). Suc (json_depth x)) fs) 0"
| "json_depth _ = 0"

lemma fold_max_le: "fold max xs (b::nat) \<le> n \<longleftrightarrow> b \<le> n \<and> list_all (\<lambda>x. x \<le> n) xs"
  by (induction xs arbitrary: b) auto

lemma add_fold_max_le: "d \<le> n \<Longrightarrow> d + fold max xs 0 \<le> n \<longleftrightarrow> list_all (\<lambda>x. d + x \<le> (n::nat)) xs"
  using fold_max_le [of xs 0 "n - d"] by (auto simp: list_all_iff le_diff_conv2 add.commute)

lemma collect_Inr: "collect rs = Ok as \<longleftrightarrow> list_all2 (\<lambda>r a. r = Ok a) rs as"
  by (induction rs arbitrary: as) (auto simp: result_bind_eq_Inr list_all2_Cons1)

lemma is_ok_collect: "is_ok (collect rs) \<longleftrightarrow> list_all is_ok rs"
  by (induction rs) (auto simp: is_ok_def result_bind_def split: sum.splits)

lemma is_ok_bind_Ok: "is_ok (result_bind r (\<lambda>a. Ok (f a))) \<longleftrightarrow> is_ok r"
  by (cases r) auto

text \<open>Canonicalization fails exactly on values nested deeper than the limit.\<close>

lemma canonical_ok_iff: "is_ok (canonical_json_at_depth v depth) \<longleftrightarrow> depth + json_depth v \<le> MAX_CANONICAL_JSON_DEPTH"
proof (induction v depth rule: canonical_json_at_depth.induct)
  case (1 v depth)
  show ?case
  proof (cases "MAX_CANONICAL_JSON_DEPTH < depth")
    case True
    then show ?thesis by (simp add: canonical_json_at_depth.simps)
  next
    case False
    note IH = "1.IH" [OF False]
    show ?thesis
    proof (cases v)
      case (JArray xs)
      with False IH(1) [OF JArray] show ?thesis
        by (subst canonical_json_at_depth.simps)
          (auto simp: is_ok_collect is_ok_bind_Ok list_all_iff add_fold_max_le not_less)
    next
      case (JObject fs)
      with False IH(2) [OF JObject] show ?thesis
        by (subst canonical_json_at_depth.simps)
          (auto simp: is_ok_collect is_ok_bind_Ok list_all_iff add_fold_max_le not_less)
    qed (use False in \<open>simp_all add: canonical_json_at_depth.simps\<close>)
  qed
qed

section \<open>The canonical form\<close>

fun norm_json :: "'n json \<Rightarrow> 'n json" where
  "norm_json (JArray xs) = JArray (map norm_json xs)"
| "norm_json (JObject fs) = JObject (sort_key fst (map (\<lambda>(k, x). (k, norm_json x)) fs))"
| "norm_json v = v"

lemma map_insort_fst: "map (\<lambda>(k, x). (k, f x)) (insort_key fst p xs) = insort_key fst (fst p, f (snd p)) (map (\<lambda>(k, x). (k, f x)) xs)"
  by (cases p, induction xs) auto

lemma map_sort_fst: "map (\<lambda>(k, x). (k, f x)) (sort_key fst xs) = sort_key fst (map (\<lambda>(k, x). (k, f x)) xs)"
  by (induction xs) (auto simp: map_insort_fst)

lemma collect_map_Ok: "(\<And>x. x \<in> set xs \<Longrightarrow> g x = Ok (f x)) \<Longrightarrow> collect (map g xs) = Ok (map f xs)"
  by (induction xs) auto

lemma canonical_norm:
  "depth + json_depth v \<le> MAX_CANONICAL_JSON_DEPTH \<Longrightarrow> canonical_json_at_depth v depth = Ok (norm_json v)"
proof (induction v depth rule: canonical_json_at_depth.induct)
  case (1 v depth)
  then have d: "\<not> MAX_CANONICAL_JSON_DEPTH < depth" by simp
  note IH = "1.IH" [OF d]
  show ?case
  proof (cases v)
    case (JArray xs)
    have "collect (map (\<lambda>x. canonical_json_at_depth x (depth + 1)) xs) = Ok (map norm_json xs)"
      using IH(1) [OF JArray] "1.prems" d by (intro collect_map_Ok) (auto simp: JArray add_fold_max_le list_all_iff)
    with JArray d show ?thesis by (subst canonical_json_at_depth.simps) simp
  next
    case (JObject fs)
    have "collect (map (\<lambda>(key, x). result_bind (canonical_json_at_depth x (depth + 1)) (\<lambda>c. Ok (key, c))) (sort_key fst fs))
        = Ok (map (\<lambda>(k, x). (k, norm_json x)) (sort_key fst fs))"
    proof (rule collect_map_Ok, clarify)
      fix k x assume kx: "(k, x) \<in> set (sort_key fst fs)"
      then have "Suc depth + json_depth x \<le> MAX_CANONICAL_JSON_DEPTH"
        using "1.prems" d by (force simp: JObject add_fold_max_le list_all_iff)
      then show "result_bind (canonical_json_at_depth x (depth + 1)) (\<lambda>c. Ok (k, c)) = Ok (k, norm_json x)"
        using IH(2) [OF JObject kx refl] by simp
    qed
    with JObject d show ?thesis by (subst canonical_json_at_depth.simps) (simp add: map_sort_fst)
  qed (use d in \<open>simp_all add: canonical_json_at_depth.simps\<close>)
qed

text \<open>What the code answers, in one equation.\<close>

lemma canonical_json_v1_eq:
  "canonical_json_v1 v = Ok c \<longleftrightarrow> json_depth v \<le> MAX_CANONICAL_JSON_DEPTH \<and> c = norm_json v"
  using canonical_norm [of 0 v] canonical_ok_iff [of v 0] by (auto simp: canonical_json_v1_def)

section \<open>Equality of JSON values\<close>

fun wf_json :: "'n json \<Rightarrow> bool" where
  "wf_json (JArray xs) = list_all wf_json xs"
| "wf_json (JObject fs) = (distinct (map fst fs) \<and> list_all (\<lambda>(k, x). wf_json x) fs)"
| "wf_json _ = True"

text \<open>The equality of \<open>serde_json\<close>: arrays by position, objects by key whatever the order of the fields.\<close>

function json_eq :: "'n json \<Rightarrow> 'n json \<Rightarrow> bool" where
  "json_eq v w =
    (case (v, w) of
       (JArray xs, JArray ys) \<Rightarrow> length xs = length ys \<and> list_all (\<lambda>(x, y). json_eq x y) (zip xs ys)
     | (JObject fs, JObject gs) \<Rightarrow> length fs = length gs
         \<and> list_all (\<lambda>(k, x). case map_of gs k of None \<Rightarrow> False | Some y \<Rightarrow> json_eq x y) fs
     | _ \<Rightarrow> v = w)"
  by pat_completeness auto

termination json_eq
  by (relation "measure (size \<circ> fst)") (auto simp: json_item_size json_field_size dest: set_zip_leftD)

declare json_eq.simps [simp del]

lemma assoc_set_eq:
  assumes "distinct (map fst A)" and "distinct (map fst B)"
  shows "set A = set B \<longleftrightarrow> length A = length B \<and> list_all (\<lambda>(k, x). map_of B k = Some x) A"
proof -
  have d: "distinct A" "distinct B" using assms by (simp_all add: distinct_map)
  show ?thesis
proof
  assume eq: "set A = set B"
  then have "length A = length B" using d by (metis distinct_card)
  with eq assms show "length A = length B \<and> list_all (\<lambda>(k, x). map_of B k = Some x) A"
    by (auto simp: list_all_iff)
next
  assume "length A = length B \<and> list_all (\<lambda>(k, x). map_of B k = Some x) A"
  then have "set A \<subseteq> set B" "card (set A) = card (set B)"
    using assms by (auto simp: list_all_iff distinct_card d dest: map_of_SomeD)
  then show "set A = set B" by (simp add: card_subset_eq)
qed
qed

lemma sort_fst_eq_iff:
  assumes "distinct (map fst A)" and "distinct (map fst B)"
  shows "sort_key fst A = sort_key fst B \<longleftrightarrow> set A = set B"
proof
  assume eq: "set A = set B"
  have "inj_on fst (set A)" using assms(1) by (simp add: distinct_map)
  then show "sort_key fst A = sort_key fst B"
    using eq assms by (intro map_sorted_distinct_set_unique [of fst]) (simp_all add: distinct_map)
qed (metis set_sort)

lemma json_eq_simps:
  "json_eq (JArray xs) (JArray ys) \<longleftrightarrow> length xs = length ys \<and> list_all (\<lambda>(x, y). json_eq x y) (zip xs ys)"
  "json_eq (JObject fs) (JObject gs) \<longleftrightarrow> length fs = length gs
     \<and> list_all (\<lambda>(k, x). case map_of gs k of None \<Rightarrow> False | Some y \<Rightarrow> json_eq x y) fs"
  by (subst json_eq.simps, simp)+

lemma norm_json_eq: "wf_json v \<Longrightarrow> wf_json w \<Longrightarrow> norm_json v = norm_json w \<longleftrightarrow> json_eq v w"
proof (induction v w rule: json_eq.induct)
  case (1 v w)
  show ?case
  proof (cases "(\<exists>xs ys. v = JArray xs \<and> w = JArray ys) \<or> (\<exists>fs gs. v = JObject fs \<and> w = JObject gs)")
    case False
    then have "json_eq v w \<longleftrightarrow> v = w" by (subst json_eq.simps) (auto split: json.split)
    moreover have "norm_json v = norm_json w \<longleftrightarrow> v = w" using False by (cases v; cases w) auto
    ultimately show ?thesis by simp
  next
    case True
    then show ?thesis
    proof (elim disjE exE conjE)
      fix xs ys assume v: "v = JArray xs" and w: "w = JArray ys"
      have "norm_json x = norm_json y \<longleftrightarrow> json_eq x y" if "(x, y) \<in> set (zip xs ys)" for x y
      proof -
        have "wf_json x" "wf_json y"
          using "1.prems" that v w by (auto simp: list_all_iff dest: set_zip_leftD set_zip_rightD)
        then show ?thesis using "1.IH"(1) that v w by blast
      qed
      then have "norm_json (xs ! i) = norm_json (ys ! i) \<longleftrightarrow> json_eq (xs ! i) (ys ! i)"
        if "i < length xs" "length xs = length ys" for i using that by (metis in_set_zip fst_conv snd_conv)
      then show ?thesis
        by (auto simp: v w json_eq_simps list_eq_iff_nth_eq list_all_length)
    next
      fix fs gs assume v: "v = JObject fs" and w: "w = JObject gs"
      let ?n = "map (\<lambda>(k, x). (k, norm_json x))"
      have keys: "map fst (?n hs) = map fst hs" for hs :: "(string \<times> 'a json) list" by (induction hs) auto
      have wf: "distinct (map fst fs)" "distinct (map fst gs)" using "1.prems" v w by simp_all
      have look: "map_of (?n gs) k = map_option norm_json (map_of gs k)" for k
        by (induction gs) auto
      have IH: "norm_json x = norm_json y \<longleftrightarrow> json_eq x y" if "(k, x) \<in> set fs" "map_of gs k = Some y" for k x y
        using 1 that v w map_of_SomeD [OF that(2)] by (force simp: list_all_iff)
      have "norm_json v = norm_json w \<longleftrightarrow> set (?n fs) = set (?n gs)"
        using sort_fst_eq_iff [of "?n fs" "?n gs", unfolded keys, OF wf] by (simp add: v w)
      also have "\<dots> \<longleftrightarrow> length fs = length gs \<and> (\<forall>(k, x) \<in> set fs. map_option norm_json (map_of gs k) = Some (norm_json x))"
        unfolding assoc_set_eq [of "?n fs" "?n gs", unfolded keys, OF wf] look
        by (simp add: list_all_iff case_prod_beta)
      also have "\<dots> \<longleftrightarrow> json_eq v w"
        unfolding v w json_eq_simps list_all_iff using IH by (fastforce split: option.splits)
      finally show ?thesis .
    qed
  qed
qed

section \<open>The token of a digest\<close>

lemma unat_high_nibble: "unat (drop_bit 4 x) = unat x div 16" for x :: "8 word"
  by (simp add: drop_bit_eq_div unat_div)

lemma unat_low_nibble: "unat (x AND 0x0f) = unat x mod 16" for x :: "8 word"
proof -
  have "x AND 0x0f = take_bit 4 x" by (simp add: take_bit_eq_mask mask_numeral)
  then show ?thesis by (simp add: take_bit_eq_mod unat_mod)
qed

lemma hex_byte_inj:
  assumes "HEX ! unat (drop_bit 4 b) = HEX ! unat (drop_bit 4 c)" and "HEX ! unat (b AND 0x0f) = HEX ! unat (c AND 0x0f)"
  shows "b = (c :: 8 word)"
proof -
  have d: "distinct HEX" "length HEX = 16" by (simp_all add: HEX_def)
  have n: "unat x < 256" for x :: "8 word" using unsigned_less [of x] by (simp add: unsigned_of_nat)
  have "unat b div 16 < 16" "unat c div 16 < 16" using n [of b] n [of c] by simp_all
  then have "unat b div 16 = unat c div 16"
    using assms(1) d by (simp add: unat_high_nibble nth_eq_iff_index_eq)
  moreover have "unat b mod 16 = unat c mod 16"
    using assms(2) d by (simp add: unat_low_nibble nth_eq_iff_index_eq)
  ultimately have "unat b = unat c" by (metis div_mult_mod_eq)
  then show ?thesis by (simp add: word_unat_eq_iff)
qed

lemma to_lower_hex_inj: "to_lower_hex bs = to_lower_hex cs \<Longrightarrow> bs = cs"
proof (induction bs arbitrary: cs)
  case Nil
  then show ?case by (cases cs) (simp_all add: to_lower_hex_def)
next
  case (Cons b bs)
  then show ?case by (cases cs) (auto simp: to_lower_hex_def dest: hex_byte_inj)
qed

section \<open>Properties\<close>

lemma fold_max_set: "set xs = set ys \<Longrightarrow> fold max xs (0::nat) = fold max ys 0"
  by (intro antisym) (simp_all add: fold_max_le list_all_iff fold_max_le [THEN iffD1, OF order_refl, THEN conjunct2, unfolded list_all_iff])

lemma norm_json_norm: "norm_json (norm_json v) = norm_json v"
proof (induction v rule: norm_json.induct)
  case (2 fs)
  then have "map (\<lambda>(k, x). (k, norm_json x)) (map (\<lambda>(k, x). (k, norm_json x)) fs) = map (\<lambda>(k, x). (k, norm_json x)) fs" by auto
  then show ?case by (simp add: map_sort_fst sort_key_id_if_sorted del: map_map)
qed simp_all

lemma json_depth_norm: "json_depth (norm_json v) = json_depth v"
proof (induction v rule: norm_json.induct)
  case (2 fs)
  let ?d = "\<lambda>(k, x). Suc (json_depth x)" and ?n = "\<lambda>(k, x). (k, norm_json x)"
  have "?d ` ?n ` set fs = ?d ` set fs" unfolding image_image using 2 by (intro image_cong) auto
  then have "fold max (map ?d (sort_key fst (map ?n fs))) 0 = fold max (map ?d fs) 0"
    by (intro fold_max_set) (simp only: set_map set_sort)
  then show ?case by simp
qed (simp_all add: comp_def cong: map_cong)

text \<open>
  The canonical form decides equality of JSON inputs. Canonicalization succeeds exactly up to 64
  levels of nesting; two values with distinct keys have the same canonical form exactly when they are
  equal as JSON, objects compared by key whatever the order of their fields; and a canonical form is
  its own canonical form.
\<close>

theorem canonical_json_exact:
  assumes "wf_json v" and "wf_json w" and "json_depth v \<le> 64" and "json_depth w \<le> 64"
  shows "(is_ok (canonical_json_v1 u) \<longleftrightarrow> json_depth u \<le> 64)
    \<and> (canonical_json_v1 v = canonical_json_v1 w \<longleftrightarrow> json_eq v w)
    \<and> (\<exists>c. canonical_json_v1 v = Ok c \<and> canonical_json_v1 c = Ok c)"
proof -
  have "canonical_json_v1 x = Ok (norm_json x)" if "json_depth x \<le> 64" for x :: "'a json"
    using that canonical_json_v1_eq [of x "norm_json x"] by (simp add: MAX_CANONICAL_JSON_DEPTH_def)
  with assms show ?thesis
    using norm_json_eq [OF assms(1,2)] canonical_ok_iff [of u 0]
    by (auto simp: canonical_json_v1_def [of u] MAX_CANONICAL_JSON_DEPTH_def json_depth_norm norm_json_norm)
qed

definition reordered_inputs :: "int json \<times> int json" where
  "reordered_inputs = (JObject [(''path'', JString ''a''), (''lines'', JArray [JNumber 1, JNumber 2])],
     JObject [(''lines'', JArray [JNumber 1, JNumber 2]), (''path'', JString ''a'')])"

theorem canonical_json_exact_witness:
  "canonical_json_v1 (fst reordered_inputs) = canonical_json_v1 (snd reordered_inputs) \<and> fst reordered_inputs \<noteq> snd reordered_inputs"
proof -
  have wf: "wf_json (fst reordered_inputs)" "wf_json (snd reordered_inputs)"
    "json_depth (fst reordered_inputs) \<le> 64" "json_depth (snd reordered_inputs) \<le> 64"
    "json_eq (fst reordered_inputs) (snd reordered_inputs)" "fst reordered_inputs \<noteq> snd reordered_inputs" by code_simp+
  with canonical_json_exact [OF wf(1-4), of "fst reordered_inputs"] show ?thesis by simp
qed

text \<open>The payload an invocation is fingerprinted by.\<close>

definition invocation_payload where
  "invocation_payload k s c e v =
    \<lparr>py_version = 1, py_kind = k, py_scope = s, py_capability = c, py_estimate = e, py_input = norm_json v\<rparr>"

lemma for_action_eq_Ok:
  assumes "for_action to_vec sha256 k s c e v = Ok fp"
  obtains bytes where "to_vec (invocation_payload k s c e v) = Ok bytes" and "fp = sha256_digest_token sha256 bytes"
  using assms that
  by (auto simp: for_action_def invocation_payload_def result_bind_eq_Inr canonical_json_v1_eq split: sum.splits)

text \<open>
  C3: a fingerprint binds an approval to one invocation. If serialization is faithful (distinct payloads
  have distinct bytes), two invocations get the same fingerprint only if they have the same action kind,
  scope, capability, estimate and, as JSON, the same input, or else the bytes of their two payloads are a
  collision of SHA-256; and invocations that agree in all of these do get the same fingerprint.
\<close>

theorem fingerprint_binds_invocation:
  assumes "\<And>p q bytes. to_vec p = Ok bytes \<Longrightarrow> to_vec q = Ok bytes \<Longrightarrow> p = q" and "wf_json v1" and "wf_json v2"
    and f1: "for_action to_vec sha256 k1 s1 c1 e1 v1 = Ok fp1" and f2: "for_action to_vec sha256 k2 s2 c2 e2 v2 = Ok fp2"
  shows "(fp1 = fp2 \<longrightarrow> (k1, s1, c1, e1) = (k2, s2, c2, e2) \<and> json_eq v1 v2
        \<or> (\<exists>x y. to_vec (invocation_payload k1 s1 c1 e1 v1) = Ok x \<and> to_vec (invocation_payload k2 s2 c2 e2 v2) = Ok y
             \<and> x \<noteq> y \<and> sha256 x = sha256 y))
    \<and> ((k1, s1, c1, e1) = (k2, s2, c2, e2) \<and> json_eq v1 v2 \<longrightarrow> fp1 = fp2)"
proof -
  obtain b1 where b1: "to_vec (invocation_payload k1 s1 c1 e1 v1) = Ok b1" "fp1 = sha256_digest_token sha256 b1"
    using f1 by (rule for_action_eq_Ok)
  obtain b2 where b2: "to_vec (invocation_payload k2 s2 c2 e2 v2) = Ok b2" "fp2 = sha256_digest_token sha256 b2"
    using f2 by (rule for_action_eq_Ok)
  have same: "(k1, s1, c1, e1) = (k2, s2, c2, e2) \<and> json_eq v1 v2" if "b1 = b2"
  proof -
    have "invocation_payload k1 s1 c1 e1 v1 = invocation_payload k2 s2 c2 e2 v2"
      using assms(1) b1(1) b2(1) that by blast
    then show ?thesis using norm_json_eq [OF assms(2,3)] by (simp add: invocation_payload_def)
  qed
  have digest: "sha256 b1 = sha256 b2" if "fp1 = fp2"
    using that by (simp add: b1(2) b2(2) sha256_digest_token_def to_lower_hex_inj)
  have agree: "fp1 = fp2" if "(k1, s1, c1, e1) = (k2, s2, c2, e2) \<and> json_eq v1 v2"
  proof -
    have "invocation_payload k1 s1 c1 e1 v1 = invocation_payload k2 s2 c2 e2 v2"
      using that norm_json_eq [OF assms(2,3)] by (simp add: invocation_payload_def)
    then show ?thesis using b1 b2 by simp
  qed
  from same digest agree b1(1) b2(1) show ?thesis by blast
qed

definition write_scope :: ResourceScope where
  "write_scope = \<lparr>rs_tenant_id = ''t'', rs_user_id = ''u'', rs_agent_id = None, rs_project_id = None,
     rs_mission_id = None, rs_thread_id = None, rs_invocation_id = 1\<rparr>"

definition no_estimate :: "int ResourceEstimate" where
  "no_estimate = \<lparr>est_usd = None, est_input_tokens = None, est_output_tokens = None, est_wall_clock_ms = None,
     est_output_bytes = None, est_network_egress_bytes = None, est_process_count = None, est_concurrency_slots = None\<rparr>"

text \<open>A serializer that writes one payload and refuses every other, with the digest that keeps its bytes.\<close>

definition one_payload :: "(int, int) Payload \<Rightarrow> (string, 8 word list) result" where
  "one_payload p = (if p = invocation_payload ''dispatch'' write_scope ''fs.write'' no_estimate (fst reordered_inputs)
     then Ok [1] else Err ''refused'')"

theorem fingerprint_binds_invocation_witness:
  "for_action one_payload (\<lambda>b. b) ''dispatch'' write_scope ''fs.write'' no_estimate (fst reordered_inputs) = Ok ''sha256:01''
   \<and> for_action one_payload (\<lambda>b. b) ''dispatch'' write_scope ''fs.write'' no_estimate (snd reordered_inputs) = Ok ''sha256:01''"
proof -
  have wf: "wf_json (fst reordered_inputs)" "wf_json (snd reordered_inputs)"
    "json_eq (fst reordered_inputs) (snd reordered_inputs)"
    and first: "for_action one_payload (\<lambda>b. b) ''dispatch'' write_scope ''fs.write'' no_estimate (fst reordered_inputs) = Ok ''sha256:01''"
    and deep: "is_ok (for_action one_payload (\<lambda>b. b) ''dispatch'' write_scope ''fs.write'' no_estimate (snd reordered_inputs))"
    by code_simp+
  from deep obtain fp where second:
    "for_action one_payload (\<lambda>b. b) ''dispatch'' write_scope ''fs.write'' no_estimate (snd reordered_inputs) = Ok fp"
    by (auto simp: is_ok_def split: sum.splits)
  have "one_payload p = Ok bytes \<Longrightarrow> one_payload q = Ok bytes \<Longrightarrow> p = q" for p q bytes
    by (simp add: one_payload_def split: if_splits)
  from fingerprint_binds_invocation [OF this wf(1,2) first second] wf(3) first second show ?thesis by simp
qed

end
