(* ===== verification/Host_Contracts.thy ===== *)
theory Host_Contracts
  imports Extensions "HOL-Library.Char_ord" "HOL-Library.List_Lexorder" "HOL-Library.Multiset"
begin

text \<open>
  Host-defined contract vocabulary: dotted identifiers (\<open>ironclaw_host_api/src/dotted_id.rs\<close>), host ports
  with their catalog and scoped views (\<open>host_port.rs\<close>), capability profile contracts
  (\<open>capability_profile.rs\<close>), and the conformance of an extension's claim to a contract
  (\<open>ironclaw_capabilities/src/conformance.rs\<close>). Strings are compared by bytes, as Rust's \<open>Ord\<close> does.
  The identifiers accepted are exactly those of the dotted grammar; catalogs and views built by sorting
  and searched by halving are exactly the sets of ports they were built from; and a claim conforms
  exactly when it names the contract's profile and its operations with their schemas.
\<close>

section \<open>Dotted identifiers\<close>

datatype VersionRule = Versioned | Unversioned

datatype PrefixRule = AnyPrefix | RequiredPrefix string

definition valid_segment_char :: "char \<Rightarrow> bool" where
  "valid_segment_char b = (Paths.is_ascii_lowercase b \<or> Paths.is_ascii_digit b \<or> b = CHR ''_'' \<or> b = CHR ''-'')"

fun validate_dotted_segments :: "string \<Rightarrow> string \<Rightarrow> string list \<Rightarrow> (HostApiError, unit) result" where
  "validate_dotted_segments kind value [] = Ok ()"
| "validate_dotted_segments kind value (segment # segments) =
    (if segment = [] then Err (InvalidId kind value ''empty dot segments are not allowed'')
     else if \<not> Paths.is_ascii_lowercase (hd segment) then
       Err (InvalidId kind value ''segments must start with a lowercase ASCII letter'')
     else if list_ex (\<lambda>b. \<not> valid_segment_char b) segment then
       Err (InvalidId kind value ''only lowercase ASCII letters, digits, '_', '-', and '.' are allowed'')
     else validate_dotted_segments kind value segments)"

definition validate_version :: "string \<Rightarrow> string \<Rightarrow> string \<Rightarrow> (HostApiError, unit) result" where
  "validate_version kind value version =
    (case strip_prefix ''v'' version of
       None \<Rightarrow> Err (InvalidId kind value ''last segment must be a version like v1'')
     | Some rest \<Rightarrow>
         if rest = [] \<or> list_ex (\<lambda>b. \<not> Paths.is_ascii_digit b) rest
         then Err (InvalidId kind value ''last segment must be a version like v1'')
         else Ok ())"

definition validate_dotted_tail ::
  "string \<Rightarrow> string \<Rightarrow> nat \<Rightarrow> string \<Rightarrow> VersionRule \<Rightarrow> (HostApiError, unit) result" where
  "validate_dotted_tail kind value min_segments min_segments_reason version =
    (let segments = split_on (CHR ''.'') value in
     if length segments < min_segments then Err (InvalidId kind value min_segments_reason)
     else result_bind (validate_dotted_segments kind value segments) (\<lambda>_.
       case version of
         Versioned \<Rightarrow> validate_version kind value (last segments)
       | Unversioned \<Rightarrow> Ok ()))"

definition validate_dotted_id ::
  "string \<Rightarrow> string \<Rightarrow> nat \<Rightarrow> string \<Rightarrow> PrefixRule \<Rightarrow> VersionRule \<Rightarrow> (HostApiError, unit) result" where
  "validate_dotted_id kind value min_segments min_segments_reason pre version =
    (if value = [] then Err (InvalidId kind value ''must not be empty'')
     else if 128 < length value then Err (InvalidId kind value ''must be at most 128 bytes'')
     else case pre of
       RequiredPrefix required_prefix \<Rightarrow>
         if \<not> prefix required_prefix value
         then Err (InvalidId kind value (''must start with '' @ [CHR 0x27] @ required_prefix @ [CHR 0x27]))
         else validate_dotted_tail kind value min_segments min_segments_reason version
     | AnyPrefix \<Rightarrow> validate_dotted_tail kind value min_segments min_segments_reason version)"

section \<open>Host ports\<close>

definition HOST_RUNTIME_HTTP_EGRESS_PORT_ID :: string where
  "HOST_RUNTIME_HTTP_EGRESS_PORT_ID = ''host.runtime.http_egress''"

definition validate_dotted_host_port_id :: "string \<Rightarrow> (HostApiError, unit) result" where
  "validate_dotted_host_port_id value =
    validate_dotted_id ''host_port'' value 3 ''must have at least host, domain, and service segments''
      (RequiredPrefix ''host.'') Unversioned"

definition HostPortId_new :: "string \<Rightarrow> (HostApiError, HostPortId) result" where
  "HostPortId_new value = result_bind (validate_dotted_host_port_id value) (\<lambda>_. Ok value)"

record HostPortGrant =
  hpg_id :: HostPortId

record HostPortCatalogEntry =
  hpe_id :: HostPortId

record HostPortCatalog =
  hpc_entries :: "HostPortCatalogEntry list"

record HostPortView =
  hpv_grants :: "HostPortGrant list"

text \<open>The loop over \<open>windows(2)\<close>: the first key that equals its successor.\<close>

fun first_repeat :: "string list \<Rightarrow> string option" where
  "first_repeat (a # b # ks) = (if a = b then Some a else first_repeat (b # ks))"
| "first_repeat _ = None"

text \<open>\<open>slice::binary_search_by\<close> of the standard library: halve the range, then compare once.\<close>

function bisect :: "string list \<Rightarrow> string \<Rightarrow> nat \<Rightarrow> nat \<Rightarrow> nat" where
  "bisect ks k base len =
    (if len \<le> 1 then base
     else let half = len div 2; mid = base + half in bisect ks k (if k < ks ! mid then base else mid) (len - half))"
  by pat_completeness auto

termination bisect
  by (relation "measure (\<lambda>(ks, k, base, len). len)") auto

declare bisect.simps [simp del]

definition binary_search :: "string list \<Rightarrow> string \<Rightarrow> bool" where
  "binary_search ks k = (ks \<noteq> [] \<and> ks ! bisect ks k 0 (length ks) = k)"

definition HostPortCatalog_new :: "HostPortCatalogEntry list \<Rightarrow> (HostApiError, HostPortCatalog) result" where
  "HostPortCatalog_new es =
    (let es = sort_key hpe_id es in
     case first_repeat (map hpe_id es) of
       Some k \<Rightarrow> Err (InvariantViolation (''duplicate host port catalog entry '' @ k))
     | None \<Rightarrow> Ok \<lparr>hpc_entries = es\<rparr>)"

definition HostPortCatalog_empty :: HostPortCatalog where
  "HostPortCatalog_empty = \<lparr>hpc_entries = []\<rparr>"

definition catalog_contains :: "HostPortCatalog \<Rightarrow> HostPortId \<Rightarrow> bool" where
  "catalog_contains catalog k = binary_search (map hpe_id (hpc_entries catalog)) k"

fun missing_from :: "HostPortCatalog \<Rightarrow> HostPortId set \<Rightarrow> HostPortId list \<Rightarrow> HostPortId list" where
  "missing_from catalog seen [] = []"
| "missing_from catalog seen (k # ks) =
    (if \<not> catalog_contains catalog k \<and> k \<notin> seen then k # missing_from catalog (insert k seen) ks
     else missing_from catalog seen ks)"

definition missing_required :: "HostPortCatalog \<Rightarrow> HostPortId list \<Rightarrow> HostPortId list" where
  "missing_required catalog required = missing_from catalog {} required"

definition validate_required :: "HostPortCatalog \<Rightarrow> HostPortId list \<Rightarrow> (HostApiError, unit) result" where
  "validate_required catalog required =
    (let missing = missing_required catalog required in
     if missing = [] then Ok ()
     else Err (InvariantViolation (''unknown host ports '' @ join_with '', '' missing)))"

definition HostPortView_new :: "HostPortGrant list \<Rightarrow> (HostApiError, HostPortView) result" where
  "HostPortView_new grants =
    (let grants = sort_key hpg_id grants in
     case first_repeat (map hpg_id grants) of
       Some k \<Rightarrow> Err (InvariantViolation (''duplicate host port grant '' @ k))
     | None \<Rightarrow> Ok \<lparr>hpv_grants = grants\<rparr>)"

definition HostPortView_empty :: HostPortView where
  "HostPortView_empty = \<lparr>hpv_grants = []\<rparr>"

definition view_allows :: "HostPortView \<Rightarrow> HostPortId \<Rightarrow> bool" where
  "view_allows v k = binary_search (map hpg_id (hpv_grants v)) k"

definition view_allows_all :: "HostPortView \<Rightarrow> HostPortId list \<Rightarrow> bool" where
  "view_allows_all v required = list_all (view_allows v) required"

section \<open>Capability profile contracts\<close>

type_synonym CapabilityProfileOperationId = string

definition validate_versioned_dotted_id :: "string \<Rightarrow> string \<Rightarrow> (HostApiError, unit) result" where
  "validate_versioned_dotted_id kind value =
    validate_dotted_id kind value 3 ''must have at least domain, name, and version segments'' AnyPrefix Versioned"

definition CapabilityProfileId_new :: "string \<Rightarrow> (HostApiError, CapabilityProfileId) result" where
  "CapabilityProfileId_new value =
    result_bind (validate_versioned_dotted_id ''capability_profile'' value) (\<lambda>_. Ok value)"

definition CapabilityProfileOperationId_new :: "string \<Rightarrow> (HostApiError, CapabilityProfileOperationId) result" where
  "CapabilityProfileOperationId_new value =
    result_bind (validate_versioned_dotted_id ''capability_profile_operation'' value) (\<lambda>_. Ok value)"

definition validate_schema_ref :: "string \<Rightarrow> (HostApiError, unit) result" where
  "validate_schema_ref value =
    (if value = [] then Err (InvalidPath value ''must not be empty'')
     else if 512 < length value then Err (InvalidPath value ''must be at most 512 bytes'')
     else if prefix ''/'' value then Err (InvalidPath value ''must be relative'')
     else if CHR 0x5C \<in> set value then Err (InvalidPath value ''backslashes are not allowed'')
     else if has_control value then Err (InvalidPath value ''NUL/control characters are not allowed'')
     else if list_ex (\<lambda>ch. \<not> (Paths.is_ascii_alphanumeric ch \<or> ch \<in> set ''._-/'')) value then
       Err (InvalidPath value ''only ASCII alphanumerics, '.', '_', '-', and '/' are allowed'')
     else if list_ex (\<lambda>segment. segment = [] \<or> segment = ''.'' \<or> segment = ''..'') (split_on (CHR ''/'') value) then
       Err (InvalidPath value ''empty and dot path segments are not allowed'')
     else Ok ())"

definition CapabilityProfileSchemaRef_new :: "string \<Rightarrow> (HostApiError, CapabilityProfileSchemaRef) result" where
  "CapabilityProfileSchemaRef_new value = result_bind (validate_schema_ref value) (\<lambda>_. Ok value)"

record CapabilityProfileOperationContract =
  oc_id :: CapabilityProfileOperationId
  oc_input_schema_ref :: CapabilityProfileSchemaRef
  oc_output_schema_ref :: CapabilityProfileSchemaRef

definition CapabilityProfileOperationContract_new ::
  "CapabilityProfileOperationId \<Rightarrow> string \<Rightarrow> string \<Rightarrow> (HostApiError, CapabilityProfileOperationContract) result" where
  "CapabilityProfileOperationContract_new k input_ref output_ref =
    result_bind (CapabilityProfileSchemaRef_new input_ref) (\<lambda>i.
    result_bind (CapabilityProfileSchemaRef_new output_ref) (\<lambda>out.
      Ok \<lparr>oc_id = k, oc_input_schema_ref = i, oc_output_schema_ref = out\<rparr>))"

record CapabilityProfileContract =
  pc_id :: CapabilityProfileId
  pc_required_operations :: "CapabilityProfileOperationContract list"

definition CapabilityProfileContract_new ::
  "CapabilityProfileId \<Rightarrow> CapabilityProfileOperationContract list \<Rightarrow> (HostApiError, CapabilityProfileContract) result" where
  "CapabilityProfileContract_new k required_operations =
    (if required_operations = [] then Err (InvariantViolation ''capability profile must require at least one operation'')
     else let required_operations = sort_key oc_id required_operations in
       case first_repeat (map oc_id required_operations) of
         Some d \<Rightarrow> Err (InvariantViolation (''duplicate capability profile operation '' @ d))
       | None \<Rightarrow> Ok \<lparr>pc_id = k, pc_required_operations = required_operations\<rparr>)"

section \<open>Claims and conformance\<close>

record CapabilityProfileClaimedOperation =
  co_id :: CapabilityProfileOperationId
  co_input_schema_ref :: CapabilityProfileSchemaRef
  co_output_schema_ref :: CapabilityProfileSchemaRef

definition CapabilityProfileClaimedOperation_new ::
  "CapabilityProfileOperationId \<Rightarrow> string \<Rightarrow> string \<Rightarrow> (HostApiError, CapabilityProfileClaimedOperation) result" where
  "CapabilityProfileClaimedOperation_new k input_ref output_ref =
    result_bind (CapabilityProfileSchemaRef_new input_ref) (\<lambda>i.
    result_bind (CapabilityProfileSchemaRef_new output_ref) (\<lambda>out.
      Ok \<lparr>co_id = k, co_input_schema_ref = i, co_output_schema_ref = out\<rparr>))"

record CapabilityProfileClaim =
  cl_capability_id :: CapabilityId
  cl_profile_id :: CapabilityProfileId
  cl_operations :: "CapabilityProfileClaimedOperation list"

fun claimed_twice :: "CapabilityProfileOperationId set \<Rightarrow> CapabilityProfileClaimedOperation list \<Rightarrow> CapabilityProfileOperationId option" where
  "claimed_twice seen [] = None"
| "claimed_twice seen (operation # operations) =
    (if co_id operation \<in> seen then Some (co_id operation)
     else claimed_twice (insert (co_id operation) seen) operations)"

definition CapabilityProfileClaim_new ::
  "CapabilityId \<Rightarrow> CapabilityProfileId \<Rightarrow> CapabilityProfileClaimedOperation list \<Rightarrow> (HostApiError, CapabilityProfileClaim) result" where
  "CapabilityProfileClaim_new capability_id profile_id operations =
    (case claimed_twice {} operations of
       Some k \<Rightarrow> Err (InvariantViolation (''duplicate claimed capability profile operation '' @ k))
     | None \<Rightarrow> Ok \<lparr>cl_capability_id = capability_id, cl_profile_id = profile_id, cl_operations = operations\<rparr>)"

datatype CapabilityProfileConformanceFindingKind =
    ProfileIdMismatch
  | MissingRequiredOperation
  | UnexpectedOperation
  | InputSchemaRefMismatch
  | OutputSchemaRefMismatch

record CapabilityProfileConformanceFinding =
  cf_kind :: CapabilityProfileConformanceFindingKind
  cf_subject :: string

definition CapabilityProfileConformanceFinding_new ::
  "CapabilityProfileConformanceFindingKind \<Rightarrow> string \<Rightarrow> CapabilityProfileConformanceFinding" where
  "CapabilityProfileConformanceFinding_new kind subject = \<lparr>cf_kind = kind, cf_subject = subject\<rparr>"

definition conformance_finding_display :: "CapabilityProfileConformanceFinding \<Rightarrow> string" where
  "conformance_finding_display f =
    (case cf_kind f of
       ProfileIdMismatch \<Rightarrow> ''profile id mismatch''
     | MissingRequiredOperation \<Rightarrow> ''missing required operation''
     | UnexpectedOperation \<Rightarrow> ''unexpected operation''
     | InputSchemaRefMismatch \<Rightarrow> ''input schema ref mismatch''
     | OutputSchemaRefMismatch \<Rightarrow> ''output schema ref mismatch'') @ '': '' @ cf_subject f"

text \<open>\<open>BTreeMap\<close> as the list of its entries in the order of the keys; a later entry replaces an earlier one.\<close>

fun btree_insert :: "'k::linorder \<Rightarrow> 'v \<Rightarrow> ('k \<times> 'v) list \<Rightarrow> ('k \<times> 'v) list" where
  "btree_insert k v [] = [(k, v)]"
| "btree_insert k v ((l, w) # m) =
    (if k < l then (k, v) # (l, w) # m else if k = l then (k, v) # m else (l, w) # btree_insert k v m)"

definition btree_collect :: "('k::linorder \<times> 'v) list \<Rightarrow> ('k \<times> 'v) list" where
  "btree_collect ps = fold (\<lambda>(k, v). btree_insert k v) ps []"

definition operation_findings ::
  "(string \<times> CapabilityProfileClaimedOperation) list \<Rightarrow> string \<times> CapabilityProfileOperationContract \<Rightarrow> CapabilityProfileConformanceFinding list" where
  "operation_findings claimed = (\<lambda>(operation_id, required_operation).
    case map_of claimed operation_id of
      None \<Rightarrow> [CapabilityProfileConformanceFinding_new MissingRequiredOperation operation_id]
    | Some claimed_operation \<Rightarrow>
        (if oc_input_schema_ref required_operation \<noteq> co_input_schema_ref claimed_operation
         then [CapabilityProfileConformanceFinding_new InputSchemaRefMismatch operation_id] else [])
        @ (if oc_output_schema_ref required_operation \<noteq> co_output_schema_ref claimed_operation
           then [CapabilityProfileConformanceFinding_new OutputSchemaRefMismatch operation_id] else []))"

record CapabilityProfileConformanceReport =
  cr_findings :: "CapabilityProfileConformanceFinding list"

definition report_evaluate :: "CapabilityProfileContract \<Rightarrow> CapabilityProfileClaim \<Rightarrow> CapabilityProfileConformanceReport" where
  "report_evaluate contract claim =
    (let claimed = btree_collect (map (\<lambda>operation. (co_id operation, operation)) (cl_operations claim));
         required = btree_collect (map (\<lambda>operation. (oc_id operation, operation)) (pc_required_operations contract))
     in \<lparr>cr_findings =
       (if pc_id contract \<noteq> cl_profile_id claim
        then [CapabilityProfileConformanceFinding_new ProfileIdMismatch (cl_profile_id claim)] else [])
       @ concat (map (operation_findings claimed) required)
       @ map (CapabilityProfileConformanceFinding_new UnexpectedOperation)
           (filter (\<lambda>k. map_of required k = None) (map fst claimed))\<rparr>)"

definition evaluate_profile_conformance :: "CapabilityProfileContract \<Rightarrow> CapabilityProfileClaim \<Rightarrow> CapabilityProfileConformanceReport" where
  "evaluate_profile_conformance contract claim = report_evaluate contract claim"

definition evaluate_against :: "CapabilityProfileClaim \<Rightarrow> CapabilityProfileContract \<Rightarrow> CapabilityProfileConformanceReport" where
  "evaluate_against claim contract = evaluate_profile_conformance contract claim"

definition is_conformant :: "CapabilityProfileConformanceReport \<Rightarrow> bool" where
  "is_conformant r = (cr_findings r = [])"

section \<open>Sorting and searching\<close>

lemma first_repeat_sorted: "sorted ks \<Longrightarrow> first_repeat ks = None \<longleftrightarrow> distinct ks"
  by (induction ks rule: first_repeat.induct) auto

text \<open>The halving search keeps the key it looks for inside its range.\<close>

lemma bisect_bound: "0 < len \<Longrightarrow> base \<le> bisect ks k base len \<and> bisect ks k base len < base + len"
proof (induction ks k base len rule: bisect.induct)
  case (1 ks k base len)
  show ?case
  proof (cases "len \<le> 1")
    case False
    then have "0 < len - len div 2" "len div 2 < len" by auto
    with False "1.IH" [OF False refl refl] show ?thesis
      by (subst (1 2) bisect.simps) (auto simp: Let_def split: if_splits)
  qed (use "1.prems" in \<open>simp add: bisect.simps\<close>)
qed

lemma bisect_finds:
  assumes "sorted ks" and "distinct ks"
  shows "k = ks ! i \<Longrightarrow> base + len \<le> length ks \<Longrightarrow> base \<le> i \<Longrightarrow> i < base + len \<Longrightarrow> bisect ks k base len = i"
  using assms
proof (induction ks k base len rule: bisect.induct)
  case (1 ks k base len)
  show ?case
  proof (cases "len \<le> 1")
    case True
    with "1.prems" show ?thesis by (simp add: bisect.simps)
  next
    case False
    let ?mid = "base + len div 2"
    have mid: "?mid < length ks" using False "1.prems" by linarith
    have strict: "sorted_wrt (<) ks" using "1.prems" by (simp add: strict_sorted_iff)
    have "k < ks ! ?mid \<longleftrightarrow> i < ?mid"
    proof
      assume "i < ?mid"
      then show "k < ks ! ?mid" using sorted_wrt_nth_less [OF strict] mid "1.prems"(1) by blast
    next
      assume "k < ks ! ?mid"
      then have "\<not> ks ! ?mid \<le> ks ! i" using "1.prems"(1) by simp
      then show "i < ?mid" using sorted_nth_mono [OF "1.prems"(5), of ?mid i] "1.prems" by fastforce
    qed
    with "1.prems" False "1.IH" [OF False refl refl] show ?thesis
      by (subst bisect.simps) (auto simp: Let_def)
  qed
qed

lemma binary_search_mem: "sorted ks \<Longrightarrow> distinct ks \<Longrightarrow> binary_search ks k \<longleftrightarrow> k \<in> set ks"
proof
  assume "binary_search ks k"
  then show "k \<in> set ks"
    using bisect_bound [of "length ks" 0 ks k] by (auto simp: binary_search_def in_set_conv_nth)
next
  assume ks: "sorted ks" "distinct ks" and "k \<in> set ks"
  then obtain i where "i < length ks" "k = ks ! i" by (auto simp: in_set_conv_nth)
  with bisect_finds [OF ks, of k i 0 "length ks"] show "binary_search ks k" by (auto simp: binary_search_def)
qed

section \<open>Sets of ports built by sorting\<close>

lemma map_key_insort: "map f (insort_key f x xs) = insort (f x) (map f xs)"
  by (induction xs) simp_all

lemma map_key_sort: "map f (sort_key f xs) = sort (map f xs)"
  by (induction xs) (simp_all add: map_key_insort)

lemma first_repeat_keys: "first_repeat (map f (sort_key f xs)) = None \<longleftrightarrow> distinct (map f xs)"
  by (simp add: map_key_sort first_repeat_sorted)

text \<open>With distinct keys the sorted list does not depend on the order of the input.\<close>

lemma sort_key_mset:
  assumes "mset xs = mset ys" and "distinct (map f xs)"
  shows "sort_key f xs = sort_key f ys"
proof -
  have "distinct (map f ys)" using assms by (metis mset_map mset_eq_imp_distinct_iff)
  with assms show ?thesis
    by (intro map_sorted_distinct_set_unique [of f]) (auto simp: distinct_map dest: mset_eq_setD)
qed

lemma checked_sort_mset:
  assumes "mset xs = mset ys"
  shows "(case first_repeat (map f (sort_key f xs)) of Some k \<Rightarrow> Err (e k) | None \<Rightarrow> Ok (g (sort_key f xs)))
    = (case first_repeat (map f (sort_key f ys)) of Some k \<Rightarrow> Err (e k) | None \<Rightarrow> Ok (g (sort_key f ys)))"
proof -
  have "map f (sort_key f xs) = map f (sort_key f ys)"
    unfolding map_key_sort using assms by (metis mset_map properties_for_sort mset_sort sorted_sort)
  then show ?thesis
    using sort_key_mset [OF assms, of f] first_repeat_keys [of f xs] by (auto split: option.splits)
qed

text \<open>
  What a catalog and a view promise: they are built from any list of distinct keys, whatever its order,
  and hold exactly those keys.
\<close>

locale port_set =
  fixes build :: "'a list \<Rightarrow> (HostApiError, 's) result"
    and holds :: "'s \<Rightarrow> HostPortId \<Rightarrow> bool"
    and key :: "'a \<Rightarrow> HostPortId"
  assumes build_ok: "is_ok (build xs) \<longleftrightarrow> distinct (map key xs)"
    and holds_build: "build xs = Ok s \<Longrightarrow> holds s k \<longleftrightarrow> k \<in> key ` set xs"
    and build_order: "mset xs = mset ys \<Longrightarrow> build xs = build ys"
begin

lemma holds_all: "build xs = Ok s \<Longrightarrow> list_all (holds s) ks \<longleftrightarrow> set ks \<subseteq> key ` set xs"
  by (auto simp: list_all_iff holds_build)

lemma rebuilt:
  assumes "mset xs = mset ys" and "build xs = Ok s"
  shows "build ys = Ok s \<and> (holds s k \<longleftrightarrow> k \<in> key ` set ys)"
  using build_order [OF assms(1)] assms(2) holds_build [of ys s k] by simp

end

interpretation catalog: port_set HostPortCatalog_new catalog_contains hpe_id
proof
  fix xs
  show "is_ok (HostPortCatalog_new xs) \<longleftrightarrow> distinct (map hpe_id xs)"
    using first_repeat_keys [of hpe_id xs] by (auto simp: HostPortCatalog_new_def split: option.splits)
next
  fix xs s k assume s: "HostPortCatalog_new xs = Ok s"
  then have "distinct (map hpe_id xs)" "s = \<lparr>hpc_entries = sort_key hpe_id xs\<rparr>"
    using first_repeat_keys [of hpe_id xs] by (auto simp: HostPortCatalog_new_def split: option.splits)
  then show "catalog_contains s k \<longleftrightarrow> k \<in> hpe_id ` set xs"
    by (simp add: catalog_contains_def map_key_sort binary_search_mem)
next
  fix xs ys :: "HostPortCatalogEntry list" assume "mset xs = mset ys"
  from checked_sort_mset [OF this] show "HostPortCatalog_new xs = HostPortCatalog_new ys"
    by (simp only: HostPortCatalog_new_def Let_def)
qed

interpretation view: port_set HostPortView_new view_allows hpg_id
proof
  fix xs
  show "is_ok (HostPortView_new xs) \<longleftrightarrow> distinct (map hpg_id xs)"
    using first_repeat_keys [of hpg_id xs] by (auto simp: HostPortView_new_def split: option.splits)
next
  fix xs s k assume s: "HostPortView_new xs = Ok s"
  then have "distinct (map hpg_id xs)" "s = \<lparr>hpv_grants = sort_key hpg_id xs\<rparr>"
    using first_repeat_keys [of hpg_id xs] by (auto simp: HostPortView_new_def split: option.splits)
  then show "view_allows s k \<longleftrightarrow> k \<in> hpg_id ` set xs"
    by (simp add: view_allows_def map_key_sort binary_search_mem)
next
  fix xs ys :: "HostPortGrant list" assume "mset xs = mset ys"
  from checked_sort_mset [OF this] show "HostPortView_new xs = HostPortView_new ys"
    by (simp only: HostPortView_new_def Let_def)
qed

lemma missing_from_set: "set (missing_from c seen ks) = {k \<in> set ks. \<not> catalog_contains c k} - seen \<and> distinct (missing_from c seen ks)"
  by (induction c seen ks rule: missing_from.induct) auto

text \<open>
  A catalog admits a list of required ports exactly when it was built with every one of them, and
  otherwise reports the unknown ones once each; a view lets an invocation use exactly the ports it was
  granted.
\<close>

theorem host_ports_exact:
  assumes c: "HostPortCatalog_new es = Ok c" and v: "HostPortView_new gs = Ok v"
  shows "(validate_required c required = Ok () \<longleftrightarrow> set required \<subseteq> hpe_id ` set es)
    \<and> set (missing_required c required) = set required - hpe_id ` set es \<and> distinct (missing_required c required)
    \<and> (view_allows_all v required \<longleftrightarrow> set required \<subseteq> hpg_id ` set gs)"
proof -
  have m: "set (missing_required c required) = set required - hpe_id ` set es \<and> distinct (missing_required c required)"
    using missing_from_set [of c "{}" required] catalog.holds_build [OF c] by (auto simp: missing_required_def)
  then have "missing_required c required = [] \<longleftrightarrow> set required \<subseteq> hpe_id ` set es" by (metis Diff_eq_empty_iff set_empty)
  with m show ?thesis
    by (auto simp: validate_required_def Let_def view_allows_all_def view.holds_all [OF v])
qed

section \<open>The grammar of dotted identifiers\<close>

definition dotted_segment :: "string \<Rightarrow> bool" where
  "dotted_segment seg = (seg \<noteq> [] \<and> Paths.is_ascii_lowercase (hd seg) \<and> list_all valid_segment_char seg)"

lemma validate_dotted_segments_Ok: "validate_dotted_segments kind value segs = Ok () \<longleftrightarrow> list_all dotted_segment segs"
  by (induction segs) (auto simp: dotted_segment_def list_all_iff list_ex_iff)

lemma not_valid_dot: "\<not> valid_segment_char (CHR ''.'')"
  by code_simp

lemma dotted_segment_no_dot: "dotted_segment seg \<Longrightarrow> CHR ''.'' \<notin> set seg"
  using not_valid_dot by (auto simp: dotted_segment_def list_all_iff)

lemma split_segments:
  "list_all dotted_segment segs \<Longrightarrow> segs \<noteq> [] \<Longrightarrow> split_on (CHR ''.'') (join_with ''.'' segs) = segs"
  by (rule split_on_join) (auto simp: list_all_iff dotted_segment_no_dot)

lemma validate_version_Ok:
  "validate_version kind value seg = Ok () \<longleftrightarrow> (\<exists>digits. seg = ''v'' @ digits \<and> digits \<noteq> [] \<and> list_all Paths.is_ascii_digit digits)"
  by (cases seg) (auto simp: validate_version_def strip_prefix_def list_all_iff list_ex_iff)

lemma validate_dotted_id_Ok:
  "validate_dotted_id kind value n why AnyPrefix version = Ok ()
   \<longleftrightarrow> value \<noteq> [] \<and> length value \<le> 128 \<and> n \<le> length (split_on (CHR ''.'') value)
     \<and> list_all dotted_segment (split_on (CHR ''.'') value)
     \<and> (version = Versioned \<longrightarrow> validate_version kind value (last (split_on (CHR ''.'') value)) = Ok ())"
  "validate_dotted_id kind value n why (RequiredPrefix p) version = Ok ()
   \<longleftrightarrow> prefix p value \<and> validate_dotted_id kind value n why AnyPrefix version = Ok ()"
  by (cases version; auto simp: validate_dotted_id_def validate_dotted_tail_def Let_def result_bind_eq_Inr
      validate_dotted_segments_Ok)+

lemma join_dotted_not_Nil: "list_all dotted_segment segs \<Longrightarrow> segs \<noteq> [] \<Longrightarrow> join_with ''.'' segs \<noteq> []"
  by (cases segs rule: remdups_adj.cases) (auto simp: dotted_segment_def)

text \<open>The identifiers the validator accepts are the joins of segments of the grammar.\<close>

lemma dotted_id_join:
  "s \<noteq> [] \<and> list_all dotted_segment (split_on (CHR ''.'') s) \<and> P (split_on (CHR ''.'') s)
   \<longleftrightarrow> (\<exists>segs. s = join_with ''.'' segs \<and> segs \<noteq> [] \<and> list_all dotted_segment segs \<and> P segs)"
  using split_segments join_dotted_not_Nil join_split_on [of "CHR ''.''" s] split_on_not_Nil by metis

lemma version_segment: "digits \<noteq> [] \<Longrightarrow> list_all Paths.is_ascii_digit digits \<Longrightarrow> dotted_segment (CHR ''v'' # digits)"
  by (auto simp: dotted_segment_def valid_segment_char_def list_all_iff Paths.is_ascii_lowercase_def)

lemma CapabilityProfileId_grammar:
  "CapabilityProfileId_new s = Ok t \<longleftrightarrow> t = s \<and> length s \<le> 128
     \<and> (\<exists>segs digits. s = join_with ''.'' (segs @ [''v'' @ digits]) \<and> 2 \<le> length segs \<and> list_all dotted_segment segs
          \<and> digits \<noteq> [] \<and> list_all Paths.is_ascii_digit digits)"
proof -
  let ?P = "\<lambda>segs. 3 \<le> length segs \<and> (\<exists>digits. last segs = ''v'' @ digits \<and> digits \<noteq> [] \<and> list_all Paths.is_ascii_digit digits)"
  have "CapabilityProfileId_new s = Ok t \<longleftrightarrow> t = s \<and> length s \<le> 128
      \<and> (\<exists>segs. s = join_with ''.'' segs \<and> segs \<noteq> [] \<and> list_all dotted_segment segs \<and> ?P segs)"
    unfolding dotted_id_join [symmetric]
    by (auto simp: CapabilityProfileId_new_def validate_versioned_dotted_id_def result_bind_eq_Inr
        validate_dotted_id_Ok validate_version_Ok)
  also have "(\<exists>segs. s = join_with ''.'' segs \<and> segs \<noteq> [] \<and> list_all dotted_segment segs \<and> ?P segs)
      \<longleftrightarrow> (\<exists>segs digits. s = join_with ''.'' (segs @ [''v'' @ digits]) \<and> 2 \<le> length segs \<and> list_all dotted_segment segs
          \<and> digits \<noteq> [] \<and> list_all Paths.is_ascii_digit digits)" (is "?L \<longleftrightarrow> ?R")
  proof
    assume ?L
    then obtain segs digits where h: "s = join_with ''.'' segs" "segs \<noteq> []" "list_all dotted_segment segs" "3 \<le> length segs"
      "last segs = ''v'' @ digits" "digits \<noteq> []" "list_all Paths.is_ascii_digit digits" by blast
    then have "segs = butlast segs @ [''v'' @ digits]" by (metis append_butlast_last_id)
    moreover have "2 \<le> length (butlast segs)" using h(4) by simp
    moreover have "list_all dotted_segment (butlast segs)" using h(3) by (auto simp: list_all_iff dest: in_set_butlastD)
    ultimately show ?R using h by metis
  next
    assume ?R
    then obtain segs digits where "s = join_with ''.'' (segs @ [''v'' @ digits])" "2 \<le> length segs" "list_all dotted_segment segs"
      "digits \<noteq> []" "list_all Paths.is_ascii_digit digits" by blast
    then show ?L by (intro exI [of _ "segs @ [''v'' @ digits]"]) (auto simp: version_segment)
  qed
  finally show ?thesis .
qed

lemma HostPortId_grammar:
  "HostPortId_new s = Ok t \<longleftrightarrow> t = s \<and> length s \<le> 128
     \<and> (\<exists>segs. s = join_with ''.'' (''host'' # segs) \<and> 2 \<le> length segs \<and> list_all dotted_segment segs)"
proof -
  have host: "dotted_segment ''host''" by code_simp
  let ?P = "\<lambda>segs. 3 \<le> length segs \<and> hd segs = ''host''"
  have pre: "prefix ''host.'' s \<longleftrightarrow> hd (split_on (CHR ''.'') s) = ''host''" if "3 \<le> length (split_on (CHR ''.'') s)"
  proof
    assume "prefix ''host.'' s"
    then obtain u where "s = ''host'' @ CHR ''.'' # u" by (auto simp: prefix_def)
    then have "split_on (CHR ''.'') s = ''host'' # split_on (CHR ''.'') u" using split_on_append_sep [of "CHR ''.''" "''host''" u] by simp
    then show "hd (split_on (CHR ''.'') s) = ''host''" by simp
  next
    assume "hd (split_on (CHR ''.'') s) = ''host''"
    with that obtain segs where "split_on (CHR ''.'') s = ''host'' # segs" "segs \<noteq> []"
      by (cases "split_on (CHR ''.'') s") fastforce+
    then show "prefix ''host.'' s" using join_split_on [of "CHR ''.''" s] by (auto simp: join_with_Cons prefix_def)
  qed
  have "HostPortId_new s = Ok t \<longleftrightarrow> t = s \<and> length s \<le> 128
      \<and> (\<exists>segs. s = join_with ''.'' segs \<and> segs \<noteq> [] \<and> list_all dotted_segment segs \<and> ?P segs)"
    unfolding dotted_id_join [symmetric] using pre
    by (auto simp: HostPortId_new_def validate_dotted_host_port_id_def result_bind_eq_Inr validate_dotted_id_Ok)
  also have "(\<exists>segs. s = join_with ''.'' segs \<and> segs \<noteq> [] \<and> list_all dotted_segment segs \<and> ?P segs)
      \<longleftrightarrow> (\<exists>segs. s = join_with ''.'' (''host'' # segs) \<and> 2 \<le> length segs \<and> list_all dotted_segment segs)" (is "?L \<longleftrightarrow> ?R")
  proof
    assume ?L
    then obtain segs where h: "s = join_with ''.'' segs" "list_all dotted_segment segs" "3 \<le> length segs" "hd segs = ''host''" by blast
    then have "segs = ''host'' # tl segs" by (cases segs) auto
    moreover have "2 \<le> length (tl segs)" "list_all dotted_segment (tl segs)" using h by (cases segs; simp)+
    ultimately show ?R using h(1) by metis
  next
    assume ?R
    then obtain segs where "s = join_with ''.'' (''host'' # segs)" "2 \<le> length segs" "list_all dotted_segment segs" by blast
    then show ?L using host by (intro exI [of _ "''host'' # segs"]) simp
  qed
  finally show ?thesis .
qed

section \<open>Conformance\<close>

lemma map_of_btree_insert: "map_of (btree_insert k v m) = (map_of m)(k \<mapsto> v)"
  by (induction m) (auto simp: fun_eq_iff)

lemma btree_insert_keys: "fst ` set (btree_insert k v m) = insert k (fst ` set m)"
proof (induction m)
  case (Cons p m)
  then show ?case by (cases p) (simp add: insert_commute)
qed simp

lemma btree_insert_sorted: "sorted_wrt (<) (map fst m) \<Longrightarrow> sorted_wrt (<) (map fst (btree_insert k v m))"
proof (induction m)
  case (Cons p m)
  have "\<forall>x \<in> fst ` set (btree_insert k v m). fst p < x" if "fst p < k"
    unfolding btree_insert_keys using Cons.prems that by auto
  with Cons show ?case by (cases p) fastforce
qed simp

lemma fold_btree:
  "sorted_wrt (<) (map fst m) \<Longrightarrow> sorted_wrt (<) (map fst (fold (\<lambda>(k, v). btree_insert k v) ps m))
     \<and> map_of (fold (\<lambda>(k, v). btree_insert k v) ps m) = map_of m ++ map_of (rev ps)"
  by (induction ps arbitrary: m) (auto simp: btree_insert_sorted map_of_btree_insert map_add_upd_left)

lemma btree_collect_set:
  assumes "distinct (map fst ps)"
  shows "distinct (map fst (btree_collect ps))" and "set (btree_collect ps) = set ps" and "map_of (btree_collect ps) = map_of ps"
proof -
  have d: "distinct (map fst (rev ps))" using assms by (simp only: rev_map [symmetric] distinct_rev)
  have f: "sorted_wrt (<) (map fst (btree_collect ps))" "map_of (btree_collect ps) = map_of (rev ps)"
    using fold_btree [of "[]" ps] by (simp_all add: btree_collect_def)
  show k: "distinct (map fst (btree_collect ps))" using f(1) by (simp add: strict_sorted_iff)
  have "p \<in> set (btree_collect ps) \<longleftrightarrow> p \<in> set ps" for p
    using map_of_eq_Some_iff [OF k, of "fst p" "snd p"] map_of_eq_Some_iff [OF d, of "fst p" "snd p"] f(2) by simp
  then show s: "set (btree_collect ps) = set ps" by blast
  show "map_of (btree_collect ps) = map_of ps" using map_of_inject_set [OF k assms] s by simp
qed

lemma claimed_twice_None: "claimed_twice seen ops = None \<longleftrightarrow> distinct (map co_id ops) \<and> seen \<inter> co_id ` set ops = {}"
  by (induction seen ops rule: claimed_twice.induct) auto

lemma contract_new_Ok:
  "CapabilityProfileContract_new k ops = Ok c \<longleftrightarrow>
     ops \<noteq> [] \<and> distinct (map oc_id ops) \<and> c = \<lparr>pc_id = k, pc_required_operations = sort_key oc_id ops\<rparr>"
  using first_repeat_keys [of oc_id ops] by (auto simp: CapabilityProfileContract_new_def Let_def split: option.splits)

lemma contract_new_order:
  "mset xs = mset ys \<Longrightarrow> CapabilityProfileContract_new k xs = CapabilityProfileContract_new k ys"
  using checked_sort_mset [where f = oc_id and xs = xs and ys = ys]
  by (auto simp: CapabilityProfileContract_new_def Let_def cong: if_cong split del: option.splits)

lemma claim_new_Ok:
  "CapabilityProfileClaim_new cap k ops = Ok c \<longleftrightarrow>
     distinct (map co_id ops) \<and> c = \<lparr>cl_capability_id = cap, cl_profile_id = k, cl_operations = ops\<rparr>"
  using claimed_twice_None [of "{}" ops] by (auto simp: CapabilityProfileClaim_new_def split: option.splits)

text \<open>The findings a claim should be given, over the operations the contract and the claim were made from.\<close>

definition expected_finding ::
  "CapabilityProfileId \<Rightarrow> CapabilityProfileId \<Rightarrow> CapabilityProfileOperationContract list \<Rightarrow> CapabilityProfileClaimedOperation list
     \<Rightarrow> CapabilityProfileConformanceFindingKind \<Rightarrow> string \<Rightarrow> bool" where
  "expected_finding pid cpid ops cops kind subject =
    (case kind of
       ProfileIdMismatch \<Rightarrow> pid \<noteq> cpid \<and> subject = cpid
     | MissingRequiredOperation \<Rightarrow> subject \<in> oc_id ` set ops - co_id ` set cops
     | UnexpectedOperation \<Rightarrow> subject \<in> co_id ` set cops - oc_id ` set ops
     | InputSchemaRefMismatch \<Rightarrow> \<exists>r \<in> set ops. oc_id r = subject
         \<and> (\<exists>c \<in> set cops. co_id c = subject \<and> oc_input_schema_ref r \<noteq> co_input_schema_ref c)
     | OutputSchemaRefMismatch \<Rightarrow> \<exists>r \<in> set ops. oc_id r = subject
         \<and> (\<exists>c \<in> set cops. co_id c = subject \<and> oc_output_schema_ref r \<noteq> co_output_schema_ref c))"

lemma finding_new_iff:
  "\<lparr>cf_kind = kind, cf_subject = subject\<rparr> \<in> CapabilityProfileConformanceFinding_new l ` A \<longleftrightarrow> kind = l \<and> subject \<in> A"
  by (auto simp: CapabilityProfileConformanceFinding_new_def)

lemma operation_findings_iff:
  "\<lparr>cf_kind = kind, cf_subject = subject\<rparr> \<in> set (operation_findings claimed (k, r)) \<longleftrightarrow>
     k = subject \<and> (case map_of claimed subject of
       None \<Rightarrow> kind = MissingRequiredOperation
     | Some c \<Rightarrow> kind = InputSchemaRefMismatch \<and> oc_input_schema_ref r \<noteq> co_input_schema_ref c
         \<or> kind = OutputSchemaRefMismatch \<and> oc_output_schema_ref r \<noteq> co_output_schema_ref c)"
  by (auto simp: operation_findings_def CapabilityProfileConformanceFinding_new_def split: option.splits)

lemma findings_iff:
  assumes "CapabilityProfileContract_new pid ops = Ok contract" and "CapabilityProfileClaim_new cap cpid cops = Ok claim"
  shows "\<lparr>cf_kind = kind, cf_subject = subject\<rparr> \<in> set (cr_findings (evaluate_against claim contract))
    \<longleftrightarrow> expected_finding pid cpid ops cops kind subject"
proof -
  let ?R = "map (\<lambda>r. (oc_id r, r)) (sort_key oc_id ops)" and ?C = "map (\<lambda>c. (co_id c, c)) cops"
  have made: "contract = \<lparr>pc_id = pid, pc_required_operations = sort_key oc_id ops\<rparr>"
    "claim = \<lparr>cl_capability_id = cap, cl_profile_id = cpid, cl_operations = cops\<rparr>"
    and d: "distinct (map fst ?R)" "distinct (map fst ?C)"
    using assms by (simp_all add: contract_new_Ok claim_new_Ok comp_def distinct_map)
  note R = btree_collect_set [OF d(1)] and C = btree_collect_set [OF d(2)]
  have look: "map_of ?C k = Some c \<longleftrightarrow> c \<in> set cops \<and> co_id c = k" for k c
    using map_of_eq_Some_iff [OF d(2)] by auto
  have none: "map_of ?C k = None \<longleftrightarrow> k \<notin> co_id ` set cops" "map_of ?R k = None \<longleftrightarrow> k \<notin> oc_id ` set ops" for k
    by (simp_all add: map_of_eq_None_iff image_image)
  have "\<lparr>cf_kind = kind, cf_subject = subject\<rparr> \<in> set (cr_findings (evaluate_against claim contract)) \<longleftrightarrow>
      kind = ProfileIdMismatch \<and> pid \<noteq> cpid \<and> subject = cpid
      \<or> (\<exists>r \<in> set ops. \<lparr>cf_kind = kind, cf_subject = subject\<rparr> \<in> set (operation_findings (btree_collect ?C) (oc_id r, r)))
      \<or> kind = UnexpectedOperation \<and> subject \<in> co_id ` set cops - oc_id ` set ops"
    by (simp add: evaluate_against_def evaluate_profile_conformance_def report_evaluate_def Let_def made R C none
        finding_new_iff image_image) (auto simp: CapabilityProfileConformanceFinding_new_def)
  also have "\<dots> \<longleftrightarrow> expected_finding pid cpid ops cops kind subject"
  proof (cases "map_of ?C subject")
    case None
    with none(1) [of subject] have "\<forall>c \<in> set cops. co_id c \<noteq> subject" by blast
    with None show ?thesis
      unfolding operation_findings_iff C(3) expected_finding_def by (cases kind) (auto simp: None)
  next
    case (Some c)
    then have c: "c \<in> set cops" "co_id c = subject" by (simp_all add: look)
    have "c' = c" if "c' \<in> set cops" "co_id c' = subject" for c' using Some that look [of subject c'] by simp
    with c have one: "(\<exists>c' \<in> set cops. co_id c' = subject \<and> P c') \<longleftrightarrow> P c" for P by blast
    have "subject \<in> co_id ` set cops" using c by blast
    then show ?thesis
      unfolding operation_findings_iff C(3) expected_finding_def one by (cases kind) (auto simp: Some)
  qed
  finally show ?thesis .
qed

text \<open>An operation seen from either side: its identifier and its two schemas.\<close>

definition required_signature :: "CapabilityProfileOperationContract \<Rightarrow> string \<times> string \<times> string" where
  "required_signature r = (oc_id r, oc_input_schema_ref r, oc_output_schema_ref r)"

definition claimed_signature :: "CapabilityProfileClaimedOperation \<Rightarrow> string \<times> string \<times> string" where
  "claimed_signature c = (co_id c, co_input_schema_ref c, co_output_schema_ref c)"

lemma no_expected_finding:
  assumes "distinct (map oc_id ops)" and "distinct (map co_id cops)"
  shows "(\<forall>kind subject. \<not> expected_finding pid cpid ops cops kind subject)
    \<longleftrightarrow> pid = cpid \<and> required_signature ` set ops = claimed_signature ` set cops" (is "?L \<longleftrightarrow> ?R")
proof
  assume L: ?L
  have ids: "oc_id ` set ops = co_id ` set cops" "pid = cpid"
    using L [rule_format, of MissingRequiredOperation] L [rule_format, of UnexpectedOperation] L [rule_format, of ProfileIdMismatch cpid]
    by (auto simp: expected_finding_def)
  have same: "required_signature r = claimed_signature c" if "r \<in> set ops" "c \<in> set cops" "oc_id r = co_id c" for r c
    using that L [rule_format, of InputSchemaRefMismatch "co_id c"] L [rule_format, of OutputSchemaRefMismatch "co_id c"]
    by (auto simp: expected_finding_def required_signature_def claimed_signature_def)
  have "required_signature r \<in> claimed_signature ` set cops" if r: "r \<in> set ops" for r
  proof -
    obtain c where c: "c \<in> set cops" "oc_id r = co_id c" using r ids(1) by blast
    show ?thesis using same [OF r c] c(1) by simp
  qed
  moreover have "claimed_signature c \<in> required_signature ` set ops" if c: "c \<in> set cops" for c
  proof -
    have "co_id c \<in> oc_id ` set ops" using c ids(1) by blast
    then obtain r where r: "r \<in> set ops" "oc_id r = co_id c" by auto
    show ?thesis using same [OF r(1) c r(2)] r(1) by (metis imageI)
  qed
  ultimately show ?R using ids(2) by blast
next
  assume R: ?R
  then have "fst ` required_signature ` set ops = fst ` claimed_signature ` set cops" by metis
  then have "oc_id ` set ops = co_id ` set cops"
    by (simp only: image_image required_signature_def claimed_signature_def fst_conv)
  moreover have "required_signature r = claimed_signature c" if r: "r \<in> set ops" "c \<in> set cops" "oc_id r = co_id c" for r c
  proof -
    have "required_signature r \<in> claimed_signature ` set cops" using conjunct2 [OF R] imageI [OF r(1)] by metis
    then obtain d where d: "d \<in> set cops" "required_signature r = claimed_signature d" by (rule imageE)
    then have "co_id d = co_id c" using r(3) by (simp add: required_signature_def claimed_signature_def)
    then have "d = c" using assms(2) d(1) r(2) by (simp only: distinct_map inj_on_def)
    then show ?thesis using d(2) by simp
  qed
  ultimately show ?L using R
    by (auto simp: expected_finding_def required_signature_def claimed_signature_def split: CapabilityProfileConformanceFindingKind.splits)
qed

section \<open>Properties\<close>

text \<open>
  C35: the conformance report is exact. For a contract and a claim made by their constructors, the
  report lists a finding exactly when it is due (the profile differs; a required operation is not
  claimed; a claimed one is not required; a schema differs), so that the claim conforms exactly when it
  names the contract's profile and claims its operations, each with its two schemas. The contract does
  not depend on the order in which its operations were given.
\<close>

theorem conformance_exact:
  assumes "CapabilityProfileContract_new pid ops = Ok contract" and "CapabilityProfileClaim_new cap cpid cops = Ok claim"
  shows "(\<lparr>cf_kind = kind, cf_subject = subject\<rparr> \<in> set (cr_findings (evaluate_against claim contract))
        \<longleftrightarrow> expected_finding pid cpid ops cops kind subject)
    \<and> (is_conformant (evaluate_against claim contract)
        \<longleftrightarrow> pid = cpid \<and> required_signature ` set ops = claimed_signature ` set cops)
    \<and> (mset ops' = mset ops \<longrightarrow> CapabilityProfileContract_new pid ops' = Ok contract)"
proof -
  have "is_conformant (evaluate_against claim contract) \<longleftrightarrow> (\<forall>kind subject. \<not> expected_finding pid cpid ops cops kind subject)"
    unfolding findings_iff [OF assms, symmetric] is_conformant_def
    by (metis CapabilityProfileConformanceFinding.cases list.set_intros(1) neq_Nil_conv empty_iff list.set(1))
  moreover have "distinct (map oc_id ops)" "distinct (map co_id cops)"
    using assms by (simp_all add: contract_new_Ok claim_new_Ok)
  moreover note contract_new_order [of ops' ops pid] findings_iff [OF assms, of kind subject]
  ultimately show ?thesis using assms(1) by (simp add: no_expected_finding)
qed

definition retrieval_operation :: CapabilityProfileOperationContract where
  "retrieval_operation = \<lparr>oc_id = ''memory.retrieve.v1'', oc_input_schema_ref = ''in.json'', oc_output_schema_ref = ''out.json''\<rparr>"

definition retrieval_contract :: CapabilityProfileContract where
  "retrieval_contract = \<lparr>pc_id = ''memory.context_retrieval.v1'', pc_required_operations = [retrieval_operation]\<rparr>"

definition retrieval_claim :: "string \<Rightarrow> CapabilityProfileClaim" where
  "retrieval_claim output_ref = \<lparr>cl_capability_id = ''notes.retrieve'', cl_profile_id = ''memory.context_retrieval.v1'',
     cl_operations = [\<lparr>co_id = ''memory.retrieve.v1'', co_input_schema_ref = ''in.json'', co_output_schema_ref = output_ref\<rparr>]\<rparr>"

theorem conformance_exact_witness:
  "is_conformant (evaluate_against (retrieval_claim ''out.json'') retrieval_contract)
   \<and> \<not> is_conformant (evaluate_against (retrieval_claim ''other.json'') retrieval_contract)"
proof -
  have contract: "CapabilityProfileContract_new ''memory.context_retrieval.v1'' [retrieval_operation] = Ok retrieval_contract"
    by (simp add: contract_new_Ok retrieval_contract_def)
  have claim: "CapabilityProfileClaim_new ''notes.retrieve'' ''memory.context_retrieval.v1'' (cl_operations (retrieval_claim out))
      = Ok (retrieval_claim out)" for out by (simp add: claim_new_Ok retrieval_claim_def)
  show ?thesis
    using conformance_exact [OF contract claim [of "''out.json''"]] conformance_exact [OF contract claim [of "''other.json''"]]
    by (simp add: retrieval_claim_def retrieval_operation_def required_signature_def claimed_signature_def)
qed

end
