(* ===== verification/Spec2Isabelle.thy ===== *)
theory Spec2Isabelle
  imports Resource_Ledger Resource_Gate Resource_Governor Trust Leases Authorization
    Filesystem_Laws Cas_Update Run_State_Laws Approvals Runtime_Policy Network_Laws Event_Laws Process_Laws
    Capability_Outcomes Dispatcher Fingerprints Host_Contracts
begin

text \<open>
  A verification of the authority kernel of IronClaw: the host services under \<open>src/crates\<close> that
  decide what an agent's code may do, how much it may spend, and where its records are kept.

  \<^bold>\<open>The program and its parts.\<close> A tool call arrives as an execution context with a scope (tenant,
  user, agent, project, mission, thread, invocation), grants and mounts. The trust policy
  (\<open>ironclaw_trust\<close>) assigns the providing package an authority ceiling. The authorizer
  (\<open>ironclaw_authorization\<close>) looks for a grant, or an active lease, that covers the capability,
  checks it against the ceiling, and answers with obligations. A call that needs consent becomes
  an approval request (\<open>ironclaw_run_state\<close>); the approval resolver (\<open>ironclaw_approvals\<close>) turns an
  approved one into a lease bound to the fingerprint of the invocation, which is claimed,
  dispatched and consumed. The runtime policy (\<open>ironclaw_runtime_policy\<close>) fixes which backends a
  deployment may use, and outgoing requests pass the network policy (\<open>ironclaw_network\<close>). The
  capability host (\<open>ironclaw_capabilities\<close>) drives these steps for each call, and the dispatcher
  (\<open>ironclaw_dispatcher\<close>) finds the provider in the extension registry (\<open>ironclaw_extensions\<close>) and runs it. The resource governor
  (\<open>ironclaw_resources\<close>) admits the call against the budgets of every account above it and settles its cost. Records live behind a scoped
  filesystem (\<open>ironclaw_filesystem\<close>), which resolves mount aliases, checks permissions and offers
  compare-and-swap; the stores update their records by the loop of \<open>cas.rs\<close>.

  \<^bold>\<open>Theories.\<close>
  \<^item> \<open>Prelude\<close>, \<open>Strings\<close>, \<open>Byte_Text\<close>, \<open>F64\<close>: results, options, hash maps as association lists, saturating machine
    arithmetic, the operations of \<open>str\<close>, and comparison of finite floating-point numbers.
  \<^item> \<open>Paths\<close>: \<open>host_api/ids.rs\<close>, \<open>path.rs\<close>, \<open>mount.rs\<close>. Identifier and path validators, virtual and scoped
    paths, mount views; resolution stays under the target of the selected mount.
  \<^item> \<open>Host_Api\<close>: the records of \<open>host_api\<close> (\<open>resource.rs\<close>, \<open>capability.rs\<close>, \<open>scope.rs\<close>, \<open>decision.rs\<close>,
    \<open>action.rs\<close>, \<open>approval.rs\<close>) and the scope owner key under which every store files its records.
  \<^item> \<open>Resources\<close>, \<open>Resource_Laws\<close>, \<open>Resource_Ledger\<close>: \<open>resources/lib.rs\<close>, \<open>period.rs\<close>. The governor's
    shared state and its operations \<open>set_limit\<close>, \<open>reserve\<close>, \<open>reconcile\<close>, \<open>release\<close>; the ledger
    equations, admission, and what holds along any sequence of operations.
  \<^item> \<open>Resource_Gate\<close>: \<open>gate.rs\<close>, \<open>event.rs\<close>. \<open>Resource_Governor\<close>: the in-memory governor and the
    persistent one over a file, with the unlimited fast path.
  \<^item> \<open>Trust\<close>: \<open>trust/*.rs\<close>, with the transactional mutation of policy sources.
  \<^item> \<open>Leases\<close>, \<open>Authorization\<close>: \<open>authorization/lib.rs\<close>. The lease life cycle, the interface
    \<open>lease_store\<close> and both stores; grant matching, ceilings, obligations, and the authorizers.
  \<^item> \<open>Filesystem\<close>, \<open>Filesystem_Laws\<close>: \<open>in_memory.rs\<close>, \<open>scoped.rs\<close>, \<open>types.rs\<close>, \<open>record.rs\<close>. The backend with
    versions, event logs and sequences, the scoped operations; confinement, deletion, listing, logs.
  \<^item> \<open>Cas_Update\<close>: \<open>cas.rs\<close>. The loop under interference and a deadline; the interface \<open>cas_file\<close>,
    interpreted on the scoped filesystem, gives atomicity.
  \<^item> \<open>Run_State\<close>, \<open>Run_State_Laws\<close>: \<open>run_state/lib.rs\<close>. Both pairs of stores, the record paths, the interface
    \<open>approval_store\<close>, settlement once, and atomic settlement on the filesystem.
  \<^item> \<open>Audit_Envelope\<close>, \<open>Approvals\<close>: \<open>host_api/audit.rs\<close>, \<open>approvals/lib.rs\<close>. The resolver's handlers and a step relation in
    which any number of them interleave.
  \<^item> \<open>Runtime_Policy\<close>: \<open>host_api/runtime_policy.rs\<close>, \<open>runtime_policy/resolver.rs\<close>. The resolver of deployment
    mode, requested profile and organisation ceiling; it only narrows.
  \<^item> \<open>Network\<close>, \<open>Network_Laws\<close>: \<open>network/*.rs\<close>. Literal addresses, target patterns, the static policy, the
    policy-enforcing egress and the pinned transport; no connection reaches a private address.
  \<^item> \<open>Events\<close>, \<open>Event_Laws\<close>: \<open>events/*.rs\<close>. Runtime events and their redaction guards, the durable event and
    audit logs; replay by cursor, as the interface \<open>durable_log\<close>, returns every record or reports a gap.
  \<^item> \<open>Tasks\<close>: asynchronous functions as trees of atomic accesses to a shared world, systems of tasks that
    interleave, and the rules for them: a bound on accesses, rely and guarantee, ownership, credits that bound
    what a system of tasks may spend, and triples for a task that runs alone.
  \<^item> \<open>Processes\<close>, \<open>Process_Laws\<close>: \<open>processes/*.rs\<close>. The stores, decorators, background manager and host as
    tasks; reservations follow processes, terminal records are final, results come before the status
    that announces them, every call ends, and the two races a kill can lose. The interfaces
    \<open>balanced_store\<close> and \<open>lifecycle_store\<close> are what the services need of a process store.
  \<^item> \<open>Dispatch_Port\<close>, \<open>Capability_Types\<close>, \<open>Capability_Host\<close>: \<open>host_api/dispatch.rs\<close>, \<open>capabilities/*.rs\<close>. The
    vocabulary of dispatch and the capability host, whose workflows (invoke, spawn, resume, resume after
    authentication, resume of a spawn) tie trust, authorization, approvals, leases, run state and obligations together.
    Every store and port is a record of tasks; the authorizer, dispatcher and obligation handler are arguments.
  \<^item> \<open>Capability_Memory\<close>, \<open>Capability_Laws\<close>, \<open>Capability_Outcomes\<close>: the host over the in-memory stores of \<open>Run_State\<close> and
    \<open>Leases\<close>, with a journal of what its ports answered. Under any interleaving of calls nothing runs that was
    not authorized and prepared first (interface \<open>mediated_host\<close>), and one lease of an approval runs one resumed
    call, counted by the credits of \<open>Tasks\<close>; a call alone leaves its run record and its lease in the state its
    answer says; and the interleaving in which two resumes after authentication share one lease.
  \<^item> \<open>Extensions\<close>, \<open>Extension_Laws\<close>: \<open>extensions/lib.rs\<close>, \<open>registry.rs\<close>, \<open>lifecycle.rs\<close>. Packages, the registry with its index of
    capabilities, its shared handle, the lifecycle service and discovery. The index is exact after any changes
    and no change panics; a failed lifecycle call changes nothing; discovery reads no more than its bound.
  \<^item> \<open>Fingerprints\<close>: \<open>host_api/approval.rs\<close>. Canonical JSON and the fingerprint that binds an approval to one
    invocation; equal fingerprints mean the same invocation, up to a collision of the digest.
  \<^item> \<open>Host_Contracts\<close>: \<open>host_api/dotted_id.rs\<close>, \<open>host_port.rs\<close>, \<open>capability_profile.rs\<close>, \<open>capabilities/conformance.rs\<close>. The
    grammar of dotted identifiers, catalogs and views of host ports (the interface \<open>port_set\<close>), profile
    contracts and the conformance report of a claim, which lists exactly the findings that are due.
  \<^item> \<open>Dispatcher\<close>: \<open>dispatcher/lib.rs\<close>. From the registry to the runtime adapter; the prepared reservation is handed
    over or released, once, and what a well formed registry lists is served.

  \<^bold>\<open>How code becomes definitions.\<close> Structures are records, enumerations datatypes, \<open>u32\<close> and \<open>u64\<close>
  words whose saturation is written out. A fallible function returns \<open>result\<close>; a method that
  changes state takes the state and returns it. A mutex makes a method one step. Where a method
  waits, what other tasks do meanwhile is an argument: functions between the read and the write of
  each attempt in \<open>Cas_Update\<close> and \<open>Leases\<close>, lists of store calls in \<open>Approvals\<close>; in \<open>Processes\<close> and \<open>Capability_Host\<close> a
  method is a task of \<open>Tasks\<close>, which meets a world of its own at each access. Fresh identifiers and
  the clock are arguments. Decimal arithmetic (\<open>rust_decimal\<close>), calendars (\<open>chrono\<close>), serialization
  (\<open>serde_json\<close>), SHA-256 (\<open>sha2\<close>), the rendering of identifiers (\<open>uuid\<close>), the mount resolver, URL parsing (\<open>url\<close>), name
  resolution and the HTTP client (\<open>reqwest\<close>) are parameters, with what is relied on stated as hypotheses.

  \<^bold>\<open>Bounds.\<close> Loops with a retry budget run it out: 32 attempts in \<open>cas.rs\<close>
  (\<open>FILESYSTEM_CAS_RETRIES\<close>), 3 for leases (\<open>CAS_RETRY_ATTEMPTS\<close>); exhausting it is a result of the
  model, and the theorems say when that happens. The polling loops of the process host take the
  number of rounds as an argument, and still polling is a result. No other fuel is used: every
  definition is total.

  \<^bold>\<open>Not modelled.\<close> The journal of the filesystem governor, the SQL and host-directory backends, the
  lease index file, persistent approval policies, the process stores on the filesystem, the TOML
  parser of extension manifests and their installations, the runtime adapters, the agent loop, product surfaces and the version 1
  application. They are I/O, wiring, or stores over the same contracts. Latency tracing, lock
  poisoning and memory limits are left out of the modelled parts.
\<close>

end
